(* ===== verification/Go_Prelude.thy ===== *)
theory Go_Prelude
  imports Main "HOL-Library.Char_ord" "HOL-Library.List_Lexorder"
begin

text \<open>
  Shared ground of the development: the parts of the Go language and of its \<open>strings\<close>,
  \<open>strconv\<close> and \<open>encoding/hex\<close> packages that the modelled code uses, the representation of
  error returns, and the theorem collections the component theories feed.

  A Go string is a byte sequence; here it is a \<^typ>\<open>string\<close>, whose characters are exactly
  the 256 bytes. Indexing, slicing, comparison (byte-wise lexicographic, \<open>List_Lexorder\<close>
  over \<open>Char_ord\<close>) and \<open>len\<close> are therefore those of lists. A loop \<open>for _, c := range s\<close>
  visits runes; every such loop of the modelled code only compares the rune with ASCII
  bounds, and a multi-byte rune consists of bytes above 127, so testing the bytes decides
  the same condition.
\<close>

named_theorems check_simps \<open>what the success of a validation says\<close>
named_theorems bytes_simps \<open>evaluation of byte and string helpers\<close>


section \<open>Error returns\<close>

text \<open>
  A Go function that only returns \<open>error\<close> becomes a function into \<open>'e option\<close>: \<open>None\<close> is
  \<open>nil\<close>. A sequence of early returns is the list of its checks in source order.
\<close>

definition fail_if :: "bool \<Rightarrow> 'e \<Rightarrow> 'e option" where
  "fail_if b e = (if b then Some e else None)"

fun first_error :: "'e option list \<Rightarrow> 'e option" where
  "first_error [] = None"
| "first_error (None # es) = first_error es"
| "first_error (Some e # es) = Some e"

lemma first_error_None_iff [simp, check_simps]:
  "first_error es = None \<longleftrightarrow> (\<forall>e\<in>set es. e = None)"
  by (induction es rule: first_error.induct) auto

lemma fail_if_None_iff [simp, check_simps]: "fail_if b e = None \<longleftrightarrow> \<not> b"
  by (simp add: fail_if_def)

lemma fail_if_simps [simp]: "fail_if True e = Some e" "fail_if False e = None"
  by (simp_all add: fail_if_def)

lemma first_error_Some_mem: "first_error es = Some e \<Longrightarrow> Some e \<in> set es"
  by (induction es rule: first_error.induct) auto

text \<open>A function that returns a value or an error: \<open>Inl\<close> carries the error.\<close>

definition guard_result :: "'e option \<Rightarrow> 'a \<Rightarrow> 'e + 'a" where
  "guard_result e x = (case e of None \<Rightarrow> Inr x | Some err \<Rightarrow> Inl err)"

lemma guard_result_Inr [simp, check_simps]: "guard_result e x = Inr y \<longleftrightarrow> e = None \<and> y = x"
  by (auto simp: guard_result_def split: option.splits)

lemma guard_result_None [simp]: "guard_result None x = Inr x"
  by (simp add: guard_result_def)

lemma guard_result_Inl [simp]: "guard_result e x = Inl err \<longleftrightarrow> e = Some err"
  by (auto simp: guard_result_def split: option.splits)


section \<open>Integer widths\<close>

definition MaxInt64 :: int where "MaxInt64 = 2 ^ 63 - 1"

definition in_int64 :: "int \<Rightarrow> bool" where
  "in_int64 n \<longleftrightarrow> - (2 ^ 63) \<le> n \<and> n \<le> MaxInt64"


section \<open>Bytes and strings\<close>

definition byte :: "char \<Rightarrow> nat" where "byte c = of_char c"

lemma byte_Char [bytes_simps]: "byte (char_of n) = n mod 256"
  by (simp add: byte_def)

lemma byte_less [simp]: "byte c < 256"
  using nat_of_char_less_256 [of c] by (simp add: byte_def)

definition to_lower_byte :: "char \<Rightarrow> char" where
  "to_lower_byte c = (if 65 \<le> byte c \<and> byte c \<le> 90 then char_of (byte c + 32) else c)"

text \<open>
  \<open>strings.ToLower\<close> on ASCII text. Every caller rejects a string with a byte above 127,
  whatever case folding gives for it.
\<close>

definition to_lower :: "string \<Rightarrow> string" where
  "to_lower s = map to_lower_byte s"

definition has_prefix :: "string \<Rightarrow> string \<Rightarrow> bool" where
  "has_prefix s p \<longleftrightarrow> take (length p) s = p"

definition contains_any :: "string \<Rightarrow> string \<Rightarrow> bool" where
  "contains_any s cs \<longleftrightarrow> (\<exists>c\<in>set s. c \<in> set cs)"

text \<open>\<open>strings.Split\<close> with a one-byte separator, and \<open>strings.Join\<close>.\<close>

fun split_on :: "char \<Rightarrow> string \<Rightarrow> string list" where
  "split_on c [] = [[]]"
| "split_on c (x # xs) =
     (if x = c then [] # split_on c xs
      else (case split_on c xs of [] \<Rightarrow> [[x]] | p # ps \<Rightarrow> (x # p) # ps))"

fun join_with :: "string \<Rightarrow> string list \<Rightarrow> string" where
  "join_with sep [] = []"
| "join_with sep [p] = p"
| "join_with sep (p # q # ps) = p @ sep @ join_with sep (q # ps)"

lemma split_on_ne [simp]: "split_on c s \<noteq> []"
  by (induction s) (auto split: list.splits)

lemma join_split_on: "join_with [c] (split_on c s) = s"
proof (induction s)
  case Nil
  then show ?case by simp
next
  case (Cons x xs)
  obtain p ps where eq: "split_on c xs = p # ps"
    by (cases "split_on c xs") auto
  with Cons show ?case by (cases ps) auto
qed

lemma split_on_no_sep: "p \<in> set (split_on c s) \<Longrightarrow> c \<notin> set p"
  by (induction s arbitrary: p) (auto split: list.splits if_splits)

text \<open>
  \<open>strings.TrimSpace\<close>: the white space runes of Unicode, as the UTF-8 byte sequences a
  trim removes at either end.
\<close>

definition space_runes :: "string list" where
  "space_runes = map (map char_of)
     [[9], [10], [11], [12], [13], [32], [194, 133], [194, 160], [225, 154, 128],
      [226, 128, 128], [226, 128, 129], [226, 128, 130], [226, 128, 131], [226, 128, 132],
      [226, 128, 133], [226, 128, 134], [226, 128, 135], [226, 128, 136], [226, 128, 137],
      [226, 128, 138], [226, 128, 168], [226, 128, 169], [226, 128, 175], [226, 129, 159],
      [227, 128, 128 :: nat]]"

function strip_runes :: "string list \<Rightarrow> string \<Rightarrow> string" where
  "strip_runes rs s =
     (case find (\<lambda>r. r \<noteq> [] \<and> has_prefix s r) rs of
        None \<Rightarrow> s
      | Some r \<Rightarrow> strip_runes rs (drop (length r) s))"
  by pat_completeness auto
termination
proof (relation "measure (\<lambda>(rs, s). length s)")
  fix rs :: "string list" and s r
  assume "find (\<lambda>r. r \<noteq> [] \<and> has_prefix s r) rs = Some r"
  then have r: "r \<noteq> []" "has_prefix s r" by (auto simp: find_Some_iff)
  then have "s \<noteq> []" by (auto simp: has_prefix_def)
  with r(1) show "((rs, drop (length r) s), rs, s) \<in> measure (\<lambda>(rs, s). length s)" by simp
qed simp

declare strip_runes.simps [simp del]

definition trim_space :: "string \<Rightarrow> string" where
  "trim_space s =
     rev (strip_runes (map rev space_runes) (rev (strip_runes space_runes s)))"

abbreviation blank :: "string \<Rightarrow> bool" where
  "blank s \<equiv> trim_space s = []"

lemma strip_runes_Nil [simp]: "strip_runes rs [] = []"
proof -
  have "find (\<lambda>r. r \<noteq> [] \<and> has_prefix [] r) rs = None"
    by (auto simp: find_None_iff has_prefix_def)
  then show ?thesis by (simp add: strip_runes.simps)
qed

lemma trim_space_Nil [simp]: "trim_space [] = []"
  by (simp add: trim_space_def)

text \<open>A string that starts and ends outside white space is left alone by the trim.\<close>

lemma strip_runes_hd:
  assumes "\<And>r. r \<in> set rs \<Longrightarrow> r = [] \<or> hd r \<noteq> c"
  shows "strip_runes rs (c # s) = c # s"
proof -
  have "\<not> has_prefix (c # s) r" if "r \<in> set rs" "r \<noteq> []" for r
    using assms [OF that(1)] that(2) by (cases r) (auto simp: has_prefix_def)
  then have "find (\<lambda>r. r \<noteq> [] \<and> has_prefix (c # s) r) rs = None"
    by (auto simp: find_None_iff)
  then show ?thesis by (simp add: strip_runes.simps)
qed

definition printable_byte :: "char \<Rightarrow> bool" where
  "printable_byte c \<longleftrightarrow> 33 \<le> byte c \<and> byte c \<le> 126"

lemma strip_printable_front:
  assumes "printable_byte c" shows "strip_runes space_runes (c # s) = c # s"
proof (rule strip_runes_hd)
  fix r assume "r \<in> set space_runes"
  then show "r = [] \<or> hd r \<noteq> c"
    using assms by (auto simp: space_runes_def printable_byte_def byte_def)
qed

lemma strip_printable_back:
  assumes "printable_byte c" shows "strip_runes (map rev space_runes) (c # s) = c # s"
proof (rule strip_runes_hd)
  fix r assume "r \<in> set (map rev space_runes)"
  then show "r = [] \<or> hd r \<noteq> c"
    using assms by (auto simp: space_runes_def printable_byte_def byte_def)
qed

lemma trim_space_printable_ends:
  assumes "printable_byte c" "printable_byte (last (c # s))"
  shows "trim_space (c # s) = c # s"
proof -
  obtain d t where "rev (c # s) = d # t" "d = last (c # s)"
    by (metis list.exhaust rev.simps(2) snoc_eq_iff_butlast rev_is_Nil_conv last_rev hd_rev
        list.sel(1))
  then have "strip_runes (map rev space_runes) (rev (c # s)) = rev (c # s)"
    using strip_printable_back assms(2) by metis
  then show ?thesis using strip_printable_front [OF assms(1)] by (simp add: trim_space_def)
qed

lemma not_blank_printable:
  "printable_byte c \<Longrightarrow> printable_byte (last (c # s)) \<Longrightarrow> \<not> blank (c # s)"
  by (simp add: trim_space_printable_ends)


section \<open>Decimal and hexadecimal text\<close>

fun nat_digits :: "nat \<Rightarrow> string" where
  "nat_digits n =
     (if n < 10 then [char_of (48 + n)]
      else nat_digits (n div 10) @ [char_of (48 + n mod 10)])"

declare nat_digits.simps [simp del]

text \<open>\<open>strconv.FormatInt(n, 10)\<close>\<close>

definition format_int :: "int \<Rightarrow> string" where
  "format_int n = (if n < 0 then CHR ''-'' # nat_digits (nat (- n)) else nat_digits (nat n))"

definition hex_digit :: "nat \<Rightarrow> char" where
  "hex_digit n = (if n < 10 then char_of (48 + n) else char_of (87 + n))"

text \<open>\<open>hex.EncodeToString\<close>\<close>

definition hex_encode :: "nat list \<Rightarrow> string" where
  "hex_encode bs = concat (map (\<lambda>b. [hex_digit (b div 16), hex_digit (b mod 16)]) bs)"

lemma length_hex_encode [simp]: "length (hex_encode bs) = 2 * length bs"
  by (induction bs) (auto simp: hex_encode_def)

end
