(* ===== verification/Go_Json.thy ===== *)
theory Go_Json
  imports Go_Prelude
begin

text \<open>
  The parts of \<open>encoding/json\<close> the modelled code uses: the encoder with its escaping rules
  (\<open>json.Marshal\<close>, and \<open>json.Encoder\<close> with HTML escaping switched off), the effect of
  decoding an encoded string, the compaction of a \<open>json.RawMessage\<close>, and the byte automaton
  behind \<open>json.Valid\<close>.
\<close>

section \<open>UTF-8\<close>

definition cont_byte :: "char \<Rightarrow> bool" where
  "cont_byte c \<longleftrightarrow> 128 \<le> byte c \<and> byte c \<le> 191"

text \<open>The number of bytes of the well-formed rune a string starts with, 0 if there is none.\<close>

fun utf8_rune_len :: "string \<Rightarrow> nat" where
  "utf8_rune_len [] = 0"
| "utf8_rune_len [a] = (if byte a < 128 then 1 else 0)"
| "utf8_rune_len [a, b] =
     (if byte a < 128 then 1 else if 194 \<le> byte a \<and> byte a \<le> 223 \<and> cont_byte b then 2 else 0)"
| "utf8_rune_len (a # b # c # rest) =
     (if byte a < 128 then 1
      else if 194 \<le> byte a \<and> byte a \<le> 223 \<and> cont_byte b then 2
      else if 224 \<le> byte a \<and> byte a \<le> 239 \<and> cont_byte b \<and> cont_byte c
        \<and> (byte a = 224 \<longrightarrow> 160 \<le> byte b) \<and> (byte a = 237 \<longrightarrow> byte b \<le> 159) then 3
      else case rest of
        d # _ \<Rightarrow>
          if 240 \<le> byte a \<and> byte a \<le> 244 \<and> cont_byte b \<and> cont_byte c \<and> cont_byte d
            \<and> (byte a = 240 \<longrightarrow> 144 \<le> byte b) \<and> (byte a = 244 \<longrightarrow> byte b \<le> 143) then 4 else 0
      | [] \<Rightarrow> 0)"

abbreviation replacement_rune :: string where
  "replacement_rune \<equiv> map char_of [239, 191, 189 :: nat]"

text \<open>What a string becomes when it is encoded and decoded: invalid bytes are replaced.\<close>

function utf8_coerce :: "string \<Rightarrow> string" where
  "utf8_coerce [] = []"
| "utf8_coerce (c # cs) =
     (let n = utf8_rune_len (c # cs) in
      if n = 0 then replacement_rune @ utf8_coerce cs
      else take n (c # cs) @ utf8_coerce (drop (n - 1) cs))"
  by pat_completeness auto
termination
  by (relation "measure length") auto

definition ascii_string :: "string \<Rightarrow> bool" where
  "ascii_string s \<longleftrightarrow> list_all (\<lambda>c. byte c < 128) s"

lemma utf8_rune_len_ascii: "byte c < 128 \<Longrightarrow> utf8_rune_len (c # cs) = 1"
  by (cases cs; cases "tl cs") auto

lemma utf8_coerce_ascii: "ascii_string s \<Longrightarrow> utf8_coerce s = s"
  by (induction s) (auto simp: ascii_string_def utf8_rune_len_ascii Let_def)


section \<open>The encoder\<close>

datatype json =
    JNull
  | JBool bool
  | JInt int
  | JString string
  | JRaw string
  | JArray "json list"
  | JObject "(string \<times> json) list"

definition unicode_escape :: "nat \<Rightarrow> string" where
  "unicode_escape n = [CHR 0x5C] @ ''u'' @ hex_encode [n div 256, n mod 256]"

text \<open>One ASCII byte inside a JSON string; \<open>html\<close> also escapes angle brackets and ampersand.\<close>

definition json_escape_byte :: "bool \<Rightarrow> char \<Rightarrow> string" where
  "json_escape_byte html c =
     (if c = CHR 0x22 \<or> c = CHR 0x5C then [CHR 0x5C, c]
      else if byte c = 8 then [CHR 0x5C] @ ''b''
      else if byte c = 12 then [CHR 0x5C] @ ''f''
      else if byte c = 10 then [CHR 0x5C] @ ''n''
      else if byte c = 13 then [CHR 0x5C] @ ''r''
      else if byte c = 9 then [CHR 0x5C] @ ''t''
      else if byte c < 32 \<or> html \<and> (c = CHR ''<'' \<or> c = CHR ''>'' \<or> c = CHR ''&'')
        then unicode_escape (byte c)
      else [c])"

definition line_separator :: string where
  "line_separator = map char_of [226, 128, 168 :: nat]"

definition paragraph_separator :: string where
  "paragraph_separator = map char_of [226, 128, 169 :: nat]"

function json_chars :: "bool \<Rightarrow> string \<Rightarrow> string" where
  "json_chars html [] = []"
| "json_chars html (c # cs) =
     (if byte c < 128 then json_escape_byte html c @ json_chars html cs
      else
        let n = utf8_rune_len (c # cs); r = take n (c # cs) in
        if n = 0 then unicode_escape 65533 @ json_chars html cs
        else (if r = line_separator then unicode_escape 8232
              else if r = paragraph_separator then unicode_escape 8233 else r)
             @ json_chars html (drop (n - 1) cs))"
  by pat_completeness auto
termination
  by (relation "measure (\<lambda>(html, s). length s)") auto

definition json_space :: "char \<Rightarrow> bool" where
  "json_space c \<longleftrightarrow> byte c = 32 \<or> byte c = 9 \<or> byte c = 10 \<or> byte c = 13"

datatype raw_mode = Outside | Inside | Escaped

text \<open>The compaction of a raw message: spaces between tokens go, HTML characters are escaped.\<close>

fun json_compact :: "bool \<Rightarrow> raw_mode \<Rightarrow> string \<Rightarrow> string" where
  "json_compact html m [] = []"
| "json_compact html Outside (c # cs) =
     (if json_space c then json_compact html Outside cs
      else c # json_compact html (if c = CHR 0x22 then Inside else Outside) cs)"
| "json_compact html Escaped (c # cs) = c # json_compact html Inside cs"
| "json_compact html Inside (c # cs) =
     (if c = CHR 0x22 then c # json_compact html Outside cs
      else if c = CHR 0x5C then c # json_compact html Escaped cs
      else if html \<and> (c = CHR ''<'' \<or> c = CHR ''>'' \<or> c = CHR ''&'')
        then unicode_escape (byte c) @ json_compact html Inside cs
      else if html \<and> take 3 (c # cs) = line_separator
        then unicode_escape 8232 @ json_compact html Inside (drop 2 cs)
      else if html \<and> take 3 (c # cs) = paragraph_separator
        then unicode_escape 8233 @ json_compact html Inside (drop 2 cs)
      else c # json_compact html Inside cs)"

definition json_quote :: "bool \<Rightarrow> string \<Rightarrow> string" where
  "json_quote html s = [CHR 0x22] @ json_chars html s @ [CHR 0x22]"

fun json_render :: "bool \<Rightarrow> json \<Rightarrow> string" where
  "json_render html JNull = ''null''"
| "json_render html (JBool b) = (if b then ''true'' else ''false'')"
| "json_render html (JInt n) = format_int n"
| "json_render html (JString s) = json_quote html s"
| "json_render html (JRaw s) = json_compact html Outside s"
| "json_render html (JArray vs) = ''['' @ join_with '','' (map (json_render html) vs) @ '']''"
| "json_render html (JObject fs) =
     ''{'' @ join_with '','' (map (\<lambda>(k, v). json_quote html k @ '':'' @ json_render html v) fs) @ ''}''"

abbreviation json_marshal :: "json \<Rightarrow> string" where
  "json_marshal \<equiv> json_render True"

text \<open>Struct fields with \<open>omitempty\<close> appear only when they are present.\<close>

definition omit_if :: "bool \<Rightarrow> string \<Rightarrow> json \<Rightarrow> (string \<times> json) list" where
  "omit_if absent k v = (if absent then [] else [(k, v)])"


section \<open>json.Valid\<close>

datatype scan_state =
    BeginValueOrEmpty | BeginValue | BeginStringOrEmpty | BeginString | EndValue | EndTop
  | InString | InStringEsc | InStringEscU nat | ScanNeg | ScanNum1 | ScanNum0 | ScanDot | ScanDot0
  | ScanE | ScanESign | ScanE0 | ScanLiteral string

datatype parse_state = ParseObjectKey | ParseObjectValue | ParseArrayValue

type_synonym scanner = "scan_state \<times> parse_state list"

definition max_nesting_depth :: nat where "max_nesting_depth = 10000"

definition push_parse :: "scan_state \<Rightarrow> parse_state \<Rightarrow> parse_state list \<Rightarrow> scanner option" where
  "push_parse st p ps = (if length (p # ps) \<le> max_nesting_depth then Some (st, p # ps) else None)"

definition pop_parse :: "parse_state list \<Rightarrow> scanner option" where
  "pop_parse ps = Some (if tl ps = [] then EndTop else EndValue, tl ps)"

definition digit_1_9 :: "char \<Rightarrow> bool" where
  "digit_1_9 c \<longleftrightarrow> 49 \<le> byte c \<and> byte c \<le> 57"

definition digit_0_9 :: "char \<Rightarrow> bool" where
  "digit_0_9 c \<longleftrightarrow> 48 \<le> byte c \<and> byte c \<le> 57"

definition scan_begin_value :: "parse_state list \<Rightarrow> char \<Rightarrow> scanner option" where
  "scan_begin_value ps c =
     (if json_space c then Some (BeginValue, ps)
      else if c = CHR ''{'' then push_parse BeginStringOrEmpty ParseObjectKey ps
      else if c = CHR ''['' then push_parse BeginValueOrEmpty ParseArrayValue ps
      else if c = CHR 0x22 then Some (InString, ps)
      else if c = CHR ''-'' then Some (ScanNeg, ps)
      else if c = CHR ''0'' then Some (ScanNum0, ps)
      else if c = CHR ''t'' then Some (ScanLiteral ''rue'', ps)
      else if c = CHR ''f'' then Some (ScanLiteral ''alse'', ps)
      else if c = CHR ''n'' then Some (ScanLiteral ''ull'', ps)
      else if digit_1_9 c then Some (ScanNum1, ps)
      else None)"

definition scan_end_value :: "parse_state list \<Rightarrow> char \<Rightarrow> scanner option" where
  "scan_end_value ps c =
     (case ps of
        [] \<Rightarrow> if json_space c then Some (EndTop, []) else None
      | p # rest \<Rightarrow>
          if json_space c then Some (EndValue, ps)
          else case p of
            ParseObjectKey \<Rightarrow> if c = CHR '':'' then Some (BeginValue, ParseObjectValue # rest) else None
          | ParseObjectValue \<Rightarrow>
              if c = CHR '','' then Some (BeginString, ParseObjectKey # rest)
              else if c = CHR ''}'' then pop_parse ps else None
          | ParseArrayValue \<Rightarrow>
              if c = CHR '','' then Some (BeginValue, ps)
              else if c = CHR '']'' then pop_parse ps else None)"

definition scan_begin_string :: "parse_state list \<Rightarrow> char \<Rightarrow> scanner option" where
  "scan_begin_string ps c =
     (if json_space c then Some (BeginString, ps)
      else if c = CHR 0x22 then Some (InString, ps) else None)"

definition scan_num0 :: "parse_state list \<Rightarrow> char \<Rightarrow> scanner option" where
  "scan_num0 ps c =
     (if c = CHR ''.'' then Some (ScanDot, ps)
      else if c = CHR ''e'' \<or> c = CHR ''E'' then Some (ScanE, ps)
      else scan_end_value ps c)"

fun scan_step :: "scanner \<Rightarrow> char \<Rightarrow> scanner option" where
  "scan_step (BeginValue, ps) c = scan_begin_value ps c"
| "scan_step (BeginValueOrEmpty, ps) c =
     (if json_space c then Some (BeginValueOrEmpty, ps)
      else if c = CHR '']'' then scan_end_value ps c else scan_begin_value ps c)"
| "scan_step (BeginStringOrEmpty, ps) c =
     (if json_space c then Some (BeginStringOrEmpty, ps)
      else if c = CHR ''}'' then scan_end_value (ParseObjectValue # tl ps) c
      else scan_begin_string ps c)"
| "scan_step (BeginString, ps) c = scan_begin_string ps c"
| "scan_step (EndValue, ps) c = scan_end_value ps c"
| "scan_step (EndTop, ps) c = (if json_space c then Some (EndTop, ps) else None)"
| "scan_step (InString, ps) c =
     (if c = CHR 0x22 then Some (EndValue, ps)
      else if c = CHR 0x5C then Some (InStringEsc, ps)
      else if byte c < 32 then None else Some (InString, ps))"
| "scan_step (InStringEsc, ps) c =
     (if c \<in> set (''bfnrt/'' @ [CHR 0x5C, CHR 0x22]) then Some (InString, ps)
      else if c = CHR ''u'' then Some (InStringEscU 4, ps) else None)"
| "scan_step (InStringEscU n, ps) c =
     (if digit_0_9 c \<or> 97 \<le> byte c \<and> byte c \<le> 102 \<or> 65 \<le> byte c \<and> byte c \<le> 70
      then Some (if n \<le> 1 then InString else InStringEscU (n - 1), ps) else None)"
| "scan_step (ScanNeg, ps) c =
     (if c = CHR ''0'' then Some (ScanNum0, ps)
      else if digit_1_9 c then Some (ScanNum1, ps) else None)"
| "scan_step (ScanNum1, ps) c = (if digit_0_9 c then Some (ScanNum1, ps) else scan_num0 ps c)"
| "scan_step (ScanNum0, ps) c = scan_num0 ps c"
| "scan_step (ScanDot, ps) c = (if digit_0_9 c then Some (ScanDot0, ps) else None)"
| "scan_step (ScanDot0, ps) c =
     (if digit_0_9 c then Some (ScanDot0, ps)
      else if c = CHR ''e'' \<or> c = CHR ''E'' then Some (ScanE, ps) else scan_end_value ps c)"
| "scan_step (ScanE, ps) c =
     (if c = CHR ''+'' \<or> c = CHR ''-'' then Some (ScanESign, ps)
      else if digit_0_9 c then Some (ScanE0, ps) else None)"
| "scan_step (ScanESign, ps) c = (if digit_0_9 c then Some (ScanE0, ps) else None)"
| "scan_step (ScanE0, ps) c = (if digit_0_9 c then Some (ScanE0, ps) else scan_end_value ps c)"
| "scan_step (ScanLiteral [], ps) c = scan_end_value ps c"
| "scan_step (ScanLiteral (x # xs), ps) c =
     (if c = x then Some (if xs = [] then EndValue else ScanLiteral xs, ps) else None)"

fun scan_all :: "scanner \<Rightarrow> string \<Rightarrow> scanner option" where
  "scan_all s [] = Some s"
| "scan_all s (c # cs) = (case scan_step s c of None \<Rightarrow> None | Some s' \<Rightarrow> scan_all s' cs)"

text \<open>The end of input counts as a space, which completes a number at top level.\<close>

definition json_valid :: "string \<Rightarrow> bool" where
  "json_valid s =
     (case scan_all (BeginValue, []) (s @ '' '') of
        Some (EndTop, _) \<Rightarrow> True
      | _ \<Rightarrow> False)"

lemma json_valid_empty_object: "json_valid ''{}''"
  by code_simp

text \<open>A valid text starts, after JSON spaces, with a printable byte.\<close>

lemma scan_begin_printable:
  "scan_begin_value ps c = Some s \<Longrightarrow> \<not> json_space c \<Longrightarrow> printable_byte c"
  by (auto simp: scan_begin_value_def digit_1_9_def printable_byte_def byte_def split: if_splits)

lemma scan_all_start:
  assumes "scan_all (BeginValue, []) s = Some (EndTop, ps)"
  shows "\<exists>ws c rest. s = ws @ c # rest \<and> (\<forall>w\<in>set ws. json_space w) \<and> printable_byte c \<and> \<not> json_space c"
  using assms
proof (induction s)
  case (Cons x xs)
  show ?case
  proof (cases "json_space x")
    case True
    then have "scan_all (BeginValue, []) xs = Some (EndTop, ps)"
      using Cons.prems by (simp add: scan_begin_value_def)
    then obtain ws c rest where "xs = ws @ c # rest" "\<forall>w\<in>set ws. json_space w" "printable_byte c"
      "\<not> json_space c"
      using Cons.IH by blast
    then show ?thesis using True by (intro exI [of _ "x # ws"]) auto
  next
    case False
    then have "printable_byte x"
      using Cons.prems scan_begin_printable by (fastforce split: option.splits)
    then show ?thesis using False by (intro exI [of _ "[]"]) auto
  qed
qed simp

lemma space_rune_unprintable: "r \<in> set space_runes \<Longrightarrow> c \<in> set r \<Longrightarrow> \<not> printable_byte c"
  by (auto simp: space_runes_def printable_byte_def byte_def)

lemma strip_keeps_printable:
  assumes rs: "\<And>r c. r \<in> set rs \<Longrightarrow> c \<in> set r \<Longrightarrow> \<not> printable_byte c"
    and c: "c \<in> set s" "printable_byte c"
  shows "c \<in> set (strip_runes rs s)"
  using c(1)
proof (induction "length s" arbitrary: s rule: less_induct)
  case less
  show ?case
  proof (cases "find (\<lambda>r. r \<noteq> [] \<and> has_prefix s r) rs")
    case None
    then show ?thesis using less.prems by (simp add: strip_runes.simps [of rs s])
  next
    case (Some r)
    then have r: "r \<in> set rs" "r \<noteq> []" "s = r @ drop (length r) s"
      by (auto simp: find_Some_iff has_prefix_def dest: nth_mem) (metis append_take_drop_id)
    have "c \<notin> set r" using rs [OF r(1)] c(2) by blast
    then have "c \<in> set (drop (length r) s)"
      using less.prems r(3) by (metis UnE set_append)
    moreover have "length (drop (length r) s) < length s"
      using r(2,3) by (metis length_append length_greater_0_conv less_add_same_cancel2)
    ultimately show ?thesis
      using less.hyps Some by (simp add: strip_runes.simps [of rs s])
  qed
qed

text \<open>So the first byte of the trimmed text exists: indexing it does not panic.\<close>

lemma json_valid_not_blank:
  assumes "json_valid s" shows "trim_space s \<noteq> []"
proof -
  obtain ps where "scan_all (BeginValue, []) (s @ '' '') = Some (EndTop, ps)"
    using assms by (auto simp: json_valid_def split: option.splits prod.splits scan_state.splits)
  from scan_all_start [OF this] obtain ws c rest
    where s: "s @ '' '' = ws @ c # rest" and c: "printable_byte c" "\<not> json_space c" by blast
  have "c \<in> set (s @ '' '')" unfolding s by simp
  moreover have "c \<noteq> CHR '' ''" using c(2) by (auto simp: json_space_def byte_def)
  ultimately have cs: "c \<in> set s" by simp
  have "c \<in> set (strip_runes space_runes s)"
    by (rule strip_keeps_printable [OF _ cs c(1)]) (rule space_rune_unprintable)
  then have "c \<in> set (rev (strip_runes space_runes s))" by simp
  then have "c \<in> set (strip_runes (map rev space_runes) (rev (strip_runes space_runes s)))"
    by (rule strip_keeps_printable [rotated]) (use space_rune_unprintable c(1) in auto)
  then show ?thesis unfolding trim_space_def by (metis empty_iff list.set(1) rev_is_Nil_conv)
qed

end
