(* ===== verification/Go_Time.thy ===== *)
theory Go_Time
  imports Go_Prelude "HOL-Library.Monad_Syntax"
begin

text \<open>
  The parts of Go's \<open>time\<close> package the modelled code uses: instants with a zone, comparison,
  saturating subtraction, the civil calendar behind \<open>Time.Year\<close>, and the RFC 3339 layouts of
  \<open>Time.Format\<close> and \<open>time.Parse\<close>. A duration is a number of nanoseconds.
\<close>

section \<open>Instants\<close>

record gotime =
  unix_ns :: int   \<comment> \<open>nanoseconds since 1970-01-01T00:00:00Z\<close>
  zone_min :: int  \<comment> \<open>offset of the zone from UTC, in minutes\<close>

abbreviation second_ns :: int where "second_ns \<equiv> 1000000000"
abbreviation minute_ns :: int where "minute_ns \<equiv> 60 * second_ns"
abbreviation hour_ns :: int where "hour_ns \<equiv> 3600 * second_ns"
abbreviation day_ns :: int where "day_ns \<equiv> 86400 * second_ns"

definition zero_time :: gotime where
  "zero_time = \<lparr>unix_ns = - 62135596800 * second_ns, zone_min = 0\<rparr>"

definition is_zero :: "gotime \<Rightarrow> bool" where
  "is_zero t \<longleftrightarrow> unix_ns t = unix_ns zero_time"

definition before :: "gotime \<Rightarrow> gotime \<Rightarrow> bool" where
  "before a b \<longleftrightarrow> unix_ns a < unix_ns b"

definition after :: "gotime \<Rightarrow> gotime \<Rightarrow> bool" where
  "after a b \<longleftrightarrow> unix_ns b < unix_ns a"

definition add_time :: "gotime \<Rightarrow> int \<Rightarrow> gotime" where
  "add_time t d = t\<lparr>unix_ns := unix_ns t + d\<rparr>"

text \<open>\<open>Time.Sub\<close> saturates at the ends of the 64-bit duration range.\<close>

definition sub_time :: "gotime \<Rightarrow> gotime \<Rightarrow> int" where
  "sub_time a b = max (- (2 ^ 63)) (min MaxInt64 (unix_ns a - unix_ns b))"

definition utc :: "gotime \<Rightarrow> gotime" where
  "utc t = t\<lparr>zone_min := 0\<rparr>"

lemma before_irrefl [simp]: "\<not> before t t"
  by (simp add: before_def)

lemma before_trans: "before a b \<Longrightarrow> before b c \<Longrightarrow> before a c"
  by (simp add: before_def)

lemma not_before_trans: "\<not> before b a \<Longrightarrow> \<not> before c b \<Longrightarrow> \<not> before c a"
  by (simp add: before_def)

lemma after_iff_before: "after a b \<longleftrightarrow> before b a"
  by (simp add: after_def before_def)


section \<open>The civil calendar\<close>

text \<open>Days are counted from 0001-01-01; day 719162 is 1970-01-01.\<close>

definition days_before_year :: "int \<Rightarrow> int" where
  "days_before_year y = 365 * (y - 1) + (y - 1) div 4 - (y - 1) div 100 + (y - 1) div 400"

definition year_of_day :: "int \<Rightarrow> int" where
  "year_of_day n =
     (let y = (400 * n) div 146097 + 1 in
      if n < days_before_year y then y - 1
      else if days_before_year (y + 1) \<le> n then y + 1 else y)"

lemma days_before_year_bounds:
  "400 * days_before_year y \<ge> 146097 * y - 146894"
  "400 * days_before_year y \<le> 146097 * y - 145700"
proof -
  obtain p a where a: "(y - 1) div 4 = p" "4 * p = y - 1 - a" "0 \<le> a" "a \<le> 3"
    by (rule that [of _ "(y - 1) mod 4"]) (auto simp: minus_mod_eq_mult_div)
  obtain q b where b: "(y - 1) div 100 = q" "100 * q = y - 1 - b" "0 \<le> b" "b \<le> 99"
    by (rule that [of _ "(y - 1) mod 100"]) (auto simp: minus_mod_eq_mult_div)
  obtain r c where c: "(y - 1) div 400 = r" "400 * r = y - 1 - c" "0 \<le> c" "c \<le> 399"
    by (rule that [of _ "(y - 1) mod 400"]) (auto simp: minus_mod_eq_mult_div)
  have "days_before_year y = 365 * y - 365 + p - q + r"
    by (simp add: days_before_year_def a b c)
  then show "400 * days_before_year y \<ge> 146097 * y - 146894"
    and "400 * days_before_year y \<le> 146097 * y - 145700"
    using a(2-) b(2-) c(2-) by linarith+
qed

text \<open>\<^const>\<open>year_of_day\<close> is the year whose days include the given one.\<close>

lemma year_of_day_bounds:
  "days_before_year (year_of_day n) \<le> n" "n < days_before_year (year_of_day n + 1)"
proof -
  define y where "y = (400 * n) div 146097 + 1"
  have div: "146097 * y - 146097 \<le> 400 * n" "400 * n < 146097 * y"
    unfolding y_def by (simp_all add: algebra_simps)
  have lo: "days_before_year (y - 1) \<le> n"
    using days_before_year_bounds(2) [of "y - 1"] div(1) by (simp add: right_diff_distrib)
  have hi: "n < days_before_year (y + 2)"
    using days_before_year_bounds(1) [of "y + 2"] div(2) by (simp add: distrib_left)
  have yd: "year_of_day n = (if n < days_before_year y then y - 1
      else if days_before_year (y + 1) \<le> n then y + 1 else y)"
    by (simp add: year_of_day_def y_def Let_def)
  show "days_before_year (year_of_day n) \<le> n" using lo by (simp add: yd)
  show "n < days_before_year (year_of_day n + 1)" using hi by (simp add: yd add.commute)
qed

lemma days_before_year_mono: "y \<le> z \<Longrightarrow> days_before_year y \<le> days_before_year z"
proof (induction "nat (z - y)" arbitrary: z)
  case 0
  then show ?case by simp
next
  case (Suc k)
  have "days_before_year (z - 1) \<le> days_before_year z"
    using days_before_year_bounds(2) [of "z - 1"] days_before_year_bounds(1) [of z]
    by (simp add: algebra_simps)
  moreover have "days_before_year y \<le> days_before_year (z - 1)"
    using Suc(2,3) by (intro Suc(1)) auto
  ultimately show ?case by linarith
qed

lemma year_of_day_ge_iff: "y \<le> year_of_day n \<longleftrightarrow> days_before_year y \<le> n"
proof
  assume "y \<le> year_of_day n"
  then show "days_before_year y \<le> n"
    using days_before_year_mono year_of_day_bounds(1) order.trans by blast
next
  assume "days_before_year y \<le> n"
  show "y \<le> year_of_day n"
  proof (rule ccontr)
    assume "\<not> y \<le> year_of_day n"
    then have "days_before_year (year_of_day n + 1) \<le> days_before_year y"
      by (intro days_before_year_mono) simp
    then show False using \<open>days_before_year y \<le> n\<close> year_of_day_bounds(2) [of n] by linarith
  qed
qed

definition local_ns :: "gotime \<Rightarrow> int" where
  "local_ns t = unix_ns t + zone_min t * minute_ns"

definition local_day :: "gotime \<Rightarrow> int" where
  "local_day t = local_ns t div day_ns + 719162"

text \<open>\<open>Time.Year\<close>\<close>

definition year :: "gotime \<Rightarrow> int" where
  "year t = year_of_day (local_day t)"

definition leap_year :: "int \<Rightarrow> bool" where
  "leap_year y \<longleftrightarrow> y mod 4 = 0 \<and> (y mod 100 \<noteq> 0 \<or> y mod 400 = 0)"

definition month_start :: "bool \<Rightarrow> int \<Rightarrow> int" where
  "month_start leap m =
     [0, 31, 59, 90, 120, 151, 181, 212, 243, 273, 304, 334, 365] ! nat (m - 1)
       + (if leap \<and> m > 2 then 1 else 0)"

definition days_in_month :: "int \<Rightarrow> int \<Rightarrow> int" where
  "days_in_month y m = month_start (leap_year y) (m + 1) - month_start (leap_year y) m"

fun month_from :: "bool \<Rightarrow> int \<Rightarrow> int list \<Rightarrow> int" where
  "month_from leap doy [] = 12"
| "month_from leap doy (m # ms) =
     (if doy < month_start leap (m + 1) then m else month_from leap doy ms)"

definition month_of :: "bool \<Rightarrow> int \<Rightarrow> int" where
  "month_of leap doy = month_from leap doy [1, 2, 3, 4, 5, 6, 7, 8, 9, 10, 11, 12]"

definition day_of_civil :: "int \<Rightarrow> int \<Rightarrow> int \<Rightarrow> int" where
  "day_of_civil y m d = days_before_year y + month_start (leap_year y) m + (d - 1)"

lemma div_step: "0 < k \<Longrightarrow> (y + 1) div k - y div k = (if (y + 1) mod k = 0 then 1 else 0)" for y k :: int
proof -
  assume k: "0 < k"
  have e: "y = k * (y div k) + y mod k" by simp
  have m: "0 \<le> y mod k" "y mod k < k" using k by auto
  show ?thesis
  proof (cases "y mod k = k - 1")
    case True
    then have "y + 1 = k * (y div k + 1) + 0" using e unfolding distrib_left by linarith
    then have "(y + 1) div k = y div k + 1" "(y + 1) mod k = 0"
      using k int_div_pos_eq int_mod_pos_eq by blast+
    then show ?thesis by simp
  next
    case False
    then have lt: "0 \<le> y mod k + 1" "y mod k + 1 < k" "y mod k + 1 \<noteq> 0" using m by auto
    have "y + 1 = k * (y div k) + (y mod k + 1)" using e by linarith
    then have "(y + 1) div k = y div k" "(y + 1) mod k = y mod k + 1"
      using lt int_div_pos_eq int_mod_pos_eq by blast+
    then show ?thesis using lt(3) by simp
  qed
qed

lemma div_step_pred: "0 < k \<Longrightarrow> y div k = (y - 1) div k + of_bool (y mod k = 0)" for y k :: int
  using div_step [of k "y - 1"] by (simp only: diff_add_cancel) (cases "y mod k = 0"; simp)

lemma year_length:
  "days_before_year (y + 1) - days_before_year y = (if leap_year y then 366 else 365)"
proof -
  have d: "y mod 400 = 0 \<Longrightarrow> y mod 100 = 0" "y mod 100 = 0 \<Longrightarrow> y mod 4 = 0"
    using dvd_trans [of 100 400 y] dvd_trans [of 4 100 y] by (simp_all add: mod_eq_0_iff_dvd)
  have "days_before_year (y + 1)
      = 365 * y + y div 4 - y div 100 + y div 400"
    by (simp add: days_before_year_def)
  also have "\<dots> = 365 * y + ((y - 1) div 4 + of_bool (y mod 4 = 0))
      - ((y - 1) div 100 + of_bool (y mod 100 = 0)) + ((y - 1) div 400 + of_bool (y mod 400 = 0))"
    by (simp only: div_step_pred [of 4 y] div_step_pred [of 100 y] div_step_pred [of 400 y]
        zero_less_numeral)
  also have "\<dots> = days_before_year y + 365
      + of_bool (y mod 4 = 0) - of_bool (y mod 100 = 0) + of_bool (y mod 400 = 0)"
    by (simp only: days_before_year_def right_diff_distrib)
  finally have "days_before_year (y + 1) - days_before_year y
      = 365 + of_bool (y mod 4 = 0) - of_bool (y mod 100 = 0) + of_bool (y mod 400 = 0)"
    by linarith
  then show ?thesis unfolding leap_year_def
    using d by (cases "y mod 4 = 0"; cases "y mod 100 = 0"; cases "y mod 400 = 0") simp_all
qed

text \<open>The civil date of a day of the year: its month and its day within that month.\<close>

lemma month_from_spec:
  assumes "month_start leap k \<le> doy" "doy < month_start leap 13" "1 \<le> k" "k \<le> 12"
  shows "let m = month_from leap doy [k..12] in
    1 \<le> m \<and> m \<le> 12 \<and> month_start leap m \<le> doy \<and> doy < month_start leap (m + 1)"
  using assms
proof (induction "nat (12 - k)" arbitrary: k)
  case 0
  then have "k = 12" by simp
  with 0 show ?case by (simp add: Let_def)
next
  case (Suc n)
  then have k: "[k..12] = k # [k + 1..12]" "k + 1 \<le> 12" by (auto simp: upto_rec1)
  show ?case
  proof (cases "doy < month_start leap (k + 1)")
    case True
    with Suc k show ?thesis by (simp add: Let_def)
  next
    case False
    have "n = nat (12 - (k + 1))" using Suc.hyps(2) by simp
    from Suc.hyps(1) [OF this] False Suc.prems k show ?thesis by simp
  qed
qed

lemma month_of_spec:
  assumes "0 \<le> doy" "doy < (if leap then 366 else 365)"
  shows "1 \<le> month_of leap doy" "month_of leap doy \<le> 12"
    "month_start leap (month_of leap doy) \<le> doy"
    "doy < month_start leap (month_of leap doy + 1)"
proof -
  have months: "[1, 2, 3, 4, 5, 6, 7, 8, 9, 10, 11, 12] = [1..12::int]"
    by (simp add: upto_rec1)
  have "month_start leap 1 \<le> doy" "doy < month_start leap 13"
    using assms by (simp_all add: month_start_def split: if_splits)
  then show "1 \<le> month_of leap doy" "month_of leap doy \<le> 12"
    "month_start leap (month_of leap doy) \<le> doy"
    "doy < month_start leap (month_of leap doy + 1)"
    using month_from_spec [of leap 1 doy] by (simp_all add: month_of_def months Let_def)
qed


section \<open>RFC 3339 text\<close>

definition digit :: "nat \<Rightarrow> char" where "digit n = char_of (48 + n)"

definition is_digit :: "char \<Rightarrow> bool" where
  "is_digit c \<longleftrightarrow> 48 \<le> byte c \<and> byte c \<le> 57"

definition digits_val :: "string \<Rightarrow> nat" where
  "digits_val s = foldl (\<lambda>a c. 10 * a + (byte c - 48)) 0 s"

primrec fixed_digits :: "nat \<Rightarrow> nat \<Rightarrow> string" where
  "fixed_digits 0 n = []"
| "fixed_digits (Suc k) n = fixed_digits k (n div 10) @ [digit (n mod 10)]"

definition trim_zeros :: "string \<Rightarrow> string" where
  "trim_zeros s = rev (dropWhile (\<lambda>c. c = CHR ''0'') (rev s))"

definition format_zone :: "int \<Rightarrow> string" where
  "format_zone z =
     (if z = 0 then ''Z''
      else (if z < 0 then CHR ''-'' else CHR ''+'')
        # fixed_digits 2 (nat (\<bar>z\<bar> div 60)) @ '':'' @ fixed_digits 2 (nat (\<bar>z\<bar> mod 60)))"

definition format_year :: "int \<Rightarrow> string" where
  "format_year y =
     (if y < 0 then CHR ''-'' # fixed_digits 4 (nat (- y))
      else if y < 10000 then fixed_digits 4 (nat y) else nat_digits (nat y))"

definition format_clock :: "int \<Rightarrow> string" where
  "format_clock s =
     fixed_digits 2 (nat (s div 3600)) @ '':'' @ fixed_digits 2 (nat (s div 60 mod 60))
       @ '':'' @ fixed_digits 2 (nat (s mod 60))"

definition format_date :: "int \<Rightarrow> string" where
  "format_date n =
     (let y = year_of_day n; doy = n - days_before_year y; m = month_of (leap_year y) doy
      in format_year y @ ''-'' @ fixed_digits 2 (nat m) @ ''-''
           @ fixed_digits 2 (nat (doy - month_start (leap_year y) m + 1)))"

text \<open>\<open>Time.Format\<close> with \<open>time.RFC3339\<close> and with \<open>time.RFC3339Nano\<close>.\<close>

definition format_rfc3339 :: "gotime \<Rightarrow> string" where
  "format_rfc3339 t =
     format_date (local_day t) @ ''T'' @ format_clock (local_ns t mod day_ns div second_ns)
       @ format_zone (zone_min t)"

definition format_fraction :: "int \<Rightarrow> string" where
  "format_fraction ns =
     (let f = trim_zeros (fixed_digits 9 (nat ns)) in if f = [] then [] else CHR ''.'' # f)"

definition format_rfc3339_nano :: "gotime \<Rightarrow> string" where
  "format_rfc3339_nano t =
     format_date (local_day t) @ ''T'' @ format_clock (local_ns t mod day_ns div second_ns)
       @ format_fraction (local_ns t mod second_ns) @ format_zone (zone_min t)"

text \<open>
  \<open>time.Parse\<close> with either layout. The general parser of the package accepts a one-digit
  hour, a comma before the fraction, and zone offsets up to 24:60; a fraction may have any
  number of digits, of which nine count.
\<close>

definition parse_fixed :: "nat \<Rightarrow> string \<Rightarrow> (nat \<times> string) option" where
  "parse_fixed k s =
     (let d = take k s in
      if length d = k \<and> list_all is_digit d then Some (digits_val d, drop k s) else None)"

definition parse_hour :: "string \<Rightarrow> (nat \<times> string) option" where
  "parse_hour s =
     (case parse_fixed 2 s of Some r \<Rightarrow> Some r | None \<Rightarrow> parse_fixed 1 s)"

definition parse_char :: "char \<Rightarrow> string \<Rightarrow> string option" where
  "parse_char c s = (case s of x # xs \<Rightarrow> if x = c then Some xs else None | [] \<Rightarrow> None)"

definition parse_fraction :: "string \<Rightarrow> nat \<times> string" where
  "parse_fraction s =
     (case s of
        c # d # rest \<Rightarrow>
          if (c = CHR ''.'' \<or> c = CHR '','') \<and> is_digit d then
            (let used = take 9 (takeWhile is_digit (d # rest))
             in (digits_val used * 10 ^ (9 - length used), dropWhile is_digit (d # rest)))
          else (0, s)
      | _ \<Rightarrow> (0, s))"

definition parse_zone :: "string \<Rightarrow> int option" where
  "parse_zone s =
     (if s = ''Z'' then Some 0
      else case s of
        [] \<Rightarrow> None
      | sign # rest \<Rightarrow>
          do {
            (h, r1) \<leftarrow> parse_fixed 2 rest;
            r2 \<leftarrow> parse_char (CHR '':'') r1;
            (m, r3) \<leftarrow> parse_fixed 2 r2;
            if r3 = [] \<and> h \<le> 24 \<and> m \<le> 60 \<and> (sign = CHR ''+'' \<or> sign = CHR ''-'')
            then Some ((if sign = CHR ''-'' then - 1 else 1) * (int h * 60 + int m))
            else None
          })"

definition parse_rfc3339 :: "string \<Rightarrow> gotime option" where
  "parse_rfc3339 s =
     do {
       (y, s1) \<leftarrow> parse_fixed 4 s;
       s2 \<leftarrow> parse_char (CHR ''-'') s1;
       (m, s3) \<leftarrow> parse_fixed 2 s2;
       s4 \<leftarrow> parse_char (CHR ''-'') s3;
       (d, s5) \<leftarrow> parse_fixed 2 s4;
       s6 \<leftarrow> parse_char (CHR ''T'') s5;
       (hh, s7) \<leftarrow> parse_hour s6;
       s8 \<leftarrow> parse_char (CHR '':'') s7;
       (mm, s9) \<leftarrow> parse_fixed 2 s8;
       s10 \<leftarrow> parse_char (CHR '':'') s9;
       (ss, s11) \<leftarrow> parse_fixed 2 s10;
       let (ns, s12) = parse_fraction s11;
       z \<leftarrow> parse_zone s12;
       if 1 \<le> m \<and> m \<le> 12 \<and> 1 \<le> d \<and> int d \<le> days_in_month (int y) (int m)
          \<and> hh < 24 \<and> mm < 60 \<and> ss < 60
       then Some \<lparr>unix_ns = (day_of_civil (int y) (int m) (int d) - 719162) * day_ns
                + (int hh * 3600 + int mm * 60 + int ss) * second_ns + int ns - z * minute_ns,
              zone_min = z\<rparr>
       else None
     }"

subsection \<open>Reading back what was written\<close>

lemma length_fixed_digits [simp]: "length (fixed_digits k n) = k"
  by (induction k arbitrary: n) auto

lemma byte_digit: "n < 10 \<Longrightarrow> byte (digit n) = 48 + n"
  by (simp add: byte_def digit_def)

lemma is_digit_digit [simp]: "n < 10 \<Longrightarrow> is_digit (digit n)"
  by (simp add: is_digit_def byte_digit)

lemma fixed_digits_digits: "c \<in> set (fixed_digits k n) \<Longrightarrow> is_digit c"
  by (induction k arbitrary: n) auto

lemma digits_val_snoc: "digits_val (s @ [c]) = 10 * digits_val s + (byte c - 48)"
  by (simp add: digits_val_def)

lemma digits_val_fixed: "digits_val (fixed_digits k n) = n mod 10 ^ k"
proof (induction k arbitrary: n)
  case 0
  then show ?case by (simp add: digits_val_def)
next
  case (Suc k)
  then show ?case
    by (simp add: digits_val_snoc byte_digit mod_mult2_eq)
qed

lemma parse_fixed_digits:
  "n < 10 ^ k \<Longrightarrow> parse_fixed k (fixed_digits k n @ rest) = Some (n, rest)"
  by (auto simp: parse_fixed_def Let_def digits_val_fixed list_all_iff dest: fixed_digits_digits)

lemma parse_hour_digits: "n < 100 \<Longrightarrow> parse_hour (fixed_digits 2 n @ rest) = Some (n, rest)"
  using parse_fixed_digits [of n 2 rest] by (simp add: parse_hour_def)

lemma parse_char_Cons [simp]: "parse_char c (c # s) = Some s"
  by (simp add: parse_char_def)

lemma trim_zeros_append:
  "\<exists>k. s = trim_zeros s @ replicate k (CHR ''0'')"
proof -
  have "s = rev (dropWhile (\<lambda>c. c = CHR ''0'') (rev s)) @ rev (takeWhile (\<lambda>c. c = CHR ''0'') (rev s))"
    by (metis rev_append rev_rev_ident takeWhile_dropWhile_id)
  moreover have "rev (takeWhile (\<lambda>c. c = CHR ''0'') (rev s))
      = replicate (length (takeWhile (\<lambda>c. c = CHR ''0'') (rev s))) (CHR ''0'')"
    by (rule replicate_length_same [symmetric, THEN trans]) (auto dest: set_takeWhileD)
  ultimately show ?thesis unfolding trim_zeros_def by metis
qed

lemma digits_val_zeros: "digits_val (s @ replicate k (CHR ''0'')) = digits_val s * 10 ^ k"
proof (induction k)
  case (Suc k)
  have "s @ replicate (Suc k) (CHR ''0'') = (s @ replicate k (CHR ''0'')) @ [CHR ''0'']"
    by (simp add: replicate_append_same [symmetric])
  then have "digits_val (s @ replicate (Suc k) (CHR ''0''))
      = 10 * digits_val (s @ replicate k (CHR ''0'')) + (byte (CHR ''0'') - 48)"
    by (simp only: digits_val_snoc)
  then show ?case using Suc by (simp add: byte_def)
qed simp

lemma parse_fraction_format:
  assumes "n < 10 ^ 9" "rest \<noteq> []" "\<not> is_digit (hd rest)" "hd rest \<noteq> CHR ''.''" "hd rest \<noteq> CHR '',''"
  shows "parse_fraction (format_fraction (int n) @ rest) = (n, rest)"
proof -
  define f where "f = trim_zeros (fixed_digits 9 n)"
  obtain k where k: "fixed_digits 9 n = f @ replicate k (CHR ''0'')"
    using trim_zeros_append unfolding f_def by blast
  have len: "length f + k = 9" using arg_cong [OF k, of length] by simp
  have dig: "\<forall>c\<in>set f. is_digit c"
    using k fixed_digits_digits [of _ 9 n] by (metis UnI1 set_append)
  have val: "digits_val f * 10 ^ k = n"
    using digits_val_zeros [of f k] digits_val_fixed [of 9 n] assms(1) by (simp add: k)
  obtain x xs where rest: "rest = x # xs" using assms(2) by (cases rest) auto
  show ?thesis
  proof (cases f)
    case Nil
    then have "n = 0" using val by (simp add: digits_val_def)
    moreover have "parse_fraction rest = (0, rest)"
      using assms rest by (auto simp: parse_fraction_def split: list.splits)
    moreover have "format_fraction (int n) = []"
      using Nil by (simp add: format_fraction_def Let_def f_def)
    ultimately show ?thesis by simp
  next
    case (Cons c g)
    have tw: "takeWhile is_digit (f @ rest) = f" "dropWhile is_digit (f @ rest) = rest"
      using dig assms(3) rest by (simp_all add: takeWhile_append2 dropWhile_append2)
    have "format_fraction (int n) @ rest = CHR ''.'' # c # (g @ rest)"
      using Cons by (simp add: format_fraction_def Let_def f_def)
    moreover have "parse_fraction (CHR ''.'' # c # (g @ rest))
        = (digits_val (take 9 f) * 10 ^ (9 - length (take 9 f)), rest)"
      using tw dig Cons by (simp add: parse_fraction_def Let_def)
    moreover have "take 9 f = f" "9 - length f = k" using len by simp_all
    ultimately show ?thesis using val by simp
  qed
qed

lemma days_in_month_le: "1 \<le> m \<Longrightarrow> m \<le> 12 \<Longrightarrow> days_in_month y m \<le> 31"
proof -
  assume "1 \<le> m" "m \<le> 12"
  then have "m \<in> set [1..12]" by simp
  then show ?thesis by (auto simp: upto_rec1 days_in_month_def month_start_def)
qed

lemma civil_date:
  fixes n :: int
  defines "y \<equiv> year_of_day n"
  defines "doy \<equiv> n - days_before_year y"
  defines "m \<equiv> month_of (leap_year y) doy"
  defines "d \<equiv> doy - month_start (leap_year y) m + 1"
  shows "1 \<le> m" "m \<le> 12" "1 \<le> d" "d \<le> days_in_month y m" "d \<le> 31" "day_of_civil y m d = n"
proof -
  have "days_before_year y \<le> n" "n < days_before_year (y + 1)"
    unfolding y_def by (rule year_of_day_bounds)+
  then have doy: "0 \<le> doy" "doy < (if leap_year y then 366 else 365)"
    unfolding doy_def using year_length [of y] by linarith+
  note spec = month_of_spec [OF doy, folded m_def]
  show "1 \<le> m" "m \<le> 12" by fact+
  show "1 \<le> d" "d \<le> days_in_month y m" using spec by (simp_all add: d_def days_in_month_def)
  then show "d \<le> 31" using days_in_month_le [OF spec(1,2), of y] by linarith
  show "day_of_civil y m d = n" by (simp add: day_of_civil_def d_def doy_def)
qed

lemma format_date_civil:
  assumes "0 \<le> year_of_day n" "year_of_day n \<le> 9999"
  obtains y m d :: nat where
    "format_date n = fixed_digits 4 y @ ''-'' @ fixed_digits 2 m @ ''-'' @ fixed_digits 2 d"
    "y < 10 ^ 4" "1 \<le> m" "m \<le> 12" "1 \<le> d" "d < 100"
    "int d \<le> days_in_month (int y) (int m)" "day_of_civil (int y) (int m) (int d) = n"
proof -
  define y doy where "y = year_of_day n" and "doy = n - days_before_year y"
  define m where "m = month_of (leap_year y) doy"
  define d where "d = doy - month_start (leap_year y) m + 1"
  note civ = civil_date [of n, folded y_def, folded doy_def, folded m_def, folded d_def]
  have ys: "0 \<le> y" "y \<le> 9999" using assms by (simp_all add: y_def)
  show thesis
  proof (rule that [of "nat y" "nat m" "nat d"])
    show "format_date n = fixed_digits 4 (nat y) @ ''-'' @ fixed_digits 2 (nat m) @ ''-''
        @ fixed_digits 2 (nat d)"
      using ys by (simp add: format_date_def Let_def format_year_def y_def doy_def m_def d_def)
  qed (use civ ys in \<open>simp_all add: nat_less_iff le_nat_iff nat_le_iff\<close>)
qed

lemma format_clock_parts:
  assumes "0 \<le> s" "s < 86400"
  obtains hh mm ss :: nat where
    "format_clock s = fixed_digits 2 hh @ '':'' @ fixed_digits 2 mm @ '':'' @ fixed_digits 2 ss"
    "hh < 24" "mm < 60" "ss < 60" "int hh * 3600 + int mm * 60 + int ss = s"
proof -
  have s: "s = 60 * (s div 60) + s mod 60" "s div 60 = 60 * (s div 60 div 60) + s div 60 mod 60"
    by simp_all
  have h: "s div 3600 = s div 60 div 60" by (simp add: zdiv_zmult2_eq [symmetric])
  show thesis
  proof (rule that [of "nat (s div 3600)" "nat (s div 60 mod 60)" "nat (s mod 60)"])
    show "nat (s div 3600) < 24" "nat (s div 60 mod 60) < 60" "nat (s mod 60) < 60"
      using assms by (simp_all add: nat_less_iff)
    show "int (nat (s div 3600)) * 3600 + int (nat (s div 60 mod 60)) * 60 + int (nat (s mod 60)) = s"
    proof -
      have pos: "0 \<le> s div 3600" "0 \<le> s div 60 mod 60" "0 \<le> s mod 60"
        using assms(1) by (simp_all add: pos_imp_zdiv_nonneg_iff)
      have "a * 3600 + b * 60 + c = s" if "s = 60 * d + c" "d = 60 * a + b" for a b c d
        using that by simp
      from this [OF s] show ?thesis using pos by (simp only: h nat_0_le)
    qed
  qed (simp add: format_clock_def)
qed

lemma parse_zone_Z [simp]: "parse_zone ''Z'' = Some 0"
  by (simp add: parse_zone_def)

lemma not_digit_Z [simp]: "\<not> is_digit (CHR ''Z'')"
  by (simp add: is_digit_def byte_def)

lemma div_less_dividend_bound: "0 < k \<Longrightarrow> x < b * k \<Longrightarrow> x div k < b" for x b k :: int
proof -
  assume k: "0 < k" and x: "x < b * k"
  have "x div k * k \<le> x" using k by (simp add: minus_mod_eq_div_mult [symmetric])
  with x have "x div k * k < b * k" by linarith
  then show ?thesis using k by simp
qed

text \<open>
  A UTC instant of a four-digit year that is written with nanoseconds is read back exactly;
  written without them, it is read back at its whole second.
\<close>

lemma parse_rfc3339_utc:
  assumes year: "0 \<le> year t" "year t \<le> 9999" and z: "zone_min t = 0"
    and frac: "\<And>rest. rest = ''Z'' \<Longrightarrow> parse_fraction (f @ rest) = (n, rest)"
  shows "parse_rfc3339 (format_date (local_day t) @ ''T''
      @ format_clock (local_ns t mod day_ns div second_ns) @ f @ ''Z'')
    = Some \<lparr>unix_ns = unix_ns t - unix_ns t mod second_ns + int n, zone_min = 0\<rparr>"
proof -
  have loc: "local_ns t = unix_ns t" by (simp add: local_ns_def z)
  obtain y m d where date:
    "format_date (local_day t) = fixed_digits 4 y @ ''-'' @ fixed_digits 2 m @ ''-'' @ fixed_digits 2 d"
    "y < 10 ^ 4" "1 \<le> m" "m \<le> 12" "1 \<le> d" "d < 100"
    "int d \<le> days_in_month (int y) (int m)" "day_of_civil (int y) (int m) (int d) = local_day t"
    using year format_date_civil unfolding year_def by blast
  define s where "s = local_ns t mod day_ns div second_ns"
  have s: "0 \<le> s" "s < 86400"
  proof -
    have r: "0 \<le> local_ns t mod day_ns" "local_ns t mod day_ns < 86400 * second_ns" by simp_all
    show "0 \<le> s" unfolding s_def using r(1) by (simp add: pos_imp_zdiv_nonneg_iff)
    show "s < 86400" unfolding s_def
      using r(2) by (intro div_less_dividend_bound) simp_all
  qed
  obtain hh mm ss where clock:
    "format_clock s = fixed_digits 2 hh @ '':'' @ fixed_digits 2 mm @ '':'' @ fixed_digits 2 ss"
    "hh < 24" "mm < 60" "ss < 60" "int hh * 3600 + int mm * 60 + int ss = s"
    using format_clock_parts [OF s] .
  have day: "(local_day t - 719162) * day_ns = unix_ns t - unix_ns t mod day_ns"
    by (simp add: local_day_def loc minus_mod_eq_div_mult)
  have mods: "unix_ns t mod day_ns mod second_ns = unix_ns t mod second_ns"
    by (rule mod_mod_cancel) simp
  have secs: "s * second_ns = unix_ns t mod day_ns - unix_ns t mod second_ns"
    unfolding s_def loc minus_mod_eq_div_mult [symmetric] mods ..
  have total: "(local_day t - 719162) * day_ns + s * second_ns = unix_ns t - unix_ns t mod second_ns"
    using day secs by linarith
  have fr: "parse_fraction (f @ ''Z'') = (n, ''Z'')" using frac by simp
  have "mm < 100" "ss < 100" "hh < 100" "m < 100" using clock date by linarith+
  then show ?thesis
    unfolding s_def [symmetric] date(1) clock(1)
    using date clock(2-) total fr
    by (simp add: parse_rfc3339_def parse_fixed_digits parse_hour_digits)
qed

lemma parse_format_nano:
  assumes "0 \<le> year t" "year t \<le> 9999" "zone_min t = 0"
  shows "parse_rfc3339 (format_rfc3339_nano t) = Some t"
proof -
  have loc: "local_ns t = unix_ns t" by (simp add: local_ns_def assms(3))
  define n where "n = nat (unix_ns t mod second_ns)"
  have n: "int n = unix_ns t mod second_ns" "n < 10 ^ 9" by (simp_all add: n_def nat_less_iff)
  have frac: "parse_fraction (format_fraction (int n) @ rest) = (n, rest)" if "rest = ''Z''" for rest
    using that n(2) by (intro parse_fraction_format) simp_all
  have "parse_rfc3339 (format_rfc3339_nano t)
      = Some \<lparr>unix_ns = unix_ns t - unix_ns t mod second_ns + int n, zone_min = 0\<rparr>"
    using parse_rfc3339_utc [OF assms frac] n(1)
    by (simp add: format_rfc3339_nano_def format_zone_def loc assms(3))
  then show ?thesis using n(1) assms(3) by (cases t) simp
qed

lemma parse_format_seconds:
  assumes "0 \<le> year t" "year t \<le> 9999" "zone_min t = 0"
  shows "parse_rfc3339 (format_rfc3339 t)
    = Some \<lparr>unix_ns = unix_ns t - unix_ns t mod second_ns, zone_min = 0\<rparr>"
proof -
  have "parse_fraction ([] @ rest) = (0, rest)" if "rest = ''Z''" for rest
    using that by (simp add: parse_fraction_def)
  from parse_rfc3339_utc [OF assms this] show ?thesis
    by (simp add: format_rfc3339_def format_zone_def assms(3))
qed

end
