(* ===== verification/Domain_Base.thy ===== *)
theory Domain_Base
  imports Sha256 Go_Time
begin

text \<open>
  Identities, digests, capabilities and object metadata of package \<open>domain\<close>
  (\<^verbatim>\<open>internal/domain/id.go\<close>, \<^verbatim>\<open>object.go\<close>, \<^verbatim>\<open>capability.go\<close>), and the error values its
  validations return.
\<close>

section \<open>Error values\<close>

text \<open>
  \<open>Errorf f args\<close> is \<open>fmt.Errorf\<close> with its format and the text of its arguments
  (\<open>errors.New\<close> has no argument), \<open>Wrapped\<close> is a format that ends in \<open>%w\<close>, and
  \<open>TransitionError\<close> is the struct of \<^verbatim>\<open>transition.go\<close>.
\<close>

datatype domain_error =
    Errorf string "string list"
  | Wrapped string domain_error
  | TransitionError (dimension: string) (from_state: string) (to_state: string)

abbreviation errors_new :: "string \<Rightarrow> domain_error" where
  "errors_new m \<equiv> Errorf m []"


section \<open>Opaque identifiers\<close>

type_synonym opaque_id = string

datatype id_kind =
    RuntimeInstallationID | WorkspaceID | JobID | AttemptID | OperationID | EventID | ObjectID
  | ArtifactID | ProviderInstanceID | SubmissionIntentID | ProviderResourceID

fun id_kind_name :: "id_kind \<Rightarrow> string" where
  "id_kind_name RuntimeInstallationID = ''runtime installation''"
| "id_kind_name WorkspaceID = ''workspace''"
| "id_kind_name JobID = ''job''"
| "id_kind_name AttemptID = ''attempt''"
| "id_kind_name OperationID = ''operation''"
| "id_kind_name EventID = ''event''"
| "id_kind_name ObjectID = ''object''"
| "id_kind_name ArtifactID = ''artifact''"
| "id_kind_name ProviderInstanceID = ''provider instance''"
| "id_kind_name SubmissionIntentID = ''submission intent''"
| "id_kind_name ProviderResourceID = ''provider resource''"

definition MaxOpaqueIDLength :: nat where "MaxOpaqueIDLength = 128"

record invalid_id_error =
  id_error_kind :: string
  id_error_reason :: string

definition isASCIILetter :: "char \<Rightarrow> bool" where
  "isASCIILetter c \<longleftrightarrow> 97 \<le> byte c \<and> byte c \<le> 122 \<or> 65 \<le> byte c \<and> byte c \<le> 90"

definition isASCIIDigit :: "char \<Rightarrow> bool" where
  "isASCIIDigit c \<longleftrightarrow> 48 \<le> byte c \<and> byte c \<le> 57"

definition opaque_byte :: "char \<Rightarrow> bool" where
  "opaque_byte c \<longleftrightarrow> isASCIILetter c \<or> isASCIIDigit c
     \<or> c = CHR ''-'' \<or> c = CHR ''_'' \<or> c = CHR ''.'' \<or> c = CHR '':''"

text \<open>The byte loop of \<open>validateOpaqueID\<close> from a given index on.\<close>

fun opaque_loop :: "string \<Rightarrow> nat \<Rightarrow> string \<Rightarrow> invalid_id_error option" where
  "opaque_loop kind i [] = None"
| "opaque_loop kind i (c # cs) =
     (if i = 0 then
        (if \<not> isASCIILetter c \<and> \<not> isASCIIDigit c
         then Some \<lparr>id_error_kind = kind, id_error_reason = ''must start with an ASCII letter or digit''\<rparr>
         else opaque_loop kind (Suc i) cs)
      else if \<not> opaque_byte c
        then Some \<lparr>id_error_kind = kind, id_error_reason = ''contains a non-opaque-safe character''\<rparr>
      else opaque_loop kind (Suc i) cs)"

definition validateOpaqueID :: "string \<Rightarrow> string \<Rightarrow> invalid_id_error option" where
  "validateOpaqueID kind raw =
     (if raw = [] then Some \<lparr>id_error_kind = kind, id_error_reason = ''must not be empty''\<rparr>
      else if length raw > MaxOpaqueIDLength
        then Some \<lparr>id_error_kind = kind, id_error_reason = ''must not exceed 128 bytes''\<rparr>
      else opaque_loop kind 0 raw)"

definition parseOpaqueID :: "string \<Rightarrow> string \<Rightarrow> invalid_id_error + opaque_id" where
  "parseOpaqueID kind raw = guard_result (validateOpaqueID kind raw) raw"

text \<open>The eleven exported parsers differ in the kind they name.\<close>

definition parse_id :: "id_kind \<Rightarrow> string \<Rightarrow> invalid_id_error + opaque_id" where
  "parse_id k raw = parseOpaqueID (id_kind_name k) raw"

text \<open>The method \<open>Valid\<close> of all eleven identifier types.\<close>

definition validOpaqueID :: "opaque_id \<Rightarrow> bool" where
  "validOpaqueID raw \<longleftrightarrow> validateOpaqueID ''opaque'' raw = None"

lemma opaque_loop_Suc: "opaque_loop kind (Suc i) s = None \<longleftrightarrow> list_all opaque_byte s"
  by (induction s arbitrary: i) auto

lemma opaque_loop_0:
  "opaque_loop kind 0 s = None \<longleftrightarrow>
     s = [] \<or> (isASCIILetter (hd s) \<or> isASCIIDigit (hd s)) \<and> list_all opaque_byte (tl s)"
  by (cases s) (auto simp: opaque_loop_Suc)

lemma validateOpaqueID_None_iff [check_simps]:
  "validateOpaqueID kind raw = None \<longleftrightarrow>
     raw \<noteq> [] \<and> length raw \<le> MaxOpaqueIDLength
     \<and> (isASCIILetter (hd raw) \<or> isASCIIDigit (hd raw)) \<and> list_all opaque_byte raw"
  by (cases raw)
    (auto simp: validateOpaqueID_def opaque_loop_0 opaque_loop_Suc opaque_byte_def
      simp del: opaque_loop.simps)

lemma validOpaqueID_iff:
  "validOpaqueID raw \<longleftrightarrow>
     raw \<noteq> [] \<and> length raw \<le> 128
     \<and> (isASCIILetter (hd raw) \<or> isASCIIDigit (hd raw)) \<and> list_all opaque_byte raw"
  by (simp add: validOpaqueID_def validateOpaqueID_None_iff MaxOpaqueIDLength_def)

lemma validOpaqueID_Nil [simp]: "\<not> validOpaqueID []"
  by (simp add: validOpaqueID_iff)

lemma parse_id_Inr_iff [check_simps]: "parse_id k raw = Inr x \<longleftrightarrow> x = raw \<and> validOpaqueID raw"
  by (auto simp: parse_id_def parseOpaqueID_def validOpaqueID_def validateOpaqueID_None_iff)

lemma opaque_byte_ascii: "opaque_byte c \<Longrightarrow> printable_byte c"
  by (auto simp: opaque_byte_def isASCIILetter_def isASCIIDigit_def printable_byte_def byte_def)

text \<open>An identifier carries no separator, white space or control byte, and is no dot path.\<close>

lemma validOpaqueID_no_separator:
  assumes "validOpaqueID s"
  shows "CHR ''/'' \<notin> set s" "CHR '' '' \<notin> set s" "s \<noteq> ''.''" "s \<noteq> ''..''"
proof -
  have ob: "opaque_byte c" if "c \<in> set s" for c
    using assms that by (auto simp: validOpaqueID_iff list_all_iff)
  show "CHR ''/'' \<notin> set s" "CHR '' '' \<notin> set s"
    using ob by (fastforce simp: opaque_byte_def isASCIILetter_def isASCIIDigit_def byte_def)+
  show "s \<noteq> ''.''" "s \<noteq> ''..''"
    using assms by (auto simp: validOpaqueID_iff isASCIILetter_def isASCIIDigit_def byte_def)
qed


section \<open>SHA-256 digests\<close>

type_synonym sha256_digest = string

definition ParseSHA256Digest :: "string \<Rightarrow> domain_error + sha256_digest" where
  "ParseSHA256Digest raw =
     guard_result (first_error
       [fail_if (length raw \<noteq> 64)
          (errors_new ''invalid SHA-256 digest: must contain 64 lowercase hexadecimal characters''),
        fail_if (raw \<noteq> to_lower raw)
          (errors_new ''invalid SHA-256 digest: must use lowercase hexadecimal characters''),
        fail_if (\<exists>c\<in>set raw. \<not> isASCIIDigit c \<and> (byte c < 97 \<or> byte c > 102))
          (errors_new ''invalid SHA-256 digest: contains a non-hexadecimal character'')]) raw"

definition digest_valid :: "sha256_digest \<Rightarrow> bool" where
  "digest_valid d = (case ParseSHA256Digest d of Inl _ \<Rightarrow> False | Inr _ \<Rightarrow> True)"

lemma to_lower_hex: "lower_hex_byte c \<Longrightarrow> to_lower_byte c = c"
  by (auto simp: lower_hex_byte_def to_lower_byte_def)

lemma digest_valid_iff: "digest_valid d \<longleftrightarrow> length d = 64 \<and> list_all lower_hex_byte d"
proof -
  have "digest_valid d \<longleftrightarrow> length d = 64 \<and> d = to_lower d \<and> list_all lower_hex_byte d"
  proof -
    have "digest_valid d \<longleftrightarrow> (\<exists>x. ParseSHA256Digest d = Inr x)"
      by (simp add: digest_valid_def split: sum.splits)
    also have "\<dots> \<longleftrightarrow> length d = 64 \<and> d = to_lower d \<and> list_all lower_hex_byte d"
      by (auto simp: ParseSHA256Digest_def list_all_iff lower_hex_byte_def isASCIIDigit_def
          not_less)
    finally show ?thesis .
  qed
  moreover have "list_all lower_hex_byte d \<Longrightarrow> d = to_lower d"
    by (induction d) (auto simp: to_lower_def to_lower_hex)
  ultimately show ?thesis by blast
qed

text \<open>\<open>provider.Digest\<close> and every other hexadecimal SHA-256 sum is a canonical digest.\<close>

lemma digest_valid_sha256 [simp]: "digest_valid (sha256_hex s)"
  by (simp add: digest_valid_iff list_all_iff sha256_hex_lower)

lemma digest_valid_Nil [simp]: "\<not> digest_valid []"
  by (simp add: digest_valid_iff)

lemma digest_valid_opaque: "digest_valid d \<Longrightarrow> validOpaqueID d"
  by (cases d)
    (auto simp: digest_valid_iff validOpaqueID_iff opaque_byte_def isASCIILetter_def
      isASCIIDigit_def lower_hex_byte_def list_all_iff)


section \<open>Object metadata\<close>

record object_metadata =
  object_id :: opaque_id
  object_workspace :: opaque_id
  object_bytes :: int
  object_sha256 :: sha256_digest

definition object_valid :: "object_metadata \<Rightarrow> bool" where
  "object_valid m \<longleftrightarrow> validOpaqueID (object_id m) \<and> validOpaqueID (object_workspace m)
     \<and> object_bytes m \<ge> 0 \<and> digest_valid (object_sha256 m)"


section \<open>Capabilities\<close>

definition MaxRemoteWallSeconds :: int where "MaxRemoteWallSeconds = 7 * 24 * 60 * 60"

type_synonym capability_name = string

definition CapabilityBatchExecution :: capability_name where "CapabilityBatchExecution = ''batch_execution''"
definition CapabilityPython :: capability_name where "CapabilityPython = ''python''"
definition CapabilityShell :: capability_name where "CapabilityShell = ''shell''"
definition CapabilityGPU :: capability_name where "CapabilityGPU = ''gpu''"
definition CapabilityPrivateInputStaging :: capability_name where
  "CapabilityPrivateInputStaging = ''private_input_staging''"
definition CapabilityRemoteCancellation :: capability_name where
  "CapabilityRemoteCancellation = ''remote_cancellation''"
definition CapabilityRemoteCleanup :: capability_name where "CapabilityRemoteCleanup = ''remote_cleanup''"
definition CapabilityLogsWhileRunning :: capability_name where
  "CapabilityLogsWhileRunning = ''logs_while_running''"
definition CapabilityLogsAfterCompletion :: capability_name where
  "CapabilityLogsAfterCompletion = ''logs_after_completion''"
definition CapabilityQuotaReporting :: capability_name where "CapabilityQuotaReporting = ''quota_reporting''"
definition CapabilityExecutionTimeout :: capability_name where
  "CapabilityExecutionTimeout = ''execution_timeout''"
definition CapabilitySeparateStart :: capability_name where
  "CapabilitySeparateStart = ''separate_prepare_start''"
definition CapabilityEphemeralSecrets :: capability_name where
  "CapabilityEphemeralSecrets = ''ephemeral_workload_secrets''"
definition CapabilityAbsoluteDeadline :: capability_name where
  "CapabilityAbsoluteDeadline = ''absolute_execution_deadline''"
definition CapabilityRemoteNetworkControl :: capability_name where
  "CapabilityRemoteNetworkControl = ''remote_network_control''"
definition CapabilityStrongIdentity :: capability_name where
  "CapabilityStrongIdentity = ''strong_execution_identity''"
definition CapabilityCustomContainer :: capability_name where
  "CapabilityCustomContainer = ''custom_container''"
definition CapabilityRetainedSessions :: capability_name where
  "CapabilityRetainedSessions = ''retained_sessions''"

lemmas capability_defs =
  CapabilityBatchExecution_def CapabilityPython_def CapabilityShell_def CapabilityGPU_def
  CapabilityPrivateInputStaging_def CapabilityRemoteCancellation_def CapabilityRemoteCleanup_def
  CapabilityLogsWhileRunning_def CapabilityLogsAfterCompletion_def CapabilityQuotaReporting_def
  CapabilityExecutionTimeout_def CapabilitySeparateStart_def CapabilityEphemeralSecrets_def
  CapabilityAbsoluteDeadline_def CapabilityRemoteNetworkControl_def CapabilityStrongIdentity_def
  CapabilityCustomContainer_def CapabilityRetainedSessions_def

text \<open>
  An enumeration of the source is a string type with named constants. Here it is a datatype
  with those constants as constructors; the last constructor stands for any other string.
\<close>

datatype capability_support =
    CapabilitySupportSupported
  | CapabilitySupportUnsupported
  | CapabilitySupportUnknown
  | CapabilitySupportOther string

fun capability_support_valid :: "capability_support \<Rightarrow> bool" where
  "capability_support_valid (CapabilitySupportOther _) = False"
| "capability_support_valid _ = True"

datatype evidence_level =
    EvidencePlanned | EvidenceImplementedOffline | EvidenceDocumentedUpstream
  | EvidencePassedLive | EvidenceNotTested | EvidenceBlockedEnvironment
  | EvidenceOther string

fun evidence_level_valid :: "evidence_level \<Rightarrow> bool" where
  "evidence_level_valid (EvidenceOther _) = False"
| "evidence_level_valid _ = True"

end
