(* ===== verification/Domain_States.thy ===== *)
theory Domain_States
  imports Domain_Base
begin

text \<open>
  The state dimensions of an attempt and the rules that bind them
  (\<^verbatim>\<open>internal/domain/state_types.go\<close>, \<^verbatim>\<open>attempt_state.go\<close>, \<^verbatim>\<open>transition.go\<close>): six
  enumerations with their transition graphs, \<open>AttemptState.Validate\<close> and
  \<open>ValidateAttemptStateTransition\<close>. Graphs that share the contract of a locale below are
  interpretations of it.
\<close>

section \<open>Transition graphs\<close>

text \<open>
  A graph maps a state to the states it may move to, and knows no other state
  (\<open>map[T]map[T]struct{}\<close> built with \<open>setOf\<close>).
\<close>

definition validateTransition ::
  "('s \<Rightarrow> string) \<Rightarrow> string \<Rightarrow> 's \<Rightarrow> 's \<Rightarrow> ('s \<Rightarrow> 's list option) \<Rightarrow> domain_error option" where
  "validateTransition show_state dim current next_state graph =
     (if current = next_state then None
      else case graph current of
        None \<Rightarrow> Some (TransitionError dim (show_state current) (show_state next_state))
      | Some allowed \<Rightarrow>
          if next_state \<notin> set allowed
          then Some (TransitionError dim (show_state current) (show_state next_state))
          else None)"

definition graph_step :: "('s \<Rightarrow> 's list option) \<Rightarrow> 's \<Rightarrow> 's \<Rightarrow> bool" where
  "graph_step graph s t \<longleftrightarrow> s = t \<or> (\<exists>ts. graph s = Some ts \<and> t \<in> set ts)"

lemma validateTransition_None_iff [simp, check_simps]:
  "validateTransition sh dim s t graph = None \<longleftrightarrow> graph_step graph s t"
  by (auto simp: validateTransition_def graph_step_def split: option.splits)

lemma validateTransition_Some:
  "validateTransition sh dim s t graph = Some e \<Longrightarrow> e = TransitionError dim (sh s) (sh t)"
  by (auto simp: validateTransition_def split: option.splits if_splits)

text \<open>The contract every dimension keeps: targets are known states, and ends have no way out.\<close>

locale transition_graph =
  fixes graph :: "'s \<Rightarrow> 's list option"
    and known :: "'s \<Rightarrow> bool"
    and final :: "'s \<Rightarrow> bool"
  assumes known_iff: "known s \<longleftrightarrow> graph s \<noteq> None"
    and targets_known: "graph s = Some ts \<Longrightarrow> t \<in> set ts \<Longrightarrow> known t"
    and no_self_loop: "graph s = Some ts \<Longrightarrow> s \<notin> set ts"
    and final_no_way_out: "final s \<Longrightarrow> graph s = Some []"
begin

lemma final_absorbing: "graph_step graph s t \<Longrightarrow> final s \<Longrightarrow> t = s"
  by (auto simp: graph_step_def dest: final_no_way_out)

lemma step_known: "graph_step graph s t \<Longrightarrow> known s \<Longrightarrow> known t"
  by (auto simp: graph_step_def dest: targets_known)

lemma final_forever:
  assumes "(graph_step graph)\<^sup>*\<^sup>* s t" "final s" shows "t = s"
  using assms by (induction rule: rtranclp_induct) (auto dest: final_absorbing)

lemma unknown_stuck: "graph_step graph s t \<Longrightarrow> \<not> known s \<Longrightarrow> t = s"
  by (auto simp: graph_step_def known_iff)

end

text \<open>A dimension whose evidence only grows: every move raises a rank.\<close>

locale monotone_graph = transition_graph +
  fixes rank :: "'s \<Rightarrow> nat"
  assumes rank_grows: "graph s = Some ts \<Longrightarrow> t \<in> set ts \<Longrightarrow> rank s < rank t"
begin

lemma step_rank: "graph_step graph s t \<Longrightarrow> rank s \<le> rank t"
  by (auto simp: graph_step_def dest: rank_grows)

lemma rank_monotone: "(graph_step graph)\<^sup>*\<^sup>* s t \<Longrightarrow> rank s \<le> rank t"
  by (induction rule: rtranclp_induct) (auto dest: step_rank)

lemma equal_rank_unchanged:
  assumes "(graph_step graph)\<^sup>*\<^sup>* s t" "rank t = rank s" shows "t = s"
  using assms
proof (induction rule: rtranclp_induct)
  case (step y z)
  have "rank s \<le> rank y" using step.hyps(1) by (rule rank_monotone)
  moreover have "z = y \<or> rank y < rank z"
    using step.hyps(2) by (auto simp: graph_step_def dest: rank_grows)
  ultimately show ?case using step.IH step.prems by auto
qed simp

lemma no_return: "(graph_step graph)\<^sup>*\<^sup>* s t \<Longrightarrow> (graph_step graph)\<^sup>*\<^sup>* t s \<Longrightarrow> t = s"
  using rank_monotone equal_rank_unchanged by (metis le_antisym)

end


section \<open>The six dimensions\<close>

subsection \<open>What the local runtime is doing\<close>

datatype orchestration_state =
    OrchestrationQueued | OrchestrationPreparing | OrchestrationDispatching
  | OrchestrationSubmitted | OrchestrationRunning | OrchestrationCollecting
  | OrchestrationBlocked | OrchestrationReconciling | OrchestrationCancelling
  | OrchestrationNeedsAttention | OrchestrationSucceeded | OrchestrationFailed
  | OrchestrationCancelled | OrchestrationTimedOut | OrchestrationOther string

fun orchestration_string :: "orchestration_state \<Rightarrow> string" where
  "orchestration_string OrchestrationQueued = ''queued''"
| "orchestration_string OrchestrationPreparing = ''preparing''"
| "orchestration_string OrchestrationDispatching = ''dispatching''"
| "orchestration_string OrchestrationSubmitted = ''submitted''"
| "orchestration_string OrchestrationRunning = ''running''"
| "orchestration_string OrchestrationCollecting = ''collecting''"
| "orchestration_string OrchestrationBlocked = ''blocked''"
| "orchestration_string OrchestrationReconciling = ''reconciling''"
| "orchestration_string OrchestrationCancelling = ''cancelling''"
| "orchestration_string OrchestrationNeedsAttention = ''needs_attention''"
| "orchestration_string OrchestrationSucceeded = ''succeeded''"
| "orchestration_string OrchestrationFailed = ''failed''"
| "orchestration_string OrchestrationCancelled = ''cancelled''"
| "orchestration_string OrchestrationTimedOut = ''timed_out''"
| "orchestration_string (OrchestrationOther s) = s"

fun orchestration_transitions :: "orchestration_state \<Rightarrow> orchestration_state list option" where
  "orchestration_transitions OrchestrationQueued = Some
      [OrchestrationPreparing, OrchestrationBlocked, OrchestrationCancelled, OrchestrationFailed,
        OrchestrationTimedOut]"
| "orchestration_transitions OrchestrationPreparing = Some
      [OrchestrationQueued, OrchestrationDispatching, OrchestrationBlocked,
        OrchestrationReconciling, OrchestrationCancelling, OrchestrationNeedsAttention,
        OrchestrationFailed, OrchestrationCancelled, OrchestrationTimedOut]"
| "orchestration_transitions OrchestrationDispatching = Some
      [OrchestrationSubmitted, OrchestrationRunning, OrchestrationCollecting,
        OrchestrationReconciling, OrchestrationCancelling, OrchestrationNeedsAttention,
        OrchestrationFailed, OrchestrationCancelled, OrchestrationTimedOut]"
| "orchestration_transitions OrchestrationSubmitted = Some
      [OrchestrationRunning, OrchestrationCollecting, OrchestrationReconciling,
        OrchestrationCancelling, OrchestrationNeedsAttention, OrchestrationFailed,
        OrchestrationCancelled, OrchestrationTimedOut]"
| "orchestration_transitions OrchestrationRunning = Some
      [OrchestrationCollecting, OrchestrationReconciling, OrchestrationCancelling,
        OrchestrationNeedsAttention, OrchestrationFailed, OrchestrationCancelled,
        OrchestrationTimedOut]"
| "orchestration_transitions OrchestrationCollecting = Some
      [OrchestrationSucceeded, OrchestrationFailed, OrchestrationCancelled, OrchestrationTimedOut,
        OrchestrationBlocked, OrchestrationReconciling, OrchestrationNeedsAttention]"
| "orchestration_transitions OrchestrationBlocked = Some
      [OrchestrationQueued, OrchestrationPreparing, OrchestrationDispatching,
        OrchestrationReconciling, OrchestrationCancelling, OrchestrationNeedsAttention,
        OrchestrationFailed, OrchestrationCancelled, OrchestrationTimedOut]"
| "orchestration_transitions OrchestrationReconciling = Some
      [OrchestrationPreparing, OrchestrationDispatching, OrchestrationSubmitted,
        OrchestrationRunning, OrchestrationCollecting, OrchestrationBlocked,
        OrchestrationCancelling, OrchestrationNeedsAttention, OrchestrationFailed,
        OrchestrationCancelled, OrchestrationTimedOut]"
| "orchestration_transitions OrchestrationCancelling = Some
      [OrchestrationCollecting, OrchestrationReconciling, OrchestrationNeedsAttention,
        OrchestrationSucceeded, OrchestrationFailed, OrchestrationCancelled, OrchestrationTimedOut]"
| "orchestration_transitions OrchestrationNeedsAttention = Some
      [OrchestrationSubmitted, OrchestrationRunning, OrchestrationCollecting,
        OrchestrationReconciling, OrchestrationCancelling, OrchestrationSucceeded,
        OrchestrationFailed, OrchestrationCancelled, OrchestrationTimedOut]"
| "orchestration_transitions OrchestrationSucceeded = Some []"
| "orchestration_transitions OrchestrationFailed = Some []"
| "orchestration_transitions OrchestrationCancelled = Some []"
| "orchestration_transitions OrchestrationTimedOut = Some []"
| "orchestration_transitions (OrchestrationOther _) = None"

definition orchestration_valid :: "orchestration_state \<Rightarrow> bool" where
  "orchestration_valid s \<longleftrightarrow> orchestration_transitions s \<noteq> None"

fun orchestration_terminal :: "orchestration_state \<Rightarrow> bool" where
  "orchestration_terminal OrchestrationSucceeded = True"
| "orchestration_terminal OrchestrationFailed = True"
| "orchestration_terminal OrchestrationCancelled = True"
| "orchestration_terminal OrchestrationTimedOut = True"
| "orchestration_terminal _ = False"

subsection \<open>What provider or runner evidence has established\<close>

datatype execution_state =
    ExecutionNotSubmitted | ExecutionUnknown | ExecutionQueued | ExecutionStarting
  | ExecutionRunning | ExecutionSucceeded | ExecutionFailed | ExecutionCancelled
  | ExecutionTimedOut | ExecutionOther string

fun execution_string :: "execution_state \<Rightarrow> string" where
  "execution_string ExecutionNotSubmitted = ''not_submitted''"
| "execution_string ExecutionUnknown = ''unknown''"
| "execution_string ExecutionQueued = ''queued''"
| "execution_string ExecutionStarting = ''starting''"
| "execution_string ExecutionRunning = ''running''"
| "execution_string ExecutionSucceeded = ''succeeded''"
| "execution_string ExecutionFailed = ''failed''"
| "execution_string ExecutionCancelled = ''cancelled''"
| "execution_string ExecutionTimedOut = ''timed_out''"
| "execution_string (ExecutionOther s) = s"

fun execution_transitions :: "execution_state \<Rightarrow> execution_state list option" where
  "execution_transitions ExecutionNotSubmitted = Some
      [ExecutionUnknown, ExecutionQueued, ExecutionStarting, ExecutionRunning, ExecutionSucceeded,
        ExecutionFailed, ExecutionCancelled, ExecutionTimedOut]"
| "execution_transitions ExecutionUnknown = Some
      [ExecutionNotSubmitted, ExecutionQueued, ExecutionStarting, ExecutionRunning,
        ExecutionSucceeded, ExecutionFailed, ExecutionCancelled, ExecutionTimedOut]"
| "execution_transitions ExecutionQueued = Some
      [ExecutionStarting, ExecutionRunning, ExecutionSucceeded, ExecutionFailed,
        ExecutionCancelled, ExecutionTimedOut]"
| "execution_transitions ExecutionStarting = Some
      [ExecutionRunning, ExecutionSucceeded, ExecutionFailed, ExecutionCancelled,
        ExecutionTimedOut]"
| "execution_transitions ExecutionRunning = Some
      [ExecutionSucceeded, ExecutionFailed, ExecutionCancelled, ExecutionTimedOut]"
| "execution_transitions ExecutionSucceeded = Some []"
| "execution_transitions ExecutionFailed = Some []"
| "execution_transitions ExecutionCancelled = Some []"
| "execution_transitions ExecutionTimedOut = Some []"
| "execution_transitions (ExecutionOther _) = None"

definition execution_valid :: "execution_state \<Rightarrow> bool" where
  "execution_valid s \<longleftrightarrow> execution_transitions s \<noteq> None"

fun execution_terminal :: "execution_state \<Rightarrow> bool" where
  "execution_terminal ExecutionSucceeded = True"
| "execution_terminal ExecutionFailed = True"
| "execution_terminal ExecutionCancelled = True"
| "execution_terminal ExecutionTimedOut = True"
| "execution_terminal _ = False"

subsection \<open>Verified local artifact availability\<close>

datatype result_state =
    ResultNotAvailable | ResultCollecting | ResultAvailable | ResultIncomplete | ResultInvalid
  | ResultExpired | ResultOther string

fun result_string :: "result_state \<Rightarrow> string" where
  "result_string ResultNotAvailable = ''not_available''"
| "result_string ResultCollecting = ''collecting''"
| "result_string ResultAvailable = ''available''"
| "result_string ResultIncomplete = ''incomplete''"
| "result_string ResultInvalid = ''invalid''"
| "result_string ResultExpired = ''expired''"
| "result_string (ResultOther s) = s"

fun result_transitions :: "result_state \<Rightarrow> result_state list option" where
  "result_transitions ResultNotAvailable = Some
      [ResultCollecting, ResultExpired]"
| "result_transitions ResultCollecting = Some
      [ResultAvailable, ResultIncomplete, ResultInvalid, ResultExpired]"
| "result_transitions ResultAvailable = Some
      [ResultExpired]"
| "result_transitions ResultIncomplete = Some
      [ResultCollecting, ResultExpired]"
| "result_transitions ResultInvalid = Some
      [ResultCollecting, ResultExpired]"
| "result_transitions ResultExpired = Some []"
| "result_transitions (ResultOther _) = None"

definition result_valid :: "result_state \<Rightarrow> bool" where
  "result_valid s \<longleftrightarrow> result_transitions s \<noteq> None"

subsection \<open>Cancellation intent and evidence\<close>

datatype cancellation_state =
    CancellationNotRequested | CancellationRequested | CancellationRequesting
  | CancellationAccepted | CancellationPrevented | CancellationConfirmed | CancellationTooLate
  | CancellationManual | CancellationOther string

fun cancellation_string :: "cancellation_state \<Rightarrow> string" where
  "cancellation_string CancellationNotRequested = ''not_requested''"
| "cancellation_string CancellationRequested = ''requested''"
| "cancellation_string CancellationRequesting = ''requesting''"
| "cancellation_string CancellationAccepted = ''accepted''"
| "cancellation_string CancellationPrevented = ''prevented''"
| "cancellation_string CancellationConfirmed = ''confirmed''"
| "cancellation_string CancellationTooLate = ''too_late''"
| "cancellation_string CancellationManual = ''manual_required''"
| "cancellation_string (CancellationOther s) = s"

fun cancellation_transitions :: "cancellation_state \<Rightarrow> cancellation_state list option" where
  "cancellation_transitions CancellationNotRequested = Some
      [CancellationRequested, CancellationPrevented]"
| "cancellation_transitions CancellationRequested = Some
      [CancellationRequesting, CancellationAccepted, CancellationPrevented, CancellationConfirmed,
        CancellationTooLate, CancellationManual]"
| "cancellation_transitions CancellationRequesting = Some
      [CancellationAccepted, CancellationConfirmed, CancellationTooLate, CancellationManual]"
| "cancellation_transitions CancellationAccepted = Some
      [CancellationConfirmed, CancellationTooLate, CancellationManual]"
| "cancellation_transitions CancellationPrevented = Some []"
| "cancellation_transitions CancellationConfirmed = Some []"
| "cancellation_transitions CancellationTooLate = Some []"
| "cancellation_transitions CancellationManual = Some
      [CancellationRequested, CancellationConfirmed, CancellationTooLate]"
| "cancellation_transitions (CancellationOther _) = None"

definition cancellation_valid :: "cancellation_state \<Rightarrow> bool" where
  "cancellation_valid s \<longleftrightarrow> cancellation_transitions s \<noteq> None"

subsection \<open>Whether remote compute may be active\<close>

datatype remote_activity_state =
    RemoteActivityNotStarted | RemoteActivityUnknown | RemoteActivityPossible
  | RemoteActivityActive | RemoteActivityInactive | RemoteActivityOther string

fun remote_activity_string :: "remote_activity_state \<Rightarrow> string" where
  "remote_activity_string RemoteActivityNotStarted = ''not_started''"
| "remote_activity_string RemoteActivityUnknown = ''unknown''"
| "remote_activity_string RemoteActivityPossible = ''possible''"
| "remote_activity_string RemoteActivityActive = ''active''"
| "remote_activity_string RemoteActivityInactive = ''inactive''"
| "remote_activity_string (RemoteActivityOther s) = s"

fun remote_activity_transitions :: "remote_activity_state \<Rightarrow> remote_activity_state list option" where
  "remote_activity_transitions RemoteActivityNotStarted = Some
      [RemoteActivityUnknown, RemoteActivityPossible, RemoteActivityActive, RemoteActivityInactive]"
| "remote_activity_transitions RemoteActivityUnknown = Some
      [RemoteActivityPossible, RemoteActivityActive, RemoteActivityInactive]"
| "remote_activity_transitions RemoteActivityPossible = Some
      [RemoteActivityActive, RemoteActivityInactive]"
| "remote_activity_transitions RemoteActivityActive = Some
      [RemoteActivityInactive]"
| "remote_activity_transitions RemoteActivityInactive = Some []"
| "remote_activity_transitions (RemoteActivityOther _) = None"

definition remote_activity_valid :: "remote_activity_state \<Rightarrow> bool" where
  "remote_activity_valid s \<longleftrightarrow> remote_activity_transitions s \<noteq> None"

subsection \<open>Hardware-release evidence\<close>

datatype release_evidence =
    ReleaseEvidenceUnknown | ReleaseEvidenceNotApplicable | ReleaseEvidenceNotObservable
  | ReleaseEvidenceProviderReported | ReleaseEvidenceConfirmed | ReleaseEvidenceOther string

fun release_evidence_string :: "release_evidence \<Rightarrow> string" where
  "release_evidence_string ReleaseEvidenceUnknown = ''unknown''"
| "release_evidence_string ReleaseEvidenceNotApplicable = ''not_applicable''"
| "release_evidence_string ReleaseEvidenceNotObservable = ''not_observable''"
| "release_evidence_string ReleaseEvidenceProviderReported = ''provider_reported''"
| "release_evidence_string ReleaseEvidenceConfirmed = ''confirmed''"
| "release_evidence_string (ReleaseEvidenceOther s) = s"

fun release_evidence_transitions :: "release_evidence \<Rightarrow> release_evidence list option" where
  "release_evidence_transitions ReleaseEvidenceUnknown = Some
      [ReleaseEvidenceNotApplicable, ReleaseEvidenceNotObservable,
        ReleaseEvidenceProviderReported, ReleaseEvidenceConfirmed]"
| "release_evidence_transitions ReleaseEvidenceNotApplicable = Some []"
| "release_evidence_transitions ReleaseEvidenceNotObservable = Some
      [ReleaseEvidenceProviderReported, ReleaseEvidenceConfirmed]"
| "release_evidence_transitions ReleaseEvidenceProviderReported = Some
      [ReleaseEvidenceConfirmed]"
| "release_evidence_transitions ReleaseEvidenceConfirmed = Some []"
| "release_evidence_transitions (ReleaseEvidenceOther _) = None"

definition release_evidence_valid :: "release_evidence \<Rightarrow> bool" where
  "release_evidence_valid s \<longleftrightarrow> release_evidence_transitions s \<noteq> None"

lemmas state_valid_defs =
  orchestration_valid_def execution_valid_def result_valid_def cancellation_valid_def
  remote_activity_valid_def release_evidence_valid_def

lemma orchestration_terminal_iff:
  "orchestration_terminal s \<longleftrightarrow> orchestration_transitions s = Some []"
  by (cases s) auto

lemma execution_terminal_iff: "execution_terminal s \<longleftrightarrow> execution_transitions s = Some []"
  by (cases s) auto

interpretation orch: transition_graph orchestration_transitions orchestration_valid orchestration_terminal
  by unfold_locales
    (auto simp: orchestration_valid_def orchestration_terminal_iff elim!: orchestration_transitions.elims)

interpretation exec: transition_graph execution_transitions execution_valid execution_terminal
  by unfold_locales
    (auto simp: execution_valid_def execution_terminal_iff elim!: execution_transitions.elims)

interpretation res: transition_graph result_transitions result_valid "\<lambda>s. s = ResultExpired"
  by unfold_locales (auto simp: result_valid_def elim!: result_transitions.elims)

interpretation canc: transition_graph cancellation_transitions cancellation_valid
    "\<lambda>s. s = CancellationPrevented \<or> s = CancellationConfirmed \<or> s = CancellationTooLate"
  by unfold_locales (auto simp: cancellation_valid_def elim!: cancellation_transitions.elims)

fun remote_activity_rank :: "remote_activity_state \<Rightarrow> nat" where
  "remote_activity_rank RemoteActivityNotStarted = 0"
| "remote_activity_rank RemoteActivityUnknown = 1"
| "remote_activity_rank RemoteActivityPossible = 2"
| "remote_activity_rank RemoteActivityActive = 3"
| "remote_activity_rank RemoteActivityInactive = 4"
| "remote_activity_rank (RemoteActivityOther _) = 0"

interpretation act: monotone_graph remote_activity_transitions remote_activity_valid
    "\<lambda>s. s = RemoteActivityInactive" remote_activity_rank
  by unfold_locales (auto simp: remote_activity_valid_def elim!: remote_activity_transitions.elims)

fun release_evidence_rank :: "release_evidence \<Rightarrow> nat" where
  "release_evidence_rank ReleaseEvidenceUnknown = 0"
| "release_evidence_rank ReleaseEvidenceNotObservable = 1"
| "release_evidence_rank ReleaseEvidenceProviderReported = 2"
| "release_evidence_rank ReleaseEvidenceNotApplicable = 3"
| "release_evidence_rank ReleaseEvidenceConfirmed = 3"
| "release_evidence_rank (ReleaseEvidenceOther _) = 0"

interpretation rel: monotone_graph release_evidence_transitions release_evidence_valid
    "\<lambda>s. s = ReleaseEvidenceNotApplicable \<or> s = ReleaseEvidenceConfirmed" release_evidence_rank
  by unfold_locales (auto simp: release_evidence_valid_def elim!: release_evidence_transitions.elims)


section \<open>The attempt state\<close>

record attempt_state =
  orchestration :: orchestration_state
  execution :: execution_state
  result :: result_state
  cancellation :: cancellation_state
  remote_activity :: remote_activity_state
  release_evidence :: release_evidence
  deadline_exceeded :: bool

definition InitialAttemptState :: attempt_state where
  "InitialAttemptState =
     \<lparr>orchestration = OrchestrationQueued,
      execution = ExecutionNotSubmitted,
      result = ResultNotAvailable,
      cancellation = CancellationNotRequested,
      remote_activity = RemoteActivityNotStarted,
      release_evidence = ReleaseEvidenceUnknown,
      deadline_exceeded = False\<rparr>"

text \<open>The checks of \<open>AttemptState.Validate\<close>, group by group in the order of the source.\<close>

definition validate_dimensions :: "attempt_state \<Rightarrow> domain_error option list" where
  "validate_dimensions st =
     [fail_if (\<not> orchestration_valid (orchestration st))
        (Errorf ''invalid orchestration state %q'' [orchestration_string (orchestration st)]),
      fail_if (\<not> execution_valid (execution st))
        (Errorf ''invalid execution state %q'' [execution_string (execution st)]),
      fail_if (\<not> result_valid (result st))
        (Errorf ''invalid result state %q'' [result_string (result st)]),
      fail_if (\<not> cancellation_valid (cancellation st))
        (Errorf ''invalid cancellation state %q'' [cancellation_string (cancellation st)]),
      fail_if (\<not> remote_activity_valid (remote_activity st))
        (Errorf ''invalid remote activity state %q'' [remote_activity_string (remote_activity st)]),
      fail_if (\<not> release_evidence_valid (release_evidence st))
        (Errorf ''invalid release evidence %q'' [release_evidence_string (release_evidence st)])]"

definition validate_activity :: "attempt_state \<Rightarrow> domain_error option list" where
  "validate_activity st =
     [fail_if (execution_terminal (execution st) \<and> remote_activity st \<noteq> RemoteActivityInactive)
        (Errorf ''terminal execution %q requires inactive remote activity''
           [execution_string (execution st)]),
      fail_if (execution st \<in> {ExecutionQueued, ExecutionStarting, ExecutionRunning}
          \<and> (remote_activity st = RemoteActivityNotStarted \<or> remote_activity st = RemoteActivityInactive))
        (Errorf ''active execution %q contradicts remote activity %q''
           [execution_string (execution st), remote_activity_string (remote_activity st)]),
      fail_if (execution st = ExecutionNotSubmitted
          \<and> (remote_activity st = RemoteActivityPossible \<or> remote_activity st = RemoteActivityActive))
        (Errorf ''not-submitted execution contradicts remote activity %q''
           [remote_activity_string (remote_activity st)]),
      fail_if (remote_activity st = RemoteActivityActive \<and> execution_terminal (execution st))
        (Errorf ''active remote execution cannot have terminal execution state %q''
           [execution_string (execution st)]),
      fail_if (result st \<noteq> ResultNotAvailable \<and> \<not> execution_terminal (execution st))
        (Errorf ''result state %q requires terminal execution evidence'' [result_string (result st)])]"

definition validate_result :: "attempt_state \<Rightarrow> domain_error option" where
  "validate_result st =
     (case result st of
        ResultCollecting \<Rightarrow>
          fail_if (orchestration st \<notin> {OrchestrationCollecting, OrchestrationReconciling,
              OrchestrationNeedsAttention})
            (Errorf ''result state %q requires collection or reconciliation orchestration''
               [result_string (result st)])
      | ResultIncomplete \<Rightarrow>
          fail_if (orchestration st \<notin> {OrchestrationCollecting, OrchestrationReconciling,
              OrchestrationNeedsAttention, OrchestrationFailed})
            (Errorf ''result state %q requires collection, reconciliation, attention, or failed orchestration''
               [result_string (result st)])
      | ResultInvalid \<Rightarrow>
          fail_if (orchestration st \<notin> {OrchestrationCollecting, OrchestrationReconciling,
              OrchestrationNeedsAttention, OrchestrationFailed})
            (Errorf ''result state %q requires collection, reconciliation, attention, or failed orchestration''
               [result_string (result st)])
      | _ \<Rightarrow> None)"

definition validate_cancellation :: "attempt_state \<Rightarrow> domain_error option" where
  "validate_cancellation st =
     (case cancellation st of
        CancellationPrevented \<Rightarrow>
          first_error
            [fail_if (execution st \<noteq> ExecutionNotSubmitted)
               (errors_new ''prevented cancellation requires a not-submitted execution''),
             fail_if (remote_activity st \<noteq> RemoteActivityNotStarted
                 \<and> remote_activity st \<noteq> RemoteActivityInactive)
               (errors_new ''prevented cancellation requires no possible remote activity'')]
      | CancellationConfirmed \<Rightarrow>
          fail_if (execution st \<noteq> ExecutionCancelled \<or> remote_activity st \<noteq> RemoteActivityInactive)
            (errors_new ''confirmed cancellation requires cancelled execution and inactive remote activity'')
      | CancellationTooLate \<Rightarrow>
          fail_if (\<not> execution_terminal (execution st))
            (errors_new ''too-late cancellation requires terminal execution evidence'')
      | _ \<Rightarrow> None)"

definition validate_release :: "attempt_state \<Rightarrow> domain_error option list" where
  "validate_release st =
     [fail_if (release_evidence st = ReleaseEvidenceNotApplicable \<and> execution st \<noteq> ExecutionNotSubmitted)
        (errors_new ''release evidence is not applicable only when execution was not submitted''),
      fail_if (release_evidence st = ReleaseEvidenceNotApplicable
          \<and> \<not> orchestration_terminal (orchestration st))
        (errors_new ''not-applicable release evidence is only final after terminal orchestration''),
      fail_if ((release_evidence st = ReleaseEvidenceProviderReported
            \<or> release_evidence st = ReleaseEvidenceConfirmed)
          \<and> remote_activity st \<noteq> RemoteActivityInactive)
        (Errorf ''release evidence %q requires inactive remote activity''
           [release_evidence_string (release_evidence st)])]"

definition cancellation_idle :: "attempt_state \<Rightarrow> bool" where
  "cancellation_idle st \<longleftrightarrow>
     cancellation st = CancellationNotRequested \<or> cancellation st = CancellationTooLate"

definition validate_orchestration :: "attempt_state \<Rightarrow> domain_error option" where
  "validate_orchestration st =
     (case orchestration st of
        OrchestrationSubmitted \<Rightarrow>
          fail_if (execution st = ExecutionNotSubmitted \<or> remote_activity st = RemoteActivityNotStarted
              \<or> remote_activity st = RemoteActivityInactive)
            (errors_new ''submitted orchestration requires accepted or ambiguous remote execution'')
      | OrchestrationRunning \<Rightarrow>
          fail_if (execution st \<noteq> ExecutionStarting \<and> execution st \<noteq> ExecutionRunning)
            (errors_new ''running orchestration requires starting or running execution evidence'')
      | OrchestrationCollecting \<Rightarrow>
          fail_if (\<not> execution_terminal (execution st))
            (errors_new ''collecting requires terminal execution evidence'')
      | OrchestrationSucceeded \<Rightarrow>
          first_error
            [fail_if (execution st \<noteq> ExecutionSucceeded)
               (errors_new ''succeeded orchestration requires succeeded execution''),
             fail_if (result st \<noteq> ResultAvailable \<and> result st \<noteq> ResultExpired)
               (errors_new ''succeeded orchestration requires verified or retained-as-expired results''),
             fail_if (\<not> cancellation_idle st)
               (Errorf ''succeeded orchestration contradicts cancellation %q''
                  [cancellation_string (cancellation st)])]
      | OrchestrationFailed \<Rightarrow>
          first_error
            [fail_if (execution st \<notin> {ExecutionNotSubmitted, ExecutionSucceeded, ExecutionFailed})
               (errors_new ''failed orchestration requires proven local, payload, or result failure''),
             fail_if (\<not> cancellation_idle st)
               (Errorf ''failed orchestration contradicts cancellation %q''
                  [cancellation_string (cancellation st)])]
      | OrchestrationCancelled \<Rightarrow>
          first_error
            [fail_if (cancellation st \<noteq> CancellationPrevented \<and> cancellation st \<noteq> CancellationConfirmed)
               (errors_new ''cancelled orchestration requires prevented or confirmed cancellation''),
             fail_if (execution st \<noteq> ExecutionNotSubmitted \<and> execution st \<noteq> ExecutionCancelled)
               (Errorf ''cancelled orchestration contradicts execution %q''
                  [execution_string (execution st)])]
      | OrchestrationTimedOut \<Rightarrow>
          first_error
            [fail_if (\<not> cancellation_idle st)
               (Errorf ''timed-out orchestration contradicts cancellation %q''
                  [cancellation_string (cancellation st)]),
             fail_if (\<not> deadline_exceeded st)
               (errors_new ''timed-out orchestration requires deadline evidence''),
             fail_if (execution st \<noteq> ExecutionNotSubmitted \<and> execution st \<noteq> ExecutionTimedOut)
               (Errorf ''timed-out orchestration contradicts execution %q''
                  [execution_string (execution st)])]
      | _ \<Rightarrow> None)"

definition validate_end :: "attempt_state \<Rightarrow> domain_error option" where
  "validate_end st =
     fail_if (orchestration_terminal (orchestration st)
         \<and> remote_activity st \<noteq> RemoteActivityInactive \<and> remote_activity st \<noteq> RemoteActivityNotStarted)
       (Errorf ''terminal orchestration cannot leave remote activity %q''
          [remote_activity_string (remote_activity st)])"

definition validate_attempt_state :: "attempt_state \<Rightarrow> domain_error option" where
  "validate_attempt_state st =
     first_error
       (validate_dimensions st @ validate_activity st @ [validate_result st, validate_cancellation st]
         @ validate_release st @ [validate_orchestration st, validate_end st])"

abbreviation state_ok :: "attempt_state \<Rightarrow> bool" where
  "state_ok st \<equiv> validate_attempt_state st = None"

lemmas validate_parts =
  validate_dimensions_def validate_activity_def validate_result_def validate_cancellation_def
  validate_release_def validate_orchestration_def validate_end_def cancellation_idle_def

lemma initial_state_ok [simp]: "state_ok InitialAttemptState"
  by (simp add: validate_attempt_state_def validate_parts InitialAttemptState_def state_valid_defs)

subsection \<open>What a valid state says\<close>

lemma state_ok_dimensions:
  assumes "state_ok st"
  shows "orchestration_valid (orchestration st)" "execution_valid (execution st)"
    "result_valid (result st)" "cancellation_valid (cancellation st)"
    "remote_activity_valid (remote_activity st)" "release_evidence_valid (release_evidence st)"
  using assms by (auto simp: validate_attempt_state_def validate_dimensions_def)

lemma state_ok_activity:
  assumes "state_ok st"
  shows "execution_terminal (execution st) \<Longrightarrow> remote_activity st = RemoteActivityInactive"
    "execution st \<in> {ExecutionQueued, ExecutionStarting, ExecutionRunning} \<Longrightarrow>
       remote_activity st \<noteq> RemoteActivityNotStarted \<and> remote_activity st \<noteq> RemoteActivityInactive"
    "execution st = ExecutionNotSubmitted \<Longrightarrow>
       remote_activity st \<noteq> RemoteActivityPossible \<and> remote_activity st \<noteq> RemoteActivityActive"
    "result st \<noteq> ResultNotAvailable \<Longrightarrow> execution_terminal (execution st)"
  using assms by (auto simp: validate_attempt_state_def validate_activity_def)

lemma state_ok_end:
  assumes "state_ok st" "orchestration_terminal (orchestration st)"
  shows "remote_activity st = RemoteActivityInactive \<or> remote_activity st = RemoteActivityNotStarted"
  using assms by (auto simp: validate_attempt_state_def validate_end_def)

lemma state_ok_orchestration: "state_ok st \<Longrightarrow> validate_orchestration st = None"
  by (simp add: validate_attempt_state_def)

lemma state_ok_cancellation: "state_ok st \<Longrightarrow> validate_cancellation st = None"
  by (simp add: validate_attempt_state_def)

lemma state_ok_succeeded:
  assumes "state_ok st" "orchestration st = OrchestrationSucceeded"
  shows "execution st = ExecutionSucceeded" "result st = ResultAvailable \<or> result st = ResultExpired"
    "cancellation_idle st" "remote_activity st = RemoteActivityInactive"
  using state_ok_orchestration [OF assms(1)] state_ok_activity(1) [OF assms(1)] assms(2)
  by (auto simp: validate_orchestration_def)

lemma state_ok_prevented:
  assumes "state_ok st" "cancellation st = CancellationPrevented"
  shows "execution st = ExecutionNotSubmitted"
    "remote_activity st = RemoteActivityNotStarted \<or> remote_activity st = RemoteActivityInactive"
  using state_ok_cancellation [OF assms(1)] assms(2) by (auto simp: validate_cancellation_def)

lemma state_ok_confirmed:
  assumes "state_ok st" "cancellation st = CancellationConfirmed"
  shows "execution st = ExecutionCancelled" "remote_activity st = RemoteActivityInactive"
  using state_ok_cancellation [OF assms(1)] assms(2) by (auto simp: validate_cancellation_def)


section \<open>Transitions of the attempt state\<close>

text \<open>Exact resource absence ends activity without inventing an exit outcome.\<close>

definition absent_transition :: "attempt_state \<Rightarrow> attempt_state \<Rightarrow> bool" where
  "absent_transition current next_state \<longleftrightarrow>
     execution current \<in> {ExecutionQueued, ExecutionStarting, ExecutionRunning}
     \<and> execution next_state = ExecutionUnknown
     \<and> orchestration next_state = OrchestrationNeedsAttention
     \<and> remote_activity next_state = RemoteActivityInactive
     \<and> release_evidence next_state = ReleaseEvidenceProviderReported"

definition ValidateAttemptStateTransition :: "attempt_state \<Rightarrow> attempt_state \<Rightarrow> domain_error option" where
  "ValidateAttemptStateTransition current next_state =
     first_error
       [map_option (Wrapped ''current attempt state: %w'') (validate_attempt_state current),
        map_option (Wrapped ''next attempt state: %w'') (validate_attempt_state next_state),
        validateTransition orchestration_string ''orchestration''
          (orchestration current) (orchestration next_state) orchestration_transitions,
        (if absent_transition current next_state then None
         else validateTransition execution_string ''execution''
           (execution current) (execution next_state) execution_transitions),
        validateTransition result_string ''result'' (result current) (result next_state) result_transitions,
        validateTransition cancellation_string ''cancellation''
          (cancellation current) (cancellation next_state) cancellation_transitions,
        validateTransition remote_activity_string ''remote activity''
          (remote_activity current) (remote_activity next_state) remote_activity_transitions,
        validateTransition release_evidence_string ''release evidence''
          (release_evidence current) (release_evidence next_state) release_evidence_transitions,
        fail_if (deadline_exceeded current \<and> \<not> deadline_exceeded next_state)
          (TransitionError ''deadline'' ''exceeded'' ''not_exceeded'')]"

definition attempt_step :: "attempt_state \<Rightarrow> attempt_state \<Rightarrow> bool" where
  "attempt_step s t \<longleftrightarrow> ValidateAttemptStateTransition s t = None"

lemma attempt_step_iff:
  "attempt_step s t \<longleftrightarrow>
     state_ok s \<and> state_ok t
     \<and> graph_step orchestration_transitions (orchestration s) (orchestration t)
     \<and> (absent_transition s t \<or> graph_step execution_transitions (execution s) (execution t))
     \<and> graph_step result_transitions (result s) (result t)
     \<and> graph_step cancellation_transitions (cancellation s) (cancellation t)
     \<and> graph_step remote_activity_transitions (remote_activity s) (remote_activity t)
     \<and> graph_step release_evidence_transitions (release_evidence s) (release_evidence t)
     \<and> (deadline_exceeded s \<longrightarrow> deadline_exceeded t)"
  by (auto simp: attempt_step_def ValidateAttemptStateTransition_def)

lemma attempt_step_refl: "state_ok s \<Longrightarrow> attempt_step s s"
  by (simp add: attempt_step_iff graph_step_def)

lemma attempt_run_ok: "attempt_step\<^sup>*\<^sup>* s t \<Longrightarrow> state_ok s \<Longrightarrow> state_ok t"
  by (induction rule: rtranclp_induct) (auto simp: attempt_step_iff)

text \<open>The runs of an attempt, dimension by dimension.\<close>

lemma attempt_run_orchestration:
  "attempt_step\<^sup>*\<^sup>* s t \<Longrightarrow> (graph_step orchestration_transitions)\<^sup>*\<^sup>* (orchestration s) (orchestration t)"
  by (induction rule: rtranclp_induct) (auto simp: attempt_step_iff intro: rtranclp.rtrancl_into_rtrancl)

lemma attempt_run_activity:
  "attempt_step\<^sup>*\<^sup>* s t \<Longrightarrow>
     (graph_step remote_activity_transitions)\<^sup>*\<^sup>* (remote_activity s) (remote_activity t)"
  by (induction rule: rtranclp_induct) (auto simp: attempt_step_iff intro: rtranclp.rtrancl_into_rtrancl)

lemma attempt_run_release:
  "attempt_step\<^sup>*\<^sup>* s t \<Longrightarrow>
     (graph_step release_evidence_transitions)\<^sup>*\<^sup>* (release_evidence s) (release_evidence t)"
  by (induction rule: rtranclp_induct) (auto simp: attempt_step_iff intro: rtranclp.rtrancl_into_rtrancl)

lemma attempt_run_cancellation:
  "attempt_step\<^sup>*\<^sup>* s t \<Longrightarrow>
     (graph_step cancellation_transitions)\<^sup>*\<^sup>* (cancellation s) (cancellation t)"
  by (induction rule: rtranclp_induct) (auto simp: attempt_step_iff intro: rtranclp.rtrancl_into_rtrancl)

lemma attempt_step_execution_final:
  "attempt_step s t \<Longrightarrow> execution_terminal (execution s) \<Longrightarrow> execution t = execution s"
  by (auto simp: attempt_step_iff absent_transition_def dest: exec.final_absorbing)

lemma attempt_run_execution_final:
  "attempt_step\<^sup>*\<^sup>* s t \<Longrightarrow> execution_terminal (execution s) \<Longrightarrow> execution t = execution s"
  by (induction rule: rtranclp_induct) (auto dest: attempt_step_execution_final)

text \<open>An available result comes out of a collection.\<close>

lemma available_from_collecting:
  "graph_step result_transitions r ResultAvailable \<Longrightarrow> r \<noteq> ResultAvailable \<Longrightarrow> r = ResultCollecting"
  by (cases r) (auto simp: graph_step_def)

lemma state_ok_collecting:
  assumes "state_ok st" "result st = ResultCollecting"
  shows "orchestration st \<in> {OrchestrationCollecting, OrchestrationReconciling, OrchestrationNeedsAttention}"
    "execution_terminal (execution st)"
proof -
  have "validate_result st = None" using assms(1) by (simp add: validate_attempt_state_def)
  then show "orchestration st \<in> {OrchestrationCollecting, OrchestrationReconciling, OrchestrationNeedsAttention}"
    using assms(2) by (simp add: validate_result_def)
  show "execution_terminal (execution st)" using assms(2) by (intro state_ok_activity(4) [OF assms(1)]) simp
qed

definition collected_between :: "attempt_state \<Rightarrow> attempt_state \<Rightarrow> bool" where
  "collected_between s u \<longleftrightarrow>
     (\<exists>m m'. attempt_step\<^sup>*\<^sup>* s m \<and> attempt_step m m' \<and> attempt_step\<^sup>*\<^sup>* m' u
       \<and> result m = ResultCollecting \<and> result m' = ResultAvailable
       \<and> execution m = execution u
       \<and> orchestration m \<in> {OrchestrationCollecting, OrchestrationReconciling,
           OrchestrationNeedsAttention})"

lemma collected_now:
  assumes "attempt_step\<^sup>*\<^sup>* s m" "attempt_step m u" "state_ok m" "result m = ResultCollecting"
    "result u = ResultAvailable"
  shows "collected_between s u"
  unfolding collected_between_def
proof (intro exI conjI)
  show "attempt_step\<^sup>*\<^sup>* s m" "attempt_step m u" "attempt_step\<^sup>*\<^sup>* u u" using assms(1,2) by simp_all
  show "execution m = execution u"
    using attempt_step_execution_final [OF assms(2) state_ok_collecting(2) [OF assms(3,4)]] by simp
qed (use assms(4,5) state_ok_collecting(1) [OF assms(3,4)] in simp_all)

lemma collected_before:
  assumes "collected_between s t" "attempt_step t u" "execution u = execution t"
  shows "collected_between s u"
proof -
  obtain m m' where "attempt_step\<^sup>*\<^sup>* s m" "attempt_step m m'" "attempt_step\<^sup>*\<^sup>* m' t"
    "result m = ResultCollecting" "result m' = ResultAvailable" "execution m = execution t"
    "orchestration m \<in> {OrchestrationCollecting, OrchestrationReconciling, OrchestrationNeedsAttention}"
    using assms(1) unfolding collected_between_def by (elim exE conjE)
  moreover have "attempt_step\<^sup>*\<^sup>* m' u"
    using \<open>attempt_step\<^sup>*\<^sup>* m' t\<close> assms(2) by (rule rtranclp.rtrancl_into_rtrancl)
  ultimately show ?thesis using assms(3) unfolding collected_between_def by (intro exI conjI) simp_all
qed

lemma available_was_collected:
  assumes "attempt_step\<^sup>*\<^sup>* s u" "state_ok s" "result s \<noteq> ResultAvailable" "result u = ResultAvailable"
  shows "collected_between s u"
  using assms(1,4)
proof (induction rule: rtranclp_induct)
  case base
  then show ?case using assms(3) by simp
next
  case (step t u)
  have ok: "state_ok t" using step.hyps(1) assms(2) by (rule attempt_run_ok)
  show ?case
  proof (cases "result t = ResultAvailable")
    case True
    then have "execution u = execution t"
      using state_ok_activity(4) [OF ok] attempt_step_execution_final [OF step.hyps(2)] by simp
    then show ?thesis using collected_before [OF step.IH [OF True] step.hyps(2)] by simp
  next
    case False
    have "graph_step result_transitions (result t) ResultAvailable"
      using step.hyps(2) step.prems by (simp add: attempt_step_iff)
    then have "result t = ResultCollecting" using False by (rule available_from_collecting)
    then show ?thesis using collected_now [OF step.hyps(1,2) ok] step.prems by simp
  qed
qed

lemma attempt_run_deadline: "attempt_step\<^sup>*\<^sup>* s t \<Longrightarrow> deadline_exceeded s \<Longrightarrow> deadline_exceeded t"
  by (induction rule: rtranclp_induct) (auto simp: attempt_step_iff)


section \<open>Properties\<close>

definition cancelled_before_start :: attempt_state where
  "cancelled_before_start = InitialAttemptState
     \<lparr>orchestration := OrchestrationCancelled, cancellation := CancellationPrevented,
      release_evidence := ReleaseEvidenceNotApplicable\<rparr>"

definition remote_running :: attempt_state where
  "remote_running = InitialAttemptState
     \<lparr>orchestration := OrchestrationRunning, execution := ExecutionRunning,
      remote_activity := RemoteActivityActive\<rparr>"

definition collected_success :: attempt_state where
  "collected_success = remote_running
     \<lparr>orchestration := OrchestrationSucceeded, execution := ExecutionSucceeded, result := ResultAvailable,
      remote_activity := RemoteActivityInactive, release_evidence := ReleaseEvidenceProviderReported\<rparr>"

definition collecting_success :: attempt_state where
  "collecting_success = collected_success
     \<lparr>orchestration := OrchestrationCollecting, result := ResultCollecting\<rparr>"

definition remote_absent :: attempt_state where
  "remote_absent = remote_running
     \<lparr>orchestration := OrchestrationNeedsAttention, execution := ExecutionUnknown,
      remote_activity := RemoteActivityInactive, release_evidence := ReleaseEvidenceProviderReported\<rparr>"

lemmas sample_states =
  cancelled_before_start_def remote_running_def collected_success_def collecting_success_def
  remote_absent_def
  InitialAttemptState_def

lemma sample_states_ok:
  "state_ok cancelled_before_start" "state_ok remote_running" "state_ok collected_success"
  "state_ok remote_absent" "state_ok collecting_success"
  by (simp_all add: validate_attempt_state_def validate_parts sample_states state_valid_defs)

lemma cancel_first_step: "attempt_step InitialAttemptState cancelled_before_start"
  by (simp add: attempt_step_iff sample_states_ok)
    (simp add: sample_states graph_step_def)

lemma absent_step: "attempt_step remote_running remote_absent"
  by (simp add: attempt_step_iff sample_states_ok)
    (simp add: sample_states graph_step_def absent_transition_def)

lemma publish_step: "attempt_step collecting_success collected_success"
  by (simp add: attempt_step_iff sample_states_ok)
    (simp add: sample_states graph_step_def)

text \<open>C22.  An attempt that has reached a terminal orchestration keeps it through every later accepted
  transition, and no later state admits that remote work may be running.\<close>

theorem terminal_orchestration_final:
  assumes "state_ok s" "orchestration_terminal (orchestration s)" "attempt_step\<^sup>*\<^sup>* s t"
  shows "orchestration t = orchestration s
    \<and> remote_activity t \<in> {RemoteActivityInactive, RemoteActivityNotStarted}"
proof -
  have "orchestration t = orchestration s"
    using attempt_run_orchestration [OF assms(3)] assms(2) by (rule orch.final_forever)
  then show ?thesis using state_ok_end [OF attempt_run_ok [OF assms(3,1)]] assms(2) by auto
qed

theorem terminal_orchestration_final_witness:
  "orchestration cancelled_before_start = orchestration cancelled_before_start
    \<and> remote_activity cancelled_before_start \<in> {RemoteActivityInactive, RemoteActivityNotStarted}"
  by (rule terminal_orchestration_final [OF sample_states_ok(1)]) (simp_all add: sample_states)

text \<open>C23.  A terminal execution outcome is never rewritten: along every run of accepted transitions the
  execution outcome, once terminal, is unchanged and the remote side stays inactive.\<close>

theorem terminal_execution_final:
  assumes "state_ok s" "execution_terminal (execution s)" "attempt_step\<^sup>*\<^sup>* s t"
  shows "execution t = execution s \<and> remote_activity t = RemoteActivityInactive"
proof -
  have "execution t = execution s" using assms(3,2) by (rule attempt_run_execution_final)
  then show ?thesis using state_ok_activity(1) [OF attempt_run_ok [OF assms(3,1)]] assms(2) by simp
qed

theorem terminal_execution_final_witness:
  "execution collected_success = execution collected_success
    \<and> remote_activity collected_success = RemoteActivityInactive"
  by (rule terminal_execution_final [OF sample_states_ok(3)]) (simp_all add: sample_states)

text \<open>C24.  Success is never invented: an attempt reported as succeeded, however it was reached from a
  valid state, has succeeded execution evidence, a result that is available or has expired, no remote
  activity and no effective cancellation, and every later state still does.  A result that was not
  available at the start and is available at the end became so in one accepted step out of a state in
  which the execution had already succeeded and the result was being collected.  (The graph lets a
  result expire without ever having been available, so an expired result is not evidence of a
  collection.)\<close>

theorem success_is_proven:
  assumes "state_ok s" "attempt_step\<^sup>*\<^sup>* s t" "orchestration t = OrchestrationSucceeded"
    "attempt_step\<^sup>*\<^sup>* t u"
  shows "orchestration u = OrchestrationSucceeded \<and> execution u = ExecutionSucceeded
    \<and> result u \<in> {ResultAvailable, ResultExpired} \<and> remote_activity u = RemoteActivityInactive
    \<and> cancellation u \<in> {CancellationNotRequested, CancellationTooLate}
    \<and> (result s \<noteq> ResultAvailable \<and> result u = ResultAvailable \<longrightarrow>
        (\<exists>m m'. attempt_step\<^sup>*\<^sup>* s m \<and> attempt_step m m' \<and> attempt_step\<^sup>*\<^sup>* m' u
          \<and> result m = ResultCollecting \<and> result m' = ResultAvailable
          \<and> execution m = ExecutionSucceeded
          \<and> orchestration m \<in> {OrchestrationCollecting, OrchestrationReconciling,
              OrchestrationNeedsAttention}))"
proof -
  have "state_ok t" using assms(2,1) by (rule attempt_run_ok)
  then have ok: "state_ok u" using attempt_run_ok [OF assms(4)] by blast
  have ended: "orchestration u = OrchestrationSucceeded"
    using orch.final_forever [OF attempt_run_orchestration [OF assms(4)]] assms(3) by simp
  note facts = state_ok_succeeded [OF ok ended]
  have "collected_between s u" if "result s \<noteq> ResultAvailable" "result u = ResultAvailable"
    using rtranclp_trans [OF assms(2,4)] assms(1) that by (rule available_was_collected)
  then show ?thesis
    using ended facts unfolding collected_between_def facts(1) by (simp add: cancellation_idle_def)
qed

theorem success_is_proven_witness:
  "orchestration collected_success = OrchestrationSucceeded \<and> execution collected_success = ExecutionSucceeded
    \<and> (\<exists>m m'. attempt_step\<^sup>*\<^sup>* collecting_success m \<and> attempt_step m m'
        \<and> attempt_step\<^sup>*\<^sup>* m' collected_success
        \<and> result m = ResultCollecting \<and> result m' = ResultAvailable
        \<and> execution m = ExecutionSucceeded)"
proof -
  have "orchestration collected_success = OrchestrationSucceeded"
    "result collected_success = ResultAvailable" "result collecting_success \<noteq> ResultAvailable"
    by (simp_all add: sample_states)
  then show ?thesis
    using success_is_proven [OF sample_states_ok(5) r_into_rtranclp [of attempt_step, OF publish_step]
        _ rtranclp.rtrancl_refl]
    by (simp only: simp_thms) blast
qed

text \<open>Evidence only accumulates: along every run the ranks of remote activity and of release
  evidence never fall, an unchanged rank means an unchanged value, and an exceeded deadline stays
  exceeded.\<close>

theorem evidence_monotone:
  assumes "attempt_step\<^sup>*\<^sup>* s t"
  shows "remote_activity_rank (remote_activity s) \<le> remote_activity_rank (remote_activity t)
    \<and> release_evidence_rank (release_evidence s) \<le> release_evidence_rank (release_evidence t)
    \<and> (remote_activity_rank (remote_activity t) = remote_activity_rank (remote_activity s)
        \<longrightarrow> remote_activity t = remote_activity s)
    \<and> (release_evidence_rank (release_evidence t) = release_evidence_rank (release_evidence s)
        \<longrightarrow> release_evidence t = release_evidence s)
    \<and> (deadline_exceeded s \<longrightarrow> deadline_exceeded t)"
  using act.rank_monotone [OF attempt_run_activity [OF assms]]
    act.equal_rank_unchanged [OF attempt_run_activity [OF assms]]
    rel.rank_monotone [OF attempt_run_release [OF assms]]
    rel.equal_rank_unchanged [OF attempt_run_release [OF assms]]
    attempt_run_deadline [OF assms]
  by blast

theorem evidence_monotone_witness:
  "remote_activity_rank (remote_activity remote_running)
      \<le> remote_activity_rank (remote_activity remote_absent)
    \<and> release_evidence_rank (release_evidence remote_running)
      \<le> release_evidence_rank (release_evidence remote_absent)"
  using evidence_monotone [OF r_into_rtranclp, OF absent_step] by blast

text \<open>C25.  A cancellation that was recorded as prevented, or as confirmed, is permanent and is never
  contradicted: after the first nothing was ever submitted, after the second the execution stays
  cancelled and inactive.\<close>

theorem cancellation_evidence_final:
  assumes "state_ok s" "attempt_step\<^sup>*\<^sup>* s t"
  shows "(cancellation s = CancellationPrevented \<longrightarrow>
        cancellation t = CancellationPrevented \<and> execution t = ExecutionNotSubmitted
        \<and> remote_activity t \<in> {RemoteActivityNotStarted, RemoteActivityInactive})
    \<and> (cancellation s = CancellationConfirmed \<longrightarrow>
        cancellation t = CancellationConfirmed \<and> execution t = ExecutionCancelled
        \<and> remote_activity t = RemoteActivityInactive)"
proof -
  have ok: "state_ok t" using assms(2,1) by (rule attempt_run_ok)
  have "cancellation t = cancellation s"
    if "cancellation s = CancellationPrevented \<or> cancellation s = CancellationConfirmed"
    using canc.final_forever [OF attempt_run_cancellation [OF assms(2)]] that by auto
  then show ?thesis using state_ok_prevented [OF ok] state_ok_confirmed [OF ok] by auto
qed

theorem cancellation_evidence_final_witness:
  "cancellation cancelled_before_start = CancellationPrevented
    \<and> execution cancelled_before_start = ExecutionNotSubmitted"
  using cancellation_evidence_final [OF sample_states_ok(1) rtranclp.rtrancl_refl]
  by (simp add: cancelled_before_start_def)

end
