(* ===== verification/Domain_Errors.thy ===== *)
theory Domain_Errors
  imports Domain_States "HOL-Library.Multiset"
begin

text \<open>
  The public error taxonomy of \<open>src/internal/domain/errors.go\<close> and \<open>http_errors.go\<close>: categories,
  codes, stages, recommended actions, the structured \<open>Problem\<close> value with its validation, and the
  projection of its details to the bounded public ones.

  Go's string enumerations are datatypes with one constructor per declared constant and a last
  constructor for every other string.  A Go map from strings to strings is a key-sorted association
  list without duplicates, with \<open>None\<close> for the nil map; an error's wrapped cause is not part of the
  value, because nothing that is stored or published reads it.
\<close>

section \<open>Categories, codes, stages and actions\<close>

datatype error_category =
  ErrorCategoryValidation | ErrorCategoryAuthenticationAuthorization
  | ErrorCategoryInputPreparation | ErrorCategoryProviderPreparation | ErrorCategorySubmission
  | ErrorCategoryExecution | ErrorCategoryObservation | ErrorCategoryResults
  | ErrorCategoryOperations | ErrorCategoryLocalRuntime | ErrorCategoryOther string

datatype error_code =
  CodeInvalidJobSpec | CodeUnsupportedCapability | CodeInvalidInputPath
  | CodeResourceRequirementUnsatisfied | CodeRuntimeAuthRequired | CodeWorkspaceForbidden
  | CodeProviderAuthFailed | CodeProviderAccessDenied | CodeInputNotFound
  | CodeInputFetchFailed | CodeInputChanged | CodeInputDigestMismatch | CodeInputTooLarge
  | CodeStagingFailed | CodeStagingNotReady | CodePrivateStagingUnavailable
  | CodeProviderStorageLimit | CodeProviderRejected | CodeProviderSubmissionUnknown
  | CodeProviderRateLimited | CodeQuotaExhausted | CodeDependencySetupFailed
  | CodeCommandFailed | CodeRemoteTimeout | CodeResourceExhausted | CodeProviderExecutionLost
  | CodeProviderUnreachable | CodeProviderStateUnknown | CodeLogCursorReset
  | CodeRemoteIdentityMismatch | CodeResultManifestMissing | CodeArtifactMissing
  | CodeArtifactDigestMismatch | CodeArtifactCollectionFailed | CodeRemoteCancelUnsupported
  | CodeRemoteExecutionUnresolved | CodeIllegalStateTransition | CodeIdempotencyConflict
  | CodeStateStoreUnavailable | CodeDiskLimitExceeded | CodeStateDirectoryLocked
  | CodeConfigurationInvalid | CodeRuntimeUnavailable | CodeRequestTimeout | CodeInvalidRequest
  | CodeRequestLimitExceeded | CodeOther string

primrec error_code_string :: "error_code \<Rightarrow> string" where
  "error_code_string CodeInvalidJobSpec = ''INVALID_JOB_SPEC''"
| "error_code_string CodeUnsupportedCapability = ''UNSUPPORTED_CAPABILITY''"
| "error_code_string CodeInvalidInputPath = ''INVALID_INPUT_PATH''"
| "error_code_string CodeResourceRequirementUnsatisfied = ''RESOURCE_REQUIREMENT_UNSATISFIED''"
| "error_code_string CodeRuntimeAuthRequired = ''RUNTIME_AUTH_REQUIRED''"
| "error_code_string CodeWorkspaceForbidden = ''WORKSPACE_FORBIDDEN''"
| "error_code_string CodeProviderAuthFailed = ''PROVIDER_AUTH_FAILED''"
| "error_code_string CodeProviderAccessDenied = ''PROVIDER_ACCESS_DENIED''"
| "error_code_string CodeInputNotFound = ''INPUT_NOT_FOUND''"
| "error_code_string CodeInputFetchFailed = ''INPUT_FETCH_FAILED''"
| "error_code_string CodeInputChanged = ''INPUT_CHANGED''"
| "error_code_string CodeInputDigestMismatch = ''INPUT_DIGEST_MISMATCH''"
| "error_code_string CodeInputTooLarge = ''INPUT_TOO_LARGE''"
| "error_code_string CodeStagingFailed = ''STAGING_FAILED''"
| "error_code_string CodeStagingNotReady = ''STAGING_NOT_READY''"
| "error_code_string CodePrivateStagingUnavailable = ''PRIVATE_STAGING_UNAVAILABLE''"
| "error_code_string CodeProviderStorageLimit = ''PROVIDER_STORAGE_LIMIT''"
| "error_code_string CodeProviderRejected = ''PROVIDER_REJECTED''"
| "error_code_string CodeProviderSubmissionUnknown = ''PROVIDER_SUBMISSION_UNKNOWN''"
| "error_code_string CodeProviderRateLimited = ''PROVIDER_RATE_LIMITED''"
| "error_code_string CodeQuotaExhausted = ''QUOTA_EXHAUSTED''"
| "error_code_string CodeDependencySetupFailed = ''DEPENDENCY_SETUP_FAILED''"
| "error_code_string CodeCommandFailed = ''COMMAND_FAILED''"
| "error_code_string CodeRemoteTimeout = ''REMOTE_TIMEOUT''"
| "error_code_string CodeResourceExhausted = ''RESOURCE_EXHAUSTED''"
| "error_code_string CodeProviderExecutionLost = ''PROVIDER_EXECUTION_LOST''"
| "error_code_string CodeProviderUnreachable = ''PROVIDER_UNREACHABLE''"
| "error_code_string CodeProviderStateUnknown = ''PROVIDER_STATE_UNKNOWN''"
| "error_code_string CodeLogCursorReset = ''LOG_CURSOR_RESET''"
| "error_code_string CodeRemoteIdentityMismatch = ''REMOTE_IDENTITY_MISMATCH''"
| "error_code_string CodeResultManifestMissing = ''RESULT_MANIFEST_MISSING''"
| "error_code_string CodeArtifactMissing = ''ARTIFACT_MISSING''"
| "error_code_string CodeArtifactDigestMismatch = ''ARTIFACT_DIGEST_MISMATCH''"
| "error_code_string CodeArtifactCollectionFailed = ''ARTIFACT_COLLECTION_FAILED''"
| "error_code_string CodeRemoteCancelUnsupported = ''REMOTE_CANCEL_UNSUPPORTED''"
| "error_code_string CodeRemoteExecutionUnresolved = ''REMOTE_EXECUTION_UNRESOLVED''"
| "error_code_string CodeIllegalStateTransition = ''ILLEGAL_STATE_TRANSITION''"
| "error_code_string CodeIdempotencyConflict = ''IDEMPOTENCY_CONFLICT''"
| "error_code_string CodeStateStoreUnavailable = ''STATE_STORE_UNAVAILABLE''"
| "error_code_string CodeDiskLimitExceeded = ''DISK_LIMIT_EXCEEDED''"
| "error_code_string CodeStateDirectoryLocked = ''STATE_DIRECTORY_LOCKED''"
| "error_code_string CodeConfigurationInvalid = ''CONFIGURATION_INVALID''"
| "error_code_string CodeRuntimeUnavailable = ''RUNTIME_UNAVAILABLE''"
| "error_code_string CodeRequestTimeout = ''REQUEST_TIMEOUT''"
| "error_code_string CodeInvalidRequest = ''INVALID_REQUEST''"
| "error_code_string CodeRequestLimitExceeded = ''REQUEST_LIMIT_EXCEEDED''"
| "error_code_string (CodeOther s) = s"

text \<open>The registered taxonomy, the additions of \<open>http_errors.go\<close> included.\<close>

definition errorCategories :: "(error_code \<times> error_category) list" where
  "errorCategories =
     [(CodeInvalidJobSpec, ErrorCategoryValidation),
      (CodeUnsupportedCapability, ErrorCategoryValidation),
      (CodeInvalidInputPath, ErrorCategoryValidation),
      (CodeResourceRequirementUnsatisfied, ErrorCategoryValidation),
      (CodeRuntimeAuthRequired, ErrorCategoryAuthenticationAuthorization),
      (CodeWorkspaceForbidden, ErrorCategoryAuthenticationAuthorization),
      (CodeProviderAuthFailed, ErrorCategoryAuthenticationAuthorization),
      (CodeProviderAccessDenied, ErrorCategoryAuthenticationAuthorization),
      (CodeInputNotFound, ErrorCategoryInputPreparation),
      (CodeInputFetchFailed, ErrorCategoryInputPreparation),
      (CodeInputChanged, ErrorCategoryInputPreparation),
      (CodeInputDigestMismatch, ErrorCategoryInputPreparation),
      (CodeInputTooLarge, ErrorCategoryInputPreparation),
      (CodeStagingFailed, ErrorCategoryProviderPreparation),
      (CodeStagingNotReady, ErrorCategoryProviderPreparation),
      (CodePrivateStagingUnavailable, ErrorCategoryProviderPreparation),
      (CodeProviderStorageLimit, ErrorCategoryProviderPreparation),
      (CodeProviderRejected, ErrorCategorySubmission),
      (CodeProviderSubmissionUnknown, ErrorCategorySubmission),
      (CodeProviderRateLimited, ErrorCategorySubmission),
      (CodeQuotaExhausted, ErrorCategorySubmission),
      (CodeDependencySetupFailed, ErrorCategoryExecution),
      (CodeCommandFailed, ErrorCategoryExecution),
      (CodeRemoteTimeout, ErrorCategoryExecution),
      (CodeResourceExhausted, ErrorCategoryExecution),
      (CodeProviderExecutionLost, ErrorCategoryExecution),
      (CodeProviderUnreachable, ErrorCategoryObservation),
      (CodeProviderStateUnknown, ErrorCategoryObservation),
      (CodeLogCursorReset, ErrorCategoryObservation),
      (CodeRemoteIdentityMismatch, ErrorCategoryObservation),
      (CodeResultManifestMissing, ErrorCategoryResults),
      (CodeArtifactMissing, ErrorCategoryResults),
      (CodeArtifactDigestMismatch, ErrorCategoryResults),
      (CodeArtifactCollectionFailed, ErrorCategoryResults),
      (CodeRemoteCancelUnsupported, ErrorCategoryOperations),
      (CodeRemoteExecutionUnresolved, ErrorCategoryOperations),
      (CodeIllegalStateTransition, ErrorCategoryOperations),
      (CodeIdempotencyConflict, ErrorCategoryOperations),
      (CodeStateStoreUnavailable, ErrorCategoryLocalRuntime),
      (CodeDiskLimitExceeded, ErrorCategoryLocalRuntime),
      (CodeStateDirectoryLocked, ErrorCategoryLocalRuntime),
      (CodeConfigurationInvalid, ErrorCategoryLocalRuntime),
      (CodeRuntimeUnavailable, ErrorCategoryLocalRuntime),
      (CodeRequestTimeout, ErrorCategoryLocalRuntime),
      (CodeInvalidRequest, ErrorCategoryValidation),
      (CodeRequestLimitExceeded, ErrorCategoryLocalRuntime)]"

definition error_code_category :: "error_code \<Rightarrow> error_category option" where
  "error_code_category code = map_of errorCategories code"

definition error_code_valid :: "error_code \<Rightarrow> bool" where
  "error_code_valid code \<longleftrightarrow> error_code_category code \<noteq> None"

text \<open>The order in which Go ranges over the registry is not determined: it is an argument.\<close>

definition AllErrorCodes :: "error_code list \<Rightarrow> error_code list" where
  "AllErrorCodes range_order = sort_key error_code_string range_order"

datatype failure_stage =
  FailureStageValidation | FailureStageAuthentication | FailureStageInputPreparation
  | FailureStageProviderPreparation | FailureStageSubmission | FailureStageExecution
  | FailureStageObservation | FailureStageResults | FailureStageOperation
  | FailureStageLocalRuntime | FailureStageOther string

primrec failure_stage_string :: "failure_stage \<Rightarrow> string" where
  "failure_stage_string FailureStageValidation = ''validation''"
| "failure_stage_string FailureStageAuthentication = ''authentication''"
| "failure_stage_string FailureStageInputPreparation = ''input_preparation''"
| "failure_stage_string FailureStageProviderPreparation = ''provider_preparation''"
| "failure_stage_string FailureStageSubmission = ''submission''"
| "failure_stage_string FailureStageExecution = ''execution''"
| "failure_stage_string FailureStageObservation = ''observation''"
| "failure_stage_string FailureStageResults = ''results''"
| "failure_stage_string FailureStageOperation = ''operation''"
| "failure_stage_string FailureStageLocalRuntime = ''local_runtime''"
| "failure_stage_string (FailureStageOther s) = s"

fun failure_stage_valid :: "failure_stage \<Rightarrow> bool" where
  "failure_stage_valid (FailureStageOther s) \<longleftrightarrow> False"
| "failure_stage_valid _ \<longleftrightarrow> True"

datatype recommended_action =
  RecommendedActionNone | RecommendedActionFixRequest | RecommendedActionConfigure
  | RecommendedActionWait | RecommendedActionRetryRead | RecommendedActionReconcile
  | RecommendedActionCollect | RecommendedActionRetryComputeExplicitly
  | RecommendedActionInspectProvider | RecommendedActionFreeSpace
  | RecommendedActionContactOperator | RecommendedActionOther string

primrec recommended_action_string :: "recommended_action \<Rightarrow> string" where
  "recommended_action_string RecommendedActionNone = ''none''"
| "recommended_action_string RecommendedActionFixRequest = ''fix_request''"
| "recommended_action_string RecommendedActionConfigure = ''configure''"
| "recommended_action_string RecommendedActionWait = ''wait''"
| "recommended_action_string RecommendedActionRetryRead = ''retry_read''"
| "recommended_action_string RecommendedActionReconcile = ''reconcile''"
| "recommended_action_string RecommendedActionCollect = ''collect''"
| "recommended_action_string RecommendedActionRetryComputeExplicitly = ''retry_compute_explicitly''"
| "recommended_action_string RecommendedActionInspectProvider = ''inspect_provider''"
| "recommended_action_string RecommendedActionFreeSpace = ''free_space''"
| "recommended_action_string RecommendedActionContactOperator = ''contact_operator''"
| "recommended_action_string (RecommendedActionOther s) = s"

fun recommended_action_valid :: "recommended_action \<Rightarrow> bool" where
  "recommended_action_valid (RecommendedActionOther s) \<longleftrightarrow> False"
| "recommended_action_valid _ \<longleftrightarrow> True"

fun defaultFailureStage :: "error_category \<Rightarrow> failure_stage" where
  "defaultFailureStage ErrorCategoryValidation = FailureStageValidation"
| "defaultFailureStage ErrorCategoryAuthenticationAuthorization = FailureStageAuthentication"
| "defaultFailureStage ErrorCategoryInputPreparation = FailureStageInputPreparation"
| "defaultFailureStage ErrorCategoryProviderPreparation = FailureStageProviderPreparation"
| "defaultFailureStage ErrorCategorySubmission = FailureStageSubmission"
| "defaultFailureStage ErrorCategoryExecution = FailureStageExecution"
| "defaultFailureStage ErrorCategoryObservation = FailureStageObservation"
| "defaultFailureStage ErrorCategoryResults = FailureStageResults"
| "defaultFailureStage ErrorCategoryOperations = FailureStageOperation"
| "defaultFailureStage ErrorCategoryLocalRuntime = FailureStageLocalRuntime"
| "defaultFailureStage (ErrorCategoryOther s) = FailureStageOther []"

section \<open>Detail maps\<close>

type_synonym details = "(string \<times> string) list option"

definition details_list :: "details \<Rightarrow> (string \<times> string) list" where
  "details_list d = (case d of None \<Rightarrow> [] | Some xs \<Rightarrow> xs)"

definition details_get :: "details \<Rightarrow> string \<Rightarrow> string" where
  "details_get d k = (case map_of (details_list d) k of None \<Rightarrow> [] | Some v \<Rightarrow> v)"

fun details_insert :: "string \<Rightarrow> string \<Rightarrow> (string \<times> string) list \<Rightarrow> (string \<times> string) list" where
  "details_insert k v [] = [(k, v)]"
| "details_insert k v ((k', v') # xs) =
     (if k < k' then (k, v) # (k', v') # xs
      else if k = k' then (k, v) # xs
      else (k', v') # details_insert k v xs)"

definition details_put :: "string \<Rightarrow> string \<Rightarrow> details \<Rightarrow> details" where
  "details_put k v d = Some (details_insert k v (details_list d))"

definition details_wf :: "details \<Rightarrow> bool" where
  "details_wf d \<longleftrightarrow> sorted_wrt (<) (map fst (details_list d))"

lemma details_list_simps [simp]: "details_list None = []" "details_list (Some xs) = xs"
  by (simp_all add: details_list_def)

lemma map_of_details_insert:
  "sorted_wrt (<) (map fst xs) \<Longrightarrow> map_of (details_insert k v xs) = (map_of xs)(k \<mapsto> v)"
  by (induction k v xs rule: details_insert.induct) (auto simp: fun_eq_iff)

lemma fst_details_insert: "fst ` set (details_insert k v xs) = insert k (fst ` set xs)"
  by (induction k v xs rule: details_insert.induct) auto

lemma set_details_insert: "set (details_insert k v xs) \<subseteq> insert (k, v) (set xs)"
  by (induction k v xs rule: details_insert.induct) auto

lemma sorted_details_insert:
  "sorted_wrt (<) (map fst xs) \<Longrightarrow> sorted_wrt (<) (map fst (details_insert k v xs))"
proof (induction k v xs rule: details_insert.induct)
  case (2 k v k' v' xs)
  have "set (map fst (details_insert k v xs)) = insert k (fst ` set xs)"
    using fst_details_insert by simp
  with 2 show ?case by (force simp flip: set_map)
qed simp

lemma details_wf_put [simp]: "details_wf d \<Longrightarrow> details_wf (details_put k v d)"
  by (simp add: details_wf_def details_put_def sorted_details_insert)

lemma details_get_put [simp]:
  "details_wf d \<Longrightarrow> details_get (details_put k v d) k' = (if k' = k then v else details_get d k')"
  by (simp add: details_get_def details_put_def details_wf_def map_of_details_insert)


section \<open>Problems\<close>

record problem =
  code :: error_code
  message :: string
  stage :: failure_stage
  safe_operation_retry :: bool
  compute_may_have_started :: bool
  recommended_action :: recommended_action
  details :: details

definition problem_validate :: "problem \<Rightarrow> domain_error option" where
  "problem_validate p =
     (let expected = (case error_code_category (code p) of
            None \<Rightarrow> FailureStageOther [] | Some category \<Rightarrow> defaultFailureStage category)
      in first_error
        [fail_if (\<not> error_code_valid (code p))
           (Errorf ''unknown error code %q'' [error_code_string (code p)]),
         fail_if (blank (message p)) (errors_new ''problem message must not be empty''),
         fail_if (\<not> failure_stage_valid (stage p))
           (Errorf ''invalid failure stage %q'' [failure_stage_string (stage p)]),
         fail_if (stage p \<noteq> expected)
           (Errorf ''error code %q requires failure stage %q, got %q''
              [error_code_string (code p), failure_stage_string expected, failure_stage_string (stage p)]),
         fail_if (\<not> recommended_action_valid (recommended_action p))
           (Errorf ''invalid recommended action %q'' [recommended_action_string (recommended_action p)]),
         fail_if (compute_may_have_started p \<and> safe_operation_retry p
             \<and> recommended_action p = RecommendedActionRetryComputeExplicitly)
           (errors_new ''ambiguous compute cannot be marked safe for automatic operation retry''),
         fail_if (list_ex (\<lambda>(key, _). blank key) (details_list (details p)))
           (errors_new ''problem detail keys must not be empty'')])"

definition NewProblem :: "error_code \<Rightarrow> string \<Rightarrow> failure_stage \<Rightarrow> domain_error + problem" where
  "NewProblem c msg st =
     (let p = \<lparr>code = c, message = trim_space msg, stage = st,
               safe_operation_retry = False, compute_may_have_started = False,
               recommended_action = RecommendedActionNone, details = None\<rparr>
      in guard_result (problem_validate p) p)"

definition WithRetrySemantics :: "bool \<Rightarrow> bool \<Rightarrow> problem \<Rightarrow> problem" where
  "WithRetrySemantics safe started p =
     p\<lparr>safe_operation_retry := safe, compute_may_have_started := started\<rparr>"

definition WithRecommendedAction :: "recommended_action \<Rightarrow> problem \<Rightarrow> problem" where
  "WithRecommendedAction action p = p\<lparr>recommended_action := action\<rparr>"

definition WithDetail :: "string \<Rightarrow> string \<Rightarrow> problem \<Rightarrow> problem" where
  "WithDetail key v p = p\<lparr>details := details_put key v (details p)\<rparr>"

definition problem_error :: "problem \<Rightarrow> string" where
  "problem_error p = error_code_string (code p) @ '': '' @ message p"

subsection \<open>Public details\<close>

definition ReasonDetail :: string where "ReasonDetail = ''reason''"
definition CauseDetail :: string where "CauseDetail = ''cause''"
definition FirstCauseDetail :: string where "FirstCauseDetail = ''first_cause''"

lemmas detail_keys = ReasonDetail_def CauseDetail_def FirstCauseDetail_def

definition lower_letter :: "char \<Rightarrow> bool" where
  "lower_letter c \<longleftrightarrow> 97 \<le> byte c \<and> byte c \<le> 122"

definition ValidReason :: "string \<Rightarrow> bool" where
  "ValidReason reason \<longleftrightarrow>
     (case reason of
        [] \<Rightarrow> False
      | c # _ \<Rightarrow> length reason \<le> 64 \<and> lower_letter c
          \<and> list_all (\<lambda>b. lower_letter b \<or> isASCIIDigit b \<or> b = CHR ''_'') reason)"

definition closedReason :: "string \<Rightarrow> bool" where
  "closedReason reason = ValidReason reason"

definition resource_byte :: "char \<Rightarrow> bool" where
  "resource_byte c \<longleftrightarrow> isASCIILetter c \<or> isASCIIDigit c \<or> c \<in> set ''-_./''"

definition ValidResourceName :: "string \<Rightarrow> bool" where
  "ValidResourceName name \<longleftrightarrow> name \<noteq> [] \<and> length name \<le> 256 \<and> list_all resource_byte name"

definition submission_status_ok :: "string \<Rightarrow> bool" where
  "submission_status_ok status \<longleftrightarrow>
     (case status of
        [a, b, c] \<Rightarrow> 49 \<le> byte a \<and> byte a \<le> 53 \<and> isASCIIDigit b \<and> isASCIIDigit c
      | _ \<Rightarrow> False)"

definition submission_error_types :: "string list" where
  "submission_error_types =
     [''unavailable'', ''http_error'', ''timeout'', ''interrupted'', ''transport'', ''invalid_response'',
      ''PERMISSION_DENIED'', ''UNAUTHENTICATED'', ''RESOURCE_EXHAUSTED'', ''UNAVAILABLE'',
      ''DEADLINE_EXCEEDED'', ''INVALID_ARGUMENT'', ''INTERNAL'', ''NOT_FOUND'', ''ALREADY_EXISTS'']"

definition submission_operations :: "string list" where
  "submission_operations = [''save_kernel'', ''verify_kernel'', ''unknown'']"

definition copy_detail :: "(string \<Rightarrow> bool) \<Rightarrow> problem \<Rightarrow> string \<Rightarrow> details \<Rightarrow> details" where
  "copy_detail ok p key res =
     (let v = details_get (details p) key in if ok v then details_put key v res else res)"

definition collected_details :: "problem \<Rightarrow> details" where
  "collected_details p =
     (let res = copy_detail closedReason p ReasonDetail (Some []);
          res = copy_detail closedReason p CauseDetail res;
          res = copy_detail closedReason p FirstCauseDetail res;
          res = copy_detail ValidResourceName p ''resource_name'' res;
          res = copy_detail submission_status_ok p ''submission_http_status'' res;
          res = copy_detail (\<lambda>v. v \<in> set submission_error_types) p ''submission_error_type'' res
      in copy_detail (\<lambda>v. v \<in> set submission_operations) p ''submission_operation'' res)"

definition PublicDetails :: "problem \<Rightarrow> details" where
  "PublicDetails p =
     (if details_list (collected_details p) = [] then None else collected_details p)"


section \<open>Properties\<close>

subsection \<open>The taxonomy\<close>

abbreviation registered_codes :: "error_code list" where
  "registered_codes \<equiv> map fst errorCategories"

lemma registered_strings_distinct: "distinct (map error_code_string registered_codes)"
  by (simp add: errorCategories_def)

lemma registered_codes_distinct: "distinct registered_codes"
  using registered_strings_distinct distinct_map by blast

lemma error_code_string_inj: "inj_on error_code_string (set registered_codes)"
  using registered_strings_distinct distinct_map by blast

lemma error_code_valid_iff: "error_code_valid c \<longleftrightarrow> c \<in> set registered_codes"
  by (auto simp: error_code_valid_def error_code_category_def map_of_eq_None_iff)

lemma sorted_distinct_strict: "sorted xs \<Longrightarrow> distinct xs \<Longrightarrow> sorted_wrt (<) xs"
  by (simp add: strict_sorted_iff)

lemma AllErrorCodes_order:
  assumes "mset order = mset registered_codes"
  shows "sorted_wrt (<) (map error_code_string (AllErrorCodes order))"
    "set (AllErrorCodes order) = set registered_codes"
    "AllErrorCodes order = AllErrorCodes registered_codes"
proof -
  have codes: "set order = set registered_codes" "distinct order"
    using assms registered_codes_distinct mset_eq_setD mset_eq_imp_distinct_iff by metis+
  then have inj: "inj_on error_code_string (set order)"
    using error_code_string_inj by simp
  show "sorted_wrt (<) (map error_code_string (AllErrorCodes order))"
    using codes(2) inj by (intro sorted_distinct_strict) (simp_all add: AllErrorCodes_def distinct_map)
  show "set (AllErrorCodes order) = set registered_codes"
    using codes(1) by (simp add: AllErrorCodes_def)
  show "AllErrorCodes order = AllErrorCodes registered_codes"
    unfolding AllErrorCodes_def by (rule sort_key_inj_key_eq) (use assms inj in simp_all)
qed

subsection \<open>Building problems\<close>

definition code_stage :: "error_code \<Rightarrow> failure_stage option" where
  "code_stage c = map_option defaultFailureStage (error_code_category c)"

lemma registered_stages:
  "list_all (\<lambda>(c, k). failure_stage_valid (defaultFailureStage k)) errorCategories"
  by (simp add: errorCategories_def)

lemma registered_stage_valid:
  "error_code_category c = Some k \<Longrightarrow> failure_stage_valid (defaultFailureStage k)"
  using registered_stages by (auto simp: error_code_category_def list_all_iff dest!: map_of_SomeD)

lemma problem_validate_None_iff:
  "problem_validate p = None \<longleftrightarrow>
     code_stage (code p) = Some (stage p) \<and> \<not> blank (message p)
     \<and> recommended_action_valid (recommended_action p)
     \<and> \<not> (compute_may_have_started p \<and> safe_operation_retry p
           \<and> recommended_action p = RecommendedActionRetryComputeExplicitly)
     \<and> (\<forall>(k, v) \<in> set (details_list (details p)). \<not> blank k)"
  by (cases "error_code_category (code p)")
    (auto simp: problem_validate_def error_code_valid_def code_stage_def list_ex_iff Let_def
      dest: registered_stage_valid)

lemma NewProblem_Inr_iff:
  "NewProblem c msg st = Inr p \<longleftrightarrow>
     code_stage c = Some st \<and> trim_space (trim_space msg) \<noteq> []
     \<and> p = \<lparr>code = c, message = trim_space msg, stage = st, safe_operation_retry = False,
            compute_may_have_started = False, recommended_action = RecommendedActionNone,
            details = None\<rparr>"
  by (auto simp: NewProblem_def Let_def problem_validate_None_iff)

lemma problem_validate_WithDetail:
  assumes "problem_validate p = None" "\<not> blank k"
  shows "problem_validate (WithDetail k v p) = None"
  using assms set_details_insert [of k v "details_list (details p)"]
  by (auto simp: problem_validate_None_iff WithDetail_def details_put_def)

subsection \<open>What the public details reveal\<close>

definition public_detail_ok :: "string \<Rightarrow> string \<Rightarrow> bool" where
  "public_detail_ok k v \<longleftrightarrow>
     k \<in> {ReasonDetail, CauseDetail, FirstCauseDetail} \<and> ValidReason v
     \<or> k = ''resource_name'' \<and> ValidResourceName v
     \<or> k = ''submission_http_status'' \<and> submission_status_ok v
     \<or> k = ''submission_error_type'' \<and> v \<in> set submission_error_types
     \<or> k = ''submission_operation'' \<and> v \<in> set submission_operations"

lemma copy_detail_wf [simp]: "details_wf res \<Longrightarrow> details_wf (copy_detail ok p key res)"
  by (simp add: copy_detail_def Let_def)

lemma details_get_copy:
  "details_wf res \<Longrightarrow>
     details_get (copy_detail ok p key res) k =
       (if k = key \<and> ok (details_get (details p) key) then details_get (details p) key
        else details_get res k)"
  by (simp add: copy_detail_def Let_def)

lemma details_wf_empty [simp]: "details_wf None" "details_wf (Some [])"
  by (simp_all add: details_wf_def)

lemma details_get_empty [simp]: "details_get None k = []" "details_get (Some []) k = []"
  by (simp_all add: details_get_def)

lemma details_get_nil_list: "details_list d = [] \<Longrightarrow> details_get d k = []"
  by (simp add: details_get_def)

lemma collected_details_get:
  "details_get (collected_details p) k =
     (if public_detail_ok k (details_get (details p) k) then details_get (details p) k else [])"
  by (simp add: collected_details_def Let_def details_get_copy public_detail_ok_def closedReason_def
      detail_keys) auto

lemma PublicDetails_get:
  "details_get (PublicDetails p) k =
     (if public_detail_ok k (details_get (details p) k) then details_get (details p) k else [])"
  using details_get_nil_list [of "collected_details p" k]
  by (auto simp: PublicDetails_def simp flip: collected_details_get)

lemma copy_detail_entries:
  assumes "(k, v) \<in> set (details_list (copy_detail ok p key res))"
  shows "(k, v) \<in> set (details_list res) \<or> k = key \<and> v = details_get (details p) key \<and> ok v"
  using assms set_details_insert [of key "details_get (details p) key" "details_list res"]
  by (auto simp: copy_detail_def Let_def details_put_def split: if_splits)

lemma PublicDetails_entry:
  assumes "(k, v) \<in> set (details_list (PublicDetails p))"
  shows "v = details_get (details p) k \<and> public_detail_ok k v"
  using assms
  by (auto simp: PublicDetails_def collected_details_def Let_def public_detail_ok_def closedReason_def
      dest!: copy_detail_entries split: if_splits)

definition bounded_public :: "string \<Rightarrow> bool" where
  "bounded_public v \<longleftrightarrow> v \<noteq> [] \<and> length v \<le> 256 \<and> list_all resource_byte v"

lemma bounded_public_reason: "ValidReason v \<Longrightarrow> bounded_public v"
  by (auto simp: bounded_public_def ValidReason_def resource_byte_def lower_letter_def
      isASCIILetter_def list_all_iff split: list.splits)

lemma bounded_public_status: "submission_status_ok v \<Longrightarrow> bounded_public v"
  by (auto simp: bounded_public_def submission_status_ok_def resource_byte_def isASCIIDigit_def
      split: list.splits)

lemma bounded_public_constants:
  "list_all bounded_public submission_error_types" "list_all bounded_public submission_operations"
  by code_simp+

lemma public_detail_bounded: "public_detail_ok k v \<Longrightarrow> bounded_public v"
  using bounded_public_constants bounded_public_reason bounded_public_status
  by (auto simp: public_detail_ok_def list_all_iff ValidResourceName_def bounded_public_def)

subsection \<open>Statements\<close>

text \<open>C29.  Nothing but bounded, closed values becomes public: every published detail is the value the
  problem carries under that key, passes the closed check of its key, is not empty, has at most 256
  bytes and only letters, digits and the four punctuation bytes of a resource name; and a value that
  passes the check of its key is published.\<close>

theorem public_details_closed:
  "((k, v) \<in> set (details_list (PublicDetails p)) \<longrightarrow>
      v = details_get (details p) k \<and> public_detail_ok k v \<and> bounded_public v)
   \<and> details_get (PublicDetails p) k =
      (if public_detail_ok k (details_get (details p) k) then details_get (details p) k else [])"
  using PublicDetails_entry public_detail_bounded PublicDetails_get by blast

definition sample_problem :: problem where
  "sample_problem =
     \<lparr>code = CodeProviderRejected, message = ''rejected'', stage = FailureStageSubmission,
      safe_operation_retry = False, compute_may_have_started = False,
      recommended_action = RecommendedActionInspectProvider,
      details = Some [(''body'', ''token=abc''), (''reason'', ''quota_denied'')]\<rparr>"

theorem public_details_closed_witness:
  "PublicDetails sample_problem = Some [(''reason'', ''quota_denied'')]
    \<and> bounded_public ''quota_denied''"
proof -
  have shown: "PublicDetails sample_problem = Some [(''reason'', ''quota_denied'')]"
    by code_simp
  then have "(''reason'', ''quota_denied'') \<in> set (details_list (PublicDetails sample_problem))" by simp
  then have "bounded_public ''quota_denied''" using public_details_closed by blast
  with shown show ?thesis by (rule conjI)
qed

text \<open>Listing the taxonomy is deterministic: whatever order Go's map iteration takes, the result is
  the same list, strictly sorted by code string, holding exactly the codes that are valid.\<close>

theorem error_codes_deterministic:
  assumes "mset order = mset registered_codes"
  shows "AllErrorCodes order = AllErrorCodes registered_codes
    \<and> sorted_wrt (<) (map error_code_string (AllErrorCodes order))
    \<and> (c \<in> set (AllErrorCodes order) \<longleftrightarrow> error_code_valid c)"
  using AllErrorCodes_order [OF assms] error_code_valid_iff by simp

theorem error_codes_deterministic_witness:
  "AllErrorCodes (rev registered_codes) = AllErrorCodes registered_codes
    \<and> CodeQuotaExhausted \<in> set (AllErrorCodes (rev registered_codes))"
proof -
  have "error_code_valid CodeQuotaExhausted" by code_simp
  then show ?thesis using error_codes_deterministic [of "rev registered_codes" CodeQuotaExhausted] by auto
qed

end
