(* ===== verification/Domain_Entities.thy ===== *)
theory Domain_Entities
  imports Domain_Errors "HOL-Library.Word"
begin

text \<open>
  The entities of \<open>src/internal/domain\<close>: jobs with their frozen provider binding, attempts and
  operations with their optimistic-locking revision, events, and the two progress projections
  (\<open>job_attempt.go\<close>, \<open>operation_event.go\<close>, \<open>preparation.go\<close>, \<open>collection.go\<close>,
  \<open>collection_reasons.go\<close>).  Revisions and sequences are 64-bit words and attempt numbers 32-bit
  words, as in the source.  The locale \<open>versioned_entity\<close> is the contract that attempts and operations
  share; its run lemmas hold for both through the two interpretations.
\<close>

section \<open>Jobs\<close>

record provider_binding =
  binding_profile :: string
  binding_instance :: opaque_id
  binding_revision :: string

definition binding_validate :: "provider_binding \<Rightarrow> domain_error option" where
  "binding_validate b =
     first_error
       [fail_if (blank (binding_profile b)) (errors_new ''profile must not be empty''),
        fail_if (\<not> validOpaqueID (binding_instance b)) (errors_new ''provider instance ID is invalid''),
        fail_if (blank (binding_revision b))
          (errors_new ''provider configuration revision must not be empty'')]"

record job =
  job_id :: opaque_id
  job_workspace :: opaque_id
  job_name :: string
  job_specification_version :: string
  job_specification_digest :: sha256_digest
  job_binding :: provider_binding
  job_active_attempt :: opaque_id
  job_created :: gotime

definition NewJob :: "job \<Rightarrow> domain_error + job" where
  "NewJob j =
     guard_result
       (first_error
         [fail_if (\<not> validOpaqueID (job_id j)) (errors_new ''job ID is invalid''),
          fail_if (\<not> validOpaqueID (job_workspace j)) (errors_new ''workspace ID is invalid''),
          fail_if (blank (job_name j)) (errors_new ''job name must not be empty''),
          fail_if (blank (job_specification_version j))
            (errors_new ''job specification version must not be empty''),
          fail_if (\<not> digest_valid (job_specification_digest j))
            (errors_new ''job specification digest is invalid''),
          map_option (Wrapped ''provider binding: %w'') (binding_validate (job_binding j)),
          fail_if (\<not> validOpaqueID (job_active_attempt j)) (errors_new ''active attempt ID is invalid''),
          fail_if (is_zero (job_created j)) (errors_new ''job creation time must not be zero'')])
       j"


section \<open>Attempts\<close>

record attempt =
  attempt_id :: opaque_id
  attempt_job :: opaque_id
  attempt_number :: "32 word"
  attempt_state :: attempt_state
  attempt_revision :: "64 word"
  attempt_created :: gotime
  attempt_updated :: gotime

definition MaxUint64 :: "64 word" where "MaxUint64 = - 1"

definition attempt_validate :: "attempt \<Rightarrow> domain_error option" where
  "attempt_validate a =
     first_error
       [fail_if (\<not> validOpaqueID (attempt_id a)) (errors_new ''attempt ID is invalid''),
        fail_if (\<not> validOpaqueID (attempt_job a)) (errors_new ''job ID is invalid''),
        fail_if (attempt_number a = 0) (errors_new ''attempt number must be positive''),
        fail_if (attempt_revision a = 0) (errors_new ''attempt revision must be positive''),
        fail_if (is_zero (attempt_created a) \<or> is_zero (attempt_updated a))
          (errors_new ''attempt timestamps must not be zero''),
        fail_if (before (attempt_updated a) (attempt_created a))
          (errors_new ''attempt update time precedes creation''),
        map_option (Wrapped ''attempt state: %w'') (validate_attempt_state (attempt_state a))]"

definition NewAttempt :: "opaque_id \<Rightarrow> opaque_id \<Rightarrow> 32 word \<Rightarrow> gotime \<Rightarrow> domain_error + attempt" where
  "NewAttempt i j number createdAt =
     (let a = \<lparr>attempt_id = i, attempt_job = j, attempt_number = number,
               attempt_state = InitialAttemptState, attempt_revision = 1,
               attempt_created = createdAt, attempt_updated = createdAt\<rparr>
      in guard_result (attempt_validate a) a)"

definition attempt_transition :: "attempt_state \<Rightarrow> gotime \<Rightarrow> attempt \<Rightarrow> domain_error + attempt" where
  "attempt_transition next_state updatedAt a =
     (case first_error [attempt_validate a, ValidateAttemptStateTransition (attempt_state a) next_state] of
        Some e \<Rightarrow> Inl e
      | None \<Rightarrow>
          if attempt_state a = next_state then Inr a
          else guard_result
            (first_error
              [fail_if (is_zero updatedAt) (errors_new ''attempt transition time must not be zero''),
               fail_if (before updatedAt (attempt_updated a))
                 (errors_new ''attempt transition time precedes current update time''),
               fail_if (attempt_revision a = MaxUint64) (errors_new ''attempt revision overflow'')])
            (a\<lparr>attempt_state := next_state, attempt_revision := attempt_revision a + 1,
               attempt_updated := updatedAt\<rparr>))"


section \<open>Operations\<close>

datatype operation_kind =
  OperationCancel | OperationRetryCompute | OperationReconcile | OperationCollect
  | OperationCleanup | OperationKindOther string

primrec operation_kind_string :: "operation_kind \<Rightarrow> string" where
  "operation_kind_string OperationCancel = ''cancel''"
| "operation_kind_string OperationRetryCompute = ''retry_compute''"
| "operation_kind_string OperationReconcile = ''reconcile''"
| "operation_kind_string OperationCollect = ''collect''"
| "operation_kind_string OperationCleanup = ''cleanup''"
| "operation_kind_string (OperationKindOther s) = s"

fun operation_kind_valid :: "operation_kind \<Rightarrow> bool" where
  "operation_kind_valid (OperationKindOther s) \<longleftrightarrow> False"
| "operation_kind_valid _ \<longleftrightarrow> True"

datatype operation_status =
  OperationAccepted | OperationRunning | OperationSucceeded | OperationFailed
  | OperationManualRequired | OperationStatusOther string

primrec operation_status_string :: "operation_status \<Rightarrow> string" where
  "operation_status_string OperationAccepted = ''accepted''"
| "operation_status_string OperationRunning = ''running''"
| "operation_status_string OperationSucceeded = ''succeeded''"
| "operation_status_string OperationFailed = ''failed''"
| "operation_status_string OperationManualRequired = ''manual_required''"
| "operation_status_string (OperationStatusOther s) = s"

fun operation_status_valid :: "operation_status \<Rightarrow> bool" where
  "operation_status_valid (OperationStatusOther s) \<longleftrightarrow> False"
| "operation_status_valid _ \<longleftrightarrow> True"

definition operation_status_terminal :: "operation_status \<Rightarrow> bool" where
  "operation_status_terminal s \<longleftrightarrow> s \<in> {OperationSucceeded, OperationFailed, OperationManualRequired}"

primrec operationTransitions :: "operation_status \<Rightarrow> operation_status list option" where
  "operationTransitions OperationAccepted =
     Some [OperationRunning, OperationSucceeded, OperationFailed, OperationManualRequired]"
| "operationTransitions OperationRunning = Some [OperationSucceeded, OperationFailed, OperationManualRequired]"
| "operationTransitions OperationSucceeded = Some []"
| "operationTransitions OperationFailed = Some []"
| "operationTransitions OperationManualRequired = Some []"
| "operationTransitions (OperationStatusOther s) = None"

record operation =
  operation_id :: opaque_id
  operation_workspace :: opaque_id
  operation_job :: opaque_id
  operation_attempt :: opaque_id
  operation_kind :: operation_kind
  operation_status :: operation_status
  operation_revision :: "64 word"
  operation_failure :: "problem option"
  operation_created :: gotime
  operation_updated :: gotime

definition operation_target_check :: "operation \<Rightarrow> domain_error option" where
  "operation_target_check x =
     (if operation_kind x = OperationCleanup then
        first_error
          [fail_if (operation_job x \<noteq> [] \<and> \<not> validOpaqueID (operation_job x))
             (errors_new ''cleanup job ID is invalid''),
           fail_if (operation_attempt x \<noteq> [] \<and> \<not> validOpaqueID (operation_attempt x))
             (errors_new ''cleanup attempt ID is invalid'')]
      else fail_if (\<not> validOpaqueID (operation_job x) \<or> \<not> validOpaqueID (operation_attempt x))
        (errors_new ''job operation requires valid job and attempt IDs''))"

definition operation_failure_check :: "operation \<Rightarrow> domain_error option" where
  "operation_failure_check x =
     (case operation_failure x of
        None \<Rightarrow> None
      | Some p \<Rightarrow> first_error
          [map_option (Wrapped ''operation failure: %w'') (problem_validate p),
           fail_if (operation_status x \<noteq> OperationFailed \<and> operation_status x \<noteq> OperationManualRequired)
             (errors_new ''operation failure is only valid for failed or manual-required operations'')])"

definition operation_validate :: "operation \<Rightarrow> domain_error option" where
  "operation_validate x =
     first_error
       [fail_if (\<not> validOpaqueID (operation_id x) \<or> \<not> validOpaqueID (operation_workspace x))
          (errors_new ''operation identity is invalid''),
        fail_if (\<not> operation_kind_valid (operation_kind x))
          (Errorf ''invalid operation kind %q'' [operation_kind_string (operation_kind x)]),
        operation_target_check x,
        fail_if (\<not> operation_status_valid (operation_status x))
          (Errorf ''invalid operation status %q'' [operation_status_string (operation_status x)]),
        fail_if (operation_revision x = 0) (errors_new ''operation revision must be positive''),
        fail_if (is_zero (operation_created x) \<or> is_zero (operation_updated x)
            \<or> before (operation_updated x) (operation_created x))
          (errors_new ''operation timestamps are invalid''),
        operation_failure_check x,
        fail_if (operation_status x = OperationFailed \<and> operation_failure x = None)
          (errors_new ''failed operation requires a structured failure'')]"

definition NewOperation ::
  "opaque_id \<Rightarrow> opaque_id \<Rightarrow> opaque_id \<Rightarrow> opaque_id \<Rightarrow> operation_kind \<Rightarrow> gotime \<Rightarrow> domain_error + operation"
  where
  "NewOperation i w j a k createdAt =
     (let x = \<lparr>operation_id = i, operation_workspace = w, operation_job = j, operation_attempt = a,
               operation_kind = k, operation_status = OperationAccepted, operation_revision = 1,
               operation_failure = None, operation_created = createdAt, operation_updated = createdAt\<rparr>
      in guard_result (operation_validate x) x)"

definition failuresEqual :: "problem option \<Rightarrow> problem option \<Rightarrow> bool" where
  "failuresEqual left right =
     (case (left, right) of
        (None, None) \<Rightarrow> True
      | (Some l, Some r) \<Rightarrow>
          code l = code r \<and> message l = message r \<and> stage l = stage r
          \<and> safe_operation_retry l = safe_operation_retry r
          \<and> compute_may_have_started l = compute_may_have_started r
          \<and> recommended_action l = recommended_action r
          \<and> length (details_list (details l)) = length (details_list (details r))
          \<and> list_all (\<lambda>(key, v). details_get (details r) key = v) (details_list (details l))
      | _ \<Rightarrow> False)"

definition operation_move_check :: "operation_status \<Rightarrow> operation \<Rightarrow> domain_error option" where
  "operation_move_check next_status x =
     (let refused = TransitionError ''operation''
            (operation_status_string (operation_status x)) (operation_status_string next_status)
      in if operation_status x = next_status
         then fail_if (operation_status_terminal (operation_status x)) refused
         else case operationTransitions (operation_status x) of
             None \<Rightarrow> Some refused
           | Some allowed \<Rightarrow> fail_if (next_status \<notin> set allowed) refused)"

definition operation_transition ::
  "operation_status \<times> problem option \<Rightarrow> gotime \<Rightarrow> operation \<Rightarrow> domain_error + operation" where
  "operation_transition change updatedAt x =
     (case change of (next_status, failure) \<Rightarrow>
       (case first_error
           [operation_validate x,
            fail_if (\<not> operation_status_valid next_status)
              (Errorf ''invalid operation status %q'' [operation_status_string next_status])] of
          Some e \<Rightarrow> Inl e
        | None \<Rightarrow>
            if operation_status x = next_status \<and> failuresEqual (operation_failure x) failure then Inr x
            else
              let x' = x\<lparr>operation_status := next_status, operation_failure := failure,
                         operation_revision := operation_revision x + 1,
                         operation_updated := updatedAt\<rparr>
              in guard_result
                (first_error
                  [operation_move_check next_status x,
                   fail_if (is_zero updatedAt) (errors_new ''operation transition time must not be zero''),
                   fail_if (before updatedAt (operation_updated x))
                     (errors_new ''operation transition time precedes current update time''),
                   fail_if (operation_revision x = MaxUint64) (errors_new ''operation revision overflow''),
                   operation_validate x'])
                x'))"


section \<open>Events\<close>

datatype event_type =
  EventJobAccepted | EventInputsReady | EventProviderStagingReady
  | EventSubmissionIntentRecorded | EventSubmissionAccepted | EventSubmissionUnknown
  | EventExecutionObserved | EventCancellationRequested | EventCollectionFailed
  | EventArtifactVerified | EventJobCompleted | EventSchedulerClaimed | EventSchedulerDeferred
  | EventSchedulerReleased | EventPreparationIntended | EventPreparationObserved
  | EventSubmissionRejected | EventReconciliationDeferred | EventOperationAccepted
  | EventOperationCompleted | EventAttemptRetried | EventCancellationInvoked
  | EventCancellationObserved | EventReconciliationRequested | EventCollectionRequested
  | EventResultExpired | EventTypeOther string

primrec event_type_string :: "event_type \<Rightarrow> string" where
  "event_type_string EventJobAccepted = ''job.accepted''"
| "event_type_string EventInputsReady = ''inputs.ready''"
| "event_type_string EventProviderStagingReady = ''provider.staging.ready''"
| "event_type_string EventSubmissionIntentRecorded = ''submission.intent_recorded''"
| "event_type_string EventSubmissionAccepted = ''submission.accepted''"
| "event_type_string EventSubmissionUnknown = ''submission.unknown''"
| "event_type_string EventExecutionObserved = ''execution.observed''"
| "event_type_string EventCancellationRequested = ''cancellation.requested''"
| "event_type_string EventCollectionFailed = ''collection.failed''"
| "event_type_string EventArtifactVerified = ''artifact.verified''"
| "event_type_string EventJobCompleted = ''job.completed''"
| "event_type_string EventSchedulerClaimed = ''scheduler.claimed''"
| "event_type_string EventSchedulerDeferred = ''scheduler.deferred''"
| "event_type_string EventSchedulerReleased = ''scheduler.released''"
| "event_type_string EventPreparationIntended = ''preparation.intent_recorded''"
| "event_type_string EventPreparationObserved = ''preparation.observed''"
| "event_type_string EventSubmissionRejected = ''submission.rejected''"
| "event_type_string EventReconciliationDeferred = ''reconciliation.deferred''"
| "event_type_string EventOperationAccepted = ''operation.accepted''"
| "event_type_string EventOperationCompleted = ''operation.completed''"
| "event_type_string EventAttemptRetried = ''attempt.retried''"
| "event_type_string EventCancellationInvoked = ''cancellation.intent_recorded''"
| "event_type_string EventCancellationObserved = ''cancellation.observed''"
| "event_type_string EventReconciliationRequested = ''reconciliation.requested''"
| "event_type_string EventCollectionRequested = ''collection.requested''"
| "event_type_string EventResultExpired = ''result.expired''"
| "event_type_string (EventTypeOther s) = s"

definition event_type_valid :: "event_type \<Rightarrow> bool" where
  "event_type_valid e \<longleftrightarrow> (case e of EventTypeOther s \<Rightarrow> False | _ \<Rightarrow> True)"

record event =
  event_id :: opaque_id
  event_sequence :: "64 word"
  event_workspace :: opaque_id
  event_job :: opaque_id
  event_attempt :: opaque_id
  event_operation :: opaque_id
  event_type :: event_type
  event_occurred :: gotime

definition event_validate :: "event \<Rightarrow> domain_error option" where
  "event_validate e =
     first_error
       [fail_if (\<not> validOpaqueID (event_id e) \<or> \<not> validOpaqueID (event_workspace e)
           \<or> \<not> validOpaqueID (event_job e)) (errors_new ''event identity is invalid''),
        fail_if (event_sequence e = 0) (errors_new ''event sequence must be positive''),
        fail_if (event_attempt e \<noteq> [] \<and> \<not> validOpaqueID (event_attempt e))
          (errors_new ''event attempt ID is invalid''),
        fail_if (event_operation e \<noteq> [] \<and> \<not> validOpaqueID (event_operation e))
          (errors_new ''event operation ID is invalid''),
        fail_if (\<not> event_type_valid (event_type e))
          (Errorf ''invalid event type %q'' [event_type_string (event_type e)]),
        fail_if (is_zero (event_occurred e)) (errors_new ''event timestamp must not be zero'')]"


section \<open>Progress projections\<close>

record preparation_progress =
  prep_scope :: string
  prep_generation :: int
  prep_completed :: int
  prep_total :: int
  prep_observed :: gotime

definition preparation_progress_valid :: "preparation_progress \<Rightarrow> bool" where
  "preparation_progress_valid p \<longleftrightarrow>
     prep_scope p = ''staged_input_bytes'' \<and> prep_generation p > 0 \<and> \<not> is_zero (prep_observed p)
     \<and> prep_completed p \<ge> 0 \<and> prep_completed p \<le> prep_total p \<and> prep_total p \<le> 5 * 2 ^ 30"

record collection_progress =
  coll_scope :: string
  coll_generation :: int
  coll_completed :: int
  coll_received :: "int option"
  coll_total :: "int option"
  coll_observed :: gotime

definition collection_progress_valid :: "collection_progress \<Rightarrow> bool" where
  "collection_progress_valid p \<longleftrightarrow>
     (if coll_scope p \<noteq> ''selected_output_bytes'' \<or> coll_generation p < 1 \<or> is_zero (coll_observed p)
         \<or> coll_completed p < 0 \<or> coll_completed p > 4 * 2 ^ 30 then False
      else if (case coll_received p of None \<Rightarrow> False | Some r \<Rightarrow> r < 0 \<or> r > coll_completed p) then False
      else case coll_total p of
          None \<Rightarrow> coll_completed p = 0
        | Some n \<Rightarrow> n \<ge> 0 \<and> n \<le> 4 * 2 ^ 30 \<and> coll_completed p \<le> n)"

definition collection_reasons :: "string list" where
  "collection_reasons =
     [''artifact_request_invalid'', ''artifact_account_read_failed''
      , ''artifact_account_mismatch'', ''artifact_remote_read_failed''
      , ''artifact_remote_identity_mismatch'', ''artifact_status_read_failed''
      , ''artifact_not_terminal'', ''artifact_manifest_download_failed''
      , ''artifact_manifest_invalid'', ''artifact_manifest_missing''
      , ''artifact_file_limit'', ''artifact_byte_limit'', ''artifact_path_invalid''
      , ''artifact_output_undeclared'', ''artifact_output_missing''
      , ''artifact_stdout_download_failed'', ''artifact_stderr_download_failed''
      , ''artifact_environment_download_failed'', ''artifact_target_mismatch''
      , ''artifact_write_failed'', ''artifact_download_failed''
      , ''artifact_digest_mismatch'', ''artifact_catalog_invalid''
      , ''artifact_credential_unavailable'', ''artifact_call_timeout''
      , ''artifact_runtime_stopped'', ''artifact_binding_unavailable''
      , ''artifact_read_failed'', ''artifact_collection_failed''
      , ''artifact_resolver_panic'', ''artifact_discovery_panic''
      , ''artifact_verification_panic'', ''artifact_transfer_panic''
      , ''artifact_catalog_failed'', ''artifact_blob_read_failed''
      , ''artifact_blob_write_failed'']"

definition ValidCollectionReason :: "string \<Rightarrow> bool" where
  "ValidCollectionReason reason \<longleftrightarrow> reason \<in> set collection_reasons"


section \<open>Versioned entities\<close>

primrec entity_run ::
  "('c \<Rightarrow> gotime \<Rightarrow> 'a \<Rightarrow> domain_error + 'a) \<Rightarrow> ('c \<times> gotime) list \<Rightarrow> 'a \<Rightarrow> domain_error + 'a" where
  "entity_run transition [] x = Inr x"
| "entity_run transition (c # cs) x =
     (case transition (fst c) (snd c) x of Inl e \<Rightarrow> Inl e | Inr y \<Rightarrow> entity_run transition cs y)"

text \<open>
  What the store relies on for optimistic locking: a transition starts and ends in a valid entity, keeps
  its identity, and either changes nothing or adds exactly one to the revision without wrapping and does
  not move the update time back.
\<close>

locale versioned_entity =
  fixes validate :: "'a \<Rightarrow> domain_error option"
    and transition :: "'c \<Rightarrow> gotime \<Rightarrow> 'a \<Rightarrow> domain_error + 'a"
    and revision :: "'a \<Rightarrow> 64 word"
    and updated :: "'a \<Rightarrow> gotime"
    and identity :: "'a \<Rightarrow> 'i"
  assumes source_valid: "transition c t x = Inr y \<Longrightarrow> validate x = None"
    and target_valid: "transition c t x = Inr y \<Longrightarrow> validate y = None"
    and identity_kept: "transition c t x = Inr y \<Longrightarrow> identity y = identity x"
    and one_step: "transition c t x = Inr y \<Longrightarrow>
      y = x \<or> unat (revision y) = unat (revision x) + 1 \<and> \<not> before (updated y) (updated x)"
begin

lemma run_valid: "entity_run transition cs x = Inr y \<Longrightarrow> validate x = None \<Longrightarrow> validate y = None"
  by (induction cs arbitrary: x) (auto split: sum.splits dest: target_valid)

lemma run_identity: "entity_run transition cs x = Inr y \<Longrightarrow> identity y = identity x"
  by (induction cs arbitrary: x) (auto split: sum.splits dest: identity_kept)

lemma run_updated: "entity_run transition cs x = Inr y \<Longrightarrow> \<not> before (updated y) (updated x)"
proof (induction cs arbitrary: x)
  case (Cons c cs)
  then obtain z where "transition (fst c) (snd c) x = Inr z" "\<not> before (updated y) (updated z)"
    by (auto split: sum.splits)
  then show ?case using one_step [of "fst c" "snd c" x z] not_before_trans by auto
qed simp

lemma run_revision:
  "entity_run transition cs x = Inr y \<Longrightarrow>
     unat (revision x) \<le> unat (revision y) \<and> unat (revision y) \<le> unat (revision x) + length cs"
proof (induction cs arbitrary: x)
  case (Cons c cs)
  then obtain z where "transition (fst c) (snd c) x = Inr z"
    "unat (revision z) \<le> unat (revision y)" "unat (revision y) \<le> unat (revision z) + length cs"
    by (auto split: sum.splits)
  then show ?case using one_step [of "fst c" "snd c" x z] by auto
qed simp

lemma run_same_revision:
  "entity_run transition cs x = Inr y \<Longrightarrow> revision y = revision x \<Longrightarrow> y = x"
proof (induction cs arbitrary: x)
  case (Cons c cs)
  then obtain z where z: "transition (fst c) (snd c) x = Inr z" "entity_run transition cs z = Inr y"
    by (auto split: sum.splits)
  show ?case
  proof (cases "z = x")
    case True
    then show ?thesis using Cons z by simp
  next
    case False
    then have "unat (revision z) = unat (revision x) + 1" using one_step [OF z(1)] by simp
    moreover have "unat (revision z) \<le> unat (revision y)" using run_revision [OF z(2)] by simp
    ultimately show ?thesis using Cons.prems(2) by simp
  qed
qed simp

end

lemma revision_Suc_nonzero: "r \<noteq> MaxUint64 \<Longrightarrow> r + 1 \<noteq> 0"
  by (simp add: MaxUint64_def flip: eq_neg_iff_add_eq_0)

lemma unat_revision_Suc: "r \<noteq> MaxUint64 \<Longrightarrow> unat (r + 1) = unat r + 1"
  using unatSuc [of r] revision_Suc_nonzero [of r] by (simp add: add.commute)

subsection \<open>Attempts\<close>

lemma attempt_transition_Inr_iff:
  "attempt_transition st t a = Inr b \<longleftrightarrow>
     attempt_validate a = None \<and> attempt_step (attempt_state a) st
     \<and> (if attempt_state a = st then b = a
        else \<not> is_zero t \<and> \<not> before t (attempt_updated a) \<and> attempt_revision a \<noteq> MaxUint64
          \<and> b = a\<lparr>attempt_state := st, attempt_revision := attempt_revision a + 1, attempt_updated := t\<rparr>)"
  by (auto simp: attempt_transition_def attempt_step_def split: option.splits)

lemma attempt_transition_state:
  "attempt_transition st t a = Inr b \<Longrightarrow> attempt_state b = st \<and> attempt_step (attempt_state a) st"
  by (auto simp: attempt_transition_Inr_iff split: if_splits)

lemma attempt_transition_valid:
  "attempt_transition st t a = Inr b \<Longrightarrow> attempt_validate b = None"
  using not_before_trans
  by (auto simp: attempt_transition_Inr_iff attempt_validate_def attempt_step_iff revision_Suc_nonzero
      split: if_splits)

definition attempt_identity :: "attempt \<Rightarrow> opaque_id \<times> opaque_id \<times> 32 word \<times> gotime" where
  "attempt_identity a = (attempt_id a, attempt_job a, attempt_number a, attempt_created a)"

interpretation att: versioned_entity attempt_validate attempt_transition attempt_revision
    attempt_updated attempt_identity
proof
  fix c t x y assume step: "attempt_transition c t x = Inr y"
  then show "attempt_validate x = None" by (simp add: attempt_transition_Inr_iff)
  show "attempt_validate y = None" using step by (rule attempt_transition_valid)
  show "attempt_identity y = attempt_identity x"
    using step by (auto simp: attempt_transition_Inr_iff attempt_identity_def split: if_splits)
  show "y = x \<or> unat (attempt_revision y) = unat (attempt_revision x) + 1
      \<and> \<not> before (attempt_updated y) (attempt_updated x)"
    using step by (auto simp: attempt_transition_Inr_iff unat_revision_Suc split: if_splits)
qed

lemma attempt_run_steps:
  "entity_run attempt_transition cs a = Inr b \<Longrightarrow> attempt_step\<^sup>*\<^sup>* (attempt_state a) (attempt_state b)"
proof (induction cs arbitrary: a)
  case (Cons c cs)
  then obtain z where z: "attempt_transition (fst c) (snd c) a = Inr z"
    "attempt_step\<^sup>*\<^sup>* (attempt_state z) (attempt_state b)" by (auto split: sum.splits)
  then show ?case
    using attempt_transition_state [OF z(1)] converse_rtranclp_into_rtranclp by metis
qed simp

lemma NewAttempt_Inr:
  "NewAttempt i j n t = Inr a \<longleftrightarrow>
     validOpaqueID i \<and> validOpaqueID j \<and> n \<noteq> 0 \<and> \<not> is_zero t
     \<and> a = \<lparr>attempt_id = i, attempt_job = j, attempt_number = n, attempt_state = InitialAttemptState,
            attempt_revision = 1, attempt_created = t, attempt_updated = t\<rparr>"
  by (auto simp: NewAttempt_def Let_def attempt_validate_def)

subsection \<open>Operations\<close>

interpretation opst: transition_graph operationTransitions operation_status_valid
    operation_status_terminal
proof
  fix s t :: operation_status and ts
  show "operation_status_valid s \<longleftrightarrow> operationTransitions s \<noteq> None" by (cases s) auto
  show "operationTransitions s = Some ts \<Longrightarrow> t \<in> set ts \<Longrightarrow> operation_status_valid t"
    by (cases s) auto
  show "operationTransitions s = Some ts \<Longrightarrow> s \<notin> set ts" by (cases s) auto
  show "operation_status_terminal s \<Longrightarrow> operationTransitions s = Some []"
    by (auto simp: operation_status_terminal_def)
qed

lemma operation_move_check_None_iff:
  "operation_move_check st x = None \<longleftrightarrow>
     graph_step operationTransitions (operation_status x) st
     \<and> (operation_status x = st \<longrightarrow> \<not> operation_status_terminal st)"
  by (auto simp: operation_move_check_def Let_def graph_step_def split: option.splits)

lemma operation_transition_Inr_iff:
  "operation_transition (st, f) t x = Inr y \<longleftrightarrow>
     operation_validate x = None \<and> operation_status_valid st
     \<and> (if operation_status x = st \<and> failuresEqual (operation_failure x) f then y = x
        else operation_move_check st x = None \<and> \<not> is_zero t \<and> \<not> before t (operation_updated x)
          \<and> operation_revision x \<noteq> MaxUint64 \<and> operation_validate y = None
          \<and> y = x\<lparr>operation_status := st, operation_failure := f,
                 operation_revision := operation_revision x + 1, operation_updated := t\<rparr>)"
  by (auto simp: operation_transition_def Let_def split: option.splits)

lemma operation_terminal_kept:
  assumes "operation_transition c t x = Inr y" "operation_status_terminal (operation_status x)"
  shows "y = x"
  using assms opst.final_absorbing
  by (cases c) (auto simp: operation_transition_Inr_iff operation_move_check_None_iff split: if_splits)

definition operation_identity ::
  "operation \<Rightarrow> opaque_id \<times> opaque_id \<times> opaque_id \<times> opaque_id \<times> operation_kind \<times> gotime" where
  "operation_identity x = (operation_id x, operation_workspace x, operation_job x,
     operation_attempt x, operation_kind x, operation_created x)"

interpretation opr: versioned_entity operation_validate operation_transition operation_revision
    operation_updated operation_identity
proof
  fix c t x y assume "operation_transition c t x = Inr y"
  then obtain st f where step: "operation_transition (st, f) t x = Inr y" by (cases c) simp
  show "operation_validate x = None" using step by (simp only: operation_transition_Inr_iff)
  show "operation_validate y = None"
    using step by (auto simp: operation_transition_Inr_iff split: if_splits)
  show "operation_identity y = operation_identity x"
    using step by (auto simp: operation_transition_Inr_iff operation_identity_def split: if_splits)
  show "y = x \<or> unat (operation_revision y) = unat (operation_revision x) + 1
      \<and> \<not> before (operation_updated y) (operation_updated x)"
    using step by (auto simp: operation_transition_Inr_iff unat_revision_Suc split: if_splits)
qed

lemma operation_run_terminal:
  "entity_run operation_transition cs x = Inr y \<Longrightarrow>
     operation_status_terminal (operation_status x) \<Longrightarrow> y = x"
  by (induction cs arbitrary: x)
    (auto split: sum.splits dest: operation_terminal_kept)

subsection \<open>Comparing failures\<close>

lemma details_get_mem:
  "details_wf d \<Longrightarrow> (k, v) \<in> set (details_list d) \<Longrightarrow> details_get d k = v"
  by (auto simp: details_get_def details_wf_def strict_sorted_iff)

lemma details_get_nonempty_mem: "details_get d k = v \<Longrightarrow> v \<noteq> [] \<Longrightarrow> (k, v) \<in> set (details_list d)"
  by (auto simp: details_get_def split: option.splits dest: map_of_SomeD)

lemma sorted_assoc_unique:
  fixes xs ys :: "('a::linorder \<times> 'b) list"
  assumes "sorted_wrt (<) (map fst xs)" "sorted_wrt (<) (map fst ys)" "set xs = set ys"
  shows "xs = ys"
  using assms by (intro map_sorted_distinct_set_unique [where f = fst]) (auto simp: strict_sorted_iff distinct_map)

lemma failuresEqual_details:
  assumes "details_wf d" "details_wf e" "length (details_list d) = length (details_list e)"
    "list_all (\<lambda>(k, v). details_get e k = v) (details_list d)"
    "\<forall>(k, v) \<in> set (details_list d). v \<noteq> []"
  shows "details_list d = details_list e"
proof -
  have sub: "set (details_list d) \<subseteq> set (details_list e)"
    using assms(4,5) by (force simp: list_all_iff intro: details_get_nonempty_mem)
  have "distinct (details_list d)" "distinct (details_list e)"
    using assms(1,2) by (auto simp: details_wf_def strict_sorted_iff distinct_map)
  then have "set (details_list d) = set (details_list e)"
    using sub assms(3) by (metis List.finite_set card_subset_eq distinct_card)
  then show ?thesis using sorted_assoc_unique assms(1,2) by (simp add: details_wf_def)
qed

section \<open>Properties\<close>

definition sample_time :: "int \<Rightarrow> gotime" where
  "sample_time n = \<lparr>unix_ns = n, zone_min = 0\<rparr>"

definition sample_attempt :: attempt where
  "sample_attempt =
     \<lparr>attempt_id = ''att_1'', attempt_job = ''job_1'', attempt_number = 1,
      attempt_state = InitialAttemptState, attempt_revision = 1,
      attempt_created = sample_time 5, attempt_updated = sample_time 5\<rparr>"

lemma sample_ids: "validOpaqueID ''att_1''" "validOpaqueID ''job_1''" "validOpaqueID ''ws_1''" "validOpaqueID ''op_1''"
  by code_simp+

lemma sample_time_not_zero [simp]: "\<not> is_zero (sample_time 5)" "\<not> is_zero (sample_time 6)"
  by code_simp+

lemma sample_attempt_valid: "attempt_validate sample_attempt = None"
  by (simp add: attempt_validate_def sample_attempt_def sample_ids)

text \<open>C26.  The revision of an attempt is a faithful version number: along every sequence of accepted
  transitions the identity and creation time never change, the revision grows by at most one for each
  transition and never wraps, an equal revision means the very same attempt, the update time never goes
  back, and the states follow the accepted transition relation.\<close>

theorem attempt_versioning:
  assumes "attempt_validate a = None" "entity_run attempt_transition changes a = Inr b"
  shows "attempt_validate b = None \<and> attempt_identity b = attempt_identity a
    \<and> unat (attempt_revision a) \<le> unat (attempt_revision b)
    \<and> unat (attempt_revision b) \<le> unat (attempt_revision a) + length changes
    \<and> (attempt_revision b = attempt_revision a \<longrightarrow> b = a)
    \<and> \<not> before (attempt_updated b) (attempt_updated a)
    \<and> attempt_step\<^sup>*\<^sup>* (attempt_state a) (attempt_state b)"
  using att.run_valid [OF assms(2,1)] att.run_identity [OF assms(2)] att.run_revision [OF assms(2)]
    att.run_same_revision [OF assms(2)] att.run_updated [OF assms(2)] attempt_run_steps [OF assms(2)]
  by blast

definition sample_attempt_next :: attempt where
  "sample_attempt_next = sample_attempt\<lparr>attempt_state := cancelled_before_start,
     attempt_revision := 2, attempt_updated := sample_time 6\<rparr>"

lemma sample_attempt_run:
  "entity_run attempt_transition [(cancelled_before_start, sample_time 6)] sample_attempt
     = Inr sample_attempt_next"
proof -
  have "attempt_transition cancelled_before_start (sample_time 6) sample_attempt = Inr sample_attempt_next"
    unfolding attempt_transition_Inr_iff
    using sample_attempt_valid cancel_first_step
    by (simp add: sample_attempt_def sample_attempt_next_def MaxUint64_def sample_time_def before_def
        is_zero_def sample_states zero_time_def)
  then show ?thesis by simp
qed

theorem attempt_versioning_witness:
  "attempt_validate sample_attempt_next = None
    \<and> unat (attempt_revision sample_attempt_next) \<le> unat (attempt_revision sample_attempt) + 1"
  using attempt_versioning [OF sample_attempt_valid sample_attempt_run] by simp

text \<open>C27.  A control operation never rewrites a terminal outcome: whatever sequence of transitions is
  accepted after an operation has succeeded, failed or been handed to a person, the operation is exactly
  the one that ended, its revision and failure included.\<close>

theorem operation_outcome_final:
  assumes "operation_status_terminal (operation_status x)" "entity_run operation_transition changes x = Inr y"
  shows "y = x"
  using assms(2,1) by (rule operation_run_terminal)

definition sample_operation :: operation where
  "sample_operation =
     \<lparr>operation_id = ''op_1'', operation_workspace = ''ws_1'', operation_job = ''job_1'',
      operation_attempt = ''att_1'', operation_kind = OperationCancel,
      operation_status = OperationSucceeded, operation_revision = 2, operation_failure = None,
      operation_created = sample_time 5, operation_updated = sample_time 5\<rparr>"

lemma sample_operation_valid: "operation_validate sample_operation = None"
  by (simp add: operation_validate_def sample_operation_def sample_ids operation_target_check_def
      operation_failure_check_def)

theorem operation_outcome_final_witness:
  "\<forall>y. entity_run operation_transition [((OperationSucceeded, None), sample_time 6)] sample_operation = Inr y
     \<longleftrightarrow> y = sample_operation"
proof -
  have "entity_run operation_transition [((OperationSucceeded, None), sample_time 6)] sample_operation
      = Inr sample_operation"
    using sample_operation_valid
    by (simp add: operation_transition_def sample_operation_def failuresEqual_def)
  then show ?thesis
    using operation_outcome_final [of sample_operation "[((OperationSucceeded, None), sample_time 6)]"]
    by (auto simp: sample_operation_def operation_status_terminal_def)
qed

text \<open>The comparison that decides whether a repeated operation outcome is the recorded one is exact
  for problems whose details are all non-empty: it holds just when the two problems agree in every
  field.\<close>

theorem failuresEqual_exact:
  assumes "details_wf (details l)" "details_wf (details r)"
    "\<forall>(k, v) \<in> set (details_list (details l)). v \<noteq> []"
  shows "failuresEqual (Some l) (Some r) \<longleftrightarrow>
    l\<lparr>details := Some (details_list (details l))\<rparr> = r\<lparr>details := Some (details_list (details r))\<rparr>"
proof
  assume "failuresEqual (Some l) (Some r)"
  then show "l\<lparr>details := Some (details_list (details l))\<rparr>
      = r\<lparr>details := Some (details_list (details r))\<rparr>"
    using failuresEqual_details [OF assms(1,2) _ _ assms(3)] by (simp add: failuresEqual_def)
next
  assume eq: "l\<lparr>details := Some (details_list (details l))\<rparr>
      = r\<lparr>details := Some (details_list (details r))\<rparr>"
  have "details_list (details l) = details_list (details r)" using arg_cong [OF eq, of details] by simp
  moreover have "code l = code r" "message l = message r" "stage l = stage r"
    using arg_cong [OF eq, of code] arg_cong [OF eq, of message] arg_cong [OF eq, of stage] by simp_all
  moreover have "safe_operation_retry l = safe_operation_retry r"
    "compute_may_have_started l = compute_may_have_started r" "recommended_action l = recommended_action r"
    using arg_cong [OF eq, of safe_operation_retry] arg_cong [OF eq, of compute_may_have_started]
      arg_cong [OF eq, of recommended_action] by simp_all
  ultimately show "failuresEqual (Some l) (Some r)"
    using details_get_mem [OF assms(2)] by (auto simp: failuresEqual_def list_all_iff)
qed

theorem failuresEqual_exact_witness:
  "failuresEqual (Some sample_problem) (Some sample_problem)
    \<and> \<not> failuresEqual (Some sample_problem) (Some (sample_problem\<lparr>message := ''other''\<rparr>))"
  using failuresEqual_exact [of sample_problem sample_problem]
    failuresEqual_exact [of sample_problem "sample_problem\<lparr>message := ''other''\<rparr>"]
  by (simp add: sample_problem_def details_wf_def)

text \<open>C28.  Without that restriction it is not exact: a missing key reads as the empty string, so two valid
  problems with different details compare equal, and the comparison is not symmetric.  A failed operation
  then answers a transition that carries a different failure as if nothing had changed.\<close>

theorem failuresEqual_confuses_missing_and_empty:
  "\<exists>l r. problem_validate l = None \<and> problem_validate r = None \<and> details l \<noteq> details r
     \<and> failuresEqual (Some l) (Some r) \<and> \<not> failuresEqual (Some r) (Some l)"
proof (intro exI conjI)
  let ?l = "sample_problem\<lparr>details := Some [(''cause'', [])]\<rparr>"
  let ?r = "sample_problem\<lparr>details := Some [(''reason'', ''gone'')]\<rparr>"
  show "problem_validate ?l = None" "problem_validate ?r = None"
    by (simp_all add: problem_validate_None_iff sample_problem_def code_stage_def not_blank_printable
        error_code_category_def errorCategories_def printable_byte_def byte_def)
  show "details ?l \<noteq> details ?r" by simp
  show "failuresEqual (Some ?l) (Some ?r)" "\<not> failuresEqual (Some ?r) (Some ?l)" 
    by (simp_all add: failuresEqual_def details_get_def)
qed

end
