(* ===== verification/Workload_Secret.thy ===== *)
theory Workload_Secret
  imports Domain_Entities
begin

text \<open>
  The value types of \<open>src/internal/workloadsecret/model.go\<close>: slot declarations, canonical expiry times,
  a supply of secret values, its value-free metadata and receipt, and the material handed to a provider.
  A map from names to byte slices is a key-sorted association list, \<open>None\<close> for the nil map.
  \<open>ParseSupply\<close>, which decodes untrusted JSON, is not part of this theory.
\<close>

definition MaxSlots :: nat where "MaxSlots = 8"
definition MaxSlotBytes :: nat where "MaxSlotBytes = 8 * 2 ^ 10"
definition MaxTotalBytes :: nat where "MaxTotalBytes = 32 * 2 ^ 10"
definition MaxLifetime :: int where "MaxLifetime = 24 * hour_ns"

datatype secret_error =
  SecretErrRequest | SecretErrNotFound | SecretErrConflict | SecretErrState | SecretErrUnavailable
  | SecretErrLimit

text \<open>The pattern \<open>^[a-z][a-z0-9_]{0,31}$\<close>.\<close>

definition ValidName :: "string \<Rightarrow> bool" where
  "ValidName name \<longleftrightarrow>
     (case name of
        [] \<Rightarrow> False
      | c # cs \<Rightarrow> lower_letter c \<and> length cs \<le> 31
          \<and> list_all (\<lambda>b. lower_letter b \<or> isASCIIDigit b \<or> b = CHR ''_'') cs)"

record slot =
  slot_name :: string
  slot_exposure :: string

fun valid_slots_loop :: "string set \<Rightarrow> slot list \<Rightarrow> bool" where
  "valid_slots_loop seen [] = True"
| "valid_slots_loop seen (s # ss) =
     (if \<not> ValidName (slot_name s) \<or> slot_name s \<in> seen
         \<or> slot_exposure s \<noteq> ''file'' \<and> slot_exposure s \<noteq> ''file_and_local_process_arguments''
      then False else valid_slots_loop (insert (slot_name s) seen) ss)"

definition ValidSlots :: "slot list \<Rightarrow> bool" where
  "ValidSlots slots = (if length slots > MaxSlots then False else valid_slots_loop {} slots)"

definition CanonicalTime :: "string \<Rightarrow> gotime option" where
  "CanonicalTime raw =
     (case parse_rfc3339 raw of
        None \<Rightarrow> None
      | Some at \<Rightarrow> if year at \<ge> 2 \<and> format_rfc3339 (utc at) = raw then Some at else None)"

record secret_key =
  key_workspace :: opaque_id
  key_job :: opaque_id
  key_attempt :: opaque_id

definition secret_key_valid :: "secret_key \<Rightarrow> bool" where
  "secret_key_valid k \<longleftrightarrow>
     validOpaqueID (key_workspace k) \<and> validOpaqueID (key_job k) \<and> validOpaqueID (key_attempt k)"

record secret_supply =
  supply_attempt :: opaque_id
  supply_readiness :: sha256_digest
  supply_expires :: string
  supply_values :: details

definition supply_validate :: "secret_supply \<Rightarrow> secret_error option" where
  "supply_validate r =
     (let vs = details_list (supply_values r) in
      first_error
        [fail_if (\<not> validOpaqueID (supply_attempt r) \<or> \<not> digest_valid (supply_readiness r)
            \<or> CanonicalTime (supply_expires r) = None \<or> length vs < 1 \<or> length vs > MaxSlots)
           SecretErrRequest,
         fail_if (list_ex (\<lambda>(name, v). \<not> ValidName name \<or> length v < 1 \<or> length v > MaxSlotBytes) vs)
           SecretErrRequest,
         fail_if (sum_list (map (length \<circ> snd) vs) > MaxTotalBytes) SecretErrRequest])"

definition supply_clear :: "secret_supply \<Rightarrow> secret_supply" where
  "supply_clear r = r\<lparr>supply_values := map_option (\<lambda>_. []) (supply_values r)\<rparr>"

definition supply_names :: "secret_supply \<Rightarrow> string list" where
  "supply_names r = sort (map fst (details_list (supply_values r)))"

record secret_metadata =
  meta_attempt :: opaque_id
  meta_readiness :: sha256_digest
  meta_expires :: string
  meta_names :: "string list"

fun meta_names_loop :: "string option \<Rightarrow> string list \<Rightarrow> secret_error option" where
  "meta_names_loop previous [] = None"
| "meta_names_loop previous (name # names) =
     (if \<not> ValidName name \<or> (case previous of None \<Rightarrow> False | Some p \<Rightarrow> p \<ge> name)
      then Some SecretErrRequest else meta_names_loop (Some name) names)"

definition metadata_validate :: "secret_metadata \<Rightarrow> secret_error option" where
  "metadata_validate m =
     first_error
       [fail_if (\<not> validOpaqueID (meta_attempt m) \<or> \<not> digest_valid (meta_readiness m)
           \<or> CanonicalTime (meta_expires m) = None \<or> length (meta_names m) < 1
           \<or> length (meta_names m) > MaxSlots) SecretErrRequest,
        meta_names_loop None (meta_names m)]"

record receipt =
  receipt_authorization :: opaque_id
  receipt_workspace :: opaque_id
  receipt_job :: opaque_id
  receipt_metadata :: secret_metadata
  receipt_status :: string
  receipt_created :: gotime
  receipt_consumed :: "gotime option"
  receipt_revoked :: "gotime option"
  receipt_replay :: bool

definition precedes :: "gotime option \<Rightarrow> gotime \<Rightarrow> bool" where
  "precedes t created = (case t of None \<Rightarrow> False | Some x \<Rightarrow> before x created)"

definition receipt_validate :: "receipt \<Rightarrow> secret_error option" where
  "receipt_validate r =
     first_error
       [fail_if (\<not> validOpaqueID (receipt_authorization r) \<or> \<not> validOpaqueID (receipt_workspace r)
           \<or> \<not> validOpaqueID (receipt_job r) \<or> metadata_validate (receipt_metadata r) \<noteq> None
           \<or> is_zero (receipt_created r)) SecretErrRequest,
        fail_if (receipt_status r \<noteq> ''granted'' \<and> receipt_status r \<noteq> ''consumed''
           \<and> receipt_status r \<noteq> ''revoked'' \<and> receipt_status r \<noteq> ''expired'') SecretErrRequest,
        fail_if ((receipt_status r = ''consumed'') \<noteq> (receipt_consumed r \<noteq> None)
           \<or> (receipt_status r = ''revoked'') \<noteq> (receipt_revoked r \<noteq> None)
           \<or> precedes (receipt_consumed r) (receipt_created r)
           \<or> precedes (receipt_revoked r) (receipt_created r)) SecretErrRequest]"

definition receipt_key :: "receipt \<Rightarrow> secret_key" where
  "receipt_key r = \<lparr>key_workspace = receipt_workspace r, key_job = receipt_job r,
     key_attempt = meta_attempt (receipt_metadata r)\<rparr>"

record material =
  material_authorization :: opaque_id
  material_key :: secret_key
  material_expires :: string
  material_values :: details

definition material_clear :: "material \<Rightarrow> material" where
  "material_clear m = m\<lparr>material_values := map_option (\<lambda>_. []) (material_values m)\<rparr>"


section \<open>Lemmas\<close>

lemma valid_slots_loop_iff:
  "valid_slots_loop seen slots \<longleftrightarrow>
     distinct (map slot_name slots) \<and> set (map slot_name slots) \<inter> seen = {}
     \<and> (\<forall>s \<in> set slots. ValidName (slot_name s)
         \<and> slot_exposure s \<in> {''file'', ''file_and_local_process_arguments''})"
  by (induction seen slots rule: valid_slots_loop.induct) auto

lemma ValidSlots_iff:
  "ValidSlots slots \<longleftrightarrow>
     length slots \<le> MaxSlots \<and> distinct (map slot_name slots)
     \<and> (\<forall>s \<in> set slots. ValidName (slot_name s)
         \<and> slot_exposure s \<in> {''file'', ''file_and_local_process_arguments''})"
  by (auto simp: ValidSlots_def valid_slots_loop_iff)

lemma CanonicalTime_Some_iff:
  "CanonicalTime raw = Some t \<longleftrightarrow>
     parse_rfc3339 raw = Some t \<and> year t \<ge> 2 \<and> format_rfc3339 (utc t) = raw"
  by (auto simp: CanonicalTime_def split: option.splits)

lemma CanonicalTime_unique:
  assumes "CanonicalTime a = Some t" "CanonicalTime b = Some u" "unix_ns t = unix_ns u"
  shows "a = b"
proof -
  have "utc t = utc u" using assms(3) by (cases t; cases u) (simp add: utc_def)
  then show ?thesis using assms(1,2) by (simp add: CanonicalTime_Some_iff)
qed

lemma CanonicalTime_format:
  assumes "2 \<le> year t" "year t \<le> 9999" "zone_min t = 0" "unix_ns t mod second_ns = 0"
  shows "CanonicalTime (format_rfc3339 t) = Some t"
proof -
  have utc: "utc t = t" using assms(3) by (simp add: utc_def)
  have "parse_rfc3339 (format_rfc3339 t) = Some t"
    using parse_format_seconds [of t] assms by (cases t) simp
  then show ?thesis using assms(1) utc by (simp add: CanonicalTime_Some_iff)
qed

lemma meta_names_loop_None_iff:
  "meta_names_loop previous names = None \<longleftrightarrow>
     sorted_wrt (<) (case previous of None \<Rightarrow> names | Some p \<Rightarrow> p # names) \<and> list_all ValidName names"
  by (induction previous names rule: meta_names_loop.induct)
    (auto simp: not_le split: option.splits)

lemma supply_names_strict:
  "details_wf (supply_values r) \<Longrightarrow> sorted_wrt (<) (supply_names r)"
  by (simp add: supply_names_def details_wf_def strict_sorted_iff)

lemma supply_validate_None_iff:
  "supply_validate r = None \<longleftrightarrow>
     validOpaqueID (supply_attempt r) \<and> digest_valid (supply_readiness r)
     \<and> CanonicalTime (supply_expires r) \<noteq> None
     \<and> details_list (supply_values r) \<noteq> [] \<and> length (details_list (supply_values r)) \<le> MaxSlots
     \<and> (\<forall>(name, v) \<in> set (details_list (supply_values r)).
          ValidName name \<and> v \<noteq> [] \<and> length v \<le> MaxSlotBytes)
     \<and> sum_list (map (length \<circ> snd) (details_list (supply_values r))) \<le> MaxTotalBytes"
  by (auto simp: supply_validate_def Let_def list_ex_iff not_less Suc_le_eq)

text \<open>The receipt's metadata of a valid supply, which is how the service records it, is valid.\<close>

definition supply_metadata :: "secret_supply \<Rightarrow> secret_metadata" where
  "supply_metadata r = \<lparr>meta_attempt = supply_attempt r, meta_readiness = supply_readiness r,
     meta_expires = supply_expires r, meta_names = supply_names r\<rparr>"

lemma supply_metadata_valid:
  assumes "supply_validate r = None" "details_wf (supply_values r)"
  shows "metadata_validate (supply_metadata r) = None"
proof -
  have "list_all ValidName (supply_names r)"
    using assms(1) by (auto simp: supply_validate_None_iff supply_names_def list_all_iff)
  then have "meta_names_loop None (supply_names r) = None"
    using supply_names_strict [OF assms(2)] by (simp add: meta_names_loop_None_iff)
  then show ?thesis
    using assms(1)
    by (simp add: metadata_validate_def supply_metadata_def supply_validate_None_iff supply_names_def
        Suc_le_eq)
qed

end
