(* ===== verification/Provider_Contract.thy ===== *)
theory Provider_Contract
  imports Go_Json Workload_Secret
begin

text \<open>
  The provider-neutral execution contract: the values exchanged with an adapter and the checks the
  runtime makes on them (\<open>contract.go\<close>, \<open>validate.go\<close>, \<open>preparation.go\<close>, \<open>start.go\<close> and \<open>absence.go\<close>
  under \<open>src/internal/provider\<close>).  A Go slice is a list in an option, \<open>None\<close> for nil, because the
  encoder tells a nil slice from an empty one and plan digests depend on it.  A check returns the first
  error; a panic of the source is an error value of its own.  The loops over runes that only look for
  ASCII bytes are loops over bytes: no byte of a longer or broken rune is below 128.
\<close>

section \<open>Errors and text checks\<close>

datatype provider_error =
    Plain domain_error
  | Structured problem
  | Panicked domain_error

abbreviation plain :: "string \<Rightarrow> provider_error" where
  "plain msg \<equiv> Plain (errors_new msg)"

definition provider_Problem :: "error_code \<Rightarrow> failure_stage \<Rightarrow> string \<Rightarrow> provider_error" where
  "provider_Problem c st msg = (case NewProblem c msg st of Inr p \<Rightarrow> Structured p | Inl e \<Rightarrow> Panicked e)"

type_synonym 'a slice = "'a list option"

definition elems :: "'a slice \<Rightarrow> 'a list" where
  "elems s = (case s of None \<Rightarrow> [] | Some xs \<Rightarrow> xs)"

lemma elems_simps [simp]: "elems None = []" "elems (Some xs) = xs"
  by (simp_all add: elems_def)

text \<open>\<open>append([]T(nil), s...)\<close> is nil when there is nothing to append.\<close>

definition slice_clone :: "'a slice \<Rightarrow> 'a slice" where
  "slice_clone s = (case elems s of [] \<Rightarrow> None | xs \<Rightarrow> Some xs)"

definition control_byte :: "char \<Rightarrow> bool" where
  "control_byte c \<longleftrightarrow> byte c < 32 \<or> byte c = 127"

definition safeText :: "string \<Rightarrow> nat \<Rightarrow> bool" where
  "safeText s limit =
     (if blank s \<or> length s > limit then False else \<not> list_ex control_byte s)"

definition SafeArtifactPath :: "string \<Rightarrow> bool" where
  "SafeArtifactPath path =
     (if path = [] \<or> length path > 1024 \<or> contains_any path [CHR 0x5C, CHR '':''] \<or> has_prefix path ''/''
      then False
      else if list_ex control_byte path then False
      else \<not> list_ex (\<lambda>part. part = [] \<or> part = ''.'' \<or> part = ''..'') (split_on (CHR ''/'') path))"

definition Digest :: "string \<Rightarrow> sha256_digest" where
  "Digest data = sha256_hex data"

definition MaxArtifactFiles :: nat where "MaxArtifactFiles = 10004"
definition MaxArtifactBytes :: int where "MaxArtifactBytes = 4 * 2 ^ 30"


section \<open>Identities and resolved jobs\<close>

record identity =
  id_installation :: opaque_id
  id_workspace :: opaque_id
  id_job :: opaque_id
  id_attempt :: opaque_id
  id_instance :: opaque_id
  id_intent :: opaque_id
  id_resource_key :: string
  id_nonce :: string
  id_bundle :: sha256_digest
  id_manifest :: sha256_digest

definition identity_validate :: "identity \<Rightarrow> provider_error option" where
  "identity_validate i =
     first_error
       [fail_if (\<not> validOpaqueID (id_installation i) \<or> \<not> validOpaqueID (id_workspace i)
           \<or> \<not> validOpaqueID (id_job i) \<or> \<not> validOpaqueID (id_attempt i)
           \<or> \<not> validOpaqueID (id_instance i) \<or> \<not> validOpaqueID (id_intent i))
          (plain ''invalid submission identity''),
        fail_if (\<not> validOpaqueID (id_resource_key i) \<or> \<not> validOpaqueID (id_nonce i)
           \<or> length (id_nonce i) < 16)
          (plain ''resource key and nonce must be bounded opaque values''),
        fail_if (\<not> digest_valid (id_bundle i) \<or> \<not> digest_valid (id_manifest i))
          (plain ''submission requires frozen bundle and input digests'')]"

record frozen_input =
  input_name :: string
  input_target :: string
  input_object :: object_metadata

record input_snapshot =
  snap_bundle :: object_metadata
  snap_inputs :: "frozen_input slice"
  snap_image :: "object_metadata option"

fun input_name_loop :: "nat \<Rightarrow> string \<Rightarrow> bool" where
  "input_name_loop i [] = True"
| "input_name_loop i (c # cs) =
     (if isASCIILetter c \<or> isASCIIDigit c \<or> i > 0 \<and> c \<in> set ''._-''
      then input_name_loop (Suc i) cs else False)"

definition paths_overlap :: "string \<Rightarrow> string \<Rightarrow> bool" where
  "paths_overlap old p \<longleftrightarrow> old = p \<or> has_prefix old (p @ ''/'') \<or> has_prefix p (old @ ''/'')"

text \<open>
  One pass over the inputs, with the lower-cased names and targets seen so far and the bytes so far.  A
  name or target that is not ASCII is refused whatever its lower case is, so lower case is that of ASCII.
\<close>

fun snapshot_loop ::
  "opaque_id \<Rightarrow> string set \<Rightarrow> string list \<Rightarrow> int \<Rightarrow> frozen_input list \<Rightarrow> provider_error option" where
  "snapshot_loop w names paths used [] = None"
| "snapshot_loop w names paths used (i # is) =
     (let obj = input_object i; p = to_lower (input_target i) in
      if \<not> object_valid obj \<or> object_workspace obj \<noteq> w \<or> object_bytes obj > 2 * 2 ^ 30
          \<or> object_bytes obj > 4 * 2 ^ 30 - used \<or> \<not> SafeArtifactPath (input_target i)
          \<or> length (input_name i) < 1 \<or> length (input_name i) > 64 \<or> to_lower (input_name i) \<in> names
      then Some (plain ''invalid frozen input'')
      else if \<not> input_name_loop 0 (input_name i) then Some (plain ''invalid input name'')
      else if list_ex (\<lambda>c. byte c < 32 \<or> byte c \<ge> 127) (input_target i)
      then Some (plain ''unsupported input target encoding'')
      else if list_ex (\<lambda>old. paths_overlap old p) paths then Some (plain ''overlapping frozen inputs'')
      else snapshot_loop w (insert (to_lower (input_name i)) names) (paths @ [p])
        (used + object_bytes obj) is)"

definition snapshot_validate :: "opaque_id \<Rightarrow> input_snapshot \<Rightarrow> provider_error option" where
  "snapshot_validate w s =
     first_error
       [fail_if (\<not> object_valid (snap_bundle s) \<or> object_workspace (snap_bundle s) \<noteq> w
           \<or> object_bytes (snap_bundle s) > 100 * 2 ^ 20 \<or> length (elems (snap_inputs s)) > 256)
          (plain ''invalid frozen input snapshot''),
        (case snap_image s of
           None \<Rightarrow> None
         | Some img \<Rightarrow> fail_if (\<not> object_valid img \<or> object_workspace img \<noteq> w
             \<or> object_bytes img < 1 \<or> object_bytes img > 2 * 2 ^ 30)
             (plain ''invalid frozen application image'')),
        snapshot_loop w {} [] 0 (elems (snap_inputs s))]"

definition input_entry_json :: "frozen_input \<Rightarrow> json" where
  "input_entry_json i =
     JObject [(''bytes'', JInt (object_bytes (input_object i))), (''name'', JString (input_name i)),
       (''sha256'', JString (object_sha256 (input_object i))), (''target'', JString (input_target i))]"

definition input_manifest :: "frozen_input list \<Rightarrow> string" where
  "input_manifest is = json_render False (JArray (map input_entry_json (sort_key input_target is)))"

definition InputDigest :: "input_snapshot \<Rightarrow> sha256_digest" where
  "InputDigest s = Digest (input_manifest (elems (snap_inputs s)))"

record resolved_job =
  rj_identity :: identity
  rj_binding :: provider_binding
  rj_specification :: string
  rj_specification_sha256 :: sha256_digest
  rj_required :: "capability_name slice"
  rj_wall_seconds :: int
  rj_inputs :: "input_snapshot option"

definition specification_check :: "string \<Rightarrow> provider_error option" where
  "specification_check spec =
     (let refused = plain ''specification must be a bounded JSON object validated by admission'' in
      if spec = [] \<or> length spec > 2 ^ 20 \<or> \<not> json_valid spec then Some refused
      else case trim_space spec of
          [] \<Rightarrow> Some (Panicked (errors_new ''index out of range''))
        | c # _ \<Rightarrow> fail_if (c \<noteq> CHR ''{'') refused)"

fun required_loop :: "capability_name set \<Rightarrow> capability_name list \<Rightarrow> provider_error option" where
  "required_loop seen [] = None"
| "required_loop seen (name # names) =
     (if blank name \<or> length name > 128 \<or> name \<in> seen
      then Some (plain ''empty, duplicate, or oversized required capability'')
      else required_loop (insert name seen) names)"

definition resolved_job_validate :: "resolved_job \<Rightarrow> provider_error option" where
  "resolved_job_validate j =
     first_error
       [identity_validate (rj_identity j),
        map_option Plain (binding_validate (rj_binding j)),
        fail_if (binding_instance (rj_binding j) \<noteq> id_instance (rj_identity j))
          (plain ''job binding does not match submission instance''),
        fail_if (rj_wall_seconds j \<le> 0 \<or> rj_wall_seconds j > MaxRemoteWallSeconds)
          (plain ''resolved wall budget exceeds the finite contract maximum''),
        specification_check (rj_specification j),
        fail_if (Digest (rj_specification j) \<noteq> rj_specification_sha256 j)
          (plain ''frozen specification digest mismatch''),
        (case rj_inputs j of
           None \<Rightarrow> None
         | Some s \<Rightarrow> fail_if (snapshot_validate (id_workspace (rj_identity j)) s \<noteq> None
             \<or> object_sha256 (snap_bundle s) \<noteq> id_bundle (rj_identity j)
             \<or> InputDigest s \<noteq> id_manifest (rj_identity j))
             (plain ''frozen input snapshot digest mismatch'')),
        fail_if (elems (rj_required j) = [] \<or> length (elems (rj_required j)) > 64)
          (plain ''resolved job requires a bounded capability list''),
        required_loop {} (elems (rj_required j)),
        fail_if (CapabilityBatchExecution \<notin> set (elems (rj_required j)))
          (plain ''finite batch capability is required'')]"

text \<open>Cloning breaks aliasing; on the values it only turns empty slices into nil ones.\<close>

definition resolved_job_clone :: "resolved_job \<Rightarrow> resolved_job" where
  "resolved_job_clone j = j\<lparr>rj_required := slice_clone (rj_required j)\<rparr>"

record plan =
  plan_job :: resolved_job
  plan_verify_after_start :: "capability_name slice"

definition plan_clone :: "plan \<Rightarrow> plan" where
  "plan_clone p = p\<lparr>plan_job := resolved_job_clone (plan_job p),
     plan_verify_after_start := slice_clone (plan_verify_after_start p)\<rparr>"

definition strings_json :: "string slice \<Rightarrow> json" where
  "strings_json s = (case s of None \<Rightarrow> JNull | Some xs \<Rightarrow> JArray (map JString xs))"

definition identity_json :: "identity \<Rightarrow> json" where
  "identity_json i =
     JObject [(''InstallationID'', JString (id_installation i)), (''WorkspaceID'', JString (id_workspace i)),
       (''JobID'', JString (id_job i)), (''AttemptID'', JString (id_attempt i)),
       (''InstanceID'', JString (id_instance i)), (''IntentID'', JString (id_intent i)),
       (''ResourceKey'', JString (id_resource_key i)), (''Nonce'', JString (id_nonce i)),
       (''BundleSHA256'', JString (id_bundle i)), (''InputManifestSHA256'', JString (id_manifest i))]"

definition object_json :: "object_metadata \<Rightarrow> json" where
  "object_json m =
     JObject [(''object_id'', JString (object_id m)), (''workspace_id'', JString (object_workspace m)),
       (''bytes'', JInt (object_bytes m)), (''sha256'', JString (object_sha256 m))]"

definition snapshot_json :: "input_snapshot \<Rightarrow> json" where
  "snapshot_json s =
     JObject ([(''bundle'', object_json (snap_bundle s)),
        (''inputs'', case snap_inputs s of
            None \<Rightarrow> JNull
          | Some is \<Rightarrow> JArray (map (\<lambda>i. JObject [(''name'', JString (input_name i)),
              (''target'', JString (input_target i)), (''object'', object_json (input_object i))]) is))]
      @ (case snap_image s of None \<Rightarrow> [] | Some m \<Rightarrow> [(''application_image'', object_json m)]))"

definition binding_json :: "provider_binding \<Rightarrow> json" where
  "binding_json b =
     JObject [(''Profile'', JString (binding_profile b)), (''ProviderInstanceID'', JString (binding_instance b)),
       (''ConfigurationRevision'', JString (binding_revision b))]"

text \<open>The only empty raw message is the nil one, which is encoded as \<open>null\<close>.\<close>

definition resolved_job_json :: "resolved_job \<Rightarrow> json" where
  "resolved_job_json j =
     JObject ([(''Identity'', identity_json (rj_identity j)), (''Binding'', binding_json (rj_binding j)),
        (''Specification'', if rj_specification j = [] then JNull else JRaw (rj_specification j)),
        (''SpecificationSHA256'', JString (rj_specification_sha256 j)),
        (''Required'', strings_json (rj_required j)), (''WallSeconds'', JInt (rj_wall_seconds j))]
      @ (case rj_inputs j of None \<Rightarrow> [] | Some s \<Rightarrow> [(''Inputs'', snapshot_json s)]))"

definition plan_json :: "plan \<Rightarrow> json" where
  "plan_json p =
     JObject [(''Job'', resolved_job_json (plan_job p)),
       (''VerifyAfterStart'', strings_json (plan_verify_after_start p))]"

definition plan_digest :: "plan \<Rightarrow> sha256_digest" where
  "plan_digest p =
     (if rj_specification (plan_job p) \<noteq> [] \<and> \<not> json_valid (rj_specification (plan_job p)) then []
      else Digest (json_marshal (plan_json p)))"


section \<open>Preparation\<close>

record prepared =
  prep_verification :: sha256_digest
  prep_manifest :: sha256_digest
  prep_identity :: identity
  prep_id :: opaque_id
  prep_plan :: sha256_digest
  prep_resource :: string
  prep_ready :: bool
  prep_private :: bool

definition prepared_validate :: "plan \<Rightarrow> opaque_id \<Rightarrow> prepared \<Rightarrow> provider_error option" where
  "prepared_validate p i x =
     fail_if (resolved_job_validate (plan_job p) \<noteq> None \<or> \<not> validOpaqueID i
         \<or> prep_identity x \<noteq> rj_identity (plan_job p) \<or> prep_id x \<noteq> i
         \<or> prep_plan x \<noteq> plan_digest p \<or> \<not> safeText (prep_resource x) 1024)
       (plain ''preparation identity mismatch'')"

datatype reconciliation_status =
  ReconciliationFound | ReconciliationNotFound | ReconciliationUnknown | ReconciliationAbsent
  | ReconciliationOther string

record preparation_observation =
  po_status :: reconciliation_status
  po_prepared :: "prepared option"
  po_cause :: string

definition preparation_observation_validate ::
  "plan \<Rightarrow> opaque_id \<Rightarrow> preparation_observation \<Rightarrow> provider_error option" where
  "preparation_observation_validate p i x =
     (case po_status x of
        ReconciliationFound \<Rightarrow>
          (case po_prepared x of
             None \<Rightarrow> Some (plain ''missing preparation'')
           | Some y \<Rightarrow> if po_cause x \<noteq> [] then Some (plain ''missing preparation'')
               else prepared_validate p i y)
      | ReconciliationUnknown \<Rightarrow>
          fail_if (po_prepared x \<noteq> None) (plain ''unresolved preparation contains resource'')
      | ReconciliationNotFound \<Rightarrow>
          fail_if (po_prepared x \<noteq> None) (plain ''unresolved preparation contains resource'')
      | _ \<Rightarrow> Some (plain ''invalid preparation observation''))"

definition prepared_json :: "prepared \<Rightarrow> json" where
  "prepared_json x =
     JObject (omit_if (prep_verification x = []) ''VerificationSHA256'' (JString (prep_verification x))
       @ omit_if (prep_manifest x = []) ''ManifestSHA256'' (JString (prep_manifest x))
       @ [(''Identity'', identity_json (prep_identity x)), (''PreparationID'', JString (prep_id x)),
          (''PlanSHA256'', JString (prep_plan x)), (''Resource'', JString (prep_resource x)),
          (''Ready'', JBool (prep_ready x)), (''Private'', JBool (prep_private x))])"

definition readiness_document :: "prepared \<Rightarrow> string" where
  "readiness_document x =
     json_marshal (JObject [(''Version'', JString ''readiness/v1''), (''Prepared'', prepared_json x)])"

definition ReadinessRevision :: "prepared \<Rightarrow> sha256_digest" where
  "ReadinessRevision x =
     (if \<not> prep_ready x \<or> \<not> prep_private x \<or> \<not> digest_valid (prep_verification x)
         \<or> \<not> digest_valid (prep_manifest x)
      then [] else Digest (readiness_document x))"


section \<open>Start authorization\<close>

record secret_authorization =
  secret_authorization_id :: opaque_id
  secret_expires :: string
  secret_slots :: "slot list"

record start_authorization =
  start_secrets :: "secret_authorization option"
  start_authorization_id :: opaque_id
  start_readiness :: sha256_digest
  start_wall_seconds :: int
  start_deadline :: string
  start_before :: string

definition start_authorization_equal :: "start_authorization \<Rightarrow> start_authorization \<Rightarrow> bool" where
  "start_authorization_equal s t =
     (if s\<lparr>start_secrets := None\<rparr> \<noteq> t\<lparr>start_secrets := None\<rparr> then False
      else case (start_secrets s, start_secrets t) of
          (Some a, Some b) \<Rightarrow> secret_authorization_id a = secret_authorization_id b
            \<and> secret_expires a = secret_expires b \<and> secret_slots a = secret_slots b
        | (a, b) \<Rightarrow> a = None \<and> b = None)"

definition start_authorization_validate :: "prepared \<Rightarrow> start_authorization \<Rightarrow> provider_error option" where
  "start_authorization_validate x s =
     (case (parse_rfc3339 (start_deadline s), parse_rfc3339 (start_before s)) of
        (Some deadline, Some bfr) \<Rightarrow>
          first_error
            [fail_if (\<not> validOpaqueID (start_authorization_id s) \<or> \<not> digest_valid (start_readiness s)
                \<or> start_readiness s \<noteq> ReadinessRevision x \<or> start_wall_seconds s < 1
                \<or> start_wall_seconds s > MaxRemoteWallSeconds \<or> year deadline < 2 \<or> year bfr < 2
                \<or> format_rfc3339 (utc deadline) \<noteq> start_deadline s
                \<or> format_rfc3339 (utc bfr) \<noteq> start_before s \<or> after bfr deadline)
               (plain ''invalid explicit start authorization''),
             (case start_secrets s of
                None \<Rightarrow> None
              | Some a \<Rightarrow> fail_if (\<not> validOpaqueID (secret_authorization_id a)
                  \<or> (case CanonicalTime (secret_expires a) of
                       None \<Rightarrow> True | Some expires \<Rightarrow> before expires bfr)
                  \<or> secret_slots a = [] \<or> \<not> ValidSlots (secret_slots a))
                  (plain ''invalid workload secret authorization''))]
      | _ \<Rightarrow> Some (plain ''invalid explicit start authorization''))"

definition ValidateMaterial :: "prepared \<Rightarrow> start_authorization \<Rightarrow> material \<Rightarrow> provider_error option" where
  "ValidateMaterial x s m =
     (case start_secrets s of
        None \<Rightarrow> Some (plain ''invalid workload secret material binding'')
      | Some a \<Rightarrow>
          let values = details_list (material_values m);
              request = \<lparr>supply_attempt = key_attempt (material_key m), supply_readiness = start_readiness s,
                supply_expires = material_expires m, supply_values = material_values m\<rparr>
          in first_error
            [fail_if (start_authorization_validate x s \<noteq> None
                \<or> material_authorization m \<noteq> secret_authorization_id a
                \<or> key_workspace (material_key m) \<noteq> id_workspace (prep_identity x)
                \<or> key_job (material_key m) \<noteq> id_job (prep_identity x)
                \<or> key_attempt (material_key m) \<noteq> id_attempt (prep_identity x)
                \<or> material_expires m \<noteq> secret_expires a \<or> length values \<noteq> length (secret_slots a))
               (plain ''invalid workload secret material binding''),
             fail_if (supply_validate request \<noteq> None) (plain ''invalid workload secret material''),
             fail_if (list_ex (\<lambda>sl. details_get (material_values m) (slot_name sl) = []) (secret_slots a))
               (plain ''required workload secret material missing'')])"


section \<open>Remote evidence\<close>

record remote_reference =
  remote_identity :: identity
  remote_resource :: string
  remote_version :: string

definition remote_validate :: "remote_reference \<Rightarrow> provider_error option" where
  "remote_validate r =
     first_error
       [identity_validate (remote_identity r),
        fail_if (\<not> safeText (remote_resource r) 1024 \<or> \<not> safeText (remote_version r) 256)
          (plain ''remote reference requires bounded resource and version'')]"

datatype submission_status =
  SubmissionAccepted | SubmissionRejected | SubmissionUnknown | SubmissionStatusOther string

record submission_outcome =
  outcome_status :: submission_status
  outcome_remote :: "remote_reference option"
  outcome_problem :: "problem option"

definition submission_outcome_validate :: "identity \<Rightarrow> submission_outcome \<Rightarrow> provider_error option" where
  "submission_outcome_validate expected x =
     first_error
       [identity_validate expected,
        (case outcome_remote x of
           None \<Rightarrow> None
         | Some r \<Rightarrow> if remote_identity r \<noteq> expected
             then Some (provider_Problem CodeRemoteIdentityMismatch FailureStageObservation
               ''submission identity mismatch'')
             else remote_validate r),
        (case outcome_problem x of None \<Rightarrow> None | Some p \<Rightarrow> map_option Plain (problem_validate p)),
        (case outcome_status x of
           SubmissionAccepted \<Rightarrow>
             fail_if (outcome_remote x = None \<or> outcome_problem x \<noteq> None)
               (plain ''acceptance requires identity and no failure'')
         | SubmissionRejected \<Rightarrow>
             fail_if (outcome_remote x \<noteq> None
                 \<or> (case outcome_problem x of None \<Rightarrow> True | Some p \<Rightarrow> compute_may_have_started p))
               (plain ''rejection requires proof of non-acceptance'')
         | SubmissionUnknown \<Rightarrow>
             fail_if (case outcome_problem x of
                 None \<Rightarrow> True
               | Some p \<Rightarrow> \<not> compute_may_have_started p \<or> safe_operation_retry p
                   \<or> recommended_action p \<noteq> RecommendedActionReconcile)
               (plain ''unknown submission requires ambiguity and reconciliation without retry'')
         | SubmissionStatusOther s \<Rightarrow> Some (plain ''invalid submission outcome''))]"

record observation =
  obs_remote :: remote_reference
  obs_execution :: execution_state
  obs_raw_state :: string
  obs_activity :: remote_activity_state
  obs_release :: release_evidence
  obs_at :: gotime

definition observation_validate :: "remote_reference \<Rightarrow> observation \<Rightarrow> provider_error option" where
  "observation_validate expected x =
     first_error
       [remote_validate expected,
        (if obs_remote x \<noteq> expected
         then Some (provider_Problem CodeRemoteIdentityMismatch FailureStageObservation
           ''observation belongs to another execution'')
         else None),
        fail_if (is_zero (obs_at x) \<or> \<not> execution_valid (obs_execution x)
            \<or> \<not> remote_activity_valid (obs_activity x) \<or> \<not> release_evidence_valid (obs_release x)
            \<or> \<not> safeText (obs_raw_state x) 1024)
          (plain ''invalid provider observation''),
        fail_if (execution_terminal (obs_execution x) \<and> obs_activity x \<noteq> RemoteActivityInactive)
          (plain ''terminal observation cannot leave remote activity unresolved''),
        fail_if (obs_activity x = RemoteActivityNotStarted)
          (plain ''identified remote execution cannot be not-started''),
        fail_if (obs_execution x = ExecutionNotSubmitted)
          (plain ''identified remote run cannot be not-submitted''),
        fail_if (\<not> execution_terminal (obs_execution x) \<and> obs_activity x = RemoteActivityInactive)
          (plain ''inactive observation requires terminal evidence''),
        fail_if (obs_release x = ReleaseEvidenceNotApplicable
            \<or> (obs_release x = ReleaseEvidenceConfirmed \<or> obs_release x = ReleaseEvidenceProviderReported)
              \<and> \<not> execution_terminal (obs_execution x))
          (plain ''release claim contradicts execution evidence'')]"

record reconciliation =
  rec_status :: reconciliation_status
  rec_remote :: "remote_reference option"
  rec_resource_name :: string

definition reconciliation_validate :: "identity \<Rightarrow> reconciliation \<Rightarrow> provider_error option" where
  "reconciliation_validate expected x =
     first_error
       [identity_validate expected,
        (case rec_status x of
           ReconciliationAbsent \<Rightarrow>
             fail_if (rec_remote x \<noteq> None \<or> \<not> ValidResourceName (rec_resource_name x))
               (plain ''absence requires an exact owned resource name'')
         | ReconciliationFound \<Rightarrow>
             (case rec_remote x of
                None \<Rightarrow> Some (plain ''reconciliation identity mismatch'')
              | Some r \<Rightarrow> if remote_identity r \<noteq> expected
                  then Some (plain ''reconciliation identity mismatch'') else remote_validate r)
         | ReconciliationNotFound \<Rightarrow>
             fail_if (rec_remote x \<noteq> None) (plain ''unresolved lookup cannot invent a remote reference'')
         | ReconciliationUnknown \<Rightarrow>
             fail_if (rec_remote x \<noteq> None) (plain ''unresolved lookup cannot invent a remote reference'')
         | ReconciliationOther s \<Rightarrow> Some (plain ''invalid reconciliation outcome''))]"

record remote_absence =
  absence_remote :: remote_reference
  absence_at :: gotime

definition absence_error :: string where
  "absence_error = ''recorded remote resource is absent; final execution outcome is unknown''"

definition absence_unwrap :: provider_error where
  "absence_unwrap =
     (case provider_Problem CodeRemoteExecutionUnresolved FailureStageOperation absence_error of
        Structured p \<Rightarrow> Structured (WithDetail ReasonDetail ''remote_not_found'' p)
      | e \<Rightarrow> e)"

record artifact =
  artifact_remote :: remote_reference
  artifact_path :: string
  artifact_bytes :: int
  artifact_sha256 :: sha256_digest

definition artifact_validate :: "remote_reference \<Rightarrow> artifact \<Rightarrow> provider_error option" where
  "artifact_validate expected a =
     first_error
       [remote_validate expected,
        (if artifact_remote a \<noteq> expected
         then Some (provider_Problem CodeRemoteIdentityMismatch FailureStageObservation
           ''artifact belongs to another execution'')
         else None),
        fail_if (\<not> SafeArtifactPath (artifact_path a) \<or> artifact_bytes a < 0
            \<or> \<not> digest_valid (artifact_sha256 a))
          (plain ''invalid artifact metadata'')]"

record page_request =
  page_cursor :: string
  page_limit :: int

definition page_request_validate :: "page_request \<Rightarrow> provider_error option" where
  "page_request_validate p =
     fail_if (page_limit p < 1 \<or> page_limit p > 100 \<or> length (page_cursor p) > 512)
       (plain ''invalid page limit or cursor'')"

record binding_snapshot =
  bs_binding :: provider_binding
  bs_account :: string
  bs_credential :: string

definition binding_snapshot_valid :: "binding_snapshot \<Rightarrow> bool" where
  "binding_snapshot_valid s \<longleftrightarrow>
     binding_validate (bs_binding s) = None \<and> validOpaqueID (bs_account s)
     \<and> length (bs_credential s) \<le> 1030
     \<and> \<not> contains_any (bs_credential s) [CHR 0x00, CHR 0x0D, CHR 0x0A]"

end
