(* ===== verification/Provider_Facts.thy ===== *)
theory Provider_Facts
  imports Provider_Contract
begin

text \<open>
  What the checks of the provider contract guarantee: they never panic, an accepted artifact path stays
  below the directory it is resolved in, a frozen input snapshot has disjoint targets and bounded bytes,
  its digest does not depend on the order of the inputs, secret material covers exactly the authorized
  slots, and a start authorization names one prepared value unless two documents have the same SHA-256.
\<close>

section \<open>No check panics\<close>

lemma trim_space_ends:
  "s \<noteq> [] \<Longrightarrow> printable_byte (hd s) \<Longrightarrow> printable_byte (last s) \<Longrightarrow> trim_space s = s"
  by (cases s) (auto simp: trim_space_printable_ends)

lemma provider_Problem_structured:
  assumes "code_stage c = Some st" "msg \<noteq> []" "printable_byte (hd msg)" "printable_byte (last msg)"
  shows "provider_Problem c st msg =
    Structured \<lparr>code = c, message = msg, stage = st, safe_operation_retry = False,
      compute_may_have_started = False, recommended_action = RecommendedActionNone, details = None\<rparr>"
proof -
  have "trim_space msg = msg" using assms(2-4) by (rule trim_space_ends)
  then have "NewProblem c msg st = Inr \<lparr>code = c, message = msg, stage = st, safe_operation_retry = False,
      compute_may_have_started = False, recommended_action = RecommendedActionNone, details = None\<rparr>"
    using assms(1,2) by (simp add: NewProblem_Inr_iff)
  then show ?thesis by (simp add: provider_Problem_def)
qed

lemma identity_mismatch_stage: "code_stage CodeRemoteIdentityMismatch = Some FailureStageObservation"
  by (simp add: code_stage_def error_code_category_def errorCategories_def)

lemma printable_letter [simp]: "printable_byte (CHR ''s'')" "printable_byte (CHR ''h'')"
  "printable_byte (CHR ''o'')" "printable_byte (CHR ''n'')" "printable_byte (CHR ''a'')"
  "printable_byte (CHR ''r'')"
  by (simp_all add: printable_byte_def byte_def)

definition no_panic :: "provider_error option \<Rightarrow> bool" where
  "no_panic x \<longleftrightarrow> (\<forall>e. x \<noteq> Some (Panicked e))"

lemma no_panic_first_error: "list_all no_panic es \<Longrightarrow> no_panic (first_error es)"
  by (induction es rule: first_error.induct) (simp_all add: no_panic_def)

lemma no_panic_simps [simp]:
  "no_panic None" "no_panic (Some (Plain d))" "no_panic (Some (Structured p))"
  "no_panic (fail_if b (Plain d))" "no_panic (map_option Plain x)"
  by (auto simp: no_panic_def fail_if_def map_option_case split: option.splits)

lemma specification_check_no_panic [simp]: "no_panic (specification_check spec)"
  using json_valid_not_blank [of spec]
  by (auto simp: specification_check_def Let_def split: list.splits)

lemma identity_validate_no_panic [simp]: "no_panic (identity_validate i)"
  unfolding identity_validate_def by (rule no_panic_first_error) simp

lemma required_loop_no_panic [simp]: "no_panic (required_loop seen names)"
  by (induction seen names rule: required_loop.induct) auto

lemma resolved_job_validate_no_panic: "no_panic (resolved_job_validate j)"
  unfolding resolved_job_validate_def by (rule no_panic_first_error) (simp split: option.splits)

lemma remote_validate_no_panic [simp]: "no_panic (remote_validate r)"
  unfolding remote_validate_def by (rule no_panic_first_error) simp

lemma mismatch_no_panic [simp]:
  "no_panic (Some (provider_Problem CodeRemoteIdentityMismatch FailureStageObservation
     ''submission identity mismatch''))"
  "no_panic (Some (provider_Problem CodeRemoteIdentityMismatch FailureStageObservation
     ''observation belongs to another execution''))"
  "no_panic (Some (provider_Problem CodeRemoteIdentityMismatch FailureStageObservation
     ''artifact belongs to another execution''))"
  by (simp_all add: provider_Problem_structured identity_mismatch_stage)

lemma submission_outcome_no_panic: "no_panic (submission_outcome_validate i x)"
  unfolding submission_outcome_validate_def
  by (rule no_panic_first_error) (simp split: option.splits submission_status.splits)

lemma observation_no_panic: "no_panic (observation_validate r x)"
  unfolding observation_validate_def by (rule no_panic_first_error) simp

lemma artifact_no_panic: "no_panic (artifact_validate r x)"
  unfolding artifact_validate_def by (rule no_panic_first_error) simp

lemma reconciliation_no_panic: "no_panic (reconciliation_validate i x)"
  unfolding reconciliation_validate_def
  by (rule no_panic_first_error) (simp split: option.splits reconciliation_status.splits)


section \<open>Artifact paths\<close>

text \<open>How a file system walks a relative path from a directory.\<close>

fun walk_path :: "string list \<Rightarrow> string list \<Rightarrow> string list" where
  "walk_path dir [] = dir"
| "walk_path dir (part # parts) =
     (if part = [] \<or> part = ''.'' then walk_path dir parts
      else if part = ''..'' then walk_path (butlast dir) parts
      else walk_path (dir @ [part]) parts)"

lemma walk_path_plain:
  "\<forall>p \<in> set parts. p \<noteq> [] \<and> p \<noteq> ''.'' \<and> p \<noteq> ''..'' \<Longrightarrow> walk_path dir parts = dir @ parts"
  by (induction dir parts rule: walk_path.induct) auto

lemma SafeArtifactPath_parts:
  "SafeArtifactPath path \<Longrightarrow> p \<in> set (split_on (CHR ''/'') path) \<Longrightarrow> p \<noteq> [] \<and> p \<noteq> ''.'' \<and> p \<noteq> ''..''"
  by (auto simp: SafeArtifactPath_def list_ex_iff split: if_splits)

lemma SafeArtifactPath_bytes:
  assumes "SafeArtifactPath path" "c \<in> set path"
  shows "\<not> control_byte c" "c \<noteq> CHR 0x5C" "c \<noteq> CHR '':''"
  using assms by (auto simp: SafeArtifactPath_def list_ex_iff contains_any_def split: if_splits)


section \<open>Frozen inputs\<close>

lemma paths_overlap_sym: "paths_overlap a b \<longleftrightarrow> paths_overlap b a"
  by (auto simp: paths_overlap_def)

lemma paths_overlap_refl [simp]: "paths_overlap a a"
  by (simp add: paths_overlap_def)

abbreviation lower_name :: "frozen_input \<Rightarrow> string" where
  "lower_name i \<equiv> to_lower (input_name i)"

abbreviation lower_target :: "frozen_input \<Rightarrow> string" where
  "lower_target i \<equiv> to_lower (input_target i)"

abbreviation input_bytes :: "frozen_input \<Rightarrow> int" where
  "input_bytes i \<equiv> object_bytes (input_object i)"

definition input_ok :: "opaque_id \<Rightarrow> frozen_input \<Rightarrow> bool" where
  "input_ok w i \<longleftrightarrow>
     object_valid (input_object i) \<and> object_workspace (input_object i) = w
     \<and> SafeArtifactPath (input_target i) \<and> input_name_loop 0 (input_name i) \<and> input_name i \<noteq> []
     \<and> list_all (\<lambda>c. 32 \<le> byte c \<and> byte c < 127) (input_target i)"

lemma snapshot_loop_None:
  assumes "snapshot_loop w names paths used is = None" "used \<le> 4 * 2 ^ 30"
  shows "list_all (input_ok w) is
    \<and> distinct (map lower_name is) \<and> names \<inter> set (map lower_name is) = {}
    \<and> sorted_wrt (\<lambda>a b. \<not> paths_overlap a b) (paths @ map lower_target is) = sorted_wrt (\<lambda>a b. \<not> paths_overlap a b) paths
    \<and> used + sum_list (map input_bytes is) \<le> 4 * 2 ^ 30"
  using assms
proof (induction w names paths used "is" rule: snapshot_loop.induct)
  case (2 w names paths used i "is")
  have rest: "snapshot_loop w (insert (lower_name i) names) (paths @ [lower_target i])
      (used + input_bytes i) is = None" and bytes: "input_bytes i \<le> 4 * 2 ^ 30 - used"
    and ok: "input_ok w i" and fresh: "lower_name i \<notin> names"
    and apart: "\<forall>old \<in> set paths. \<not> paths_overlap old (lower_target i)"
    using "2.prems"(1)
    by (auto simp: Let_def input_ok_def list_ex_iff list_all_iff not_less not_le split: if_splits)
  have "used + input_bytes i \<le> 4 * 2 ^ 30" using bytes by simp
  with 2(1) rest "2.prems"(1) have ih: "list_all (input_ok w) is
    \<and> distinct (map lower_name is) \<and> insert (lower_name i) names \<inter> set (map lower_name is) = {}
    \<and> sorted_wrt (\<lambda>a b. \<not> paths_overlap a b) ((paths @ [lower_target i]) @ map lower_target is)
      = sorted_wrt (\<lambda>a b. \<not> paths_overlap a b) (paths @ [lower_target i])
    \<and> used + input_bytes i + sum_list (map input_bytes is) \<le> 4 * 2 ^ 30"
    by (auto simp: Let_def split: if_splits)
  then show ?case using ok fresh apart by (auto simp: sorted_wrt_append)
qed simp

lemma sort_key_permutation:
  assumes "mset xs = mset ys" "inj_on f (set xs)"
  shows "sort_key f xs = sort_key f ys"
  using assms by (intro sort_key_inj_key_eq) simp_all

lemma InputDigest_permutation:
  assumes "mset (elems (snap_inputs s)) = mset (elems (snap_inputs t))"
    "distinct (map input_target (elems (snap_inputs s)))"
  shows "InputDigest s = InputDigest t"
  using sort_key_permutation [OF assms(1), of input_target] assms(2)
  by (simp add: InputDigest_def input_manifest_def distinct_map)

lemma non_overlapping_distinct:
  "sorted_wrt (\<lambda>a b. \<not> paths_overlap a b) xs \<Longrightarrow> distinct xs"
  by (induction xs) auto

lemma distinct_lower: "distinct (map (to_lower \<circ> f) xs) \<Longrightarrow> distinct (map f xs)"
  by (auto simp: distinct_map inj_on_def comp_def)


section \<open>Start authorization\<close>

lemma start_authorization_equal_iff: "start_authorization_equal s t \<longleftrightarrow> s = t"
proof
  assume eq: "start_authorization_equal s t"
  then have "s\<lparr>start_secrets := None\<rparr> = t\<lparr>start_secrets := None\<rparr>"
    by (simp add: start_authorization_equal_def split: if_splits)
  moreover have "start_secrets s = start_secrets t"
    using eq by (auto simp: start_authorization_equal_def split: if_splits option.splits)
  ultimately show "s = t" by (cases s; cases t) simp
qed (simp add: start_authorization_equal_def split: option.splits)

lemma start_authorization_None:
  assumes "start_authorization_validate x s = None"
  shows "start_readiness s = ReadinessRevision x" "digest_valid (start_readiness s)"
    "validOpaqueID (start_authorization_id s)"
    "1 \<le> start_wall_seconds s" "start_wall_seconds s \<le> MaxRemoteWallSeconds"
    "\<And>a. start_secrets s = Some a \<Longrightarrow> ValidSlots (secret_slots a) \<and> secret_slots a \<noteq> []"
  using assms by (auto simp: start_authorization_validate_def split: option.splits)

lemma ready_prepared:
  assumes "start_authorization_validate x s = None"
  shows "prep_ready x" "prep_private x" "digest_valid (prep_verification x)" "digest_valid (prep_manifest x)"
    "start_readiness s = Digest (readiness_document x)"
  using start_authorization_None(1,2) [OF assms]
  by (auto simp: ReadinessRevision_def split: if_splits)

lemma covering_slots:
  assumes "details_wf d" "distinct names" "length (details_list d) = length names"
    "\<forall>n \<in> set names. details_get d n \<noteq> []"
  shows "set (map fst (details_list d)) = set names"
proof -
  have sub: "set names \<subseteq> fst ` set (details_list d)"
    using assms(4) details_get_nonempty_mem by force
  have "distinct (map fst (details_list d))"
    using assms(1) by (simp add: details_wf_def strict_sorted_iff)
  then have "card (fst ` set (details_list d)) = length names"
    using distinct_card [of "map fst (details_list d)"] assms(3) by simp
  then show ?thesis using sub assms(2) card_subset_eq [of "fst ` set (details_list d)" "set names"]
    by (simp add: distinct_card)
qed

lemma ValidateMaterial_None:
  assumes "ValidateMaterial x s m = None"
  obtains a where "start_secrets s = Some a" "start_authorization_validate x s = None"
    "material_authorization m = secret_authorization_id a"
    "material_key m = \<lparr>key_workspace = id_workspace (prep_identity x), key_job = id_job (prep_identity x),
       key_attempt = id_attempt (prep_identity x)\<rparr>"
    "length (details_list (material_values m)) = length (secret_slots a)"
    "\<forall>sl \<in> set (secret_slots a). details_get (material_values m) (slot_name sl) \<noteq> []"
  using assms
  by (cases "material_key m")
    (auto simp: ValidateMaterial_def Let_def list_ex_iff split: option.splits)


section \<open>The readiness document determines the preparation\<close>

subsection \<open>Quoted ASCII strings can be read back\<close>

definition hex_value :: "char \<Rightarrow> nat" where
  "hex_value c = (if byte c < 58 then byte c - 48 else byte c - 87)"

lemma hex_value_digit: "n < 16 \<Longrightarrow> hex_value (hex_digit n) = n"
  by (auto simp: hex_value_def hex_digit_def byte_def)

text \<open>Reading one escaped byte.\<close>

fun unescape_byte :: "string \<Rightarrow> char \<times> string" where
  "unescape_byte (c # e # rest) =
     (if c \<noteq> CHR 0x5C then (c, e # rest)
      else if e = CHR ''b'' then (char_of (8 :: nat), rest)
      else if e = CHR ''f'' then (char_of (12 :: nat), rest)
      else if e = CHR ''n'' then (char_of (10 :: nat), rest)
      else if e = CHR ''r'' then (char_of (13 :: nat), rest)
      else if e = CHR ''t'' then (char_of (9 :: nat), rest)
      else if e = CHR ''u''
        then (char_of (16 * hex_value (rest ! 2) + hex_value (rest ! 3)), drop 4 rest)
      else (e, rest))"
| "unescape_byte [c] = (c, [])"
| "unescape_byte [] = (CHR 0x00, [])"

lemma byte_eqI: "byte c = byte d \<Longrightarrow> c = d"
  by (simp add: byte_def of_char_eq_iff)

lemma byte_char_of: "n < 256 \<Longrightarrow> byte (char_of n) = n"
  by (simp add: byte_Char)

lemma hex_encode_pair: "hex_encode [a, b]
    = [hex_digit (a div 16), hex_digit (a mod 16), hex_digit (b div 16), hex_digit (b mod 16)]"
  by (simp add: hex_encode_def)

lemma unescape_unicode:
  assumes "byte c < 128"
  shows "unescape_byte (unicode_escape (byte c) @ x) = (c, x)"
proof -
  have "char_of (16 * (byte c div 16) + byte c mod 16) = c"
    by (rule byte_eqI) (simp add: byte_char_of)
  then show ?thesis
    using assms by (simp add: unicode_escape_def hex_encode_pair hex_value_digit)
qed

lemma unescape_plain: "c \<noteq> CHR 0x5C \<Longrightarrow> unescape_byte (c # x) = (c, x)"
  by (cases x) auto

lemma unescape_short:
  "byte c = 8 \<Longrightarrow> char_of (8 :: nat) = c" "byte c = 12 \<Longrightarrow> char_of (12 :: nat) = c"
  "byte c = 10 \<Longrightarrow> char_of (10 :: nat) = c" "byte c = 13 \<Longrightarrow> char_of (13 :: nat) = c"
  "byte c = 9 \<Longrightarrow> char_of (9 :: nat) = c"
  by (auto intro!: byte_eqI simp: byte_char_of)

lemma unescape_escape:
  assumes "byte c < 128"
  shows "unescape_byte (json_escape_byte html c @ x) = (c, x)"
  using unescape_unicode [OF assms] unescape_short unescape_plain
  by (auto simp: json_escape_byte_def)

lemma escape_not_quote:
  assumes "byte c < 128"
  shows "json_escape_byte html c \<noteq> []" "hd (json_escape_byte html c) \<noteq> CHR 0x22"
  by (simp_all add: json_escape_byte_def unicode_escape_def)

lemma json_chars_ascii_Cons: "byte c < 128 \<Longrightarrow> json_chars html (c # cs) = json_escape_byte html c @ json_chars html cs"
  by simp

lemma json_chars_inj:
  assumes "ascii_string s" "ascii_string t"
    "json_chars html s @ CHR 0x22 # x = json_chars html t @ CHR 0x22 # y"
  shows "s = t \<and> x = y"
  using assms
proof (induction s arbitrary: t)
  case Nil
  then show ?case
  proof (cases t)
    case (Cons d t')
    then have "byte d < 128" using Nil.prems(2) by (simp add: ascii_string_def)
    then have "hd (json_chars html t @ CHR 0x22 # y) \<noteq> CHR 0x22"
      using Cons escape_not_quote [of d html] by (simp add: hd_append)
    then show ?thesis using Nil.prems(3) by (metis json_chars.simps(1) append_Nil list.sel(1))
  qed simp
next
  case (Cons c s)
  have c: "byte c < 128" using Cons.prems(1) by (simp add: ascii_string_def)
  show ?case
  proof (cases t)
    case Nil
    then have "hd (json_escape_byte html c @ json_chars html s @ CHR 0x22 # x) = CHR 0x22"
      using Cons.prems(3) c by simp
    then show ?thesis using escape_not_quote [OF c, of html] by (simp add: hd_append)
  next
    case (Cons d t')
    have d: "byte d < 128" using Cons.prems(2) Cons by (simp add: ascii_string_def)
    have "unescape_byte (json_escape_byte html c @ json_chars html s @ CHR 0x22 # x)
        = unescape_byte (json_escape_byte html d @ json_chars html t' @ CHR 0x22 # y)"
      using Cons.prems(3) Cons c d by simp
    then show ?thesis
      using unescape_escape [OF c] unescape_escape [OF d] Cons.IH [of t'] Cons.prems(1,2) Cons
      by (simp add: ascii_string_def)
  qed
qed

lemma json_quote_inj:
  assumes "ascii_string s" "ascii_string t"
  shows "json_quote html s @ x = json_quote html t @ y \<longleftrightarrow> s = t \<and> x = y"
  using json_chars_inj [OF assms, of html x y] by (auto simp: json_quote_def)

lemma json_quote_eq:
  assumes "ascii_string s" "ascii_string t"
  shows "json_quote html s = json_quote html t \<longleftrightarrow> s = t"
  using json_quote_inj [OF assms, of html "[]" "[]"] by simp


subsection \<open>The fields of a preparation\<close>

lemma opaque_byte_ascii_byte: "opaque_byte c \<Longrightarrow> byte c < 128"
  by (auto simp: opaque_byte_def isASCIILetter_def isASCIIDigit_def byte_def)

lemma validOpaqueID_ascii: "validOpaqueID s \<Longrightarrow> ascii_string s"
  using opaque_byte_ascii_byte by (auto simp: validOpaqueID_iff ascii_string_def list_all_iff)

lemma digest_ascii: "digest_valid d \<Longrightarrow> ascii_string d"
  using digest_valid_opaque validOpaqueID_ascii by blast

definition prepared_ascii :: "prepared \<Rightarrow> bool" where
  "prepared_ascii x \<longleftrightarrow>
     identity_validate (prep_identity x) = None \<and> validOpaqueID (prep_id x)
     \<and> ascii_string (prep_plan x) \<and> ascii_string (prep_resource x)"

lemma identity_ascii:
  assumes "identity_validate i = None"
  shows "ascii_string (id_installation i)" "ascii_string (id_workspace i)" "ascii_string (id_job i)"
    "ascii_string (id_attempt i)" "ascii_string (id_instance i)" "ascii_string (id_intent i)"
    "ascii_string (id_resource_key i)" "ascii_string (id_nonce i)" "ascii_string (id_bundle i)"
    "ascii_string (id_manifest i)"
  using assms by (simp_all add: identity_validate_def validOpaqueID_ascii digest_ascii)

lemma identity_json_inj:
  assumes "identity_validate i = None" "identity_validate j = None"
  shows "json_render html (identity_json i) @ x = json_render html (identity_json j) @ y \<longleftrightarrow> i = j \<and> x = y"
proof
  assume "json_render html (identity_json i) @ x = json_render html (identity_json j) @ y"
  then show "i = j \<and> x = y"
    by (simp add: identity_json_def json_quote_inj identity_ascii [OF assms(1)] identity_ascii [OF assms(2)])
qed simp

lemma readiness_document_inj:
  assumes "prepared_ascii x" "prepared_ascii y"
    and ready: "prep_ready x" "prep_ready y" "prep_private x" "prep_private y"
    and digests: "digest_valid (prep_verification x)" "digest_valid (prep_verification y)"
      "digest_valid (prep_manifest x)" "digest_valid (prep_manifest y)"
    and same: "readiness_document x = readiness_document y"
  shows "x = y"
proof -
  have present: "prep_verification x \<noteq> []" "prep_verification y \<noteq> []" "prep_manifest x \<noteq> []"
    "prep_manifest y \<noteq> []"
    using digests digest_valid_Nil by metis+
  note ids = assms(1,2) [unfolded prepared_ascii_def]
  have "prep_verification x = prep_verification y \<and> prep_manifest x = prep_manifest y
      \<and> prep_identity x = prep_identity y \<and> prep_id x = prep_id y \<and> prep_plan x = prep_plan y
      \<and> prep_resource x = prep_resource y"
    using same ids present ready
    by (simp add: readiness_document_def prepared_json_def omit_if_def json_quote_inj digest_ascii
        digests validOpaqueID_ascii identity_json_inj json_quote_eq)
  then show ?thesis using ready by (cases x; cases y) simp
qed


section \<open>Properties\<close>

definition sample_identity :: identity where
  "sample_identity =
     \<lparr>id_installation = ''inst_1'', id_workspace = ''ws_1'', id_job = ''job_1'', id_attempt = ''att_1'',
      id_instance = ''prov_1'', id_intent = ''intent_1'', id_resource_key = ''res_1'',
      id_nonce = ''nonce0123456789ab'', id_bundle = sha256_hex ''bundle'',
      id_manifest = sha256_hex ''inputs''\<rparr>"

lemma more_sample_ids:
  "validOpaqueID ''inst_1''" "validOpaqueID ''prov_1''" "validOpaqueID ''intent_1''"
  "validOpaqueID ''res_1''" "validOpaqueID ''nonce0123456789ab''" "validOpaqueID ''obj_1''"
  "validOpaqueID ''obj_2''" "validOpaqueID ''prep_1''" "validOpaqueID ''auth_1''"
  by code_simp+

lemma sample_identity_valid: "identity_validate sample_identity = None"
  by (simp add: identity_validate_def sample_identity_def sample_ids more_sample_ids)

text \<open>C30.  No check of the contract panics: neither the first-byte access on a job specification nor any
  structured problem it builds can fail, whatever values an adapter returns.\<close>

theorem contract_checks_never_panic:
  "no_panic (resolved_job_validate j) \<and> no_panic (submission_outcome_validate i x)
   \<and> no_panic (observation_validate r y) \<and> no_panic (reconciliation_validate i z)
   \<and> no_panic (artifact_validate r a)"
  using resolved_job_validate_no_panic submission_outcome_no_panic observation_no_panic
    reconciliation_no_panic artifact_no_panic by blast

lemmas safe_path_simps = SafeArtifactPath_def contains_any_def has_prefix_def control_byte_def byte_def

text \<open>C31.  An accepted artifact path cannot leave the directory it is resolved in: walking its
  components from any directory appends exactly those components, none of them empty or a dot name,
  and no byte of it is a control byte, a backslash or a colon.\<close>

theorem artifact_path_confined:
  assumes "SafeArtifactPath path"
  shows "walk_path dir (split_on (CHR ''/'') path) = dir @ split_on (CHR ''/'') path
    \<and> join_with ''/'' (split_on (CHR ''/'') path) = path
    \<and> (\<forall>c \<in> set path. \<not> control_byte c \<and> c \<noteq> CHR 0x5C \<and> c \<noteq> CHR '':'')"
  using walk_path_plain SafeArtifactPath_parts [OF assms] SafeArtifactPath_bytes [OF assms] join_split_on
  by blast

theorem artifact_path_confined_witness:
  "walk_path [''results''] (split_on (CHR ''/'') ''model/weights.bin'') = [''results'', ''model'', ''weights.bin'']"
proof -
  have "SafeArtifactPath ''model/weights.bin''" by (simp add: safe_path_simps)
  from artifact_path_confined [OF this, of "[''results'']"] show ?thesis by simp
qed

text \<open>C32.  A valid frozen snapshot can be laid out as files: every input belongs to the workspace, the
  names differ and no target equals or lies below another even when case is ignored, and all inputs
  together have at most four gibibytes.\<close>

theorem snapshot_layout:
  assumes "snapshot_validate w s = None"
  shows "list_all (input_ok w) (elems (snap_inputs s))
    \<and> distinct (map lower_name (elems (snap_inputs s)))
    \<and> sorted_wrt (\<lambda>a b. \<not> paths_overlap a b) (map lower_target (elems (snap_inputs s)))
    \<and> sum_list (map input_bytes (elems (snap_inputs s))) \<le> 4 * 2 ^ 30"
proof -
  have "snapshot_loop w {} [] 0 (elems (snap_inputs s)) = None"
    using assms by (simp add: snapshot_validate_def)
  from snapshot_loop_None [OF this] show ?thesis by simp
qed

definition sample_input :: "string \<Rightarrow> string \<Rightarrow> frozen_input" where
  "sample_input name path = \<lparr>input_name = name, input_target = path,
     input_object = \<lparr>object_id = ''obj_1'', object_workspace = ''ws_1'', object_bytes = 7,
       object_sha256 = sha256_hex name\<rparr>\<rparr>"

definition sample_snapshot :: input_snapshot where
  "sample_snapshot = \<lparr>snap_bundle = \<lparr>object_id = ''obj_2'', object_workspace = ''ws_1'',
       object_bytes = 9, object_sha256 = sha256_hex ''bundle''\<rparr>,
     snap_inputs = Some [sample_input ''a'' ''in/a'', sample_input ''b'' ''in/b''], snap_image = None\<rparr>"

lemma sample_paths:
  "SafeArtifactPath ''in/a''" "SafeArtifactPath ''in/b''" "to_lower ''in/a'' = ''in/a''"
  "to_lower ''in/b'' = ''in/b''" "to_lower ''a'' = ''a''" "to_lower ''b'' = ''b''"
  "\<not> paths_overlap ''in/a'' ''in/b''"
  by (simp_all add: safe_path_simps to_lower_def to_lower_byte_def paths_overlap_def)

lemma sample_input_valid:
  "object_valid (input_object (sample_input ''a'' ''in/a''))"
  "object_valid (input_object (sample_input ''b'' ''in/b''))" "object_valid (snap_bundle sample_snapshot)"
  by (simp_all add: object_valid_def sample_input_def sample_snapshot_def sample_ids more_sample_ids)

lemma sample_snapshot_valid: "snapshot_validate ''ws_1'' sample_snapshot = None"
proof -
  have "snapshot_loop ''ws_1'' {} [] 0 [sample_input ''a'' ''in/a'', sample_input ''b'' ''in/b''] = None"
    using sample_input_valid(1,2)
    by (simp add: sample_input_def Let_def sample_paths isASCIILetter_def byte_def)
  then show ?thesis using sample_input_valid(3) by (simp add: snapshot_validate_def sample_snapshot_def)
qed

theorem snapshot_layout_witness:
  "list_all (input_ok ''ws_1'') (elems (snap_inputs sample_snapshot))
    \<and> distinct (map lower_name (elems (snap_inputs sample_snapshot)))"
  using snapshot_layout [OF sample_snapshot_valid] by blast

text \<open>C33.  The input digest identifies the inputs, not their order: two snapshots with the same inputs
  have the same digest when one of them is valid.\<close>

theorem input_digest_order_free:
  assumes "snapshot_validate w s = None" "mset (elems (snap_inputs s)) = mset (elems (snap_inputs t))"
  shows "InputDigest t = InputDigest s"
proof -
  have "sorted_wrt (\<lambda>a b. \<not> paths_overlap a b) (map lower_target (elems (snap_inputs s)))"
    using snapshot_loop_None [of w "{}" "[]" 0 "elems (snap_inputs s)"] assms(1)
    by (simp add: snapshot_validate_def)
  then have "distinct (map lower_target (elems (snap_inputs s)))" by (rule non_overlapping_distinct)
  then have "distinct (map (to_lower \<circ> input_target) (elems (snap_inputs s)))" by (simp add: comp_def)
  then have "distinct (map input_target (elems (snap_inputs s)))" by (rule distinct_lower)
  from InputDigest_permutation [OF assms(2) this] show ?thesis by simp
qed

theorem input_digest_order_free_witness:
  "InputDigest (sample_snapshot\<lparr>snap_inputs := Some [sample_input ''b'' ''in/b'', sample_input ''a'' ''in/a'']\<rparr>)
    = InputDigest sample_snapshot"
  by (rule input_digest_order_free [OF sample_snapshot_valid]) (simp add: sample_snapshot_def)

text \<open>Secret material that passes the check is bound to the prepared attempt and carries a value for
  exactly the authorized slots: no slot is missing and no other name is delivered.\<close>

theorem material_covers_exactly_the_slots:
  assumes "ValidateMaterial x s m = None" "details_wf (material_values m)"
  shows "\<exists>a. start_secrets s = Some a
    \<and> set (map fst (details_list (material_values m))) = set (map slot_name (secret_slots a))
    \<and> material_authorization m = secret_authorization_id a
    \<and> key_attempt (material_key m) = id_attempt (prep_identity x)
    \<and> start_readiness s = Digest (readiness_document x)"
proof -
  obtain a where a: "start_secrets s = Some a" "start_authorization_validate x s = None"
    "material_authorization m = secret_authorization_id a"
    "material_key m = \<lparr>key_workspace = id_workspace (prep_identity x), key_job = id_job (prep_identity x),
       key_attempt = id_attempt (prep_identity x)\<rparr>"
    "length (details_list (material_values m)) = length (secret_slots a)"
    "\<forall>sl \<in> set (secret_slots a). details_get (material_values m) (slot_name sl) \<noteq> []"
    by (rule ValidateMaterial_None [OF assms(1)])
  have "distinct (map slot_name (secret_slots a))"
    using start_authorization_None(6) [OF a(2) a(1)] by (simp add: ValidSlots_iff)
  with covering_slots [OF assms(2), of "map slot_name (secret_slots a)"] a(5,6)
  have "set (map fst (details_list (material_values m))) = set (map slot_name (secret_slots a))" by simp
  then show ?thesis using a ready_prepared(5) [OF a(2)] by simp
qed

definition sample_prepared :: prepared where
  "sample_prepared =
     \<lparr>prep_verification = sha256_hex ''runtime'', prep_manifest = sha256_hex ''staged'',
      prep_identity = sample_identity, prep_id = ''prep_1'', prep_plan = sha256_hex ''plan'',
      prep_resource = ''kernel_1'', prep_ready = True, prep_private = True\<rparr>"

definition sample_start :: start_authorization where
  "sample_start =
     \<lparr>start_secrets = Some \<lparr>secret_authorization_id = ''auth_1'',
        secret_expires = format_rfc3339 (sample_time 9000000000),
        secret_slots = [\<lparr>slot_name = ''token'', slot_exposure = ''file''\<rparr>]\<rparr>,
      start_authorization_id = ''auth_1'', start_readiness = Digest (readiness_document sample_prepared),
      start_wall_seconds = 60, start_deadline = format_rfc3339 (sample_time 9000000000),
      start_before = format_rfc3339 (sample_time 8000000000)\<rparr>"

definition sample_material :: material where
  "sample_material =
     \<lparr>material_authorization = ''auth_1'',
      material_key = \<lparr>key_workspace = ''ws_1'', key_job = ''job_1'', key_attempt = ''att_1''\<rparr>,
      material_expires = format_rfc3339 (sample_time 9000000000),
      material_values = Some [(''token'', ''s3cret'')]\<rparr>"

lemma sample_times:
  "year (sample_time 8000000000) = 1970" "year (sample_time 9000000000) = 1970"
  by code_simp+

lemma sample_formats:
  "CanonicalTime (format_rfc3339 (sample_time 8000000000)) = Some (sample_time 8000000000)"
  "CanonicalTime (format_rfc3339 (sample_time 9000000000)) = Some (sample_time 9000000000)"
  using sample_times by (auto intro!: CanonicalTime_format simp: sample_time_def)

lemma sample_readiness: "ReadinessRevision sample_prepared = Digest (readiness_document sample_prepared)"
  by (simp add: ReadinessRevision_def sample_prepared_def)

lemma digest_valid_Digest [simp]: "digest_valid (Digest x)"
  by (simp add: Digest_def)

lemma sample_slot: "ValidName ''token''"
  by code_simp

lemma sample_start_valid: "start_authorization_validate sample_prepared sample_start = None"
  using sample_formats [unfolded CanonicalTime_Some_iff] sample_formats(2)
  by (simp add: start_authorization_validate_def sample_start_def sample_readiness more_sample_ids
      MaxRemoteWallSeconds_def after_def before_def ValidSlots_iff MaxSlots_def sample_slot)
    (simp add: sample_time_def)

lemma sample_material_valid: "ValidateMaterial sample_prepared sample_start sample_material = None"
proof -
  have "supply_validate \<lparr>supply_attempt = ''att_1'', supply_readiness = Digest (readiness_document sample_prepared),
      supply_expires = format_rfc3339 (sample_time 9000000000),
      supply_values = Some [(''token'', ''s3cret'')]\<rparr> = None"
    using sample_formats(2)
    by (simp add: supply_validate_None_iff sample_ids MaxSlots_def MaxSlotBytes_def MaxTotalBytes_def sample_slot)
  then show ?thesis
    using sample_start_valid
    by (simp add: ValidateMaterial_def sample_start_def sample_material_def Let_def sample_prepared_def
        sample_identity_def details_get_def)
qed

theorem material_covers_exactly_the_slots_witness:
  "set (map fst (details_list (material_values sample_material))) = {''token''}
    \<and> start_readiness sample_start = Digest (readiness_document sample_prepared)"
proof -
  have "details_wf (material_values sample_material)"
    by (simp add: sample_material_def details_wf_def)
  from material_covers_exactly_the_slots [OF sample_material_valid this] show ?thesis
    by (auto simp: sample_start_def)
qed

text \<open>C34.  A start authorization authorizes one preparation, among the prepared values with a valid
  identity and preparation id and with an ASCII plan digest and resource name (the document replaces
  invalid UTF-8, which could confuse others): if it is valid for two such values then these are equal,
  or their two readiness documents are a collision of SHA-256.\<close>

theorem authorization_names_one_preparation:
  assumes "prepared_ascii x" "prepared_ascii y"
    "start_authorization_validate x s = None" "start_authorization_validate y s = None"
  shows "x = y \<or> readiness_document x \<noteq> readiness_document y
      \<and> sha256_hex (readiness_document x) = sha256_hex (readiness_document y)"
proof -
  note rx = ready_prepared [OF assms(3)] and ry = ready_prepared [OF assms(4)]
  have "sha256_hex (readiness_document x) = sha256_hex (readiness_document y)"
    using rx(5) ry(5) by (simp add: Digest_def)
  then show ?thesis
    using readiness_document_inj [OF assms(1,2) rx(1) ry(1) rx(2) ry(2) rx(3) ry(3) rx(4) ry(4)] by blast
qed

theorem authorization_names_one_preparation_witness:
  "prepared_ascii sample_prepared \<and> start_authorization_validate sample_prepared sample_start = None
    \<and> (sample_prepared = sample_prepared
        \<or> sha256_hex (readiness_document sample_prepared) = sha256_hex (readiness_document sample_prepared))"
proof -
  have "ascii_string (sha256_hex ''plan'')" by (rule digest_ascii) simp
  then have ascii: "prepared_ascii sample_prepared"
    using sample_identity_valid
    by (simp add: prepared_ascii_def sample_prepared_def more_sample_ids)
      (simp add: ascii_string_def byte_def)
  from authorization_names_one_preparation [OF ascii ascii sample_start_valid sample_start_valid]
  show ?thesis using ascii sample_start_valid by blast
qed

end
