(* ===== verification/Go_Float.thy ===== *)
theory Go_Float
  imports Complex_Main
begin

text \<open>
  Go's \<open>float64\<close> as the quota code uses it: finite values as rational numbers, the two infinities and
  NaN, with products rounded to nearest, ties to even, at 53 bits and the exponent range of the format.
  The sign of zero is not kept: comparisons cannot see it.
\<close>

datatype float64 = Finite rat | PosInf | NegInf | NaN

fun nat_bits :: "nat \<Rightarrow> nat" where
  "nat_bits n = (if n = 0 then 0 else Suc (nat_bits (n div 2)))"

declare nat_bits.simps [simp del]

definition two_pow :: "int \<Rightarrow> rat" where
  "two_pow k = (if 0 \<le> k then 2 ^ nat k else 1 / 2 ^ nat (- k))"

definition log2_floor :: "rat \<Rightarrow> int" where
  "log2_floor x =
     (let (p, q) = quotient_of x; k = int (nat_bits (nat p)) - int (nat_bits (nat q))
      in if two_pow k \<le> x then k else k - 1)"

definition round_half_even :: "rat \<Rightarrow> int" where
  "round_half_even x =
     (let f = \<lfloor>x\<rfloor>; d = x - of_int f
      in if d < 1 / 2 then f else if d > 1 / 2 then f + 1 else if even f then f else f + 1)"

definition f64_round :: "rat \<Rightarrow> float64" where
  "f64_round x =
     (if x = 0 then Finite 0
      else
        let a = \<bar>x\<bar>; e = max (- 1074) (log2_floor a - 52);
            r = of_int (round_half_even (a / two_pow e)) * two_pow e
        in if r \<ge> two_pow 1024 then (if x < 0 then NegInf else PosInf) else Finite (sgn x * r))"

definition f64_of_int :: "int \<Rightarrow> float64" where
  "f64_of_int n = f64_round (of_int n)"

fun f64_sign :: "float64 \<Rightarrow> int" where
  "f64_sign (Finite a) = (if a < 0 then - 1 else if a = 0 then 0 else 1)"
| "f64_sign PosInf = 1"
| "f64_sign NegInf = - 1"
| "f64_sign NaN = 0"

fun f64_mul :: "float64 \<Rightarrow> float64 \<Rightarrow> float64" where
  "f64_mul (Finite a) (Finite b) = f64_round (a * b)"
| "f64_mul x y =
     (if x = NaN \<or> y = NaN \<or> f64_sign x = 0 \<or> f64_sign y = 0 then NaN
      else if f64_sign x = f64_sign y then PosInf else NegInf)"

fun f64_less :: "float64 \<Rightarrow> float64 \<Rightarrow> bool" where
  "f64_less (Finite a) (Finite b) \<longleftrightarrow> a < b"
| "f64_less NaN _ \<longleftrightarrow> False"
| "f64_less _ NaN \<longleftrightarrow> False"
| "f64_less PosInf _ \<longleftrightarrow> False"
| "f64_less _ PosInf \<longleftrightarrow> True"
| "f64_less _ NegInf \<longleftrightarrow> False"
| "f64_less NegInf _ \<longleftrightarrow> True"

definition f64_is_zero :: "float64 \<Rightarrow> bool" where
  "f64_is_zero x \<longleftrightarrow> x = Finite 0"

definition f64_negative :: "float64 \<Rightarrow> bool" where
  "f64_negative x \<longleftrightarrow> f64_less x (Finite 0)"

fun f64_is_finite :: "float64 \<Rightarrow> bool" where
  "f64_is_finite (Finite _) \<longleftrightarrow> True"
| "f64_is_finite _ \<longleftrightarrow> False"

lemma f64_is_finite_iff: "f64_is_finite x \<longleftrightarrow> (\<exists>a. x = Finite a)"
  by (cases x) auto

lemma nat_bits_bound: "n < 2 ^ k \<Longrightarrow> nat_bits n \<le> k"
proof (induction k arbitrary: n)
  case (Suc k)
  then have "n div 2 < 2 ^ k" by simp
  then show ?case using Suc.IH nat_bits.simps [of n] by simp
qed (simp add: nat_bits.simps)

lemma round_half_even_int [simp]: "round_half_even (of_int n) = n"
  by (simp add: round_half_even_def)

lemma two_pow_inverse: "k \<le> 0 \<Longrightarrow> x / two_pow k = x * 2 ^ nat (- k)"
  by (cases "k = 0") (simp_all add: two_pow_def)

text \<open>Integers of up to 53 bits are exact.\<close>

lemma f64_of_int_exact:
  assumes "0 < n" "n < 2 ^ 53"
  shows "f64_of_int n = Finite (of_int n)"
proof -
  define e where "e = max (- 1074) (log2_floor (of_int n) - 52)"
  have "nat n < 2 ^ 53" using assms by simp
  then have "nat_bits (nat n) \<le> 53" by (rule nat_bits_bound)
  moreover have "nat_bits 1 = 1" by (simp add: nat_bits.simps)
  ultimately have "log2_floor (of_int n) \<le> 52"
    by (simp add: log2_floor_def quotient_of_int Let_def)
  then have e: "e \<le> 0" by (simp add: e_def)
  have scaled: "of_int n / two_pow e = of_int (n * 2 ^ nat (- e))"
    using e by (simp add: two_pow_inverse)
  have restored: "of_int (n * 2 ^ nat (- e)) * two_pow e = of_int n"
    using e by (cases "e = 0") (simp_all add: two_pow_def)
  have exact: "of_int (round_half_even (of_int n / two_pow e)) * two_pow e = of_int n"
    by (simp only: scaled round_half_even_int restored)
  have "of_int n < (2 :: rat) ^ 53" using assms(2) by (metis of_int_less_iff of_int_numeral of_int_power)
  also have "\<dots> \<le> two_pow 1024" by (simp add: two_pow_def)
  finally have "of_int n < two_pow 1024" .
  then show ?thesis
    using assms(1) exact by (simp add: f64_of_int_def f64_round_def Let_def e_def [symmetric])
qed

end
