(* ===== verification/Provider_Services.thy ===== *)
theory Provider_Services
  imports Provider_Facts Go_Float
begin

text \<open>
  The services of \<open>src/internal/provider\<close> around the contract: capability declarations, the two
  registries of configured instances, cleanup requests, cancellation, log and quota values, closed error
  reasons, verified transfers, read budgets and the selection of shared inputs.  The registries share the
  contract of the locale \<open>frozen_registry\<close>.
\<close>

section \<open>Capabilities\<close>

record capabilities =
  cap_batch :: bool
  cap_python :: bool
  cap_shell :: bool
  cap_gpu :: capability_support
  cap_private_staging :: bool
  cap_remote_cancellation :: bool
  cap_remote_cleanup :: bool
  cap_logs_running :: capability_support
  cap_logs_after :: bool
  cap_quota :: capability_support
  cap_timeout :: bool
  cap_separate_start :: bool
  cap_secrets :: bool
  cap_deadline :: bool
  cap_network :: bool
  cap_identity :: bool
  cap_accelerators :: "string list"
  cap_gpu_shape :: string
  cap_max_wall :: int

definition boolSupport :: "bool \<Rightarrow> capability_support" where
  "boolSupport ok = (if ok then CapabilitySupportSupported else CapabilitySupportUnsupported)"

definition capabilities_support :: "capabilities \<Rightarrow> capability_name \<Rightarrow> capability_support" where
  "capabilities_support c name =
     (if name = CapabilityBatchExecution then boolSupport (cap_batch c)
      else if name = CapabilityPython then boolSupport (cap_python c)
      else if name = CapabilityShell then boolSupport (cap_shell c)
      else if name = CapabilityGPU then cap_gpu c
      else if name = CapabilityPrivateInputStaging then boolSupport (cap_private_staging c)
      else if name = CapabilityRemoteCancellation then boolSupport (cap_remote_cancellation c)
      else if name = CapabilityRemoteCleanup then boolSupport (cap_remote_cleanup c)
      else if name = CapabilityLogsWhileRunning then cap_logs_running c
      else if name = CapabilityLogsAfterCompletion then boolSupport (cap_logs_after c)
      else if name = CapabilityQuotaReporting then cap_quota c
      else if name = CapabilityExecutionTimeout then boolSupport (cap_timeout c)
      else if name = CapabilitySeparateStart then boolSupport (cap_separate_start c)
      else if name = CapabilityEphemeralSecrets then boolSupport (cap_secrets c)
      else if name = CapabilityAbsoluteDeadline then boolSupport (cap_deadline c)
      else if name = CapabilityRemoteNetworkControl then boolSupport (cap_network c)
      else if name = CapabilityStrongIdentity then boolSupport (cap_identity c)
      else if name = CapabilityCustomContainer \<or> name = CapabilityRetainedSessions
        then CapabilitySupportUnsupported
      else CapabilitySupportUnknown)"

definition capabilities_valid :: "capabilities \<Rightarrow> bool" where
  "capabilities_valid c \<longleftrightarrow>
     cap_batch c \<and> capability_support_valid (cap_gpu c) \<and> capability_support_valid (cap_logs_running c)
     \<and> capability_support_valid (cap_quota c) \<and> cap_max_wall c \<ge> 1 \<and> cap_max_wall c \<le> MaxRemoteWallSeconds"

record descriptor =
  desc_type :: string
  desc_instance :: opaque_id
  desc_version :: string
  desc_capabilities :: capabilities

definition descriptor_support :: "descriptor \<Rightarrow> capability_name \<Rightarrow> capability_support" where
  "descriptor_support d name = capabilities_support (desc_capabilities d) name"


section \<open>Registries\<close>

text \<open>
  A registered provider is a value of some type with the descriptor its adapter gives; \<open>None\<close> is a nil
  interface.  The mutex makes every method atomic, so a registry is a value that is passed on.
\<close>

type_synonym 'p registry = "(opaque_id \<times> 'p) list"

definition NewRegistry :: "'p registry" where "NewRegistry = []"

definition registry_register ::
  "('p \<Rightarrow> descriptor) \<Rightarrow> 'p option \<Rightarrow> 'p registry \<Rightarrow> provider_error + 'p registry" where
  "registry_register describe p r =
     (case p of
        None \<Rightarrow> Inl (plain ''nil provider'')
      | Some x \<Rightarrow>
          let d = describe x in
          guard_result
            (first_error
              [fail_if (\<not> safeText (desc_type d) 128 \<or> \<not> validOpaqueID (desc_instance d)
                  \<or> \<not> safeText (desc_version d) 128) (plain ''invalid provider descriptor''),
               fail_if (\<not> capabilities_valid (desc_capabilities d)) (plain ''invalid provider capabilities''),
               fail_if (map_of r (desc_instance d) \<noteq> None) (plain ''provider instance already registered'')])
            (r @ [(desc_instance d, x)]))"

definition registry_lookup :: "opaque_id \<Rightarrow> 'p registry \<Rightarrow> provider_error + 'p" where
  "registry_lookup i r =
     (case map_of r i of
        None \<Rightarrow> Inl (provider_Problem CodeConfigurationInvalid FailureStageLocalRuntime
          ''provider instance is not registered; no fallback was selected'')
      | Some x \<Rightarrow> Inr x)"

definition registry_instances :: "'p registry \<Rightarrow> opaque_id list" where
  "registry_instances r = sort (map fst r)"

type_synonym 'p snapshot_registry = "(binding_snapshot \<times> 'p) list"

definition snapshot_register ::
  "('p \<Rightarrow> descriptor) \<Rightarrow> binding_snapshot \<times> 'p option \<Rightarrow> 'p snapshot_registry
   \<Rightarrow> provider_error + 'p snapshot_registry" where
  "snapshot_register describe sp r =
     (case sp of (s, p) \<Rightarrow>
       (case p of
          None \<Rightarrow> Inl (plain ''invalid provider snapshot'')
        | Some x \<Rightarrow>
            if \<not> binding_snapshot_valid s \<or> desc_instance (describe x) \<noteq> binding_instance (bs_binding s)
            then Inl (plain ''invalid provider snapshot'')
            else case registry_register describe p NewRegistry of
                Inl e \<Rightarrow> Inl e
              | Inr _ \<Rightarrow> guard_result
                  (fail_if (map_of r s \<noteq> None) (plain ''provider snapshot already registered''))
                  (r @ [(s, x)])))"

definition snapshot_resolve :: "binding_snapshot \<Rightarrow> 'p snapshot_registry \<Rightarrow> provider_error + 'p" where
  "snapshot_resolve s r =
     (case map_of r s of
        None \<Rightarrow> Inl (plain ''frozen provider revision unavailable; no fallback'')
      | Some x \<Rightarrow> Inr x)"

text \<open>The shared contract: a key is bound once, to what was registered, and never rebound.\<close>

primrec register_all :: "('a \<Rightarrow> 'r \<Rightarrow> 'e + 'r) \<Rightarrow> 'a list \<Rightarrow> 'r \<Rightarrow> 'r" where
  "register_all register [] r = r"
| "register_all register (a # as) r =
     register_all register as (case register a r of Inl e \<Rightarrow> r | Inr r' \<Rightarrow> r')"

locale frozen_registry =
  fixes register :: "'a \<Rightarrow> 'r \<Rightarrow> provider_error + 'r"
    and lookup :: "'k \<Rightarrow> 'r \<Rightarrow> provider_error + 'p"
    and key :: "'a \<Rightarrow> 'k"
    and entry :: "'a \<Rightarrow> 'p option"
  assumes registered_fresh: "register a r = Inr r' \<Longrightarrow> \<exists>e. lookup (key a) r = Inl e"
    and registered_entry: "register a r = Inr r' \<Longrightarrow> \<exists>x. entry a = Some x \<and> lookup (key a) r' = Inr x"
    and registered_other: "register a r = Inr r' \<Longrightarrow> k \<noteq> key a \<Longrightarrow> lookup k r' = lookup k r"
begin

lemma step_keeps: "lookup k r = Inr x \<Longrightarrow> register a r = Inr r' \<Longrightarrow> lookup k r' = Inr x"
  using registered_fresh registered_other by (metis sum.distinct(1))

lemma run_keeps: "lookup k r = Inr x \<Longrightarrow> lookup k (register_all register as r) = Inr x"
  by (induction "as" arbitrary: r) (auto split: sum.splits intro: step_keeps)

lemma run_resolves:
  assumes "register a r = Inr r'"
  shows "\<exists>x. entry a = Some x \<and> lookup (key a) (register_all register as r') = Inr x"
  using registered_entry [OF assms] run_keeps by blast

lemma second_refused:
  assumes "register a r = Inr r'" "key b = key a"
  shows "\<exists>e. register b (register_all register as r') = Inl e"
proof (cases "register b (register_all register as r')")
  case (Inr q)
  then have "\<exists>e. lookup (key a) (register_all register as r') = Inl e"
    using registered_fresh assms(2) by metis
  then show ?thesis using run_resolves [OF assms(1), of "as"] by auto
qed auto

end

definition register_key :: "('p \<Rightarrow> descriptor) \<Rightarrow> 'p option \<Rightarrow> opaque_id" where
  "register_key describe p = (case p of None \<Rightarrow> [] | Some x \<Rightarrow> desc_instance (describe x))"

interpretation reg: frozen_registry "registry_register describe" registry_lookup
    "register_key describe" "\<lambda>p. p"
  by unfold_locales
    (auto simp: registry_register_def registry_lookup_def register_key_def Let_def map_add_def
      split: option.splits)

interpretation snap: frozen_registry "snapshot_register describe" snapshot_resolve fst snd
  by unfold_locales
    (auto simp: snapshot_register_def snapshot_resolve_def map_add_def
      split: option.splits sum.splits if_splits)


section \<open>Cleanup\<close>

record cleanup_description =
  cleanup_kind :: string
  cleanup_id :: string
  cleanup_name :: string
  cleanup_version :: string
  cleanup_scope :: string
  cleanup_support :: capability_support
  cleanup_reason :: string
  cleanup_bytes :: "int option"

text \<open>The patterns \<open>^[A-Za-z0-9][A-Za-z0-9._:/-]{0,255}$\<close> and \<open>^[a-z][a-z0-9_]{0,95}$\<close>.\<close>

definition cleanupLabel :: "string \<Rightarrow> bool" where
  "cleanupLabel s \<longleftrightarrow>
     (case s of
        [] \<Rightarrow> False
      | c # cs \<Rightarrow> (isASCIILetter c \<or> isASCIIDigit c) \<and> length cs \<le> 255
          \<and> list_all (\<lambda>b. isASCIILetter b \<or> isASCIIDigit b \<or> b \<in> set ''._:/-'') cs)"

definition cleanupReason :: "string \<Rightarrow> bool" where
  "cleanupReason s \<longleftrightarrow>
     (case s of
        [] \<Rightarrow> False
      | c # cs \<Rightarrow> lower_letter c \<and> length cs \<le> 95
          \<and> list_all (\<lambda>b. lower_letter b \<or> isASCIIDigit b \<or> b = CHR ''_'') cs)"

definition cleanup_description_valid :: "cleanup_description \<Rightarrow> bool" where
  "cleanup_description_valid d \<longleftrightarrow>
     cleanupLabel (cleanup_kind d) \<and> cleanupLabel (cleanup_id d) \<and> cleanupLabel (cleanup_name d)
     \<and> cleanupLabel (cleanup_version d) \<and> cleanupReason (cleanup_scope d)
     \<and> capability_support_valid (cleanup_support d) \<and> cleanupReason (cleanup_reason d)
     \<and> (case cleanup_bytes d of None \<Rightarrow> True | Some n \<Rightarrow> n \<ge> 0)"

datatype cleanup_mode = CleanupDryRun | CleanupApply | CleanupModeOther string

record cleanup_resource_request =
  crr_remote :: remote_reference
  crr_ledger :: opaque_id
  crr_creation :: opaque_id
  crr_collected :: bool
  crr_mode :: cleanup_mode
  crr_purpose :: string
  crr_ownership :: opaque_id
  crr_plan :: sha256_digest
  crr_recover_only :: bool

definition cleanup_resource_request_valid :: "cleanup_resource_request \<Rightarrow> bool" where
  "cleanup_resource_request_valid r \<longleftrightarrow>
     (crr_purpose r = ''staging'' \<and> crr_ownership r = crr_creation r
      \<or> crr_purpose r = ''execution'' \<and> crr_ownership r = id_intent (remote_identity (crr_remote r)))
     \<and> remote_validate (crr_remote r) = None \<and> validOpaqueID (crr_ledger r)
     \<and> validOpaqueID (crr_creation r) \<and> validOpaqueID (crr_ownership r) \<and> digest_valid (crr_plan r)
     \<and> (crr_purpose r = ''staging'' \<or> crr_purpose r = ''execution'')
     \<and> (crr_mode r = CleanupApply \<or> crr_mode r = CleanupDryRun)"


section \<open>Cancellation, logs and quota\<close>

record cancellation_outcome =
  co_status :: cancellation_state
  co_confirmed :: bool

definition cancellation_outcome_validate :: "cancellation_outcome \<Rightarrow> provider_error option" where
  "cancellation_outcome_validate x =
     (if co_status x = CancellationConfirmed then
        fail_if (\<not> co_confirmed x) (plain ''confirmed cancellation lacks termination evidence'')
      else if co_status x \<in> {CancellationAccepted, CancellationTooLate, CancellationManual} then
        fail_if (co_confirmed x) (plain ''request or manual guidance cannot confirm termination'')
      else Some (plain ''invalid cancellation outcome''))"

record log_page =
  log_source :: string
  log_availability :: string
  log_lines :: "string list"
  log_next :: string
  log_truncated :: bool

fun log_lines_check :: "nat \<Rightarrow> string list \<Rightarrow> provider_error option" where
  "log_lines_check n [] = fail_if (n > 256 * 2 ^ 10) (plain ''log bytes exceed bound'')"
| "log_lines_check n (l # ls) =
     (if length l > 16 * 2 ^ 10 then Some (plain ''log line exceeds bound'')
      else log_lines_check (n + length l) ls)"

definition log_page_validate :: "page_request \<Rightarrow> log_page \<Rightarrow> provider_error option" where
  "log_page_validate request page =
     first_error
       [page_request_validate request,
        fail_if (log_source page \<noteq> ''provider'' \<and> log_source page \<noteq> ''payload'')
          (plain ''invalid provider log source''),
        fail_if (log_availability page \<notin>
            {''live'', ''delayed'', ''after_completion'', ''unavailable'', ''unknown''})
          (plain ''invalid log availability''),
        fail_if (int (length (log_lines page)) > page_limit request \<or> length (log_next page) > 512)
          (plain ''log page exceeds bounds''),
        log_lines_check 0 (log_lines page),
        fail_if ((log_availability page = ''unavailable'' \<or> log_availability page = ''unknown'')
            \<and> (log_lines page \<noteq> [] \<or> log_next page \<noteq> []))
          (plain ''unavailable logs cannot contain invented output'')]"

datatype quota_status =
  QuotaKnown | QuotaUnknown | QuotaStale | QuotaUnavailable | QuotaStatusOther string

record quota_observation =
  quota_status :: quota_status
  quota_resource :: string
  quota_unit :: string
  quota_limit :: "float64 option"
  quota_used :: "float64 option"
  quota_remaining :: "float64 option"
  quota_reset :: "gotime option"
  quota_at :: gotime
  quota_source :: string
  quota_precision :: string

definition quota_value_bad :: "float64 option \<Rightarrow> bool" where
  "quota_value_bad v = (case v of None \<Rightarrow> False | Some x \<Rightarrow> \<not> f64_is_finite x \<or> f64_negative x)"

definition quota_validate :: "quota_observation \<Rightarrow> provider_error option" where
  "quota_validate q =
     first_error
       [fail_if (case quota_status q of QuotaStatusOther s \<Rightarrow> True | _ \<Rightarrow> False) (plain ''invalid quota status''),
        fail_if (quota_value_bad (quota_limit q) \<or> quota_value_bad (quota_used q)
            \<or> quota_value_bad (quota_remaining q)) (plain ''invalid quota value''),
        fail_if ((quota_status q = QuotaKnown \<or> quota_status q = QuotaStale)
            \<and> (quota_limit q = None \<or> quota_used q = None \<or> quota_remaining q = None \<or> is_zero (quota_at q)
               \<or> \<not> safeText (quota_source q) 256 \<or> \<not> safeText (quota_resource q) 64
               \<or> \<not> safeText (quota_unit q) 64 \<or> \<not> safeText (quota_precision q) 128))
          (plain ''known or stale quota requires values, units, provenance and timestamp''),
        fail_if (case quota_reset q of None \<Rightarrow> False | Some t \<Rightarrow> is_zero t)
          (plain ''invalid quota reset timestamp'')]"


section \<open>Closed reasons of error chains\<close>

text \<open>
  An error with its wrapped cause.  \<open>ProblemError\<close> stands for a \<open>domain.Problem\<close> in the chain as a value
  (\<open>True\<close>) or as a pointer, \<open>StepFailure\<close> for the errors with a \<open>FailureReason\<close> method, \<open>TemporaryError\<close> and
  \<open>CodedError\<close> for those with a \<open>Temporary\<close> or a \<open>Code\<close> method, \<open>Joined\<close> for the result of \<open>errors.Join\<close>,
  \<open>OtherError\<close> for an error of any other type and \<open>Sentinel\<close> for one without a cause.
\<close>

datatype go_error =
    ProblemError bool problem "go_error option"
  | StepFailure string go_error
  | ReadError string "go_error option"
  | LogReadFailure string
  | LocalStateError go_error
  | AbsenceError remote_absence
  | TemporaryError bool
  | CodedError int
  | Joined "go_error list"
  | OtherError string go_error
  | Sentinel string

definition absence_problem :: problem where
  "absence_problem = (case absence_unwrap of Structured p \<Rightarrow> p
     | _ \<Rightarrow> \<lparr>code = CodeOther [], message = [], stage = FailureStageOther [], safe_operation_retry = False,
         compute_may_have_started = False, recommended_action = RecommendedActionNone, details = None\<rparr>)"

fun error_chain :: "go_error \<Rightarrow> go_error list" where
  "error_chain (ProblemError v p None) = [ProblemError v p None]"
| "error_chain (ProblemError v p (Some e)) = ProblemError v p (Some e) # error_chain e"
| "error_chain (StepFailure r e) = StepFailure r e # error_chain e"
| "error_chain (ReadError r None) = [ReadError r None]"
| "error_chain (ReadError r (Some e)) = ReadError r (Some e) # error_chain e"
| "error_chain (LogReadFailure r) = [LogReadFailure r]"
| "error_chain (LocalStateError e) = LocalStateError e # error_chain e"
| "error_chain (AbsenceError a) = [AbsenceError a, ProblemError True absence_problem None]"
| "error_chain (TemporaryError b) = [TemporaryError b]"
| "error_chain (CodedError c) = [CodedError c]"
| "error_chain (Joined es) = Joined es # concat (map error_chain es)"
| "error_chain (OtherError t e) = OtherError t e # error_chain e"
| "error_chain (Sentinel t) = [Sentinel t]"

text \<open>\<open>errors.As\<close>: the first error of the chain of the wanted shape.\<close>

primrec find_as :: "(go_error \<Rightarrow> 'a option) \<Rightarrow> go_error list \<Rightarrow> 'a option" where
  "find_as f [] = None"
| "find_as f (e # es) = (case f e of Some x \<Rightarrow> Some x | None \<Rightarrow> find_as f es)"

definition errors_as :: "(go_error \<Rightarrow> 'a option) \<Rightarrow> go_error option \<Rightarrow> 'a option" where
  "errors_as f err = (case err of None \<Rightarrow> None | Some e \<Rightarrow> find_as f (error_chain e))"

text \<open>\<open>errors.Is\<close> for a sentinel.\<close>

definition errors_is :: "string \<Rightarrow> go_error option \<Rightarrow> bool" where
  "errors_is t err \<longleftrightarrow> (case err of None \<Rightarrow> False | Some e \<Rightarrow> Sentinel t \<in> set (error_chain e))"

text \<open>\<open>errors.Join\<close> drops nil errors.\<close>

definition errors_join :: "go_error option list \<Rightarrow> go_error option" where
  "errors_join errs =
     (let es = map the (filter (\<lambda>e. e \<noteq> None) errs) in if es = [] then None else Some (Joined es))"

definition as_reasoned :: "go_error \<Rightarrow> string option" where
  "as_reasoned e = (case e of StepFailure r _ \<Rightarrow> Some r | _ \<Rightarrow> None)"

definition as_problem :: "bool \<Rightarrow> go_error \<Rightarrow> problem option" where
  "as_problem want e = (case e of ProblemError v p _ \<Rightarrow> if v = want then Some p else None | _ \<Rightarrow> None)"

definition as_read :: "go_error \<Rightarrow> string option" where
  "as_read e = (case e of ReadError r _ \<Rightarrow> Some r | _ \<Rightarrow> None)"

definition as_log_read :: "go_error \<Rightarrow> string option" where
  "as_log_read e = (case e of LogReadFailure r \<Rightarrow> Some r | _ \<Rightarrow> None)"

definition as_local_state :: "go_error \<Rightarrow> unit option" where
  "as_local_state e = (case e of LocalStateError _ \<Rightarrow> Some () | _ \<Rightarrow> None)"

definition as_absence :: "go_error \<Rightarrow> remote_absence option" where
  "as_absence e = (case e of AbsenceError a \<Rightarrow> Some a | _ \<Rightarrow> None)"

definition IsLocalStateError :: "go_error option \<Rightarrow> bool" where
  "IsLocalStateError err \<longleftrightarrow> errors_as as_local_state err \<noteq> None"

definition log_reasons :: "string list" where
  "log_reasons =
     [''auth_read_failed'', ''kernel_read_failed'', ''stream_timeout'', ''stream_http_401'',
      ''stream_http_403'', ''stream_http_404'', ''stream_http_429'', ''stream_http_4xx'',
      ''stream_http_5xx'', ''stream_redirect'', ''stream_http_other'', ''stream_format_invalid'',
      ''replay_unavailable'', ''read_unavailable'']"

definition log_read_failure_valid :: "string \<Rightarrow> bool" where
  "log_read_failure_valid r \<longleftrightarrow> r \<in> set log_reasons"

definition problem_reason_of :: "problem option \<Rightarrow> string" where
  "problem_reason_of p = (case p of None \<Rightarrow> [] | Some x \<Rightarrow> details_get (PublicDetails x) ReasonDetail)"

definition Reason :: "go_error option \<Rightarrow> string \<Rightarrow> string" where
  "Reason err fallback =
     (let reasoned = errors_as as_reasoned err;
          as_value = problem_reason_of (errors_as (as_problem True) err);
          as_pointer = problem_reason_of (errors_as (as_problem False) err);
          rd = errors_as as_read err; lg = errors_as as_log_read err
      in if (case reasoned of None \<Rightarrow> False | Some r \<Rightarrow> ValidReason r) then the reasoned
         else if as_value \<noteq> [] then as_value
         else if as_pointer \<noteq> [] then as_pointer
         else if (case rd of None \<Rightarrow> False | Some r \<Rightarrow> ValidReason r) then the rd
         else if (case lg of None \<Rightarrow> False | Some r \<Rightarrow> log_read_failure_valid r) then the lg
         else if ValidReason fallback then fallback
         else [])"

definition WithReason :: "go_error option \<Rightarrow> string \<Rightarrow> go_error option" where
  "WithReason err fallback =
     (case err of
        None \<Rightarrow> None
      | Some e \<Rightarrow> if Reason err [] \<noteq> [] \<or> \<not> ValidReason fallback then err
          else Some (StepFailure fallback e))"


section \<open>Verified transfers\<close>

text \<open>
  A source is the bytes it delivers and how it ends: end of file or an error.  A cancelled context is
  an error at the point where the reader notices it; \<open>cancelled\<close> are the two explicit looks at the
  context.  A destination takes its bytes or fails once it has taken a number of them.  Either endpoint
  may be nil, the outer \<open>None\<close> of the parameters \<open>source\<close> and \<open>dst\<close>.
\<close>

datatype transfer_error =
    TransferIO string
  | TransferRefused provider_error

record transfer_source =
  src_bytes :: string
  src_failure :: "string option"

definition taken_by :: "(nat \<times> string) option \<Rightarrow> string \<Rightarrow> string" where
  "taken_by dst bs = (case dst of None \<Rightarrow> bs | Some (room, _) \<Rightarrow> take room bs)"

definition write_failure :: "(nat \<times> string) option \<Rightarrow> string \<Rightarrow> string option" where
  "write_failure dst bs =
     (case dst of None \<Rightarrow> None | Some (room, e) \<Rightarrow> if length bs > room then Some e else None)"

definition copied_bytes :: "transfer_source \<Rightarrow> artifact \<Rightarrow> string" where
  "copied_bytes source a = take (nat (artifact_bytes a)) (src_bytes source)"

definition transfer_refused :: "error_code \<Rightarrow> string \<Rightarrow> transfer_error" where
  "transfer_refused c msg = TransferRefused (provider_Problem c FailureStageResults msg)"

definition copy_checks ::
  "string option \<Rightarrow> transfer_source option \<Rightarrow> (nat \<times> string) option option \<Rightarrow> artifact \<Rightarrow> int
   \<Rightarrow> transfer_error option" where
  "copy_checks cancelled source dst a maxBytes =
     first_error
       [map_option TransferIO cancelled,
        map_option TransferRefused (artifact_validate (artifact_remote a) a),
        fail_if (source = None \<or> dst = None \<or> maxBytes < 0 \<or> artifact_bytes a > maxBytes)
          (TransferRefused (plain ''invalid transfer endpoint or byte budget''))]"

definition copy_failures ::
  "string option \<Rightarrow> transfer_source \<Rightarrow> (nat \<times> string) option \<Rightarrow> artifact \<Rightarrow> transfer_error option" where
  "copy_failures cancelled source dst a =
     first_error
       [map_option TransferIO (write_failure dst (copied_bytes source a)),
        (if int (length (src_bytes source)) < artifact_bytes a
         then map_option TransferIO (src_failure source) else None),
        map_option TransferIO cancelled,
        fail_if (int (length (copied_bytes source a)) \<noteq> artifact_bytes a)
          (transfer_refused CodeArtifactCollectionFailed ''artifact byte count mismatch''),
        fail_if (drop (nat (artifact_bytes a)) (src_bytes source) \<noteq> [])
          (transfer_refused CodeArtifactCollectionFailed ''artifact exceeds declared byte count''),
        map_option TransferIO (src_failure source),
        fail_if (sha256_hex (copied_bytes source a) \<noteq> artifact_sha256 a)
          (transfer_refused CodeArtifactDigestMismatch ''artifact digest mismatch'')]"

text \<open>The result, and the bytes that reached the temporary destination.\<close>

definition CopyVerified ::
  "string option \<times> string option \<Rightarrow> transfer_source option \<Rightarrow> (nat \<times> string) option option
   \<Rightarrow> artifact \<Rightarrow> int \<Rightarrow> (transfer_error + (int \<times> sha256_digest)) \<times> string" where
  "CopyVerified cancelled source dst a maxBytes =
     (case copy_checks (fst cancelled) source dst a maxBytes of
        Some e \<Rightarrow> (Inl e, [])
      | None \<Rightarrow>
          (let src = the source; out = the dst in
           (guard_result (copy_failures (snd cancelled) src out a)
              (int (length (copied_bytes src a)), sha256_hex (copied_bytes src a)),
            taken_by out (copied_bytes src a))))"

record progress_writer =
  pw_n :: int
  pw_failed :: "string option"

text \<open>One \<open>Write\<close> of \<open>len\<close> bytes, given what the destination answers and the callback.\<close>

definition progress_write ::
  "nat \<Rightarrow> int \<times> string option \<Rightarrow> (int \<Rightarrow> string option) \<Rightarrow> progress_writer
   \<Rightarrow> (int \<times> string option) \<times> progress_writer" where
  "progress_write len answer report w =
     (case pw_failed w of
        Some e \<Rightarrow> ((0, Some e), w)
      | None \<Rightarrow>
          let (n, err) = answer in
          if n < 0 \<or> n > int len then ((0, Some ''short write''), w)
          else if err = None \<and> n = int len then
            let failed = report (pw_n w + n) in
            ((n, failed), w\<lparr>pw_n := pw_n w + n, pw_failed := failed\<rparr>)
          else ((n, err), w\<lparr>pw_n := pw_n w + n\<rparr>))"


section \<open>Budgets and shared inputs\<close>

definition ArtifactReadBudget :: "int \<Rightarrow> int \<Rightarrow> int \<Rightarrow> int" where
  "ArtifactReadBudget base bytes files =
     (let ceiling = 2 * hour_ns in
      if base \<ge> ceiling \<or> bytes < 0 \<or> files < 0 then ceiling
      else
        let base = (if base < 0 then 0 else base);
            seconds = bytes div 2 ^ 20 + (if bytes mod 2 ^ 20 \<noteq> 0 then 1 else 0);
            remaining = (ceiling - base) div second_ns
        in if seconds > remaining \<or> files > remaining - seconds then ceiling
           else base + (seconds + files) * second_ns)"

definition RemoteResourceCountLimit :: int where "RemoteResourceCountLimit = 128"
definition RunnerImageCountLimit :: int where "RunnerImageCountLimit = 16"
definition DefaultSharedInputMinBytes :: int where "DefaultSharedInputMinBytes = 256 * 2 ^ 20"
definition DefaultSharedInputLimit :: int where "DefaultSharedInputLimit = 7"

definition SharedResourceKey :: "sha256_digest \<Rightarrow> int \<Rightarrow> string" where
  "SharedResourceKey sha bytes =
     (if \<not> digest_valid sha \<or> bytes < 0 then [] else sha @ ''_'' @ format_int bytes)"

record shared_claim =
  claim_identity :: identity
  claim_preparation :: opaque_id
  claim_plan :: sha256_digest
  claim_content :: sha256_digest
  claim_bytes :: int

definition shared_claim_valid :: "shared_claim \<Rightarrow> bool" where
  "shared_claim_valid c \<longleftrightarrow>
     identity_validate (claim_identity c) = None \<and> validOpaqueID (claim_preparation c)
     \<and> digest_valid (claim_plan c) \<and> SharedResourceKey (claim_content c) (claim_bytes c) \<noteq> []"

definition object_key :: "object_metadata \<Rightarrow> string" where
  "object_key m = SharedResourceKey (object_sha256 m) (object_bytes m)"

fun select_loop ::
  "int \<Rightarrow> int \<Rightarrow> string set \<Rightarrow> object_metadata list \<Rightarrow> frozen_input list \<Rightarrow> object_metadata list" where
  "select_loop minBytes limit seen selected [] = selected"
| "select_loop minBytes limit seen selected (i # is) =
     (let obj = input_object i; key = object_key obj in
      if object_bytes obj < minBytes then select_loop minBytes limit seen selected is
      else if key = [] \<or> key \<in> seen then select_loop minBytes limit seen selected is
      else if int (length selected) \<ge> limit then selected
      else select_loop minBytes limit (insert key seen) (selected @ [obj]) is)"

definition SelectSharedInputs :: "frozen_input list \<Rightarrow> int \<Rightarrow> int \<Rightarrow> object_metadata list" where
  "SelectSharedInputs inputs minBytes limit =
     (if minBytes \<le> 0 \<or> limit \<le> 0 then [] else select_loop minBytes limit {} [] inputs)"


section \<open>Lemmas\<close>

subsection \<open>Reasons\<close>

lemma log_reasons_valid: "list_all ValidReason log_reasons"
  by code_simp

lemma problem_reason_closed: "problem_reason_of p = [] \<or> ValidReason (problem_reason_of p)"
  by (auto simp: problem_reason_of_def PublicDetails_get public_detail_ok_def detail_keys split: option.splits)

lemma Reason_closed: "Reason err fallback = [] \<or> ValidReason (Reason err fallback)"
  using problem_reason_closed [of "errors_as (as_problem True) err"]
    problem_reason_closed [of "errors_as (as_problem False) err"] log_reasons_valid
  by (auto simp: Reason_def Let_def log_read_failure_valid_def list_all_iff split: option.splits)

lemma errors_as_WithReason:
  assumes "\<And>r e. f (StepFailure r e) = None"
  shows "errors_as f (WithReason err fallback) = errors_as f err"
  using assms by (auto simp: WithReason_def errors_as_def split: option.splits)

lemma ValidReason_nonempty: "ValidReason r \<Longrightarrow> r \<noteq> []"
  by (auto simp: ValidReason_def)

lemma Reason_WithReason:
  assumes "ValidReason fallback" "err \<noteq> None"
  shows "Reason (WithReason err fallback) [] = (if Reason err [] \<noteq> [] then Reason err [] else fallback)"
proof (cases "Reason err [] = []")
  case True
  then obtain e where "err = Some e" "WithReason err fallback = Some (StepFailure fallback e)"
    using assms by (auto simp: WithReason_def)
  moreover have "errors_as as_reasoned (Some (StepFailure fallback e)) = Some fallback"
    by (simp add: errors_as_def as_reasoned_def)
  ultimately show ?thesis using True assms(1) by (simp add: Reason_def Let_def)
next
  case False
  then show ?thesis using assms(2) by (auto simp: WithReason_def)
qed

subsection \<open>Transfers\<close>

lemma transfer_problem_no_panic:
  "no_panic (Some (provider_Problem CodeArtifactCollectionFailed FailureStageResults ''artifact byte count mismatch''))"
  "no_panic (Some (provider_Problem CodeArtifactCollectionFailed FailureStageResults ''artifact exceeds declared byte count''))"
  "no_panic (Some (provider_Problem CodeArtifactDigestMismatch FailureStageResults ''artifact digest mismatch''))"
  by (simp_all add: provider_Problem_structured code_stage_def error_code_category_def
      errorCategories_def printable_byte_def byte_def)

lemma copied_all:
  assumes "int (length (copied_bytes source a)) = artifact_bytes a"
    "drop (nat (artifact_bytes a)) (src_bytes source) = []"
  shows "copied_bytes source a = src_bytes source"
  using assms by (simp add: copied_bytes_def)

lemma copy_checks_endpoints:
  "copy_checks cancelled source dst a maxBytes = None \<Longrightarrow> \<exists>src out. source = Some src \<and> dst = Some out"
  by (auto simp: copy_checks_def)

lemma CopyVerified_Inr:
  "fst (CopyVerified cancelled (Some src) (Some out) a maxBytes) = Inr r \<longleftrightarrow>
     copy_checks (fst cancelled) (Some src) (Some out) a maxBytes = None
     \<and> copy_failures (snd cancelled) src out a = None
     \<and> r = (int (length (copied_bytes src a)), sha256_hex (copied_bytes src a))"
  by (auto simp: CopyVerified_def split: option.splits)

lemma CopyVerified_endpoints:
  assumes "fst (CopyVerified cancelled source dst a maxBytes) = Inr r"
  obtains src out where "source = Some src" "dst = Some out"
  using assms copy_checks_endpoints [of "fst cancelled" source dst a maxBytes]
  by (auto simp: CopyVerified_def split: option.splits)

lemma CopyVerified_success:
  assumes "fst (CopyVerified cancelled (Some src) (Some out) a maxBytes) = Inr (n, d)"
  shows "cancelled = (None, None)" "artifact_validate (artifact_remote a) a = None"
    "artifact_bytes a \<le> maxBytes" "src_failure src = None"
    "int (length (src_bytes src)) = artifact_bytes a"
    "sha256_hex (src_bytes src) = artifact_sha256 a" "n = artifact_bytes a" "d = artifact_sha256 a"
    "snd (CopyVerified cancelled (Some src) (Some out) a maxBytes) = src_bytes src"
proof -
  note ok = assms [unfolded CopyVerified_Inr copy_checks_def copy_failures_def, simplified]
  have all: "copied_bytes src a = src_bytes src"
    using ok copied_all [of src a] by simp
  show "cancelled = (None, None)" using ok by (cases cancelled) simp
  show "artifact_validate (artifact_remote a) a = None" "artifact_bytes a \<le> maxBytes"
    "src_failure src = None" using ok by simp_all
  show "int (length (src_bytes src)) = artifact_bytes a" using ok all by simp
  show "sha256_hex (src_bytes src) = artifact_sha256 a" using ok all by simp
  show "n = artifact_bytes a" "d = artifact_sha256 a" using ok by simp_all
  have "taken_by out (src_bytes src) = src_bytes src"
    using ok all by (auto simp: taken_by_def write_failure_def split: option.splits if_splits)
  moreover have "copy_checks (fst cancelled) (Some src) (Some out) a maxBytes = None"
    using assms by (simp add: CopyVerified_Inr)
  ultimately show "snd (CopyVerified cancelled (Some src) (Some out) a maxBytes) = src_bytes src"
    using all by (simp add: CopyVerified_def)
qed

lemma CopyVerified_complete:
  assumes "artifact_validate (artifact_remote a) a = None" "artifact_bytes a \<le> maxBytes"
    "int (length bs) = artifact_bytes a" "sha256_hex bs = artifact_sha256 a"
  shows "CopyVerified (None, None) (Some \<lparr>src_bytes = bs, src_failure = None\<rparr>) (Some None) a maxBytes
    = (Inr (artifact_bytes a, artifact_sha256 a), bs)"
proof -
  have "nat (artifact_bytes a) = length bs" using assms(3) by simp
  then have "copied_bytes \<lparr>src_bytes = bs, src_failure = None\<rparr> a = bs" by (simp add: copied_bytes_def)
  moreover have "copy_checks None (Some \<lparr>src_bytes = bs, src_failure = None\<rparr>) (Some None) a maxBytes = None"
    using assms by (simp add: copy_checks_def)
  ultimately show ?thesis
    using assms(3,4) by (simp add: CopyVerified_def copy_failures_def write_failure_def taken_by_def)
qed

subsection \<open>Shared inputs\<close>

lemma digits_value_snoc:
  "foldl (\<lambda>v c. 10 * v + (byte c - 48)) 0 (xs @ [c]) = 10 * foldl (\<lambda>v c. 10 * v + (byte c - 48)) 0 xs + (byte c - 48)"
  by simp

lemma nat_digits_value: "foldl (\<lambda>v c. 10 * v + (byte c - 48)) 0 (nat_digits n) = n"
proof (induction n rule: nat_digits.induct)
  case (1 n)
  then show ?case by (subst nat_digits.simps) (auto simp: byte_char_of)
qed

lemma nat_digits_inj: "nat_digits m = nat_digits n \<Longrightarrow> m = n"
  by (metis nat_digits_value)

lemma SharedResourceKey_inj:
  assumes "SharedResourceKey sha n = SharedResourceKey sha' n'" "SharedResourceKey sha n \<noteq> []"
  shows "sha = sha' \<and> n = n'"
proof -
  have key: "digest_valid sha" "0 \<le> n" "digest_valid sha'" "0 \<le> n'"
    "sha @ ''_'' @ format_int n = sha' @ ''_'' @ format_int n'"
    using assms by (auto simp: SharedResourceKey_def split: if_splits)
  have "length sha = length sha'" using key(1,3) by (simp add: digest_valid_iff)
  then have "sha = sha'" "format_int n = format_int n'" using key(5) by auto
  then show ?thesis using key(2,4) nat_digits_inj [of "nat n" "nat n'"] by (simp add: format_int_def)
qed


definition eligible :: "int \<Rightarrow> object_metadata \<Rightarrow> bool" where
  "eligible minBytes m \<longleftrightarrow> object_bytes m \<ge> minBytes \<and> object_key m \<noteq> []"

text \<open>What the loop has established once it has read the given inputs.\<close>

definition selection_ok ::
  "int \<Rightarrow> int \<Rightarrow> object_metadata list \<Rightarrow> frozen_input list \<Rightarrow> object_metadata list \<Rightarrow> bool" where
  "selection_ok minBytes limit selected is r \<longleftrightarrow>
     distinct (map object_key r) \<and> int (length r) \<le> limit \<and> list_all (eligible minBytes) r
     \<and> set r \<subseteq> set selected \<union> input_object ` set is
     \<and> object_key ` set selected \<subseteq> object_key ` set r
     \<and> (int (length r) < limit \<longrightarrow>
         (\<forall>i \<in> set is. eligible minBytes (input_object i) \<longrightarrow> object_key (input_object i) \<in> object_key ` set r))"

lemma selection_ok_skip:
  assumes "selection_ok minBytes limit selected is r"
    "\<not> eligible minBytes (input_object i) \<or> object_key (input_object i) \<in> object_key ` set selected"
  shows "selection_ok minBytes limit selected (i # is) r"
  using assms unfolding selection_ok_def by auto

lemma selection_ok_take:
  assumes "selection_ok minBytes limit (selected @ [input_object i]) is r"
  shows "selection_ok minBytes limit selected (i # is) r"
  using assms unfolding selection_ok_def by auto

lemma select_loop_spec:
  assumes "seen = object_key ` set selected" "distinct (map object_key selected)"
    "int (length selected) \<le> limit" "list_all (eligible minBytes) selected"
  shows "selection_ok minBytes limit selected is (select_loop minBytes limit seen selected is)"
  using assms
proof (induction "is" arbitrary: seen selected)
  case Nil
  then show ?case by (simp add: selection_ok_def)
next
  case (Cons i "is")
  let ?m = "input_object i"
  consider (skip) "\<not> eligible minBytes ?m \<or> object_key ?m \<in> seen"
    | (full) "eligible minBytes ?m" "object_key ?m \<notin> seen" "int (length selected) \<ge> limit"
    | (fresh) "eligible minBytes ?m" "object_key ?m \<notin> seen" "int (length selected) < limit"
    by linarith
  then show ?case
  proof cases
    case skip
    then have "select_loop minBytes limit seen selected (i # is) = select_loop minBytes limit seen selected is"
      by (auto simp: Let_def eligible_def)
    moreover have "selection_ok minBytes limit selected is (select_loop minBytes limit seen selected is)"
      using Cons.prems by (rule Cons.IH)
    ultimately show ?thesis using selection_ok_skip skip Cons.prems(1) by simp
  next
    case full
    then have "select_loop minBytes limit seen selected (i # is) = selected"
      by (simp add: Let_def eligible_def)
    then show ?thesis using Cons.prems full by (simp add: selection_ok_def) blast
  next
    case fresh
    then have "select_loop minBytes limit seen selected (i # is)
        = select_loop minBytes limit (insert (object_key ?m) seen) (selected @ [?m]) is"
      by (simp add: Let_def eligible_def)
    moreover have "selection_ok minBytes limit (selected @ [?m]) is
        (select_loop minBytes limit (insert (object_key ?m) seen) (selected @ [?m]) is)"
      by (rule Cons.IH) (use Cons.prems fresh in simp_all)
    ultimately show ?thesis using selection_ok_take by simp
  qed
qed


section \<open>Properties\<close>

text \<open>A frozen provider revision resolves to exactly the adapter that was registered for it, whatever
  is registered later, and a second registration of the same revision is refused.\<close>

theorem snapshot_registry_frozen:
  assumes "snapshot_register describe (s, Some p) r = Inr r'"
  shows "snapshot_resolve s (register_all (snapshot_register describe) later r') = Inr p
    \<and> (\<exists>e. snapshot_register describe (s, q) (register_all (snapshot_register describe) later r') = Inl e)"
  using snap.run_resolves [OF assms, of later] snap.second_refused [OF assms, of "(s, q)" later] by simp

definition sample_capabilities :: capabilities where
  "sample_capabilities =
     \<lparr>cap_batch = True, cap_python = True, cap_shell = True, cap_gpu = CapabilitySupportSupported,
      cap_private_staging = True, cap_remote_cancellation = True, cap_remote_cleanup = True,
      cap_logs_running = CapabilitySupportUnknown, cap_logs_after = True,
      cap_quota = CapabilitySupportUnsupported, cap_timeout = True, cap_separate_start = False,
      cap_secrets = False, cap_deadline = False, cap_network = False, cap_identity = True,
      cap_accelerators = [], cap_gpu_shape = [], cap_max_wall = 3600\<rparr>"

definition sample_descriptor :: "unit \<Rightarrow> descriptor" where
  "sample_descriptor u = \<lparr>desc_type = ''kaggle'', desc_instance = ''prov_1'', desc_version = ''v1'',
     desc_capabilities = sample_capabilities\<rparr>"

definition sample_binding :: provider_binding where
  "sample_binding = \<lparr>binding_profile = ''gpu'', binding_instance = ''prov_1'', binding_revision = ''rev1''\<rparr>"

definition sample_binding_snapshot :: binding_snapshot where
  "sample_binding_snapshot = \<lparr>bs_binding = sample_binding, bs_account = ''acct_1'', bs_credential = []\<rparr>"

lemma sample_not_blank: "\<not> blank ''kaggle''" "\<not> blank ''v1''" "\<not> blank ''gpu''" "\<not> blank ''rev1''"
  by (simp_all add: not_blank_printable printable_byte_def byte_def)

lemma sample_account: "validOpaqueID ''acct_1''"
  by code_simp

lemma sample_binding_valid: "binding_validate sample_binding = None"
  by (simp add: binding_validate_def sample_binding_def sample_not_blank more_sample_ids)

lemma sample_registration:
  "snapshot_register sample_descriptor (sample_binding_snapshot, Some ()) [] = Inr [(sample_binding_snapshot, ())]"
proof -
  have "registry_register sample_descriptor (Some ()) NewRegistry = Inr [(''prov_1'', ())]"
    by (simp add: registry_register_def NewRegistry_def sample_descriptor_def safeText_def sample_not_blank
        more_sample_ids capabilities_valid_def sample_capabilities_def MaxRemoteWallSeconds_def
        control_byte_def byte_def)
  then show ?thesis
    using sample_binding_valid
    by (simp add: snapshot_register_def sample_binding_snapshot_def binding_snapshot_valid_def
        sample_account contains_any_def sample_descriptor_def)
      (simp add: sample_binding_def)
qed

theorem snapshot_registry_frozen_witness:
  "snapshot_resolve sample_binding_snapshot
     (register_all (snapshot_register sample_descriptor) [(sample_binding_snapshot, None)]
       [(sample_binding_snapshot, ())]) = Inr ()"
  using snapshot_registry_frozen [OF sample_registration] by blast

text \<open>C35.  A transfer reports success only for the declared artifact: both endpoints were given, the
  source delivered exactly the declared number of bytes with the declared digest and ended cleanly, the
  destination holds exactly those bytes, and the context was never cancelled; and it does succeed on
  such a source.\<close>

theorem verified_transfer_exact:
  "(fst (CopyVerified cancelled source dst a maxBytes) = Inr (n, d) \<longrightarrow>
      dst \<noteq> None \<and> (\<exists>src. source = Some src \<and> cancelled = (None, None) \<and> src_failure src = None
        \<and> int (length (src_bytes src)) = artifact_bytes a \<and> artifact_bytes a \<le> maxBytes
        \<and> sha256_hex (src_bytes src) = artifact_sha256 a \<and> n = artifact_bytes a \<and> d = artifact_sha256 a
        \<and> snd (CopyVerified cancelled source dst a maxBytes) = src_bytes src))
   \<and> (artifact_validate (artifact_remote a) a = None \<and> artifact_bytes a \<le> maxBytes
      \<and> int (length bs) = artifact_bytes a \<and> sha256_hex bs = artifact_sha256 a \<longrightarrow>
      CopyVerified (None, None) (Some \<lparr>src_bytes = bs, src_failure = None\<rparr>) (Some None) a maxBytes
        = (Inr (artifact_bytes a, artifact_sha256 a), bs))"
proof (intro conjI impI)
  assume ok: "fst (CopyVerified cancelled source dst a maxBytes) = Inr (n, d)"
  then obtain src out where ends: "source = Some src" "dst = Some out"
    by (rule CopyVerified_endpoints)
  show "dst \<noteq> None" using ends(2) by simp
  show "\<exists>src. source = Some src \<and> cancelled = (None, None) \<and> src_failure src = None
    \<and> int (length (src_bytes src)) = artifact_bytes a \<and> artifact_bytes a \<le> maxBytes
    \<and> sha256_hex (src_bytes src) = artifact_sha256 a \<and> n = artifact_bytes a \<and> d = artifact_sha256 a
    \<and> snd (CopyVerified cancelled source dst a maxBytes) = src_bytes src"
    using CopyVerified_success [OF ok [unfolded ends]] ends by blast
qed (elim conjE, rule CopyVerified_complete)

definition sample_remote :: remote_reference where
  "sample_remote = \<lparr>remote_identity = sample_identity, remote_resource = ''kernel'', remote_version = ''v1''\<rparr>"

definition sample_artifact :: artifact where
  "sample_artifact = \<lparr>artifact_remote = sample_remote, artifact_path = ''in/a'', artifact_bytes = 3,
     artifact_sha256 = sha256_hex ''abc''\<rparr>"

lemma sample_remote_valid: "remote_validate sample_remote = None"
  using sample_identity_valid not_blank_printable [of "CHR ''k''" "''ernel''"]
  by (simp add: remote_validate_def sample_remote_def safeText_def sample_not_blank control_byte_def
      printable_byte_def byte_def)

theorem verified_transfer_exact_witness:
  "CopyVerified (None, None) (Some \<lparr>src_bytes = ''abc'', src_failure = None\<rparr>) (Some None) sample_artifact 10
    = (Inr (3, sha256_hex ''abc''), ''abc'')"
proof -
  have "artifact_validate (artifact_remote sample_artifact) sample_artifact = None"
    using sample_remote_valid sample_paths(1) by (simp add: artifact_validate_def sample_artifact_def)
  then show ?thesis
    using verified_transfer_exact [of _ _ _ sample_artifact 10 _ _ "''abc''"]
    by (simp add: sample_artifact_def)
qed

text \<open>The shared inputs are chosen by content: at most the limit, each content once, each large
  enough and taken from the inputs, and when the limit is not reached no large content is left out.\<close>

theorem shared_inputs_by_content:
  assumes "0 < minBytes" "0 < limit" "r = SelectSharedInputs inputs minBytes limit"
  shows "distinct (map (\<lambda>m. (object_sha256 m, object_bytes m)) r) \<and> int (length r) \<le> limit
    \<and> set r \<subseteq> input_object ` set inputs \<and> (\<forall>m \<in> set r. minBytes \<le> object_bytes m)
    \<and> (int (length r) < limit \<longrightarrow> (\<forall>i \<in> set inputs. eligible minBytes (input_object i) \<longrightarrow>
        object_key (input_object i) \<in> object_key ` set r))"
proof -
  have spec: "selection_ok minBytes limit [] inputs r"
    using select_loop_spec [of "{}" "[]" limit minBytes inputs] assms by (simp add: SelectSharedInputs_def)
  have "distinct (map (\<lambda>m. (object_sha256 m, object_bytes m)) r)"
    using spec by (auto simp: selection_ok_def distinct_map inj_on_def object_key_def)
  then show ?thesis using spec by (auto simp: selection_ok_def eligible_def list_all_iff)
qed

theorem shared_inputs_by_content_witness:
  "int (length (SelectSharedInputs [sample_input ''a'' ''in/a''] 5 1)) \<le> 1"
  using shared_inputs_by_content [of 5 1 "SelectSharedInputs [sample_input ''a'' ''in/a''] 5 1"
      "[sample_input ''a'' ''in/a'']"] by simp

lemma ceil_div:
  fixes b k :: int
  assumes "0 < k"
  shows "(b + k - 1) div k = b div k + (if b mod k = 0 then 0 else 1)"
proof -
  define q r where "q = b div k" "r = b mod k"
  then have b: "b = k * q + r" "0 \<le> r" "r < k" using assms by simp_all
  have "(b + k - 1) div k = (r + k - 1 + q * k) div k" by (simp add: b(1) algebra_simps)
  also have "\<dots> = q + (r + k - 1) div k" using assms by (subst div_mult_self1) simp_all
  also have "(r + k - 1) div k = (if r = 0 then 0 else 1)"
  proof (cases "r = 0")
    case True
    then show ?thesis using assms by simp
  next
    case False
    then have "r + k - 1 = 1 * k + (r - 1)" "0 \<le> r - 1" "r - 1 < k" using b by simp_all
    then show ?thesis using False int_div_pos_eq [of "r + k - 1" k 1 "r - 1"] by simp
  qed
  finally show ?thesis by (simp add: q_r_def)
qed

definition started_mebibytes :: "int \<Rightarrow> int" where
  "started_mebibytes bytes = (bytes + 2 ^ 20 - 1) div 2 ^ 20"

lemma read_budget_cases:
  "ArtifactReadBudget base bytes files = 2 * hour_ns
   \<or> 0 \<le> bytes \<and> 0 \<le> files
     \<and> started_mebibytes bytes + files \<le> (2 * hour_ns - max 0 base) div second_ns
     \<and> ArtifactReadBudget base bytes files = max 0 base + (started_mebibytes bytes + files) * second_ns"
proof -
  have seconds: "bytes div 2 ^ 20 + (if bytes mod 2 ^ 20 \<noteq> 0 then 1 else 0) = started_mebibytes bytes"
    unfolding started_mebibytes_def by (subst ceil_div) simp_all
  have start: "(if base < 0 then 0 else base) = max 0 base" by simp
  define left where "left = (2 * hour_ns - max 0 base) div second_ns"
  have "ArtifactReadBudget base bytes files =
      (if base \<ge> 2 * hour_ns \<or> bytes < 0 \<or> files < 0 then 2 * hour_ns
       else if started_mebibytes bytes > left \<or> files > left - started_mebibytes bytes then 2 * hour_ns
       else max 0 base + (started_mebibytes bytes + files) * second_ns)"
    unfolding ArtifactReadBudget_def Let_def start seconds left_def by (rule refl)
  then show ?thesis unfolding left_def [symmetric] by (simp split: if_splits)
qed

lemma div_times_le:
  fixes x y k :: int
  assumes "0 < k" "x \<le> y div k"
  shows "x * k \<le> y"
proof -
  have "x * k \<le> y div k * k" using assms by (simp add: mult_right_mono)
  also have "\<dots> = y - y mod k" by (simp add: minus_mod_eq_div_mult)
  also have "\<dots> \<le> y" using assms(1) by simp
  finally show ?thesis .
qed

text \<open>A read budget never exceeds two hours, is never negative, and below the ceiling it is the
  control envelope plus one second for every started mebibyte and every file.\<close>

theorem read_budget_bounds:
  "0 \<le> ArtifactReadBudget base bytes files \<and> ArtifactReadBudget base bytes files \<le> 2 * hour_ns
   \<and> (ArtifactReadBudget base bytes files = 2 * hour_ns
      \<or> ArtifactReadBudget base bytes files = max 0 base + (started_mebibytes bytes + files) * second_ns)"
proof (cases "ArtifactReadBudget base bytes files = 2 * hour_ns")
  case False
  then have fits: "0 \<le> bytes" "0 \<le> files"
    "started_mebibytes bytes + files \<le> (2 * hour_ns - max 0 base) div second_ns"
    "ArtifactReadBudget base bytes files = max 0 base + (started_mebibytes bytes + files) * second_ns"
    using read_budget_cases by blast+
  have "(started_mebibytes bytes + files) * second_ns \<le> 2 * hour_ns - max 0 base"
    using fits(3) by (intro div_times_le) simp_all
  moreover have "0 \<le> started_mebibytes bytes"
    using fits(1) by (simp add: started_mebibytes_def pos_imp_zdiv_nonneg_iff)
  ultimately show ?thesis using fits(2,4) by simp
qed simp

text \<open>C36.  Diagnosing an error never changes what it is: a reason is empty or a closed identifier, naming
  the failed step leaves every problem, absence and local-state classification of the chain alone, and a
  reason that is already there is kept.\<close>

theorem reasons_keep_classification:
  "(Reason err fallback = [] \<or> ValidReason (Reason err fallback))
   \<and> errors_as (as_problem v) (WithReason err fallback) = errors_as (as_problem v) err
   \<and> errors_as as_absence (WithReason err fallback) = errors_as as_absence err
   \<and> IsLocalStateError (WithReason err fallback) = IsLocalStateError err
   \<and> (err \<noteq> None \<and> ValidReason fallback \<longrightarrow>
      Reason (WithReason err fallback) [] = (if Reason err [] \<noteq> [] then Reason err [] else fallback))"
  using Reason_closed [of err fallback] Reason_WithReason [of fallback err]
  by (auto simp: errors_as_WithReason as_problem_def as_absence_def as_local_state_def IsLocalStateError_def)

theorem reasons_keep_classification_witness:
  "Reason (WithReason (Some (Sentinel ''timeout'')) ''verify_failed'') [] = ''verify_failed''"
proof -
  have "ValidReason ''verify_failed''" "Reason (Some (Sentinel ''timeout'')) [] = []" by code_simp+
  then show ?thesis
    using reasons_keep_classification [of "Some (Sentinel ''timeout'')" "''verify_failed''"] by auto
qed

end
