(* ===== verification/Worker.thy ===== *)
theory Worker
  imports Provider_Services
begin

text \<open>
  The worker loop shared by the engines (\<open>internal/worker\<close>): how an error of a pass is classified, what a
  heartbeat that lost its lease adds to it, and how long the loop pauses before the next pass.  The
  goroutines themselves are not modelled; a loop is a function of the passes it makes.
\<close>

section \<open>Decisions\<close>

datatype decision = Stop | Continue | Retry

definition as_joined :: "go_error \<Rightarrow> go_error list option" where
  "as_joined e = (case e of Joined es \<Rightarrow> Some es | _ \<Rightarrow> None)"

definition as_temporary :: "go_error \<Rightarrow> bool option" where
  "as_temporary e = (case e of TemporaryError b \<Rightarrow> Some b | _ \<Rightarrow> None)"

definition as_coded :: "go_error \<Rightarrow> int option" where
  "as_coded e = (case e of CodedError c \<Rightarrow> Some c | _ \<Rightarrow> None)"

text \<open>A database code keeps its primary part in the low byte; 5 and 6 are \<open>BUSY\<close> and \<open>LOCKED\<close>.\<close>

definition classify :: "go_error option \<Rightarrow> decision" where
  "classify err =
     (if err = None then Continue
      else if errors_is ''context.DeadlineExceeded'' err then Retry
      else if errors_as as_temporary err = Some True then Retry
      else if (case errors_as as_coded err of None \<Rightarrow> False | Some c \<Rightarrow> c mod 256 = 5 \<or> c mod 256 = 6) then Retry
      else Stop)"

fun join_decisions :: "decision \<Rightarrow> decision list \<Rightarrow> decision" where
  "join_decisions d [] = d"
| "join_decisions d (x # xs) =
     (if x = Stop then Stop else join_decisions (if x = Retry then Retry else d) xs)"

lemma find_as_mem: "find_as f es = Some x \<Longrightarrow> \<exists>e \<in> set es. f e = Some x"
  by (induction es) (auto split: option.splits)

lemma size_joined_chain: "Joined es \<in> set (error_chain e) \<Longrightarrow> size (Joined es) \<le> size e"
proof (induction e rule: error_chain.induct)
  case (11 fs)
  show ?case
  proof (cases "es = fs")
    case False
    then obtain f where f: "f \<in> set fs" "Joined es \<in> set (error_chain f)" using 11(2) by auto
    from size_list_estimation' [where f = size, OF f(1) 11(1) [OF f]] show ?thesis by simp
  qed simp
qed (auto intro: le_SucI)

lemma joined_smaller:
  assumes "errors_as as_joined err = Some es" "c \<in> set es"
  shows "size c < (case err of None \<Rightarrow> 0 | Some e \<Rightarrow> size e)"
proof -
  obtain e where e: "err = Some e" "find_as as_joined (error_chain e) = Some es"
    using assms(1) by (auto simp: errors_as_def split: option.splits)
  obtain j where j: "j \<in> set (error_chain e)" "as_joined j = Some es" using find_as_mem [OF e(2)] by blast
  then have "j = Joined es" by (auto simp: as_joined_def split: go_error.splits)
  moreover have "size c < size (Joined es)" using assms(2) by (simp add: less_Suc_eq_le size_list_estimation')
  ultimately show ?thesis using size_joined_chain j(1) e(1) by fastforce
qed

function classifyCauses :: "(go_error option \<Rightarrow> decision) \<Rightarrow> go_error option \<Rightarrow> decision" where
  "classifyCauses cl err =
     (case errors_as as_joined err of
        Some es \<Rightarrow> join_decisions Continue (map (\<lambda>c. classifyCauses cl (Some c)) es)
      | None \<Rightarrow> cl err)"
  by pat_completeness auto

termination
  by (relation "measure (\<lambda>(cl, err). case err of None \<Rightarrow> 0 | Some e \<Rightarrow> size e)") (auto dest: joined_smaller)

definition Classify :: "go_error option \<Rightarrow> decision" where
  "Classify err = classifyCauses classify err"


section \<open>Heartbeats\<close>

function withoutCancellation :: "go_error option \<Rightarrow> go_error option" where
  "withoutCancellation err =
     (case errors_as as_joined err of
        Some es \<Rightarrow> errors_join (map (\<lambda>c. withoutCancellation (Some c)) es)
      | None \<Rightarrow> if errors_is ''context.Canceled'' err then None else err)"
  by pat_completeness auto

termination
  by (relation "measure (\<lambda>err. case err of None \<Rightarrow> 0 | Some e \<Rightarrow> size e)") (auto dest: joined_smaller)

definition HeartbeatError :: "go_error option \<Rightarrow> go_error option \<Rightarrow> go_error option" where
  "HeartbeatError processing renewal =
     (if renewal = None then processing else errors_join [withoutCancellation processing, renewal])"

definition heartbeat_interval :: "gotime \<Rightarrow> gotime \<Rightarrow> int" where
  "heartbeat_interval until now = min (max (sub_time until now div 3) (10 * 1000000)) (5 * second_ns)"

text \<open>One round of the renewing goroutine: the context ended first, or the call returned with the context
  still live or not.\<close>

datatype beat =
    BeatStopped
  | BeatRenewed gotime
  | BeatFailed go_error bool

fun heartbeat_rounds :: "gotime \<Rightarrow> beat list \<Rightarrow> gotime \<times> go_error option" where
  "heartbeat_rounds until [] = (until, None)"
| "heartbeat_rounds until (BeatStopped # _) = (until, None)"
| "heartbeat_rounds until (BeatRenewed t # bs) = heartbeat_rounds t bs"
| "heartbeat_rounds until (BeatFailed e stopped # _) =
     (until, if stopped then withoutCancellation (Some e) else Some e)"


section \<open>The loop of a worker\<close>

record worker_config =
  wc_workers :: int
  wc_poll_delay :: int
  wc_drain :: bool

definition first_backoff :: int where "first_backoff = 10 * 1000000"

text \<open>The pause after a pass and the next backoff; \<open>None\<close> when the loop goes on at once.  The random part of
  a retry is drawn by \<open>rand.Int64N\<close> from zero up to half of the backoff; the argument \<open>rnd\<close> stands for the draw.\<close>

definition worker_pause ::
  "worker_config \<Rightarrow> decision \<Rightarrow> bool \<Rightarrow> go_error option \<Rightarrow> int \<Rightarrow> int \<Rightarrow> int option \<times> int" where
  "worker_pause cfg d worked err rnd backoff =
     (if d = Retry then (Some (backoff div 2 + rnd mod (backoff div 2 + 1)), min (backoff * 2) second_ns)
      else if worked \<and> err = None \<and> wc_drain cfg then (None, first_backoff)
      else (Some (wc_poll_delay cfg), first_backoff))"

record worker_pass =
  pass_worked :: bool
  pass_error :: "go_error option"
  pass_random :: int

text \<open>The pauses of a worker over its passes, and the error that stopped it.\<close>

fun worker_passes ::
  "worker_config \<Rightarrow> (go_error option \<Rightarrow> decision) \<Rightarrow> int \<Rightarrow> worker_pass list \<Rightarrow> int option list \<times> go_error option" where
  "worker_passes cfg cl backoff [] = ([], None)"
| "worker_passes cfg cl backoff (p # ps) =
     (let d = classifyCauses cl (pass_error p) in
      if d = Stop then ([], pass_error p)
      else
        let (pause, backoff') = worker_pause cfg d (pass_worked p) (pass_error p) (pass_random p) backoff;
            (rest, failure) = worker_passes cfg cl backoff' ps
        in (pause # rest, failure))"


section \<open>Lemmas\<close>

lemma join_decisions_Stop: "d \<noteq> Stop \<Longrightarrow> join_decisions d ds = Stop \<longleftrightarrow> Stop \<in> set ds"
  by (induction ds arbitrary: d) auto

lemma join_decisions_Retry:
  "d \<noteq> Stop \<Longrightarrow> join_decisions d ds = Retry \<longleftrightarrow> Stop \<notin> set ds \<and> (d = Retry \<or> Retry \<in> set ds)"
  by (induction ds arbitrary: d) auto

lemma join_decisions_alt:
  "join_decisions Continue ds = (if Stop \<in> set ds then Stop else if Retry \<in> set ds then Retry else Continue)"
  using join_decisions_Stop [of Continue ds] join_decisions_Retry [of Continue ds]
  by (cases "join_decisions Continue ds") auto

text \<open>The causes an error is made of, with every join opened.\<close>

function error_causes :: "go_error option \<Rightarrow> go_error option list" where
  "error_causes err =
     (case errors_as as_joined err of
        Some es \<Rightarrow> concat (map (\<lambda>c. error_causes (Some c)) es)
      | None \<Rightarrow> [err])"
  by pat_completeness auto

termination
  by (relation "measure (\<lambda>err. case err of None \<Rightarrow> 0 | Some e \<Rightarrow> size e)") (auto dest: joined_smaller)

declare classifyCauses.simps [simp del] withoutCancellation.simps [simp del] error_causes.simps [simp del]

lemma classifyCauses_causes: "classifyCauses cl err = join_decisions Continue (map cl (error_causes err))"
proof (induction err rule: error_causes.induct)
  case (1 err)
  show ?case
  proof (cases "errors_as as_joined err")
    case None
    then show ?thesis
      by (cases "cl err") (simp_all add: classifyCauses.simps [of cl err] error_causes.simps [of err])
  next
    case (Some es)
    then have "classifyCauses cl (Some c) = join_decisions Continue (map cl (error_causes (Some c)))"
      if "c \<in> set es" for c using 1 that by blast
    then have "map (\<lambda>c. classifyCauses cl (Some c)) es
        = map (\<lambda>c. join_decisions Continue (map cl (error_causes (Some c)))) es"
      by simp
    with Some show ?thesis
      by (auto simp: classifyCauses.simps [of cl err] error_causes.simps [of err] join_decisions_alt image_iff)
  qed
qed

lemma error_causes_None [simp]: "error_causes None = [None]"
  by (simp add: error_causes.simps errors_as_def)

lemma error_causes_join:
  "set (error_causes (errors_join errs)) - {None} = (\<Union>e \<in> set errs. set (error_causes e) - {None})"
proof -
  have joined: "error_causes (Some (Joined es)) = concat (map (\<lambda>c. error_causes (Some c)) es)" for es
    by (simp add: error_causes.simps [of "Some (Joined es)"] errors_as_def as_joined_def)
  show ?thesis
  proof (cases "\<forall>e \<in> set errs. e = None")
    case True
    then have "filter (\<lambda>e. e \<noteq> None) errs = []" by (simp add: filter_empty_conv)
    then show ?thesis using True by (auto simp: errors_join_def)
  next
    case False
    then have "filter (\<lambda>e. e \<noteq> None) errs \<noteq> []" by (simp add: filter_empty_conv)
    then have "set (error_causes (errors_join errs)) = (\<Union>e \<in> set errs - {None}. set (error_causes e))"
      by (auto simp: errors_join_def Let_def joined simp del: filter_empty_conv)
    then show ?thesis by auto
  qed
qed

text \<open>What \<open>withoutCancellation\<close> leaves, up to nil causes.\<close>

lemma withoutCancellation_causes:
  "set (error_causes (withoutCancellation err)) - {None}
     = {e \<in> set (error_causes err). \<not> errors_is ''context.Canceled'' e} - {None}"
proof (induction err rule: withoutCancellation.induct)
  case (1 err)
  show ?case
  proof (cases "errors_as as_joined err")
    case None
    then show ?thesis
      by (auto simp: withoutCancellation.simps [of err] error_causes.simps errors_as_def)
  next
    case (Some es)
    have "set (error_causes (withoutCancellation err)) - {None}
        = (\<Union>c \<in> set es. set (error_causes (withoutCancellation (Some c))) - {None})"
      using Some by (simp add: withoutCancellation.simps [of err] error_causes_join)
    also have "\<dots> = (\<Union>c \<in> set es. {e \<in> set (error_causes (Some c)). \<not> errors_is ''context.Canceled'' e} - {None})"
      using 1 Some by blast
    also have "\<dots> = {e \<in> set (error_causes err). \<not> errors_is ''context.Canceled'' e} - {None}"
      using Some by (auto simp: error_causes.simps [of err])
    finally show ?thesis .
  qed
qed

lemma classify_None [simp]: "classify None = Continue"
  by (simp add: classify_def)

lemma Classify_causes:
  "Classify err = (if \<exists>e \<in> set (error_causes err). classify e = Stop then Stop
     else if \<exists>e \<in> set (error_causes err). classify e = Retry then Retry else Continue)"
proof -
  have "d \<in> set (map classify es) \<longleftrightarrow> (\<exists>e \<in> set es. classify e = d)" for d es by auto
  then show ?thesis by (simp only: Classify_def classifyCauses_causes join_decisions_alt)
qed

lemma Classify_Stop: "Classify err = Stop \<longleftrightarrow> (\<exists>e \<in> set (error_causes err) - {None}. classify e = Stop)"
  by (auto simp: Classify_causes)


section \<open>Properties\<close>

text \<open>C37. A worker stops exactly when some cause of the error of its pass, with every join opened, is not known to
  be transient. A heartbeat that lost its lease removes the cancellations it caused from that error, and
  nothing else: it never hides another cause, and its own failure counts like any other.\<close>

theorem workers_stop_on_lasting_causes:
  "(Classify err = Stop \<longleftrightarrow> (\<exists>e \<in> set (error_causes err). classify e = Stop))
   \<and> (Classify (HeartbeatError err (Some r)) = Stop \<longleftrightarrow>
        (\<exists>e \<in> set (error_causes err). classify e = Stop \<and> \<not> errors_is ''context.Canceled'' e)
        \<or> Classify (Some r) = Stop)"
proof -
  have "set (error_causes (HeartbeatError err (Some r))) - {None}
      = ({e \<in> set (error_causes err). \<not> errors_is ''context.Canceled'' e} - {None})
        \<union> (set (error_causes (Some r)) - {None})"
    by (simp add: HeartbeatError_def error_causes_join withoutCancellation_causes)
  then have "Classify (HeartbeatError err (Some r)) = Stop \<longleftrightarrow>
      (\<exists>e \<in> ({e \<in> set (error_causes err). \<not> errors_is ''context.Canceled'' e} - {None})
          \<union> (set (error_causes (Some r)) - {None}). classify e = Stop)"
    by (simp only: Classify_Stop)
  moreover have "classify e = Stop \<Longrightarrow> e \<noteq> None" for e by (cases e) simp_all
  ultimately show ?thesis unfolding Classify_Stop bex_Un by blast
qed

end
