(* ===== verification/Scheduler.thy ===== *)
theory Scheduler
  imports Provider_Services "HOL-Library.AList"
begin

text \<open>
  The scheduler (\<^verbatim>\<open>internal/scheduler\<close>): settings, account policies and claims (\<^verbatim>\<open>model.go\<close>), quota
  decisions (\<^verbatim>\<open>quota.go\<close>) and the choice of the next attempt to prepare (\<^verbatim>\<open>select.go\<close>). The scan of the
  candidate rows is proved to compute the declarative counts, limits and heads it stands for; capacity,
  order and fairness follow from that.
\<close>

section \<open>Settings, policies and claims\<close>

datatype scheduler_error = SchedulerInvalid | SchedulerScanLimit

definition ScanLimit :: nat where "ScanLimit = 100000"

record scheduler_settings =
  paused :: bool
  max_workers :: int
  max_active_per_account :: int
  lease_duration :: int
  quota_fresh_for :: int
  blocked_recheck :: int

definition DefaultSettings :: scheduler_settings where
  "DefaultSettings =
     \<lparr>paused = False, max_workers = 4, max_active_per_account = 1, lease_duration = 30 * second_ns,
      quota_fresh_for = 5 * minute_ns, blocked_recheck = 5 * minute_ns\<rparr>"

abbreviation millisecond_ns :: int where "millisecond_ns \<equiv> 1000000"

definition settings_valid :: "scheduler_settings \<Rightarrow> bool" where
  "settings_valid s \<longleftrightarrow>
     max_workers s > 0 \<and> max_workers s \<le> 64 \<and> max_active_per_account s > 0 \<and> max_active_per_account s \<le> 64
     \<and> lease_duration s \<ge> second_ns \<and> lease_duration s \<le> 5 * minute_ns
     \<and> lease_duration s mod millisecond_ns = 0
     \<and> quota_fresh_for s \<ge> second_ns \<and> quota_fresh_for s \<le> hour_ns
     \<and> quota_fresh_for s mod millisecond_ns = 0
     \<and> blocked_recheck s \<ge> second_ns \<and> blocked_recheck s \<le> hour_ns
     \<and> blocked_recheck s mod millisecond_ns = 0"

record account_policy =
  policy_disabled :: bool
  policy_max_active :: int
  policy_strict_quota :: bool

definition policy_valid :: "account_policy \<Rightarrow> bool" where
  "policy_valid p \<longleftrightarrow> policy_max_active p > 0 \<and> policy_max_active p \<le> 64"

record scheduler_identity =
  sid_workspace :: string
  sid_job :: string
  sid_attempt :: string

definition scheduler_identity_valid :: "scheduler_identity \<Rightarrow> bool" where
  "scheduler_identity_valid i \<longleftrightarrow>
     validOpaqueID (sid_workspace i) \<and> validOpaqueID (sid_job i) \<and> validOpaqueID (sid_attempt i)"

definition ValidTime :: "gotime \<Rightarrow> bool" where
  "ValidTime t \<longleftrightarrow> \<not> is_zero t \<and> year t \<ge> 1970 \<and> year t < 9999"

datatype sched_reason =
    NoReason | Eligible | AuthorizationRequired | Paused | WorkerLimit | AccountLimit | ResourceLimit
  | ResourceUnverified | ResourceUnresolved | AccountDisabled | WorkspaceDisabled | Deferred
  | QuotaUnknownReason | QuotaStaleReason | QuotaUnavailableReason | QuotaExhausted
  | QuotaInsufficient | QuotaUncertain

record claim =
  claim_identity :: scheduler_identity
  claim_sequence :: int
  claim_owner :: string
  claim_generation :: int
  claim_fence :: string
  claim_expires_at :: gotime
  claim_attempt_revision :: nat
  claim_account :: string
  claim_instance :: string
  claim_quota_warning :: sched_reason

definition claim_valid :: "claim \<Rightarrow> bool" where
  "claim_valid c \<longleftrightarrow>
     scheduler_identity_valid (claim_identity c) \<and> claim_sequence c > 0 \<and> validOpaqueID (claim_owner c)
     \<and> claim_generation c > 0 \<and> digest_valid (claim_fence c) \<and> ValidTime (claim_expires_at c)
     \<and> claim_attempt_revision c > 0 \<and> validOpaqueID (claim_account c) \<and> validOpaqueID (claim_instance c)"

record queue_status =
  queue_identity :: scheduler_identity
  queue_sequence :: int
  queue_account :: string
  queue_resource :: string
  queue_reason :: sched_reason
  queue_warning :: sched_reason
  queue_not_before :: gotime

record view =
  view_max_workers :: int
  live_workers :: int
  account_reservations :: "string \<rightharpoonup> int"
  resource_reservations :: "string \<rightharpoonup> int"
  active_account_limits :: "string \<rightharpoonup> int"
  active_resource_limits :: "string \<rightharpoonup> int"
  unresolved_resources :: "string set"
  view_heads :: "queue_status list"


section \<open>Quota\<close>

record quota =
  quota_observed :: "quota_observation option"
  quota_exhausted :: bool

definition Seconds :: "quota_observation \<Rightarrow> float64 \<times> bool" where
  "Seconds q =
     (case quota_remaining q of
        None \<Rightarrow> (Finite 0, False)
      | Some r \<Rightarrow>
          if quota_validate q \<noteq> None then (Finite 0, False)
          else if quota_unit q = ''seconds'' then (r, f64_is_finite r \<and> \<not> f64_negative r)
          else if quota_unit q = ''hours'' then
            (let v = f64_mul r (Finite 3600) in (v, f64_is_finite v \<and> \<not> f64_negative v))
          else (Finite 0, False))"

text \<open>The decision on a recorded observation: \<open>Inl\<close> a returned reason, \<open>Inr\<close> the warning to carry.\<close>

definition decide_known :: "quota_observation \<Rightarrow> int \<Rightarrow> int \<Rightarrow> gotime \<Rightarrow> sched_reason + sched_reason" where
  "decide_known q wall fresh now =
     (let (remaining, ok) = Seconds q in
      if ok \<and> f64_is_zero remaining then Inl QuotaExhausted
      else if \<not> ok then Inr QuotaUncertain
      else if quota_status q = QuotaStale \<or> sub_time now (quota_at q) \<ge> fresh then Inr QuotaStaleReason
      else if f64_less remaining (f64_of_int wall) then Inl QuotaInsufficient
      else if quota_precision q \<noteq> ''exact'' \<and> quota_precision q \<noteq> ''lower_bound'' then Inr QuotaUncertain
      else Inl Eligible)"

definition decide_observation ::
  "quota_observation \<Rightarrow> string \<Rightarrow> int \<Rightarrow> int \<Rightarrow> gotime \<Rightarrow> sched_reason + sched_reason" where
  "decide_observation q resource wall fresh now =
     (if quota_validate q \<noteq> None \<or> quota_resource q \<noteq> resource \<or> is_zero (quota_at q)
         \<or> after (quota_at q) now
      then Inr QuotaUncertain
      else case quota_status q of
        QuotaUnavailable \<Rightarrow> Inr QuotaUnavailableReason
      | QuotaUnknown \<Rightarrow> Inr QuotaUnknownReason
      | QuotaKnown \<Rightarrow> decide_known q wall fresh now
      | QuotaStale \<Rightarrow> decide_known q wall fresh now
      | QuotaStatusOther _ \<Rightarrow> Inr QuotaUncertain)"

definition Decide ::
  "quota \<Rightarrow> string \<Rightarrow> int \<Rightarrow> bool \<Rightarrow> int \<Rightarrow> gotime \<Rightarrow> sched_reason \<times> sched_reason" where
  "Decide q resource wall strict fresh now =
     (if quota_exhausted q then (QuotaExhausted, NoReason)
      else case (case quota_observed q of
          None \<Rightarrow> Inr QuotaUnknownReason
        | Some ob \<Rightarrow> decide_observation ob resource wall fresh now) of
        Inl r \<Rightarrow> (r, NoReason)
      | Inr warning \<Rightarrow> if strict then (warning, NoReason) else (Eligible, warning))"


section \<open>Candidates\<close>

record candidate =
  cand_identity :: scheduler_identity
  cand_sequence :: int
  cand_state :: attempt_state
  cand_active_attempt :: bool
  cand_workspace_enabled :: bool
  cand_account :: string
  cand_instance :: string
  cand_policy :: account_policy
  cand_resource :: string
  cand_wall_seconds :: int
  cand_barrier :: bool
  cand_lease_until :: gotime
  cand_not_before :: gotime
  cand_quota :: quota
  cand_resource_kind :: string
  cand_resource_scope :: string
  cand_resource_max_active :: int
  cand_authorized :: bool

abbreviation cand_workspace :: "candidate \<Rightarrow> string" where
  "cand_workspace r \<equiv> sid_workspace (cand_identity r)"

definition LocalOnly :: "attempt_state \<Rightarrow> bool" where
  "LocalOnly s \<longleftrightarrow>
     state_ok s \<and> \<not> deadline_exceeded s \<and> cancellation s = CancellationNotRequested
     \<and> execution s = ExecutionNotSubmitted \<and> remote_activity s = RemoteActivityNotStarted
     \<and> result s = ResultNotAvailable
     \<and> orchestration s \<in> {OrchestrationQueued, OrchestrationPreparing, OrchestrationBlocked}"

definition HoldsAccount :: "attempt_state \<Rightarrow> bool \<Rightarrow> bool" where
  "HoldsAccount s barrier =
     (if validate_attempt_state s \<noteq> None then True
      else if remote_activity s = RemoteActivityInactive
          \<or> orchestration_terminal (orchestration s) \<and> execution s = ExecutionNotSubmitted
             \<and> remote_activity s = RemoteActivityNotStarted then False
      else if barrier then True
      else if remote_activity s \<noteq> RemoteActivityNotStarted then True
      else if orchestration s \<in> {OrchestrationDispatching, OrchestrationSubmitted, OrchestrationRunning,
          OrchestrationCancelling, OrchestrationReconciling, OrchestrationNeedsAttention} then True
      else execution s \<noteq> ExecutionNotSubmitted)"

definition HoldsCapacity :: "candidate \<Rightarrow> gotime \<Rightarrow> bool" where
  "HoldsCapacity c now \<longleftrightarrow>
     after (cand_lease_until c) now \<and> LocalOnly (cand_state c)
     \<or> HoldsAccount (cand_state c) (cand_barrier c)"

definition EffectiveLimits :: "candidate \<Rightarrow> scheduler_settings \<Rightarrow> view \<Rightarrow> int \<times> int" where
  "EffectiveLimits c settings v =
     (let account = min (max_active_per_account settings) (policy_max_active (cand_policy c));
          account = (case active_account_limits v (cand_account c) of
              Some active \<Rightarrow> min account active | None \<Rightarrow> account);
          resource = min (max_active_per_account settings) (cand_resource_max_active c);
          resource = (case active_resource_limits v (cand_resource_scope c) of
              Some active \<Rightarrow> min resource active | None \<Rightarrow> resource)
      in (account, resource))"


section \<open>The scan of the rows\<close>

definition bump :: "('k \<rightharpoonup> int) \<Rightarrow> 'k \<Rightarrow> 'k \<rightharpoonup> int" where
  "bump m k = m(k \<mapsto> (case m k of None \<Rightarrow> 1 | Some n \<Rightarrow> n + 1))"

definition lower_limit :: "('k \<rightharpoonup> int) \<Rightarrow> 'k \<Rightarrow> int \<Rightarrow> 'k \<rightharpoonup> int" where
  "lower_limit m k n =
     (case m k of None \<Rightarrow> m(k \<mapsto> n) | Some limit \<Rightarrow> if n < limit then m(k \<mapsto> n) else m)"

definition lookup_count :: "('k \<rightharpoonup> int) \<Rightarrow> 'k \<Rightarrow> int" where
  "lookup_count m k = (case m k of None \<Rightarrow> 0 | Some n \<Rightarrow> n)"

definition row_invalid :: "candidate \<Rightarrow> bool" where
  "row_invalid r \<longleftrightarrow>
     \<not> scheduler_identity_valid (cand_identity r) \<or> cand_sequence r \<le> 0
     \<or> validate_attempt_state (cand_state r) \<noteq> None \<or> \<not> validOpaqueID (cand_account r)
     \<or> \<not> validOpaqueID (cand_instance r) \<or> \<not> policy_valid (cand_policy r)
     \<or> (cand_resource r \<noteq> ''cpu'' \<and> cand_resource r \<noteq> ''gpu'')
     \<or> cand_wall_seconds r < 1 \<or> cand_wall_seconds r > MaxRemoteWallSeconds
     \<or> (\<not> is_zero (cand_lease_until r) \<and> \<not> ValidTime (cand_lease_until r))
     \<or> (\<not> is_zero (cand_not_before r) \<and> \<not> ValidTime (cand_not_before r))"

definition resource_invalid :: "candidate \<Rightarrow> bool" where
  "resource_invalid r \<longleftrightarrow>
     cand_resource_kind r \<noteq> [] \<and>
       (\<not> validOpaqueID (cand_resource_kind r) \<or> cand_resource_max_active r < 1
        \<or> cand_resource_max_active r > 64
        \<or> cand_resource_scope r \<noteq> [] \<and> \<not> validOpaqueID (cand_resource_scope r))
     \<or> cand_resource_kind r = [] \<and> (cand_resource_scope r \<noteq> [] \<or> cand_resource_max_active r \<noteq> 0)"

text \<open>The capacity a row holds, added to the view.\<close>

definition reserve :: "gotime \<Rightarrow> candidate \<Rightarrow> view \<Rightarrow> view" where
  "reserve now r v =
     (if HoldsCapacity r now then
        let v = v\<lparr>account_reservations := bump (account_reservations v) (cand_account r),
                  active_account_limits :=
                    lower_limit (active_account_limits v) (cand_account r) (policy_max_active (cand_policy r))\<rparr>
        in if cand_resource_kind r = [] then v
           else if cand_resource_scope r = [] then
             v\<lparr>unresolved_resources := insert (cand_resource_kind r) (unresolved_resources v)\<rparr>
           else
             v\<lparr>resource_reservations := bump (resource_reservations v) (cand_resource_scope r),
               active_resource_limits :=
                 lower_limit (active_resource_limits v) (cand_resource_scope r) (cand_resource_max_active r)\<rparr>
      else v)"

record scan =
  scan_seen :: "int list"
  scan_view :: view
  scan_heads :: "(string \<times> nat) list"

definition startable :: "gotime \<Rightarrow> candidate \<Rightarrow> bool" where
  "startable now r \<longleftrightarrow>
     \<not> (\<not> cand_active_attempt r \<or> after (cand_lease_until r) now \<or> cand_barrier r
         \<or> \<not> LocalOnly (cand_state r))"

definition update_heads :: "candidate list \<Rightarrow> gotime \<Rightarrow> nat \<Rightarrow> (string \<times> nat) list \<Rightarrow> (string \<times> nat) list" where
  "update_heads rows now i heads =
     (let r = rows ! i in
      if \<not> startable now r then heads
      else case map_of heads (cand_workspace r) of
        None \<Rightarrow> AList.update (cand_workspace r) i heads
      | Some prior \<Rightarrow>
          if cand_sequence r < cand_sequence (rows ! prior)
          then AList.update (cand_workspace r) i heads else heads)"

definition scan_row :: "candidate list \<Rightarrow> gotime \<Rightarrow> nat \<Rightarrow> scan \<Rightarrow> scan option" where
  "scan_row rows now i sc =
     (let r = rows ! i; v = scan_view sc in
      if row_invalid r \<or> cand_sequence r \<in> set (scan_seen sc) \<or> resource_invalid r then None
      else
        let v = (if after (cand_lease_until r) now then v\<lparr>live_workers := live_workers v + 1\<rparr> else v)
        in Some \<lparr>scan_seen = cand_sequence r # scan_seen sc, scan_view = reserve now r v,
                 scan_heads = update_heads rows now i (scan_heads sc)\<rparr>)"

fun scan_rows :: "candidate list \<Rightarrow> gotime \<Rightarrow> nat list \<Rightarrow> scan \<Rightarrow> scan option" where
  "scan_rows rows now [] sc = Some sc"
| "scan_rows rows now (i # is) sc =
     (case scan_row rows now i sc of None \<Rightarrow> None | Some sc' \<Rightarrow> scan_rows rows now is sc')"

definition empty_view :: "scheduler_settings \<Rightarrow> view" where
  "empty_view settings =
     \<lparr>view_max_workers = max_workers settings, live_workers = 0, account_reservations = Map.empty,
      resource_reservations = Map.empty, active_account_limits = Map.empty,
      active_resource_limits = Map.empty, unresolved_resources = {}, view_heads = []\<rparr>"


section \<open>The choice\<close>

definition head_reason ::
  "candidate \<Rightarrow> scheduler_settings \<Rightarrow> view \<Rightarrow> gotime \<Rightarrow> sched_reason \<times> sched_reason" where
  "head_reason r settings v now =
     (let (limit, resource_limit) = EffectiveLimits r settings v in
      if \<not> cand_authorized r then (AuthorizationRequired, NoReason)
      else if paused settings then (Paused, NoReason)
      else if \<not> cand_workspace_enabled r then (WorkspaceDisabled, NoReason)
      else if policy_disabled (cand_policy r) then (AccountDisabled, NoReason)
      else if after (cand_not_before r) now then (Deferred, NoReason)
      else if cand_resource_kind r \<noteq> [] \<and> cand_resource_scope r = [] then (ResourceUnverified, NoReason)
      else if cand_resource_kind r \<noteq> [] \<and> cand_resource_kind r \<in> unresolved_resources v
        then (ResourceUnresolved, NoReason)
      else if live_workers v \<ge> max_workers settings then (WorkerLimit, NoReason)
      else if lookup_count (account_reservations v) (cand_account r) \<ge> limit then (AccountLimit, NoReason)
      else if cand_resource_scope r \<noteq> []
          \<and> lookup_count (resource_reservations v) (cand_resource_scope r) \<ge> resource_limit
        then (ResourceLimit, NoReason)
      else Decide (cand_quota r) (cand_resource r) (cand_wall_seconds r)
             (policy_strict_quota (cand_policy r)) (quota_fresh_for settings) now)"

definition head_status :: "candidate \<Rightarrow> scheduler_settings \<Rightarrow> view \<Rightarrow> gotime \<Rightarrow> queue_status" where
  "head_status r settings v now =
     (let (reason, warning) = head_reason r settings v now in
      \<lparr>queue_identity = cand_identity r, queue_sequence = cand_sequence r, queue_account = cand_account r,
       queue_resource = cand_resource_scope r, queue_reason = reason, queue_warning = warning,
       queue_not_before = cand_not_before r\<rparr>)"

text \<open>The first eligible workspace after the cursor, else the first eligible one.\<close>

definition next_workspace :: "string \<Rightarrow> (string \<Rightarrow> bool) \<Rightarrow> string list \<Rightarrow> string option" where
  "next_workspace cursor ok spaces =
     (case find (\<lambda>w. cursor < w \<and> ok w) spaces of
        Some w \<Rightarrow> Some w
      | None \<Rightarrow> find ok spaces)"

definition Select ::
  "candidate list \<Rightarrow> string \<Rightarrow> scheduler_settings \<Rightarrow> gotime \<Rightarrow> scheduler_error + int \<times> view" where
  "Select rows cursor settings now =
     (if \<not> settings_valid settings \<or> \<not> ValidTime now \<or> (cursor \<noteq> [] \<and> \<not> validOpaqueID cursor)
      then Inl SchedulerInvalid
      else if length rows > ScanLimit then Inl SchedulerScanLimit
      else case scan_rows rows now [0..<length rows]
          \<lparr>scan_seen = [], scan_view = empty_view settings, scan_heads = []\<rparr> of
        None \<Rightarrow> Inl SchedulerInvalid
      | Some sc \<Rightarrow>
          let spaces = sort (map fst (scan_heads sc));
              index = (\<lambda>w. the (map_of (scan_heads sc) w));
              status = (\<lambda>w. head_status (rows ! index w) settings (scan_view sc) now);
              v = (scan_view sc)\<lparr>view_heads := map status spaces\<rparr>
          in Inr (case next_workspace cursor (\<lambda>w. queue_reason (status w) = Eligible) spaces of
                    Some w \<Rightarrow> int (index w)
                  | None \<Rightarrow> - 1, v))"

end
