(* ===== verification/Scheduler_Facts.thy ===== *)
theory Scheduler_Facts
  imports Scheduler
begin

text \<open>
  What a scan of the rows computes and what the choice guarantees: the view holds the exact counts,
  limits and unresolved kinds, a head is the oldest startable attempt of its workspace, no claim exceeds
  a capacity, and no eligible workspace waits forever.
\<close>

section \<open>Counts and limits\<close>

text \<open>A map that counts, by key, the listed rows that satisfy a predicate, and one that keeps their
  least value.\<close>

definition counts :: "('k \<rightharpoonup> int) \<Rightarrow> ('r \<Rightarrow> bool) \<Rightarrow> ('r \<Rightarrow> 'k) \<Rightarrow> 'r list \<Rightarrow> bool" where
  "counts m hold key rs \<longleftrightarrow>
     (\<forall>k. lookup_count m k = int (length (filter (\<lambda>r. hold r \<and> key r = k) rs)))"

definition least_at :: "int option \<Rightarrow> int set \<Rightarrow> bool" where
  "least_at m S \<longleftrightarrow> (case m of None \<Rightarrow> S = {} | Some n \<Rightarrow> n \<in> S \<and> (\<forall>x\<in>S. n \<le> x))"

definition least_of :: "('k \<rightharpoonup> int) \<Rightarrow> ('r \<Rightarrow> bool) \<Rightarrow> ('r \<Rightarrow> 'k) \<Rightarrow> ('r \<Rightarrow> int) \<Rightarrow> 'r list \<Rightarrow> bool" where
  "least_of m hold key val rs \<longleftrightarrow> (\<forall>k. least_at (m k) (val ` {r \<in> set rs. hold r \<and> key r = k}))"

lemma lookup_bump: "lookup_count (bump m k) j = lookup_count m j + (if j = k then 1 else 0)"
  by (simp add: lookup_count_def bump_def split: option.splits)

lemma lower_limit_apply:
  "lower_limit m k n j =
     (if j = k then Some (case m k of None \<Rightarrow> n | Some l \<Rightarrow> min l n) else m j)"
  by (simp add: lower_limit_def split: option.splits)

lemma least_at_insert:
  "least_at m S \<Longrightarrow> least_at (Some (case m of None \<Rightarrow> n | Some l \<Rightarrow> min l n)) (insert n S)"
  by (auto simp: least_at_def min_def split: option.splits)

lemma counts_Nil [simp]: "counts Map.empty hold key []"
  by (simp add: counts_def lookup_count_def)

lemma least_of_Nil [simp]: "least_of Map.empty hold key val []"
  by (simp add: least_of_def least_at_def)

lemma counts_hold: "counts m hold key rs \<Longrightarrow> hold r \<Longrightarrow> counts (bump m (key r)) hold key (rs @ [r])"
  by (simp add: counts_def lookup_bump)

lemma counts_skip: "counts m hold key rs \<Longrightarrow> \<not> hold r \<Longrightarrow> counts m hold key (rs @ [r])"
  by (simp add: counts_def)

lemma least_of_hold:
  assumes "least_of m hold key val rs" "hold r"
  shows "least_of (lower_limit m (key r) (val r)) hold key val (rs @ [r])"
  unfolding least_of_def
proof
  fix k
  have "{q \<in> set (rs @ [r]). hold q \<and> key q = k}
      = (if k = key r then insert r {q \<in> set rs. hold q \<and> key q = k}
         else {q \<in> set rs. hold q \<and> key q = k})"
    using assms(2) by auto
  then show "least_at (lower_limit m (key r) (val r) k) (val ` {q \<in> set (rs @ [r]). hold q \<and> key q = k})"
    using assms(1) [unfolded least_of_def, rule_format, of k]
      least_at_insert [of "m k" "val ` {q \<in> set rs. hold q \<and> key q = k}" "val r"]
    by (cases "k = key r") (simp_all add: lower_limit_apply)
qed

lemma least_of_skip:
  assumes "least_of m hold key val rs" "\<not> hold r"
  shows "least_of m hold key val (rs @ [r])"
proof -
  have "{q \<in> set (rs @ [r]). hold q \<and> key q = k} = {q \<in> set rs. hold q \<and> key q = k}" for k
    using assms(2) by auto
  then show ?thesis using assms(1) by (simp add: least_of_def)
qed

section \<open>The state of the scan\<close>

definition holds_resource :: "gotime \<Rightarrow> candidate \<Rightarrow> bool" where
  "holds_resource now r \<longleftrightarrow>
     HoldsCapacity r now \<and> cand_resource_kind r \<noteq> [] \<and> cand_resource_scope r \<noteq> []"

definition holds_unresolved :: "gotime \<Rightarrow> candidate \<Rightarrow> bool" where
  "holds_unresolved now r \<longleftrightarrow>
     HoldsCapacity r now \<and> cand_resource_kind r \<noteq> [] \<and> cand_resource_scope r = []"

abbreviation is_live :: "gotime \<Rightarrow> candidate \<Rightarrow> bool" where
  "is_live now r \<equiv> after (cand_lease_until r) now"

definition view_exact :: "gotime \<Rightarrow> candidate list \<Rightarrow> view \<Rightarrow> bool" where
  "view_exact now rs v \<longleftrightarrow>
     live_workers v = int (length (filter (is_live now) rs))
     \<and> counts (account_reservations v) (\<lambda>r. HoldsCapacity r now) cand_account rs
     \<and> least_of (active_account_limits v) (\<lambda>r. HoldsCapacity r now) cand_account
         (\<lambda>r. policy_max_active (cand_policy r)) rs
     \<and> counts (resource_reservations v) (holds_resource now) cand_resource_scope rs
     \<and> least_of (active_resource_limits v) (holds_resource now) cand_resource_scope
         cand_resource_max_active rs
     \<and> unresolved_resources v = cand_resource_kind ` {r \<in> set rs. holds_unresolved now r}"

text \<open>The head of a workspace: its startable row with the least sequence number.\<close>

definition is_head :: "gotime \<Rightarrow> candidate list \<Rightarrow> string \<Rightarrow> nat \<Rightarrow> bool" where
  "is_head now rs w i \<longleftrightarrow>
     i < length rs \<and> startable now (rs ! i) \<and> cand_workspace (rs ! i) = w
     \<and> (\<forall>r\<in>set rs. startable now r \<longrightarrow> cand_workspace r = w \<longrightarrow> cand_sequence (rs ! i) \<le> cand_sequence r)"

definition heads_exact :: "gotime \<Rightarrow> candidate list \<Rightarrow> (string \<times> nat) list \<Rightarrow> bool" where
  "heads_exact now rs heads \<longleftrightarrow>
     distinct (map fst heads)
     \<and> (\<forall>w i. map_of heads w = Some i \<longrightarrow> is_head now rs w i)
     \<and> (\<forall>r\<in>set rs. startable now r \<longrightarrow> map_of heads (cand_workspace r) \<noteq> None)"

definition scan_exact :: "gotime \<Rightarrow> candidate list \<Rightarrow> scan \<Rightarrow> bool" where
  "scan_exact now rs sc \<longleftrightarrow>
     set (scan_seen sc) = cand_sequence ` set rs \<and> distinct (map cand_sequence rs)
     \<and> (\<forall>r\<in>set rs. \<not> row_invalid r \<and> \<not> resource_invalid r)
     \<and> view_exact now rs (scan_view sc) \<and> heads_exact now rs (scan_heads sc)"

lemma reserve_exact:
  assumes "view_exact now rs v"
  shows "view_exact now (rs @ [r])
    (reserve now r (if is_live now r then v\<lparr>live_workers := live_workers v + 1\<rparr> else v))"
proof -
  let ?hold = "\<lambda>r. HoldsCapacity r now"
  let ?max = "\<lambda>r. policy_max_active (cand_policy r)"
  have v: "counts (account_reservations v) ?hold cand_account rs"
    "least_of (active_account_limits v) ?hold cand_account ?max rs"
    "counts (resource_reservations v) (holds_resource now) cand_resource_scope rs"
    "least_of (active_resource_limits v) (holds_resource now) cand_resource_scope
       cand_resource_max_active rs"
    "live_workers v = int (length (filter (is_live now) rs))"
    "unresolved_resources v = cand_resource_kind ` {r \<in> set rs. holds_unresolved now r}"
    using assms by (simp_all add: view_exact_def)
  note hold = counts_hold [OF v(1), where r = r] least_of_hold [OF v(2), where r = r]
    counts_hold [OF v(3), where r = r] least_of_hold [OF v(4), where r = r]
  note skip = counts_skip [OF v(1), where r = r] least_of_skip [OF v(2), where r = r]
    counts_skip [OF v(3), where r = r] least_of_skip [OF v(4), where r = r]
  have unresolved_snoc: "{q \<in> set (rs @ [r]). holds_unresolved now q} = {q \<in> set rs. holds_unresolved now q}"
    if "\<not> holds_unresolved now r" using that by auto
  have unresolved_insert: "{q. (q = r \<or> q \<in> set rs) \<and> holds_unresolved now q}
      = insert r {q \<in> set rs. holds_unresolved now q}"
    if "holds_unresolved now r" using that by auto
  consider (idle) "\<not> HoldsCapacity r now"
    | (plain) "HoldsCapacity r now" "cand_resource_kind r = []"
    | (unresolved) "HoldsCapacity r now" "cand_resource_kind r \<noteq> []" "cand_resource_scope r = []"
    | (scoped) "HoldsCapacity r now" "cand_resource_kind r \<noteq> []" "cand_resource_scope r \<noteq> []"
    by blast
  then show ?thesis
  proof cases
    case idle
    then have n: "\<not> holds_resource now r" "\<not> holds_unresolved now r"
      by (simp_all add: holds_resource_def holds_unresolved_def)
    show ?thesis using idle n skip v(5,6) unresolved_snoc [OF n(2)]
      by (simp add: view_exact_def reserve_def)
  next
    case plain
    then have n: "\<not> holds_resource now r" "\<not> holds_unresolved now r"
      by (simp_all add: holds_resource_def holds_unresolved_def)
    show ?thesis using plain n hold(1,2) skip(3,4) v(5,6) unresolved_snoc [OF n(2)]
      by (simp add: view_exact_def reserve_def Let_def)
  next
    case unresolved
    then have n: "\<not> holds_resource now r" "holds_unresolved now r"
      by (simp_all add: holds_resource_def holds_unresolved_def)
    show ?thesis using unresolved n hold(1,2) skip(3,4) v(5,6)
      by (simp add: view_exact_def reserve_def Let_def unresolved_insert)
  next
    case scoped
    then have n: "holds_resource now r" "\<not> holds_unresolved now r"
      by (simp_all add: holds_resource_def holds_unresolved_def)
    show ?thesis using scoped n hold v(5,6) unresolved_snoc [OF n(2)]
      by (simp add: view_exact_def reserve_def Let_def)
  qed
qed

lemma is_head_append:
  assumes "is_head now rs w i"
    and "startable now r \<Longrightarrow> cand_workspace r = w \<Longrightarrow> cand_sequence (rs ! i) \<le> cand_sequence r"
  shows "is_head now (rs @ [r]) w i"
  using assms by (auto simp: is_head_def nth_append)

lemma heads_exact_update:
  assumes "heads_exact now rs heads" "startable now r"
    and least: "\<And>q. q \<in> set rs \<Longrightarrow> startable now q \<Longrightarrow> cand_workspace q = cand_workspace r
      \<Longrightarrow> cand_sequence r \<le> cand_sequence q"
  shows "heads_exact now (rs @ [r]) (AList.update (cand_workspace r) (length rs) heads)"
  unfolding heads_exact_def
proof (intro conjI allI impI ballI)
  show "distinct (map fst (AList.update (cand_workspace r) (length rs) heads))"
    using assms(1) by (simp add: heads_exact_def distinct_update)
next
  fix w i
  assume i: "map_of (AList.update (cand_workspace r) (length rs) heads) w = Some i"
  show "is_head now (rs @ [r]) w i"
  proof (cases "w = cand_workspace r")
    case True
    with i have "i = length rs" by (simp add: update_conv')
    then show ?thesis using True assms(2) least by (auto simp: is_head_def)
  next
    case False
    with i have "is_head now rs w i" using assms(1) by (simp add: update_conv' heads_exact_def)
    then show ?thesis using False by (intro is_head_append) auto
  qed
next
  fix q
  assume "q \<in> set (rs @ [r])" "startable now q"
  then show "map_of (AList.update (cand_workspace r) (length rs) heads) (cand_workspace q) \<noteq> None"
    using assms(1) by (cases "q = r") (auto simp: update_conv' heads_exact_def)
qed

lemma heads_exact_keep:
  assumes "heads_exact now rs heads"
    and "startable now r \<Longrightarrow>
      \<exists>i. map_of heads (cand_workspace r) = Some i \<and> cand_sequence (rs ! i) \<le> cand_sequence r"
  shows "heads_exact now (rs @ [r]) heads"
  unfolding heads_exact_def
proof (intro conjI allI impI ballI)
  show "distinct (map fst heads)" using assms(1) by (simp add: heads_exact_def)
next
  fix w i
  assume i: "map_of heads w = Some i"
  then have "is_head now rs w i" using assms(1) by (simp add: heads_exact_def)
  then show "is_head now (rs @ [r]) w i" using assms(2) i by (intro is_head_append) auto
next
  fix q
  assume "q \<in> set (rs @ [r])" "startable now q"
  then show "map_of heads (cand_workspace q) \<noteq> None"
    using assms by (cases "q = r") (auto simp: heads_exact_def)
qed

lemma update_heads_exact:
  assumes "heads_exact now rs heads" "rows ! length rs = r" "\<And>i. i < length rs \<Longrightarrow> rows ! i = rs ! i"
  shows "heads_exact now (rs @ [r]) (update_heads rows now (length rs) heads)"
proof (cases "startable now r")
  case False
  then show ?thesis using heads_exact_keep [OF assms(1), of r] by (simp add: update_heads_def assms(2))
next
  case start: True
  let ?w = "cand_workspace r"
  show ?thesis
  proof (cases "map_of heads ?w")
    case None
    have "cand_workspace q \<noteq> ?w" if "q \<in> set rs" "startable now q" for q
      using assms(1) that None by (metis heads_exact_def)
    then have "heads_exact now (rs @ [r]) (AList.update ?w (length rs) heads)"
      by (intro heads_exact_update [OF assms(1) start]) simp
    then show ?thesis using start None by (simp add: update_heads_def assms(2))
  next
    case (Some i)
    have head: "is_head now rs ?w i" using assms(1) Some by (simp add: heads_exact_def)
    then have i: "rows ! i = rs ! i" by (simp add: is_head_def assms(3))
    show ?thesis
    proof (cases "cand_sequence r < cand_sequence (rs ! i)")
      case True
      have "cand_sequence r \<le> cand_sequence q"
        if "q \<in> set rs" "startable now q" "cand_workspace q = ?w" for q
        using head that True by (force simp: is_head_def)
      then have "heads_exact now (rs @ [r]) (AList.update ?w (length rs) heads)"
        by (rule heads_exact_update [OF assms(1) start])
      then show ?thesis using start Some True i by (simp add: update_heads_def assms(2))
    next
      case False
      then have "heads_exact now (rs @ [r]) heads"
        using Some by (intro heads_exact_keep [OF assms(1)]) simp
      then show ?thesis using start Some False i by (simp add: update_heads_def assms(2))
    qed
  qed
qed

lemma scan_row_exact:
  assumes "scan_exact now (take n rows) sc" "n < length rows" "scan_row rows now n sc = Some sc'"
  shows "scan_exact now (take (Suc n) rows) sc'"
proof -
  let ?r = "rows ! n"
  have t: "take (Suc n) rows = take n rows @ [?r]" "length (take n rows) = n"
    using assms(2) by (simp_all add: take_Suc_conv_app_nth)
  note sc = assms(1) [unfolded scan_exact_def]
  have ok: "\<not> row_invalid ?r" "\<not> resource_invalid ?r" "cand_sequence ?r \<notin> set (scan_seen sc)"
    and sc': "scan_seen sc' = cand_sequence ?r # scan_seen sc"
      "scan_view sc' = reserve now ?r
         (if is_live now ?r then (scan_view sc)\<lparr>live_workers := live_workers (scan_view sc) + 1\<rparr>
          else scan_view sc)"
      "scan_heads sc' = update_heads rows now n (scan_heads sc)"
    using assms(3) by (auto simp: scan_row_def Let_def split: if_splits)
  have "view_exact now (take n rows @ [?r]) (scan_view sc')"
    unfolding sc' using sc by (intro reserve_exact) simp
  moreover have "heads_exact now (take n rows @ [?r]) (scan_heads sc')"
    unfolding sc' using sc update_heads_exact [of now "take n rows" "scan_heads sc" rows ?r] t(2)
    by simp
  ultimately show ?thesis using sc ok by (auto simp: scan_exact_def t sc')
qed

lemma scan_rows_exact:
  assumes "scan_rows rows now [n..<length rows] sc = Some sc'" "n \<le> length rows"
    "scan_exact now (take n rows) sc"
  shows "scan_exact now rows sc'"
  using assms
proof (induction "length rows - n" arbitrary: n sc)
  case 0
  then show ?case by simp
next
  case (Suc k)
  then have n: "n < length rows" "[n..<length rows] = n # [Suc n..<length rows]"
    by (auto simp: upt_conv_Cons)
  then obtain sc1 where "scan_row rows now n sc = Some sc1"
      "scan_rows rows now [Suc n..<length rows] sc1 = Some sc'"
    using Suc.prems(1) by (auto split: option.splits)
  moreover have "k = length rows - Suc n" using Suc.hyps(2) by simp
  ultimately show ?case
    using Suc.hyps(1) n(1) scan_row_exact [OF Suc.prems(3) n(1)] by (simp add: Suc_le_eq)
qed

section \<open>What the choice guarantees\<close>

text \<open>A workspace whose head may start under the view of this scan.\<close>

definition head_eligible ::
  "candidate list \<Rightarrow> scheduler_settings \<Rightarrow> view \<Rightarrow> gotime \<Rightarrow> string \<Rightarrow> bool" where
  "head_eligible rows settings v now w \<longleftrightarrow>
     (\<exists>i. is_head now rows w i \<and> fst (head_reason (rows ! i) settings v now) = Eligible)"

text \<open>The cyclic successor of the cursor within a set of workspaces.\<close>

definition next_in_turn :: "string \<Rightarrow> string set \<Rightarrow> string \<Rightarrow> bool" where
  "next_in_turn cursor S w \<longleftrightarrow>
     w \<in> S \<and> (if \<exists>u\<in>S. cursor < u then cursor < w \<and> (\<forall>u\<in>S. cursor < u \<longrightarrow> w \<le> u)
              else (\<forall>u\<in>S. w \<le> u))"

lemma find_sorted_least:
  fixes xs :: "'a::linorder list"
  assumes "sorted xs" "find P xs = Some x"
  shows "x \<in> set xs" "P x" "\<And>y. y \<in> set xs \<Longrightarrow> P y \<Longrightarrow> x \<le> y"
  using assms
proof (induction xs)
  case (Cons a xs)
  { case 1 then show ?case using Cons.IH by (auto split: if_splits) }
  { case 2 then show ?case using Cons.IH by (auto split: if_splits) }
  { case (3 y) then show ?case using Cons.IH by (auto split: if_splits) }
qed simp_all

lemma next_workspace_in_turn:
  assumes "sorted spaces"
  shows "next_workspace cursor ok spaces = Some w \<Longrightarrow> next_in_turn cursor {u \<in> set spaces. ok u} w"
    and "next_workspace cursor ok spaces = None \<Longrightarrow> u \<in> set spaces \<Longrightarrow> \<not> ok u"
proof -
  show "next_in_turn cursor {u \<in> set spaces. ok u} w" if n: "next_workspace cursor ok spaces = Some w"
  proof (cases "find (\<lambda>w. cursor < w \<and> ok w) spaces")
    case None
    then have none: "\<not> (\<exists>u\<in>{u \<in> set spaces. ok u}. cursor < u)" by (auto simp: find_None_iff)
    have "find ok spaces = Some w" using n None by (simp add: next_workspace_def)
    from find_sorted_least [OF assms this] none show ?thesis by (simp add: next_in_turn_def)
  next
    case (Some x)
    then have "x = w" using n by (simp add: next_workspace_def)
    from find_sorted_least [OF assms Some] this show ?thesis by (auto simp: next_in_turn_def)
  qed
  show "\<not> ok u" if "next_workspace cursor ok spaces = None" "u \<in> set spaces"
    using that by (auto simp: next_workspace_def find_None_iff split: option.splits)
qed

lemma is_head_unique:
  assumes "distinct (map cand_sequence rows)" "is_head now rows w i" "is_head now rows w j"
  shows "i = j"
proof -
  have "cand_sequence (rows ! i) = cand_sequence (rows ! j)"
    using assms(2,3) by (intro order_antisym) (auto simp: is_head_def)
  moreover have "i < length rows" "j < length rows" using assms(2,3) by (simp_all add: is_head_def)
  ultimately have "map cand_sequence rows ! i = map cand_sequence rows ! j"
    "i < length (map cand_sequence rows)" "j < length (map cand_sequence rows)" by simp_all
  then show ?thesis using assms(1) nth_eq_iff_index_eq by blast
qed

lemma head_reason_view_heads [simp]:
  "head_reason r settings (v\<lparr>view_heads := hs\<rparr>) now = head_reason r settings v now"
  by (simp add: head_reason_def EffectiveLimits_def Let_def)

lemma view_exact_view_heads [simp]: "view_exact now rows (v\<lparr>view_heads := hs\<rparr>) = view_exact now rows v"
  by (simp add: view_exact_def)

lemma queue_reason_head_status [simp]:
  "queue_reason (head_status r settings v now) = fst (head_reason r settings v now)"
  by (simp add: head_status_def case_prod_unfold Let_def)

lemma empty_scan_exact:
  "scan_exact now [] \<lparr>scan_seen = [], scan_view = empty_view settings, scan_heads = []\<rparr>"
  by (simp add: scan_exact_def view_exact_def heads_exact_def empty_view_def)

lemma Select_scan:
  assumes "Select rows cursor settings now = Inr (i, v)"
  obtains sc where "scan_exact now rows sc" "settings_valid settings"
    "v = (scan_view sc)\<lparr>view_heads := map (\<lambda>w. head_status (rows ! the (map_of (scan_heads sc) w)) settings
       (scan_view sc) now) (sort (map fst (scan_heads sc)))\<rparr>"
    "i = (case next_workspace cursor (\<lambda>w. fst (head_reason (rows ! the (map_of (scan_heads sc) w)) settings
       v now) = Eligible) (sort (map fst (scan_heads sc))) of
         Some w \<Rightarrow> int (the (map_of (scan_heads sc) w)) | None \<Rightarrow> - 1)"
proof -
  obtain sc where sc: "scan_rows rows now [0..<length rows]
      \<lparr>scan_seen = [], scan_view = empty_view settings, scan_heads = []\<rparr> = Some sc"
    using assms by (auto simp: Select_def split: if_splits option.splits)
  have "scan_exact now rows sc"
    using scan_rows_exact [OF sc] empty_scan_exact by simp
  moreover have "settings_valid settings" using assms by (simp add: Select_def split: if_splits)
  moreover have "Inr (i, v) = (Inr
      (case next_workspace cursor (\<lambda>w. fst (head_reason (rows ! the (map_of (scan_heads sc) w)) settings
         (scan_view sc) now) = Eligible) (sort (map fst (scan_heads sc))) of
         Some w \<Rightarrow> int (the (map_of (scan_heads sc) w)) | None \<Rightarrow> - 1,
       (scan_view sc)\<lparr>view_heads := map (\<lambda>w. head_status (rows ! the (map_of (scan_heads sc) w)) settings
         (scan_view sc) now) (sort (map fst (scan_heads sc)))\<rparr>) :: scheduler_error + int \<times> view)"
    using assms by (simp add: Select_def sc Let_def split: if_splits)
  ultimately show ?thesis by (intro that [of sc]) simp_all
qed

lemma Select_spec:
  assumes "Select rows cursor settings now = Inr (i, v)"
  shows "settings_valid settings" "view_exact now rows v"
    "i = - 1 \<and> (\<forall>w. \<not> head_eligible rows settings v now w)
     \<or> 0 \<le> i \<and> is_head now rows (cand_workspace (rows ! nat i)) (nat i)
       \<and> fst (head_reason (rows ! nat i) settings v now) = Eligible
       \<and> next_in_turn cursor {w. head_eligible rows settings v now w} (cand_workspace (rows ! nat i))"
proof -
  obtain sc where sc: "scan_exact now rows sc" "settings_valid settings"
    "v = (scan_view sc)\<lparr>view_heads := map (\<lambda>w. head_status (rows ! the (map_of (scan_heads sc) w)) settings
       (scan_view sc) now) (sort (map fst (scan_heads sc)))\<rparr>"
    "i = (case next_workspace cursor (\<lambda>w. fst (head_reason (rows ! the (map_of (scan_heads sc) w)) settings
       v now) = Eligible) (sort (map fst (scan_heads sc))) of
         Some w \<Rightarrow> int (the (map_of (scan_heads sc) w)) | None \<Rightarrow> - 1)"
    using Select_scan [OF assms] .
  let ?spaces = "sort (map fst (scan_heads sc))" and ?at = "\<lambda>w. the (map_of (scan_heads sc) w)"
  let ?ok = "\<lambda>w. fst (head_reason (rows ! ?at w) settings v now) = Eligible"
  have exact: "distinct (map cand_sequence rows)" "heads_exact now rows (scan_heads sc)"
    using sc(1) by (simp_all add: scan_exact_def)
  have at: "is_head now rows w (?at w)" if w: "w \<in> set ?spaces" for w
  proof -
    obtain j where "map_of (scan_heads sc) w = Some j" using w weak_map_of_SomeI by fastforce
    then show ?thesis using exact(2) by (simp add: heads_exact_def)
  qed
  have mem: "w \<in> set ?spaces" if h: "is_head now rows w j" for w j
  proof -
    have "map_of (scan_heads sc) w \<noteq> None"
      using h exact(2) by (metis heads_exact_def is_head_def nth_mem)
    then show ?thesis by (simp add: map_of_eq_None_iff)
  qed
  have ok_iff: "{u \<in> set ?spaces. ?ok u} = {w. head_eligible rows settings v now w}"
  proof (intro set_eqI iffI)
    fix w
    assume "w \<in> {u \<in> set ?spaces. ?ok u}"
    then show "w \<in> {w. head_eligible rows settings v now w}" using at by (auto simp: head_eligible_def)
  next
    fix w
    assume "w \<in> {w. head_eligible rows settings v now w}"
    then obtain j where j: "is_head now rows w j" "fst (head_reason (rows ! j) settings v now) = Eligible"
      by (auto simp: head_eligible_def)
    have w: "w \<in> set ?spaces" using j(1) by (rule mem)
    have "?at w = j" using at [OF w] j(1) by (rule is_head_unique [OF exact(1)])
    then show "w \<in> {u \<in> set ?spaces. ?ok u}" using w j(2) by simp
  qed
  show "settings_valid settings" by (rule sc(2))
  show "view_exact now rows v" using sc(1,3) by (simp add: scan_exact_def)
  show "i = - 1 \<and> (\<forall>w. \<not> head_eligible rows settings v now w)
     \<or> 0 \<le> i \<and> is_head now rows (cand_workspace (rows ! nat i)) (nat i)
       \<and> fst (head_reason (rows ! nat i) settings v now) = Eligible
       \<and> next_in_turn cursor {w. head_eligible rows settings v now w} (cand_workspace (rows ! nat i))"
  proof (cases "next_workspace cursor ?ok ?spaces")
    case None
    then have "i = - 1" using sc(4) by simp
    moreover have "{u \<in> set ?spaces. ?ok u} = {}"
      using next_workspace_in_turn(2) [OF _ None] by simp
    then have "{w. head_eligible rows settings v now w} = {}" by (simp only: ok_iff)
    ultimately show ?thesis by simp
  next
    case (Some w)
    then have i: "i = int (?at w)" using sc(4) by simp
    have turn: "next_in_turn cursor {u \<in> set ?spaces. ?ok u} w"
      using next_workspace_in_turn(1) [OF _ Some] by simp
    then have w: "w \<in> set ?spaces" "?ok w" by (simp_all add: next_in_turn_def)
    have "cand_workspace (rows ! ?at w) = w" using at [OF w(1)] by (simp add: is_head_def)
    then show ?thesis using i w at [OF w(1)] turn ok_iff by simp
  qed
qed

subsection \<open>Capacity\<close>

lemma local_only_holds_nothing: "LocalOnly s \<Longrightarrow> \<not> HoldsAccount s False"
  by (auto simp: LocalOnly_def HoldsAccount_def)

lemma startable_holds_nothing: "startable now r \<Longrightarrow> \<not> HoldsCapacity r now"
  by (auto simp: startable_def HoldsCapacity_def local_only_holds_nothing)

lemma length_filter_update:
  assumes "i < length xs" "\<not> P (xs ! i)" "P y"
  shows "length (filter P (xs[i := y])) = Suc (length (filter P xs))"
  using assms by (subst id_take_nth_drop [OF assms(1)]) (simp add: upd_conv_take_nth_drop)

text \<open>A claim gives the selected row a lease.\<close>

definition claim_row :: "candidate list \<Rightarrow> nat \<Rightarrow> gotime \<Rightarrow> candidate list" where
  "claim_row rows i until = rows[i := (rows ! i)\<lparr>cand_lease_until := until\<rparr>]"

lemma claimed_holds:
  assumes "startable now r" "after until now"
  shows "HoldsCapacity (r\<lparr>cand_lease_until := until\<rparr>) now"
  using assms by (simp add: HoldsCapacity_def startable_def)

lemma head_reason_Eligible:
  assumes "fst (head_reason r settings v now) = Eligible"
  shows "cand_authorized r" "\<not> paused settings" "cand_workspace_enabled r"
    "\<not> policy_disabled (cand_policy r)" "\<not> after (cand_not_before r) now"
    "cand_resource_kind r \<noteq> [] \<Longrightarrow> cand_resource_scope r \<noteq> []"
    "live_workers v < max_workers settings"
    "lookup_count (account_reservations v) (cand_account r) < fst (EffectiveLimits r settings v)"
    "cand_resource_scope r \<noteq> [] \<Longrightarrow>
       lookup_count (resource_reservations v) (cand_resource_scope r) < snd (EffectiveLimits r settings v)"
    "fst (Decide (cand_quota r) (cand_resource r) (cand_wall_seconds r)
       (policy_strict_quota (cand_policy r)) (quota_fresh_for settings) now) = Eligible"
  using assms by (auto simp: head_reason_def case_prod_unfold Let_def split: if_splits)

lemma least_of_le:
  assumes "least_of m hold key val rs" "r \<in> set rs" "hold r"
  shows "\<exists>n. m (key r) = Some n \<and> n \<le> val r"
proof -
  have "val r \<in> val ` {q \<in> set rs. hold q \<and> key q = key r}" using assms(2,3) by simp
  then show ?thesis
    using assms(1) [unfolded least_of_def, THEN spec, of "key r"]
    by (auto simp: least_at_def split: option.splits)
qed

text \<open>What a limit derived from a scan bounds: the claim of one more row keeps every holder's limit.\<close>

lemma one_more_within:
  assumes "counts m hold key rows" "least_of lims hold key val rows"
    and "lookup_count m (key r) < (case lims (key r) of Some a \<Rightarrow> min (min cap (val r)) a | None \<Rightarrow> min cap (val r))"
    and "i < length rows" "rows ! i = r" "\<not> hold r"
    and "hold r'" "key r' = key r" "val r' = val r"
    and "q \<in> set (rows[i := r'])" "hold q" "key q = key r"
  shows "int (length (filter (\<lambda>q. hold q \<and> key q = key r) (rows[i := r']))) \<le> min cap (val q)"
proof -
  have n: "int (length (filter (\<lambda>q. hold q \<and> key q = key r) (rows[i := r'])))
      = lookup_count m (key r) + 1"
    using assms(1,4-8) by (subst length_filter_update) (auto simp: counts_def)
  have top: "lookup_count m (key r) < min cap (val r)"
    using assms(3) by (auto split: option.splits)
  show ?thesis
  proof (cases "q = r'")
    case True
    then show ?thesis using n top assms(9) by simp
  next
    case False
    then have "q \<in> set rows" using assms(10) by (metis insertE set_update_subset_insert subsetD)
    then obtain a where "lims (key r) = Some a" "a \<le> val q"
      using least_of_le [OF assms(2) _ assms(11)] assms(12) by auto
    then show ?thesis using n assms(3) by simp
  qed
qed

lemma claim_within_account:
  assumes sel: "Select rows cursor settings now = Inr (i, v)" "0 \<le> i" "after until now"
    and q: "q \<in> set (claim_row rows (nat i) until)" "HoldsCapacity q now"
      "cand_account q = cand_account (rows ! nat i)"
  shows "int (length (filter (\<lambda>q. HoldsCapacity q now \<and> cand_account q = cand_account (rows ! nat i))
      (claim_row rows (nat i) until))) \<le> min (max_active_per_account settings) (policy_max_active (cand_policy q))"
proof -
  let ?r = "rows ! nat i"
  note spec = Select_spec [OF sel(1)]
  have head: "is_head now rows (cand_workspace ?r) (nat i)"
    "fst (head_reason ?r settings v now) = Eligible" using spec(3) sel(2) by auto
  then have st: "startable now ?r" "nat i < length rows" by (simp_all add: is_head_def)
  note v = spec(2) [unfolded view_exact_def]
  have lim: "lookup_count (account_reservations v) (cand_account ?r)
      < (case active_account_limits v (cand_account ?r) of
          Some a \<Rightarrow> min (min (max_active_per_account settings) (policy_max_active (cand_policy ?r))) a
        | None \<Rightarrow> min (max_active_per_account settings) (policy_max_active (cand_policy ?r)))"
    using head_reason_Eligible(8) [OF head(2)] by (simp add: EffectiveLimits_def Let_def)
  show ?thesis unfolding claim_row_def
    by (rule one_more_within [where hold = "\<lambda>q. HoldsCapacity q now" and key = cand_account
          and val = "\<lambda>q. policy_max_active (cand_policy q)" and r = ?r and rows = rows
          and i = "nat i" and m = "account_reservations v" and lims = "active_account_limits v",
          OF _ _ lim st(2) refl startable_holds_nothing [OF st(1)] claimed_holds [OF st(1) sel(3)]])
      (use v q in \<open>simp_all add: claim_row_def\<close>)
qed

lemma claim_within_resource:
  assumes sel: "Select rows cursor settings now = Inr (i, v)" "0 \<le> i" "after until now"
    and q: "q \<in> set (claim_row rows (nat i) until)" "holds_resource now q"
      "cand_resource_scope q = cand_resource_scope (rows ! nat i)"
    and scoped: "cand_resource_kind (rows ! nat i) \<noteq> []"
  shows "int (length (filter (\<lambda>q. holds_resource now q
        \<and> cand_resource_scope q = cand_resource_scope (rows ! nat i))
      (claim_row rows (nat i) until))) \<le> min (max_active_per_account settings) (cand_resource_max_active q)"
proof -
  let ?r = "rows ! nat i"
  note spec = Select_spec [OF sel(1)]
  have head: "is_head now rows (cand_workspace ?r) (nat i)"
    "fst (head_reason ?r settings v now) = Eligible" using spec(3) sel(2) by auto
  then have st: "startable now ?r" "nat i < length rows" by (simp_all add: is_head_def)
  note v = spec(2) [unfolded view_exact_def]
  have scope: "cand_resource_scope ?r \<noteq> []" using head_reason_Eligible(6) [OF head(2)] scoped by simp
  have lim: "lookup_count (resource_reservations v) (cand_resource_scope ?r)
      < (case active_resource_limits v (cand_resource_scope ?r) of
          Some a \<Rightarrow> min (min (max_active_per_account settings) (cand_resource_max_active ?r)) a
        | None \<Rightarrow> min (max_active_per_account settings) (cand_resource_max_active ?r))"
    using head_reason_Eligible(9) [OF head(2) scope] by (simp add: EffectiveLimits_def Let_def)
  have idle: "\<not> holds_resource now ?r"
    using startable_holds_nothing [OF st(1)] by (simp add: holds_resource_def)
  have busy: "holds_resource now (?r\<lparr>cand_lease_until := until\<rparr>)"
    using claimed_holds [OF st(1) sel(3)] scoped scope by (simp add: holds_resource_def)
  show ?thesis unfolding claim_row_def
    by (rule one_more_within [where hold = "holds_resource now" and key = cand_resource_scope
          and val = cand_resource_max_active and r = ?r and rows = rows
          and i = "nat i" and m = "resource_reservations v" and lims = "active_resource_limits v", OF _ _ lim st(2) refl idle busy])
      (use v q in \<open>simp_all add: claim_row_def\<close>)
qed

lemma claim_within_workers:
  assumes "Select rows cursor settings now = Inr (i, v)" "0 \<le> i" "after until now"
  shows "int (length (filter (is_live now) (claim_row rows (nat i) until))) \<le> max_workers settings"
proof -
  let ?r = "rows ! nat i"
  note spec = Select_spec [OF assms(1)]
  have head: "is_head now rows (cand_workspace ?r) (nat i)"
    "fst (head_reason ?r settings v now) = Eligible" using spec(3) assms(2) by auto
  then have st: "\<not> is_live now ?r" "nat i < length rows" by (simp_all add: is_head_def startable_def)
  have "length (filter (is_live now) (claim_row rows (nat i) until)) = Suc (length (filter (is_live now) rows))"
    unfolding claim_row_def using st assms(3) by (intro length_filter_update) simp_all
  moreover have "live_workers v < max_workers settings" by (rule head_reason_Eligible(7) [OF head(2)])
  ultimately show ?thesis using spec(2) by (simp add: view_exact_def)
qed


subsection \<open>Fairness\<close>

text \<open>The workspaces that can still be served before \<open>w\<close> when the cursor stands at \<open>c\<close>.\<close>

definition ahead :: "string set \<Rightarrow> string \<Rightarrow> string \<Rightarrow> string set" where
  "ahead W w c = {u \<in> W. if c < w then c < u \<and> u < w else c < u \<or> u < w}"

lemma ahead_shrinks:
  assumes "next_in_turn c S u" "w \<in> S" "S \<subseteq> W" "u \<noteq> w"
  shows "ahead W w u \<subset> ahead W w c"
proof -
  have u: "u \<in> W" using assms(1,3) by (auto simp: next_in_turn_def)
  consider (later) "c < w" "c < u" "u < w" | (beyond) "w \<le> c" "c < u" | (wrapped) "w \<le> c" "u < w"
    using assms unfolding next_in_turn_def by (metis leI order_le_less)
  then have "u \<in> ahead W w c \<and> ahead W w u \<subseteq> ahead W w c"
    using u by cases (auto simp: ahead_def)
  moreover have "u \<notin> ahead W w u" by (auto simp: ahead_def)
  ultimately show ?thesis by blast
qed

lemma ahead_finite: "finite W \<Longrightarrow> finite (ahead W w c)"
  by (simp add: ahead_def)

lemma ahead_card: "finite W \<Longrightarrow> w \<in> W \<Longrightarrow> card (ahead W w c) < card W"
  by (intro psubset_card_mono) (auto simp: ahead_def)

lemma served_in_turn:
  assumes "finite W" "w \<in> W"
    and turn: "\<And>k. k < card W \<Longrightarrow> next_in_turn (c k) (S k) (chosen k)"
    and step: "\<And>k. Suc k < card W \<Longrightarrow> c (Suc k) = chosen k"
    and S: "\<And>k. k < card W \<Longrightarrow> w \<in> S k \<and> S k \<subseteq> W"
  shows "\<exists>k<card W. chosen k = w"
proof (rule ccontr)
  assume "\<not> ?thesis"
  then have never: "\<And>k. k < card W \<Longrightarrow> chosen k \<noteq> w" by blast
  have waits: "k < card W \<Longrightarrow> card (ahead W w (c k)) + k < card W" for k
  proof (induction k)
    case 0
    then show ?case using ahead_card [OF assms(1,2)] by simp
  next
    case (Suc k)
    then have k: "k < card W" by simp
    have "card (ahead W w (chosen k)) < card (ahead W w (c k))"
      by (rule psubset_card_mono [OF ahead_finite [OF assms(1)]
            ahead_shrinks [OF turn [OF k] _ _ never [OF k]]]) (simp_all add: S [OF k])
    then show ?case using Suc.IH [OF k] step [OF Suc.prems] by simp
  qed
  have "card W \<noteq> 0" using assms(1,2) by auto
  then have last: "card W - 1 < card W" by simp
  have "card (ahead W w (c (card W - 1))) + (card W - 1) < card W" by (rule waits [OF last])
  then have "card (ahead W w (c (card W - 1))) = 0" by linarith
  then have "ahead W w (c (card W - 1)) = {}" using ahead_finite [OF assms(1)] by simp
  moreover have "ahead W w (chosen (card W - 1)) \<subset> ahead W w (c (card W - 1))"
    by (rule ahead_shrinks [OF turn [OF last] _ _ never [OF last]]) (use S [OF last] in simp_all)
  ultimately show False by simp
qed

section \<open>Properties\<close>

text \<open>Two workspaces with one startable attempt each.\<close>

definition sample_now :: gotime where
  "sample_now = \<lparr>unix_ns = 1700000000 * second_ns, zone_min = 0\<rparr>"

definition sample_candidate :: "string \<Rightarrow> int \<Rightarrow> candidate" where
  "sample_candidate w n =
     \<lparr>cand_identity = \<lparr>sid_workspace = w, sid_job = ''job'', sid_attempt = ''att''\<rparr>, cand_sequence = n,
      cand_state = InitialAttemptState, cand_active_attempt = True, cand_workspace_enabled = True,
      cand_account = ''acct'', cand_instance = ''inst'',
      cand_policy = \<lparr>policy_disabled = False, policy_max_active = 1, policy_strict_quota = False\<rparr>,
      cand_resource = ''cpu'', cand_wall_seconds = 60, cand_barrier = False,
      cand_lease_until = zero_time, cand_not_before = zero_time,
      cand_quota = \<lparr>quota_observed = None, quota_exhausted = False\<rparr>, cand_resource_kind = [],
      cand_resource_scope = [], cand_resource_max_active = 0, cand_authorized = True\<rparr>"

lemma sample_clock: "year sample_now = 2023" "ValidTime sample_now" "\<not> after zero_time sample_now"
    "is_zero zero_time"
proof -
  have "year sample_now = 2023" by code_simp
  then show "year sample_now = 2023" "ValidTime sample_now"
    by (simp_all add: ValidTime_def is_zero_def sample_now_def zero_time_def)
  show "\<not> after zero_time sample_now" "is_zero zero_time"
    by (simp_all add: after_def zero_time_def sample_now_def is_zero_def)
qed

lemma sample_settings_valid: "settings_valid DefaultSettings"
  by (simp add: settings_valid_def DefaultSettings_def)

lemma sample_workspace_ids:
  "validOpaqueID ''wa''" "validOpaqueID ''wb''" "validOpaqueID ''job''" "validOpaqueID ''att''"
  "validOpaqueID ''acct''" "validOpaqueID ''inst''" "''wa'' < (''wb'' :: string)" "[] < (''wa'' :: string)"
  by code_simp+

lemma sample_local_only: "LocalOnly InitialAttemptState"
  unfolding LocalOnly_def by (simp, simp add: InitialAttemptState_def)

lemma sample_row_ok:
  "w \<in> {''wa'', ''wb''} \<Longrightarrow> 0 < n \<Longrightarrow> \<not> row_invalid (sample_candidate w n)"
  "\<not> resource_invalid (sample_candidate w n)" "startable sample_now (sample_candidate w n)"
  "\<not> HoldsCapacity (sample_candidate w n) sample_now"
proof -
  show st: "startable sample_now (sample_candidate w n)"
    by (simp add: startable_def sample_candidate_def sample_clock sample_local_only)
  show "\<not> HoldsCapacity (sample_candidate w n) sample_now" by (rule startable_holds_nothing [OF st])
  show "\<not> resource_invalid (sample_candidate w n)" by (simp add: resource_invalid_def sample_candidate_def)
  show "\<not> row_invalid (sample_candidate w n)" if "w \<in> {''wa'', ''wb''}" "0 < n"
    using that by (auto simp: row_invalid_def sample_candidate_def scheduler_identity_valid_def
        sample_workspace_ids policy_valid_def MaxRemoteWallSeconds_def sample_clock)
qed

lemma sample_fields [simp]:
  "cand_sequence (sample_candidate w n) = n" "cand_workspace (sample_candidate w n) = w"
  "cand_lease_until (sample_candidate w n) = zero_time"
  by (simp_all add: sample_candidate_def)

lemma sample_head_reason:
  "fst (head_reason (sample_candidate w n) DefaultSettings (empty_view DefaultSettings) sample_now) = Eligible"
  by (simp add: head_reason_def EffectiveLimits_def sample_candidate_def DefaultSettings_def empty_view_def
      sample_clock lookup_count_def Decide_def)

definition sample_rows :: "candidate list" where
  "sample_rows = [sample_candidate ''wa'' 7, sample_candidate ''wb'' 5]"

lemma sample_scan:
  "scan_rows sample_rows sample_now [0..<length sample_rows]
     \<lparr>scan_seen = [], scan_view = empty_view DefaultSettings, scan_heads = []\<rparr>
   = Some \<lparr>scan_seen = [5, 7], scan_view = empty_view DefaultSettings, scan_heads = [(''wa'', 0), (''wb'', 1)]\<rparr>"
  by (simp add: sample_rows_def upt_rec scan_row_def Let_def sample_row_ok update_heads_def reserve_def
      sample_clock)

lemma sample_select:
  assumes "cursor = [] \<or> cursor = ''wa'' \<or> cursor = ''wb''"
  shows "\<exists>v. Select sample_rows cursor DefaultSettings sample_now
      = Inr (if cursor = ''wa'' then 1 else 0, v)
    \<and> (\<forall>w\<in>{''wa'', ''wb''}. head_eligible sample_rows DefaultSettings v sample_now w)"
proof -
  let ?st = "\<lambda>r. head_status r DefaultSettings (empty_view DefaultSettings) sample_now"
  define v where "v = (empty_view DefaultSettings)\<lparr>view_heads :=
    [?st (sample_candidate ''wa'' 7), ?st (sample_candidate ''wb'' 5)]\<rparr>"
  have ids: "cursor = [] \<or> validOpaqueID cursor" using assms sample_workspace_ids by auto
  have small: "\<not> length sample_rows > ScanLimit" by (simp add: sample_rows_def ScanLimit_def)
  have sorted: "sort [''wa'', ''wb''] = [''wa'', ''wb'' :: string]" using sample_workspace_ids(7) by simp
  have rows: "sample_rows ! 0 = sample_candidate ''wa'' 7" "sample_rows ! Suc 0 = sample_candidate ''wb'' 5"
    by (simp_all add: sample_rows_def)
  have sel: "Select sample_rows cursor DefaultSettings sample_now = Inr (if cursor = ''wa'' then 1 else 0, v)"
    using assms ids small sample_workspace_ids(7,8)
    by (auto simp: Select_def sample_settings_valid sample_clock sample_scan sorted next_workspace_def
        rows sample_head_reason v_def Let_def)
  have "is_head sample_now sample_rows ''wa'' 0" "is_head sample_now sample_rows ''wb'' (Suc 0)"
    by (auto simp: is_head_def sample_rows_def sample_row_ok)
  then have "head_eligible sample_rows DefaultSettings v sample_now w" if "w \<in> {''wa'', ''wb''}" for w
    using that rows sample_head_reason unfolding head_eligible_def by (auto simp: v_def)
  with sel show ?thesis by blast
qed

text \<open>C17. A scan returns either no row, and then no workspace has a head that may start, or the head of the
  workspace next in turn after the cursor among the workspaces with an eligible head. A head is the startable
  attempt of its workspace with the least sequence number: an attempt that waits is never overtaken within its
  workspace. The reservation counts, limits and unresolved kinds of the view are exact for the rows.
\<close>

theorem select_oldest_in_turn:
  assumes "Select rows cursor settings now = Inr (i, v)"
  shows "view_exact now rows v
    \<and> (i = - 1 \<and> (\<forall>w. \<not> head_eligible rows settings v now w)
     \<or> 0 \<le> i \<and> is_head now rows (cand_workspace (rows ! nat i)) (nat i)
       \<and> fst (head_reason (rows ! nat i) settings v now) = Eligible
       \<and> next_in_turn cursor {w. head_eligible rows settings v now w} (cand_workspace (rows ! nat i)))"
  by (intro conjI Select_spec(2,3) [OF assms])

theorem select_oldest_in_turn_witness:
  "\<exists>v. Select sample_rows ''wa'' DefaultSettings sample_now = Inr (1, v)
     \<and> view_exact sample_now sample_rows v \<and> is_head sample_now sample_rows ''wb'' 1"
proof -
  obtain v where v: "Select sample_rows ''wa'' DefaultSettings sample_now = Inr (1, v)"
    using sample_select [of "''wa''"] by auto
  from select_oldest_in_turn [OF v] v show ?thesis by (auto simp: sample_rows_def)
qed

text \<open>C18. Claiming the selected row keeps every capacity: with the new lease, the attempts that hold its
  account number at most the limit of the settings and of the policy of every one of them; the attempts that
  hold its resource scope likewise; and the live workers number at most the configured workers.
\<close>

theorem claim_within_capacity:
  assumes "Select rows cursor settings now = Inr (i, v)" "0 \<le> i" "after until now"
    and "rows' = claim_row rows (nat i) until" "r = rows ! nat i"
  shows "(\<forall>q\<in>set rows'. HoldsCapacity q now \<longrightarrow> cand_account q = cand_account r \<longrightarrow>
       int (length (filter (\<lambda>q. HoldsCapacity q now \<and> cand_account q = cand_account r) rows'))
         \<le> min (max_active_per_account settings) (policy_max_active (cand_policy q)))
    \<and> (\<forall>q\<in>set rows'. holds_resource now q \<longrightarrow> cand_resource_scope q = cand_resource_scope r \<longrightarrow>
         cand_resource_kind r \<noteq> [] \<longrightarrow>
       int (length (filter (\<lambda>q. holds_resource now q \<and> cand_resource_scope q = cand_resource_scope r) rows'))
         \<le> min (max_active_per_account settings) (cand_resource_max_active q))
    \<and> int (length (filter (is_live now) rows')) \<le> max_workers settings"
  unfolding assms(4,5)
  by (intro conjI ballI impI claim_within_account [OF assms(1-3)] claim_within_resource [OF assms(1-3)]
      claim_within_workers [OF assms(1-3)])

theorem claim_within_capacity_witness:
  "int (length (filter (is_live sample_now) (claim_row sample_rows 0 (add_time sample_now second_ns))))
     \<le> max_workers DefaultSettings"
proof -
  obtain v where v: "Select sample_rows [] DefaultSettings sample_now = Inr (0, v)"
    using sample_select [of "[]"] by auto
  have "after (add_time sample_now second_ns) sample_now" by (simp add: after_def add_time_def)
  from claim_within_capacity [OF v _ this] show ?thesis by simp
qed

text \<open>C19. No eligible workspace starves. Take consecutive scans over any rows and settings whose workspaces lie in
  a finite set, where every claim moves the cursor to the workspace it served. If the head of a workspace is
  eligible in each of them, the workspace is served before there have been as many scans as workspaces.
\<close>

theorem eligible_workspace_served:
  assumes "finite W" "w \<in> W"
    and sel: "\<And>k. k < card W \<Longrightarrow> Select (rows k) (cursor k) (settings k) (now k) = Inr (i k, v k)"
    and moved: "\<And>k. Suc k < card W \<Longrightarrow> cursor (Suc k) = cand_workspace (rows k ! nat (i k))"
    and within: "\<And>k. k < card W \<Longrightarrow> cand_workspace ` set (rows k) \<subseteq> W"
    and able: "\<And>k. k < card W \<Longrightarrow> head_eligible (rows k) (settings k) (v k) (now k) w"
  shows "\<exists>k<card W. 0 \<le> i k \<and> cand_workspace (rows k ! nat (i k)) = w"
proof -
  let ?S = "\<lambda>k. {u. head_eligible (rows k) (settings k) (v k) (now k) u}"
  have turn: "0 \<le> i k \<and> next_in_turn (cursor k) (?S k) (cand_workspace (rows k ! nat (i k)))"
    if "k < card W" for k
    using Select_spec(3) [OF sel [OF that]] able [OF that] by blast
  have inside: "w \<in> ?S k \<and> ?S k \<subseteq> W" if k: "k < card W" for k
    using able [OF k] within [OF k] by (auto simp: head_eligible_def is_head_def)
  have "\<exists>k<card W. cand_workspace (rows k ! nat (i k)) = w"
    by (rule served_in_turn [OF assms(1,2), of cursor ?S]) (use turn moved inside in blast)+
  then show ?thesis using turn by blast
qed

theorem eligible_workspace_served_witness:
  "\<exists>k<card {''wa'', ''wb''}. cand_workspace (sample_rows ! (if even k then 0 else 1)) = ''wb''"
proof -
  define cursor where "cursor = (\<lambda>k :: nat. if k = 0 then [] else if even k then ''wb'' else ''wa'')"
  have c: "cursor k = [] \<or> cursor k = ''wa'' \<or> cursor k = ''wb''" for k by (simp add: cursor_def)
  have "\<forall>k. \<exists>v. Select sample_rows (cursor k) DefaultSettings sample_now
      = Inr (if cursor k = ''wa'' then 1 else 0, v)
      \<and> head_eligible sample_rows DefaultSettings v sample_now ''wb''"
    using sample_select [OF c] by blast
  then obtain v where "\<forall>k. Select sample_rows (cursor k) DefaultSettings sample_now
      = Inr (if cursor k = ''wa'' then 1 else 0, v k)
      \<and> head_eligible sample_rows DefaultSettings (v k) sample_now ''wb''"
    by (rule choice [THEN exE])
  then have v: "\<And>k. Select sample_rows (cursor k) DefaultSettings sample_now
      = Inr (if cursor k = ''wa'' then 1 else 0, v k)"
    "\<And>k. head_eligible sample_rows DefaultSettings (v k) sample_now ''wb''" by simp_all
  have i: "(if cursor k = ''wa'' then 1 else 0) = (if even k then 0 else 1 :: int)" for k
    by (simp add: cursor_def)
  have sel: "Select sample_rows (cursor k) DefaultSettings sample_now = Inr (if even k then 0 else 1, v k)" for k
    using v(1) [of k] i [of k] by simp
  have moved: "cursor (Suc k) = cand_workspace (sample_rows ! nat (if even k then 0 else 1))" for k
    by (cases "even k") (simp_all add: cursor_def sample_rows_def)
  have within: "cand_workspace ` set sample_rows \<subseteq> {''wa'', ''wb''}" by (simp add: sample_rows_def)
  have "\<exists>k<card {''wa'', ''wb''}. 0 \<le> (if even k then 0 else 1 :: int)
      \<and> cand_workspace (sample_rows ! nat (if even k then 0 else 1)) = ''wb''"
    by (rule eligible_workspace_served [where cursor = cursor, OF _ _ sel moved within v(2)]) simp_all
  then show ?thesis by (auto split: if_splits)
qed

text \<open>The allowances in seconds that a quota observation leaves possible: the reported value if it is exact,
  anything from the reported value up if it is a lower bound, and any allowance at all if no usable value is
  reported or its precision is something else.\<close>

definition possible_allowance :: "quota_observation \<Rightarrow> rat set" where
  "possible_allowance ob =
     (case Seconds ob of
        (Finite s, True) \<Rightarrow>
          if quota_precision ob = ''exact'' then {s}
          else if quota_precision ob = ''lower_bound'' then {s..} else {0..}
      | _ \<Rightarrow> {0..})"

lemma Seconds_usable: "Seconds ob = (v, True) \<Longrightarrow> \<exists>s. v = Finite s \<and> 0 \<le> s"
  by (auto simp: Seconds_def f64_is_finite_iff f64_negative_def Let_def split: option.splits if_splits)

lemma allowance_covers:
  assumes "0 < wall" "wall < 2 ^ 53"
  shows "(\<forall>r \<in> possible_allowance ob. of_int wall \<le> r) \<longleftrightarrow>
    (\<exists>v. Seconds ob = (v, True) \<and> quota_precision ob \<in> {''exact'', ''lower_bound''}
      \<and> \<not> f64_less v (f64_of_int wall))"
proof (cases "snd (Seconds ob)")
  case True
  then obtain v where v: "Seconds ob = (v, True)" by (cases "Seconds ob") simp
  then obtain s where s: "v = Finite s" "0 \<le> s" using Seconds_usable by blast
  have low: "\<not> (\<forall>r \<in> {0..}. of_int wall \<le> (r :: rat))"
  proof
    assume "\<forall>r \<in> {0..}. of_int wall \<le> (r :: rat)"
    then have "of_int wall \<le> (0 :: rat)" by (rule bspec) simp
    then show False using assms(1) by simp
  qed
  show ?thesis
    using v s low f64_of_int_exact [OF assms] by (auto simp: possible_allowance_def not_less)
next
  case False
  then obtain v where v: "Seconds ob = (v, False)" by (cases "Seconds ob") simp
  then have "(0 :: rat) \<in> possible_allowance ob" by (auto simp: possible_allowance_def split: float64.splits)
  then show ?thesis using v assms(1) by force
qed

lemma strict_eligible:
  "fst (Decide q resource wall True fresh now) = Eligible \<longleftrightarrow>
     \<not> quota_exhausted q
     \<and> (\<exists>ob s. quota_observed q = Some ob \<and> quota_validate ob = None \<and> quota_status ob = QuotaKnown
         \<and> quota_resource ob = resource \<and> \<not> after (quota_at ob) now \<and> sub_time now (quota_at ob) < fresh
         \<and> quota_precision ob \<in> {''exact'', ''lower_bound''}
         \<and> Seconds ob = (s, True) \<and> \<not> f64_is_zero s \<and> \<not> f64_less s (f64_of_int wall))"
proof (cases "quota_exhausted q \<or> quota_observed q = None")
  case True
  then show ?thesis by (auto simp: Decide_def)
next
  case False
  then obtain ob where ob: "quota_observed q = Some ob" "\<not> quota_exhausted q" by auto
  have zero: "quota_validate ob = None \<Longrightarrow> quota_status ob = QuotaKnown \<Longrightarrow> \<not> is_zero (quota_at ob)"
    by (simp add: quota_validate_def)
  obtain s b where sec: "Seconds ob = (s, b)" by fastforce
  show ?thesis using zero
    by (cases "quota_status ob")
      (simp_all add: Decide_def ob decide_observation_def decide_known_def sec not_le, blast)
qed

lemma decided_reasons:
  "(case quota_observed q of None \<Rightarrow> Inr QuotaUnknownReason
      | Some ob \<Rightarrow> decide_observation ob resource wall fresh now) = Inl r \<Longrightarrow>
     r \<in> {Eligible, QuotaExhausted, QuotaInsufficient}"
  "(case quota_observed q of None \<Rightarrow> Inr QuotaUnknownReason
      | Some ob \<Rightarrow> decide_observation ob resource wall fresh now) = Inr r \<Longrightarrow>
     r \<notin> {Eligible, QuotaExhausted, QuotaInsufficient}"
  by (auto simp: decide_observation_def decide_known_def Let_def
      split: option.splits quota_status.splits prod.splits if_splits)

lemma lenient_decision:
  "Decide q resource wall False fresh now =
     (let r = fst (Decide q resource wall True fresh now)
      in if r \<in> {Eligible, QuotaExhausted, QuotaInsufficient} then (r, NoReason) else (Eligible, r))"
proof (cases "quota_exhausted q")
  case False
  then show ?thesis
    using decided_reasons [where q = q and resource = resource and wall = wall and fresh = fresh and now = now]
    by (auto simp: Decide_def Let_def split: sum.splits)
qed (simp add: Decide_def)

text \<open>C20. Strict quota admits an attempt exactly on a guarantee, for a wall time that a \<open>float64\<close> holds exactly:
  the account is not latched as exhausted and a valid, known observation of the requested resource, not from the
  future and fresher than the configured age, leaves no possible allowance in seconds (hours converted as the code
  does, in \<open>float64\<close>) below the requested wall time.  The lenient mode refuses for exhaustion and insufficiency
  exactly when the strict one does, and otherwise admits the attempt with the strict refusal as its warning.
\<close>

theorem strict_quota_is_guaranteed:
  assumes "0 < wall" "wall < 2 ^ 53"
  shows "(fst (Decide q resource wall True fresh now) = Eligible \<longleftrightarrow>
       \<not> quota_exhausted q
       \<and> (\<exists>ob. quota_observed q = Some ob \<and> quota_validate ob = None \<and> quota_status ob = QuotaKnown
           \<and> quota_resource ob = resource \<and> \<not> after (quota_at ob) now \<and> sub_time now (quota_at ob) < fresh
           \<and> (\<forall>r \<in> possible_allowance ob. of_int wall \<le> r)))
    \<and> Decide q resource wall False fresh now =
       (let r = fst (Decide q resource wall True fresh now)
        in if r \<in> {Eligible, QuotaExhausted, QuotaInsufficient} then (r, NoReason) else (Eligible, r))"
proof -
  have "\<not> f64_is_zero v" if "\<not> f64_less v (f64_of_int wall)" for v
    using that assms(1) f64_of_int_exact [OF assms] by (auto simp: f64_is_zero_def)
  then show ?thesis
    unfolding strict_eligible [of q resource wall fresh now] allowance_covers [OF assms] lenient_decision
    by blast
qed

definition sample_quota_observation :: quota_observation where
  "sample_quota_observation =
     \<lparr>quota_status = QuotaKnown, quota_resource = ''gpu'', quota_unit = ''seconds'', quota_limit = Some (Finite 100),
      quota_used = Some (Finite 40), quota_remaining = Some (Finite 60), quota_reset = None, quota_at = sample_now,
      quota_source = ''api'', quota_precision = ''lower_bound''\<rparr>"

lemma sample_quota_valid: "quota_validate sample_quota_observation = None"
  using sample_clock
  by (simp add: quota_validate_def sample_quota_observation_def quota_value_bad_def f64_negative_def safeText_def
      ValidTime_def not_blank_printable control_byte_def printable_byte_def byte_def)

lemma sample_quota_clock: "sub_time sample_now sample_now = 0" "\<not> after sample_now sample_now"
  by (simp_all add: sub_time_def after_def before_def MaxInt64_def)

theorem strict_quota_is_guaranteed_witness:
  "fst (Decide \<lparr>quota_observed = Some sample_quota_observation, quota_exhausted = False\<rparr> ''gpu'' 60 True 1 sample_now)
     = Eligible
   \<and> Decide \<lparr>quota_observed = Some sample_quota_observation, quota_exhausted = False\<rparr> ''gpu'' 60 False 1 sample_now
     = (Eligible, NoReason)"
proof -
  have "Seconds sample_quota_observation = (Finite 60, True)"
    using sample_quota_valid by (simp add: Seconds_def) (simp add: sample_quota_observation_def f64_negative_def)
  then have "\<forall>r \<in> possible_allowance sample_quota_observation. of_int 60 \<le> r"
    by (simp add: possible_allowance_def) (simp add: sample_quota_observation_def)
  then show ?thesis
    using strict_quota_is_guaranteed [of 60
        "\<lparr>quota_observed = Some sample_quota_observation, quota_exhausted = False\<rparr>" "''gpu''" 1 sample_now]
      sample_quota_valid sample_quota_clock
    by (simp add: sample_quota_observation_def)
qed



end
