(* ===== verification/Dispatch_Journal.thy ===== *)
theory Dispatch_Journal
  imports Scheduler_Facts
begin

text \<open>
  The durable journal of an attempt's dispatch (\<^verbatim>\<open>internal/dispatch/model.go\<close>): its phases, the check
  \<open>Journal.Valid\<close>, the private timestamps kept in problem details, and the JSON encoding through which the
  journal is copied before every transition (\<open>json.Marshal\<close> and \<open>json.Unmarshal\<close> in \<^verbatim>\<open>transition.go\<close>).
\<close>

section \<open>The journal\<close>

definition MaxJournalBytes :: nat where "MaxJournalBytes = 2 * 2 ^ 20"
definition MaxFailures :: int where "MaxFailures = 5"

datatype phase =
    Local | Staging | Ready | Submitting | Submitted | Rejected | Collectible | Attention | Failed
  | Prevented | PhaseOther string

primrec phase_string :: "phase \<Rightarrow> string" where
  "phase_string Local = ''local''"
| "phase_string Staging = ''staging''"
| "phase_string Ready = ''ready''"
| "phase_string Submitting = ''submitting''"
| "phase_string Submitted = ''submitted''"
| "phase_string Rejected = ''rejected''"
| "phase_string Collectible = ''collectible''"
| "phase_string Attention = ''attention''"
| "phase_string Failed = ''failed''"
| "phase_string Prevented = ''prevented''"
| "phase_string (PhaseOther s) = s"

record journal =
  j_version :: int
  j_phase :: phase
  j_plan :: "plan option"
  j_preparation_id :: opaque_id
  j_preparation_started :: "gotime option"
  j_prepared :: "prepared option"
  j_submit_started :: bool
  j_submission_problem :: "problem option"
  j_absence_at :: "gotime option"
  j_resource_name :: string
  j_owner_present :: bool
  j_start :: "start_authorization option"
  j_remote :: "remote_reference option"
  j_observation :: "observation option"
  j_problem :: "problem option"
  j_failures :: int

definition Recoverable :: "journal \<Rightarrow> bool" where
  "Recoverable j \<longleftrightarrow>
     j_phase j = Staging \<or> j_phase j = Ready \<or> j_phase j = Submitting \<or> j_phase j = Submitted"

definition localFailureDetail :: string where "localFailureDetail = ''local_failure_started''"
definition remoteAbsenceDetail :: string where "remoteAbsenceDetail = ''remote_absence_observed_at''"

definition journalDetail :: "journal \<Rightarrow> string \<Rightarrow> string" where
  "journalDetail j key = (case j_problem j of None \<Rightarrow> [] | Some p \<Rightarrow> details_get (details p) key)"

definition journalTime :: "string \<Rightarrow> gotime option" where
  "journalTime raw =
     (case parse_rfc3339 raw of None \<Rightarrow> None | Some t \<Rightarrow> if ValidTime t then Some t else None)"

definition RemoteAbsence :: "journal \<Rightarrow> remote_absence option" where
  "RemoteAbsence j =
     (case (j_remote j, j_problem j) of
        (Some r, Some p) \<Rightarrow>
          if j_phase j \<noteq> Attention \<or> code p \<noteq> CodeRemoteExecutionUnresolved
             \<or> details_get (PublicDetails p) ReasonDetail \<noteq> ''remote_not_found''
          then None
          else (case journalTime (journalDetail j remoteAbsenceDetail) of
              None \<Rightarrow> None
            | Some t \<Rightarrow> Some \<lparr>absence_remote = r, absence_at = t\<rparr>)
      | _ \<Rightarrow> None)"

section \<open>Validity\<close>

definition problem_ok :: "problem option \<Rightarrow> bool" where
  "problem_ok p = (case p of None \<Rightarrow> True | Some p \<Rightarrow> problem_validate p = None)"

fun known_phase :: "phase \<Rightarrow> bool" where
  "known_phase (PhaseOther _) = False"
| "known_phase _ = True"

text \<open>The checks of \<open>Journal.Valid\<close> that come before the plan is looked at.\<close>

definition journal_evidence_ok :: "journal \<Rightarrow> bool" where
  "journal_evidence_ok j \<longleftrightarrow>
     (case j_submission_problem j of None \<Rightarrow> True
        | Some p \<Rightarrow> j_submit_started j \<and> problem_validate p = None)
     \<and> (j_resource_name j \<noteq> [] \<longrightarrow> j_submit_started j \<and> ValidResourceName (j_resource_name j))
     \<and> (case j_absence_at j of None \<Rightarrow> True
          | Some t \<Rightarrow> j_submit_started j \<and> ValidTime t \<and> j_resource_name j \<noteq> [])
     \<and> (journalDetail j localFailureDetail \<noteq> [] \<longrightarrow> journalTime (journalDetail j localFailureDetail) \<noteq> None)
     \<and> (journalDetail j remoteAbsenceDetail \<noteq> [] \<longrightarrow> RemoteAbsence j \<noteq> None)
     \<and> (case j_preparation_started j of None \<Rightarrow> True | Some t \<Rightarrow> ValidTime t \<and> j_plan j \<noteq> None)
     \<and> (case j_start j of None \<Rightarrow> True
          | Some s \<Rightarrow> j_submit_started j \<and> (case j_prepared j of None \<Rightarrow> False
              | Some x \<Rightarrow> start_authorization_validate x s = None))
     \<and> 0 \<le> j_version j \<and> 0 \<le> j_failures j \<and> j_failures j \<le> MaxFailures
     \<and> known_phase (j_phase j)
     \<and> \<not> (j_phase j = Prevented \<and> j_submit_started j)"

definition journal_unplanned_ok :: "journal \<Rightarrow> bool" where
  "journal_unplanned_ok j \<longleftrightarrow>
     j_phase j \<in> {Local, Failed, Prevented} \<and> j_preparation_id j = [] \<and> \<not> j_submit_started j
     \<and> j_prepared j = None \<and> j_remote j = None \<and> j_observation j = None \<and> problem_ok (j_problem j)"

definition journal_planned_ok :: "journal \<Rightarrow> plan \<Rightarrow> bool" where
  "journal_planned_ok j p \<longleftrightarrow>
     resolved_job_validate (plan_job p) = None
     \<and> (case rj_inputs (plan_job p) of None \<Rightarrow> False
          | Some s \<Rightarrow> snapshot_validate (id_workspace (rj_identity (plan_job p))) s = None)
     \<and> validOpaqueID (j_preparation_id j)
     \<and> (case j_prepared j of None \<Rightarrow> True | Some x \<Rightarrow> prepared_validate p (j_preparation_id j) x = None)
     \<and> (j_phase j = Ready \<or> j_submit_started j \<longrightarrow>
          (case j_prepared j of None \<Rightarrow> False | Some x \<Rightarrow> prep_ready x \<and> prep_private x))
     \<and> j_phase j \<noteq> Local \<and> j_phase j \<noteq> Failed \<and> j_version j \<noteq> 0
     \<and> \<not> ((j_phase j = Staging \<or> j_phase j = Ready) \<and> j_submit_started j)
     \<and> \<not> ((j_phase j = Submitting \<or> j_phase j = Rejected) \<and> (j_remote j \<noteq> None \<or> j_observation j \<noteq> None))
     \<and> (case j_prepared j of None \<Rightarrow> True
          | Some x \<Rightarrow> \<not> (\<not> prep_private x \<and> j_phase j \<noteq> Attention \<and> j_phase j \<noteq> Prevented))
     \<and> (j_phase j = Collectible \<longrightarrow>
          (case j_observation j of None \<Rightarrow> False | Some ob \<Rightarrow> execution_terminal (obs_execution ob)))
     \<and> (case j_observation j of None \<Rightarrow> True
          | Some ob \<Rightarrow> \<not> (j_phase j = Submitted \<and> execution_terminal (obs_execution ob)))
     \<and> (j_phase j \<in> {Submitting, Submitted, Rejected, Collectible} \<longrightarrow> j_submit_started j)
     \<and> (case j_remote j of None \<Rightarrow> True
          | Some r \<Rightarrow> j_submit_started j \<and> remote_validate r = None
              \<and> remote_identity r = rj_identity (plan_job p))
     \<and> (j_phase j \<in> {Submitted, Collectible} \<longrightarrow> j_remote j \<noteq> None)
     \<and> (case j_observation j of None \<Rightarrow> True
          | Some ob \<Rightarrow> (case j_remote j of None \<Rightarrow> False | Some r \<Rightarrow> observation_validate r ob = None))
     \<and> problem_ok (j_problem j)"

definition journal_valid :: "journal \<Rightarrow> bool" where
  "journal_valid j \<longleftrightarrow>
     journal_evidence_ok j
     \<and> (case j_plan j of None \<Rightarrow> journal_unplanned_ok j | Some p \<Rightarrow> journal_planned_ok j p)"


section \<open>The JSON form\<close>

definition problem_json :: "problem \<Rightarrow> json" where
  "problem_json p =
     JObject [(''Code'', JString (error_code_string (code p))), (''Message'', JString (message p)),
       (''Stage'', JString (failure_stage_string (stage p))),
       (''SafeOperationRetry'', JBool (safe_operation_retry p)),
       (''ComputeMayHaveStarted'', JBool (compute_may_have_started p)),
       (''RecommendedAction'', JString (recommended_action_string (recommended_action p))),
       (''Details'', case details p of None \<Rightarrow> JNull
          | Some ds \<Rightarrow> JObject (map (\<lambda>(k, v). (k, JString v)) ds))]"

definition secret_authorization_json :: "secret_authorization \<Rightarrow> json" where
  "secret_authorization_json a =
     JObject [(''authorization_id'', JString (secret_authorization_id a)),
       (''expires_at'', JString (secret_expires a)),
       (''slots'', JArray (map (\<lambda>s. JObject [(''name'', JString (slot_name s)),
          (''exposure'', JString (slot_exposure s))]) (secret_slots a)))]"

definition start_authorization_json :: "start_authorization \<Rightarrow> json" where
  "start_authorization_json s =
     JObject ((case start_secrets s of None \<Rightarrow> [] | Some a \<Rightarrow> [(''secrets'', secret_authorization_json a)])
       @ [(''authorization_id'', JString (start_authorization_id s)),
          (''readiness_revision'', JString (start_readiness s)),
          (''max_remote_wall_seconds'', JInt (start_wall_seconds s)),
          (''execution_deadline'', JString (start_deadline s)), (''start_before'', JString (start_before s))])"

definition remote_json :: "remote_reference \<Rightarrow> json" where
  "remote_json r =
     JObject [(''Identity'', identity_json (remote_identity r)), (''Resource'', JString (remote_resource r)),
       (''Version'', JString (remote_version r))]"

definition time_json :: "gotime \<Rightarrow> json" where
  "time_json t = JString (format_rfc3339_nano t)"

definition observation_json :: "observation \<Rightarrow> json" where
  "observation_json ob =
     JObject [(''Remote'', remote_json (obs_remote ob)),
       (''Execution'', JString (execution_string (obs_execution ob))),
       (''RawState'', JString (obs_raw_state ob)),
       (''RemoteActivity'', JString (remote_activity_string (obs_activity ob))),
       (''ReleaseEvidence'', JString (release_evidence_string (obs_release ob))),
       (''ObservedAt'', time_json (obs_at ob))]"

definition omit_none :: "string \<Rightarrow> ('a \<Rightarrow> json) \<Rightarrow> 'a option \<Rightarrow> (string \<times> json) list" where
  "omit_none key f x = (case x of None \<Rightarrow> [] | Some v \<Rightarrow> [(key, f v)])"

definition journal_json :: "journal \<Rightarrow> json" where
  "journal_json j =
     JObject ([(''version'', JInt (j_version j)), (''phase'', JString (phase_string (j_phase j)))]
       @ omit_none ''plan'' plan_json (j_plan j)
       @ omit_if (j_preparation_id j = []) ''preparation_id'' (JString (j_preparation_id j))
       @ omit_none ''preparation_observation_started'' time_json (j_preparation_started j)
       @ omit_none ''prepared'' prepared_json (j_prepared j)
       @ [(''submit_started'', JBool (j_submit_started j))]
       @ omit_none ''submission_problem'' problem_json (j_submission_problem j)
       @ omit_none ''submission_absence_observed_at'' time_json (j_absence_at j)
       @ omit_if (j_resource_name j = []) ''submission_resource_name'' (JString (j_resource_name j))
       @ omit_if (\<not> j_owner_present j) ''owner_submission_present'' (JBool (j_owner_present j))
       @ omit_none ''start_authorization'' start_authorization_json (j_start j)
       @ omit_none ''remote'' remote_json (j_remote j)
       @ omit_none ''observation'' observation_json (j_observation j)
       @ omit_none ''problem'' problem_json (j_problem j)
       @ [(''failures'', JInt (j_failures j))])"

text \<open>
  \<open>Time.MarshalJSON\<close> refuses years outside 0 to 9999 and offsets of a day or more; everything else of a valid
  journal can be encoded, since its specification is valid JSON.
\<close>

definition json_time_ok :: "gotime \<Rightarrow> bool" where
  "json_time_ok t \<longleftrightarrow> 0 \<le> year t \<and> year t \<le> 9999 \<and> \<bar>zone_min t\<bar> < 24 * 60"

definition journal_times :: "journal \<Rightarrow> gotime list" where
  "journal_times j =
     (case j_preparation_started j of None \<Rightarrow> [] | Some t \<Rightarrow> [t])
     @ (case j_absence_at j of None \<Rightarrow> [] | Some t \<Rightarrow> [t])
     @ (case j_observation j of None \<Rightarrow> [] | Some ob \<Rightarrow> [obs_at ob])"

definition journal_marshal :: "journal \<Rightarrow> string option" where
  "journal_marshal j =
     (if list_all json_time_ok (journal_times j) then Some (json_marshal (journal_json j)) else None)"

text \<open>
  What decoding the encoded form of a valid journal yields. Bytes that are no UTF-8 become the replacement
  character, the raw specification comes back compacted, and a detail whose key coincides with a later one
  after that is overwritten by it. The fields that \<^const>\<open>journal_valid\<close> restricts to ASCII text, numbers,
  flags and known enumeration values come back as they were, times with their instant and zone.
\<close>

definition details_copy :: "details \<Rightarrow> details" where
  "details_copy d =
     map_option (\<lambda>ds. details_list (fold (\<lambda>(k, v). details_put (utf8_coerce k) (utf8_coerce v)) ds (Some []))) d"

definition problem_copy :: "problem \<Rightarrow> problem" where
  "problem_copy p = p\<lparr>message := utf8_coerce (message p), details := details_copy (details p)\<rparr>"

definition strings_copy :: "string slice \<Rightarrow> string slice" where
  "strings_copy s = map_option (map utf8_coerce) s"

definition plan_copy :: "plan \<Rightarrow> plan" where
  "plan_copy p =
     (let job = plan_job p; b = rj_binding job in
      \<lparr>plan_job = job\<lparr>
         rj_binding := b\<lparr>binding_profile := utf8_coerce (binding_profile b),
                         binding_revision := utf8_coerce (binding_revision b)\<rparr>,
         rj_specification := json_compact True Outside (rj_specification job),
         rj_required := strings_copy (rj_required job)\<rparr>,
       plan_verify_after_start = strings_copy (plan_verify_after_start p)\<rparr>)"

definition prepared_copy :: "prepared \<Rightarrow> prepared" where
  "prepared_copy x =
     x\<lparr>prep_verification := utf8_coerce (prep_verification x), prep_manifest := utf8_coerce (prep_manifest x),
       prep_resource := utf8_coerce (prep_resource x)\<rparr>"

definition remote_copy :: "remote_reference \<Rightarrow> remote_reference" where
  "remote_copy r =
     r\<lparr>remote_resource := utf8_coerce (remote_resource r), remote_version := utf8_coerce (remote_version r)\<rparr>"

definition observation_copy :: "observation \<Rightarrow> observation" where
  "observation_copy ob =
     ob\<lparr>obs_remote := remote_copy (obs_remote ob), obs_raw_state := utf8_coerce (obs_raw_state ob)\<rparr>"

definition journal_copy :: "journal \<Rightarrow> journal" where
  "journal_copy j =
     j\<lparr>j_plan := map_option plan_copy (j_plan j), j_prepared := map_option prepared_copy (j_prepared j),
       j_submission_problem := map_option problem_copy (j_submission_problem j),
       j_remote := map_option remote_copy (j_remote j),
       j_observation := map_option observation_copy (j_observation j),
       j_problem := map_option problem_copy (j_problem j)\<rparr>"

lemma journal_copy_simps [simp]:
  "j_version (journal_copy j) = j_version j" "j_phase (journal_copy j) = j_phase j"
  "j_plan (journal_copy j) = map_option plan_copy (j_plan j)"
  "j_preparation_id (journal_copy j) = j_preparation_id j"
  "j_preparation_started (journal_copy j) = j_preparation_started j"
  "j_prepared (journal_copy j) = map_option prepared_copy (j_prepared j)"
  "j_submit_started (journal_copy j) = j_submit_started j"
  "j_submission_problem (journal_copy j) = map_option problem_copy (j_submission_problem j)"
  "j_absence_at (journal_copy j) = j_absence_at j" "j_resource_name (journal_copy j) = j_resource_name j"
  "j_owner_present (journal_copy j) = j_owner_present j" "j_start (journal_copy j) = j_start j"
  "j_remote (journal_copy j) = map_option remote_copy (j_remote j)"
  "j_observation (journal_copy j) = map_option observation_copy (j_observation j)"
  "j_problem (journal_copy j) = map_option problem_copy (j_problem j)"
  "j_failures (journal_copy j) = j_failures j"
  by (simp_all add: journal_copy_def)

end
