(* ===== verification/Dispatch_Apply.thy ===== *)
theory Dispatch_Apply
  imports Dispatch_Journal
begin

text \<open>
  \<open>Apply\<close>, the state machine of the dispatch journal (\<^verbatim>\<open>internal/dispatch/transition.go\<close>): one definition per
  action kind, the controlled problems, and the common end that merges submission evidence into the problem,
  raises the version and checks the new journal and the transition of the attempt state. A nil dereference of
  the source and a panic of \<open>provider.Problem\<close> are the error \<open>DispatchPanic\<close>.
\<close>

section \<open>Actions\<close>

datatype dispatch_error = DispatchInvalid | DispatchConflict | DispatchStaleObservation | DispatchPanic

datatype kind =
    BeginPreparation | PreparationSeen | EndUnconfirmedPreparation | BeginSubmission | SubmissionSeen
  | ObservationSeen | RemoteAbsenceSeen | Fault | PreventDispatch | ExpireDispatch | RefuseNewWork
  | RequestReconciliation | SubmissionAbsenceSeen | OwnerSubmissionAbsent | KindOther string

record action =
  act_refusal_reason :: string
  act_secrets_available :: bool
  act_kind :: kind
  act_plan :: "plan option"
  act_preparation_id :: opaque_id
  act_prepared :: "prepared option"
  act_submission :: "submission_outcome option"
  act_absence :: "remote_absence option"
  act_observation :: "observation option"
  act_code :: error_code
  act_reason :: string
  act_cause :: string
  act_details :: details
  act_resource_name :: string
  act_owner_present :: bool
  act_start :: "start_authorization option"
  act_preparation_expired :: bool

type_synonym applied = "journal \<times> attempt_state \<times> event_type"

definition LocalFailureBudget :: int where "LocalFailureBudget = 10 * minute_ns"
definition SubmissionAbsenceGrace :: int where "SubmissionAbsenceGrace = 2 * minute_ns"

definition cancellationPending :: "attempt_state \<Rightarrow> bool" where
  "cancellationPending s \<longleftrightarrow>
     cancellation s = CancellationRequested \<or> cancellation s = CancellationRequesting
     \<or> cancellation s = CancellationAccepted"

definition unconfirmedPreparation :: "journal \<Rightarrow> bool" where
  "unconfirmedPreparation j \<longleftrightarrow>
     j_phase j = Staging \<and> j_plan j \<noteq> None \<and> j_prepared j = None \<and> \<not> j_submit_started j"

definition and_then :: "'e + 'a \<Rightarrow> ('a \<Rightarrow> 'e + 'b) \<Rightarrow> 'e + 'b" where
  "and_then r f = (case r of Inl e \<Rightarrow> Inl e | Inr x \<Rightarrow> f x)"

definition deref :: "'a option \<Rightarrow> dispatch_error + 'a" where
  "deref x = (case x of None \<Rightarrow> Inl DispatchPanic | Some v \<Rightarrow> Inr v)"


section \<open>Controlled problems\<close>

definition provider_problem :: "error_code \<Rightarrow> failure_stage \<Rightarrow> string \<Rightarrow> dispatch_error + problem" where
  "provider_problem c st msg =
     (case provider_Problem c st msg of Structured p \<Rightarrow> Inr p | _ \<Rightarrow> Inl DispatchPanic)"

text \<open>The stage, message and recommended action of a code, where the code is known to the journal.\<close>

definition problem_text :: "error_code \<Rightarrow> (failure_stage \<times> string \<times> recommended_action) option" where
  "problem_text c =
     (if c \<in> {CodeInputFetchFailed, CodeInputNotFound, CodeInputDigestMismatch, CodeInputTooLarge} then
        Some (FailureStageInputPreparation, ''Input snapshot could not be prepared or verified.'',
          RecommendedActionFixRequest)
      else if c \<in> {CodeUnsupportedCapability, CodeResourceRequirementUnsatisfied, CodeInvalidInputPath} then
        Some (FailureStageValidation,
          ''The frozen job cannot satisfy required capabilities or runner constraints.'',
          RecommendedActionFixRequest)
      else if c \<in> {CodeConfigurationInvalid, CodeStateStoreUnavailable} then
        Some (FailureStageLocalRuntime,
          ''The frozen configuration or local store is unavailable; no fallback was selected.'',
          RecommendedActionConfigure)
      else if c \<in> {CodeProviderAuthFailed, CodeProviderAccessDenied} then
        Some (FailureStageAuthentication, ''The frozen provider account binding could not be verified.'',
          RecommendedActionConfigure)
      else if c \<in> {CodePrivateStagingUnavailable, CodeStagingFailed, CodeStagingNotReady} then
        Some (FailureStageProviderPreparation,
          ''Private staging identity or readiness is unresolved; creation was not repeated.'',
          RecommendedActionReconcile)
      else if c \<in> {CodeProviderRejected, CodeProviderRateLimited, CodeQuotaExhausted} then
        Some (FailureStageSubmission,
          ''Provider proved non-acceptance; another compute request requires explicit operator action.'',
          RecommendedActionInspectProvider)
      else if c = CodeProviderSubmissionUnknown then
        Some (FailureStageSubmission,
          ''Submission may have been accepted; reconcile the recorded identity without resubmitting.'',
          RecommendedActionReconcile)
      else if c = CodeRemoteExecutionUnresolved then
        Some (FailureStageOperation, ''Provider observation is unresolved; no new execution was requested.'',
          RecommendedActionReconcile)
      else if c \<in> {CodeProviderStateUnknown, CodeProviderUnreachable, CodeRemoteIdentityMismatch} then
        Some (FailureStageObservation, ''Provider observation is unresolved; no new execution was requested.'',
          RecommendedActionReconcile)
      else None)"

definition dispatch_problem :: "error_code \<Rightarrow> bool \<Rightarrow> dispatch_error + problem option" where
  "dispatch_problem c may =
     (if c = CodeRemoteTimeout then
        and_then (provider_problem c FailureStageExecution
            ''Execution authorization deadline has expired; no new execution was requested.'')
          (\<lambda>p. Inr (Some (WithDetail ReasonDetail ''absolute_deadline_expired'' p)))
      else case problem_text c of
        None \<Rightarrow> Inr None
      | Some (st, msg, act) \<Rightarrow>
          (case NewProblem c msg st of
             Inl _ \<Rightarrow> Inr None
           | Inr p \<Rightarrow>
               let p = WithRecommendedAction act (WithRetrySemantics False may p)
               in Inr (if problem_validate p \<noteq> None then None else Some p)))"


section \<open>The actions\<close>

subsection \<open>Refused work, prevention and deadlines\<close>

definition refusal_message :: "string \<Rightarrow> (string \<times> string) option" where
  "refusal_message reason =
     (if reason = [] \<or> reason = ''host_unhealthy'' then
        Some (''host_unhealthy'', ''Host health refuses new preparation or execution.'')
      else if reason \<in> {''remote_staging_dataset_limit'', ''remote_kernel_limit'',
          ''remote_attempt_container_limit'', ''remote_resource_scope_unknown'',
          ''remote_shared_dataset_limit''} then
        Some (reason, ''Retained or unconfirmed remote resources fill the operator count budget.'')
      else if reason = ''host_image_count_limit'' then
        Some (reason, ''Retained application images fill the operator count budget.'')
      else if reason = ''host_storage_limit'' then
        Some (reason, ''Host storage budget refuses new preparation or execution.'')
      else if reason = ''host_storage_unknown'' then
        Some (reason, ''Host storage observation is incomplete or stale.'')
      else None)"

definition apply_refuse :: "journal \<Rightarrow> journal \<Rightarrow> attempt_state \<Rightarrow> action \<Rightarrow> dispatch_error + applied" where
  "apply_refuse old j state a =
     (if j_submit_started old \<or> (j_phase old \<noteq> Local \<and> j_phase old \<noteq> Ready)
         \<or> cancellation state \<noteq> CancellationNotRequested \<or> execution state \<noteq> ExecutionNotSubmitted
         \<or> remote_activity state \<noteq> RemoteActivityNotStarted
      then Inl DispatchConflict
      else case refusal_message (act_refusal_reason a) of
        None \<Rightarrow> Inl DispatchInvalid
      | Some (reason, msg) \<Rightarrow>
          and_then (provider_problem CodeResourceRequirementUnsatisfied FailureStageValidation msg)
            (\<lambda>p. let p = WithRecommendedAction RecommendedActionWait (WithDetail ReasonDetail reason p) in
               if act_cause a \<noteq> [] \<and> \<not> ValidReason (act_cause a) then Inl DispatchInvalid
               else
                 let p = (if act_cause a \<noteq> [] then WithDetail CauseDetail (act_cause a) p else p)
                 in Inr (j\<lparr>j_problem := Some p\<rparr>,
                      if j_plan old = None then state\<lparr>orchestration := OrchestrationQueued\<rparr> else state,
                      EventReconciliationDeferred)))"

definition apply_prevent :: "journal \<Rightarrow> journal \<Rightarrow> attempt_state \<Rightarrow> action \<Rightarrow> dispatch_error + applied" where
  "apply_prevent old j state a =
     (if j_submit_started old \<or> orchestration_terminal (orchestration state)
         \<or> execution state \<noteq> ExecutionNotSubmitted
         \<or> (remote_activity state \<noteq> RemoteActivityNotStarted
            \<and> remote_activity state \<noteq> RemoteActivityInactive)
      then Inl DispatchConflict
      else
        let j = j\<lparr>j_phase := Prevented\<rparr>;
            nxt = state\<lparr>orchestration := OrchestrationCancelled, cancellation := CancellationPrevented,
              release_evidence := ReleaseEvidenceNotApplicable\<rparr>
        in if act_kind a \<noteq> ExpireDispatch then Inr (j, nxt, EventCancellationRequested)
           else if cancellation state \<noteq> CancellationNotRequested then Inl DispatchConflict
           else
             let nxt = nxt\<lparr>orchestration := OrchestrationTimedOut, cancellation := CancellationNotRequested,
                   deadline_exceeded := True\<rparr>
             in and_then (dispatch_problem CodeRemoteTimeout False)
                  (\<lambda>p. if \<not> act_preparation_expired a
                     then Inr (j\<lparr>j_problem := p\<rparr>, nxt, EventReconciliationDeferred)
                     else and_then (provider_problem CodeRemoteTimeout FailureStageExecution
                         ''Preparation hold has expired; no new execution was requested.'')
                       (\<lambda>q. Inr (j\<lparr>j_problem := Some (WithDetail ReasonDetail ''preparation_expired'' q)\<rparr>,
                          nxt, EventReconciliationDeferred))))"

subsection \<open>Explicit reconciliation\<close>

definition apply_reconcile :: "journal \<Rightarrow> journal \<Rightarrow> attempt_state \<Rightarrow> action \<Rightarrow> dispatch_error + applied" where
  "apply_reconcile old j state a =
     (if act_owner_present a \<and> (j_phase old \<noteq> Attention \<or> \<not> j_submit_started old \<or> j_remote old \<noteq> None
         \<or> execution state \<noteq> ExecutionUnknown \<or> act_resource_name a = []
         \<or> act_resource_name a \<noteq> j_resource_name old)
      then Inl DispatchConflict
      else
        let j = (if act_owner_present a then j\<lparr>j_owner_present := True, j_absence_at := None\<rparr> else j) in
        if RemoteAbsence old \<noteq> None \<or> execution_terminal (execution state)
           \<or> orchestration_terminal (orchestration state)
           \<or> (case j_problem old of None \<Rightarrow> False
              | Some p \<Rightarrow> code p = CodeRemoteIdentityMismatch \<or> code p = CodePrivateStagingUnavailable)
        then Inl DispatchConflict
        else if \<not> j_submit_started old
          \<and> ((j_phase old \<noteq> Attention \<and> j_phase old \<noteq> Staging \<and> j_phase old \<noteq> Ready)
             \<or> execution state \<noteq> ExecutionNotSubmitted \<or> remote_activity state \<noteq> RemoteActivityNotStarted
             \<or> cancellation state \<noteq> CancellationNotRequested \<or> deadline_exceeded state
             \<or> (orchestration state \<noteq> OrchestrationNeedsAttention
                \<and> orchestration state \<noteq> OrchestrationPreparing
                \<and> orchestration state \<noteq> OrchestrationReconciling))
        then Inl DispatchConflict
        else if j_submit_started old
          \<and> j_phase old \<noteq> Attention \<and> j_phase old \<noteq> Submitting \<and> j_phase old \<noteq> Submitted
        then Inl DispatchConflict
        else
          let ph = (if \<not> j_submit_started old then Staging
                    else if j_remote j \<noteq> None then Submitted else Submitting)
          in Inr (j\<lparr>j_phase := ph, j_failures := 0, j_problem := None\<rparr>,
               state\<lparr>orchestration := if cancellationPending state then OrchestrationCancelling
                 else OrchestrationReconciling\<rparr>,
               EventReconciliationRequested))"

subsection \<open>Preparation\<close>

definition apply_begin_preparation ::
  "journal \<Rightarrow> journal \<Rightarrow> attempt_state \<Rightarrow> action \<Rightarrow> dispatch_error + applied" where
  "apply_begin_preparation old j state a =
     (case act_plan a of
        None \<Rightarrow> Inl DispatchConflict
      | Some p \<Rightarrow>
          if j_phase old \<noteq> Local \<or> j_plan old \<noteq> None \<or> \<not> LocalOnly state \<or> rj_inputs (plan_job p) = None
             \<or> resolved_job_validate (plan_job p) \<noteq> None \<or> \<not> validOpaqueID (act_preparation_id a)
          then Inl DispatchConflict
          else Inr (j\<lparr>j_plan := Some (plan_clone p), j_preparation_id := act_preparation_id a,
                      j_phase := Staging, j_problem := None, j_failures := 0\<rparr>,
                 state\<lparr>orchestration := OrchestrationPreparing\<rparr>, EventPreparationIntended))"

definition apply_preparation_seen ::
  "journal \<Rightarrow> journal \<Rightarrow> attempt_state \<Rightarrow> action \<Rightarrow> dispatch_error + applied" where
  "apply_preparation_seen old j state a =
     (if j_phase old \<noteq> Staging \<or> j_submit_started old then Inl DispatchConflict
      else case act_prepared a of
        None \<Rightarrow> Inl DispatchConflict
      | Some x \<Rightarrow>
          and_then (deref (j_plan old))
            (\<lambda>p. if prepared_validate p (j_preparation_id old) x \<noteq> None then Inl DispatchConflict
               else if (case j_prepared old of None \<Rightarrow> False | Some y \<Rightarrow> prep_resource y \<noteq> prep_resource x)
               then Inl DispatchConflict
               else
                 let j = j\<lparr>j_prepared := Some x, j_problem := None, j_failures := 0,
                           j_phase := if prep_ready x then Ready else j_phase j\<rparr>;
                     nxt = state\<lparr>orchestration := OrchestrationPreparing\<rparr>
                 in if prep_private x
                    then Inr (j, nxt, if prep_ready x then EventProviderStagingReady else EventPreparationObserved)
                    else and_then (dispatch_problem CodePrivateStagingUnavailable False)
                      (\<lambda>q. Inr (j\<lparr>j_phase := Attention, j_problem := q\<rparr>,
                         nxt\<lparr>orchestration := OrchestrationNeedsAttention\<rparr>, EventPreparationObserved))))"

definition apply_end_unconfirmed ::
  "journal \<Rightarrow> journal \<Rightarrow> attempt_state \<Rightarrow> action \<Rightarrow> dispatch_error + applied" where
  "apply_end_unconfirmed old j state a =
     (if j_phase old \<noteq> Staging \<or> j_plan old = None \<or> j_prepared old \<noteq> None \<or> j_submit_started old
         \<or> orchestration_terminal (orchestration state) \<or> execution state \<noteq> ExecutionNotSubmitted
         \<or> remote_activity state \<noteq> RemoteActivityNotStarted
         \<or> cancellation state \<noteq> CancellationNotRequested
      then Inl DispatchConflict
      else and_then (provider_problem CodeStagingNotReady FailureStageProviderPreparation
          ''Private staging could not be confirmed within the observation budget; no execution was submitted.'')
        (\<lambda>p.
          let p = WithRecommendedAction RecommendedActionFixRequest
                (WithDetail ReasonDetail ''staging_unconfirmed'' p);
              known = (case j_problem old of None \<Rightarrow> None | Some q \<Rightarrow> PublicDetails q);
              p = (if j_problem old \<noteq> None \<and> details_get known ReasonDetail \<noteq> []
                   then WithDetail FirstCauseDetail (details_get known ReasonDetail) p else p);
              cause = (if j_problem old \<noteq> None \<and> act_cause a = [] then details_get known CauseDetail
                       else act_cause a);
              p = (if cause \<noteq> [] then WithDetail CauseDetail cause p else p)
          in if cause \<noteq> [] \<and> details_get (PublicDetails p) CauseDetail \<noteq> cause then Inl DispatchInvalid
             else Inr (j\<lparr>j_phase := Prevented, j_problem := Some p\<rparr>,
                    state\<lparr>orchestration := OrchestrationFailed,
                          release_evidence := ReleaseEvidenceNotApplicable\<rparr>,
                    EventReconciliationDeferred)))"

subsection \<open>Submission\<close>

definition apply_begin_submission ::
  "journal \<Rightarrow> journal \<Rightarrow> attempt_state \<Rightarrow> action \<Rightarrow> dispatch_error + applied" where
  "apply_begin_submission old j state a =
     (case j_prepared old of
        None \<Rightarrow> Inl DispatchConflict
      | Some x \<Rightarrow>
          if j_phase old \<noteq> Ready \<or> j_submit_started old \<or> \<not> prep_ready x \<or> \<not> prep_private x
             \<or> \<not> LocalOnly state \<or> cancellation state \<noteq> CancellationNotRequested
          then Inl DispatchConflict
          else
            let j = (case act_start a of None \<Rightarrow> j | Some s \<Rightarrow> j\<lparr>j_start := Some s\<rparr>)
            in Inr (j\<lparr>j_submit_started := True, j_phase := Submitting, j_problem := None, j_failures := 0\<rparr>,
                 state\<lparr>orchestration := OrchestrationDispatching, execution := ExecutionUnknown,
                       remote_activity := RemoteActivityPossible\<rparr>,
                 EventSubmissionIntentRecorded))"

definition rejection_code :: "problem option \<Rightarrow> error_code" where
  "rejection_code q =
     (case q of
        None \<Rightarrow> CodeProviderRejected
      | Some q \<Rightarrow>
          if code q \<in> {CodeProviderRateLimited, CodeQuotaExhausted, CodeProviderAuthFailed,
              CodeProviderAccessDenied, CodeRemoteTimeout}
          then code q else CodeProviderRejected)"

definition submission_accepted :: "journal \<Rightarrow> attempt_state \<Rightarrow> submission_outcome \<Rightarrow> dispatch_error + applied" where
  "submission_accepted j state x =
     and_then (deref (outcome_remote x))
       (\<lambda>r. Inr (j\<lparr>j_remote := Some r, j_phase := Submitted, j_problem := None, j_failures := 0\<rparr>,
          state\<lparr>orchestration := if cancellationPending state then OrchestrationCancelling
            else OrchestrationSubmitted\<rparr>,
          EventSubmissionAccepted))"

definition submission_rejected :: "journal \<Rightarrow> attempt_state \<Rightarrow> submission_outcome \<Rightarrow> dispatch_error + applied" where
  "submission_rejected j state x =
     (let c = rejection_code (outcome_problem x) in
      and_then (dispatch_problem c False)
        (\<lambda>p.
          let p = (case (outcome_problem x, p) of
                (Some q, Some p) \<Rightarrow> Some (p\<lparr>details := PublicDetails q\<rparr>) | (_, p) \<Rightarrow> p);
              nxt = state\<lparr>orchestration := OrchestrationFailed, execution := ExecutionNotSubmitted,
                remote_activity := RemoteActivityInactive,
                release_evidence := ReleaseEvidenceNotApplicable\<rparr>;
              nxt = (if c = CodeRemoteTimeout
                then nxt\<lparr>orchestration := OrchestrationTimedOut, deadline_exceeded := True\<rparr> else nxt);
              nxt = (if cancellation state \<noteq> CancellationNotRequested
                then nxt\<lparr>orchestration := OrchestrationCancelled, cancellation := CancellationPrevented\<rparr>
                else nxt)
          in Inr (j\<lparr>j_phase := Rejected, j_problem := p\<rparr>, nxt, EventSubmissionRejected)))"

definition submission_unknown :: "journal \<Rightarrow> attempt_state \<Rightarrow> submission_outcome \<Rightarrow> dispatch_error + applied" where
  "submission_unknown j state x =
     and_then (dispatch_problem CodeProviderSubmissionUnknown True)
       (\<lambda>p.
         let nxt = state\<lparr>orchestration := OrchestrationReconciling\<rparr> in
         case outcome_problem x of
           None \<Rightarrow> Inr (j\<lparr>j_problem := p\<rparr>, nxt, EventSubmissionUnknown)
         | Some q \<Rightarrow>
             and_then (deref p)
               (\<lambda>p. let p = p\<lparr>details := PublicDetails q\<rparr>
                  in Inr (j\<lparr>j_problem := Some p,
                       j_submission_problem :=
                         (if j_submission_problem j = None then Some p else j_submission_problem j),
                       j_resource_name := details_get (details p) ''resource_name''\<rparr>,
                     nxt, EventSubmissionUnknown)))"

definition submission_step ::
  "journal \<Rightarrow> journal \<Rightarrow> attempt_state \<Rightarrow> kind \<Rightarrow> submission_outcome option \<Rightarrow> dispatch_error + applied" where
  "submission_step old j state k outcome =
     (if (j_phase old \<noteq> Submitting \<and> k \<noteq> OwnerSubmissionAbsent) \<or> \<not> j_submit_started old
         \<or> j_remote old \<noteq> None
      then Inl DispatchConflict
      else case outcome of
        None \<Rightarrow> Inl DispatchConflict
      | Some x \<Rightarrow>
          and_then (deref (j_plan old))
            (\<lambda>p. if submission_outcome_validate (rj_identity (plan_job p)) x \<noteq> None then Inl DispatchConflict
               else case outcome_status x of
                 SubmissionAccepted \<Rightarrow> submission_accepted j state x
               | SubmissionRejected \<Rightarrow> submission_rejected j state x
               | SubmissionUnknown \<Rightarrow> submission_unknown j state x
               | SubmissionStatusOther _ \<Rightarrow> Inr (j, state, EventTypeOther [])))"

text \<open>The first complete inventory without the resource starts a grace period; one after it decides.\<close>

definition absence_confirming ::
  "journal \<Rightarrow> journal \<Rightarrow> attempt_state \<Rightarrow> action \<Rightarrow> gotime \<Rightarrow> dispatch_error + applied" where
  "absence_confirming old j state a now =
     (let j = (if j_absence_at old = None then j\<lparr>j_absence_at := Some (utc now)\<rparr> else j) in
      and_then (dispatch_problem CodeProviderSubmissionUnknown True)
        (\<lambda>p. and_then (deref p)
          (\<lambda>p. Inr (j\<lparr>j_phase := Submitting, j_failures := max 1 (j_failures j),
               j_problem := Some (WithDetail ''resource_name'' (act_resource_name a)
                 (WithDetail ReasonDetail ''submission_absence_confirming'' p))\<rparr>,
             state\<lparr>orchestration := OrchestrationReconciling\<rparr>, EventReconciliationDeferred))))"

definition apply_submission ::
  "journal \<Rightarrow> journal \<Rightarrow> attempt_state \<Rightarrow> action \<Rightarrow> gotime \<Rightarrow> dispatch_error + applied" where
  "apply_submission old j state a now =
     (if act_kind a = SubmissionSeen then submission_step old j state (act_kind a) (act_submission a)
      else if (j_phase old \<noteq> Submitting \<and> j_phase old \<noteq> Attention) \<or> \<not> j_submit_started old
         \<or> j_remote old \<noteq> None \<or> (act_kind a = SubmissionAbsenceSeen \<and> j_owner_present old)
         \<or> execution state \<noteq> ExecutionUnknown \<or> orchestration_terminal (orchestration state)
         \<or> \<not> ValidResourceName (act_resource_name a)
         \<or> j_resource_name old \<noteq> [] \<and> j_resource_name old \<noteq> act_resource_name a
      then Inl DispatchConflict
      else
        let j = j\<lparr>j_resource_name := act_resource_name a\<rparr> in
        if act_kind a \<noteq> OwnerSubmissionAbsent
           \<and> (case j_absence_at old of None \<Rightarrow> True
              | Some t \<Rightarrow> before now (add_time t SubmissionAbsenceGrace))
        then absence_confirming old j state a now
        else
          and_then (provider_problem CodeProviderRejected FailureStageSubmission
              ''Submission resolved absent; a replacement requires a new attempt'')
            (\<lambda>p.
              let reason = (if act_kind a = OwnerSubmissionAbsent then ''submission_absent_owner_confirmed''
                    else ''submission_absent_owned_list'');
                  p = WithDetail ''resource_name'' (act_resource_name a) (WithDetail ReasonDetail reason p)
              in submission_step old j state (act_kind a)
                   (Some \<lparr>outcome_status = SubmissionRejected, outcome_remote = None,
                      outcome_problem = Some p\<rparr>)))"

subsection \<open>Remote evidence\<close>

definition apply_remote_absence ::
  "journal \<Rightarrow> journal \<Rightarrow> attempt_state \<Rightarrow> action \<Rightarrow> gotime \<Rightarrow> dispatch_error + applied" where
  "apply_remote_absence old j state a now =
     (case (j_remote old, act_absence a) of
        (Some r, Some ab) \<Rightarrow>
          if j_phase old \<noteq> Submitted \<or> absence_remote ab \<noteq> r \<or> \<not> ValidTime (absence_at ab)
             \<or> after (absence_at ab) now
             \<or> (case j_observation old of None \<Rightarrow> False | Some ob \<Rightarrow> \<not> after (absence_at ab) (obs_at ob))
          then Inl DispatchConflict
          else and_then (provider_problem CodeRemoteExecutionUnresolved FailureStageOperation
              ''The exact remote resource is absent; final execution outcome and results remain unknown'')
            (\<lambda>p.
              let p = WithRecommendedAction RecommendedActionInspectProvider (WithRetrySemantics False True
                    (WithDetail remoteAbsenceDetail (format_rfc3339_nano (utc (absence_at ab)))
                      (WithDetail ReasonDetail ''remote_not_found'' p)))
              in Inr (j\<lparr>j_phase := Attention, j_problem := Some p\<rparr>,
                   state\<lparr>orchestration := OrchestrationNeedsAttention, execution := ExecutionUnknown,
                     remote_activity := RemoteActivityInactive,
                     release_evidence := ReleaseEvidenceProviderReported,
                     cancellation := if cancellationPending state then CancellationManual
                       else cancellation state\<rparr>,
                   EventReconciliationDeferred))
      | _ \<Rightarrow> Inl DispatchConflict)"

text \<open>The state an observation leads to, before it is checked against the current one.\<close>

definition observed_state :: "attempt_state \<Rightarrow> observation \<Rightarrow> attempt_state" where
  "observed_state state ob =
     (let ex = obs_execution ob;
          nxt = state\<lparr>execution := ex, remote_activity := obs_activity ob, release_evidence := obs_release ob\<rparr>;
          nxt = (if ex = ExecutionUnknown then state\<lparr>orchestration := OrchestrationReconciling\<rparr>
                 else if execution_terminal ex then
                   nxt\<lparr>orchestration := OrchestrationCollecting,
                       deadline_exceeded := deadline_exceeded state \<or> ex = ExecutionTimedOut,
                       cancellation := (if cancellation state = CancellationNotRequested
                         then cancellation state
                         else if ex = ExecutionCancelled then CancellationConfirmed
                         else CancellationTooLate)\<rparr>
                 else if ex = ExecutionRunning \<or> ex = ExecutionStarting
                   then nxt\<lparr>orchestration := OrchestrationRunning\<rparr>
                 else nxt\<lparr>orchestration := OrchestrationSubmitted\<rparr>);
          nxt = (if \<not> execution_terminal ex \<and> cancellationPending state
                 then nxt\<lparr>orchestration := OrchestrationCancelling\<rparr> else nxt)
      in if \<not> execution_terminal ex \<and> cancellation state = CancellationManual
         then nxt\<lparr>orchestration := OrchestrationNeedsAttention\<rparr> else nxt)"

text \<open>An unknown execution counts as a failure; the last one asks for attention.\<close>

definition count_unknown ::
  "journal \<Rightarrow> journal \<Rightarrow> attempt_state \<Rightarrow> attempt_state \<Rightarrow> dispatch_error + applied" where
  "count_unknown old j state nxt =
     and_then (dispatch_problem CodeProviderStateUnknown True)
       (\<lambda>p.
         let j = j\<lparr>j_failures := min (j_failures old + 1) MaxFailures, j_problem := p\<rparr> in
         if j_failures j = MaxFailures then
           Inr (j\<lparr>j_phase := Attention\<rparr>,
             nxt\<lparr>orchestration := OrchestrationNeedsAttention,
                 cancellation := if cancellationPending state then CancellationManual else cancellation nxt\<rparr>,
             EventExecutionObserved)
         else Inr (j, nxt, EventExecutionObserved))"

definition apply_observation ::
  "journal \<Rightarrow> journal \<Rightarrow> attempt_state \<Rightarrow> action \<Rightarrow> gotime \<Rightarrow> dispatch_error + applied" where
  "apply_observation old j state a now =
     (case (j_remote old, act_observation a) of
        (Some r, Some ob) \<Rightarrow>
          if j_phase old \<noteq> Submitted \<or> observation_validate r ob \<noteq> None then Inl DispatchConflict
          else if after (obs_at ob) now
            \<or> (case j_observation old of None \<Rightarrow> False | Some seen \<Rightarrow> \<not> after (obs_at ob) (obs_at seen))
          then Inl DispatchStaleObservation
          else
            let ex = obs_execution ob; nxt = observed_state state ob in
            if ValidateAttemptStateTransition state nxt \<noteq> None then Inl DispatchStaleObservation
            else
              let j = j\<lparr>j_phase := if execution_terminal ex then Collectible else j_phase j,
                        j_observation := Some (ob\<lparr>obs_raw_state := execution_string ex\<rparr>),
                        j_problem := None, j_failures := 0\<rparr>
              in if ex \<noteq> ExecutionUnknown then Inr (j, nxt, EventExecutionObserved)
                 else count_unknown old j state nxt
      | _ \<Rightarrow> Inl DispatchConflict)"

subsection \<open>Faults\<close>

text \<open>The problem of a fault: its controlled text, the public details of the adapter, the reason and the cause.\<close>

definition fault_reason :: "journal \<Rightarrow> action \<Rightarrow> problem \<Rightarrow> string" where
  "fault_reason old a p =
     (case j_problem old of
        None \<Rightarrow> act_reason a
      | Some q \<Rightarrow> if act_reason a = [] \<and> stage q = stage p then details_get (PublicDetails q) ReasonDetail
          else act_reason a)"

definition with_public :: "string \<Rightarrow> string \<Rightarrow> problem \<Rightarrow> dispatch_error + problem" where
  "with_public key v p =
     (if v = [] then Inr p
      else let q = WithDetail key v p in
        if details_get (PublicDetails q) key \<noteq> v then Inl DispatchInvalid else Inr q)"

definition fault_problem :: "journal \<Rightarrow> action \<Rightarrow> bool \<Rightarrow> dispatch_error + problem" where
  "fault_problem old a may =
     and_then (dispatch_problem (act_code a) may)
       (\<lambda>p. case p of
            None \<Rightarrow> Inl DispatchInvalid
          | Some p \<Rightarrow>
              let p = (if act_details a = None then p
                       else p\<lparr>details := PublicDetails (p\<lparr>details := act_details a\<rparr>)\<rparr>)
              in and_then (with_public ReasonDetail (fault_reason old a p) p)
                   (with_public CauseDetail (act_cause a)))"

definition fault_resource_name :: "journal \<Rightarrow> journal \<Rightarrow> action \<Rightarrow> bool \<Rightarrow> string" where
  "fault_resource_name old j a may =
     (case dispatch_problem (act_code a) may of
        Inr (Some p) \<Rightarrow>
          let name = details_get (PublicDetails (p\<lparr>details := act_details a\<rparr>)) ''resource_name''
          in if act_details a \<noteq> None \<and> j_submit_started old \<and> j_remote old = None \<and> name \<noteq> []
             then name else j_resource_name j
      | _ \<Rightarrow> j_resource_name j)"

definition permanent_code :: "error_code \<Rightarrow> bool" where
  "permanent_code c \<longleftrightarrow> c = CodeRemoteIdentityMismatch \<or> c = CodePrivateStagingUnavailable"

definition permanent_local_code :: "error_code \<Rightarrow> bool" where
  "permanent_local_code c \<longleftrightarrow>
     permanent_code c
     \<or> c \<in> {CodeInputNotFound, CodeInputDigestMismatch, CodeInputTooLarge, CodeInvalidInputPath,
            CodeUnsupportedCapability, CodeResourceRequirementUnsatisfied}"

definition local_fault ::
  "journal \<Rightarrow> journal \<Rightarrow> attempt_state \<Rightarrow> action \<Rightarrow> problem \<Rightarrow> gotime \<Rightarrow> applied" where
  "local_fault old j state a p now =
     (let started = (case journalTime (journalDetail old localFailureDetail) of
            Some t \<Rightarrow> t | None \<Rightarrow> utc now);
          p = WithDetail localFailureDetail (format_rfc3339_nano started) p
      in if permanent_local_code (act_code a) \<or> \<not> before now (add_time started LocalFailureBudget) then
           (j\<lparr>j_phase := Failed,
              j_problem := Some (if recommended_action p = RecommendedActionReconcile
                then WithRecommendedAction RecommendedActionFixRequest p else p)\<rparr>,
            state\<lparr>orchestration := OrchestrationFailed, release_evidence := ReleaseEvidenceNotApplicable\<rparr>,
            EventReconciliationDeferred)
         else
           (j\<lparr>j_problem := Some (WithRetrySemantics True False (WithRecommendedAction RecommendedActionWait p))\<rparr>,
            state\<lparr>orchestration := OrchestrationQueued\<rparr>, EventReconciliationDeferred))"

definition planned_fault ::
  "journal \<Rightarrow> journal \<Rightarrow> attempt_state \<Rightarrow> action \<Rightarrow> problem \<Rightarrow> bool \<Rightarrow> applied" where
  "planned_fault old j state a p may =
     (let j = j\<lparr>j_problem := Some p\<rparr>;
          nxt = state\<lparr>orchestration := if may then OrchestrationReconciling else OrchestrationPreparing\<rparr>
      in if permanent_code (act_code a) \<or> j_failures j = MaxFailures \<and> \<not> unconfirmedPreparation old then
           (j\<lparr>j_phase := Attention\<rparr>,
            nxt\<lparr>orchestration := OrchestrationNeedsAttention,
                cancellation := if cancellationPending state then CancellationManual else cancellation state\<rparr>,
            EventReconciliationDeferred)
         else (j, nxt, EventReconciliationDeferred))"

definition apply_fault ::
  "journal \<Rightarrow> journal \<Rightarrow> attempt_state \<Rightarrow> action \<Rightarrow> gotime \<Rightarrow> dispatch_error + applied" where
  "apply_fault old j state a now =
     (if j_phase old \<in> {Rejected, Failed, Collectible, Attention, Prevented} then Inl DispatchConflict
      else
        let may = j_submit_started old \<and> j_phase old \<noteq> Rejected;
            j = j\<lparr>j_preparation_started :=
                    (if unconfirmedPreparation old \<and> j_preparation_started j = None then Some (utc now)
                     else j_preparation_started j),
                  j_failures := min (j_failures j + 1) MaxFailures,
                  j_resource_name := fault_resource_name old j a may\<rparr>
        in and_then (fault_problem old a may)
             (\<lambda>p. Inr (if j_plan old = None then local_fault old j state a p now
                  else planned_fault old j state a p may)))"


section \<open>Apply\<close>

definition merge_submission :: "problem \<Rightarrow> problem \<Rightarrow> problem" where
  "merge_submission q p =
     fold (\<lambda>(k, v) p. if k \<noteq> ReasonDetail \<and> details_get (details p) k = [] then WithDetail k v p else p)
       (details_list (PublicDetails q)) p"

definition final_problem :: "journal \<Rightarrow> problem option" where
  "final_problem j =
     (let p = (case (j_problem j, j_submission_problem j) of
             (Some p, Some q) \<Rightarrow> Some (merge_submission q p) | (p, _) \<Rightarrow> p)
      in case p of
           None \<Rightarrow> None
         | Some p \<Rightarrow> Some (if j_resource_name j \<noteq> [] then WithDetail ''resource_name'' (j_resource_name j) p
             else p))"

definition apply_finish :: "attempt_state \<Rightarrow> applied \<Rightarrow> dispatch_error + applied" where
  "apply_finish state x =
     (let (j, nxt, event) = x; j = j\<lparr>j_problem := final_problem j, j_version := j_version j + 1\<rparr>
      in if \<not> journal_valid j \<or> ValidateAttemptStateTransition state nxt \<noteq> None then Inl DispatchInvalid
         else Inr (j, nxt, event))"

definition apply_kind ::
  "journal \<Rightarrow> journal \<Rightarrow> attempt_state \<Rightarrow> action \<Rightarrow> gotime \<Rightarrow> dispatch_error + applied" where
  "apply_kind old j state a now =
     (case act_kind a of
        RefuseNewWork \<Rightarrow> apply_refuse old j state a
      | PreventDispatch \<Rightarrow> apply_prevent old j state a
      | ExpireDispatch \<Rightarrow> apply_prevent old j state a
      | RequestReconciliation \<Rightarrow> apply_reconcile old j state a
      | BeginPreparation \<Rightarrow> apply_begin_preparation old j state a
      | PreparationSeen \<Rightarrow> apply_preparation_seen old j state a
      | EndUnconfirmedPreparation \<Rightarrow> apply_end_unconfirmed old j state a
      | BeginSubmission \<Rightarrow> apply_begin_submission old j state a
      | SubmissionSeen \<Rightarrow> apply_submission old j state a now
      | SubmissionAbsenceSeen \<Rightarrow> apply_submission old j state a now
      | OwnerSubmissionAbsent \<Rightarrow> apply_submission old j state a now
      | RemoteAbsenceSeen \<Rightarrow> apply_remote_absence old j state a now
      | ObservationSeen \<Rightarrow> apply_observation old j state a now
      | Fault \<Rightarrow> apply_fault old j state a now
      | KindOther _ \<Rightarrow> Inl DispatchInvalid)"

definition Apply :: "journal \<Rightarrow> attempt_state \<Rightarrow> action \<Rightarrow> gotime \<Rightarrow> dispatch_error + applied" where
  "Apply old state a now =
     (if \<not> journal_valid old \<or> validate_attempt_state state \<noteq> None \<or> \<not> ValidTime now
         \<or> j_version old = MaxInt64
      then Inl DispatchInvalid
      else case journal_marshal old of
        None \<Rightarrow> Inl DispatchInvalid
      | Some raw \<Rightarrow>
          if length raw > MaxJournalBytes then Inl DispatchInvalid
          else and_then (apply_kind old (journal_copy old) state a now) (apply_finish state))"

end
