(* ===== verification/Dispatch_Facts.thy ===== *)
theory Dispatch_Facts
  imports Dispatch_Apply
begin

text \<open>
  What the dispatch state machine guarantees: it never panics, its phases follow a fixed graph, every fact
  it records is kept by later actions, and over any run of actions, restarts and changes made elsewhere a
  preparation and a start are each intended at most once.
\<close>

section \<open>Controlled problems exist\<close>

lemma provider_problem_text:
  assumes "code_stage c = Some st" "printable_byte x" "printable_byte (last (x # xs))"
  shows "provider_problem c st (x # xs) =
    Inr \<lparr>code = c, message = x # xs, stage = st, safe_operation_retry = False,
         compute_may_have_started = False, recommended_action = RecommendedActionNone, details = None\<rparr>"
proof -
  have t: "trim_space (x # xs) = x # xs" by (rule trim_space_printable_ends [OF assms(2,3)])
  have "NewProblem c (x # xs) st = Inr \<lparr>code = c, message = x # xs, stage = st, safe_operation_retry = False,
      compute_may_have_started = False, recommended_action = RecommendedActionNone, details = None\<rparr>"
    by (simp only: NewProblem_Inr_iff t assms(1)) simp
  then show ?thesis by (simp add: provider_problem_def provider_Problem_def)
qed

lemma dispatch_code_stages:
  "code_stage CodeResourceRequirementUnsatisfied = Some FailureStageValidation"
  "code_stage CodeRemoteTimeout = Some FailureStageExecution"
  "code_stage CodeStagingNotReady = Some FailureStageProviderPreparation"
  "code_stage CodeProviderRejected = Some FailureStageSubmission"
  "code_stage CodeRemoteExecutionUnresolved = Some FailureStageOperation"
  "code_stage CodeProviderSubmissionUnknown = Some FailureStageSubmission"
  "code_stage CodePrivateStagingUnavailable = Some FailureStageProviderPreparation"
  "code_stage CodeProviderStateUnknown = Some FailureStageObservation"
  by (simp_all add: code_stage_def error_code_category_def errorCategories_def)

lemmas text_simps = printable_byte_def byte_def

definition problem_of :: "error_code \<Rightarrow> failure_stage \<Rightarrow> string \<Rightarrow> problem" where
  "problem_of c st msg =
     \<lparr>code = c, message = msg, stage = st, safe_operation_retry = False,
      compute_may_have_started = False, recommended_action = RecommendedActionNone, details = None\<rparr>"

lemma provider_problem_fixed:
  assumes "code_stage c = Some st" "msg \<noteq> []" "printable_byte (hd msg)" "printable_byte (last msg)"
  shows "provider_problem c st msg = Inr (problem_of c st msg)"
  using assms provider_problem_text [of c st "hd msg" "tl msg"] by (simp add: problem_of_def)

definition refusal_texts :: "string list" where
  "refusal_texts =
     [''Host health refuses new preparation or execution.'',
      ''Retained or unconfirmed remote resources fill the operator count budget.'',
      ''Retained application images fill the operator count budget.'',
      ''Host storage budget refuses new preparation or execution.'',
      ''Host storage observation is incomplete or stale.'']"

lemma pick_some:
  assumes "(if c then Some (w, m) else rest) = Some (why, msg)"
  obtains "msg = m" | "rest = Some (why, msg)"
  using assms by (cases c) simp_all

lemma refusal_message_text: "refusal_message r = Some (why, msg) \<Longrightarrow> msg \<in> set refusal_texts"
  unfolding refusal_message_def refusal_texts_def
  by (erule pick_some, simp only: list.set insert_iff simp_thms)+ (simp only: option.distinct)

lemma refusal_texts_printable:
  "list_all (\<lambda>m. m \<noteq> [] \<and> printable_byte (hd m) \<and> printable_byte (last m)) refusal_texts"
  by (simp add: refusal_texts_def text_simps)

lemma refusal_problem:
  assumes "refusal_message r = Some (why, msg)"
  shows "provider_problem CodeResourceRequirementUnsatisfied FailureStageValidation msg
    = Inr (problem_of CodeResourceRequirementUnsatisfied FailureStageValidation msg)"
  using refusal_message_text [OF assms] refusal_texts_printable
  by (intro provider_problem_fixed) (simp_all add: dispatch_code_stages list_all_iff)

lemma fixed_problems [simp]:
  "provider_problem CodeRemoteTimeout FailureStageExecution
       ''Execution authorization deadline has expired; no new execution was requested.''
     = Inr (problem_of CodeRemoteTimeout FailureStageExecution
         ''Execution authorization deadline has expired; no new execution was requested.'')"
  "provider_problem CodeRemoteTimeout FailureStageExecution
       ''Preparation hold has expired; no new execution was requested.''
     = Inr (problem_of CodeRemoteTimeout FailureStageExecution
         ''Preparation hold has expired; no new execution was requested.'')"
  "provider_problem CodeStagingNotReady FailureStageProviderPreparation
       ''Private staging could not be confirmed within the observation budget; no execution was submitted.''
     = Inr (problem_of CodeStagingNotReady FailureStageProviderPreparation
         ''Private staging could not be confirmed within the observation budget; no execution was submitted.'')"
  "provider_problem CodeProviderRejected FailureStageSubmission
       ''Submission resolved absent; a replacement requires a new attempt''
     = Inr (problem_of CodeProviderRejected FailureStageSubmission
         ''Submission resolved absent; a replacement requires a new attempt'')"
  "provider_problem CodeRemoteExecutionUnresolved FailureStageOperation
       ''The exact remote resource is absent; final execution outcome and results remain unknown''
     = Inr (problem_of CodeRemoteExecutionUnresolved FailureStageOperation
         ''The exact remote resource is absent; final execution outcome and results remain unknown'')"
  by (rule provider_problem_fixed; simp add: dispatch_code_stages text_simps)+

lemma dispatch_problem_total: "\<exists>p. dispatch_problem c may = Inr p"
  by (auto simp: dispatch_problem_def and_then_def Let_def split: option.splits sum.splits)

lemma dispatch_problem_known:
  assumes "problem_text c = Some (st, msg, act)" "c \<noteq> CodeRemoteTimeout" "code_stage c = Some st"
    "msg \<noteq> []" "printable_byte (hd msg)" "printable_byte (last msg)"
    "recommended_action_valid act" "act \<noteq> RecommendedActionRetryComputeExplicitly"
  shows "dispatch_problem c may = Inr (Some ((problem_of c st msg)
    \<lparr>compute_may_have_started := may, recommended_action := act\<rparr>))"
proof -
  have t: "trim_space msg = msg"
    using trim_space_printable_ends [of "hd msg" "tl msg"] assms(4-6) by simp
  have new: "NewProblem c msg st = Inr (problem_of c st msg)"
    using assms(3,4) t by (simp add: NewProblem_Inr_iff problem_of_def)
  have "problem_validate ((problem_of c st msg)\<lparr>safe_operation_retry := False, compute_may_have_started := may,
      recommended_action := act\<rparr>) = None"
    using assms(3,4,7,8) t by (simp add: problem_validate_None_iff problem_of_def)
  then show ?thesis
    using assms(1,2)
    by (simp add: dispatch_problem_def new Let_def WithRetrySemantics_def WithRecommendedAction_def)
      (simp add: problem_of_def)
qed

lemma submission_unknown_problem:
  "\<exists>p. dispatch_problem CodeProviderSubmissionUnknown may = Inr (Some p)"
proof -
  have known: "problem_text CodeProviderSubmissionUnknown = Some (FailureStageSubmission,
      ''Submission may have been accepted; reconcile the recorded identity without resubmitting.'',
      RecommendedActionReconcile)"
    by (simp add: problem_text_def)
  show ?thesis
    by (rule exI, rule dispatch_problem_known [OF known]) (simp_all add: text_simps dispatch_code_stages)
qed

section \<open>No panic\<close>

definition no_dispatch_panic :: "dispatch_error + 'a \<Rightarrow> bool" where
  "no_dispatch_panic r \<longleftrightarrow> r \<noteq> Inl DispatchPanic"

lemma no_dispatch_panic_simps [simp]:
  "no_dispatch_panic (Inr x)" "no_dispatch_panic (Inl DispatchInvalid)"
  "no_dispatch_panic (Inl DispatchConflict)" "no_dispatch_panic (Inl DispatchStaleObservation)"
  by (simp_all add: no_dispatch_panic_def)

lemma no_dispatch_panic_and_then:
  "no_dispatch_panic r \<Longrightarrow> (\<And>x. r = Inr x \<Longrightarrow> no_dispatch_panic (f x)) \<Longrightarrow> no_dispatch_panic (and_then r f)"
  by (cases r) (simp_all add: and_then_def no_dispatch_panic_def)

lemma and_then_Inr [simp]: "and_then (Inr x) f = f x" "and_then (Inl e) f = Inl e"
  by (simp_all add: and_then_def)

lemma and_then_eq_Inr: "and_then r f = Inr y \<longleftrightarrow> (\<exists>x. r = Inr x \<and> f x = Inr y)"
  by (cases r) simp_all

lemma no_dispatch_panic_problem [simp]: "no_dispatch_panic (dispatch_problem c may)"
  using dispatch_problem_total [of c may] by auto

lemma planned_phase:
  assumes "journal_valid old" "j_submit_started old \<or> j_phase old \<in> {Staging, Ready, Submitting, Submitted}"
  shows "\<exists>p. j_plan old = Some p"
  using assms by (auto simp: journal_valid_def journal_unplanned_ok_def split: option.splits)

lemma accepted_has_remote:
  "submission_outcome_validate i x = None \<Longrightarrow> outcome_status x = SubmissionAccepted \<Longrightarrow>
     \<exists>r. outcome_remote x = Some r"
  by (auto simp: submission_outcome_validate_def)

lemma submission_step_no_panic:
  assumes "journal_valid old" shows "no_dispatch_panic (submission_step old j state k outcome)"
proof (cases "j_submit_started old")
  case True
  then obtain p where p: "j_plan old = Some p" using planned_phase [OF assms] by blast
  have acc: "no_dispatch_panic (submission_accepted j state x)" if "outcome_remote x \<noteq> None" for x
    using that by (auto simp: submission_accepted_def deref_def)
  have rej: "no_dispatch_panic (submission_rejected j state x)" for x
    unfolding submission_rejected_def Let_def by (rule no_dispatch_panic_and_then) simp_all
  have unk: "no_dispatch_panic (submission_unknown j state x)" for x
    using submission_unknown_problem [of True]
    by (auto simp: submission_unknown_def Let_def deref_def split: option.splits)
  show ?thesis
    using p acc rej unk accepted_has_remote
    by (auto simp: submission_step_def deref_def split: option.splits submission_status.splits)
qed (simp add: submission_step_def)

lemma apply_submission_no_panic:
  assumes "journal_valid old" shows "no_dispatch_panic (apply_submission old j state a now)"
proof -
  have conf: "no_dispatch_panic (absence_confirming old j state a now)" for j
    using submission_unknown_problem [of True] by (auto simp: absence_confirming_def Let_def deref_def)
  show ?thesis
    by (simp add: apply_submission_def Let_def submission_step_no_panic [OF assms] conf)
qed

lemma with_public_no_panic: "no_dispatch_panic (with_public key v p)"
  by (simp add: with_public_def Let_def)

lemma fault_problem_no_panic: "no_dispatch_panic (fault_problem old a may)"
  unfolding fault_problem_def
  by (rule no_dispatch_panic_and_then)
    (auto simp: Let_def with_public_no_panic intro!: no_dispatch_panic_and_then split: option.splits)

lemma apply_kind_no_panic:
  assumes "journal_valid old" shows "no_dispatch_panic (apply_kind old j state a now)"
proof (cases "act_kind a")
  case RefuseNewWork
  then show ?thesis
    by (auto simp: apply_kind_def apply_refuse_def refusal_problem Let_def split: option.splits)
next
  case PreventDispatch
  then show ?thesis by (simp add: apply_kind_def apply_prevent_def Let_def)
next
  case ExpireDispatch
  then show ?thesis
    by (auto simp: apply_kind_def apply_prevent_def Let_def intro!: no_dispatch_panic_and_then)
next
  case PreparationSeen
  have "no_dispatch_panic (apply_preparation_seen old j state a)"
    using planned_phase [OF assms]
    by (auto simp: apply_preparation_seen_def deref_def Let_def intro!: no_dispatch_panic_and_then
        split: option.splits)
  with PreparationSeen show ?thesis by (simp add: apply_kind_def)
next
  case Fault
  then show ?thesis
    by (auto simp: apply_kind_def apply_fault_def Let_def fault_problem_no_panic
        intro!: no_dispatch_panic_and_then)
next
  case ObservationSeen
  then show ?thesis
    by (auto simp: apply_kind_def apply_observation_def count_unknown_def Let_def intro!: no_dispatch_panic_and_then
        split: option.splits)
next
  case RemoteAbsenceSeen
  then show ?thesis by (simp add: apply_kind_def apply_remote_absence_def Let_def split: option.splits)
next
  case EndUnconfirmedPreparation
  then show ?thesis by (simp add: apply_kind_def apply_end_unconfirmed_def Let_def)
qed (simp_all add: apply_kind_def apply_submission_no_panic [OF assms] apply_reconcile_def
    apply_begin_preparation_def apply_begin_submission_def Let_def split: option.splits)

section \<open>What an action changes\<close>

text \<open>Every fact of the journal has one kind of action that records it; all others carry it over.\<close>

definition carries :: "kind \<Rightarrow> journal \<Rightarrow> journal \<Rightarrow> bool" where
  "carries k j j' \<longleftrightarrow>
     (k \<noteq> BeginPreparation \<longrightarrow> j_plan j' = j_plan j \<and> j_preparation_id j' = j_preparation_id j)
     \<and> (k \<noteq> PreparationSeen \<longrightarrow> j_prepared j' = j_prepared j)
     \<and> (k \<noteq> BeginSubmission \<longrightarrow> j_submit_started j' = j_submit_started j \<and> j_start j' = j_start j)
     \<and> (k \<noteq> SubmissionSeen \<longrightarrow> j_remote j' = j_remote j)
     \<and> (k \<noteq> ObservationSeen \<longrightarrow> j_observation j' = j_observation j)
     \<and> j_version j' = j_version j"

definition records :: "action \<Rightarrow> journal \<Rightarrow> attempt_state \<Rightarrow> journal \<Rightarrow> bool" where
  "records a old state j' \<longleftrightarrow>
     (act_kind a = BeginPreparation \<longrightarrow> j_plan old = None \<and> j_plan j' \<noteq> None \<and> LocalOnly state)
     \<and> (act_kind a = PreparationSeen \<longrightarrow> \<not> j_submit_started old \<and> j_prepared j' = act_prepared a)
     \<and> (act_kind a = BeginSubmission \<longrightarrow>
          j_phase old = Ready \<and> \<not> j_submit_started old \<and> j_submit_started j' \<and> LocalOnly state)
     \<and> (act_kind a = SubmissionSeen \<longrightarrow> j_submit_started old \<and> j_remote old = None)
     \<and> (act_kind a = ObservationSeen \<longrightarrow> j_remote old \<noteq> None)"

text \<open>The phase graph.\<close>

fun phase_transitions :: "phase \<Rightarrow> phase list option" where
  "phase_transitions Local = Some [Staging, Failed, Prevented]"
| "phase_transitions Staging = Some [Ready, Attention, Prevented]"
| "phase_transitions Ready = Some [Staging, Submitting, Attention, Prevented]"
| "phase_transitions Submitting = Some [Submitted, Rejected, Attention]"
| "phase_transitions Submitted = Some [Collectible, Attention]"
| "phase_transitions Attention = Some [Staging, Submitting, Submitted, Rejected, Prevented]"
| "phase_transitions Failed = Some [Prevented]"
| "phase_transitions Rejected = Some []"
| "phase_transitions Collectible = Some []"
| "phase_transitions Prevented = Some []"
| "phase_transitions (PhaseOther _) = None"

definition phase_final :: "phase \<Rightarrow> bool" where
  "phase_final p \<longleftrightarrow> p = Rejected \<or> p = Collectible \<or> p = Prevented"

interpretation ph: transition_graph phase_transitions known_phase phase_final
proof unfold_locales
  fix s ts t
  show "known_phase s \<longleftrightarrow> phase_transitions s \<noteq> None" by (cases s) simp_all
  show "known_phase t" if "phase_transitions s = Some ts" "t \<in> set ts"
    using that by (cases s) auto
  show "s \<notin> set ts" if "phase_transitions s = Some ts" using that by (cases s) auto
  show "phase_transitions s = Some []" if "phase_final s" using that by (auto simp: phase_final_def)
qed

definition lawful :: "action \<Rightarrow> journal \<Rightarrow> journal \<Rightarrow> attempt_state \<Rightarrow> dispatch_error + applied \<Rightarrow> bool" where
  "lawful a old j state r \<longleftrightarrow>
     (\<forall>j' s' e. r = Inr (j', s', e) \<longrightarrow>
        carries (act_kind a) j j' \<and> records a old state j'
        \<and> graph_step phase_transitions (j_phase old) (j_phase j'))"

lemma lawful_simps [simp]: "lawful a old j state (Inl e)"
  by (simp add: lawful_def)

lemma lawful_and_then:
  "(\<And>x. r = Inr x \<Longrightarrow> lawful a old j state (f x)) \<Longrightarrow> lawful a old j state (and_then r f)"
  by (cases r) simp_all

lemma lawful_Inr:
  "lawful a old j state (Inr (j', s', e)) \<longleftrightarrow>
     carries (act_kind a) j j' \<and> records a old state j'
     \<and> graph_step phase_transitions (j_phase old) (j_phase j')"
  by (simp add: lawful_def)

lemma journal_valid_phase:
  assumes "journal_valid old"
  shows "known_phase (j_phase old)"
    "j_plan old = None \<Longrightarrow> j_phase old \<in> {Local, Failed, Prevented}"
    "j_plan old \<noteq> None \<Longrightarrow> j_phase old \<noteq> Local \<and> j_phase old \<noteq> Failed"
    "j_submit_started old \<Longrightarrow> j_phase old \<in> {Submitting, Submitted, Rejected, Collectible, Attention}"
    "j_phase old \<in> {Submitting, Submitted, Rejected, Collectible} \<Longrightarrow> j_submit_started old"
    "j_phase old \<in> {Submitted, Collectible} \<Longrightarrow> j_remote old \<noteq> None"
proof -
  note v = assms [unfolded journal_valid_def journal_evidence_ok_def]
  show "known_phase (j_phase old)" using v by simp
  show "j_phase old \<in> {Local, Failed, Prevented}" if "j_plan old = None"
    using v that by (simp add: journal_unplanned_ok_def)
  show "j_phase old \<noteq> Local \<and> j_phase old \<noteq> Failed" if "j_plan old \<noteq> None"
    using v that by (auto simp: journal_planned_ok_def)
  show "j_phase old \<in> {Submitting, Submitted, Rejected, Collectible, Attention}" if "j_submit_started old"
    using v that
    by (cases "j_phase old") (auto simp: journal_planned_ok_def journal_unplanned_ok_def split: option.splits)
  show "j_submit_started old" if "j_phase old \<in> {Submitting, Submitted, Rejected, Collectible}"
    using v that by (auto simp: journal_planned_ok_def journal_unplanned_ok_def split: option.splits)
  show "j_remote old \<noteq> None" if "j_phase old \<in> {Submitted, Collectible}"
    using v that
    by (cases "j_plan old") (auto simp: journal_planned_ok_def journal_unplanned_ok_def)
qed

lemmas law_simps = lawful_Inr carries_def records_def graph_step_def Let_def

lemma law_refuse:
  "act_kind a = RefuseNewWork \<Longrightarrow> lawful a old (journal_copy old) state (apply_refuse old (journal_copy old) state a)"
  by (auto simp: apply_refuse_def law_simps split: option.splits intro!: lawful_and_then)

lemma prevented_step:
  assumes "journal_valid old" "\<not> j_submit_started old"
  shows "graph_step phase_transitions (j_phase old) Prevented"
  using journal_valid_phase(1,5) [OF assms(1)] assms(2) by (cases "j_phase old") (auto simp: graph_step_def)

lemma law_prevent:
  assumes "journal_valid old" "act_kind a = PreventDispatch \<or> act_kind a = ExpireDispatch"
  shows "lawful a old (journal_copy old) state (apply_prevent old (journal_copy old) state a)"
  using assms(2) prevented_step [OF assms(1)]
  by (auto simp: apply_prevent_def lawful_Inr carries_def records_def Let_def intro!: lawful_and_then)

lemma law_reconcile:
  assumes "journal_valid old" "act_kind a = RequestReconciliation"
  shows "lawful a old (journal_copy old) state (apply_reconcile old (journal_copy old) state a)"
  using assms(2) journal_valid_phase(4,6) [OF assms(1)]
  by (auto simp: apply_reconcile_def law_simps)

lemma law_begin_preparation:
  assumes "act_kind a = BeginPreparation"
  shows "lawful a old (journal_copy old) state (apply_begin_preparation old (journal_copy old) state a)"
  using assms by (auto simp: apply_begin_preparation_def law_simps split: option.splits)

lemma law_preparation_seen:
  assumes "act_kind a = PreparationSeen"
  shows "lawful a old (journal_copy old) state (apply_preparation_seen old (journal_copy old) state a)"
  using assms by (auto simp: apply_preparation_seen_def law_simps split: option.splits intro!: lawful_and_then)

lemma law_end_unconfirmed:
  assumes "act_kind a = EndUnconfirmedPreparation"
  shows "lawful a old (journal_copy old) state (apply_end_unconfirmed old (journal_copy old) state a)"
  using assms by (auto simp: apply_end_unconfirmed_def law_simps)

lemma law_begin_submission:
  assumes "act_kind a = BeginSubmission"
  shows "lawful a old (journal_copy old) state (apply_begin_submission old (journal_copy old) state a)"
  using assms by (auto simp: apply_begin_submission_def law_simps split: option.splits)

lemma law_submission_seen:
  assumes "act_kind a = SubmissionSeen"
  shows "lawful a old (journal_copy old) state (apply_submission old (journal_copy old) state a now)"
  using assms
  by (auto simp: apply_submission_def submission_step_def submission_accepted_def submission_rejected_def
      submission_unknown_def law_simps split: option.splits submission_status.splits intro!: lawful_and_then)

lemma law_absence_confirming:
  assumes "act_kind a = SubmissionAbsenceSeen" "j_phase old = Submitting \<or> j_phase old = Attention"
    "carries SubmissionAbsenceSeen (journal_copy old) j"
  shows "lawful a old (journal_copy old) state (absence_confirming old j state a now)"
  using assms by (auto simp: absence_confirming_def law_simps intro!: lawful_and_then)

lemma law_submission_absent:
  assumes "act_kind a = SubmissionAbsenceSeen \<or> act_kind a = OwnerSubmissionAbsent"
  shows "lawful a old (journal_copy old) state (apply_submission old (journal_copy old) state a now)"
proof -
  have rej: "lawful a old (journal_copy old) state (submission_step old j state (act_kind a)
      (Some \<lparr>outcome_status = SubmissionRejected, outcome_remote = None, outcome_problem = q\<rparr>))"
    if "carries (act_kind a) (journal_copy old) j" "j_phase old = Submitting \<or> j_phase old = Attention" for j q
    using that assms
    by (auto simp: submission_step_def submission_rejected_def law_simps split: option.splits
        intro!: lawful_and_then)
  have c: "carries k (journal_copy old) ((journal_copy old)\<lparr>j_resource_name := n\<rparr>)" for k n
    by (simp add: carries_def)
  show ?thesis
    using assms rej [OF c] law_absence_confirming [OF _ _ c]
    by (auto simp: apply_submission_def Let_def)
qed

lemma law_remote_absence:
  assumes "act_kind a = RemoteAbsenceSeen"
  shows "lawful a old (journal_copy old) state (apply_remote_absence old (journal_copy old) state a now)"
  using assms by (auto simp: apply_remote_absence_def law_simps split: option.splits)

lemma law_observation:
  assumes "act_kind a = ObservationSeen"
  shows "lawful a old (journal_copy old) state (apply_observation old (journal_copy old) state a now)"
  using assms by (auto simp: apply_observation_def count_unknown_def law_simps split: option.splits intro!: lawful_and_then)

lemma law_fault:
  assumes "journal_valid old" "act_kind a = Fault"
  shows "lawful a old (journal_copy old) state (apply_fault old (journal_copy old) state a now)"
proof -
  have loc: "lawful a old (journal_copy old) state (Inr (local_fault old j state a p now))"
    if "carries Fault (journal_copy old) j" "j_phase j = j_phase old" "j_phase old = Local" for j p
    using that assms(2) by (auto simp: local_fault_def law_simps)
  have pl: "lawful a old (journal_copy old) state (Inr (planned_fault old j state a p may))"
    if "carries Fault (journal_copy old) j" "j_phase j = j_phase old"
      "j_phase old \<in> {Staging, Ready, Submitting, Submitted}" for j p may
    using that assms(2) by (auto simp: planned_fault_def law_simps)
  show ?thesis
  proof (cases "j_phase old \<in> {Rejected, Failed, Collectible, Attention, Prevented}")
    case False
    then have ph: "j_plan old = None \<Longrightarrow> j_phase old = Local"
      "j_plan old \<noteq> None \<Longrightarrow> j_phase old \<in> {Staging, Ready, Submitting, Submitted}"
      using journal_valid_phase(1-3) [OF assms(1)] by (cases "j_phase old"; auto)+
    show ?thesis using False loc pl ph
      by (auto simp: apply_fault_def Let_def carries_def intro!: lawful_and_then)
  qed (auto simp: apply_fault_def)
qed

lemma apply_kind_lawful:
  assumes "journal_valid old"
  shows "lawful a old (journal_copy old) state (apply_kind old (journal_copy old) state a now)"
  using assms law_refuse law_prevent law_reconcile law_begin_preparation law_preparation_seen
    law_end_unconfirmed law_begin_submission law_submission_seen law_submission_absent law_remote_absence
    law_observation law_fault
  by (cases "act_kind a") (simp_all add: apply_kind_def)


section \<open>Accepted actions\<close>

lemma Apply_Inr:
  assumes "Apply old state a now = Inr (j', s', e)"
  shows "journal_valid old" "state_ok state" "ValidTime now" "journal_valid j'" "attempt_step state s'"
    "j_version j' = j_version old + 1"
    "carries (act_kind a) ((journal_copy old)\<lparr>j_version := j_version j'\<rparr>) j'" "records a old state j'"
    "graph_step phase_transitions (j_phase old) (j_phase j')"
    "\<exists>j. apply_kind old (journal_copy old) state a now = Inr (j, s', e)
       \<and> j' = j\<lparr>j_problem := final_problem j, j_version := j_version j + 1\<rparr>"
proof -
  show ok: "journal_valid old" "state_ok state" "ValidTime now"
    using assms by (auto simp: Apply_def split: if_splits)
  obtain j where j: "apply_kind old (journal_copy old) state a now = Inr (j, s', e)"
      "j' = j\<lparr>j_problem := final_problem j, j_version := j_version j + 1\<rparr>"
      "journal_valid j'" "attempt_step state s'"
    using assms ok
    by (auto simp: Apply_def and_then_eq_Inr apply_finish_def attempt_step_def Let_def
        split: if_splits option.splits)
  then show "\<exists>j. apply_kind old (journal_copy old) state a now = Inr (j, s', e)
      \<and> j' = j\<lparr>j_problem := final_problem j, j_version := j_version j + 1\<rparr>"
    "journal_valid j'" "attempt_step state s'" by blast+
  have law: "carries (act_kind a) (journal_copy old) j" "records a old state j"
      "graph_step phase_transitions (j_phase old) (j_phase j)"
    using apply_kind_lawful [OF ok(1), of a state now] j(1) by (simp_all add: lawful_def)
  then show "graph_step phase_transitions (j_phase old) (j_phase j')" by (simp add: j(2))
  show v: "j_version j' = j_version old + 1" using law(1) by (simp add: j(2) carries_def)
  show "carries (act_kind a) ((journal_copy old)\<lparr>j_version := j_version j'\<rparr>) j'"
    using law(1) by (simp add: j(2) carries_def)
  show "records a old state j'" using law(2) by (simp add: j(2) records_def)
qed

section \<open>Runs\<close>

text \<open>
  A run of one attempt: accepted actions, at any time and with any input, interleaved with restarts that read
  the journal back from its encoded form and with valid changes of the attempt state made by other parts of the
  runtime. The list records the kinds of the accepted actions in order.
\<close>

inductive dispatch_run :: "journal \<Rightarrow> attempt_state \<Rightarrow> kind list \<Rightarrow> journal \<Rightarrow> attempt_state \<Rightarrow> bool" for j0 s0 where
  start: "dispatch_run j0 s0 [] j0 s0"
| accepted: "dispatch_run j0 s0 ks j s \<Longrightarrow> Apply j s a now = Inr (j', s', e) \<Longrightarrow>
    dispatch_run j0 s0 (ks @ [act_kind a]) j' s'"
| restart: "dispatch_run j0 s0 ks j s \<Longrightarrow> dispatch_run j0 s0 ks (journal_copy j) s"
| elsewhere: "dispatch_run j0 s0 ks j s \<Longrightarrow> attempt_step s s' \<Longrightarrow> dispatch_run j0 s0 ks j s'"

lemma count_list_snoc: "count_list (xs @ [x]) y = count_list xs y + (if x = y then 1 else 0)"
  by (induction xs) auto

lemma Apply_plan_intent:
  assumes "Apply old state a now = Inr (j', s', e)"
  shows "of_bool (j_plan j' \<noteq> None) = of_bool (j_plan old \<noteq> None) + (if act_kind a = BeginPreparation then 1 else 0 :: nat)"
  using Apply_Inr(7,8) [OF assms] by (auto simp: carries_def records_def)

lemma Apply_start_intent:
  assumes "Apply old state a now = Inr (j', s', e)"
  shows "of_bool (j_submit_started j') = of_bool (j_submit_started old) + (if act_kind a = BeginSubmission then 1 else 0 :: nat)"
  using Apply_Inr(7,8) [OF assms] by (auto simp: carries_def records_def)

lemma run_intents:
  assumes "dispatch_run j0 s0 ks j s"
  shows "of_bool (j_plan j \<noteq> None) = of_bool (j_plan j0 \<noteq> None) + count_list ks BeginPreparation"
    "of_bool (j_submit_started j) = of_bool (j_submit_started j0) + count_list ks BeginSubmission"
  using assms
proof (induction rule: dispatch_run.induct)
  case (accepted ks j s a now j' s' e)
  { case 1 then show ?case using accepted Apply_plan_intent [OF accepted.hyps(2)] by (simp add: count_list_snoc) }
  { case 2 then show ?case using accepted Apply_start_intent [OF accepted.hyps(2)] by (simp add: count_list_snoc) }
qed simp_all

section \<open>Histories\<close>

text \<open>
  The run of an attempt with the accepted actions themselves, each with the time at which it was applied, so
  that a later decision can be traced to the evidence it rests on.
\<close>

inductive dispatch_history ::
  "journal \<Rightarrow> attempt_state \<Rightarrow> (action \<times> gotime) list \<Rightarrow> journal \<Rightarrow> attempt_state \<Rightarrow> bool" for j0 s0 where
  h_start: "dispatch_history j0 s0 [] j0 s0"
| h_accepted: "dispatch_history j0 s0 h j s \<Longrightarrow> Apply j s a now = Inr (j', s', e) \<Longrightarrow>
    dispatch_history j0 s0 (h @ [(a, now)]) j' s'"
| h_restart: "dispatch_history j0 s0 h j s \<Longrightarrow> dispatch_history j0 s0 h (journal_copy j) s"
| h_elsewhere: "dispatch_history j0 s0 h j s \<Longrightarrow> attempt_step s s' \<Longrightarrow> dispatch_history j0 s0 h j s'"

lemma history_run:
  "dispatch_history j0 s0 h j s \<Longrightarrow> dispatch_run j0 s0 (map (act_kind \<circ> fst) h) j s"
proof (induction rule: dispatch_history.induct)
  case (h_accepted h j s a now j' s' e)
  then show ?case using dispatch_run.accepted [OF h_accepted.IH h_accepted.hyps(2)] by simp
qed (auto intro: dispatch_run.intros)

lemma run_attempt: "dispatch_run j0 s0 ks j s \<Longrightarrow> attempt_step\<^sup>*\<^sup>* s0 s"
proof (induction rule: dispatch_run.induct)
  case (accepted ks j s a now j' s' e)
  show ?case using accepted.IH Apply_Inr(5) [OF accepted.hyps(2)] by (rule rtranclp.rtrancl_into_rtrancl)
next
  case (elsewhere ks j s s')
  show ?case using elsewhere.IH elsewhere.hyps(2) by (rule rtranclp.rtrancl_into_rtrancl)
qed auto

subsection \<open>Where a recorded absence comes from\<close>

text \<open>Only an inventory without the resource starts the grace period, and only a reconciliation in which the
  owner vouches for the resource withdraws it.\<close>

definition absence_kept :: "journal \<Rightarrow> dispatch_error + applied \<Rightarrow> bool" where
  "absence_kept j r \<longleftrightarrow>
     (\<forall>j' s' e. r = Inr (j', s', e) \<longrightarrow> j_absence_at j' = j_absence_at j \<and> j_owner_present j' = j_owner_present j)"

lemma absence_kept_simps [simp]:
  "absence_kept j (Inl err)"
  "absence_kept j (Inr (j', s', e)) \<longleftrightarrow> j_absence_at j' = j_absence_at j \<and> j_owner_present j' = j_owner_present j"
  by (auto simp: absence_kept_def)

lemma absence_kept_and_then: "(\<And>x. absence_kept j (f x)) \<Longrightarrow> absence_kept j (and_then r f)"
  by (cases r) simp_all

lemma submission_step_absence:
  assumes "j_absence_at j1 = j_absence_at j" "j_owner_present j1 = j_owner_present j"
  shows "absence_kept j (submission_step old j1 state k outcome)"
  unfolding submission_step_def submission_accepted_def submission_rejected_def submission_unknown_def Let_def
  using assms
  by (auto split: option.splits submission_status.splits intro!: absence_kept_and_then)

lemma apply_submission_absence:
  assumes "act_kind a \<noteq> SubmissionAbsenceSeen"
  shows "act_kind a = SubmissionSeen \<or> act_kind a = OwnerSubmissionAbsent \<Longrightarrow>
    absence_kept j (apply_submission old j state a now)"
  using assms submission_step_absence [of j j] submission_step_absence [of "j\<lparr>j_resource_name := act_resource_name a\<rparr>" j]
  by (auto simp: apply_submission_def Let_def intro!: absence_kept_and_then)

lemma apply_kind_absence:
  assumes "act_kind a \<noteq> SubmissionAbsenceSeen" "act_kind a \<noteq> RequestReconciliation"
  shows "absence_kept j (apply_kind old j state a now)"
proof (cases "act_kind a")
  case PreparationSeen
  then show ?thesis
    by (auto simp: apply_kind_def apply_preparation_seen_def Let_def split: option.splits
        intro!: absence_kept_and_then)
next
  case EndUnconfirmedPreparation
  then show ?thesis
    by (auto simp: apply_kind_def apply_end_unconfirmed_def Let_def intro!: absence_kept_and_then)
next
  case RemoteAbsenceSeen
  then show ?thesis
    by (auto simp: apply_kind_def apply_remote_absence_def Let_def split: option.splits
        intro!: absence_kept_and_then)
next
  case ObservationSeen
  then show ?thesis
    by (auto simp: apply_kind_def apply_observation_def count_unknown_def Let_def split: option.splits
        intro!: absence_kept_and_then)
next
  case Fault
  then show ?thesis
    by (auto simp: apply_kind_def apply_fault_def local_fault_def planned_fault_def Let_def
        intro!: absence_kept_and_then)
qed (use assms in \<open>auto simp: apply_kind_def apply_refuse_def apply_prevent_def apply_begin_preparation_def
    apply_begin_submission_def apply_submission_absence Let_def split: option.splits
    intro!: absence_kept_and_then\<close>)

definition owner_vouches :: "action \<Rightarrow> bool" where
  "owner_vouches a \<longleftrightarrow> act_kind a = RequestReconciliation \<and> act_owner_present a"

lemma reconcile_absence:
  assumes "apply_reconcile old j state a = Inr (j1, s', e)"
  shows "j_owner_present j1 = (act_owner_present a \<or> j_owner_present j)"
    "j_absence_at j1 = (if act_owner_present a then None else j_absence_at j)"
  using assms by (simp_all add: apply_reconcile_def Let_def split: if_splits) (auto split: if_splits)

lemma absence_seen:
  assumes "apply_submission old j state a now = Inr (j1, s', e)" "act_kind a = SubmissionAbsenceSeen"
    "j_absence_at j = j_absence_at old" "j_owner_present j = j_owner_present old"
  shows "j_owner_present j1 = j_owner_present old"
    "j_absence_at j1 = (if j_absence_at old = None then Some (utc now) else j_absence_at old)"
proof -
  let ?j = "j\<lparr>j_resource_name := act_resource_name a\<rparr>"
  have confirming: "j_owner_present j1 = j_owner_present old
      \<and> j_absence_at j1 = (if j_absence_at old = None then Some (utc now) else j_absence_at old)"
    if "absence_confirming old ?j state a now = Inr (j1, s', e)"
    using that assms(3,4) by (auto simp: absence_confirming_def and_then_eq_Inr Let_def)
  have deciding: "j_owner_present j1 = j_owner_present old \<and> j_absence_at j1 = j_absence_at old"
    if "submission_step old ?j state k x = Inr (j1, s', e)" for k x
    using submission_step_absence [of ?j j old state k x] that assms(3,4) by (simp add: absence_kept_def)
  have "j_owner_present j1 = j_owner_present old
      \<and> j_absence_at j1 = (if j_absence_at old = None then Some (utc now) else j_absence_at old)"
  proof (cases "case j_absence_at old of None \<Rightarrow> True | Some t \<Rightarrow> before now (add_time t SubmissionAbsenceGrace)")
    case True
    then show ?thesis using assms(1,2) confirming by (simp add: apply_submission_def Let_def split: if_splits)
  next
    case False
    then have "j_absence_at old \<noteq> None" by (cases "j_absence_at old") simp_all
    then show ?thesis using assms(1,2) False deciding
      by (auto simp: apply_submission_def and_then_eq_Inr Let_def split: if_splits)
  qed
  then show "j_owner_present j1 = j_owner_present old"
    "j_absence_at j1 = (if j_absence_at old = None then Some (utc now) else j_absence_at old)" by simp_all
qed

lemma Apply_absence:
  assumes "Apply old state a now = Inr (j', s', e)"
  shows "j_owner_present j' = (owner_vouches a \<or> j_owner_present old)"
    "j_absence_at j' = (if owner_vouches a then None
       else if act_kind a = SubmissionAbsenceSeen \<and> j_absence_at old = None then Some (utc now)
       else j_absence_at old)"
proof -
  obtain j where j: "apply_kind old (journal_copy old) state a now = Inr (j, s', e)"
      "j_absence_at j' = j_absence_at j" "j_owner_present j' = j_owner_present j"
    using Apply_Inr(10) [OF assms] by force
  have "j_owner_present j = (owner_vouches a \<or> j_owner_present old)
      \<and> j_absence_at j = (if owner_vouches a then None
       else if act_kind a = SubmissionAbsenceSeen \<and> j_absence_at old = None then Some (utc now)
       else j_absence_at old)"
  proof (cases "act_kind a = SubmissionAbsenceSeen \<or> act_kind a = RequestReconciliation")
    case False
    then show ?thesis
      using apply_kind_absence [of a "journal_copy old" old state now] j(1)
      by (simp add: absence_kept_def owner_vouches_def)
  next
    case True
    then show ?thesis
      using j(1) reconcile_absence [of old "journal_copy old" state a j s' e]
        absence_seen [of old "journal_copy old" state a now j s' e]
      by (auto simp: apply_kind_def owner_vouches_def)
  qed
  then show "j_owner_present j' = (owner_vouches a \<or> j_owner_present old)"
    "j_absence_at j' = (if owner_vouches a then None
       else if act_kind a = SubmissionAbsenceSeen \<and> j_absence_at old = None then Some (utc now)
       else j_absence_at old)" using j(2,3) by simp_all
qed

lemma history_owner:
  "dispatch_history j0 s0 h j s \<Longrightarrow> \<not> j_owner_present j0 \<Longrightarrow>
     j_owner_present j \<longleftrightarrow> (\<exists>c \<in> set h. owner_vouches (fst c))"
proof (induction rule: dispatch_history.induct)
  case (h_accepted h j s a now j' s' e)
  then show ?case using Apply_absence(1) [OF h_accepted.hyps(2)] by auto
qed auto

lemma history_absence:
  "dispatch_history j0 s0 h j s \<Longrightarrow> j_absence_at j0 = None \<Longrightarrow> j_absence_at j = Some t \<Longrightarrow>
     \<exists>b now. (b, now) \<in> set h \<and> act_kind b = SubmissionAbsenceSeen \<and> t = utc now"
proof (induction rule: dispatch_history.induct)
  case (h_accepted h j s a now j' s' e)
  then show ?case using Apply_absence(2) [OF h_accepted.hyps(2)] by (auto split: if_splits)
qed auto

end
