(* ===== verification/Dispatch_Samples.thy ===== *)
theory Dispatch_Samples
  imports Dispatch_Facts
begin

text \<open>
  One attempt from its empty journal to collectible results: the accepted actions of a whole dispatch, with
  every check of the journal evaluated. The size of an encoded journal is bounded field by field.
\<close>

section \<open>A bound on encoded sizes\<close>

fun json_size :: "json \<Rightarrow> nat" where
  "json_size JNull = 4"
| "json_size (JBool b) = 5"
| "json_size (JInt n) = length (format_int n)"
| "json_size (JString s) = 6 * length s + 2"
| "json_size (JRaw s) = 6 * length s"
| "json_size (JArray vs) = sum_list (map (\<lambda>v. json_size v + 1) vs) + 2"
| "json_size (JObject fs) = sum_list (map (\<lambda>(k, v). 6 * length k + json_size v + 4) fs) + 2"

lemma length_unicode_escape [simp]: "length (unicode_escape n) = 6"
  by (simp add: unicode_escape_def)

lemma length_json_escape_byte: "length (json_escape_byte html c) \<le> 6"
  by (simp add: json_escape_byte_def)

lemma length_json_chars: "length (json_chars html s) \<le> 6 * length s"
proof (induction html s rule: json_chars.induct)
  case (2 html c cs)
  show ?case
  proof (cases "byte c < 128")
    case True
    then show ?thesis using "2.IH"(1) length_json_escape_byte [of html c] by simp
  next
    case False
    define n where "n = utf8_rune_len (c # cs)"
    show ?thesis
    proof (cases "n = 0")
      case True
      then show ?thesis using "2.IH"(2) [OF False n_def] False by (simp add: n_def Let_def)
    next
      case pos: False
      have rest: "length (json_chars html (drop (n - 1) cs)) \<le> 6 * (length cs - (n - 1))"
        using "2.IH"(3) [OF False n_def refl pos] by simp
      let ?r = "take n (c # cs)"
      have r: "length ?r = min n (Suc (length cs))" by simp
      have sep: "6 \<le> 6 * length ?r" "length ?r \<le> 6 * length ?r" using pos by (simp_all add: r)
      have step: "length (json_chars html (c # cs)) \<le> 6 * length ?r + length (json_chars html (drop (n - 1) cs))"
        using False pos sep by (simp add: n_def [symmetric] Let_def)
      have "6 * length ?r + 6 * (length cs - (n - 1)) = 6 * length (c # cs)"
        using pos by (cases "n \<le> Suc (length cs)") (simp_all add: min_def flip: add_mult_distrib2)
      then show ?thesis using step rest by linarith
    qed
  qed
qed simp

lemma separator_lengths [simp]: "length line_separator = 3" "length paragraph_separator = 3"
  by (simp_all add: line_separator_def paragraph_separator_def)

lemma length_json_compact: "length (json_compact html m s) \<le> 6 * length s"
proof (induction html m s rule: json_compact.induct)
  case (2 html c cs)
  then show ?case by (cases "json_space c") simp_all
next
  case (4 html c cs)
  have two: "2 \<le> length cs" if "take 3 (c # cs) = line_separator \<or> take 3 (c # cs) = paragraph_separator"
    using that separator_lengths by (metis Suc_le_mono length_Cons length_take min.cobounded1 numeral_2_eq_2
        numeral_3_eq_3)
  show ?case
  proof (cases "c = CHR 0x22 \<or> c = CHR 0x5C")
    case True
    then show ?thesis
    proof
      assume c: "c = CHR 0x22"
      show ?thesis using "4.IH"(1) [OF c] by (simp add: c)
    next
      assume c: "c = CHR 0x5C"
      have "length (json_compact html Escaped cs) \<le> 6 * length cs" using "4.IH"(2) c by simp
      then show ?thesis by (simp add: c)
    qed
  next
    case plain: False
    show ?thesis
    proof (cases "html \<and> (c = CHR ''<'' \<or> c = CHR ''>'' \<or> c = CHR ''&'')")
      case True
      then have "json_compact html Inside (c # cs) = unicode_escape (byte c) @ json_compact html Inside cs"
        using plain by simp
      then show ?thesis using "4.IH"(3) plain True by simp
    next
      case tame: False
      let ?sep = "html \<and> (take 3 (c # cs) = line_separator \<or> take 3 (c # cs) = paragraph_separator)"
      show ?thesis
      proof (cases ?sep)
        case True
        then have "length (json_compact html Inside (c # cs)) = 6 + length (json_compact html Inside (drop 2 cs))"
          using plain tame by (cases "take 3 (c # cs) = line_separator") simp_all
        moreover have "length (json_compact html Inside (drop 2 cs)) \<le> 6 * length (drop 2 cs)"
          using "4.IH"(4,5) plain tame True by (cases "take 3 (c # cs) = line_separator") simp_all
        ultimately show ?thesis using two True by simp
      next
        case False
        then have "json_compact html Inside (c # cs) = c # json_compact html Inside cs"
          using plain tame by (cases html) simp_all
        then show ?thesis using "4.IH"(6) plain tame False by simp
      qed
    qed
  qed
qed simp_all

lemma length_join_with: "length (join_with [c] xs) \<le> sum_list (map (\<lambda>x. length x + 1) xs)"
  by (induction "[c]" xs rule: join_with.induct) simp_all

lemma json_render_size: "length (json_render html v) \<le> json_size v"
proof (induction html v rule: json_render.induct)
  case (4 html s)
  then show ?case using length_json_chars [of html s] by (simp add: json_quote_def)
next
  case (5 html s)
  then show ?case using length_json_compact by simp
next
  case (6 html vs)
  have "sum_list (map (\<lambda>x. length x + 1) (map (json_render html) vs)) \<le> sum_list (map (\<lambda>v. json_size v + 1) vs)"
    using 6 by (simp add: comp_def) (rule sum_list_mono; simp)
  then show ?case using length_join_with [of "CHR '',''" "map (json_render html) vs"] by simp
next
  case (7 html fs)
  let ?f = "\<lambda>(k, v). json_quote html k @ '':'' @ json_render html v"
  have "length (?f kv) + 1 \<le> (\<lambda>(k, v). 6 * length k + json_size v + 4) kv" if "kv \<in> set fs" for kv
    using 7 [of kv] that length_json_chars [of html "fst kv"] by (cases kv) (auto simp: json_quote_def)
  then have "sum_list (map (\<lambda>x. length x + 1) (map ?f fs))
      \<le> sum_list (map (\<lambda>(k, v). 6 * length k + json_size v + 4) fs)"
    by (simp add: comp_def) (rule sum_list_mono; fastforce)
  then show ?case using length_join_with [of "CHR '',''" "map ?f fs"] by simp
qed simp_all


section \<open>The values of the run\<close>

definition run_identity :: identity where
  "run_identity =
     \<lparr>id_installation = ''inst_1'', id_workspace = ''ws_1'', id_job = ''job_1'', id_attempt = ''att_1'',
      id_instance = ''prov_1'', id_intent = ''intent_1'', id_resource_key = ''res_1'',
      id_nonce = ''nonce0123456789ab'', id_bundle = sha256_hex ''bundle'',
      id_manifest = InputDigest sample_snapshot\<rparr>"

definition run_plan :: plan where
  "run_plan =
     \<lparr>plan_job = \<lparr>rj_identity = run_identity,
        rj_binding = \<lparr>binding_profile = ''profile'', binding_instance = ''prov_1'', binding_revision = ''rev''\<rparr>,
        rj_specification = ''{}'', rj_specification_sha256 = Digest ''{}'',
        rj_required = Some [CapabilityBatchExecution], rj_wall_seconds = 60, rj_inputs = Some sample_snapshot\<rparr>,
      plan_verify_after_start = None\<rparr>"

definition run_prepared :: prepared where
  "run_prepared =
     \<lparr>prep_verification = [], prep_manifest = [], prep_identity = run_identity, prep_id = ''prep_1'',
      prep_plan = plan_digest run_plan, prep_resource = ''kernel_1'', prep_ready = True, prep_private = True\<rparr>"

definition run_remote :: remote_reference where
  "run_remote = \<lparr>remote_identity = run_identity, remote_resource = ''kernel_1'', remote_version = ''v1''\<rparr>"

definition run_observation :: "execution_state \<Rightarrow> observation" where
  "run_observation ex =
     \<lparr>obs_remote = run_remote, obs_execution = ex, obs_raw_state = execution_string ex,
      obs_activity = RemoteActivityInactive, obs_release = ReleaseEvidenceUnknown, obs_at = sample_now\<rparr>"

definition idle_action :: "kind \<Rightarrow> action" where
  "idle_action k =
     \<lparr>act_refusal_reason = [], act_secrets_available = False, act_kind = k, act_plan = None,
      act_preparation_id = [], act_prepared = None, act_submission = None, act_absence = None,
      act_observation = None, act_code = CodeProviderUnreachable, act_reason = [], act_cause = [],
      act_details = None, act_resource_name = [], act_owner_present = False, act_start = None,
      act_preparation_expired = False\<rparr>"

definition empty_journal :: journal where
  "empty_journal =
     \<lparr>j_version = 0, j_phase = Local, j_plan = None, j_preparation_id = [], j_preparation_started = None,
      j_prepared = None, j_submit_started = False, j_submission_problem = None, j_absence_at = None,
      j_resource_name = [], j_owner_present = False, j_start = None, j_remote = None, j_observation = None,
      j_problem = None, j_failures = 0\<rparr>"

definition staging_journal :: journal where
  "staging_journal = empty_journal
     \<lparr>j_version := 1, j_phase := Staging, j_plan := Some run_plan, j_preparation_id := ''prep_1''\<rparr>"

definition ready_journal :: journal where
  "ready_journal = staging_journal\<lparr>j_version := 2, j_phase := Ready, j_prepared := Some run_prepared\<rparr>"

definition submitting_journal :: journal where
  "submitting_journal = ready_journal\<lparr>j_version := 3, j_phase := Submitting, j_submit_started := True\<rparr>"

definition submitted_journal :: journal where
  "submitted_journal = submitting_journal\<lparr>j_version := 4, j_phase := Submitted, j_remote := Some run_remote\<rparr>"

definition collectible_journal :: journal where
  "collectible_journal = submitted_journal
     \<lparr>j_version := 5, j_phase := Collectible, j_observation := Some (run_observation ExecutionSucceeded)\<rparr>"

lemmas journal_defs = empty_journal_def staging_journal_def ready_journal_def submitting_journal_def
  submitted_journal_def collectible_journal_def

subsection \<open>They are valid\<close>

lemma run_identity_valid: "identity_validate run_identity = None"
  by (simp add: identity_validate_def run_identity_def sample_ids more_sample_ids InputDigest_def)

lemma run_job_valid: "resolved_job_validate (plan_job run_plan) = None"
proof -
  have spec: "specification_check ''{}'' = None"
  proof -
    have "trim_space ''{}'' = ''{}''" by (rule trim_space_printable_ends) (simp_all add: text_simps)
    then show ?thesis by (simp add: specification_check_def Let_def json_valid_empty_object)
  qed
  have names: "\<not> blank ''batch_execution''" "\<not> blank ''profile''" "\<not> blank ''rev''"
    by (rule not_blank_printable; simp add: text_simps)+
  show ?thesis
    using run_identity_valid sample_snapshot_valid spec names
    by (simp add: resolved_job_validate_def run_plan_def binding_validate_def more_sample_ids
        MaxRemoteWallSeconds_def CapabilityBatchExecution_def)
      (simp add: run_identity_def sample_snapshot_def)
qed

lemma run_prepared_valid: "prepared_validate run_plan ''prep_1'' run_prepared = None"
proof -
  have "\<not> blank ''kernel_1''" by (rule not_blank_printable) (simp_all add: text_simps)
  then show ?thesis
    using run_job_valid
    by (simp add: prepared_validate_def run_prepared_def more_sample_ids safeText_def control_byte_def byte_def)
      (simp add: run_plan_def)
qed

lemma run_remote_valid: "remote_validate run_remote = None"
proof -
  have "\<not> blank ''kernel_1''" "\<not> blank ''v1''" by (rule not_blank_printable; simp add: text_simps)+
  then show ?thesis
    using run_identity_valid by (simp add: remote_validate_def run_remote_def safeText_def control_byte_def byte_def)
qed

lemma run_observation_valid: "observation_validate run_remote (run_observation ExecutionSucceeded) = None"
proof -
  have "\<not> blank ''succeeded''" by (rule not_blank_printable) (simp_all add: text_simps)
  then show ?thesis
    using run_remote_valid sample_clock(2)
    by (simp add: observation_validate_def run_observation_def safeText_def control_byte_def byte_def
        state_valid_defs ValidTime_def)
qed

lemma MaxFailures_nonneg [simp]: "0 \<le> MaxFailures"
  by (simp add: MaxFailures_def)

lemma run_workspace: "id_workspace run_identity = ''ws_1''"
  "rj_identity (plan_job run_plan) = run_identity" "rj_inputs (plan_job run_plan) = Some sample_snapshot"
  by (simp_all add: run_plan_def run_identity_def)

lemma run_journals_valid:
  "journal_valid empty_journal" "journal_valid staging_journal" "journal_valid ready_journal"
  "journal_valid submitting_journal" "journal_valid submitted_journal" "journal_valid collectible_journal"
  by (simp_all add: journal_valid_def journal_evidence_ok_def journal_unplanned_ok_def journal_planned_ok_def
      journal_defs journalDetail_def problem_ok_def run_job_valid run_prepared_valid run_remote_valid
      run_observation_valid run_workspace sample_snapshot_valid more_sample_ids)
    (simp_all add: run_prepared_def run_remote_def run_observation_def)

subsection \<open>They survive the copy\<close>

lemma run_texts [simp]:
  "utf8_coerce [] = []" "utf8_coerce ''profile'' = ''profile''" "utf8_coerce ''rev'' = ''rev''"
  "utf8_coerce ''batch_execution'' = ''batch_execution''" "utf8_coerce ''kernel_1'' = ''kernel_1''"
  "utf8_coerce ''v1'' = ''v1''"
  by (rule utf8_coerce_ascii, simp add: ascii_string_def byte_def)+

lemma run_compact: "json_compact True Outside ''{}'' = ''{}''"
  by (simp add: json_space_def byte_def)

lemma run_plan_copy: "plan_copy run_plan = run_plan"
  by (simp del: utf8_coerce.simps(2) json_compact.simps
      add: plan_copy_def run_plan_def Let_def run_compact strings_copy_def CapabilityBatchExecution_def)

lemma run_journal_copies:
  "journal_copy empty_journal = empty_journal" "journal_copy staging_journal = staging_journal"
  "journal_copy ready_journal = ready_journal" "journal_copy submitting_journal = submitting_journal"
  "journal_copy submitted_journal = submitted_journal"
  by (simp_all add: journal_copy_def journal_defs run_plan_copy)
    (simp_all del: utf8_coerce.simps(2) add: prepared_copy_def run_prepared_def remote_copy_def run_remote_def)

lemma length_plan_digest: "length (plan_digest p) \<le> 64"
  by (simp add: plan_digest_def Digest_def)

lemma run_digits [simp]: "length (format_int 60) = 2" "length (format_int 7) = 1" "length (format_int 9) = 1"
    "length (format_int 0) = 1" "length (format_int 1) = 1" "length (format_int 2) = 1"
    "length (format_int 3) = 1" "length (format_int 4) = 1"
  by code_simp+

lemma run_identity_size: "json_size (identity_json run_identity) \<le> 4000"
  by (simp add: identity_json_def run_identity_def InputDigest_def Digest_def)

lemma run_plan_size: "json_size (plan_json run_plan) \<le> 20000"
  using run_identity_size
  by (simp add: plan_json_def run_plan_def resolved_job_json_def binding_json_def strings_json_def
      snapshot_json_def sample_snapshot_def sample_input_def object_json_def Digest_def
      CapabilityBatchExecution_def)

lemma run_prepared_size: "json_size (prepared_json run_prepared) \<le> 20000"
  using run_identity_size length_plan_digest [of run_plan]
  by (simp add: prepared_json_def run_prepared_def omit_if_def)

lemma run_remote_size: "json_size (remote_json run_remote) \<le> 20000"
  using run_identity_size by (simp add: remote_json_def run_remote_def)

definition encodable :: "journal \<Rightarrow> bool" where
  "encodable j \<longleftrightarrow> journal_times j = [] \<and> json_size (journal_json j) \<le> MaxJournalBytes"

lemma encodable_marshal:
  assumes "encodable j"
  shows "\<exists>raw. journal_marshal j = Some raw \<and> \<not> length raw > MaxJournalBytes"
  using assms json_render_size [of True "journal_json j"]
  by (simp add: encodable_def journal_marshal_def order_trans not_less)

lemma run_encodable:
  "encodable empty_journal" "encodable staging_journal" "encodable ready_journal"
  "encodable submitting_journal" "encodable submitted_journal"
  using run_plan_size run_prepared_size run_remote_size
  by (simp_all add: encodable_def journal_times_def journal_json_def journal_defs omit_none_def omit_if_def
      MaxJournalBytes_def)

subsection \<open>The actions are accepted\<close>

lemma Apply_accepts:
  assumes "journal_valid old" "state_ok state" "j_version old \<noteq> MaxInt64" "encodable old"
    "journal_copy old = old" "apply_kind old old state a sample_now = Inr (j, s', e)"
    "j' = j\<lparr>j_problem := final_problem j, j_version := j_version j + 1\<rparr>"
    "journal_valid j'" "attempt_step state s'"
  shows "Apply old state a sample_now = Inr (j', s', e)"
proof -
  obtain raw where "journal_marshal old = Some raw" "\<not> length raw > MaxJournalBytes"
    using encodable_marshal [OF assms(4)] by blast
  then show ?thesis
    using assms sample_clock(2) by (simp add: Apply_def apply_finish_def attempt_step_def Let_def)
qed

definition preparing_state :: attempt_state where
  "preparing_state = InitialAttemptState\<lparr>orchestration := OrchestrationPreparing\<rparr>"

definition dispatching_state :: attempt_state where
  "dispatching_state = InitialAttemptState\<lparr>orchestration := OrchestrationDispatching,
     execution := ExecutionUnknown, remote_activity := RemoteActivityPossible\<rparr>"

definition submitted_state :: attempt_state where
  "submitted_state = dispatching_state\<lparr>orchestration := OrchestrationSubmitted\<rparr>"

definition finished_state :: attempt_state where
  "finished_state = submitted_state\<lparr>orchestration := OrchestrationCollecting,
     execution := ExecutionSucceeded, remote_activity := RemoteActivityInactive\<rparr>"

lemmas run_state_defs = preparing_state_def dispatching_state_def submitted_state_def finished_state_def
  InitialAttemptState_def

lemma run_states_ok: "state_ok preparing_state" "state_ok dispatching_state" "state_ok submitted_state"
    "state_ok finished_state"
  by (simp_all add: validate_attempt_state_def validate_parts run_state_defs state_valid_defs)

lemma run_state_steps:
  "attempt_step InitialAttemptState preparing_state" "attempt_step preparing_state preparing_state"
  "attempt_step preparing_state dispatching_state" "attempt_step dispatching_state submitted_state"
  "attempt_step submitted_state finished_state"
  by (simp_all add: attempt_step_iff run_states_ok) (simp_all add: run_state_defs graph_step_def)

lemma run_local_only: "LocalOnly InitialAttemptState" "LocalOnly preparing_state"
  using run_states_ok(1) sample_local_only by (simp_all add: LocalOnly_def) (simp add: run_state_defs)

lemma MaxInt64_big: "MaxInt64 = 9223372036854775807"
  by (simp add: MaxInt64_def)

definition begin_preparation :: action where
  "begin_preparation =
     (idle_action BeginPreparation)\<lparr>act_plan := Some run_plan, act_preparation_id := ''prep_1''\<rparr>"

definition preparation_seen :: action where
  "preparation_seen = (idle_action PreparationSeen)\<lparr>act_prepared := Some run_prepared\<rparr>"

definition submission_accepted_action :: action where
  "submission_accepted_action = (idle_action SubmissionSeen)\<lparr>act_submission :=
     Some \<lparr>outcome_status = SubmissionAccepted, outcome_remote = Some run_remote, outcome_problem = None\<rparr>\<rparr>"

definition observation_seen :: action where
  "observation_seen =
     (idle_action ObservationSeen)\<lparr>act_observation := Some (run_observation ExecutionSucceeded)\<rparr>"

lemmas action_defs = begin_preparation_def preparation_seen_def submission_accepted_action_def
  observation_seen_def idle_action_def

lemma run_begin_preparation:
  "Apply empty_journal InitialAttemptState begin_preparation sample_now
     = Inr (staging_journal, preparing_state, EventPreparationIntended)"
proof (rule Apply_accepts [OF run_journals_valid(1) initial_state_ok _ run_encodable(1) run_journal_copies(1)
    _ _ run_journals_valid(2) run_state_steps(1)])
  show "apply_kind empty_journal empty_journal InitialAttemptState begin_preparation sample_now
    = Inr (staging_journal\<lparr>j_version := 0\<rparr>, preparing_state, EventPreparationIntended)"
    using run_local_only(1) run_job_valid
    by (simp add: apply_kind_def apply_begin_preparation_def action_defs more_sample_ids run_workspace)
      (simp add: journal_defs preparing_state_def plan_clone_def resolved_job_clone_def run_plan_def slice_clone_def)
qed (simp_all add: journal_defs MaxInt64_big final_problem_def)

lemma run_preparation_seen:
  "Apply staging_journal preparing_state preparation_seen sample_now
     = Inr (ready_journal, preparing_state, EventProviderStagingReady)"
proof (rule Apply_accepts [OF run_journals_valid(2) run_states_ok(1) _ run_encodable(2) run_journal_copies(2)
    _ _ run_journals_valid(3) run_state_steps(2)])
  show "apply_kind staging_journal staging_journal preparing_state preparation_seen sample_now
    = Inr (ready_journal\<lparr>j_version := 1\<rparr>, preparing_state, EventProviderStagingReady)"
    using run_prepared_valid
    by (simp add: apply_kind_def apply_preparation_seen_def action_defs journal_defs deref_def)
      (simp add: run_prepared_def preparing_state_def)
qed (simp_all add: journal_defs MaxInt64_big final_problem_def)

lemma run_begin_submission:
  "Apply ready_journal preparing_state (idle_action BeginSubmission) sample_now
     = Inr (submitting_journal, dispatching_state, EventSubmissionIntentRecorded)"
proof (rule Apply_accepts [OF run_journals_valid(3) run_states_ok(1) _ run_encodable(3) run_journal_copies(3)
    _ _ run_journals_valid(4) run_state_steps(3)])
  show "apply_kind ready_journal ready_journal preparing_state (idle_action BeginSubmission) sample_now
    = Inr (submitting_journal\<lparr>j_version := 2\<rparr>, dispatching_state, EventSubmissionIntentRecorded)"
    using run_local_only(2)
    by (simp add: apply_kind_def apply_begin_submission_def action_defs journal_defs)
      (simp add: run_prepared_def run_state_defs)
qed (simp_all add: journal_defs MaxInt64_big final_problem_def)

lemma run_submission_seen:
  "Apply submitting_journal dispatching_state submission_accepted_action sample_now
     = Inr (submitted_journal, submitted_state, EventSubmissionAccepted)"
proof (rule Apply_accepts [OF run_journals_valid(4) run_states_ok(2) _ run_encodable(4) run_journal_copies(4)
    _ _ run_journals_valid(5) run_state_steps(4)])
  show "apply_kind submitting_journal submitting_journal dispatching_state submission_accepted_action sample_now
    = Inr (submitted_journal\<lparr>j_version := 3\<rparr>, submitted_state, EventSubmissionAccepted)"
    using run_identity_valid run_remote_valid
    by (simp add: apply_kind_def apply_submission_def submission_step_def submission_accepted_def action_defs
        journal_defs deref_def submission_outcome_validate_def run_workspace)
      (simp add: run_remote_def run_state_defs cancellationPending_def)
qed (simp_all add: journal_defs MaxInt64_big final_problem_def)

lemma run_observation_seen:
  "Apply submitted_journal submitted_state observation_seen sample_now
     = Inr (collectible_journal, finished_state, EventExecutionObserved)"
proof (rule Apply_accepts [OF run_journals_valid(5) run_states_ok(3) _ run_encodable(5) run_journal_copies(5)
    _ _ run_journals_valid(6) run_state_steps(5)])
  have st: "observed_state submitted_state (run_observation ExecutionSucceeded) = finished_state"
    by (simp add: observed_state_def run_observation_def run_state_defs Let_def)
  have "ValidateAttemptStateTransition submitted_state finished_state = None"
    using run_state_steps(5) by (simp add: attempt_step_def)
  then show "apply_kind submitted_journal submitted_journal submitted_state observation_seen sample_now
    = Inr (collectible_journal\<lparr>j_version := 4\<rparr>, finished_state, EventExecutionObserved)"
    using run_observation_valid st
    by (simp add: apply_kind_def apply_observation_def action_defs journal_defs Let_def)
      (simp add: run_observation_def after_def)
qed (simp_all add: journal_defs MaxInt64_big final_problem_def)

end
