(* ===== verification/Dispatch_Properties.thy ===== *)
theory Dispatch_Properties
  imports Dispatch_Samples
begin

text \<open>
  The properties of the dispatch state machine, each with the sample run as its witness: no panics, intents
  recorded once, evidence frozen after the start intent, phases on their graph, the start gate, what may end a
  started attempt, the order of observations and the budgets of failures.
\<close>

section \<open>The state machine as a whole\<close>

text \<open>C12. \<open>Apply\<close> never panics: no journal, attempt state, action or time makes it dereference nil or build a
  problem that is refused.\<close>

theorem apply_never_panics: "Apply old state a now \<noteq> Inl DispatchPanic"
proof -
  have "no_dispatch_panic (apply_finish state x)" for x
    by (simp add: apply_finish_def Let_def case_prod_unfold)
  then have "no_dispatch_panic (Apply old state a now)"
    using apply_kind_no_panic [of old "journal_copy old" state a now]
    by (auto simp: Apply_def split: option.splits intro!: no_dispatch_panic_and_then)
  then show ?thesis by (simp add: no_dispatch_panic_def)
qed

lemma run_started_planned:
  assumes "dispatch_run j0 s0 ks j s" "j_submit_started j0 \<Longrightarrow> j_plan j0 \<noteq> None" "j_submit_started j"
  shows "j_plan j \<noteq> None"
  using assms
proof (induction rule: dispatch_run.induct)
  case (accepted ks j s a now j' s' e)
  then show ?case using planned_phase [OF Apply_Inr(4) [OF accepted.hyps(2)]] by blast
qed auto

text \<open>C2. Over any run of an attempt that starts with its empty journal, with restarts and changes of the attempt
  state made elsewhere in between, a preparation is intended at most once and a start is intended at most once,
  and a start only after a preparation. The journal says exactly whether either has happened.\<close>

theorem intents_at_most_once:
  assumes "dispatch_run empty_journal s0 ks j s"
  shows "count_list ks BeginPreparation = of_bool (j_plan j \<noteq> None)
    \<and> count_list ks BeginSubmission = of_bool (j_submit_started j)
    \<and> count_list ks BeginSubmission \<le> count_list ks BeginPreparation"
proof -
  have "count_list ks BeginPreparation = of_bool (j_plan j \<noteq> None)"
    "count_list ks BeginSubmission = of_bool (j_submit_started j)"
    using run_intents [OF assms] by (simp_all add: empty_journal_def)
  moreover have "j_submit_started j \<Longrightarrow> j_plan j \<noteq> None"
    using run_started_planned [OF assms] by (simp add: empty_journal_def)
  ultimately show ?thesis by auto
qed

lemma sample_run:
  "dispatch_run empty_journal InitialAttemptState [BeginPreparation] staging_journal preparing_state"
  "dispatch_run empty_journal InitialAttemptState [BeginPreparation, PreparationSeen, BeginSubmission]
     submitting_journal dispatching_state"
  "dispatch_run submitting_journal dispatching_state [SubmissionSeen, ObservationSeen]
     collectible_journal finished_state"
proof -
  have k: "act_kind begin_preparation = BeginPreparation" "act_kind preparation_seen = PreparationSeen"
    "act_kind (idle_action BeginSubmission) = BeginSubmission"
    "act_kind submission_accepted_action = SubmissionSeen" "act_kind observation_seen = ObservationSeen"
    by (simp_all add: action_defs)
  have a: "dispatch_run empty_journal InitialAttemptState ([] @ [act_kind begin_preparation])
      staging_journal preparing_state"
    by (rule dispatch_run.accepted [OF dispatch_run.start run_begin_preparation])
  have b: "dispatch_run empty_journal InitialAttemptState
      (([] @ [act_kind begin_preparation]) @ [act_kind preparation_seen]) ready_journal preparing_state"
    by (rule dispatch_run.accepted [OF a run_preparation_seen])
  show "dispatch_run empty_journal InitialAttemptState [BeginPreparation] staging_journal preparing_state"
    using a by (simp add: k)
  show "dispatch_run empty_journal InitialAttemptState [BeginPreparation, PreparationSeen, BeginSubmission]
      submitting_journal dispatching_state"
    using dispatch_run.accepted [OF b run_begin_submission] by (simp add: k)
  have c: "dispatch_run submitting_journal dispatching_state ([] @ [act_kind submission_accepted_action])
      submitted_journal submitted_state"
    by (rule dispatch_run.accepted [OF dispatch_run.start run_submission_seen])
  show "dispatch_run submitting_journal dispatching_state [SubmissionSeen, ObservationSeen]
      collectible_journal finished_state"
    using dispatch_run.accepted [OF c run_observation_seen] by (simp add: k)
qed

theorem intents_at_most_once_witness:
  "count_list [BeginPreparation, PreparationSeen, BeginSubmission] BeginSubmission
     = of_bool (j_submit_started submitting_journal)"
  using intents_at_most_once [OF sample_run(2)] by blast

text \<open>C6. Once a start has been intended, no later action, restart or change made elsewhere withdraws it or alters
  what it rests on: the start authorization and the preparation identifier stay as they are, and the plan, the
  preparation and an accepted remote reference change only by being encoded and decoded again.\<close>

theorem start_evidence_frozen:
  assumes "dispatch_run j s ks j' s'" "j_submit_started j"
  shows "j_submit_started j' \<and> j_start j' = j_start j \<and> j_preparation_id j' = j_preparation_id j
    \<and> (\<exists>n. j_plan j' = map_option (plan_copy ^^ n) (j_plan j)
         \<and> j_prepared j' = map_option (prepared_copy ^^ n) (j_prepared j)
         \<and> (j_remote j = None \<or> j_remote j' = map_option (remote_copy ^^ n) (j_remote j)))"
  using assms(1)
proof (induction rule: dispatch_run.induct)
  case start
  show ?case using assms(2) by (auto simp: option.map_id intro!: exI [of _ 0])
next
  case (accepted ks j1 s1 a now j2 s2 e)
  then obtain n where n: "j_submit_started j1" "j_plan j1 = map_option (plan_copy ^^ n) (j_plan j)"
      "j_prepared j1 = map_option (prepared_copy ^^ n) (j_prepared j)"
      "j_remote j = None \<or> j_remote j1 = map_option (remote_copy ^^ n) (j_remote j)" by blast
  note ok = Apply_Inr(7,8) [OF accepted.hyps(2)]
  have plan: "j_plan j1 \<noteq> None" using planned_phase [OF Apply_Inr(1) [OF accepted.hyps(2)]] n(1) by blast
  have k: "act_kind a \<noteq> BeginPreparation" "act_kind a \<noteq> PreparationSeen" "act_kind a \<noteq> BeginSubmission"
    "act_kind a = SubmissionSeen \<Longrightarrow> j_remote j1 = None"
    using ok(2) n(1) plan by (auto simp: records_def)
  have "j_plan j2 = map_option (plan_copy ^^ Suc n) (j_plan j)"
    "j_prepared j2 = map_option (prepared_copy ^^ Suc n) (j_prepared j)"
    "j_remote j = None \<or> j_remote j2 = map_option (remote_copy ^^ Suc n) (j_remote j)"
    using ok(1) k n by (auto simp: carries_def option.map_comp comp_def)
  moreover have "j_submit_started j2 \<and> j_start j2 = j_start j1 \<and> j_preparation_id j2 = j_preparation_id j1"
    using ok(1) k n(1) by (simp add: carries_def)
  ultimately show ?case using accepted.IH by metis
next
  case (restart ks j1 s1)
  then obtain n where n: "j_plan j1 = map_option (plan_copy ^^ n) (j_plan j)"
      "j_prepared j1 = map_option (prepared_copy ^^ n) (j_prepared j)"
      "j_remote j = None \<or> j_remote j1 = map_option (remote_copy ^^ n) (j_remote j)" by blast
  have "j_plan (journal_copy j1) = map_option (plan_copy ^^ Suc n) (j_plan j)"
    "j_prepared (journal_copy j1) = map_option (prepared_copy ^^ Suc n) (j_prepared j)"
    "j_remote j = None \<or> j_remote (journal_copy j1) = map_option (remote_copy ^^ Suc n) (j_remote j)"
    using n by (auto simp: option.map_comp comp_def)
  then show ?case using restart.IH by (metis journal_copy_simps(4,7,12))
qed

theorem start_evidence_frozen_witness: "j_start collectible_journal = j_start submitting_journal"
  using start_evidence_frozen [OF sample_run(3)] by (simp add: submitting_journal_def)

text \<open>C11. Runs refine the phase graph: every run moves the phase along its edges only, so rejection, collectible
  results and prevention are final.\<close>

theorem runs_follow_phase_graph:
  assumes "dispatch_run j s ks j' s'"
  shows "(graph_step phase_transitions)\<^sup>*\<^sup>* (j_phase j) (j_phase j')
    \<and> (phase_final (j_phase j) \<longrightarrow> j_phase j' = j_phase j)"
proof -
  have "(graph_step phase_transitions)\<^sup>*\<^sup>* (j_phase j) (j_phase j')"
    using assms
  proof (induction rule: dispatch_run.induct)
    case (accepted ks j1 s1 a now j2 s2 e)
    then show ?case using Apply_Inr(9) [OF accepted.hyps(2)] by (meson rtranclp.rtrancl_into_rtrancl)
  qed simp_all
  then show ?thesis using ph.final_forever by blast
qed

theorem runs_follow_phase_graph_witness:
  "(graph_step phase_transitions)\<^sup>*\<^sup>* Submitting Collectible"
  using runs_follow_phase_graph [OF sample_run(3)] by (simp add: journal_defs)

section \<open>Starting and ending\<close>

lemma activity_after_start:
  assumes "dispatch_run j s ks j2 s2" "remote_activity s = RemoteActivityPossible"
  shows "remote_activity s2 \<in> {RemoteActivityPossible, RemoteActivityActive, RemoteActivityInactive}
    \<or> \<not> remote_activity_valid (remote_activity s2)"
  using act.rank_monotone [OF attempt_run_activity [OF run_attempt [OF assms(1)]]] assms(2)
  by (cases "remote_activity s2") (simp_all add: remote_activity_valid_def)

lemma held_after_start:
  assumes "dispatch_run j s ks j2 s2" "state_ok s" "remote_activity s = RemoteActivityPossible"
    "remote_activity s2 \<noteq> RemoteActivityInactive"
  shows "HoldsAccount s2 barrier"
proof -
  have ok: "state_ok s2" using run_attempt [OF assms(1)] assms(2) by (rule attempt_run_ok)
  then have "remote_activity s2 = RemoteActivityPossible \<or> remote_activity s2 = RemoteActivityActive"
    using activity_after_start [OF assms(1,3)] state_ok_dimensions(5) [OF ok] assms(4) by auto
  then show ?thesis using state_ok_end [OF ok] by (auto simp: HoldsAccount_def)
qed

text \<open>C5. A start is intended only from a ready and private preparation of the recorded plan and from a state in
  which nothing was submitted, cancelled or timed out. A start authorization is optional: the journal records
  exactly the one that is presented, and it fits the recorded preparation. From that moment on, through every
  later action, restart and change made elsewhere, the attempt holds its account until its remote work is
  recorded as inactive, whatever the scheduler's barrier says.\<close>

theorem start_gate:
  assumes "Apply old state a now = Inr (j', s', e)" "act_kind a = BeginSubmission"
  shows "(\<exists>p x. j_plan old = Some p \<and> j_prepared old = Some x \<and> prepared_validate p (j_preparation_id old) x = None
        \<and> prep_ready x \<and> prep_private x \<and> LocalOnly state \<and> cancellation state = CancellationNotRequested)
    \<and> j_phase old = Ready \<and> j_phase j' = Submitting \<and> j_submit_started j' \<and> e = EventSubmissionIntentRecorded
    \<and> j_start j' = act_start a
    \<and> (\<forall>st. act_start a = Some st \<longrightarrow> (\<exists>x. j_prepared j' = Some x \<and> start_authorization_validate x st = None))
    \<and> (\<forall>ks j2 s2. dispatch_run j' s' ks j2 s2 \<and> remote_activity s2 \<noteq> RemoteActivityInactive \<longrightarrow>
        HoldsAccount s2 barrier)"
proof -
  note ok = Apply_Inr [OF assms(1)]
  obtain j where j: "apply_begin_submission old (journal_copy old) state a = Inr (j, s', e)"
      "j' = j\<lparr>j_problem := final_problem j, j_version := j_version j + 1\<rparr>"
    using ok(10) assms(2) by (auto simp: apply_kind_def)
  obtain x where x: "j_prepared old = Some x" "prep_ready x" "prep_private x" "LocalOnly state"
      "j_phase old = Ready" "j_phase j = Submitting" "j_submit_started j" "e = EventSubmissionIntentRecorded"
      "remote_activity s' = RemoteActivityPossible" "cancellation state = CancellationNotRequested"
      "\<not> j_submit_started old" "j_start j = (if act_start a = None then j_start old else act_start a)"
    using j(1)
    by (auto simp: apply_begin_submission_def Let_def split: option.splits if_splits)
  obtain p where p: "j_plan old = Some p" using planned_phase [OF ok(1)] x(5) by auto
  have "prepared_validate p (j_preparation_id old) x = None"
    using ok(1) p x(1) by (simp add: journal_valid_def journal_planned_ok_def)
  moreover have "j_start old = None"
    using ok(1) x(11) by (auto simp: journal_valid_def journal_evidence_ok_def split: option.splits)
  then have start: "j_start j' = act_start a" using x(12) by (simp add: j(2))
  moreover have "\<forall>st. act_start a = Some st \<longrightarrow>
      (\<exists>x. j_prepared j' = Some x \<and> start_authorization_validate x st = None)"
    using ok(4) start by (auto simp: journal_valid_def journal_evidence_ok_def split: option.splits)
  moreover have "state_ok s'" using ok(5) by (simp add: attempt_step_iff)
  then have "\<forall>ks j2 s2. dispatch_run j' s' ks j2 s2 \<and> remote_activity s2 \<noteq> RemoteActivityInactive \<longrightarrow>
      HoldsAccount s2 barrier"
    using held_after_start x(9) by blast
  ultimately show ?thesis using p x(1-8,10) j(2) by auto
qed

theorem start_gate_witness:
  "HoldsAccount dispatching_state False \<and> HoldsAccount submitted_state False"
proof -
  have "act_kind (idle_action BeginSubmission) = BeginSubmission" by (simp add: idle_action_def)
  note gate = start_gate [OF run_begin_submission this, of False]
  have "dispatch_run submitting_journal dispatching_state [act_kind submission_accepted_action]
      submitted_journal submitted_state"
    using dispatch_run.accepted [OF dispatch_run.start run_submission_seen] by simp
  moreover have "remote_activity dispatching_state \<noteq> RemoteActivityInactive"
    "remote_activity submitted_state \<noteq> RemoteActivityInactive" by (simp_all add: run_state_defs)
  ultimately show ?thesis using gate dispatch_run.start by blast
qed



lemma count_unknown_result:
  assumes "count_unknown old j state nxt = Inr (j1, s', e)"
  shows "execution s' = execution nxt" "remote_activity s' = remote_activity nxt"
    "release_evidence s' = release_evidence nxt" "j_observation j1 = j_observation j"
    "j_phase j1 = j_phase j \<or> j_phase j1 = Attention"
    "orchestration s' = orchestration nxt \<or> orchestration s' = OrchestrationNeedsAttention"
  using assms by (auto simp: count_unknown_def and_then_eq_Inr Let_def split: if_split_asm)

















subsection \<open>Samples of refused and failing work\<close>






lemma PublicDetails_none [simp]: "details p = None \<Longrightarrow> PublicDetails p = None"
  by (simp add: PublicDetails_def collected_details_def copy_detail_def closedReason_def ValidReason_def
      ValidResourceName_def submission_status_ok_def submission_error_types_def submission_operations_def)










section \<open>Observations\<close>

lemma if_Inl_Inr: "(if c then Inl err else r) = Inr x \<longleftrightarrow> \<not> c \<and> r = Inr x"
  by simp

lemma observation_accepted:
  assumes "apply_observation old j state a now = Inr (j1, s', e)"
  obtains r ob where "j_remote old = Some r" "act_observation a = Some ob" "j_phase old = Submitted"
    "observation_validate r ob = None"
    "\<not> (after (obs_at ob) now
        \<or> (case j_observation old of None \<Rightarrow> False | Some seen \<Rightarrow> \<not> after (obs_at ob) (obs_at seen)))"
proof (cases "j_remote old")
  case None
  then show ?thesis using assms by (simp add: apply_observation_def)
next
  case (Some r)
  show ?thesis
  proof (cases "act_observation a")
    case None
    then show ?thesis using assms Some by (simp add: apply_observation_def)
  next
    case ob: (Some ob)
    show ?thesis using assms that [OF Some ob] by (simp add: apply_observation_def Some ob split: if_split_asm)
  qed
qed

lemma observation_result:
  assumes "apply_observation old j state a now = Inr (j1, s', e)"
    "j_remote old = Some r" "act_observation a = Some ob" "j_phase j = Submitted"
  shows "execution s' = execution (observed_state state ob)"
    "remote_activity s' = remote_activity (observed_state state ob)"
    "release_evidence s' = release_evidence (observed_state state ob)"
    "j_observation j1 = Some (ob\<lparr>obs_raw_state := execution_string (obs_execution ob)\<rparr>)"
    "j_phase j1 = Collectible \<longleftrightarrow> execution_terminal (obs_execution ob)"
proof -
  let ?ex = "obs_execution ob" and ?nxt = "observed_state state ob"
  define j2 where "j2 = j\<lparr>j_phase := if execution_terminal ?ex then Collectible else Submitted,
    j_observation := Some (ob\<lparr>obs_raw_state := execution_string ?ex\<rparr>), j_problem := None, j_failures := 0\<rparr>"
  have res: "(if ?ex \<noteq> ExecutionUnknown then Inr (j2, ?nxt, EventExecutionObserved)
      else count_unknown old j2 state ?nxt) = Inr (j1, s', e)"
    using assms(1) unfolding apply_observation_def assms(2-4) j2_def
    by (simp only: option.case prod.case Let_def if_Inl_Inr)
  have "execution s' = execution ?nxt \<and> remote_activity s' = remote_activity ?nxt
      \<and> release_evidence s' = release_evidence ?nxt \<and> j_observation j1 = j_observation j2
      \<and> (j_phase j1 = Collectible \<longleftrightarrow> execution_terminal ?ex)"
  proof (cases "?ex = ExecutionUnknown")
    case True
    then have "count_unknown old j2 state ?nxt = Inr (j1, s', e)" using res by simp
    from count_unknown_result [OF this] True show ?thesis by (auto simp: j2_def)
  qed (use res in \<open>auto simp: j2_def split: if_split_asm\<close>)
  then show "execution s' = execution ?nxt" "remote_activity s' = remote_activity ?nxt"
    "release_evidence s' = release_evidence ?nxt"
    "j_observation j1 = Some (ob\<lparr>obs_raw_state := execution_string ?ex\<rparr>)"
    "j_phase j1 = Collectible \<longleftrightarrow> execution_terminal ?ex"
    by (simp_all add: j2_def)
qed

text \<open>C10. An accepted observation belongs to the recorded remote run, is not from the future and is strictly newer
  than the one before; the journal keeps it with a closed summary of its raw state. It makes results collectible
  exactly when the execution has ended, and an unknown execution leaves all earlier evidence in place.\<close>

theorem observations_advance:
  assumes "Apply old state a now = Inr (j', s', e)" "act_kind a = ObservationSeen"
  shows "\<exists>ob. act_observation a = Some ob \<and> j_remote old = Some (obs_remote ob) \<and> \<not> after (obs_at ob) now
      \<and> (case j_observation old of None \<Rightarrow> True | Some seen \<Rightarrow> after (obs_at ob) (obs_at seen))
      \<and> j_observation j' = Some (ob\<lparr>obs_raw_state := execution_string (obs_execution ob)\<rparr>)
      \<and> (j_phase j' = Collectible \<longleftrightarrow> execution_terminal (obs_execution ob))
      \<and> (if obs_execution ob = ExecutionUnknown
         then execution s' = execution state \<and> remote_activity s' = remote_activity state
           \<and> release_evidence s' = release_evidence state
         else execution s' = obs_execution ob \<and> remote_activity s' = obs_activity ob
           \<and> release_evidence s' = obs_release ob)"
proof -
  note ok = Apply_Inr [OF assms(1)]
  obtain j where j: "apply_observation old (journal_copy old) state a now = Inr (j, s', e)"
      "j' = j\<lparr>j_problem := final_problem j, j_version := j_version j + 1\<rparr>"
    using ok(10) assms(2) by (auto simp: apply_kind_def)
  obtain r ob where ob: "j_remote old = Some r" "act_observation a = Some ob" "j_phase old = Submitted"
      "observation_validate r ob = None"
      "\<not> (after (obs_at ob) now
        \<or> (case j_observation old of None \<Rightarrow> False | Some seen \<Rightarrow> \<not> after (obs_at ob) (obs_at seen)))"
    by (rule observation_accepted [OF j(1)])
  have r: "obs_remote ob = r" using ob(4) by (simp add: observation_validate_def split: if_split_asm)
  have newer: "case j_observation old of None \<Rightarrow> True | Some seen \<Rightarrow> after (obs_at ob) (obs_at seen)"
    using ob(5) by (cases "j_observation old") simp_all
  have "j_phase (journal_copy old) = Submitted" using ob(3) by simp
  note res = observation_result [OF j(1) ob(1,2) this]
  have "if obs_execution ob = ExecutionUnknown
      then execution (observed_state state ob) = execution state
        \<and> remote_activity (observed_state state ob) = remote_activity state
        \<and> release_evidence (observed_state state ob) = release_evidence state
      else execution (observed_state state ob) = obs_execution ob
        \<and> remote_activity (observed_state state ob) = obs_activity ob
        \<and> release_evidence (observed_state state ob) = obs_release ob"
    by (simp add: observed_state_def Let_def)
  then show ?thesis using ob(1,2,5) r newer res j(2) by (intro exI [of _ ob]) simp
qed

theorem observations_advance_witness: "j_phase collectible_journal = Collectible"
  using observations_advance [OF run_observation_seen] by (simp add: action_defs run_observation_def)

section \<open>Failure budgets\<close>

lemma planned_fault_result:
  "j_failures (fst (planned_fault old j state a p may)) = j_failures j"
  "j_phase (fst (planned_fault old j state a p may)) =
     (if permanent_code (act_code a) \<or> j_failures j = MaxFailures \<and> \<not> unconfirmedPreparation old
      then Attention else j_phase j)"
  by (simp_all add: planned_fault_def Let_def)

lemma apply_fault_planned:
  assumes "apply_fault old j state a now = Inr r" "j_plan old \<noteq> None"
  shows "\<exists>j0 p may. r = planned_fault old j0 state a p may \<and> j_phase j0 = j_phase j
    \<and> j_failures j0 = min (j_failures j + 1) MaxFailures"
    "j_phase old \<noteq> Attention"
proof -
  show "j_phase old \<noteq> Attention" using assms(1) by (auto simp: apply_fault_def)
  have live: "j_phase old \<notin> {Rejected, Failed, Collectible, Attention, Prevented}"
    using assms(1) by (auto simp: apply_fault_def)
  obtain p where "r = planned_fault old (j\<lparr>j_preparation_started :=
        (if unconfirmedPreparation old \<and> j_preparation_started j = None then Some (utc now)
         else j_preparation_started j), j_failures := min (j_failures j + 1) MaxFailures,
        j_resource_name := fault_resource_name old j a (j_submit_started old \<and> j_phase old \<noteq> Rejected)\<rparr>)
      state a p (j_submit_started old \<and> j_phase old \<noteq> Rejected)"
    using assms live by (simp only: apply_fault_def Let_def if_False and_then_eq_Inr) auto
  then show "\<exists>j0 p may. r = planned_fault old j0 state a p may \<and> j_phase j0 = j_phase j
    \<and> j_failures j0 = min (j_failures j + 1) MaxFailures" by (intro exI conjI) (assumption | simp)+
qed

lemma fault_planned:
  assumes "Apply old state a now = Inr (j', s', e)" "act_kind a = Fault" "j_plan old \<noteq> None"
  shows "j_failures j' = min (j_failures old + 1) MaxFailures" "j_phase old \<noteq> Attention"
    "j_phase j' = (if permanent_code (act_code a) \<or> j_failures j' = MaxFailures \<and> \<not> unconfirmedPreparation old
       then Attention else j_phase old)"
proof -
  obtain j where j: "apply_fault old (journal_copy old) state a now = Inr (j, s', e)"
      "j' = j\<lparr>j_problem := final_problem j, j_version := j_version j + 1\<rparr>"
    using Apply_Inr(10) [OF assms(1)] assms(2) by (auto simp: apply_kind_def)
  show "j_phase old \<noteq> Attention" by (rule apply_fault_planned(2) [OF j(1) assms(3)])
  obtain j0 p may where "(j, s', e) = planned_fault old j0 state a p may" "j_phase j0 = j_phase old"
      "j_failures j0 = min (j_failures old + 1) MaxFailures"
    using apply_fault_planned(1) [OF j(1) assms(3)] by auto
  moreover from this have "j = fst (planned_fault old j0 state a p may)" by (metis fst_conv)
  ultimately show "j_failures j' = min (j_failures old + 1) MaxFailures"
    "j_phase j' = (if permanent_code (act_code a) \<or> j_failures j' = MaxFailures \<and> \<not> unconfirmedPreparation old
       then Attention else j_phase old)"
    by (simp_all add: j(2) planned_fault_result)
qed

text \<open>Faults in a row, each accepted.\<close>

inductive fault_chain :: "journal \<Rightarrow> attempt_state \<Rightarrow> nat \<Rightarrow> journal \<Rightarrow> attempt_state \<Rightarrow> bool" for j0 s0 where
  none: "fault_chain j0 s0 0 j0 s0"
| more: "fault_chain j0 s0 n j s \<Longrightarrow> Apply j s a now = Inr (j', s', e) \<Longrightarrow> act_kind a = Fault \<Longrightarrow>
    fault_chain j0 s0 (Suc n) j' s'"

definition confirmed :: "journal \<Rightarrow> bool" where
  "confirmed j \<longleftrightarrow> j_plan j \<noteq> None \<and> (j_prepared j \<noteq> None \<or> j_submit_started j)"

lemma fault_chain_count:
  assumes "fault_chain j0 s0 n j s" "confirmed j0"
  shows "confirmed j \<and> n \<le> 5
    \<and> (n = 0 \<or> j_phase j = Attention \<or> int n \<le> j_failures j \<and> j_failures j < MaxFailures)"
  using assms
proof (induction rule: fault_chain.induct)
  case (more n j s a now j' s' e)
  then have IH: "confirmed j" "n = 0 \<or> j_phase j = Attention \<or> int n \<le> j_failures j \<and> j_failures j < MaxFailures"
    by simp_all
  have plan: "j_plan j \<noteq> None" "\<not> unconfirmedPreparation j"
    using IH(1) by (auto simp: confirmed_def unconfirmedPreparation_def)
  note f = fault_planned [OF more.hyps(2,3) plan(1)]
  have nonneg: "0 \<le> j_failures j"
    using Apply_Inr(1) [OF more.hyps(2)] by (simp add: journal_valid_def journal_evidence_ok_def)
  have "confirmed j'"
    using Apply_Inr(7) [OF more.hyps(2)] more.hyps(3) IH(1) by (simp add: carries_def confirmed_def)
  moreover have "int n \<le> j_failures j" using IH(2) f(2) nonneg by auto
  moreover have "n = 0 \<or> j_failures j < MaxFailures" using IH(2) f(2) by auto
  ultimately show ?case using f(1,3) plan(2) by (auto simp: MaxFailures_def)
qed simp

text \<open>C13. Failures cannot repeat forever: once the preparation is confirmed or the start is intended, at most five
  faults in a row are accepted, and the attempt that takes the fifth, or a permanent one, asks for attention.\<close>

theorem fault_budget:
  assumes "fault_chain j s n j' s'" "j_plan j \<noteq> None" "j_prepared j \<noteq> None \<or> j_submit_started j"
  shows "int n \<le> MaxFailures \<and> (n = 5 \<longrightarrow> j_phase j' = Attention)
    \<and> (Apply j' s' a now = Inr (j2, s2, e) \<and> act_kind a = Fault \<longrightarrow>
        n < 5 \<and> j_phase j' \<noteq> Attention \<and> (permanent_code (act_code a) \<longrightarrow> j_phase j2 = Attention))"
proof -
  have "confirmed j" using assms(2,3) by (simp add: confirmed_def)
  note count = fault_chain_count [OF assms(1) this]
  have "n < 5 \<and> j_phase j' \<noteq> Attention \<and> (permanent_code (act_code a) \<longrightarrow> j_phase j2 = Attention)"
    if fault: "Apply j' s' a now = Inr (j2, s2, e)" "act_kind a = Fault"
  proof -
    have "j_plan j' \<noteq> None" using count by (simp add: confirmed_def)
    note next_fault = fault_planned [OF fault this]
    show ?thesis using count next_fault(2,3) by (auto simp: MaxFailures_def)
  qed
  then show ?thesis using count by (auto simp: MaxFailures_def)
qed

definition unreachable_problem :: problem where
  "unreachable_problem = (problem_of CodeProviderUnreachable FailureStageObservation
     ''Provider observation is unresolved; no new execution was requested.'')
     \<lparr>recommended_action := RecommendedActionReconcile\<rparr>"

lemma unreachable_dispatch_problem:
  "dispatch_problem CodeProviderUnreachable False = Inr (Some unreachable_problem)"
proof -
  have "dispatch_problem CodeProviderUnreachable False = Inr (Some
      ((problem_of CodeProviderUnreachable FailureStageObservation
        ''Provider observation is unresolved; no new execution was requested.'')
      \<lparr>compute_may_have_started := False, recommended_action := RecommendedActionReconcile\<rparr>))"
    by (rule dispatch_problem_known)
      (simp_all add: problem_text_def text_simps code_stage_def error_code_category_def errorCategories_def)
  then show ?thesis by (simp add: unreachable_problem_def problem_of_def)
qed

lemma unreachable_valid: "problem_validate unreachable_problem = None" "details unreachable_problem = None"
proof -
  have "\<not> blank ''Provider observation is unresolved; no new execution was requested.''"
    by (rule not_blank_printable) (simp_all add: text_simps)
  moreover have "code_stage CodeProviderUnreachable = Some FailureStageObservation"
    by (simp add: code_stage_def error_code_category_def errorCategories_def)
  ultimately show "problem_validate unreachable_problem = None"
    by (simp add: problem_validate_None_iff unreachable_problem_def problem_of_def)
  show "details unreachable_problem = None" by (simp add: unreachable_problem_def problem_of_def)
qed

text \<open>Five unreachable provider calls in a row after the preparation was confirmed.\<close>

definition faulty :: "nat \<Rightarrow> journal" where
  "faulty n = ready_journal\<lparr>j_version := 2 + int n, j_failures := int n,
     j_problem := (if n = 0 then None else Some unreachable_problem),
     j_phase := (if n = 5 then Attention else Ready)\<rparr>"

definition faulty_state :: "nat \<Rightarrow> attempt_state" where
  "faulty_state n = (if n = 5 then preparing_state\<lparr>orchestration := OrchestrationNeedsAttention\<rparr> else preparing_state)"

lemma faulty_valid: "n \<le> 5 \<Longrightarrow> journal_valid (faulty n)"
  using unreachable_valid
  by (simp add: journal_valid_def journal_evidence_ok_def journal_planned_ok_def faulty_def
      journal_defs journalDetail_def problem_ok_def run_job_valid run_prepared_valid run_workspace
      sample_snapshot_valid more_sample_ids MaxFailures_def) (simp add: run_prepared_def details_get_def)

lemma unreachable_copy: "problem_copy unreachable_problem = unreachable_problem"
proof -
  have "utf8_coerce (message unreachable_problem) = message unreachable_problem"
    by (rule utf8_coerce_ascii) (simp add: unreachable_problem_def problem_of_def ascii_string_def byte_def)
  then show ?thesis by (simp add: problem_copy_def unreachable_valid details_copy_def)
qed

lemma faulty_copy: "journal_copy (faulty n) = faulty n"
proof -
  have "journal_copy (faulty n) = (journal_copy ready_journal)\<lparr>j_version := 2 + int n, j_failures := int n,
     j_problem := (if n = 0 then None else Some unreachable_problem),
     j_phase := (if n = 5 then Attention else Ready)\<rparr>"
    by (simp add: journal_copy_def faulty_def unreachable_copy)
  then show ?thesis by (simp add: run_journal_copies faulty_def)
qed

lemma unreachable_size: "json_size (problem_json unreachable_problem) \<le> 20000"
  by (simp add: problem_json_def unreachable_problem_def problem_of_def omit_if_def)

lemma small_digits: "length (format_int 5) = 1" "length (format_int 6) = 1"
  by code_simp+

lemma faulty_encodable: "n < 5 \<Longrightarrow> encodable (faulty n)"
proof -
  assume "n < 5"
  then have "n = 0 \<or> n = 1 \<or> n = 2 \<or> n = 3 \<or> n = 4" by auto
  then show ?thesis
    using run_plan_size run_prepared_size unreachable_size
    by (elim disjE) (simp_all add: encodable_def journal_times_def journal_json_def faulty_def journal_defs omit_none_def
        omit_if_def MaxJournalBytes_def small_digits)
qed

lemma faulty_step: "n < 5 \<Longrightarrow> attempt_step preparing_state (faulty_state (Suc n))"
proof -
  have "state_ok (preparing_state\<lparr>orchestration := OrchestrationNeedsAttention\<rparr>)"
    by (simp add: validate_attempt_state_def validate_parts run_state_defs state_valid_defs)
  then have "attempt_step preparing_state (preparing_state\<lparr>orchestration := OrchestrationNeedsAttention\<rparr>)"
    by (simp add: attempt_step_iff run_states_ok) (simp add: run_state_defs graph_step_def)
  then show ?thesis using run_state_steps(2) by (simp add: faulty_state_def)
qed

lemma faulty_problem: "fault_problem (faulty n) (idle_action Fault) False = Inr unreachable_problem"
  using PublicDetails_none [OF unreachable_valid(2)]
  by (simp add: fault_problem_def idle_action_def unreachable_dispatch_problem fault_reason_def with_public_def
      faulty_def journal_defs details_get_def)

lemma run_faulty:
  assumes "n < 5"
  shows "Apply (faulty n) preparing_state (idle_action Fault) sample_now
     = Inr (faulty (Suc n), faulty_state (Suc n), EventReconciliationDeferred)"
proof (rule Apply_accepts [OF faulty_valid run_states_ok(1) _ faulty_encodable faulty_copy
    _ _ faulty_valid faulty_step])
  have "apply_kind (faulty n) (faulty n) preparing_state (idle_action Fault) sample_now
    = apply_fault (faulty n) (faulty n) preparing_state (idle_action Fault) sample_now"
    by (simp add: apply_kind_def idle_action_def)
  also have "\<dots> = Inr ((faulty (Suc n))\<lparr>j_version := 2 + int n\<rparr>, faulty_state (Suc n), EventReconciliationDeferred)"
    using assms faulty_problem [of n]
    by (simp add: apply_fault_def faulty_def journal_defs Let_def fault_resource_name_def
        unconfirmedPreparation_def planned_fault_def permanent_code_def MaxFailures_def idle_action_def
        unreachable_dispatch_problem faulty_state_def preparing_state_def cancellationPending_def
        InitialAttemptState_def)
  finally show "apply_kind (faulty n) (faulty n) preparing_state (idle_action Fault) sample_now
    = Inr ((faulty (Suc n))\<lparr>j_version := 2 + int n\<rparr>, faulty_state (Suc n), EventReconciliationDeferred)" .
qed (use assms in \<open>simp_all add: faulty_def journal_defs MaxInt64_big final_problem_def\<close>)

lemma faulty_chain: "n \<le> 5 \<Longrightarrow> fault_chain ready_journal preparing_state n (faulty n) (faulty_state n)"
proof (induction n)
  case 0
  have "faulty 0 = ready_journal" by (simp add: faulty_def journal_defs)
  then show ?case using fault_chain.none by (simp add: faulty_state_def)
next
  case (Suc n)
  then have "fault_chain ready_journal preparing_state n (faulty n) preparing_state"
    by (simp add: faulty_state_def)
  then show ?case
    by (rule fault_chain.more [OF _ run_faulty]) (use Suc.prems in \<open>simp_all add: idle_action_def\<close>)
qed

theorem fault_budget_witness:
  "fault_chain ready_journal preparing_state 5 (faulty 5) (faulty_state 5) \<and> j_phase (faulty 5) = Attention"
proof -
  have chain: "fault_chain ready_journal preparing_state 5 (faulty 5) (faulty_state 5)"
    by (rule faulty_chain) simp
  then show ?thesis using fault_budget [OF chain] by (simp add: journal_defs)
qed

subsection \<open>Local failures\<close>

lemma PublicDetails_wf [simp]: "details_wf (PublicDetails p)"
  by (simp add: PublicDetails_def collected_details_def Let_def)

lemma dispatch_problem_wf:
  assumes "dispatch_problem c may = Inr (Some p)" shows "details_wf (details p)"
proof (cases "c = CodeRemoteTimeout")
  case True
  then show ?thesis using assms by (auto simp: dispatch_problem_def WithDetail_def problem_of_def)
next
  case False
  then show ?thesis using assms
    by (auto simp: dispatch_problem_def NewProblem_Inr_iff WithRetrySemantics_def WithRecommendedAction_def Let_def
        split: option.splits sum.splits if_split_asm)
qed

lemma with_public_wf: "with_public key v p = Inr q \<Longrightarrow> details_wf (details p) \<Longrightarrow> details_wf (details q)"
proof -
  assume "with_public key v p = Inr q" "details_wf (details p)"
  moreover from this have "q = p \<or> q = WithDetail key v p"
    by (auto simp: with_public_def Let_def split: if_split_asm)
  ultimately show ?thesis by (auto simp: WithDetail_def)
qed

lemma fault_problem_wf:
  assumes "fault_problem old a may = Inr p" shows "details_wf (details p)"
proof -
  obtain p0 where p0: "dispatch_problem (act_code a) may = Inr (Some p0)"
    using assms by (auto simp: fault_problem_def and_then_eq_Inr split: option.splits)
  let ?p1 = "if act_details a = None then p0 else p0\<lparr>details := PublicDetails (p0\<lparr>details := act_details a\<rparr>)\<rparr>"
  obtain p2 where "with_public ReasonDetail (fault_reason old a ?p1) ?p1 = Inr p2"
      "with_public CauseDetail (act_cause a) p2 = Inr p"
    using assms p0 by (auto simp: fault_problem_def and_then_eq_Inr Let_def)
  moreover have "details_wf (details ?p1)" using dispatch_problem_wf [OF p0] by simp
  ultimately show ?thesis using with_public_wf by blast
qed

definition failure_start :: "journal \<Rightarrow> gotime \<Rightarrow> gotime" where
  "failure_start old now =
     (case journalTime (journalDetail old localFailureDetail) of Some t \<Rightarrow> t | None \<Rightarrow> now)"

lemma local_fault_result:
  assumes "details_wf (details p)" "zone_min now = 0"
  shows "\<exists>q. j_problem (fst (local_fault old j state a p now)) = Some q
      \<and> details_get (details q) localFailureDetail = format_rfc3339_nano (failure_start old now)"
    "j_phase (fst (local_fault old j state a p now)) =
       (if permanent_local_code (act_code a) \<or> \<not> before now (add_time (failure_start old now) LocalFailureBudget)
        then Failed else j_phase j)"
    "j_submission_problem (fst (local_fault old j state a p now)) = j_submission_problem j"
    "j_resource_name (fst (local_fault old j state a p now)) = j_resource_name j"
proof -
  have "utc now = now" using assms(2) by (simp add: utc_def)
  then have start: "(case journalTime (journalDetail old localFailureDetail) of Some t \<Rightarrow> t | None \<Rightarrow> utc now)
      = failure_start old now"
    by (simp add: failure_start_def split: option.splits)
  show "\<exists>q. j_problem (fst (local_fault old j state a p now)) = Some q
      \<and> details_get (details q) localFailureDetail = format_rfc3339_nano (failure_start old now)"
    "j_phase (fst (local_fault old j state a p now)) =
       (if permanent_local_code (act_code a) \<or> \<not> before now (add_time (failure_start old now) LocalFailureBudget)
        then Failed else j_phase j)"
    "j_submission_problem (fst (local_fault old j state a p now)) = j_submission_problem j"
    "j_resource_name (fst (local_fault old j state a p now)) = j_resource_name j"
    using assms(1)
    by (simp_all add: local_fault_def start Let_def WithDetail_def WithRecommendedAction_def
        WithRetrySemantics_def)
qed

lemma apply_fault_local:
  assumes "journal_valid old" "apply_fault old (journal_copy old) state a now = Inr r" "j_plan old = None"
  shows "\<exists>j0 p. r = local_fault old j0 state a p now \<and> details_wf (details p) \<and> j_phase j0 = j_phase old
    \<and> j_submission_problem j0 = None \<and> j_resource_name j0 = []"
proof -
  have live: "j_phase old \<notin> {Rejected, Failed, Collectible, Attention, Prevented}"
    using assms(2) by (auto simp: apply_fault_def)
  have idle: "\<not> j_submit_started old" "j_submission_problem old = None" "j_resource_name old = []"
    using assms(1,3)
    by (auto simp: journal_valid_def journal_unplanned_ok_def journal_evidence_ok_def split: option.splits)
  have name: "fault_resource_name old (journal_copy old) a may = []" for may
    using idle by (auto simp: fault_resource_name_def Let_def split: sum.splits option.splits)
  obtain p where "fault_problem old a False = Inr p" "r = local_fault old ((journal_copy old)
      \<lparr>j_preparation_started := (if unconfirmedPreparation old \<and> j_preparation_started (journal_copy old) = None
          then Some (utc now) else j_preparation_started (journal_copy old)),
        j_failures := min (j_failures (journal_copy old) + 1) MaxFailures, j_resource_name := []\<rparr>) state a p now"
    using assms(2,3) live idle(1) name
    by (simp only: apply_fault_def Let_def if_False and_then_eq_Inr simp_thms) auto
  then show ?thesis using fault_problem_wf idle(2)
    by (intro exI conjI) (assumption | simp)+
qed

text \<open>C14. The budget of local failures runs from the first one: a fault of an attempt without a plan stores the time
  of its first failure in the problem, later faults read back the same instant, and the attempt fails exactly when
  the code is permanent or ten minutes have passed since then.\<close>

theorem local_budget_from_first_failure:
  assumes "Apply old state a now = Inr (j', s', e)" "act_kind a = Fault" "j_plan old = None"
    and "zone_min now = 0" "zone_min (failure_start old now) = 0"
  shows "journalTime (journalDetail j' localFailureDetail) = Some (failure_start old now)
    \<and> failure_start j' later = failure_start old now
    \<and> j_phase j' = (if permanent_local_code (act_code a)
          \<or> \<not> before now (add_time (failure_start old now) LocalFailureBudget) then Failed else Local)"
proof -
  note ok = Apply_Inr [OF assms(1)]
  obtain j where j: "apply_fault old (journal_copy old) state a now = Inr (j, s', e)"
      "j' = j\<lparr>j_problem := final_problem j, j_version := j_version j + 1\<rparr>"
    using ok(10) assms(2) by (auto simp: apply_kind_def)
  obtain j0 p where lf: "(j, s', e) = local_fault old j0 state a p now" "details_wf (details p)"
      "j_phase j0 = j_phase old" "j_submission_problem j0 = None" "j_resource_name j0 = []"
    using apply_fault_local [OF ok(1) j(1) assms(3)] by blast
  have "j = fst (local_fault old j0 state a p now)" using lf(1) by (metis fst_conv)
  note res = local_fault_result [OF lf(2) assms(4), of old j0 state a, folded this]
  obtain q where q: "j_problem j = Some q"
      "details_get (details q) localFailureDetail = format_rfc3339_nano (failure_start old now)"
    using res(1) by blast
  have "final_problem j = Some q" using q(1) res(3,4) lf(4,5) by (simp add: final_problem_def)
  then have detail: "journalDetail j' localFailureDetail = format_rfc3339_nano (failure_start old now)"
    using q(2) by (simp add: journalDetail_def j(2))
  have valid: "ValidTime (failure_start old now)"
    using ok(3) by (auto simp: failure_start_def journalTime_def split: option.splits if_split_asm)
  then have "parse_rfc3339 (format_rfc3339_nano (failure_start old now)) = Some (failure_start old now)"
    using assms(5) by (intro parse_format_nano) (auto simp: ValidTime_def)
  then have jt: "journalTime (journalDetail j' localFailureDetail) = Some (failure_start old now)"
    using valid by (simp add: journalTime_def detail)
  have "j_phase old = Local"
    using j(1) journal_valid_phase(2) [OF ok(1) assms(3)] by (auto simp: apply_fault_def)
  then show ?thesis using jt res(2) lf(3) by (simp add: j(2) failure_start_def)
qed

definition first_failure :: problem where
  "first_failure = (WithDetail localFailureDetail (format_rfc3339_nano sample_now) unreachable_problem)
     \<lparr>safe_operation_retry := True, recommended_action := RecommendedActionWait\<rparr>"

definition retrying_journal :: journal where
  "retrying_journal = empty_journal\<lparr>j_version := 1, j_failures := 1, j_problem := Some first_failure\<rparr>"

lemma sample_now_text: "parse_rfc3339 (format_rfc3339_nano sample_now) = Some sample_now"
  by (rule parse_format_nano) (simp_all add: sample_clock, simp add: sample_now_def)

lemma first_failure_details:
  "details_get (details first_failure) k = (if k = localFailureDetail then format_rfc3339_nano sample_now else [])"
  by (simp add: first_failure_def WithDetail_def unreachable_valid)

lemma first_failure_valid: "problem_validate first_failure = None"
proof -
  have "\<not> blank localFailureDetail"
    unfolding localFailureDetail_def by (rule not_blank_printable) (simp_all add: text_simps)
  then show ?thesis
    using unreachable_valid
    by (simp add: problem_validate_None_iff first_failure_def WithDetail_def details_put_def)
qed

lemma retrying_journal_valid: "journal_valid retrying_journal"
proof -
  have keys: "localFailureDetail \<noteq> remoteAbsenceDetail"
    by (simp add: localFailureDetail_def remoteAbsenceDetail_def)
  show ?thesis
    using first_failure_valid sample_clock(2) keys
    by (simp add: journal_valid_def journal_evidence_ok_def journal_unplanned_ok_def retrying_journal_def
        empty_journal_def journalDetail_def problem_ok_def MaxFailures_def first_failure_details journalTime_def
        sample_now_text)
qed

lemma run_local_fault:
  "Apply empty_journal InitialAttemptState (idle_action Fault) sample_now
     = Inr (retrying_journal, InitialAttemptState, EventReconciliationDeferred)"
proof (rule Apply_accepts [OF run_journals_valid(1) initial_state_ok _ run_encodable(1) run_journal_copies(1)
    _ _ retrying_journal_valid attempt_step_refl [OF initial_state_ok]])
  have "fault_problem empty_journal (idle_action Fault) False = Inr unreachable_problem"
    by (simp add: fault_problem_def idle_action_def unreachable_dispatch_problem fault_reason_def with_public_def
        empty_journal_def)
  moreover have "journalTime [] = None" by code_simp
  moreover have "utc sample_now = sample_now" "before sample_now (add_time sample_now LocalFailureBudget)"
    by (simp_all add: sample_now_def utc_def before_def add_time_def LocalFailureBudget_def)
  ultimately show "apply_kind empty_journal empty_journal InitialAttemptState (idle_action Fault) sample_now
    = Inr (retrying_journal\<lparr>j_version := 0\<rparr>, InitialAttemptState, EventReconciliationDeferred)"
    by (simp add: apply_kind_def idle_action_def apply_fault_def Let_def empty_journal_def fault_resource_name_def
        unconfirmedPreparation_def local_fault_def permanent_local_code_def permanent_code_def
        retrying_journal_def MaxFailures_def unreachable_dispatch_problem journalDetail_def
        first_failure_def WithRetrySemantics_def WithRecommendedAction_def WithDetail_def)
      (simp add: InitialAttemptState_def unreachable_problem_def problem_of_def)
qed (simp_all add: retrying_journal_def empty_journal_def MaxInt64_big final_problem_def)

theorem local_budget_from_first_failure_witness:
  "journalTime (journalDetail retrying_journal localFailureDetail) = Some sample_now"
proof -
  have start: "failure_start empty_journal sample_now = sample_now"
    by (simp add: failure_start_def empty_journal_def journalDetail_def) code_simp
  have utc: "zone_min sample_now = 0" by (simp add: sample_now_def)
  have idle: "act_kind (idle_action Fault) = Fault" "j_plan empty_journal = None"
    by (simp_all add: idle_action_def empty_journal_def)
  show ?thesis
    using local_budget_from_first_failure [OF run_local_fault idle utc] utc by (simp add: start)
qed

end
