(* ===== verification/Bundle_Paths.thy ===== *)
theory Bundle_Paths
  imports Provider_Services
begin

text \<open>
  Portable paths and exclusion rules of bundles: \<open>ValidPath\<close> of \<open>src/internal/safefs/path.go\<close>, the path set and
  the ignore rules of \<open>src/internal/packaging\<close>, and the path check the dispatcher makes for the remote runner
  (\<open>disjointRunnerPaths\<close> of \<open>src/internal/dispatch/inputs.go\<close>).  Paths that pass \<open>ValidPath\<close> are ASCII, so upper
  and lower case are those of ASCII.
\<close>

section \<open>Portable names\<close>

definition to_upper_byte :: "char \<Rightarrow> char" where
  "to_upper_byte c = (if 97 \<le> byte c \<and> byte c \<le> 122 then char_of (byte c - 32) else c)"

definition to_upper :: "string \<Rightarrow> string" where
  "to_upper s = map to_upper_byte s"

definition trim_right :: "string \<Rightarrow> string \<Rightarrow> string" where
  "trim_right s cs = rev (dropWhile (\<lambda>c. c \<in> set cs) (rev s))"

definition reserved_base :: "string \<Rightarrow> bool" where
  "reserved_base b \<longleftrightarrow>
     b \<in> {''CON'', ''PRN'', ''AUX'', ''NUL'', ''CONIN$'', ''CONOUT$''}
     \<or> length b = 4 \<and> (has_prefix b ''COM'' \<or> has_prefix b ''LPT'') \<and> 48 \<le> byte (b ! 3) \<and> byte (b ! 3) \<le> 57"

definition portable_part :: "string \<Rightarrow> bool" where
  "portable_part part \<longleftrightarrow>
     part \<noteq> [] \<and> part \<noteq> ''.'' \<and> part \<noteq> ''..'' \<and> length part \<le> 100 \<and> trim_right part '' .'' = part
     \<and> \<not> reserved_base (to_upper (hd (split_on (CHR ''.'') part)))"

definition ValidPath :: "string \<Rightarrow> bool" where
  "ValidPath name =
     (if name = ''.'' then True
      else if length name = 0 \<or> length name > 1024 then False
      else if list_ex (\<lambda>c. byte c < 32 \<or> byte c \<ge> 127 \<or> c \<in> {CHR 0x5C, CHR '':'', CHR ''*'', CHR ''?'', CHR 0x22,
           CHR ''<'', CHR ''>'', CHR ''|''}) name then False
      else list_all portable_part (split_on (CHR ''/'') name))"


section \<open>Sets of paths\<close>

text \<open>The directories above a path and the path itself.\<close>

definition path_prefixes :: "string \<Rightarrow> string list" where
  "path_prefixes p =
     (let parts = split_on (CHR ''/'') p in map (\<lambda>n. join_with ''/'' (take n parts)) [1..<length parts + 1])"

text \<open>The names seen so far by lower case, and the lower-cased files.\<close>

type_synonym path_set = "(string \<rightharpoonup> string) \<times> string set"

fun add_prefixes :: "string list \<Rightarrow> path_set \<Rightarrow> path_set option" where
  "add_prefixes [] st = Some st"
| "add_prefixes (p # ps) (names, leaves) =
     (let key = to_lower p; prior = names key in
      if key \<in> leaves \<or> prior \<noteq> None \<and> prior \<noteq> Some p then None
      else if ps = [] then if prior \<noteq> None then None else Some (names(key \<mapsto> p), insert key leaves)
      else add_prefixes ps (names(key \<mapsto> p), leaves))"

fun runner_paths :: "string list \<Rightarrow> path_set \<Rightarrow> bool" where
  "runner_paths [] st = True"
| "runner_paths (p # ps) st =
     (case add_prefixes (path_prefixes p) st of None \<Rightarrow> False | Some st' \<Rightarrow> runner_paths ps st')"

definition disjointRunnerPaths :: "string list \<Rightarrow> bool" where
  "disjointRunnerPaths ps = runner_paths ps (Map.empty, {})"


section \<open>Default exclusions\<close>

definition excluded_names :: "string list" where
  "excluded_names =
     [''.git'', ''.hg'', ''.svn'', ''.ssh'', ''.aws'', ''.azure'', ''.kaggle'', ''.gnupg'', ''.config'', ''.cache'',
      ''.venv'', ''venv'', ''node_modules'', ''__pycache__'', ''.pytest_cache'', ''.mypy_cache'', ''.idea'',
      ''.vscode'', ''.ds_store'', ''dist'', ''build'', ''target'', ''.compute-relay'', ''.compute-connector'',
      ''.computeignore'', ''kaggle.json'', ''access_token'', ''credentials'', ''credentials.json'', ''id_rsa'',
      ''id_ed25519'', ''.netrc'', ''.npmrc'', ''.pypirc'']"

definition has_suffix :: "string \<Rightarrow> string \<Rightarrow> bool" where
  "has_suffix s suf = has_prefix (rev s) (rev suf)"

definition defaultExcluded :: "string \<Rightarrow> bool" where
  "defaultExcluded name =
     list_ex (\<lambda>part. part \<in> set excluded_names \<or> has_prefix part ''.env'' \<or> has_suffix part ''.pem''
         \<or> has_suffix part ''.key'' \<or> has_suffix part ''.pyc'')
       (split_on (CHR ''/'') (to_lower name))"

definition paths_add :: "string \<Rightarrow> path_set \<Rightarrow> path_set option" where
  "paths_add name st =
     (if name = ''.'' \<or> length name > 240 \<or> \<not> ValidPath name \<or> defaultExcluded name then None
      else add_prefixes (path_prefixes name) st)"


section \<open>Ignore rules\<close>

text \<open>One row of the table: for every number of leading components, whether the pattern so far matches them.
  The argument \<open>mt\<close> matches one component, as \<open>path.Match\<close> does.\<close>

definition next_row :: "(string \<Rightarrow> string \<Rightarrow> bool) \<Rightarrow> string list \<Rightarrow> string \<Rightarrow> bool list \<Rightarrow> bool list" where
  "next_row mt parts token dp =
     (if token = ''**''
      then foldl (\<lambda>acc j. acc @ [dp ! j \<or> acc ! (j - 1)]) [dp ! 0] [1..<length parts + 1]
      else False # map (\<lambda>j. dp ! (j - 1) \<and> mt token (parts ! (j - 1))) [1..<length parts + 1])"

definition matchParts :: "(string \<Rightarrow> string \<Rightarrow> bool) \<Rightarrow> string list \<Rightarrow> string list \<Rightarrow> bool" where
  "matchParts mt pattern parts =
     list_ex (\<lambda>b. b) (fold (next_row mt parts) pattern (True # replicate (length parts) False))"

definition excludes :: "(string \<Rightarrow> string \<Rightarrow> bool) \<Rightarrow> string list \<Rightarrow> string \<Rightarrow> bool" where
  "excludes mt rules name =
     (if defaultExcluded name then True
      else
        let parts = split_on (CHR ''/'') name in
        list_ex (\<lambda>rule. if CHR ''/'' \<notin> set rule then list_ex (mt rule) parts
            else matchParts mt (split_on (CHR ''/'') rule) parts) rules)"

definition project_excluded :: "(string \<Rightarrow> string \<Rightarrow> bool) \<Rightarrow> string list \<Rightarrow> string list \<Rightarrow> string \<Rightarrow> bool" where
  "project_excluded mt protected_paths rules name \<longleftrightarrow>
     excludes mt rules name
     \<or> list_ex (\<lambda>prefix. prefix = ''.'' \<or> to_lower name = to_lower prefix
         \<or> has_prefix (to_lower name) (to_lower prefix @ ''/'')) protected_paths"


section \<open>The files of a manifest\<close>

record bundle_limits =
  lim_compressed :: int
  lim_expanded :: int
  lim_manifest :: int
  lim_files :: int
  lim_entries :: int
  lim_depth :: int

definition DefaultLimits :: bundle_limits where
  "DefaultLimits = \<lparr>lim_compressed = 100 * 2 ^ 20, lim_expanded = 500 * 2 ^ 20, lim_manifest = 4 * 2 ^ 20,
     lim_files = 10000, lim_entries = 100000, lim_depth = 32\<rparr>"

definition limits_valid :: "bundle_limits \<Rightarrow> bool" where
  "limits_valid l \<longleftrightarrow>
     \<not> (lim_compressed l < 1 \<or> lim_compressed l > 2 * 2 ^ 30 \<or> lim_expanded l < 1 \<or> lim_expanded l > 4 * 2 ^ 30
        \<or> lim_manifest l < 128 \<or> lim_manifest l > 16 * 2 ^ 20 \<or> lim_files l < 1 \<or> lim_files l > 100000
        \<or> lim_entries l < lim_files l \<or> lim_entries l > 1000000 \<or> lim_depth l < 1 \<or> lim_depth l > 64)"

record bundle_file =
  file_path :: string
  file_bytes :: int
  file_sha256 :: string
  file_executable :: bool

fun manifest_loop :: "bundle_limits \<Rightarrow> path_set \<Rightarrow> int \<Rightarrow> string \<Rightarrow> bundle_file list \<Rightarrow> bool" where
  "manifest_loop l st used prev [] = True"
| "manifest_loop l st used prev (f # fs) =
     (case paths_add (file_path f) st of
        None \<Rightarrow> False
      | Some st' \<Rightarrow>
          if int (length (split_on (CHR ''/'') (file_path f))) > lim_depth l \<or> file_path f \<le> prev
             \<or> file_bytes f < 0 \<or> file_bytes f > lim_expanded l - used \<or> \<not> digest_valid (file_sha256 f)
          then False
          else manifest_loop l st' (used + file_bytes f) (file_path f) fs)"

definition manifest_files_ok :: "bundle_limits \<Rightarrow> bundle_file list \<Rightarrow> bool" where
  "manifest_files_ok l fs \<longleftrightarrow>
     fs \<noteq> [] \<and> int (length fs) \<le> lim_files l \<and> manifest_loop l (Map.empty, {}) 0 [] fs"


section \<open>Lemmas on path sets\<close>

text \<open>Two paths can live in one tree on every file system: neither is the other or a directory above it,
  whatever the case, and directories they share are spelled alike.\<close>

definition compatible :: "string \<Rightarrow> string \<Rightarrow> bool" where
  "compatible p q \<longleftrightarrow>
     to_lower p \<notin> to_lower ` set (path_prefixes q) \<and> to_lower q \<notin> to_lower ` set (path_prefixes p)
     \<and> (\<forall>a \<in> set (path_prefixes p). \<forall>b \<in> set (path_prefixes q). to_lower a = to_lower b \<longrightarrow> a = b)"

lemma length_join_take:
  "n < length ps \<Longrightarrow> 0 < n \<Longrightarrow> length (join_with ''/'' (take n ps)) < length (join_with ''/'' (take (Suc n) ps))"
proof (induction ps arbitrary: n)
  case (Cons p ps)
  then obtain k q qs where k: "n = Suc k" "ps = q # qs" by (cases n; cases ps) auto
  show ?case
  proof (cases k)
    case (Suc i)
    then show ?thesis using Cons.IH [of k] Cons.prems k by simp
  qed (simp add: k)
qed simp

lemma length_path_prefixes_mono:
  assumes "i < j" "j < length (path_prefixes p)"
  shows "length (path_prefixes p ! i) < length (path_prefixes p ! j)"
proof -
  define parts where "parts = split_on (CHR ''/'') p"
  define f where "f n = length (join_with ''/'' (take (Suc n) parts))" for n
  have len: "length (path_prefixes p) = length parts"
    by (simp add: path_prefixes_def parts_def Let_def del: upt_Suc)
  have nth: "length (path_prefixes p ! n) = f n" if "n < length parts" for n
    using that by (simp add: path_prefixes_def parts_def [symmetric] f_def Let_def del: upt_Suc)
  have "f i < f j" using assms unfolding len
  proof (induction j)
    case (Suc j)
    have "f j < f (Suc j)" unfolding f_def using Suc.prems by (intro length_join_take) auto
    then show ?case using Suc by (cases "i = j") auto
  qed simp
  then show ?thesis using assms nth len by simp
qed

lemma path_prefixes_distinct: "distinct (map to_lower (path_prefixes p))"
proof -
  have "distinct (map length (path_prefixes p))"
    unfolding distinct_conv_nth
    by (metis (no_types, lifting) length_map length_path_prefixes_mono linorder_neqE_nat nth_map less_irrefl)
  then have "distinct (map length (map to_lower (path_prefixes p)))" by (simp add: to_lower_def comp_def)
  then show ?thesis by (rule distinct_map [THEN iffD1, THEN conjunct1])
qed

lemma path_prefixes_last: "path_prefixes p \<noteq> []" "last (path_prefixes p) = p"
proof -
  have "1 \<le> length (split_on (CHR ''/'') p)" using split_on_ne [of "CHR ''/''" p] by (simp add: Suc_le_eq)
  then show "path_prefixes p \<noteq> []" "last (path_prefixes p) = p"
    by (auto simp: path_prefixes_def Let_def join_split_on)
qed

lemma path_in_prefixes [simp]: "p \<in> set (path_prefixes p)"
  using path_prefixes_last [of p] last_in_set by metis

lemma add_prefixes_succeeds:
  assumes "ps \<noteq> []" "distinct (map to_lower ps)"
  shows "add_prefixes ps (names, leaves) \<noteq> None \<longleftrightarrow>
    (\<forall>a \<in> set ps. to_lower a \<notin> leaves \<and> (\<forall>b. names (to_lower a) = Some b \<longrightarrow> b = a))
    \<and> names (to_lower (last ps)) = None"
  using assms
proof (induction ps arbitrary: names)
  case (Cons p ps)
  show ?case
  proof (cases "ps = []")
    case False
    have other: "to_lower a \<noteq> to_lower p" if "a \<in> set ps" for a
      using Cons.prems(2) that by (simp add: image_iff) metis
    have IH: "add_prefixes ps (names(to_lower p \<mapsto> p), leaves) \<noteq> None \<longleftrightarrow>
        (\<forall>a \<in> set ps. to_lower a \<notin> leaves \<and> (\<forall>b. names (to_lower a) = Some b \<longrightarrow> b = a))
        \<and> names (to_lower (last ps)) = None"
      using Cons.prems(2) False other last_in_set [OF False] by (subst Cons.IH) simp_all
    have step: "add_prefixes (p # ps) (names, leaves) =
        (if to_lower p \<in> leaves \<or> (\<exists>b. names (to_lower p) = Some b \<and> b \<noteq> p) then None
         else add_prefixes ps (names(to_lower p \<mapsto> p), leaves))"
      using False by (cases "names (to_lower p)") (auto simp: Let_def)
    show ?thesis using False by (cases "to_lower p \<in> leaves \<or> (\<exists>b. names (to_lower p) = Some b \<and> b \<noteq> p)")
      (auto simp only: step IH if_True if_False list.set last_ConsR ball_simps simp_thms)
  qed (auto simp: Let_def)
qed simp

lemma add_prefixes_lookup:
  assumes "ps \<noteq> []" "distinct (map to_lower ps)" "add_prefixes ps (names, leaves) = Some (names', leaves')"
  shows "names' k = Some a \<longleftrightarrow> names k = Some a \<or> a \<in> set ps \<and> to_lower a = k"
    and "leaves' = insert (to_lower (last ps)) leaves"
proof -
  have "(\<forall>k a. names' k = Some a \<longleftrightarrow> names k = Some a \<or> a \<in> set ps \<and> to_lower a = k)
      \<and> leaves' = insert (to_lower (last ps)) leaves"
    using assms
  proof (induction ps arbitrary: names)
    case (Cons p ps)
    show ?case
    proof (cases "ps = []")
      case False
      have step: "add_prefixes ps (names(to_lower p \<mapsto> p), leaves) = Some (names', leaves')"
          "names (to_lower p) = None \<or> names (to_lower p) = Some p"
        using Cons.prems(3) False by (auto simp: Let_def split: if_splits)
      from Cons.IH [OF False _ step(1)] Cons.prems(2) step(2) False show ?thesis by auto
    qed (use Cons.prems(3) in \<open>auto simp: Let_def split: if_splits\<close>)
  qed simp
  then show "names' k = Some a \<longleftrightarrow> names k = Some a \<or> a \<in> set ps \<and> to_lower a = k"
    "leaves' = insert (to_lower (last ps)) leaves" by auto
qed

text \<open>The state of the check after the paths \<open>ps\<close>.\<close>

definition represents :: "path_set \<Rightarrow> string list \<Rightarrow> bool" where
  "represents st ps \<longleftrightarrow>
     snd st = to_lower ` set ps
     \<and> (\<forall>k a. fst st k = Some a \<longleftrightarrow> (\<exists>p \<in> set ps. a \<in> set (path_prefixes p) \<and> to_lower a = k))"

lemma represents_step:
  assumes "represents st ps"
  shows "add_prefixes (path_prefixes p) st \<noteq> None \<longleftrightarrow> (\<forall>q \<in> set ps. compatible q p)"
    and "add_prefixes (path_prefixes p) st = Some st' \<Longrightarrow> represents st' (ps @ [p])"
proof -
  obtain names leaves where st: "st = (names, leaves)" by (cases st)
  have rep: "leaves = to_lower ` set ps"
      "names k = Some a \<longleftrightarrow> (\<exists>p \<in> set ps. a \<in> set (path_prefixes p) \<and> to_lower a = k)" for k a
    using assms by (auto simp: represents_def st)
  have none: "names k = None \<longleftrightarrow> (\<forall>q \<in> set ps. k \<notin> to_lower ` set (path_prefixes q))" for k
  proof (cases "names k")
    case None
    then show ?thesis using rep(2) [of k] by auto
  next
    case (Some a)
    then show ?thesis using rep(2) [of k a] by auto
  qed
  note prefixes = path_prefixes_last(1) [of p] path_prefixes_distinct [of p]
  show "add_prefixes (path_prefixes p) st \<noteq> None \<longleftrightarrow> (\<forall>q \<in> set ps. compatible q p)"
    unfolding st add_prefixes_succeeds [OF prefixes] path_prefixes_last(2) none rep compatible_def
    by (auto simp: image_iff) metis+
  assume "add_prefixes (path_prefixes p) st = Some st'"
  then have "add_prefixes (path_prefixes p) (names, leaves) = Some (fst st', snd st')" by (simp add: st)
  from add_prefixes_lookup [OF prefixes this] show "represents st' (ps @ [p])"
    by (auto simp: represents_def rep path_prefixes_last(2))
qed

lemma sorted_wrt_snoc: "sorted_wrt P (xs @ [x]) \<longleftrightarrow> sorted_wrt P xs \<and> (\<forall>y \<in> set xs. P y x)"
  by (auto simp: sorted_wrt_append)

lemma runner_paths_iff:
  "represents st done \<Longrightarrow> sorted_wrt compatible done \<Longrightarrow> runner_paths ps st \<longleftrightarrow> sorted_wrt compatible (done @ ps)"
proof (induction ps arbitrary: st "done")
  case (Cons p ps)
  show ?case
  proof (cases "add_prefixes (path_prefixes p) st")
    case None
    then show ?thesis
      using represents_step(1) [OF Cons.prems(1), of p] by (auto simp: sorted_wrt_append)
  next
    case (Some st')
    have "\<forall>q \<in> set done. compatible q p" using represents_step(1) [OF Cons.prems(1), of p] Some by simp
    then show ?thesis
      using Cons.IH [OF represents_step(2) [OF Cons.prems(1) Some]] Cons.prems(2) Some
      by (simp add: sorted_wrt_snoc)
  qed
qed simp

lemma represents_empty: "represents (Map.empty, {}) []"
  by (simp add: represents_def)

lemma manifest_loop_iff:
  "represents st ps \<Longrightarrow> sorted_wrt compatible ps \<Longrightarrow>
     manifest_loop l st used prev fs \<longleftrightarrow>
       sorted_wrt compatible (ps @ map file_path fs) \<and> sorted_wrt (<) (prev # map file_path fs)
       \<and> (\<forall>f \<in> set fs. file_path f \<noteq> ''.'' \<and> length (file_path f) \<le> 240 \<and> ValidPath (file_path f)
            \<and> \<not> defaultExcluded (file_path f) \<and> int (length (split_on (CHR ''/'') (file_path f))) \<le> lim_depth l
            \<and> 0 \<le> file_bytes f \<and> digest_valid (file_sha256 f))
       \<and> (fs = [] \<or> used + sum_list (map file_bytes fs) \<le> lim_expanded l)"
proof (induction fs arbitrary: st ps used prev)
  case (Cons f fs)
  let ?p = "file_path f"
  let ?own = "?p \<noteq> ''.'' \<and> length ?p \<le> 240 \<and> ValidPath ?p \<and> \<not> defaultExcluded ?p
    \<and> int (length (split_on (CHR ''/'') ?p)) \<le> lim_depth l \<and> 0 \<le> file_bytes f \<and> digest_valid (file_sha256 f)"
  have sums: "0 \<le> sum_list (map file_bytes fs)" if "\<forall>f \<in> set fs. 0 \<le> file_bytes f"
    using that by (intro sum_list_nonneg) auto
  show ?case
  proof (cases "add_prefixes (path_prefixes ?p) st")
    case None
    then show ?thesis
      using represents_step(1) [OF Cons.prems(1), of ?p] by (auto simp: paths_add_def sorted_wrt_append)
  next
    case (Some st')
    have comp: "\<forall>q \<in> set ps. compatible q ?p" using represents_step(1) [OF Cons.prems(1), of ?p] Some by simp
    note IH = Cons.IH [OF represents_step(2) [OF Cons.prems(1) Some], of "used + file_bytes f" ?p]
    have step: "manifest_loop l st used prev (f # fs) \<longleftrightarrow>
        ?own \<and> prev < ?p \<and> used + file_bytes f \<le> lim_expanded l \<and> manifest_loop l st' (used + file_bytes f) ?p fs"
      using Some by (auto simp: paths_add_def not_le not_less)
    have "sorted_wrt compatible (ps @ [?p])" using Cons.prems(2) comp by (simp add: sorted_wrt_snoc)
    note IH = IH [OF this]
    have trans: "sorted_wrt (<) (prev # ?p # map file_path fs) \<longleftrightarrow> prev < ?p \<and> sorted_wrt (<) (?p # map file_path fs)"
      by (auto intro: less_trans)
    show ?thesis unfolding step IH using sums trans by (auto simp: algebra_simps)
  qed
qed (simp add: )


section \<open>The meaning of a rule\<close>

text \<open>A pattern matches a path when the path can be cut into one piece per token, any piece for \<open>**\<close> and one
  matching component for every other token.\<close>

definition piece_ok :: "(string \<Rightarrow> string \<Rightarrow> bool) \<Rightarrow> string \<Rightarrow> string list \<Rightarrow> bool" where
  "piece_ok mt token piece \<longleftrightarrow> token = ''**'' \<or> (\<exists>x. piece = [x] \<and> mt token x)"

definition glob :: "(string \<Rightarrow> string \<Rightarrow> bool) \<Rightarrow> string list \<Rightarrow> string list \<Rightarrow> bool" where
  "glob mt pattern xs \<longleftrightarrow> (\<exists>pieces. list_all2 (piece_ok mt) pattern pieces \<and> concat pieces = xs)"

lemma glob_Nil [simp]: "glob mt [] xs \<longleftrightarrow> xs = []"
  by (auto simp: glob_def)

lemma glob_snoc: "glob mt (ts @ [t]) xs \<longleftrightarrow> (\<exists>ys piece. xs = ys @ piece \<and> glob mt ts ys \<and> piece_ok mt t piece)"
proof
  assume "glob mt (ts @ [t]) xs"
  then obtain ps p where "list_all2 (piece_ok mt) ts ps" "piece_ok mt t p" "concat (ps @ [p]) = xs"
    by (auto simp: glob_def list_all2_append1 list_all2_Cons1)
  then show "\<exists>ys piece. xs = ys @ piece \<and> glob mt ts ys \<and> piece_ok mt t piece" by (auto simp: glob_def)
next
  assume "\<exists>ys piece. xs = ys @ piece \<and> glob mt ts ys \<and> piece_ok mt t piece"
  then obtain ps p where "list_all2 (piece_ok mt) ts ps" "piece_ok mt t p" "xs = concat ps @ p"
    by (auto simp: glob_def)
  then have "list_all2 (piece_ok mt) (ts @ [t]) (ps @ [p])" "concat (ps @ [p]) = xs"
    by (auto intro: list_all2_appendI)
  then show "glob mt (ts @ [t]) xs" unfolding glob_def by blast
qed

text \<open>The row after the tokens \<open>ts\<close>.\<close>

definition row_of :: "(string \<Rightarrow> string \<Rightarrow> bool) \<Rightarrow> string list \<Rightarrow> string list \<Rightarrow> bool list \<Rightarrow> bool" where
  "row_of mt ts parts dp \<longleftrightarrow>
     length dp = Suc (length parts) \<and> (\<forall>j \<le> length parts. dp ! j \<longleftrightarrow> glob mt ts (take j parts))"

lemma any_row:
  "n \<le> m \<Longrightarrow> length dp = Suc m \<Longrightarrow>
     length (foldl (\<lambda>acc j. acc @ [dp ! j \<or> acc ! (j - 1)]) [dp ! 0] [1..<Suc n]) = Suc n
     \<and> (\<forall>j \<le> n. foldl (\<lambda>acc j. acc @ [dp ! j \<or> acc ! (j - 1)]) [dp ! 0] [1..<Suc n] ! j \<longleftrightarrow> (\<exists>i \<le> j. dp ! i))"
proof (induction n)
  case (Suc n)
  let ?f = "\<lambda>acc j. acc @ [dp ! j \<or> acc ! (j - 1)]"
  define acc where "acc = foldl ?f [dp ! 0] [1..<Suc n]"
  have IH: "length acc = Suc n" "\<And>j. j \<le> n \<Longrightarrow> acc ! j \<longleftrightarrow> (\<exists>i \<le> j. dp ! i)" using Suc unfolding acc_def by auto
  have "foldl ?f [dp ! 0] [1..<Suc (Suc n)] = acc @ [dp ! Suc n \<or> acc ! n]" by (simp add: acc_def)
  then show ?case using IH by (auto simp: nth_append le_Suc_eq)
qed simp

lemma next_row_correct:
  assumes "row_of mt ts parts dp"
  shows "row_of mt (ts @ [t]) parts (next_row mt parts t dp)"
proof (cases "t = ''**''")
  case True
  have row: "next_row mt parts t dp ! j \<longleftrightarrow> (\<exists>i \<le> j. dp ! i)" if "j \<le> length parts" for j
    using any_row [of "length parts" "length parts" dp] assms that True by (simp add: next_row_def row_of_def)
  have "(\<exists>i \<le> j. dp ! i) \<longleftrightarrow> glob mt (ts @ [t]) (take j parts)" if j: "j \<le> length parts" for j
  proof
    assume "\<exists>i \<le> j. dp ! i"
    then obtain i where i: "i \<le> j" "glob mt ts (take i parts)" using assms j by (auto simp: row_of_def)
    moreover have "take j parts = take i parts @ drop i (take j parts)"
      using i(1) by (metis append_take_drop_id min.absorb1 take_take)
    ultimately show "glob mt (ts @ [t]) (take j parts)" unfolding glob_snoc using True by (auto simp: piece_ok_def)
  next
    assume "glob mt (ts @ [t]) (take j parts)"
    then obtain ys p where ys: "take j parts = ys @ p" "glob mt ts ys" by (auto simp: glob_snoc)
    then have "ys = take (length ys) parts" "length ys \<le> j"
      by (metis append_eq_conv_conj min.absorb1 take_take length_take min.cobounded2 le_add1 length_append,
          metis le_add1 length_append length_take min.cobounded2 order.trans)
    then show "\<exists>i \<le> j. dp ! i" using ys(2) assms that by (auto simp: row_of_def intro!: exI [of _ "length ys"])
  qed
  moreover have "length (next_row mt parts t dp) = Suc (length parts)"
    using any_row [of "length parts" "length parts" dp] assms True by (simp add: next_row_def row_of_def)
  ultimately show ?thesis using row by (simp add: row_of_def)
next
  case False
  have "next_row mt parts t dp ! j \<longleftrightarrow> glob mt (ts @ [t]) (take j parts)" if "j \<le> length parts" for j
  proof (cases j)
    case 0
    then show ?thesis using False by (simp add: next_row_def glob_snoc piece_ok_def)
  next
    case (Suc i)
    then have "take j parts = take i parts @ [parts ! i]" using that by (simp add: take_Suc_conv_app_nth)
    then have "glob mt (ts @ [t]) (take j parts) \<longleftrightarrow> glob mt ts (take i parts) \<and> mt t (parts ! i)"
      using False by (auto simp: glob_snoc piece_ok_def)
    then show ?thesis using Suc that False assms by (simp add: next_row_def row_of_def nth_Cons' del: upt_Suc)
  qed
  moreover have "length (next_row mt parts t dp) = Suc (length parts)"
    using False by (simp add: next_row_def del: upt_Suc)
  ultimately show ?thesis by (simp add: row_of_def)
qed

lemma matchParts_rows:
  "row_of mt ts parts dp \<Longrightarrow> row_of mt (ts @ us) parts (fold (next_row mt parts) us dp)"
proof (induction us arbitrary: ts dp)
  case (Cons u us)
  from Cons.IH [OF next_row_correct [OF Cons.prems, of u]] show ?case by simp
qed simp

lemma matchParts_iff: "matchParts mt pattern parts \<longleftrightarrow> (\<exists>j \<le> length parts. glob mt pattern (take j parts))"
proof -
  have "row_of mt [] parts (True # replicate (length parts) False)" by (auto simp: row_of_def nth_Cons')
  from matchParts_rows [OF this, of pattern] show ?thesis
    by (auto simp: matchParts_def row_of_def list_ex_length less_Suc_eq_le)
qed


section \<open>Properties\<close>

text \<open>C39. A set of paths passes the check for the remote runner exactly when its paths are pairwise compatible, and
  the files of a manifest pass exactly when they are, in addition, strictly ordered, portable, not excluded,
  within the depth and size limits and have valid digests.\<close>

theorem accepted_paths_form_a_tree:
  "(disjointRunnerPaths ps \<longleftrightarrow> sorted_wrt compatible ps)
   \<and> (manifest_files_ok l fs \<longleftrightarrow>
        fs \<noteq> [] \<and> int (length fs) \<le> lim_files l
        \<and> sorted_wrt compatible (map file_path fs) \<and> sorted_wrt (<) ([] # map file_path fs)
        \<and> list_all (\<lambda>f. file_path f \<noteq> ''.'' \<and> length (file_path f) \<le> 240 \<and> ValidPath (file_path f)
             \<and> \<not> defaultExcluded (file_path f) \<and> int (length (split_on (CHR ''/'') (file_path f))) \<le> lim_depth l
             \<and> 0 \<le> file_bytes f \<and> digest_valid (file_sha256 f)) fs
        \<and> sum_list (map file_bytes fs) \<le> lim_expanded l)"
  using runner_paths_iff [OF represents_empty, of ps] manifest_loop_iff [OF represents_empty, of l 0 "[]" fs]
  by (auto simp: disjointRunnerPaths_def manifest_files_ok_def list_all_iff)

text \<open>C40. The table that evaluates an ignore rule is exact for every way of matching one component: a rule with
  slashes excludes a path exactly when its pattern matches the path or a directory above it.\<close>

theorem ignore_table_exact:
  "matchParts mt pattern parts \<longleftrightarrow>
     (\<exists>above below pieces. parts = above @ below \<and> concat pieces = above \<and> list_all2 (piece_ok mt) pattern pieces)"
proof -
  have "(\<exists>j \<le> length parts. glob mt pattern (take j parts)) \<longleftrightarrow> (\<exists>above below. parts = above @ below \<and> glob mt pattern above)"
    by (metis append_eq_conv_conj append_take_drop_id le_add1 length_append nat_le_linear take_all)
  then show ?thesis by (auto simp: matchParts_iff glob_def)
qed

end
