(* ===== verification/Secret_Pool.thy ===== *)
theory Secret_Pool
  imports Provider_Services "HOL-Library.AList"
begin

unbundle bit_operations_syntax

text \<open>
  The process-local pool of secret material, \<open>src/internal/workloadsecret/pool.go\<close>.  Byte slices are buffers of
  an explicit memory, because the pool hands out copies and overwrites its own bytes: what a caller holds
  after a claim depends on which buffers are shared.  A callback that writes to the database is an argument.
\<close>

section \<open>Buffers\<close>

record buffers =
  buf_next :: nat
  buf_bytes :: "nat \<Rightarrow> string"

text \<open>Copying values into buffers of their own, and overwriting buffers with zeros.\<close>

fun store_values :: "(string \<times> string) list \<Rightarrow> buffers \<Rightarrow> (string \<times> nat) list \<times> buffers" where
  "store_values [] m = ([], m)"
| "store_values ((n, v) # vs) m =
     (let a = buf_next m;
          (rest, m') = store_values vs (m\<lparr>buf_next := a + 1, buf_bytes := (buf_bytes m)(a := v)\<rparr>)
      in ((n, a) # rest, m'))"

definition read_values :: "(string \<times> nat) list \<Rightarrow> buffers \<Rightarrow> (string \<times> string) list" where
  "read_values vs m = map (\<lambda>(n, a). (n, buf_bytes m a)) vs"

definition cloneValues :: "(string \<times> nat) list \<Rightarrow> buffers \<Rightarrow> (string \<times> nat) list \<times> buffers" where
  "cloneValues vs m = store_values (read_values vs m) m"

definition zeros :: "string \<Rightarrow> string" where
  "zeros bs = replicate (length bs) (CHR 0x00)"

definition clear_values :: "(string \<times> nat) list \<Rightarrow> buffers \<Rightarrow> buffers" where
  "clear_values vs m =
     m\<lparr>buf_bytes := (\<lambda>a. if a \<in> snd ` set vs then zeros (buf_bytes m a) else buf_bytes m a)\<rparr>"


section \<open>Fingerprints\<close>

text \<open>HMAC with SHA-256 for a key of at most one block, which the 32 bytes of a pool's key are.\<close>

definition hmac_sha256 :: "string \<Rightarrow> string \<Rightarrow> nat list" where
  "hmac_sha256 key msg =
     (let k = map byte key @ replicate (64 - length key) 0;
          pad = (\<lambda>n. map (\<lambda>b. char_of (b XOR n)) k)
      in sha256 (pad 92 @ map char_of (sha256 (pad 54 @ msg))))"

definition base64_char :: "nat \<Rightarrow> char" where
  "base64_char n =
     (if n < 26 then char_of (65 + n) else if n < 52 then char_of (71 + n)
      else if n < 62 then char_of (n - 4) else if n = 62 then CHR ''+'' else CHR ''/'')"

fun base64 :: "nat list \<Rightarrow> string" where
  "base64 [] = []"
| "base64 [a] = [base64_char (a div 4), base64_char (a mod 4 * 16)] @ ''==''"
| "base64 [a, b] =
     [base64_char (a div 4), base64_char (a mod 4 * 16 + b div 16), base64_char (b mod 16 * 4)] @ ''=''"
| "base64 (a # b # c # rest) =
     [base64_char (a div 4), base64_char (a mod 4 * 16 + b div 16), base64_char (b mod 16 * 4 + c div 64),
      base64_char (c mod 64)] @ base64 rest"

definition secret_key_json :: "secret_key \<Rightarrow> json" where
  "secret_key_json k =
     JObject [(''WorkspaceID'', JString (key_workspace k)), (''JobID'', JString (key_job k)),
       (''AttemptID'', JString (key_attempt k))]"

definition supply_json :: "secret_supply \<Rightarrow> json" where
  "supply_json r =
     JObject [(''attempt_id'', JString (supply_attempt r)),
       (''readiness_revision'', JString (supply_readiness r)), (''expires_at'', JString (supply_expires r)),
       (''values'', case supply_values r of None \<Rightarrow> JNull
          | Some kvs \<Rightarrow> JObject (map (\<lambda>(n, v). (n, JString (base64 (map byte v)))) kvs))]"

definition secret_fingerprint :: "string \<Rightarrow> secret_key \<Rightarrow> secret_supply \<Rightarrow> string" where
  "secret_fingerprint pkey k r =
     hex_encode (hmac_sha256 pkey (json_marshal
       (JObject [(''Version'', JString ''workload-secret/v1''), (''Key'', secret_key_json k),
          (''Request'', supply_json r)])))"


section \<open>The pool\<close>

definition MaxHeld :: nat where "MaxHeld = 16"

record held =
  held_authorization :: opaque_id
  held_key :: secret_key
  held_expires :: string
  held_values :: "(string \<times> nat) list"

record pool =
  pool_key :: string
  pool_entries :: "(secret_key \<times> held) list"
  pool_closed :: bool
  pool_mem :: buffers

definition secret_sentinel :: "secret_error \<Rightarrow> go_error" where
  "secret_sentinel e =
     Sentinel (case e of SecretErrRequest \<Rightarrow> ''workloadsecret.ErrRequest''
       | SecretErrNotFound \<Rightarrow> ''workloadsecret.ErrNotFound'' | SecretErrConflict \<Rightarrow> ''workloadsecret.ErrConflict''
       | SecretErrState \<Rightarrow> ''workloadsecret.ErrState'' | SecretErrUnavailable \<Rightarrow> ''workloadsecret.ErrUnavailable''
       | SecretErrLimit \<Rightarrow> ''workloadsecret.ErrLimit'')"

definition NewPool :: "string \<Rightarrow> buffers \<Rightarrow> secret_error + pool" where
  "NewPool key m =
     (if length key \<noteq> 32 then Inl SecretErrRequest
      else Inr \<lparr>pool_key = key, pool_entries = [], pool_closed = False, pool_mem = m\<rparr>)"

definition pool_drop :: "secret_key \<Rightarrow> pool \<Rightarrow> pool" where
  "pool_drop k p =
     (case map_of (pool_entries p) k of
        None \<Rightarrow> p
      | Some h \<Rightarrow> p\<lparr>pool_entries := AList.delete k (pool_entries p),
                   pool_mem := clear_values (held_values h) (pool_mem p)\<rparr>)"

text \<open>A range over the entries that drops some of them; the order does not matter.\<close>

definition drop_where :: "(secret_key \<Rightarrow> held \<Rightarrow> bool) \<Rightarrow> pool \<Rightarrow> pool" where
  "drop_where c p = fold (\<lambda>(k, h) p. if c k h then pool_drop k p else p) (pool_entries p) p"

definition held_expired :: "gotime \<Rightarrow> held \<Rightarrow> bool" where
  "held_expired now h = (case CanonicalTime (held_expires h) of None \<Rightarrow> True | Some t \<Rightarrow> \<not> before now t)"

definition prune :: "gotime \<Rightarrow> pool \<Rightarrow> pool" where
  "prune now p = drop_where (\<lambda>k h. held_expired now h) p"

definition available :: "secret_key \<Rightarrow> opaque_id \<Rightarrow> gotime \<Rightarrow> pool \<Rightarrow> bool \<times> pool" where
  "available k auth now p =
     (let p = prune now p in
      (\<not> pool_closed p \<and> (case map_of (pool_entries p) k of None \<Rightarrow> False | Some h \<Rightarrow> held_authorization h = auth)
         \<and> validOpaqueID auth, p))"

definition Supply ::
  "secret_key \<Rightarrow> secret_supply \<Rightarrow> gotime \<Rightarrow> (string \<Rightarrow> secret_metadata \<Rightarrow> go_error + receipt \<times> bool) \<Rightarrow> pool
     \<Rightarrow> (go_error + receipt) \<times> pool" where
  "Supply k r now persist p =
     (if pool_closed p \<or> \<not> secret_key_valid k \<or> key_attempt k \<noteq> supply_attempt r \<or> supply_validate r \<noteq> None
      then (Inl (secret_sentinel SecretErrRequest), p)
      else
        let p = prune now p in
        case persist (secret_fingerprint (pool_key p) k r) (supply_metadata r) of
          Inl e \<Rightarrow> (Inl e, p)
        | Inr (rc, usable) \<Rightarrow>
            if receipt_validate rc \<noteq> None \<or> receipt_key rc \<noteq> k then (Inl (secret_sentinel SecretErrState), p)
            else if \<not> usable then (Inr rc, pool_drop k p)
            else if map_of (pool_entries p) k = None \<and> length (pool_entries p) \<ge> MaxHeld
            then (Inl (secret_sentinel SecretErrLimit), p)
            else
              let p = pool_drop k p;
                  (vs, m) = store_values (details_list (supply_values r)) (pool_mem p);
                  h = \<lparr>held_authorization = receipt_authorization rc, held_key = k,
                       held_expires = supply_expires r, held_values = vs\<rparr>
              in (Inr rc, p\<lparr>pool_entries := AList.update k h (pool_entries p), pool_mem := m\<rparr>))"

text \<open>A nil pool never has material.\<close>

definition WithAvailability ::
  "pool option \<Rightarrow> secret_key \<Rightarrow> opaque_id \<Rightarrow> gotime \<Rightarrow> (bool \<Rightarrow> 'r) \<Rightarrow> 'r \<times> pool option" where
  "WithAvailability p k auth now act =
     (case p of None \<Rightarrow> (act False, None) | Some p \<Rightarrow> let (ok, p) = available k auth now p in (act ok, Some p))"

definition Available :: "pool option \<Rightarrow> secret_key \<Rightarrow> opaque_id \<Rightarrow> gotime \<Rightarrow> bool \<times> pool option" where
  "Available p k auth now = WithAvailability p k auth now (\<lambda>ok. ok)"

text \<open>The bytes are copied before the pool's own are overwritten; \<open>commit\<close> runs between the check and the copy.\<close>

definition take_material :: "secret_key \<Rightarrow> pool \<Rightarrow> held \<times> pool" where
  "take_material k p =
     (case map_of (pool_entries p) k of
        None \<Rightarrow> (\<lparr>held_authorization = [], held_key = \<lparr>key_workspace = [], key_job = [], key_attempt = []\<rparr>,
                  held_expires = [], held_values = []\<rparr>, p)
      | Some h \<Rightarrow>
          let (vs, m) = cloneValues (held_values h) (pool_mem p)
          in (h\<lparr>held_values := vs\<rparr>, pool_drop k (p\<lparr>pool_mem := m\<rparr>)))"

definition Claim ::
  "pool option \<Rightarrow> secret_key \<Rightarrow> opaque_id \<Rightarrow> gotime \<Rightarrow> ('s \<Rightarrow> go_error option \<times> 's) \<Rightarrow> 's
     \<Rightarrow> (go_error + held) \<times> pool option \<times> 's" where
  "Claim p k auth now commit s =
     (case p of
        None \<Rightarrow> (Inl (secret_sentinel SecretErrUnavailable), None, s)
      | Some p \<Rightarrow>
          let (ok, p) = available k auth now p in
          if \<not> ok then (Inl (secret_sentinel SecretErrUnavailable), Some p, s)
          else
            let (err, s) = commit s in
            case err of
              Some e \<Rightarrow> (Inl e, Some p, s)
            | None \<Rightarrow> let (h, p) = take_material k p in (Inr h, Some p, s))"

definition Revoke :: "secret_key \<Rightarrow> opaque_id \<Rightarrow> go_error + receipt \<Rightarrow> pool \<Rightarrow> (go_error + receipt) \<times> pool" where
  "Revoke k auth persisted p =
     (persisted,
      case persisted of
        Inl _ \<Rightarrow> p
      | Inr _ \<Rightarrow> (case map_of (pool_entries p) k of
            None \<Rightarrow> p | Some h \<Rightarrow> if held_authorization h = auth then pool_drop k p else p))"

definition Sweep :: "gotime \<Rightarrow> (secret_key \<Rightarrow> opaque_id \<Rightarrow> bool) \<Rightarrow> pool \<Rightarrow> pool" where
  "Sweep now usable p = drop_where (\<lambda>k h. \<not> usable k (held_authorization h)) (prune now p)"

definition Close :: "pool \<Rightarrow> pool" where
  "Close p =
     (let p = drop_where (\<lambda>k h. True) p
      in p\<lparr>pool_key := zeros (pool_key p), pool_closed := True\<rparr>)"

section \<open>Lemmas\<close>

definition entry_addrs :: "(secret_key \<times> held) list \<Rightarrow> nat list" where
  "entry_addrs es = concat (map (\<lambda>(k, h). map snd (held_values h)) es)"

text \<open>The invariant of a pool: one entry per key, kept under its own key, within the limit; no two values
  share a buffer; a closed pool is empty.\<close>

definition pool_ok :: "pool \<Rightarrow> bool" where
  "pool_ok p \<longleftrightarrow>
     distinct (map fst (pool_entries p)) \<and> length (pool_entries p) \<le> MaxHeld
     \<and> (\<forall>(k, h) \<in> set (pool_entries p). held_key h = k)
     \<and> distinct (entry_addrs (pool_entries p)) \<and> (\<forall>a \<in> set (entry_addrs (pool_entries p)). a < buf_next (pool_mem p))
     \<and> (pool_closed p \<longrightarrow> pool_entries p = [])"

lemma store_values_spec:
  "store_values vs m = (xs, m') \<Longrightarrow>
     map fst xs = map fst vs \<and> map snd xs = [buf_next m ..< buf_next m + length vs]
     \<and> buf_next m' = buf_next m + length vs \<and> read_values xs m' = vs
     \<and> (\<forall>a < buf_next m. buf_bytes m' a = buf_bytes m a)"
proof (induction vs m arbitrary: xs m' rule: store_values.induct)
  case (2 n v vs m)
  let ?m = "m\<lparr>buf_next := buf_next m + 1, buf_bytes := (buf_bytes m)(buf_next m := v)\<rparr>"
  obtain rest where rest: "store_values vs ?m = (rest, m')" "xs = (n, buf_next m) # rest"
    using 2(2) by (auto simp: Let_def split: prod.splits)
  from 2(1) [OF refl rest(1) [symmetric, THEN sym]] rest(2) show ?case
    by (auto simp: read_values_def upt_rec [of "buf_next m"])
qed (simp add: read_values_def)

lemma entry_addrs_delete: "set (entry_addrs (AList.delete k es)) \<subseteq> set (entry_addrs es)"
  by (auto simp: entry_addrs_def AList.delete_eq)

lemma distinct_concat_filter: "distinct (concat (map f xs)) \<Longrightarrow> distinct (concat (map f (filter P xs)))"
  by (induction xs) auto

lemma distinct_entry_addrs_delete:
  "distinct (entry_addrs es) \<Longrightarrow> distinct (entry_addrs (AList.delete k es))"
  by (simp add: entry_addrs_def AList.delete_eq distinct_concat_filter)

lemma pool_drop_ok:
  assumes "pool_ok p"
  shows "pool_ok (pool_drop k p)"
proof (cases "map_of (pool_entries p) k")
  case (Some h)
  have "length (AList.delete k (pool_entries p)) \<le> MaxHeld"
    using assms by (auto simp: pool_ok_def AList.delete_eq intro: order.trans [OF length_filter_le])
  moreover have "set (AList.delete k (pool_entries p)) \<subseteq> set (pool_entries p)" by (auto simp: AList.delete_eq)
  ultimately show ?thesis
    using Some assms distinct_entry_addrs_delete entry_addrs_delete [of k "pool_entries p"]
    by (auto simp: pool_ok_def pool_drop_def clear_values_def distinct_delete)
qed (simp add: pool_drop_def assms)

lemma pool_drop_fields [simp]:
  "pool_closed (pool_drop k p) = pool_closed p" "buf_next (pool_mem (pool_drop k p)) = buf_next (pool_mem p)"
  "pool_key (pool_drop k p) = pool_key p"
  "map_of (pool_entries (pool_drop k p)) = (map_of (pool_entries p))(k := None)"
  by (auto simp: pool_drop_def clear_values_def AList.delete_conv' split: option.splits)

lemma fold_drop:
  assumes "\<And>p k. P p \<Longrightarrow> P (pool_drop k p)" "P p"
  shows "P (fold (\<lambda>(k, h) p. if c k h then pool_drop k p else p) es p)"
  using assms(2)
proof (induction es arbitrary: p)
  case (Cons e es)
  then show ?case by (cases e) (simp add: assms(1))
qed simp

lemma drop_where_ok: "pool_ok p \<Longrightarrow> pool_ok (drop_where c p)"
  unfolding drop_where_def by (rule fold_drop) (rule pool_drop_ok)

lemma drop_where_closed [simp]: "pool_closed (drop_where c p) = pool_closed p"
  unfolding drop_where_def by (rule fold_drop [of "\<lambda>q. pool_closed q = pool_closed p"]) simp_all

lemma drop_where_absent: "map_of (pool_entries p) k = None \<Longrightarrow> map_of (pool_entries (drop_where c p)) k = None"
  unfolding drop_where_def by (rule fold_drop) simp_all

lemma fold_drop_lookup:
  "distinct (map fst es) \<Longrightarrow>
     map_of (pool_entries (fold (\<lambda>(k, h) p. if c k h then pool_drop k p else p) es p)) k
       = (case map_of es k of Some h \<Rightarrow> if c k h then None else map_of (pool_entries p) k
          | None \<Rightarrow> map_of (pool_entries p) k)"
proof (induction es arbitrary: p)
  case (Cons e es)
  obtain k' h' where e: "e = (k', h')" by (cases e)
  have "k' \<notin> dom (map_of es)" using Cons.prems e by (simp add: dom_map_of_conv_image_fst)
  then have "map_of es k' = None" by blast
  then show ?case using Cons.IH Cons.prems e by (auto split: option.splits)
qed simp

lemma drop_where_lookup:
  assumes "pool_ok p"
  shows "map_of (pool_entries (drop_where c p)) k
     = (case map_of (pool_entries p) k of None \<Rightarrow> None | Some h \<Rightarrow> if c k h then None else Some h)"
  using fold_drop_lookup [of "pool_entries p" c p k] assms
  by (auto simp: drop_where_def pool_ok_def split: option.splits)

lemma pool_entries_empty_iff: "pool_entries p = [] \<longleftrightarrow> (\<forall>k. map_of (pool_entries p) k = None)"
  by (cases "pool_entries p") (auto simp: fun_upd_def split: if_splits)

lemma prune_ok: "pool_ok p \<Longrightarrow> pool_ok (prune now p)"
  by (simp add: prune_def drop_where_ok)

lemma available_ok: "available k auth now p = (ok, q) \<Longrightarrow> pool_ok p \<Longrightarrow> pool_ok q"
  by (auto simp: available_def Let_def prune_ok)

lemma entry_addrs_update_absent:
  "map_of es k = None \<Longrightarrow> entry_addrs (AList.update k h es) = entry_addrs es @ map snd (held_values h)"
  by (induction es) (auto simp: entry_addrs_def split: if_splits)

lemma length_update_absent: "map_of es k = None \<Longrightarrow> length (AList.update k h es) = Suc (length es)"
  by (induction es) (auto split: if_splits)

lemma set_update_absent: "map_of es k = None \<Longrightarrow> set (AList.update k h es) = insert (k, h) (set es)"
  by (induction es) (auto split: if_splits)

text \<open>Storing values under a key that has none.\<close>

lemma store_entry_ok:
  assumes "pool_ok p" "map_of (pool_entries p) k = None" "length (pool_entries p) < MaxHeld" "\<not> pool_closed p"
    and "store_values vs (pool_mem p) = (xs, m)" "held_key h = k" "held_values h = xs"
  shows "pool_ok (p\<lparr>pool_entries := AList.update k h (pool_entries p), pool_mem := m\<rparr>)"
proof -
  have addrs: "map snd xs = [buf_next (pool_mem p) ..< buf_next (pool_mem p) + length vs]"
      "buf_next m = buf_next (pool_mem p) + length vs"
    using store_values_spec [OF assms(5)] by simp_all
  then show ?thesis
    using assms
    by (auto simp: pool_ok_def entry_addrs_update_absent length_update_absent set_update_absent distinct_update)
qed

lemma length_drop_present:
  assumes "pool_ok p" "map_of (pool_entries p) k \<noteq> None"
  shows "length (pool_entries (pool_drop k p)) < length (pool_entries p)"
proof -
  obtain h where h: "map_of (pool_entries p) k = Some h" using assms(2) by blast
  then have "(k, h) \<in> set (pool_entries p)" by (rule map_of_SomeD)
  then have "length (filter (\<lambda>(k', _). k \<noteq> k') (pool_entries p)) < length (pool_entries p)"
    by (intro length_filter_less [of "(k, h)"]) simp_all
  then show ?thesis using h by (simp add: pool_drop_def AList.delete_eq)
qed

lemma Supply_ok:
  assumes "Supply k r now persist p = (res, q)" "pool_ok p"
  shows "pool_ok q"
proof -
  have room: "length (pool_entries (pool_drop k p')) < MaxHeld"
    if "pool_ok p'" "\<not> (map_of (pool_entries p') k = None \<and> MaxHeld \<le> length (pool_entries p'))" for p'
  proof (cases "map_of (pool_entries p') k")
    case None
    then show ?thesis using that(2) by (simp add: pool_drop_def)
  next
    case (Some h)
    then show ?thesis
      using length_drop_present [OF that(1), of k] that(1) by (auto simp: pool_ok_def)
  qed
  obtain p' where p': "p' = prune now p" "pool_ok p'" using prune_ok [OF assms(2)] by blast
  have closed: "pool_closed p' = pool_closed p" by (simp add: p'(1) prune_def)
  have stored: "pool_ok ((pool_drop k p')\<lparr>pool_entries := AList.update k h (pool_entries (pool_drop k p')), pool_mem := m\<rparr>)"
    if "store_values vs (pool_mem (pool_drop k p')) = (xs, m)" "held_key h = k" "held_values h = xs"
      "\<not> (map_of (pool_entries p') k = None \<and> MaxHeld \<le> length (pool_entries p'))" "\<not> pool_closed p" for vs xs m h
    using that(5)
    by (intro store_entry_ok [OF pool_drop_ok [OF p'(2)] _ room [OF p'(2) that(4)] _ that(1-3)]) (simp_all add: closed)
  show ?thesis
    using assms p'(2) pool_drop_ok [OF p'(2)] stored
    by (auto simp: Supply_def Let_def p'(1) [symmetric] not_le split: if_splits sum.splits prod.splits)
qed

lemma pool_mem_ok:
  "pool_ok p \<Longrightarrow> buf_next (pool_mem p) \<le> buf_next m \<Longrightarrow> pool_ok (p\<lparr>pool_mem := m\<rparr>)"
  by (auto simp: pool_ok_def)

lemma take_material_ok:
  assumes "take_material k p = (h, q)" "pool_ok p"
  shows "pool_ok q"
proof (cases "map_of (pool_entries p) k")
  case None
  then show ?thesis using assms by (simp add: take_material_def)
next
  case (Some h0)
  obtain vs m where m: "cloneValues (held_values h0) (pool_mem p) = (vs, m)" by fastforce
  then have "buf_next (pool_mem p) \<le> buf_next m"
    using store_values_spec [of "read_values (held_values h0) (pool_mem p)"] by (simp add: cloneValues_def)
  then show ?thesis
    using assms Some m by (auto simp: take_material_def intro!: pool_drop_ok pool_mem_ok)
qed

text \<open>What a successful take hands out and what it leaves behind.\<close>

lemma take_material_spec:
  assumes "pool_ok p" "map_of (pool_entries p) k = Some h0" "take_material k p = (h, q)"
  shows "read_values (held_values h) (pool_mem q) = read_values (held_values h0) (pool_mem p)"
    and "map_of (pool_entries q) k = None"
    and "\<forall>(n, a) \<in> set (held_values h0). buf_bytes (pool_mem q) a = zeros (buf_bytes (pool_mem p) a)"
    and "held_authorization h = held_authorization h0"
proof -
  obtain vs m where m: "cloneValues (held_values h0) (pool_mem p) = (vs, m)" by fastforce
  note spec = store_values_spec [OF m [unfolded cloneValues_def]]
  have q: "h = h0\<lparr>held_values := vs\<rparr>" "q = pool_drop k (p\<lparr>pool_mem := m\<rparr>)"
    using assms(2,3) m by (auto simp: take_material_def)
  have mem: "pool_mem q = clear_values (held_values h0) m" using q(2) assms(2) by (simp add: pool_drop_def)
  have old: "a < buf_next (pool_mem p)" if "(n, a) \<in> set (held_values h0)" for n a
  proof -
    have "(k, h0) \<in> set (pool_entries p)" using assms(2) by (rule map_of_SomeD)
    then have "a \<in> set (entry_addrs (pool_entries p))" using that by (force simp: entry_addrs_def)
    then show ?thesis using assms(1) by (simp add: pool_ok_def)
  qed
  have "a \<notin> snd ` set (held_values h0)" if "(n, a) \<in> set vs" for n a
  proof -
    have "a \<in> set (map snd vs)" using that by force
    then have "buf_next (pool_mem p) \<le> a" using spec by simp
    then show ?thesis using old by fastforce
  qed
  then have "read_values vs (clear_values (held_values h0) m) = read_values vs m"
    by (auto simp: read_values_def clear_values_def)
  then show "read_values (held_values h) (pool_mem q) = read_values (held_values h0) (pool_mem p)"
    using spec q(1) mem by simp
  show "map_of (pool_entries q) k = None" using q(2) by simp
  show "\<forall>(n, a) \<in> set (held_values h0). buf_bytes (pool_mem q) a = zeros (buf_bytes (pool_mem p) a)"
    using spec old by (force simp: mem clear_values_def)
  show "held_authorization h = held_authorization h0" using q(1) by simp
qed

lemma Close_ok: "pool_ok p \<Longrightarrow> pool_ok (Close p)"
proof -
  assume ok: "pool_ok p"
  have "map_of (pool_entries (drop_where (\<lambda>k h. True) p)) k = None" for k
    by (auto simp: drop_where_lookup [OF ok] split: option.splits)
  then have "pool_entries (drop_where (\<lambda>k h. True) p) = []" by (simp add: pool_entries_empty_iff)
  then show "pool_ok (Close p)" by (simp add: Close_def Let_def pool_ok_def entry_addrs_def)
qed


section \<open>Histories\<close>

datatype pool_op =
    OpSupply secret_key secret_supply gotime "string \<Rightarrow> secret_metadata \<Rightarrow> go_error + receipt \<times> bool"
  | OpAvailable secret_key opaque_id gotime
  | OpClaim secret_key opaque_id gotime "go_error option"
  | OpRevoke secret_key opaque_id "go_error + receipt"
  | OpSweep gotime "secret_key \<Rightarrow> opaque_id \<Rightarrow> bool"
  | OpClose

definition claim_pool :: "secret_key \<Rightarrow> opaque_id \<Rightarrow> gotime \<Rightarrow> go_error option \<Rightarrow> pool \<Rightarrow> (go_error + held) \<times> pool" where
  "claim_pool k auth now err p = (case Claim (Some p) k auth now (\<lambda>s. (err, s)) () of (r, q, _) \<Rightarrow> (r, the q))"

primrec pool_step :: "pool_op \<Rightarrow> pool \<Rightarrow> pool" where
  "pool_step (OpSupply k r now persist) p = snd (Supply k r now persist p)"
| "pool_step (OpAvailable k auth now) p = the (snd (Available (Some p) k auth now))"
| "pool_step (OpClaim k auth now err) p = snd (claim_pool k auth now err p)"
| "pool_step (OpRevoke k auth persisted) p = snd (Revoke k auth persisted p)"
| "pool_step (OpSweep now usable) p = Sweep now usable p"
| "pool_step OpClose p = Close p"

primrec supplies :: "secret_key \<Rightarrow> pool_op \<Rightarrow> bool" where
  "supplies k (OpSupply k' r now persist) \<longleftrightarrow> k' = k"
| "supplies k (OpAvailable k' auth now) \<longleftrightarrow> False"
| "supplies k (OpClaim k' auth now err) \<longleftrightarrow> False"
| "supplies k (OpRevoke k' auth persisted) \<longleftrightarrow> False"
| "supplies k (OpSweep now usable) \<longleftrightarrow> False"
| "supplies k OpClose \<longleftrightarrow> False"

lemma claim_pool_cases:
  "claim_pool k auth now err p =
     (if fst (available k auth now p)
      then case err of Some e \<Rightarrow> (Inl e, prune now p)
        | None \<Rightarrow> (Inr (fst (take_material k (prune now p))), snd (take_material k (prune now p)))
      else (Inl (secret_sentinel SecretErrUnavailable), prune now p))"
  by (simp add: claim_pool_def Claim_def available_def Let_def case_prod_unfold split: option.split)

lemma pool_step_ok: "pool_ok p \<Longrightarrow> pool_ok (pool_step op p)"
proof (cases op)
  case (OpSupply k r now persist)
  assume "pool_ok p"
  then show ?thesis using OpSupply Supply_ok [of k r now persist p] by (metis pool_step.simps(1) prod.collapse)
next
  case (OpClaim k auth now err)
  assume "pool_ok p"
  then show ?thesis
    using OpClaim take_material_ok [of k "prune now p"] prune_ok [of p now]
    by (auto simp: claim_pool_cases split: option.splits) (metis prod.collapse)
qed (auto simp: Available_def WithAvailability_def available_def Let_def Revoke_def Sweep_def prune_ok drop_where_ok
    Close_ok pool_drop_ok split: sum.splits option.splits)

lemma take_material_absent:
  "map_of (pool_entries p) k = None \<Longrightarrow> map_of (pool_entries (snd (take_material k' p))) k = None"
  by (auto simp: take_material_def Let_def case_prod_unfold split: option.splits)

lemma prune_absent: "map_of (pool_entries p) k = None \<Longrightarrow> map_of (pool_entries (prune now p)) k = None"
  by (simp add: prune_def drop_where_absent)

lemma Supply_absent:
  assumes "map_of (pool_entries p) k = None" "k' \<noteq> k"
  shows "map_of (pool_entries (snd (Supply k' r now persist p))) k = None"
  using prune_absent [OF assms(1), of now] assms
  by (auto simp: Supply_def Let_def update_conv' split: sum.splits prod.splits)

lemma pool_step_absent:
  "map_of (pool_entries p) k = None \<Longrightarrow> \<not> supplies k op \<Longrightarrow> map_of (pool_entries (pool_step op p)) k = None"
  by (cases op) (auto simp: Available_def WithAvailability_def available_def Let_def Revoke_def Sweep_def prune_absent
      drop_where_absent Close_def claim_pool_cases take_material_absent Supply_absent split: sum.splits option.splits)

lemma concat_disjoint:
  "distinct (concat (map f xs)) \<Longrightarrow> x \<in> set xs \<Longrightarrow> y \<in> set xs \<Longrightarrow> x \<noteq> y \<Longrightarrow> set (f x) \<inter> set (f y) = {}"
  by (induction xs) auto

lemma pool_drop_keeps:
  assumes "pool_ok p" "map_of (pool_entries p) k = Some h" "k' \<noteq> k"
  shows "read_values (held_values h) (pool_mem (pool_drop k' p)) = read_values (held_values h) (pool_mem p)"
proof (cases "map_of (pool_entries p) k'")
  case (Some h')
  have "(k, h) \<in> set (pool_entries p)" "(k', h') \<in> set (pool_entries p)"
    using assms(2) Some by (auto dest: map_of_SomeD)
  then have "set (map snd (held_values h)) \<inter> set (map snd (held_values h')) = {}"
    using concat_disjoint [of "\<lambda>(k, h). map snd (held_values h)" "pool_entries p" "(k, h)" "(k', h')"] assms(1,3)
    by (simp add: pool_ok_def entry_addrs_def)
  then have "a \<notin> snd ` set (held_values h')" if "(n, a) \<in> set (held_values h)" for n a using that by force
  then show ?thesis using Some by (auto simp: pool_drop_def read_values_def clear_values_def)
qed (simp add: pool_drop_def)

lemma fold_drop_keeps:
  assumes "pool_ok p" "map_of (pool_entries p) k = Some h" "\<forall>(k', h') \<in> set es. c k' h' \<longrightarrow> k' \<noteq> k"
  shows "read_values (held_values h) (pool_mem (fold (\<lambda>(k, h) p. if c k h then pool_drop k p else p) es p))
    = read_values (held_values h) (pool_mem p)"
  using assms
proof (induction es arbitrary: p)
  case (Cons e es)
  obtain k' h' where e: "e = (k', h')" by (cases e)
  show ?case
  proof (cases "c k' h'")
    case True
    then have "k' \<noteq> k" using Cons.prems(3) e by simp
    then show ?thesis
      using Cons.IH [OF pool_drop_ok [OF Cons.prems(1)], of k'] Cons.prems pool_drop_keeps [OF Cons.prems(1,2)] e True
      by simp
  next
    case False
    then show ?thesis using Cons.IH [OF Cons.prems(1,2)] Cons.prems(3) e by simp
  qed
qed simp

lemma prune_keeps:
  assumes "pool_ok p" "map_of (pool_entries p) k = Some h" "\<not> held_expired now h"
  shows "read_values (held_values h) (pool_mem (prune now p)) = read_values (held_values h) (pool_mem p)"
proof -
  have "h' = h" if "(k, h') \<in> set (pool_entries p)" for h'
    using that assms(1,2) by (simp add: pool_ok_def)
  then show ?thesis
    unfolding prune_def drop_where_def using assms by (intro fold_drop_keeps) auto
qed

lemma available_iff:
  assumes "pool_ok p"
  shows "fst (available k auth now p) \<longleftrightarrow>
    \<not> pool_closed p \<and> validOpaqueID auth
    \<and> (\<exists>h. map_of (pool_entries p) k = Some h \<and> held_authorization h = auth \<and> \<not> held_expired now h)"
  by (auto simp: available_def Let_def prune_def drop_where_lookup [OF assms] split: option.splits if_splits)

lemma pool_steps_ok: "pool_ok p \<Longrightarrow> pool_ok (fold pool_step ops p)"
  by (induction ops arbitrary: p) (auto intro: pool_step_ok)

lemma pool_steps_absent:
  "map_of (pool_entries p) k = None \<Longrightarrow> list_all (\<lambda>op. \<not> supplies k op) ops
     \<Longrightarrow> map_of (pool_entries (fold pool_step ops p)) k = None"
  by (induction ops arbitrary: p) (simp_all add: pool_step_absent)


section \<open>Properties\<close>

text \<open>C38. Secret material is used once. A claim succeeds only for unexpired material of the named authorization; the
  bytes it hands out are the ones supplied, in buffers of their own, while every byte the pool held for the key
  is overwritten. Whatever happens to the pool afterwards, it stays well formed and within its limit, and
  without a new supply for the key the material is never available again.\<close>

theorem secret_material_used_once:
  assumes "pool_ok p" "claim_pool k auth now None p = (Inr h, q)"
  shows "(\<exists>h0. map_of (pool_entries p) k = Some h0 \<and> held_authorization h0 = auth \<and> \<not> held_expired now h0
        \<and> read_values (held_values h) (pool_mem q) = read_values (held_values h0) (pool_mem p)
        \<and> (\<forall>(n, v) \<in> set (read_values (held_values h0) (pool_mem q)). set v \<subseteq> {CHR 0x00}))
    \<and> pool_ok (fold pool_step ops q)
    \<and> (list_all (\<lambda>op. \<not> supplies k op) ops \<longrightarrow> \<not> fst (Available (Some (fold pool_step ops q)) k auth' later))"
proof (intro conjI impI)
  have av: "fst (available k auth now p)" and q: "take_material k (prune now p) = (h, q)"
    using assms(2) by (auto simp: claim_pool_cases split: if_splits)
  obtain h0 where h0: "map_of (pool_entries p) k = Some h0" "held_authorization h0 = auth" "\<not> held_expired now h0"
    using av by (auto simp: available_iff [OF assms(1)])
  have pruned: "map_of (pool_entries (prune now p)) k = Some h0"
    using h0 by (simp add: prune_def drop_where_lookup [OF assms(1)])
  note spec = take_material_spec [OF prune_ok [OF assms(1)] pruned q]
  have "set v \<subseteq> {CHR 0x00}" if "(n, v) \<in> set (read_values (held_values h0) (pool_mem q))" for n v
    using that spec(3) by (auto simp: read_values_def zeros_def)
  with h0 spec(1) prune_keeps [OF assms(1) h0(1,3)]
  show "\<exists>h0. map_of (pool_entries p) k = Some h0 \<and> held_authorization h0 = auth \<and> \<not> held_expired now h0
      \<and> read_values (held_values h) (pool_mem q) = read_values (held_values h0) (pool_mem p)
      \<and> (\<forall>(n, v) \<in> set (read_values (held_values h0) (pool_mem q)). set v \<subseteq> {CHR 0x00})"
    by auto
  show ok: "pool_ok (fold pool_step ops q)"
    using take_material_ok [OF q prune_ok [OF assms(1)]] by (rule pool_steps_ok)
  assume "list_all (\<lambda>op. \<not> supplies k op) ops"
  then have "map_of (pool_entries (fold pool_step ops q)) k = None" using pool_steps_absent [OF spec(2)] by blast
  then show "\<not> fst (Available (Some (fold pool_step ops q)) k auth' later)"
    by (simp add: Available_def WithAvailability_def case_prod_unfold available_iff [OF ok])
qed

definition sample_key :: secret_key where
  "sample_key = \<lparr>key_workspace = ''ws_1'', key_job = ''job_1'', key_attempt = ''att_1''\<rparr>"

definition sample_pool :: pool where
  "sample_pool =
     \<lparr>pool_key = replicate 32 (CHR ''k''),
      pool_entries = [(sample_key, \<lparr>held_authorization = ''auth_1'', held_key = sample_key,
        held_expires = format_rfc3339 (sample_time 9000000000), held_values = [(''token'', 0)]\<rparr>)],
      pool_closed = False, pool_mem = \<lparr>buf_next = 1, buf_bytes = (\<lambda>a. ''s3cret'')\<rparr>\<rparr>"

lemma sample_pool_ok: "pool_ok sample_pool"
  by (simp add: pool_ok_def sample_pool_def entry_addrs_def MaxHeld_def)

theorem secret_material_used_once_witness:
  "\<exists>h q. claim_pool sample_key ''auth_1'' (sample_time 5) None sample_pool = (Inr h, q)
     \<and> read_values (held_values h) (pool_mem q) = [(''token'', ''s3cret'')]
     \<and> \<not> fst (Available (Some (pool_step (OpSweep (sample_time 6) (\<lambda>k a. True)) q)) sample_key ''auth_1'' (sample_time 6))"
proof -
  have live: "\<not> held_expired (sample_time 5) (snd (hd (pool_entries sample_pool)))"
    using sample_formats(2) by (simp add: held_expired_def sample_pool_def before_def sample_time_def)
  have "fst (available sample_key ''auth_1'' (sample_time 5) sample_pool)"
    using live more_sample_ids(9) by (simp add: available_iff [OF sample_pool_ok]) (simp add: sample_pool_def)
  then obtain h q where hq: "claim_pool sample_key ''auth_1'' (sample_time 5) None sample_pool = (Inr h, q)"
    by (simp add: claim_pool_cases)
  have "read_values [(''token'', 0)] (pool_mem sample_pool) = [(''token'', ''s3cret'')]"
    by (simp add: read_values_def sample_pool_def)
  then show ?thesis
    using secret_material_used_once [OF sample_pool_ok hq, of "[OpSweep (sample_time 6) (\<lambda>k a. True)]" "''auth_1''" "sample_time 6"] hq
    by (auto simp: sample_pool_def)
qed

end
