(* ===== verification/Admission.thy ===== *)
theory Admission
  imports Bundle_Paths Secret_Pool
begin

text \<open>
  The values of admitted work: the job specification and its time and collection rules, the immutable profile a
  job is bound to, idempotency keys (\<open>src/internal/admission\<close>), and the execution gate, the durable authority to
  prepare and to start an attempt separately (\<open>src/internal/executionauth\<close>).  A request keeps its canonical
  bytes and the specification they decode to; validation against the JSON schema is not modelled.
\<close>

section \<open>Specifications\<close>

record spec_source =
  source_kind :: string
  source_object :: opaque_id
  source_sha256 :: sha256_digest
  source_bytes :: "int option"
  source_url :: string
  source_expected_sha256 :: sha256_digest

record spec_input =
  in_name :: string
  in_source :: spec_source
  in_target :: string

record spec_output =
  out_path :: string
  out_kind :: string
  out_required :: bool
  out_max_bytes :: int

record application_image =
  image_object :: opaque_id
  image_sha256 :: sha256_digest
  image_bytes :: int

record job_retention =
  after_collection_seconds :: "int option"
  uncollected_max_seconds :: "int option"

record spec =
  spec_secrets :: "slot list"
  spec_control :: string
  spec_collection :: string
  spec_retention :: "job_retention option"
  spec_api_version :: string
  spec_name :: string
  spec_profile :: string
  spec_labels :: details
  spec_bundle_object :: opaque_id
  spec_bundle_sha256 :: sha256_digest
  spec_bundle_bytes :: "int option"
  spec_image :: "application_image option"
  spec_kind :: string
  spec_command :: "string list"
  spec_directory :: string
  spec_environment :: details
  spec_requirements :: string
  spec_setup :: "string list list"
  spec_inputs :: "spec_input list"
  spec_outputs :: "spec_output list"
  spec_accelerator :: string
  spec_gpu_count :: int
  spec_gpu_memory :: int
  spec_internet :: string
  spec_deadline :: string
  spec_wall_seconds :: int
  spec_setup_seconds :: int
  spec_grace_seconds :: int

definition SeparateStart :: "spec \<Rightarrow> bool" where
  "SeparateStart s \<longleftrightarrow> spec_control s = ''prepare_then_start''"

text \<open>\<open>time.Parse\<close> with its error dropped: the zero time when the text is no time.\<close>

definition parse_or_zero :: "string \<Rightarrow> gotime" where
  "parse_or_zero raw = (case parse_rfc3339 raw of None \<Rightarrow> zero_time | Some t \<Rightarrow> t)"

definition Deadline :: "spec \<Rightarrow> gotime" where
  "Deadline s = parse_or_zero (spec_deadline s)"

definition spec_expired :: "spec \<Rightarrow> gotime \<Rightarrow> bool" where
  "spec_expired s now = (let t = Deadline s in \<not> is_zero t \<and> \<not> before now t)"

definition CollectionMode :: "spec \<Rightarrow> string" where
  "CollectionMode s = (if spec_collection s = [] then ''automatic'' else spec_collection s)"

definition validObjectExpectation :: "sha256_digest \<Rightarrow> int option \<Rightarrow> bool" where
  "validObjectExpectation sha n =
     (if (sha = []) \<noteq> (n = None) then False
      else case n of None \<Rightarrow> True | Some k \<Rightarrow> digest_valid sha \<and> k \<ge> 0)"

definition CheckInputs :: "spec \<Rightarrow> bool" where
  "CheckInputs s = list_all (\<lambda>i. source_kind (in_source i) = ''object'') (spec_inputs s)"

text \<open>
  The checks after the schema.  A path may leave ASCII, so the lower case of a path is the argument \<open>lower\<close>;
  names of inputs and of environment variables are ASCII by the schema.
\<close>

definition overlaps :: "(string \<Rightarrow> string) \<Rightarrow> string list \<Rightarrow> string \<Rightarrow> bool" where
  "overlaps lower ps q = list_ex (\<lambda>p. paths_overlap (lower p) (lower q)) ps"

fun targets_overlap :: "(string \<Rightarrow> string) \<Rightarrow> string list \<Rightarrow> string list \<Rightarrow> bool" where
  "targets_overlap lower seen [] = False"
| "targets_overlap lower seen (p # ps) = (if overlaps lower seen p then True else targets_overlap lower (seen @ [p]) ps)"

definition semantic_environment :: "string \<Rightarrow> string \<Rightarrow> bool" where
  "semantic_environment k v \<longleftrightarrow>
     (let u = to_upper k in
      \<not> (has_prefix u ''CC_'' \<or> has_prefix u ''LD_'' \<or> has_prefix u ''DYLD_'' \<or> CHR 0x00 \<in> set v)
      \<and> u \<notin> {''PATH'', ''HOME'', ''PYTHONPATH'', ''PYTHONHOME'', ''VIRTUAL_ENV'', ''KAGGLE_API_TOKEN'', ''KAGGLE_KEY'',
           ''KAGGLE_USERNAME''})"

definition semantic :: "(string \<Rightarrow> string) \<Rightarrow> spec \<Rightarrow> bool" where
  "semantic lower s \<longleftrightarrow>
     validObjectExpectation (spec_bundle_sha256 s) (spec_bundle_bytes s)
     \<and> (case spec_image s of
          None \<Rightarrow> True
        | Some img \<Rightarrow> \<not> (\<not> validOpaqueID (image_object img) \<or> \<not> digest_valid (image_sha256 img)
            \<or> image_bytes img < 1 \<or> image_bytes img > 2 * 2 ^ 30))
     \<and> \<not> (\<not> ValidSlots (spec_secrets s) \<or> spec_secrets s \<noteq> [] \<and> \<not> SeparateStart s)
     \<and> (spec_deadline s = []
        \<or> \<not> (year (Deadline s) < 2 \<or> format_rfc3339 (utc (Deadline s)) \<noteq> spec_deadline s))
     \<and> \<not> (trim_space (spec_name s) = [] \<or> spec_setup_seconds s + spec_grace_seconds s \<ge> spec_wall_seconds s)
     \<and> list_all (\<lambda>(k, v). semantic_environment k v) (details_list (spec_environment s))
     \<and> \<not> list_ex (\<lambda>arg. CHR 0x00 \<in> set arg) (spec_command s)
     \<and> \<not> list_ex (list_ex (\<lambda>arg. CHR 0x00 \<in> set arg)) (spec_setup s)
     \<and> list_all (\<lambda>i. source_kind (in_source i) = ''object'' \<longrightarrow>
          validObjectExpectation (source_sha256 (in_source i)) (source_bytes (in_source i))) (spec_inputs s)
     \<and> distinct (map (\<lambda>i. to_lower (in_name i)) (spec_inputs s))
     \<and> \<not> targets_overlap lower [] (map in_target (spec_inputs s))
     \<and> \<not> targets_overlap lower [] (map out_path (spec_outputs s))"

record request =
  req_canonical :: string
  req_hash :: sha256_digest
  req_spec :: spec

definition request_valid :: "request \<Rightarrow> bool" where
  "request_valid r \<longleftrightarrow> req_canonical r \<noteq> [] \<and> digest_valid (req_hash r)"

definition KeyDigest :: "string \<Rightarrow> string option" where
  "KeyDigest key =
     (if length key < 8 \<or> length key > 256 then None
      else if list_ex (\<lambda>c. byte c < 33 \<or> byte c > 126) key then None
      else Some (sha256_hex key))"


section \<open>Profiles\<close>

record profile =
  prof_binding :: provider_binding
  prof_account :: string
  prof_credential :: string
  prof_cost :: string
  prof_internet :: bool
  prof_wall_seconds :: int
  prof_bundle_bytes :: int
  prof_input_bytes :: int
  prof_accelerator :: string
  prof_active :: int
  prof_processes :: int
  prof_resource_scope :: string

definition DefaultProfile :: "provider_binding \<Rightarrow> string \<Rightarrow> profile" where
  "DefaultProfile b account =
     \<lparr>prof_binding = b, prof_account = account, prof_credential = [], prof_cost = ''free_allowance'',
      prof_internet = False, prof_wall_seconds = 1800, prof_bundle_bytes = 100 * 2 ^ 20,
      prof_input_bytes = 4 * 2 ^ 30, prof_accelerator = [], prof_active = 0, prof_processes = 0,
      prof_resource_scope = []\<rparr>"

definition upper_letter :: "char \<Rightarrow> bool" where
  "upper_letter c \<longleftrightarrow> 65 \<le> byte c \<and> byte c \<le> 90"

definition vault_reference :: "string \<Rightarrow> bool" where
  "vault_reference v \<longleftrightarrow>
     has_prefix v ''con_'' \<and> length v \<ge> 5 \<and> length v \<le> 128
     \<and> (upper_letter (v ! 4) \<or> lower_letter (v ! 4) \<or> isASCIIDigit (v ! 4))
     \<and> list_all (\<lambda>c. upper_letter c \<or> lower_letter c \<or> isASCIIDigit c \<or> c \<in> {CHR ''.'', CHR ''_'', CHR ''-''}) (drop 5 v)"

definition environment_reference :: "string \<Rightarrow> bool" where
  "environment_reference v \<longleftrightarrow>
     (\<forall>i < length v. upper_letter (v ! i) \<or> lower_letter (v ! i) \<or> v ! i = CHR ''_'' \<or> i > 0 \<and> isASCIIDigit (v ! i))"

text \<open>A credential reference is split at its first colon.\<close>

definition credential_ref_ok :: "string \<Rightarrow> bool" where
  "credential_ref_ok ref =
     (let kind = takeWhile (\<lambda>c. c \<noteq> CHR '':'') ref; v = drop (length kind + 1) ref in
      if CHR '':'' \<notin> set ref \<or> length v = 0 \<or> length v > 1024 \<or> contains_any v [CHR 0x00, CHR 0x0D, CHR 0x0A]
      then False
      else if kind = ''env'' then environment_reference v
      else if kind = ''vault'' then vault_reference v
      else kind = ''file'')"

definition profile_valid :: "profile \<Rightarrow> bool" where
  "profile_valid p \<longleftrightarrow>
     \<not> (binding_validate (prof_binding p) \<noteq> None \<or> length (binding_profile (prof_binding p)) > 128
        \<or> length (binding_revision (prof_binding p)) > 128 \<or> \<not> validOpaqueID (prof_account p)
        \<or> prof_cost p \<noteq> ''free_allowance'' \<and> prof_cost p \<noteq> ''operator_managed''
        \<or> prof_wall_seconds p < 1 \<or> prof_wall_seconds p > MaxRemoteWallSeconds
        \<or> prof_bundle_bytes p < 1 \<or> prof_bundle_bytes p > 100 * 2 ^ 20
        \<or> prof_input_bytes p < 1 \<or> prof_input_bytes p > 4 * 2 ^ 30)
     \<and> \<not> (prof_active p < 0 \<or> prof_active p > 64 \<or> prof_processes p < 0 \<or> prof_processes p > 65536
          \<or> prof_processes p > 0 \<and> prof_cost p \<noteq> ''operator_managed'')
     \<and> (prof_resource_scope p = []
        \<or> has_prefix (prof_resource_scope p) ''resource_'' \<and> digest_valid (drop 9 (prof_resource_scope p)))
     \<and> (\<forall>i < length (binding_profile (prof_binding p)).
          let c = binding_profile (prof_binding p) ! i in
          lower_letter c \<or> isASCIIDigit c \<or> i > 0 \<and> c \<in> {CHR ''_'', CHR ''.'', CHR ''-''})
     \<and> validOpaqueID (binding_revision (prof_binding p))
     \<and> prof_accelerator p \<in> {[], ''cpu'', ''gpu'', ''tpu''}
     \<and> (prof_credential p = [] \<or> credential_ref_ok (prof_credential p))"

definition profile_check :: "profile \<Rightarrow> spec \<Rightarrow> bool" where
  "profile_check p s \<longleftrightarrow>
     \<not> (\<not> profile_valid p \<or> binding_profile (prof_binding p) \<noteq> spec_profile s
        \<or> spec_wall_seconds s > prof_wall_seconds p
        \<or> spec_internet s = ''required'' \<and> \<not> prof_internet p
        \<or> prof_accelerator p \<noteq> [] \<and> prof_accelerator p \<noteq> spec_accelerator s)"

record frozen_object =
  frozen_role :: string
  frozen_metadata :: object_metadata

text \<open>The record of an admitted job; its cached status projections are left out.\<close>

record admitted =
  adm_job :: job
  adm_attempt :: attempt
  adm_nonce :: string
  adm_request :: request
  adm_profile :: profile
  adm_objects :: "frozen_object list"


section \<open>Execution authority\<close>

datatype auth_status = Granted | Consumed | Revoked | AuthStatusOther string

definition MaxPreparationSeconds :: int where "MaxPreparationSeconds = 3600"
definition MaxStagedBytes :: int where "MaxStagedBytes = 4 * 2 ^ 30 + 100 * 2 ^ 20"

text \<open>The combined permit of an attempt that prepares and starts in one authorization.\<close>

record exec_request =
  xreq_attempt :: opaque_id
  xreq_wall_seconds :: int
  xreq_private :: bool
  xreq_compute :: bool

definition exec_request_valid :: "exec_request \<Rightarrow> bool" where
  "exec_request_valid r \<longleftrightarrow>
     \<not> (\<not> validOpaqueID (xreq_attempt r) \<or> xreq_wall_seconds r < 1 \<or> xreq_wall_seconds r > MaxRemoteWallSeconds
        \<or> \<not> xreq_private r \<or> \<not> xreq_compute r)"

definition exec_request_json :: "exec_request \<Rightarrow> json" where
  "exec_request_json r = JObject
     [(''attempt_id'', JString (xreq_attempt r)), (''max_remote_wall_seconds'', JInt (xreq_wall_seconds r)),
      (''authorize_private_staging'', JBool (xreq_private r)), (''authorize_compute'', JBool (xreq_compute r))]"

definition exec_request_digest :: "exec_request \<Rightarrow> opaque_id \<Rightarrow> string option" where
  "exec_request_digest r job =
     (if \<not> validOpaqueID job \<or> \<not> exec_request_valid r then None
      else Some (sha256_hex (json_marshal (JObject
        [(''Version'', JString ''execution-authorization/v1''), (''Job'', JString job),
         (''Request'', exec_request_json r)]))))"

record auth_receipt =
  ar_authorization :: opaque_id
  ar_workspace :: opaque_id
  ar_job :: opaque_id
  ar_attempt :: opaque_id
  ar_status :: auth_status
  ar_wall_seconds :: int
  ar_created :: gotime
  ar_consumed :: "gotime option"
  ar_replay :: bool

definition auth_receipt_valid :: "auth_receipt \<Rightarrow> bool" where
  "auth_receipt_valid r \<longleftrightarrow>
     \<not> (\<not> validOpaqueID (ar_authorization r) \<or> \<not> validOpaqueID (ar_workspace r) \<or> \<not> validOpaqueID (ar_job r)
        \<or> \<not> validOpaqueID (ar_attempt r) \<or> ar_wall_seconds r < 1 \<or> ar_wall_seconds r > MaxRemoteWallSeconds
        \<or> is_zero (ar_created r))
     \<and> ar_status r \<in> {Granted, Consumed, Revoked}
     \<and> \<not> ((ar_status r = Consumed) \<noteq> (ar_consumed r \<noteq> None) \<or> precedes (ar_consumed r) (ar_created r))"

record prepare_request =
  preq_attempt :: opaque_id
  preq_max_seconds :: int
  preq_ready_until :: string
  preq_max_bytes :: int
  preq_private :: bool

text \<open>\<open>canonicalTime\<close> accepts the one spelling of an instant in UTC.\<close>

definition prepare_request_valid :: "prepare_request \<Rightarrow> bool" where
  "prepare_request_valid r \<longleftrightarrow>
     \<not> (\<not> validOpaqueID (preq_attempt r) \<or> preq_max_seconds r < 1 \<or> preq_max_seconds r > MaxPreparationSeconds
        \<or> CanonicalTime (preq_ready_until r) = None \<or> preq_max_bytes r < 1 \<or> preq_max_bytes r > MaxStagedBytes
        \<or> \<not> preq_private r)"

record start_request =
  sreq_secret :: opaque_id
  sreq_attempt :: opaque_id
  sreq_readiness :: sha256_digest
  sreq_wall_seconds :: int
  sreq_deadline :: string
  sreq_compute :: bool

definition start_request_valid :: "start_request \<Rightarrow> bool" where
  "start_request_valid r \<longleftrightarrow>
     \<not> (sreq_secret r \<noteq> [] \<and> \<not> validOpaqueID (sreq_secret r) \<or> \<not> validOpaqueID (sreq_attempt r)
        \<or> \<not> digest_valid (sreq_readiness r) \<or> sreq_wall_seconds r < 1 \<or> sreq_wall_seconds r > MaxRemoteWallSeconds
        \<or> CanonicalTime (sreq_deadline r) = None \<or> \<not> sreq_compute r)"

record gate_receipt =
  gr_authorization :: opaque_id
  gr_workspace :: opaque_id
  gr_job :: opaque_id
  gr_attempt :: opaque_id
  gr_kind :: string
  gr_status :: auth_status
  gr_created :: gotime
  gr_consumed :: "gotime option"
  gr_replay :: bool

definition gate_receipt_valid :: "gate_receipt \<Rightarrow> bool" where
  "gate_receipt_valid r \<longleftrightarrow>
     \<not> (\<not> validOpaqueID (gr_authorization r) \<or> \<not> validOpaqueID (gr_workspace r) \<or> \<not> validOpaqueID (gr_job r)
        \<or> \<not> validOpaqueID (gr_attempt r) \<or> gr_kind r \<noteq> ''prepare'' \<and> gr_kind r \<noteq> ''start''
        \<or> gr_status r \<noteq> Granted \<and> gr_status r \<noteq> Consumed \<or> is_zero (gr_created r)
        \<or> (gr_status r = Consumed) \<noteq> (gr_consumed r \<noteq> None) \<or> precedes (gr_consumed r) (gr_created r))"

record gate =
  gate_preparation :: gate_receipt
  gate_request :: prepare_request
  gate_staged_bytes :: int
  gate_ready_revision :: sha256_digest
  gate_ready_at :: "gotime option"
  gate_start :: "start_authorization option"
  gate_start_receipt :: "gate_receipt option"

definition gate_expired :: "gate \<Rightarrow> gotime \<Rightarrow> bool" where
  "gate_expired g now =
     (if \<not> before now (parse_or_zero (preq_ready_until (gate_request g))) then True
      else case gate_start g of
        None \<Rightarrow> False
      | Some s \<Rightarrow> \<not> before now (parse_or_zero (start_before s)))"

end
