(* ===== verification/Dispatch_Inputs.thy ===== *)
theory Dispatch_Inputs
  imports Dispatch_Properties Admission
begin

text \<open>
  What the dispatcher does before it may intend a preparation (\<open>src/internal/dispatch/inputs.go\<close>): freezing the
  inputs of an admitted job, checking that the bundle suits the remote runner, resolving the job an adapter
  sees and checking the plan the adapter returns.  The blob store and the inspection of a bundle archive are
  arguments, as is the re-encoding of the canonical request with its frozen inputs.
\<close>

section \<open>Errors and references\<close>

definition ErrInvalid :: go_error where "ErrInvalid = Sentinel ''dispatch.ErrInvalid''"
definition ErrConflict :: go_error where "ErrConflict = Sentinel ''dispatch.ErrConflict''"
definition ErrPolicy :: go_error where "ErrPolicy = Sentinel ''dispatch.ErrPolicy''"
definition ErrStaleObservation :: go_error where "ErrStaleObservation = Sentinel ''dispatch.ErrStaleObservation''"

text \<open>\<open>problem(code, false)\<close> as an error: a pointer, nil for a code without a text.\<close>

definition problem_error :: "error_code \<Rightarrow> go_error" where
  "problem_error c =
     (case dispatch_problem c False of Inr (Some p) \<Rightarrow> ProblemError False p None | _ \<Rightarrow> Sentinel ''nil problem'')"

definition object_refs :: "frozen_object list \<Rightarrow> (string \<times> object_metadata) list" where
  "object_refs objs = fold (\<lambda>ref. AList.update (frozen_role ref) (frozen_metadata ref)) objs []"

definition input_role :: "nat \<Rightarrow> string" where
  "input_role i = ''input:'' @ nat_digits i"

definition zero_object :: object_metadata where
  "zero_object = \<lparr>object_id = [], object_workspace = [], object_bytes = 0, object_sha256 = []\<rparr>"


section \<open>Snapshots\<close>

fun snapshot_inputs ::
  "int \<Rightarrow> (string \<times> object_metadata) list \<Rightarrow> int \<Rightarrow> nat \<Rightarrow> spec_input list \<Rightarrow> frozen_input list option" where
  "snapshot_inputs limit refs used i [] = Some []"
| "snapshot_inputs limit refs used i (x # xs) =
     (case map_of refs (input_role i) of
        None \<Rightarrow> None
      | Some m \<Rightarrow>
          let src = in_source x in
          if object_bytes m > limit - used then None
          else if source_kind src = ''object'' \<and> object_id m \<noteq> source_object src
            \<or> source_kind src = ''https'' \<and> source_expected_sha256 src \<noteq> []
              \<and> object_sha256 m \<noteq> source_expected_sha256 src
          then None
          else map_option (\<lambda>rest. \<lparr>input_name = in_name x, input_target = in_target x, input_object = m\<rparr> # rest)
                 (snapshot_inputs limit refs (used + object_bytes m) (Suc i) xs))"

definition Snapshot :: "admitted \<Rightarrow> (string \<times> object_metadata) list \<Rightarrow> go_error + input_snapshot" where
  "Snapshot r refs =
     (let s = req_spec (adm_request r);
          bundle = (case map_of refs ''bundle'' of None \<Rightarrow> zero_object | Some m \<Rightarrow> m)
      in if object_id bundle \<noteq> spec_bundle_object s \<or> object_bytes bundle > prof_bundle_bytes (adm_profile r)
      then Inl ErrInvalid
      else if length refs \<noteq> 1 + length (spec_inputs s) + (if spec_image s = None then 0 else 1) then Inl ErrInvalid
      else
        case (case spec_image s of
            None \<Rightarrow> Some None
          | Some img \<Rightarrow>
              (case map_of refs ''application_image'' of
                 None \<Rightarrow> None
               | Some m \<Rightarrow>
                   if object_id m \<noteq> image_object img \<or> object_sha256 m \<noteq> image_sha256 img
                      \<or> object_bytes m \<noteq> image_bytes img
                   then None else Some (Some m))) of
          None \<Rightarrow> Inl ErrInvalid
        | Some app_image \<Rightarrow>
            (case snapshot_inputs (prof_input_bytes (adm_profile r)) refs 0 0 (spec_inputs s) of
               None \<Rightarrow> Inl ErrInvalid
             | Some inputs \<Rightarrow>
                 let snap = \<lparr>snap_bundle = bundle, snap_inputs = Some inputs, snap_image = app_image\<rparr>
                 in if snapshot_validate (job_workspace (adm_job r)) snap \<noteq> None then Inl ErrInvalid
                    else Inr snap))"


section \<open>The remote runner\<close>

definition runner_path_ok :: "string \<Rightarrow> bool" where
  "runner_path_ok p =
     (if p = ''.'' \<or> length p > 240 \<or> length (split_on (CHR ''/'') p) > 32 \<or> \<not> ValidPath p then False
      else \<not> list_ex (\<lambda>part. to_lower part \<in> {''.compute-relay'', ''.git'', ''.ssh'', ''.env''})
             (split_on (CHR ''/'') p))"

definition string_contains :: "string \<Rightarrow> string \<Rightarrow> bool" where
  "string_contains s sub \<longleftrightarrow> list_ex (\<lambda>n. has_prefix (drop n s) sub) [0..<length s + 1]"

text \<open>Names of environment variables are ASCII, as the schema of a specification demands.\<close>

definition environment_refused :: "string \<Rightarrow> string \<Rightarrow> bool" where
  "environment_refused k v \<longleftrightarrow>
     (let u = to_upper k in
      list_ex (has_prefix u)
        [''CC_'', ''PYTHON'', ''PIP_'', ''LD_'', ''DYLD_'', ''CUDA_'', ''NVIDIA_'', ''AWS_'', ''KAGGLE_'']
      \<or> list_ex (string_contains u) [''TOKEN'', ''SECRET'', ''PASSWORD'', ''CREDENTIAL'', ''API_KEY'', ''PROXY'']
      \<or> u \<in> {''PATH'', ''HOME'', ''TMPDIR'', ''VIRTUAL_ENV'', ''BASH_ENV'', ''ENV'', ''SHELLOPTS'', ''BASHOPTS''}
      \<or> CHR 0x00 \<in> set v)"

definition runnerCompatible :: "spec \<Rightarrow> bundle_file list \<Rightarrow> go_error option" where
  "runnerCompatible s files =
     (let wd = (if spec_directory s = [] then ''.'' else spec_directory s);
          command = (case spec_command s of [] \<Rightarrow> [] | c # _ \<Rightarrow> c);
          inputs = map in_target (spec_inputs s); outputs = map out_path (spec_outputs s);
          env = details_list (spec_environment s)
      in fail_if
           (spec_command s = []
            \<or> list_ex (\<lambda>arg. CHR 0x00 \<in> set arg) (spec_command s)
            \<or> spec_kind s = ''python'' \<and> command \<noteq> ''python'' \<and> command \<noteq> ''python3''
            \<or> spec_kind s = ''shell'' \<and> command \<noteq> ''bash'' \<and> command \<noteq> ''sh''
            \<or> wd \<noteq> ''.'' \<and> \<not> runner_path_ok wd
            \<or> wd \<noteq> ''.'' \<and> \<not> list_ex (\<lambda>f. has_prefix (file_path f) (wd @ ''/'')) files
            \<or> spec_requirements s \<noteq> [] \<and> \<not> list_ex (\<lambda>f. file_path f = spec_requirements s) files
            \<or> \<not> list_all runner_path_ok inputs \<or> \<not> list_all runner_path_ok outputs
            \<or> \<not> disjointRunnerPaths inputs \<or> \<not> disjointRunnerPaths outputs
            \<or> list_ex (\<lambda>(k, v). environment_refused k v) env)
           (problem_error CodeResourceRequirementUnsatisfied))"


section \<open>Freezing\<close>

text \<open>
  A stored object as it is read: its bytes, whether copying up to so many of them ends with an error (of the
  store or of the context), whether closing fails.
\<close>

record blob =
  blob_bytes :: string
  blob_fails :: "nat \<Rightarrow> bool"
  blob_unclosed :: bool

record bundle_report =
  report_files :: "bundle_file list"
  report_bytes :: int
  report_sha256 :: string

record blob_store =
  open_blob :: "opaque_id \<Rightarrow> opaque_id \<Rightarrow> blob option"
  inspect_bundle :: "bundle_limits \<Rightarrow> blob \<Rightarrow> bundle_report option"

fun inputs_fit :: "int \<Rightarrow> (string \<times> object_metadata) list \<Rightarrow> int \<Rightarrow> nat list \<Rightarrow> go_error option" where
  "inputs_fit limit refs used [] = None"
| "inputs_fit limit refs used (i # is) =
     (case map_of refs (input_role i) of
        None \<Rightarrow> Some (problem_error CodeInputNotFound)
      | Some m \<Rightarrow>
          if object_bytes m > limit - used then Some (problem_error CodeInputTooLarge)
          else inputs_fit limit refs (used + object_bytes m) is)"

text \<open>An input is read up to one byte past its recorded size.\<close>

definition input_intact :: "blob_store \<Rightarrow> opaque_id \<Rightarrow> frozen_input \<Rightarrow> go_error option" where
  "input_intact bs w i =
     (let m = input_object i; limit = nat (object_bytes m + 1) in
      case open_blob bs w (object_id m) of
        None \<Rightarrow> Some (problem_error CodeInputNotFound)
      | Some b \<Rightarrow>
          if blob_fails b limit \<or> blob_unclosed b
          then Some (problem_error CodeInputFetchFailed)
          else if int (length (take limit (blob_bytes b))) \<noteq> object_bytes m
            \<or> sha256_hex (take limit (blob_bytes b)) \<noteq> object_sha256 m
          then Some (problem_error CodeInputDigestMismatch)
          else None)"

definition freeze :: "blob_store \<Rightarrow> opaque_id \<Rightarrow> admitted \<Rightarrow> go_error + input_snapshot" where
  "freeze bs w r =
     (let s = req_spec (adm_request r); refs = object_refs (adm_objects r) in
      case inputs_fit (prof_input_bytes (adm_profile r)) refs 0 [0..<length (spec_inputs s)] of
        Some e \<Rightarrow> Inl e
      | None \<Rightarrow>
          (case Snapshot r refs of
             Inl e \<Rightarrow> Inl e
           | Inr snap \<Rightarrow>
               (case open_blob bs w (object_id (snap_bundle snap)) of
                  None \<Rightarrow> Inl (problem_error CodeInputNotFound)
                | Some b \<Rightarrow>
                    (case inspect_bundle bs (DefaultLimits\<lparr>lim_compressed := prof_bundle_bytes (adm_profile r)\<rparr>) b of
                       None \<Rightarrow> Inl (problem_error CodeInputDigestMismatch)
                     | Some rep \<Rightarrow>
                         if blob_unclosed b \<or> report_bytes rep \<noteq> object_bytes (snap_bundle snap)
                            \<or> report_sha256 rep \<noteq> object_sha256 (snap_bundle snap)
                         then Inl (problem_error CodeInputDigestMismatch)
                         else
                           (case first_error (runnerCompatible s (report_files rep)
                                # map (input_intact bs w) (elems (snap_inputs snap))) of
                              Some e \<Rightarrow> Inl e
                            | None \<Rightarrow> Inr snap)))))"


section \<open>Resolved jobs and plans\<close>

definition required_capabilities :: "spec \<Rightarrow> capability_name list" where
  "required_capabilities s =
     sort ([CapabilityBatchExecution, CapabilityPrivateInputStaging, CapabilityExecutionTimeout,
        CapabilityStrongIdentity, CapabilityRemoteNetworkControl]
       @ (if spec_secrets s \<noteq> [] then [CapabilityEphemeralSecrets] else [])
       @ (if SeparateStart s then [CapabilitySeparateStart] else [])
       @ (if spec_deadline s \<noteq> [] then [CapabilityAbsoluteDeadline] else [])
       @ [if spec_kind s = ''python'' then CapabilityPython else CapabilityShell]
       @ (if spec_accelerator s = ''gpu'' then [CapabilityGPU] else []))"

definition attempt_key :: "opaque_id \<Rightarrow> admitted \<Rightarrow> string" where
  "attempt_key installation r =
     Digest (json_marshal (JArray (map JString
       [installation, job_workspace (adm_job r), job_id (adm_job r), attempt_id (adm_attempt r)])))"

definition ResolveJob ::
  "(request \<Rightarrow> input_snapshot \<Rightarrow> go_error + string) \<Rightarrow> opaque_id \<Rightarrow> admitted \<Rightarrow> input_snapshot
     \<Rightarrow> go_error + resolved_job \<times> opaque_id" where
  "ResolveJob recode installation r snap =
     (if snapshot_validate (job_workspace (adm_job r)) snap \<noteq> None \<or> \<not> validOpaqueID installation
      then Inl ErrInvalid
      else case recode (adm_request r) snap of
        Inl e \<Rightarrow> Inl e
      | Inr canonical \<Rightarrow>
          let key = attempt_key installation r; s = req_spec (adm_request r); binding = prof_binding (adm_profile r);
              ident = \<lparr>id_installation = installation, id_workspace = job_workspace (adm_job r),
                id_job = job_id (adm_job r), id_attempt = attempt_id (adm_attempt r),
                id_instance = binding_instance binding, id_intent = ''si_'' @ key,
                id_resource_key = ''cr-'' @ take 40 key, id_nonce = adm_nonce r,
                id_bundle = object_sha256 (snap_bundle snap), id_manifest = InputDigest snap\<rparr>;
              j = \<lparr>rj_identity = ident, rj_binding = binding, rj_specification = canonical,
                rj_specification_sha256 = Digest canonical, rj_required = Some (required_capabilities s),
                rj_wall_seconds = spec_wall_seconds s, rj_inputs = Some snap\<rparr>
          in case resolved_job_validate j of
               Some _ \<Rightarrow> Inl (Sentinel ''invalid resolved job'')
             | None \<Rightarrow> Inr (j, ''prep_'' @ key))"

definition resolved_job_marshal :: "resolved_job \<Rightarrow> string" where
  "resolved_job_marshal j =
     (if rj_specification j \<noteq> [] \<and> \<not> json_valid (rj_specification j) then []
      else json_marshal (resolved_job_json j))"

definition ValidatedPlan :: "resolved_job \<Rightarrow> plan \<Rightarrow> descriptor \<Rightarrow> go_error option" where
  "ValidatedPlan expected p d =
     (let after_start = elems (plan_verify_after_start p); required = elems (rj_required expected) in
      if resolved_job_marshal expected \<noteq> resolved_job_marshal (plan_job p)
         \<or> resolved_job_validate (plan_job p) \<noteq> None
         \<or> desc_instance d \<noteq> id_instance (rj_identity expected)
      then Some ErrInvalid
      else if after_start \<noteq> [] \<and> after_start \<noteq> [CapabilityGPU] then Some ErrInvalid
      else if list_ex (\<lambda>c. let support = descriptor_support d c in
          \<not> capability_support_valid support \<or> support = CapabilitySupportUnsupported
          \<or> support \<noteq> CapabilitySupportSupported \<and> \<not> (c = CapabilityGPU \<and> c \<in> set after_start)) required
      then Some (problem_error CodeUnsupportedCapability)
      else if CapabilityGPU \<in> set after_start \<and> CapabilityGPU \<notin> set required then Some ErrInvalid
      else None)"

end
