(* ===== verification/Dispatch_Engine.thy ===== *)
theory Dispatch_Engine
  imports Dispatch_Inputs Worker "HOL-Library.State_Monad"
begin

text \<open>
  The dispatch engine, \<open>src/internal/dispatch/engine.go\<close> and \<open>cancellation.go\<close>: one pass over a claimed attempt,
  phase by phase, with every call it makes to the repository and to the provider.

  A pass is a computation of the state monad over a session.  Everything outside the engine is an
  environment of operations on an arbitrary world: the clock, contexts, the repository, the adapter, the blob
  store and the guard of new work.  The heartbeat and the shutdown signal run in other goroutines; what they do
  is seen by the engine only when it takes the session's lock, so they act at those points.  The trace
  of a session records the mutations the engine acknowledged and requested, in order; the code has no such
  variable.  A crash is an environment whose operations fail from some point on.
\<close>

section \<open>Configuration\<close>

record engine_config =
  cfg_workers :: int
  cfg_control_timeout :: int
  cfg_preparation_timeout :: int
  cfg_poll_delay :: int

definition DefaultConfig :: engine_config where
  "DefaultConfig = \<lparr>cfg_workers = 4, cfg_control_timeout = minute_ns, cfg_preparation_timeout = hour_ns,
     cfg_poll_delay = 15 * second_ns\<rparr>"

definition config_valid :: "engine_config \<Rightarrow> bool" where
  "config_valid c \<longleftrightarrow>
     cfg_workers c > 0 \<and> cfg_workers c \<le> 64 \<and> cfg_control_timeout c > 0 \<and> cfg_control_timeout c \<le> 5 * minute_ns
     \<and> cfg_preparation_timeout c \<ge> cfg_control_timeout c \<and> cfg_preparation_timeout c \<le> hour_ns
     \<and> cfg_poll_delay c \<ge> 1000000 \<and> cfg_poll_delay c \<le> 5 * minute_ns"

definition PreparationObservationGrace :: int where "PreparationObservationGrace = 10 * minute_ns"
definition submittedPollFloor :: int where "submittedPollFloor = 15 * second_ns"
definition submittedRetryFloor :: int where "submittedRetryFloor = 30 * second_ns"

function double_delay :: "int \<Rightarrow> int \<Rightarrow> int \<Rightarrow> int" where
  "double_delay failures n delay =
     (if n < failures \<and> delay < 120 * second_ns then double_delay failures (n + 1) (delay * 2) else delay)"
  by pat_completeness auto
termination
  by (relation "measure (\<lambda>(failures, n, delay). nat (failures - n))") auto

declare double_delay.simps [simp del]

definition nextPassDelay :: "int \<Rightarrow> journal \<Rightarrow> int" where
  "nextPassDelay poll j =
     (let delay = poll;
          delay = (if j_plan j = None \<and> j_failures j > 0 then max delay (15 * second_ns) else delay);
          delay = (if j_remote j \<noteq> None then max delay submittedPollFloor else delay);
          delay = (if j_submit_started j \<and> j_failures j > 0 then max delay submittedRetryFloor else delay)
      in min (double_delay (j_failures j) 0 delay) (120 * second_ns))"


section \<open>Work and its environment\<close>

record handle =
  h_claim :: claim
  h_version :: int

record cancellation_control =
  cc_operation :: operation
  cc_started :: bool

record cancellation_action =
  ca_begin :: bool
  ca_outcome :: "cancellation_outcome option"
  ca_code :: error_code

record work =
  w_installation :: opaque_id
  w_handle :: handle
  w_job :: admitted
  w_journal :: journal
  w_cancellation :: "cancellation_control option"
  w_gate :: "gate option"

text \<open>What an adapter does with a call: it returns a value and an error, or panics.  \<open>Start\<close> has no error to return;
  there a panic is \<open>None\<close>.\<close>

datatype 'a reply = Replied 'a "go_error option" | ReplyPanic

text \<open>What happens in other goroutines: a renewal of the lease, and the shutdown of the parent context.\<close>

datatype background = RenewLease | ShutDown

type_synonym ('w, 'a) oper = "'w \<Rightarrow> 'a \<times> 'w"

text \<open>A call that reports progress runs in segments: after each it may report a sample to the callback that the
  engine put in its context, and after the last it answers.\<close>

type_synonym 'w preparation = "('w, (int \<times> int) option) oper list \<times> ('w, prepared reply) oper"

record ('w, 'p) engine_env =
  env_config :: engine_config
  env_clock :: "('w, gotime) oper"
  env_background :: "('w, background list) oper"
  env_context :: "('w, go_error option) oper"
  env_parent :: "('w, go_error option) oper"
  env_slot :: "('w, go_error option) oper"
  env_claim_recovery :: "string \<Rightarrow> ('w, go_error + claim option) oper"
  env_claim_next :: "string \<Rightarrow> ('w, go_error + claim option) oper"
  env_load :: "claim \<Rightarrow> ('w, go_error + work) oper"
  env_consume :: "handle \<Rightarrow> ('w, go_error + work) oper"
  env_commit :: "handle \<Rightarrow> action \<Rightarrow> ('w, go_error + work) oper"
  env_renew :: "handle \<Rightarrow> ('w, go_error + handle) oper"
  env_yield :: "handle \<Rightarrow> int \<Rightarrow> ('w, go_error option) oper"
  env_progress :: "handle \<Rightarrow> preparation_progress \<Rightarrow> ('w, go_error option) oper"
  env_cancellation :: "(handle \<Rightarrow> opaque_id \<Rightarrow> cancellation_action \<Rightarrow> ('w, go_error + work) oper) option"
  env_guard :: "(admitted \<Rightarrow> ('w, go_error option) oper) option"
  env_blobs :: "('w, blob_store) oper"
  env_recode :: "request \<Rightarrow> input_snapshot \<Rightarrow> go_error + string"
  env_secrets :: "('w, pool option) oper"
  env_set_secrets :: "pool option \<Rightarrow> 'w \<Rightarrow> 'w"
  env_resolve :: "binding_snapshot \<Rightarrow> ('w, go_error + 'p) oper"
  env_describe :: "'p \<Rightarrow> ('w, descriptor) oper"
  env_verify :: "'p \<Rightarrow> binding_snapshot \<Rightarrow> ('w, unit reply) oper"
  env_validate :: "'p \<Rightarrow> resolved_job \<Rightarrow> ('w, plan reply) oper"
  env_prepare :: "'p \<Rightarrow> plan \<Rightarrow> opaque_id \<Rightarrow> 'w preparation"
  env_reconcile_prepare :: "'p \<Rightarrow> plan \<Rightarrow> opaque_id \<Rightarrow> ('w, preparation_observation reply) oper"
  env_start :: "'p \<Rightarrow> prepared \<Rightarrow> start_authorization option \<Rightarrow> material option \<Rightarrow> ('w, submission_outcome option) oper"
  env_reconcile :: "'p \<Rightarrow> identity \<Rightarrow> ('w, reconciliation reply) oper"
  env_observe :: "'p \<Rightarrow> remote_reference \<Rightarrow> ('w, observation reply) oper"
  env_cancel :: "'p \<Rightarrow> remote_reference \<Rightarrow> opaque_id \<Rightarrow> ('w, cancellation_outcome reply) oper"

datatype mutation =
    Committed handle action journal
  | CancellationBegun handle opaque_id
  | PrepareCalled plan opaque_id
  | StartCalled prepared "start_authorization option" "material option"
  | CancelCalled remote_reference opaque_id
  | Yielded int

record 'w session =
  s_world :: 'w
  s_trace :: "mutation list"
  s_work :: work
  s_sampled :: gotime
  s_progress_error :: "go_error option"
  s_draining :: bool
  s_observation_limit :: int
  s_cancelled :: bool
  s_beating :: bool
  s_lost :: "go_error option"

type_synonym ('w, 'a) pass = "('w session, 'a) state"


section \<open>Sentinels\<close>

definition Canceled :: go_error where "Canceled = Sentinel ''context.Canceled''"
definition DeadlineExceeded :: go_error where "DeadlineExceeded = Sentinel ''context.DeadlineExceeded''"
definition ErrLeaseLost :: go_error where "ErrLeaseLost = Sentinel ''scheduler.ErrLeaseLost''"
definition runtime_panic :: go_error where "runtime_panic = Sentinel ''runtime panic''"

text \<open>\<open>ErrHostUnhealthy\<close> is a join; it is told by the first error of the join.\<close>

definition newWorkRefusalReason :: "go_error option \<Rightarrow> string" where
  "newWorkRefusalReason err =
     (if errors_is ''provider.ErrResourceCountLimit'' err then Reason err ''remote_resource_count_limit''
      else if errors_is ''hostimages.ErrCountLimit'' err then ''host_image_count_limit''
      else if errors_is ''admission.ErrHostUnhealthy'' err then ''host_unhealthy''
      else if errors_is ''hoststorage.ErrHardLimit'' err then ''host_storage_limit''
      else if errors_is ''hoststorage.ErrUnknown'' err then ''host_storage_unknown''
      else [])"

definition controlContention :: "go_error option \<Rightarrow> bool" where
  "controlContention err \<longleftrightarrow>
     errors_is ''dispatch.ErrConflict'' err \<or> errors_is ''dispatch.ErrStaleObservation'' err"

definition has_problem_text :: "error_code \<Rightarrow> bool" where
  "has_problem_text c = (case dispatch_problem c False of Inr (Some _) \<Rightarrow> True | _ \<Rightarrow> False)"

definition errorCode :: "go_error option \<Rightarrow> error_code \<Rightarrow> error_code" where
  "errorCode err fallback =
     (case errors_as (as_problem False) err of
        Some p \<Rightarrow> if has_problem_text (code p) then code p
          else (case errors_as (as_problem True) err of
                  Some q \<Rightarrow> if has_problem_text (code q) then code q else fallback
                | None \<Rightarrow> fallback)
      | None \<Rightarrow> (case errors_as (as_problem True) err of
                  Some q \<Rightarrow> if has_problem_text (code q) then code q else fallback
                | None \<Rightarrow> fallback))"

definition unansweredRead :: "go_error option \<Rightarrow> bool" where
  "unansweredRead err \<longleftrightarrow>
     errors_is ''context.DeadlineExceeded'' err
     \<or> errorCode err CodeProviderStateUnknown
         \<in> {CodeProviderStateUnknown, CodeProviderUnreachable, CodeProviderRateLimited}"

text \<open>How the loop of workers takes the error of a pass.\<close>

definition pass_decision :: "go_error option \<Rightarrow> decision" where
  "pass_decision err =
     (if IsLocalStateError err then Classify err
      else if errors_as (as_problem False) err \<noteq> None \<or> errors_as (as_problem True) err \<noteq> None
        \<or> newWorkRefusalReason err \<noteq> [] \<or> errors_is ''dispatch.ErrPolicy'' err
        \<or> errors_is ''scheduler.ErrLeaseLost'' err \<or> controlContention err
      then Continue
      else Classify err)"

definition action_of :: "kind \<Rightarrow> action" where
  "action_of k =
     \<lparr>act_refusal_reason = [], act_secrets_available = False, act_kind = k, act_plan = None,
      act_preparation_id = [], act_prepared = None, act_submission = None, act_absence = None,
      act_observation = None, act_code = CodeOther [], act_reason = [], act_cause = [], act_details = None,
      act_resource_name = [], act_owner_present = False, act_start = None, act_preparation_expired = False\<rparr>"


section \<open>Sessions\<close>

definition call :: "('w, 'a) oper \<Rightarrow> ('w, 'a) pass" where
  "call f = State (\<lambda>s. case f (s_world s) of (r, w) \<Rightarrow> (r, s\<lparr>s_world := w\<rparr>))"

definition record_mutation :: "mutation \<Rightarrow> ('w, unit) pass" where
  "record_mutation m = State (\<lambda>s. ((), s\<lparr>s_trace := s_trace s @ [m]\<rparr>))"

definition session_modify :: "('w session \<Rightarrow> 'w session) \<Rightarrow> ('w, unit) pass" where
  "session_modify f = State (\<lambda>s. ((), f s))"

text \<open>The error of the session's context: shutdown and a lost lease cancel it, anything else is the environment's.\<close>

definition session_context :: "('w, 'p) engine_env \<Rightarrow> ('w, go_error option) pass" where
  "session_context env =
     do { s \<leftarrow> State_Monad.get;
          if s_cancelled s \<or> s_lost s \<noteq> None then State_Monad.return (Some Canceled) else call (env_context env) }"

definition background_step :: "('w, 'p) engine_env \<Rightarrow> background \<Rightarrow> ('w, unit) pass" where
  "background_step env b =
     do { s \<leftarrow> State_Monad.get;
          case b of
            ShutDown \<Rightarrow> if s_draining s then State_Monad.return () else session_modify (\<lambda>s. s\<lparr>s_cancelled := True\<rparr>)
          | RenewLease \<Rightarrow>
              if \<not> s_beating s then State_Monad.return ()
              else do {
                r \<leftarrow> call (env_renew env (w_handle (s_work s)));
                case r of
                  Inr h \<Rightarrow> session_modify (\<lambda>s. s\<lparr>s_work := (s_work s)\<lparr>w_handle := h\<rparr>\<rparr>)
                | Inl e \<Rightarrow> do {
                    ctx \<leftarrow> session_context env;
                    session_modify (\<lambda>s. s\<lparr>s_beating := False,
                      s_lost := (if ctx \<noteq> None then withoutCancellation (Some e) else Some e)\<rparr>) } } }"

fun background_steps :: "('w, 'p) engine_env \<Rightarrow> background list \<Rightarrow> ('w, unit) pass" where
  "background_steps env [] = State_Monad.return ()"
| "background_steps env (b # bs) = do { background_step env b; background_steps env bs }"

text \<open>Taking the lock of the session.\<close>

definition lock :: "('w, 'p) engine_env \<Rightarrow> ('w, unit) pass" where
  "lock env = do { bs \<leftarrow> call (env_background env); background_steps env bs }"

definition current_work :: "('w, 'p) engine_env \<Rightarrow> ('w, work) pass" where
  "current_work env = do { lock env; s \<leftarrow> State_Monad.get; State_Monad.return (s_work s) }"

definition accept_work :: "(work \<Rightarrow> ('w, unit) pass) \<Rightarrow> go_error + work \<Rightarrow> ('w, go_error option) pass" where
  "accept_work f r =
     (case r of
        Inl e \<Rightarrow> State_Monad.return (Some e)
      | Inr w \<Rightarrow> do { session_modify (\<lambda>s. s\<lparr>s_work := w\<rparr>); f w; State_Monad.return None })"

definition begins_work :: "kind \<Rightarrow> bool" where
  "begins_work k \<longleftrightarrow> k = BeginPreparation \<or> k = BeginSubmission"

definition commit :: "('w, 'p) engine_env \<Rightarrow> action \<Rightarrow> ('w, go_error option) pass" where
  "commit env a =
     do { lock env;
          parent \<leftarrow> (if begins_work (act_kind a) then call (env_parent env) else State_Monad.return None);
          if parent \<noteq> None then State_Monad.return parent
          else do {
            s \<leftarrow> State_Monad.get;
            r \<leftarrow> call (env_commit env (w_handle (s_work s)) a);
            accept_work (\<lambda>w. do {
              record_mutation (Committed (w_handle (s_work s)) a (w_journal w));
              if act_kind a = BeginPreparation then session_modify (\<lambda>s. s\<lparr>s_draining := True\<rparr>)
              else State_Monad.return () }) r } }"

definition consumeAuthorization :: "('w, 'p) engine_env \<Rightarrow> ('w, go_error option) pass" where
  "consumeAuthorization env =
     do { lock env;
          parent \<leftarrow> call (env_parent env);
          if parent \<noteq> None then State_Monad.return parent
          else do {
            s \<leftarrow> State_Monad.get;
            r \<leftarrow> call (env_consume env (w_handle (s_work s)));
            accept_work (\<lambda>_. State_Monad.return ()) r } }"

definition commitCancellation :: "('w, 'p) engine_env \<Rightarrow> cancellation_action \<Rightarrow> ('w, go_error option) pass" where
  "commitCancellation env a =
     do { lock env;
          s \<leftarrow> State_Monad.get;
          case (env_cancellation env, w_cancellation (s_work s)) of
            (Some f, Some cc) \<Rightarrow> do {
              r \<leftarrow> call (f (w_handle (s_work s)) (operation_id (cc_operation cc)) a);
              accept_work (\<lambda>_. if ca_begin a then record_mutation (CancellationBegun (w_handle (s_work s)) (operation_id (cc_operation cc)))
                else State_Monad.return ()) r }
          | _ \<Rightarrow> State_Monad.return (Some ErrConflict) }"

text \<open>The problem of the journal as an error, a nil pointer when there is none.\<close>

definition journal_problem :: "('w, 'p) engine_env \<Rightarrow> ('w, go_error option) pass" where
  "journal_problem env =
     do { w \<leftarrow> current_work env;
          State_Monad.return (Some (case j_problem (w_journal w) of
            Some p \<Rightarrow> ProblemError False p None | None \<Rightarrow> Sentinel ''nil problem'')) }"

definition commit_problem :: "('w, 'p) engine_env \<Rightarrow> action \<Rightarrow> ('w, go_error option) pass" where
  "commit_problem env a =
     do { err \<leftarrow> commit env a;
          case err of Some e \<Rightarrow> State_Monad.return (Some e) | None \<Rightarrow> journal_problem env }"

definition failWith :: "('w, 'p) engine_env \<Rightarrow> error_code \<Rightarrow> string \<Rightarrow> ('w, go_error option) pass" where
  "failWith env c reason =
     do { ctx \<leftarrow> session_context env;
          case ctx of
            Some e \<Rightarrow> State_Monad.return (Some e)
          | None \<Rightarrow> commit_problem env ((action_of Fault)\<lparr>act_code := c, act_reason := reason\<rparr>) }"

definition providerFailure :: "('w, 'p) engine_env \<Rightarrow> go_error option \<Rightarrow> error_code \<Rightarrow> ('w, go_error option) pass" where
  "providerFailure env err c =
     (if IsLocalStateError err then State_Monad.return err
      else
        let ds = (case errors_as (as_problem True) err of
            Some p \<Rightarrow> PublicDetails p
          | None \<Rightarrow> (case errors_as (as_problem False) err of Some p \<Rightarrow> PublicDetails p | None \<Rightarrow> None))
        in commit_problem env ((action_of Fault)\<lparr>act_code := errorCode err c, act_reason := Reason err [],
             act_details := ds\<rparr>))"

definition prepared_seen :: "('w, 'p) engine_env \<Rightarrow> prepared \<Rightarrow> ('w, go_error option) pass" where
  "prepared_seen env p =
     do { w \<leftarrow> current_work env;
          if (case j_plan (w_journal w) of
                None \<Rightarrow> True
              | Some pl \<Rightarrow> prepared_validate pl (j_preparation_id (w_journal w)) p \<noteq> None)
          then failWith env CodeRemoteIdentityMismatch []
          else commit env ((action_of PreparationSeen)\<lparr>act_prepared := Some p\<rparr>) }"

definition endUnconfirmedPreparation ::
  "('w, 'p) engine_env \<Rightarrow> go_error option \<Rightarrow> bool \<Rightarrow> string \<Rightarrow> ('w, go_error option) pass" where
  "endUnconfirmedPreparation env err unanswered cause =
     (if IsLocalStateError err then State_Monad.return err
      else do {
        ctx \<leftarrow> session_context env;
        case ctx of
          Some e \<Rightarrow> State_Monad.return (Some e)
        | None \<Rightarrow> do {
            let cause = (if cause = [] then Reason err [] else cause);
            w \<leftarrow> current_work env;
            now \<leftarrow> call (env_clock env);
            s \<leftarrow> State_Monad.get;
            if (case j_preparation_started (w_journal w) of
                  None \<Rightarrow> True
                | Some t \<Rightarrow> before now (add_time t PreparationObservationGrace)
                    \<or> unanswered \<and> before now (add_time t (s_observation_limit s)))
            then commit_problem env ((action_of Fault)\<lparr>act_code := CodeStagingNotReady, act_cause := cause\<rparr>)
            else commit_problem env ((action_of EndUnconfirmedPreparation)\<lparr>act_cause := cause\<rparr>) } })"

definition refuseNewWork :: "('w, 'p) engine_env \<Rightarrow> go_error option \<Rightarrow> ('w, go_error option) pass" where
  "refuseNewWork env cause =
     (let reason = newWorkRefusalReason cause in
      if reason = [] then State_Monad.return cause
      else do {
        w \<leftarrow> current_work env;
        if (case j_problem (w_journal w) of
              None \<Rightarrow> True
            | Some p \<Rightarrow> details_get (details p) ReasonDetail \<noteq> reason
                \<or> details_get (details p) CauseDetail \<noteq> Reason cause [])
        then do {
          err \<leftarrow> commit env ((action_of RefuseNewWork)\<lparr>act_refusal_reason := reason, act_cause := Reason cause []\<rparr>);
          State_Monad.return (if err = None \<or> errors_is ''dispatch.ErrPolicy'' err then cause else err) }
        else State_Monad.return cause })"

definition guardNewWork :: "('w, 'p) engine_env \<Rightarrow> ('w, go_error option) pass" where
  "guardNewWork env =
     (case env_guard env of
        None \<Rightarrow> State_Monad.return None
      | Some g \<Rightarrow> do {
          w \<leftarrow> current_work env;
          err \<leftarrow> call (g (w_job w));
          if newWorkRefusalReason err \<noteq> [] then refuseNewWork env err else State_Monad.return err })"

text \<open>
  One sample of the staging progress.  The errors that end it quietly are compared as values, not through their
  causes.
\<close>

definition progress :: "('w, 'p) engine_env \<Rightarrow> int \<times> int \<Rightarrow> ('w, unit) pass" where
  "progress env sample =
     do { now \<leftarrow> call (env_clock env);
          let now = utc now;
          lock env;
          s \<leftarrow> State_Monad.get;
          if fst sample < snd sample \<and> \<not> is_zero (s_sampled s) \<and> sub_time now (s_sampled s) < second_ns
          then State_Monad.return ()
          else do {
            session_modify (\<lambda>s. s\<lparr>s_sampled := now\<rparr>);
            let h = w_handle (s_work s);
            err \<leftarrow> call (env_progress env h \<lparr>prep_scope = ''staged_input_bytes'',
              prep_generation = claim_generation (h_claim h), prep_completed = fst sample,
              prep_total = snd sample, prep_observed = now\<rparr>);
            if err \<in> {None, Some Canceled, Some ErrLeaseLost, Some ErrInvalid, Some ErrConflict,
                 Some ErrStaleObservation}
               \<or> Classify err \<noteq> Stop
            then State_Monad.return ()
            else session_modify (\<lambda>s. s\<lparr>s_progress_error := errors_join [s_progress_error s, err]\<rparr>) } }"

text \<open>The segments of a preparation, with the callback on the samples they report.\<close>

fun run_segments :: "('w, 'p) engine_env \<Rightarrow> ('w, (int \<times> int) option) oper list \<Rightarrow> ('w, unit) pass" where
  "run_segments env [] = State_Monad.return ()"
| "run_segments env (f # fs) =
     do { x \<leftarrow> call f;
          (case x of None \<Rightarrow> State_Monad.return () | Some sample \<Rightarrow> progress env sample);
          run_segments env fs }"


section \<open>Provider calls\<close>

text \<open>
  A bounded call: not made when the context has ended or no time is left, a panic of the adapter is recovered,
  and the error of a call carries a closed reason.  Callers read the value only when there is no error.
\<close>

definition control_error :: "go_error \<Rightarrow> string \<Rightarrow> go_error" where
  "control_error e reason = the (WithReason (Some e) reason)"

definition control ::
  "('w, 'p) engine_env \<Rightarrow> int \<Rightarrow> string \<Rightarrow> ('w, 'a reply) pass \<Rightarrow> ('w, go_error + 'a) pass" where
  "control env limit step fn =
     do { ctx \<leftarrow> session_context env;
          case (if ctx = None \<and> limit \<le> 0 then Some DeadlineExceeded else ctx) of
            Some e \<Rightarrow> State_Monad.return (Inl (control_error e (step @ ''_interrupted'')))
          | None \<Rightarrow> do {
              r \<leftarrow> fn;
              State_Monad.return (case r of
                ReplyPanic \<Rightarrow> Inl (control_error (Sentinel ''provider call failed without a usable result'') (step @ ''_panic''))
              | Replied v None \<Rightarrow> Inr v
              | Replied v (Some e) \<Rightarrow> Inl (control_error e (step @ ''_failed''))) } }"

definition prepare_call ::
  "('w, 'p) engine_env \<Rightarrow> 'p \<Rightarrow> plan \<Rightarrow> opaque_id \<Rightarrow> ('w, prepared reply) pass" where
  "prepare_call env p pl prep =
     do { record_mutation (PrepareCalled pl prep);
          run_segments env (fst (env_prepare env p (plan_clone pl) prep));
          call (snd (env_prepare env p (plan_clone pl) prep)) }"

text \<open>The material a claim handed out, as the adapter reads it, and its clearing at the end of the pass.\<close>

definition held_material :: "held \<Rightarrow> pool option \<Rightarrow> material" where
  "held_material h p =
     \<lparr>material_authorization = held_authorization h, material_key = held_key h, material_expires = held_expires h,
      material_values = (case p of None \<Rightarrow> None | Some q \<Rightarrow> Some (read_values (held_values h) (pool_mem q)))\<rparr>"

definition zero_material :: material where
  "zero_material = \<lparr>material_authorization = [], material_key = \<lparr>key_workspace = [], key_job = [], key_attempt = []\<rparr>,
     material_expires = [], material_values = None\<rparr>"

definition material_of :: "('w, 'p) engine_env \<Rightarrow> held option \<Rightarrow> ('w, material) pass" where
  "material_of env material =
     (case material of
        None \<Rightarrow> State_Monad.return zero_material
      | Some h \<Rightarrow> do { p \<leftarrow> call (env_secrets env); State_Monad.return (held_material h p) })"

definition clear_material :: "('w, 'p) engine_env \<Rightarrow> held option \<Rightarrow> ('w, unit) pass" where
  "clear_material env material =
     (case material of
        None \<Rightarrow> State_Monad.return ()
      | Some h \<Rightarrow> do {
          p \<leftarrow> call (env_secrets env);
          call (\<lambda>w. ((), env_set_secrets env
            (map_option (\<lambda>q. q\<lparr>pool_mem := clear_values (held_values h) (pool_mem q)\<rparr>) p) w)) })"

definition start_call ::
  "('w, 'p) engine_env \<Rightarrow> 'p \<Rightarrow> prepared \<Rightarrow> held option \<Rightarrow> ('w, submission_outcome reply) pass" where
  "start_call env p prep material =
     do { w \<leftarrow> current_work env;
          let start = j_start (w_journal w);
          m \<leftarrow> (if start = None \<or> map_option start_secrets start = Some None then State_Monad.return None
                else do { m \<leftarrow> material_of env material; State_Monad.return (Some m) });
          record_mutation (StartCalled prep start m);
          r \<leftarrow> call (env_start env p prep start m);
          State_Monad.return (case r of None \<Rightarrow> ReplyPanic | Some x \<Rightarrow> Replied x None) }"

definition cancel_call ::
  "('w, 'p) engine_env \<Rightarrow> 'p \<Rightarrow> remote_reference \<Rightarrow> opaque_id \<Rightarrow> ('w, cancellation_outcome reply) pass" where
  "cancel_call env p remote op = do { record_mutation (CancelCalled remote op); call (env_cancel env p remote op) }"

text \<open>Only the acknowledged beginning of a cancellation grants the call.\<close>

definition cancellation_failed :: "error_code \<Rightarrow> cancellation_action" where
  "cancellation_failed c = \<lparr>ca_begin = False, ca_outcome = None, ca_code = c\<rparr>"

definition cancel_outcome ::
  "('w, 'p) engine_env \<Rightarrow> go_error + cancellation_outcome \<Rightarrow> ('w, go_error option) pass" where
  "cancel_outcome env r =
     (case r of
        Inl e \<Rightarrow> if IsLocalStateError (Some e) then State_Monad.return (Some e)
          else commitCancellation env (cancellation_failed CodeRemoteExecutionUnresolved)
      | Inr x \<Rightarrow> commitCancellation env
          (if cancellation_outcome_validate x \<noteq> None then cancellation_failed CodeRemoteExecutionUnresolved
           else \<lparr>ca_begin = False, ca_outcome = Some x, ca_code = CodeOther []\<rparr>))"

definition request_cancellation ::
  "('w, 'p) engine_env \<Rightarrow> 'p \<Rightarrow> cancellation_control \<Rightarrow> remote_reference \<Rightarrow> ('w, go_error option) pass" where
  "request_cancellation env p cc remote =
     do { err \<leftarrow> commitCancellation env \<lparr>ca_begin = True, ca_outcome = None, ca_code = CodeOther []\<rparr>;
          if err \<noteq> None then State_Monad.return err
          else do {
            r \<leftarrow> control env (cfg_control_timeout (env_config env)) ''cancel''
              (cancel_call env p remote (operation_id (cc_operation cc)));
            cancel_outcome env r } }"

text \<open>The result tells whether the pass ends here, and with which error.\<close>

definition cancelOnce :: "('w, 'p) engine_env \<Rightarrow> 'p \<Rightarrow> ('w, go_error option option) pass" where
  "cancelOnce env p =
     do { w \<leftarrow> current_work env;
          case (w_cancellation w, j_remote (w_journal w)) of
            (Some cc, Some remote) \<Rightarrow>
              if cc_started cc \<or> j_phase (w_journal w) \<noteq> Submitted then State_Monad.return None
              else do {
                d \<leftarrow> call (env_describe env p);
                err \<leftarrow> (if \<not> cap_remote_cancellation (desc_capabilities d)
                       then commitCancellation env (cancellation_failed CodeRemoteCancelUnsupported)
                       else request_cancellation env p cc remote);
                State_Monad.return (Some err) }
          | _ \<Rightarrow> State_Monad.return None }"


section \<open>The phases of a pass\<close>

definition expire_dispatch :: "('w, 'p) engine_env \<Rightarrow> ('w, go_error option) pass" where
  "expire_dispatch env = commit env (action_of ExpireDispatch)"

text \<open>What follows a refused intent.\<close>

definition intent_refused :: "('w, 'p) engine_env \<Rightarrow> go_error option \<Rightarrow> ('w, go_error option) pass" where
  "intent_refused env err =
     (if newWorkRefusalReason err \<noteq> [] then refuseNewWork env err
      else if errors_is ''admission.ErrExpired'' err then expire_dispatch env
      else State_Monad.return err)"

definition process_preparing ::
  "('w, 'p) engine_env \<Rightarrow> 'p \<Rightarrow> gate option \<Rightarrow> int \<Rightarrow> plan \<Rightarrow> opaque_id \<Rightarrow> ('w, go_error option) pass" where
  "process_preparing env p g limit pl prep =
     do { limit \<leftarrow> (case g of
            None \<Rightarrow> State_Monad.return limit
          | Some g \<Rightarrow> do {
              now \<leftarrow> call (env_clock env);
              State_Monad.return (min limit (sub_time (parse_or_zero (preq_ready_until (gate_request g))) now)) });
          r \<leftarrow> control env limit ''prepare'' (prepare_call env p pl prep);
          case r of
            Inl e \<Rightarrow>
              if IsLocalStateError (Some e) then State_Monad.return (Some e)
              else if errors_is ''admission.ErrExpired'' (Some e) then expire_dispatch env
              else failWith env CodeStagingFailed (Reason (Some e) [])
          | Inr x \<Rightarrow> prepared_seen env x }"

text \<open>Only the pass that got its own intent acknowledged prepares; a restart finds the attempt staging.\<close>

definition commit_and_prepare ::
  "('w, 'p) engine_env \<Rightarrow> 'p \<Rightarrow> gate option \<Rightarrow> int \<Rightarrow> plan \<Rightarrow> opaque_id \<Rightarrow> ('w, go_error option) pass" where
  "commit_and_prepare env p g limit pl prep =
     do { err \<leftarrow> commit env ((action_of BeginPreparation)\<lparr>act_plan := Some pl, act_preparation_id := prep\<rparr>);
          if err \<noteq> None then intent_refused env err else process_preparing env p g limit pl prep }"

definition process_local :: "('w, 'p) engine_env \<Rightarrow> 'p \<Rightarrow> int \<Rightarrow> ('w, go_error option) pass" where
  "process_local env p limit =
     do { err \<leftarrow> guardNewWork env;
          if err \<noteq> None then State_Monad.return err
          else do {
            w \<leftarrow> current_work env;
            blobs \<leftarrow> call (env_blobs env);
            case freeze blobs (sid_workspace (claim_identity (h_claim (w_handle w)))) (w_job w) of
              Inl e \<Rightarrow> failWith env (errorCode (Some e) CodeInputFetchFailed) []
            | Inr snap \<Rightarrow> do {
                w \<leftarrow> current_work env;
                case ResolveJob (env_recode env) (w_installation w) (w_job w) snap of
                  Inl _ \<Rightarrow> failWith env CodeResourceRequirementUnsatisfied []
                | Inr (job, prep) \<Rightarrow> do {
                    r \<leftarrow> control env (cfg_control_timeout (env_config env)) ''validate''
                      (call (env_validate env p (resolved_job_clone job)));
                    case r of
                      Inl e \<Rightarrow> providerFailure env (Some e) (errorCode (Some e) CodeUnsupportedCapability)
                    | Inr pl \<Rightarrow> do {
                        d \<leftarrow> call (env_describe env p);
                        if ValidatedPlan job pl d \<noteq> None then failWith env CodeUnsupportedCapability []
                        else do {
                          err \<leftarrow> consumeAuthorization env;
                          if err \<noteq> None then intent_refused env err
                          else commit_and_prepare env p (w_gate w) limit pl prep } } } } } }"

definition reconcile_prepare_call ::
  "('w, 'p) engine_env \<Rightarrow> 'p \<Rightarrow> journal \<Rightarrow> ('w, preparation_observation reply) pass" where
  "reconcile_prepare_call env p j =
     (case j_plan j of
        None \<Rightarrow> State_Monad.return ReplyPanic
      | Some pl \<Rightarrow> call (env_reconcile_prepare env p (plan_clone pl) (j_preparation_id j)))"

definition observation_refused :: "journal \<Rightarrow> preparation_observation \<Rightarrow> bool" where
  "observation_refused j seen =
     (case j_plan j of
        None \<Rightarrow> True
      | Some pl \<Rightarrow> preparation_observation_validate pl (j_preparation_id j) seen \<noteq> None)"

definition process_staging ::
  "('w, 'p) engine_env \<Rightarrow> 'p \<Rightarrow> work \<Rightarrow> bool \<Rightarrow> int \<Rightarrow> ('w, go_error option) pass" where
  "process_staging env p w expired limit =
     (let j = w_journal w; gated_expiry = (expired \<and> w_gate w \<noteq> None) in
      do { r \<leftarrow> control env (if unconfirmedPreparation j then min limit (cfg_control_timeout (env_config env)) else limit)
             ''reconcile_preparation'' (reconcile_prepare_call env p j);
           case r of
             Inl e \<Rightarrow>
               if unconfirmedPreparation j then endUnconfirmedPreparation env (Some e) (unansweredRead (Some e)) []
               else if IsLocalStateError (Some e) then State_Monad.return (Some e)
               else if gated_expiry then expire_dispatch env
               else failWith env CodeStagingFailed (Reason (Some e) [])
           | Inr seen \<Rightarrow>
               if observation_refused j seen
               then if unconfirmedPreparation j then endUnconfirmedPreparation env None False []
                    else failWith env CodeRemoteIdentityMismatch []
               else if po_status seen \<noteq> ReconciliationFound
               then if unconfirmedPreparation j
                    then endUnconfirmedPreparation env None (po_status seen = ReconciliationUnknown) (po_cause seen)
                    else if gated_expiry then expire_dispatch env
                    else failWith env CodeStagingNotReady []
               else (case po_prepared seen of
                       None \<Rightarrow> State_Monad.return (Some runtime_panic)
                     | Some x \<Rightarrow> prepared_seen env x) })"

definition secret_key_of :: "admitted \<Rightarrow> secret_key" where
  "secret_key_of r = \<lparr>key_workspace = job_workspace (adm_job r), key_job = job_id (adm_job r),
     key_attempt = attempt_id (adm_attempt r)\<rparr>"

definition secrets_available :: "('w, 'p) engine_env \<Rightarrow> secret_key \<Rightarrow> opaque_id \<Rightarrow> ('w, bool) pass" where
  "secrets_available env key auth =
     do { now \<leftarrow> call (env_clock env);
          p \<leftarrow> call (env_secrets env);
          case Available p key auth now of
            (ok, q) \<Rightarrow> do { call (\<lambda>w. ((), env_set_secrets env q w)); State_Monad.return ok } }"

text \<open>The intent is committed while the pool is locked, between its check and the removal of the material.\<close>

definition claim_and_commit ::
  "('w, 'p) engine_env \<Rightarrow> secret_key \<Rightarrow> opaque_id \<Rightarrow> ('w, go_error + held) pass" where
  "claim_and_commit env key auth =
     do { now \<leftarrow> call (env_clock env);
          p \<leftarrow> call (env_secrets env);
          r \<leftarrow> State (\<lambda>s. case Claim p key auth now
                  (run_state (commit env ((action_of BeginSubmission)\<lparr>act_secrets_available := True\<rparr>))) s of
                (r, q, s') \<Rightarrow> ((r, q), s'));
          call (\<lambda>w. ((), env_set_secrets env (snd r) w));
          State_Monad.return (fst r) }"

definition begin_submission ::
  "('w, 'p) engine_env \<Rightarrow> work \<Rightarrow> ('w, go_error + held option) pass" where
  "begin_submission env w =
     (case map_option gate_start (w_gate w) of
        Some (Some a) \<Rightarrow>
          (case start_secrets a of
             Some sec \<Rightarrow> do {
               r \<leftarrow> claim_and_commit env (secret_key_of (w_job w)) (secret_authorization_id sec);
               State_Monad.return (map_sum id Some r) }
           | None \<Rightarrow> do {
               err \<leftarrow> commit env (action_of BeginSubmission);
               State_Monad.return (case err of Some e \<Rightarrow> Inl e | None \<Rightarrow> Inr None) })
      | _ \<Rightarrow> do {
          err \<leftarrow> commit env (action_of BeginSubmission);
          State_Monad.return (case err of Some e \<Rightarrow> Inl e | None \<Rightarrow> Inr None) })"

definition unknown_outcome :: submission_outcome where
  "unknown_outcome = \<lparr>outcome_status = SubmissionUnknown, outcome_remote = None,
     outcome_problem = (case dispatch_problem CodeProviderSubmissionUnknown True of Inr p \<Rightarrow> p | Inl _ \<Rightarrow> None)\<rparr>"

definition process_starting ::
  "('w, 'p) engine_env \<Rightarrow> 'p \<Rightarrow> int \<Rightarrow> held option \<Rightarrow> ('w, go_error option) pass" where
  "process_starting env p limit material =
     do { w \<leftarrow> current_work env;
          case j_prepared (w_journal w) of
            None \<Rightarrow> State_Monad.return (Some runtime_panic)
          | Some prep \<Rightarrow> do {
              r \<leftarrow> control env limit ''submit'' (start_call env p prep material);
              let outcome = (case r of
                  Inl _ \<Rightarrow> unknown_outcome
                | Inr x \<Rightarrow> if submission_outcome_validate (prep_identity prep) x \<noteq> None then unknown_outcome else x);
              commit env ((action_of SubmissionSeen)\<lparr>act_submission := Some outcome\<rparr>) } }"

text \<open>
  Before a gated start, what keeps the pass from starting: nothing authorised yet, no material here, or a
  preparation that is no longer the authorised one.
\<close>

definition revalidate ::
  "('w, 'p) engine_env \<Rightarrow> 'p \<Rightarrow> work \<Rightarrow> gate \<Rightarrow> int \<Rightarrow> ('w, go_error option option) pass" where
  "revalidate env p w g limit =
     (case gate_start g of
        None \<Rightarrow> State_Monad.return (Some None)
      | Some a \<Rightarrow> do {
          ok \<leftarrow> (case start_secrets a of
                None \<Rightarrow> State_Monad.return True
              | Some sec \<Rightarrow> secrets_available env (secret_key_of (w_job w)) (secret_authorization_id sec));
          if \<not> ok then State_Monad.return (Some None)
          else do {
            r \<leftarrow> control env limit ''revalidate_preparation'' (reconcile_prepare_call env p (w_journal w));
            case r of
              Inl e \<Rightarrow> do {
                err \<leftarrow> providerFailure env (Some e) (errorCode (Some e) CodeStagingNotReady);
                State_Monad.return (Some err) }
            | Inr seen \<Rightarrow>
                if observation_refused (w_journal w) seen \<or> po_status seen \<noteq> ReconciliationFound
                   \<or> (case po_prepared seen of None \<Rightarrow> True | Some x \<Rightarrow> ReadinessRevision x \<noteq> gate_ready_revision g)
                then do { err \<leftarrow> failWith env CodeRemoteIdentityMismatch []; State_Monad.return (Some err) }
                else State_Monad.return None } })"

definition process_ready :: "('w, 'p) engine_env \<Rightarrow> 'p \<Rightarrow> work \<Rightarrow> int \<Rightarrow> ('w, go_error option) pass" where
  "process_ready env p w limit =
     do { ended \<leftarrow> (case w_gate w of None \<Rightarrow> State_Monad.return None | Some g \<Rightarrow> revalidate env p w g limit);
          case ended of
            Some err \<Rightarrow> State_Monad.return err
          | None \<Rightarrow> do {
              err \<leftarrow> guardNewWork env;
              if err \<noteq> None then State_Monad.return err
              else do {
                r \<leftarrow> begin_submission env w;
                case r of
                  Inl e \<Rightarrow>
                    if newWorkRefusalReason (Some e) \<noteq> [] then refuseNewWork env (Some e)
                    else if errors_is ''workloadsecret.ErrUnavailable'' (Some e) then State_Monad.return None
                    else if errors_is ''admission.ErrExpired'' (Some e) then expire_dispatch env
                    else State_Monad.return (Some e)
                | Inr material \<Rightarrow> do {
                    err \<leftarrow> process_starting env p limit material;
                    clear_material env material;
                    State_Monad.return err } } } }"

definition process_submitting :: "('w, 'p) engine_env \<Rightarrow> 'p \<Rightarrow> work \<Rightarrow> ('w, go_error option) pass" where
  "process_submitting env p w =
     (case j_plan (w_journal w) of
        None \<Rightarrow> State_Monad.return (Some runtime_panic)
      | Some pl \<Rightarrow> do {
          let ident = rj_identity (plan_job pl);
          r \<leftarrow> control env (cfg_control_timeout (env_config env)) ''reconcile_submission'' (call (env_reconcile env p ident));
          case r of
            Inl e \<Rightarrow> providerFailure env (Some e) CodeProviderSubmissionUnknown
          | Inr seen \<Rightarrow>
              if reconciliation_validate ident seen \<noteq> None then failWith env CodeRemoteIdentityMismatch []
              else if rec_status seen = ReconciliationAbsent
              then if j_owner_present (w_journal w)
                   then failWith env CodeProviderSubmissionUnknown ''owner_present_lookup_unavailable''
                   else commit env ((action_of SubmissionAbsenceSeen)\<lparr>act_resource_name := rec_resource_name seen\<rparr>)
              else if rec_status seen \<noteq> ReconciliationFound then failWith env CodeProviderSubmissionUnknown []
              else commit env ((action_of SubmissionSeen)\<lparr>act_submission := Some
                \<lparr>outcome_status = SubmissionAccepted, outcome_remote = rec_remote seen, outcome_problem = None\<rparr>\<rparr>) })"

definition process_submitted :: "('w, 'p) engine_env \<Rightarrow> 'p \<Rightarrow> work \<Rightarrow> ('w, go_error option) pass" where
  "process_submitted env p w =
     (case j_remote (w_journal w) of
        None \<Rightarrow> State_Monad.return (Some runtime_panic)
      | Some remote \<Rightarrow> do {
          r \<leftarrow> control env (cfg_control_timeout (env_config env)) ''observe'' (call (env_observe env p remote));
          case r of
            Inl e \<Rightarrow>
              (case errors_as as_absence (Some e) of
                 Some absence \<Rightarrow> commit env ((action_of RemoteAbsenceSeen)\<lparr>act_absence := Some absence\<rparr>)
               | None \<Rightarrow> providerFailure env (Some e) (errorCode (Some e) CodeProviderUnreachable))
          | Inr x \<Rightarrow>
              if observation_validate remote x \<noteq> None then failWith env CodeRemoteIdentityMismatch []
              else do {
                err \<leftarrow> commit env ((action_of ObservationSeen)\<lparr>act_observation := Some x\<rparr>);
                State_Monad.return (if errors_is ''dispatch.ErrStaleObservation'' err then None else err) } })"


section \<open>A pass\<close>

definition process_phase ::
  "('w, 'p) engine_env \<Rightarrow> 'p \<Rightarrow> work \<Rightarrow> bool \<Rightarrow> int \<Rightarrow> ('w, go_error option) pass" where
  "process_phase env p w expired limit =
     (case j_phase (w_journal w) of
        Local \<Rightarrow> process_local env p limit
      | Staging \<Rightarrow> process_staging env p w expired limit
      | Ready \<Rightarrow> process_ready env p w limit
      | Submitting \<Rightarrow> process_submitting env p w
      | Submitted \<Rightarrow> process_submitted env p w
      | _ \<Rightarrow> State_Monad.return (Some ErrConflict))"

definition process_verified ::
  "('w, 'p) engine_env \<Rightarrow> 'p \<Rightarrow> binding_snapshot \<Rightarrow> work \<Rightarrow> bool \<Rightarrow> int \<Rightarrow> ('w, go_error option) pass" where
  "process_verified env p binding w expired limit =
     do { r \<leftarrow> control env (cfg_control_timeout (env_config env)) ''verify'' (call (env_verify env p binding));
          case r of
            Inl e \<Rightarrow>
              if unconfirmedPreparation (w_journal w)
              then endUnconfirmedPreparation env (Some e) (unansweredRead (Some e)) []
              else providerFailure env (Some e)
                (if errors_is ''context.DeadlineExceeded'' (Some e) then CodeProviderUnreachable
                 else errorCode (Some e) CodeProviderStateUnknown)
          | Inr _ \<Rightarrow> do {
              d \<leftarrow> call (env_describe env p);
              if desc_instance d \<noteq> binding_instance (bs_binding binding)
              then if unconfirmedPreparation (w_journal w) then endUnconfirmedPreparation env None False []
                   else failWith env CodeRemoteIdentityMismatch []
              else do {
                handled \<leftarrow> cancelOnce env p;
                case handled of
                  Some err \<Rightarrow> State_Monad.return err
                | None \<Rightarrow> process_phase env p w expired limit } } }"

definition preparation_limit :: "('w, 'p) engine_env \<Rightarrow> work \<Rightarrow> int" where
  "preparation_limit env w =
     (case w_gate w of
        None \<Rightarrow> cfg_preparation_timeout (env_config env)
      | Some g \<Rightarrow> min (cfg_preparation_timeout (env_config env)) (preq_max_seconds (gate_request g) * second_ns))"

definition work_expired :: "('w, 'p) engine_env \<Rightarrow> work \<Rightarrow> ('w, bool) pass" where
  "work_expired env w =
     do { now \<leftarrow> call (env_clock env);
          if spec_expired (req_spec (adm_request (w_job w))) now then State_Monad.return True
          else case w_gate w of
            None \<Rightarrow> State_Monad.return False
          | Some g \<Rightarrow> do { now \<leftarrow> call (env_clock env); State_Monad.return (gate_expired g now) } }"

definition process_body :: "('w, 'p) engine_env \<Rightarrow> work \<Rightarrow> ('w, go_error option) pass" where
  "process_body env w =
     do { expired \<leftarrow> work_expired env w;
          let j = w_journal w;
          if \<not> j_submit_started j \<and> expired
             \<and> cancellation (attempt_state (adm_attempt (w_job w))) = CancellationNotRequested
             \<and> \<not> (w_gate w \<noteq> None \<and> j_phase j = Staging \<and> j_prepared j = None)
          then expire_dispatch env
          else do {
            let limit = preparation_limit env w;
            session_modify (\<lambda>s. s\<lparr>s_observation_limit := max PreparationObservationGrace limit\<rparr>);
            let prof = adm_profile (w_job w);
            let binding = \<lparr>bs_binding = prof_binding prof, bs_account = prof_account prof, bs_credential = prof_credential prof\<rparr>;
            r \<leftarrow> call (env_resolve env binding);
            case r of
              Inl e \<Rightarrow>
                if unconfirmedPreparation j then endUnconfirmedPreparation env (Some e) False []
                else providerFailure env (Some e) CodeConfigurationInvalid
            | Inr p \<Rightarrow> process_verified env p binding w expired limit } }"

text \<open>The delay until the next pass, with the jitter of the claim's fence; a first observation of an
  unconfirmed preparation bounds it.\<close>

definition observation_bounded :: "journal \<Rightarrow> bool" where
  "observation_bounded j \<longleftrightarrow> unconfirmedPreparation j \<and> j_preparation_started j \<noteq> None"

definition pass_delay :: "int \<Rightarrow> go_error option \<Rightarrow> work \<Rightarrow> gotime \<Rightarrow> int" where
  "pass_delay poll err w now =
     (let j = w_journal w; fence = claim_fence (h_claim (w_handle w));
          delay = nextPassDelay poll j;
          delay = (if errors_is ''dispatch.ErrPolicy'' err then 5 * minute_ns else delay);
          delay = (if newWorkRefusalReason err \<noteq> [] then 30 * second_ns else delay);
          delay = (case fence of [] \<Rightarrow> delay | c # _ \<Rightarrow> delay + int (byte c mod 4) * delay div 10)
      in if observation_bounded j then
           let until = sub_time (add_time (the (j_preparation_started j)) PreparationObservationGrace) now
           in if until > 0 then min delay until else delay
         else delay)"

definition finish_pass :: "('w, 'p) engine_env \<Rightarrow> go_error option \<Rightarrow> ('w, go_error option) pass" where
  "finish_pass env err =
     do { lock env;
          s \<leftarrow> State_Monad.get;
          let err = errors_join [HeartbeatError err (s_lost s), s_progress_error s];
          now \<leftarrow> (if observation_bounded (w_journal (s_work s)) then call (env_clock env)
            else State_Monad.return zero_time);
          let delay = pass_delay (cfg_poll_delay (env_config env)) err (s_work s) now;
          record_mutation (Yielded delay);
          yielded \<leftarrow> call (env_yield env (w_handle (s_work s)) delay);
          State_Monad.return (errors_join [err, yielded]) }"

definition open_session :: "work \<Rightarrow> 'w session \<Rightarrow> 'w session" where
  "open_session w s = s\<lparr>s_work := w, s_sampled := zero_time, s_progress_error := None, s_draining := False,
     s_observation_limit := 0, s_cancelled := False, s_beating := True, s_lost := None\<rparr>"

definition process :: "('w, 'p) engine_env \<Rightarrow> claim \<Rightarrow> ('w, go_error option) pass" where
  "process env c =
     do { r \<leftarrow> call (env_load env c);
          case r of
            Inl e \<Rightarrow> State_Monad.return (Some e)
          | Inr w \<Rightarrow> do {
              session_modify (open_session w);
              err \<leftarrow> process_body env w;
              finish_pass env err } }"

text \<open>The slots of the engine bound how many passes run at once; waiting for one ends with the context.\<close>

definition RunOnce :: "('w, 'p) engine_env \<Rightarrow> string \<Rightarrow> ('w, bool \<times> go_error option) pass" where
  "RunOnce env owner =
     do { err \<leftarrow> call (env_slot env);
          if err \<noteq> None then State_Monad.return (False, err)
          else do {
            r \<leftarrow> call (env_claim_recovery env owner);
            r \<leftarrow> (if r = Inr None then call (env_claim_next env owner) else State_Monad.return r);
            case r of
              Inl e \<Rightarrow> State_Monad.return (False, Some e)
            | Inr None \<Rightarrow> State_Monad.return (False, None)
            | Inr (Some c) \<Rightarrow> do { err \<leftarrow> process env c; State_Monad.return (True, err) } } }"

text \<open>Passes one after the other, each with an environment of its own.\<close>

fun run_passes :: "(('w, 'p) engine_env \<times> string) list \<Rightarrow> ('w, unit) pass" where
  "run_passes [] = State_Monad.return ()"
| "run_passes ((env, owner) # ps) = do { RunOnce env owner; run_passes ps }"

end
