(* ===== verification/Store_Base.thy ===== *)
theory Store_Base
  imports Dispatch_Engine
begin

text \<open>
  The ground of the SQLite store, \<open>src/internal/store/sqlite\<close>: transactions with rollback (\<open>store.go\<close>), the
  transaction clock (\<open>clock.go\<close>) and the leases of workers (\<open>work_lease.go\<close> with the constraints and triggers of
  \<open>migrations/0026_work_leases.sql\<close>).

  The body of a transaction maps a state to an error, or to a result and the next state.  A statement that fails
  inside SQLite ends the transaction like an error of the body, so it is one of the fates of the whole
  transaction.  A column that holds an encoded value is modelled by the value.
\<close>

section \<open>Transactions\<close>

type_synonym ('s, 'a) tx = "'s \<Rightarrow> go_error + 'a \<times> 's"

definition passE :: "'a \<Rightarrow> ('s, 'a) tx" where
  "passE x = (\<lambda>s. Inr (x, s))"

definition failE :: "go_error \<Rightarrow> ('s, 'a) tx" where
  "failE e = (\<lambda>s. Inl e)"

definition bindE :: "('s, 'a) tx \<Rightarrow> ('a \<Rightarrow> ('s, 'b) tx) \<Rightarrow> ('s, 'b) tx" where
  "bindE m f = (\<lambda>s. case m s of Inl e \<Rightarrow> Inl e | Inr (x, s') \<Rightarrow> f x s')"

definition readE :: "('s \<Rightarrow> 'a) \<Rightarrow> ('s, 'a) tx" where
  "readE f = (\<lambda>s. Inr (f s, s))"

definition writeE :: "('s \<Rightarrow> 's) \<Rightarrow> ('s, unit) tx" where
  "writeE f = (\<lambda>s. Inr ((), f s))"

definition liftE :: "go_error + 'a \<Rightarrow> ('s, 'a) tx" where
  "liftE r = (case r of Inl e \<Rightarrow> failE e | Inr x \<Rightarrow> passE x)"

definition checkE :: "go_error option \<Rightarrow> ('s, unit) tx" where
  "checkE err = (case err of Some e \<Rightarrow> failE e | None \<Rightarrow> passE ())"

definition refuseE :: "bool \<Rightarrow> go_error \<Rightarrow> ('s, unit) tx" where
  "refuseE b e = (if b then failE e else passE ())"

text \<open>What becomes of a transaction: it may end with an error of the database and leave no trace, and a commit
  that is applied may be reported as an error.\<close>

datatype fate = Applied | Aborted go_error | Unacknowledged go_error

definition withTx :: "fate \<Rightarrow> ('s, 'a) tx \<Rightarrow> 's \<Rightarrow> (go_error + 'a) \<times> 's" where
  "withTx fate fn s =
     (case fate of
        Aborted e \<Rightarrow> (Inl e, s)
      | Applied \<Rightarrow> (case fn s of Inl e \<Rightarrow> (Inl e, s) | Inr (x, s') \<Rightarrow> (Inr x, s'))
      | Unacknowledged e' \<Rightarrow> (case fn s of Inl e \<Rightarrow> (Inl e, s) | Inr (x, s') \<Rightarrow> (Inl e', s')))"

lemma bindE_Inr [simp]: "bindE m f s = Inr y \<longleftrightarrow> (\<exists>x s'. m s = Inr (x, s') \<and> f x s' = Inr y)"
  by (auto simp: bindE_def split: sum.splits)

lemma readE_Inr [simp]: "readE f s = Inr (x, s') \<longleftrightarrow> x = f s \<and> s' = s"
  by (auto simp: readE_def)

lemma writeE_Inr [simp]: "writeE f s = Inr (u, s') \<longleftrightarrow> s' = f s"
  by (auto simp: writeE_def)

lemma passE_Inr [simp]: "passE x s = Inr (y, s') \<longleftrightarrow> y = x \<and> s' = s"
  by (auto simp: passE_def)

lemma failE_Inr [simp]: "failE e s \<noteq> Inr y"
  by (simp add: failE_def)

lemma liftE_Inr [simp]: "liftE r s = Inr (x, s') \<longleftrightarrow> r = Inr x \<and> s' = s"
  by (auto simp: liftE_def failE_def split: sum.splits)

lemma checkE_Inr [simp]: "checkE err s = Inr (u, s') \<longleftrightarrow> err = None \<and> s' = s"
  by (auto simp: checkE_def failE_def split: option.splits)

lemma refuseE_Inr [simp]: "refuseE b e s = Inr (u, s') \<longleftrightarrow> \<not> b \<and> s' = s"
  by (auto simp: refuseE_def failE_def)

text \<open>What every step of a transaction keeps, the transaction keeps.\<close>

definition moves :: "('s \<Rightarrow> 's \<Rightarrow> bool) \<Rightarrow> ('s, 'a) tx \<Rightarrow> bool" where
  "moves R m \<longleftrightarrow> (\<forall>s x s'. m s = Inr (x, s') \<longrightarrow> R s s')"

locale tx_frame =
  fixes R :: "'s \<Rightarrow> 's \<Rightarrow> bool"
  assumes R_refl: "R s s" and R_trans: "R s t \<Longrightarrow> R t u \<Longrightarrow> R s u"
begin

lemma moves_pass: "moves R (passE x)" by (simp add: moves_def R_refl)
lemma moves_fail: "moves R (failE e)" by (simp add: moves_def)
lemma moves_read: "moves R (readE f)" by (simp add: moves_def R_refl)
lemma moves_lift: "moves R (liftE r)" by (simp add: moves_def R_refl)
lemma moves_check: "moves R (checkE e)" by (simp add: moves_def R_refl)
lemma moves_refuse: "moves R (refuseE b e)" by (simp add: moves_def R_refl)

lemma moves_bind: "moves R m \<Longrightarrow> (\<And>x. moves R (f x)) \<Longrightarrow> moves R (bindE m f)"
  by (auto simp: moves_def) (blast intro: R_trans)

lemma moves_if: "moves R m \<Longrightarrow> moves R n \<Longrightarrow> moves R (if b then m else n)"
  by simp

lemma moves_option: "moves R m \<Longrightarrow> (\<And>x. moves R (f x)) \<Longrightarrow> moves R (case v of None \<Rightarrow> m | Some x \<Rightarrow> f x)"
  by (cases v) auto

lemma moves_prod: "(\<And>x y. moves R (f x y)) \<Longrightarrow> moves R (case v of (x, y) \<Rightarrow> f x y)"
  by (cases v) auto

lemma moves_sum:
  "(\<And>x. moves R (f x)) \<Longrightarrow> (\<And>y. moves R (g y)) \<Longrightarrow> moves R (case v of Inl x \<Rightarrow> f x | Inr y \<Rightarrow> g y)"
  by (cases v) auto

lemma moves_Let: "(\<And>x. moves R (f x)) \<Longrightarrow> moves R (Let v f)"
  by (simp add: Let_def)

lemmas moves_rules = moves_pass moves_fail moves_read moves_lift moves_check moves_refuse moves_bind moves_if
  moves_option moves_prod moves_sum moves_Let

lemma withTx_moves: "moves R m \<Longrightarrow> R s (snd (withTx fate m s))"
  by (auto simp: withTx_def moves_def R_refl split: fate.splits sum.splits)

end


section \<open>The transaction clock\<close>

definition StoreConflict :: go_error where "StoreConflict = Sentinel ''sqlite.ErrConflict''"
definition StoreInvalid :: go_error where "StoreInvalid = Sentinel ''sqlite.ErrInvalid''"
definition StoreCorrupt :: go_error where "StoreCorrupt = Sentinel ''sqlite.ErrCorrupt''"
definition SchedulerErrInvalid :: go_error where "SchedulerErrInvalid = Sentinel ''scheduler.ErrInvalid''"

text \<open>\<open>Time.UnixMilli\<close> and \<open>time.UnixMilli\<close>\<close>

definition unix_milli :: "gotime \<Rightarrow> int" where
  "unix_milli t = unix_ns t div 1000000"

definition from_milli :: "int \<Rightarrow> gotime" where
  "from_milli ms = \<lparr>unix_ns = ms * 1000000, zone_min = 0\<rparr>"

text \<open>The time of a transaction and the floor it leaves behind.\<close>

definition transaction_clock :: "int \<Rightarrow> gotime \<Rightarrow> go_error + gotime \<times> int" where
  "transaction_clock least wall =
     (let now = utc wall in
      if \<not> ValidTime now then Inl SchedulerErrInvalid
      else if least < 0 then Inl StoreCorrupt
      else
        let bound = from_milli least;
            now = (if before now bound then bound else now);
            next_least = (if unix_ns now mod 1000000 \<noteq> 0 then unix_milli now + 1 else unix_milli now)
        in if \<not> ValidTime (from_milli next_least) then Inl SchedulerErrInvalid else Inr (now, next_least))"

lemma ceil_milli:
  "n \<le> (if n mod 1000000 \<noteq> 0 then n div 1000000 + 1 else n div 1000000) * 1000000" for n :: int
proof -
  have "n = n div 1000000 * 1000000 + n mod 1000000" "n mod 1000000 < 1000000" by simp_all
  then show ?thesis by (auto simp: algebra_simps)
qed

lemma transaction_clock_bounds:
  assumes "transaction_clock least wall = Inr (now, next_least)"
  shows "least * 1000000 \<le> unix_ns now" "unix_ns now \<le> next_least * 1000000"
  using assms ceil_milli [of "unix_ns now"]
  by (auto simp: transaction_clock_def Let_def unix_milli_def from_milli_def before_def split: if_splits)

lemma transaction_clock_floor: "transaction_clock least wall = Inr (now, next_least) \<Longrightarrow> least \<le> next_least"
  using transaction_clock_bounds [of least wall now next_least] by simp


section \<open>Leases\<close>

datatype work_kind = DispatchWork | CollectionWork | CleanupWork

record work_lease =
  wl_kind :: work_kind
  wl_key :: string
  wl_owner :: string
  wl_fence :: string
  wl_generation :: int
  wl_until :: gotime
  wl_operation :: "string option"
  wl_revision :: "int option"

definition workKey :: "json list \<Rightarrow> string" where
  "workKey parts = json_marshal (JArray parts)"

definition lease_lost :: "work_kind \<Rightarrow> go_error" where
  "lease_lost k = Sentinel (case k of
     CollectionWork \<Rightarrow> ''collection.ErrLeaseLost''
   | CleanupWork \<Rightarrow> ''cleanup.ErrLeaseLost''
   | DispatchWork \<Rightarrow> ''scheduler.ErrLeaseLost'')"

text \<open>The rows of the table, by kind and key.\<close>

record lease_row =
  lr_generation :: int
  lr_owner :: string
  lr_fence :: string
  lr_until :: int
  lr_held :: bool
  lr_operation :: "string option"
  lr_revision :: "int option"

type_synonym lease_table = "work_kind \<times> string \<rightharpoonup> lease_row"

definition loadWorkLease :: "lease_table \<Rightarrow> work_kind \<Rightarrow> string \<Rightarrow> (work_lease \<times> bool) option" where
  "loadWorkLease t k key =
     map_option (\<lambda>r. (\<lparr>wl_kind = k, wl_key = key, wl_owner = lr_owner r, wl_fence = lr_fence r,
       wl_generation = lr_generation r, wl_until = from_milli (lr_until r), wl_operation = lr_operation r,
       wl_revision = lr_revision r\<rparr>, lr_held r)) (t (k, key))"

text \<open>The checks of the table on a row, with the lengths SQLite counts.\<close>

definition lease_row_ok :: "work_kind \<Rightarrow> lease_row \<Rightarrow> bool" where
  "lease_row_ok k r \<longleftrightarrow>
     lr_generation r > 0 \<and> lr_until r \<ge> 0
     \<and> (if k = CollectionWork then lr_operation r \<noteq> None \<and> (case lr_revision r of Some n \<Rightarrow> n > 0 | None \<Rightarrow> False)
        else lr_operation r = None \<and> lr_revision r = None)
     \<and> (case k of
          DispatchWork \<Rightarrow>
            \<not> lr_held r \<and> lr_owner r = [] \<and> lr_fence r = [] \<and> lr_until r = 0
            \<or> 1 \<le> length (lr_owner r) \<and> length (lr_owner r) \<le> 128 \<and> length (lr_fence r) = 64 \<and> lr_until r > 0
        | CollectionWork \<Rightarrow> lr_owner r = [] \<and> length (lr_fence r) \<ge> 32
        | CleanupWork \<Rightarrow> lr_owner r = [] \<and> length (lr_fence r) = 64 \<and> lr_until r > 0)"

text \<open>The trigger of the table on an update.\<close>

definition lease_update_ok :: "lease_row \<Rightarrow> lease_row \<Rightarrow> bool" where
  "lease_update_ok old new \<longleftrightarrow>
     \<not> (lr_generation new < lr_generation old \<or> lr_generation new > lr_generation old + 1
        \<or> lr_generation new = lr_generation old
            \<and> (lr_owner new \<noteq> lr_owner old \<or> lr_fence new \<noteq> lr_fence old \<or> lr_operation new \<noteq> lr_operation old
               \<or> lr_revision new \<noteq> lr_revision old \<or> \<not> lr_held old \<or> lr_until new < lr_until old
               \<or> \<not> lr_held new \<and> lr_until new \<noteq> lr_until old)
        \<or> lr_generation new = lr_generation old + 1 \<and> (lr_fence new = lr_fence old \<or> \<not> lr_held new))"

text \<open>
  A write of a row.  \<open>backed\<close> stands for the rows of other tables that the foreign keys and the owner triggers ask
  for.  A statement the schema refuses fails with the conflict of the store.
\<close>

definition put_lease :: "bool \<Rightarrow> work_kind \<Rightarrow> string \<Rightarrow> lease_row \<Rightarrow> (lease_table, unit) tx" where
  "put_lease backed k key r t =
     (if \<not> backed \<or> \<not> lease_row_ok k r
         \<or> (case t (k, key) of None \<Rightarrow> lr_generation r \<noteq> 1 | Some old \<Rightarrow> \<not> lease_update_ok old r)
      then Inl StoreConflict
      else Inr ((), t((k, key) \<mapsto> r)))"

definition held_lease :: "(work_lease \<times> bool) option \<Rightarrow> (work_lease \<Rightarrow> bool) \<Rightarrow> bool" where
  "held_lease found p = (case found of Some (l, held) \<Rightarrow> held \<and> p l | None \<Rightarrow> False)"

definition claimWorkLease ::
  "bool \<Rightarrow> string \<Rightarrow> work_lease \<Rightarrow> gotime \<Rightarrow> int \<Rightarrow> (lease_table, work_lease) tx" where
  "claimWorkLease backed fence want now ttl =
     bindE (readE (\<lambda>t. loadWorkLease t (wl_kind want) (wl_key want))) (\<lambda>old.
     bindE (refuseE (held_lease old (\<lambda>l. after (wl_until l) now)) (lease_lost (wl_kind want))) (\<lambda>_.
     let generation = (case old of None \<Rightarrow> 0 | Some (l, _) \<Rightarrow> wl_generation l) in
     bindE (refuseE (generation = MaxInt64) StoreConflict) (\<lambda>_.
     let until = from_milli (unix_milli (add_time now ttl));
         new = want\<lparr>wl_generation := generation + 1, wl_fence := fence, wl_until := until\<rparr> in
     bindE (refuseE (\<not> ValidTime until \<or> \<not> after until now) StoreInvalid) (\<lambda>_.
     bindE (refuseE (held_lease old (\<lambda>l. unix_milli (wl_until l) > unix_milli now)) (lease_lost (wl_kind want))) (\<lambda>_.
     bindE (put_lease backed (wl_kind want) (wl_key want)
       \<lparr>lr_generation = generation + 1, lr_owner = wl_owner want, lr_fence = fence, lr_until = unix_milli until,
        lr_held = True, lr_operation = wl_operation want, lr_revision = wl_revision want\<rparr>) (\<lambda>_.
     passE new))))))"

definition checkWorkLease :: "work_lease \<Rightarrow> gotime \<Rightarrow> (lease_table, work_lease) tx" where
  "checkWorkLease want now =
     bindE (readE (\<lambda>t. loadWorkLease t (wl_kind want) (wl_key want))) (\<lambda>found.
     case found of
       None \<Rightarrow> failE (lease_lost (wl_kind want))
     | Some (current, held) \<Rightarrow>
         bindE (refuseE (\<not> held \<or> \<not> after (wl_until current) now \<or> wl_generation current \<noteq> wl_generation want
             \<or> wl_fence current \<noteq> wl_fence want \<or> wl_owner current \<noteq> wl_owner want
             \<or> wl_operation current \<noteq> wl_operation want \<or> wl_revision current \<noteq> wl_revision want)
           (lease_lost (wl_kind want))) (\<lambda>_.
         passE current))"

text \<open>The update of a held row that a lease names; it changes one row or the lease is lost.\<close>

definition update_held :: "bool \<Rightarrow> work_lease \<Rightarrow> gotime \<Rightarrow> (lease_row \<Rightarrow> lease_row) \<Rightarrow> (lease_table, unit) tx" where
  "update_held backed want now f =
     bindE (readE (\<lambda>t. t (wl_kind want, wl_key want))) (\<lambda>found.
     case found of
       None \<Rightarrow> failE (lease_lost (wl_kind want))
     | Some r \<Rightarrow>
         bindE (refuseE (lr_generation r \<noteq> wl_generation want \<or> lr_fence r \<noteq> wl_fence want \<or> \<not> lr_held r
             \<or> lr_until r \<le> unix_milli now) (lease_lost (wl_kind want))) (\<lambda>_.
         put_lease backed (wl_kind want) (wl_key want) (f r)))"

definition renewWorkLease :: "bool \<Rightarrow> work_lease \<Rightarrow> gotime \<Rightarrow> int \<Rightarrow> (lease_table, gotime) tx" where
  "renewWorkLease backed want now ttl =
     bindE (checkWorkLease want now) (\<lambda>current.
     let until = from_milli (unix_milli (add_time now ttl)) in
     bindE (refuseE (\<not> ValidTime until) StoreInvalid) (\<lambda>_.
     let until = (if before until (wl_until current) then wl_until current else until) in
     bindE (update_held backed want now (\<lambda>r. r\<lparr>lr_until := unix_milli until\<rparr>)) (\<lambda>_.
     passE until)))"

definition releaseWorkLease :: "bool \<Rightarrow> work_lease \<Rightarrow> gotime \<Rightarrow> (lease_table, unit) tx" where
  "releaseWorkLease backed want now =
     bindE (checkWorkLease want now) (\<lambda>_. update_held backed want now (\<lambda>r. r\<lparr>lr_held := False\<rparr>))"

definition dispatchLease :: "claim \<Rightarrow> work_lease" where
  "dispatchLease c =
     \<lparr>wl_kind = DispatchWork, wl_key = workKey [JInt (claim_sequence c)], wl_owner = claim_owner c,
      wl_fence = claim_fence c, wl_generation = claim_generation c, wl_until = claim_expires_at c,
      wl_operation = None, wl_revision = None\<rparr>"


section \<open>What leases promise\<close>

text \<open>Rows are never forgotten, their generation never falls, and within a generation a lease can only be let go.\<close>

definition lease_grows :: "lease_table \<Rightarrow> lease_table \<Rightarrow> bool" where
  "lease_grows t t' \<longleftrightarrow>
     (\<forall>k r. t k = Some r \<longrightarrow> (\<exists>r'. t' k = Some r' \<and> lr_generation r \<le> lr_generation r'
        \<and> (lr_generation r' = lr_generation r \<longrightarrow> lr_fence r' = lr_fence r \<and> (lr_held r' \<longrightarrow> lr_held r))))"

lemma lease_grows_refl: "lease_grows t t"
  by (simp add: lease_grows_def)

lemma lease_grows_trans:
  assumes "lease_grows t u" "lease_grows u v"
  shows "lease_grows t v"
  unfolding lease_grows_def
proof (intro allI impI)
  fix k r assume "t k = Some r"
  then obtain r1 where 1: "u k = Some r1" "lr_generation r \<le> lr_generation r1"
    "lr_generation r1 = lr_generation r \<Longrightarrow> lr_fence r1 = lr_fence r \<and> (lr_held r1 \<longrightarrow> lr_held r)"
    using assms(1) unfolding lease_grows_def by blast
  then obtain r2 where 2: "v k = Some r2" "lr_generation r1 \<le> lr_generation r2"
    "lr_generation r2 = lr_generation r1 \<Longrightarrow> lr_fence r2 = lr_fence r1 \<and> (lr_held r2 \<longrightarrow> lr_held r1)"
    using assms(2) unfolding lease_grows_def by blast
  show "\<exists>r'. v k = Some r' \<and> lr_generation r \<le> lr_generation r'
      \<and> (lr_generation r' = lr_generation r \<longrightarrow> lr_fence r' = lr_fence r \<and> (lr_held r' \<longrightarrow> lr_held r))"
  proof (intro exI conjI impI)
    show "v k = Some r2" by fact
    show "lr_generation r \<le> lr_generation r2" using 1 2 by simp
    assume same: "lr_generation r2 = lr_generation r"
    then have "lr_generation r1 = lr_generation r" "lr_generation r2 = lr_generation r1" using 1(2) 2(2) by simp_all
    then show "lr_fence r2 = lr_fence r" "lr_held r2 \<Longrightarrow> lr_held r" using 1(3) 2(3) by simp_all
  qed
qed

interpretation leases: tx_frame lease_grows
  by unfold_locales (rule lease_grows_refl, rule lease_grows_trans)

lemma moves_put_lease: "moves lease_grows (put_lease backed k key r)"
  by (auto simp: moves_def put_lease_def lease_grows_def lease_update_ok_def split: if_splits option.splits)

lemma moves_check_lease: "moves lease_grows (checkWorkLease want now)"
  unfolding checkWorkLease_def by (intro leases.moves_rules)

lemma moves_update_held: "moves lease_grows (update_held backed want now f)"
  unfolding update_held_def by (intro leases.moves_rules moves_put_lease)

lemma moves_leases:
  "moves lease_grows (claimWorkLease backed fence want now ttl)"
  "moves lease_grows (renewWorkLease backed want now ttl)" "moves lease_grows (releaseWorkLease backed want now)"
  unfolding claimWorkLease_def renewWorkLease_def releaseWorkLease_def
  by (intro leases.moves_rules moves_put_lease moves_check_lease moves_update_held)+

text \<open>The operations of all workers on the table, one after the other.\<close>

datatype lease_request =
    ClaimLease bool string work_lease gotime int
  | RenewLeaseOf bool work_lease gotime int
  | ReleaseLease bool work_lease gotime

fun lease_step :: "fate \<times> lease_request \<Rightarrow> lease_table \<Rightarrow> lease_table" where
  "lease_step (fate, ClaimLease b f l now ttl) t = snd (withTx fate (claimWorkLease b f l now ttl) t)"
| "lease_step (fate, RenewLeaseOf b l now ttl) t = snd (withTx fate (renewWorkLease b l now ttl) t)"
| "lease_step (fate, ReleaseLease b l now) t = snd (withTx fate (releaseWorkLease b l now) t)"

lemma lease_step_grows: "lease_grows t (lease_step x t)"
  by (cases "(x, t)" rule: lease_step.cases) (simp_all add: leases.withTx_moves moves_leases)

lemma lease_steps_grow: "lease_grows t (fold lease_step xs t)"
  by (induction xs arbitrary: t) (auto intro: lease_grows_refl lease_grows_trans lease_step_grows)

lemma claim_row:
  assumes "claimWorkLease backed fence want now ttl t = Inr (l, t')"
  shows "t' (wl_kind l, wl_key l) = Some \<lparr>lr_generation = wl_generation l, lr_owner = wl_owner l, lr_fence = wl_fence l,
      lr_until = unix_milli (wl_until l), lr_held = True, lr_operation = wl_operation l, lr_revision = wl_revision l\<rparr>"
    "after (wl_until l) now" "wl_kind l = wl_kind want" "wl_key l = wl_key want" "from_milli (unix_milli (wl_until l)) = wl_until l"
  using assms by (auto simp: claimWorkLease_def put_lease_def Let_def from_milli_def unix_milli_def split: if_splits)

lemma check_after_claim:
  assumes "claimWorkLease backed fence want now ttl t = Inr (l, t')"
  shows "checkWorkLease l now t' = Inr (l, t')"
  using claim_row [OF assms] by (simp add: checkWorkLease_def loadWorkLease_def)

lemma check_superseded:
  assumes "claimWorkLease backed fence want now ttl t = Inr (l, t')"
    and "wl_kind old = wl_kind l" "wl_key old = wl_key l" "wl_generation old < wl_generation l"
  shows "checkWorkLease old later (fold lease_step xs t') = Inl (lease_lost (wl_kind old))"
proof -
  obtain r where r: "fold lease_step xs t' (wl_kind l, wl_key l) = Some r" "wl_generation l \<le> lr_generation r"
    using lease_steps_grow [of t' xs] claim_row(1) [OF assms(1)] unfolding lease_grows_def by fastforce
  then show ?thesis
    using assms(2-4) by (auto simp: checkWorkLease_def bindE_def readE_def loadWorkLease_def refuseE_def failE_def)
qed

end
