(* ===== verification/Control_Operations.thy ===== *)
theory Control_Operations
  imports Dispatch_Engine
begin

text \<open>
  The values of \<open>src/internal/operations/model.go\<close>: requests for controls of an attempt, their canonical form and
  digest, the durable record of an operation, and when compute may be retried.
\<close>

section \<open>Requests\<close>

definition OperationsErrRequest :: go_error where "OperationsErrRequest = Sentinel ''operations.ErrRequest''"
definition OperationsErrNotFound :: go_error where "OperationsErrNotFound = Sentinel ''operations.ErrNotFound''"
definition OperationsErrConflict :: go_error where "OperationsErrConflict = Sentinel ''operations.ErrConflict''"
definition OperationsErrChanged :: go_error where "OperationsErrChanged = Sentinel ''operations.ErrChanged''"
definition OperationsErrUnresolved :: go_error where "OperationsErrUnresolved = Sentinel ''operations.ErrUnresolved''"
definition OperationsErrCollect :: go_error where "OperationsErrCollect = Sentinel ''operations.ErrCollect''"
definition OperationsErrInputs :: go_error where "OperationsErrInputs = Sentinel ''operations.ErrInputs''"
definition OperationsErrState :: go_error where "OperationsErrState = Sentinel ''operations.ErrState''"
definition OperationsErrBusy :: go_error where "OperationsErrBusy = Sentinel ''operations.ErrBusy''"

definition CanonicalVersion :: "operation_kind \<Rightarrow> string" where
  "CanonicalVersion k = (if k = OperationCleanup then ''cleanup/v1'' else ''control/v1'')"

record control_request =
  creq_attempt :: opaque_id
  creq_reason :: string
  creq_discard :: bool
  creq_resolution :: string
  creq_resource :: string

definition Supported :: "operation_kind \<Rightarrow> bool" where
  "Supported k \<longleftrightarrow>
     k = OperationCancel \<or> k = OperationRetryCompute \<or> k = OperationReconcile \<or> k = OperationCollect \<or> k = OperationCleanup"

text \<open>\<open>utf8.ValidString\<close>, and a control rune of valid UTF-8: U+0000 to U+001F and U+007F to U+009F.\<close>

definition utf8_valid :: "string \<Rightarrow> bool" where
  "utf8_valid s \<longleftrightarrow> utf8_coerce s = s"

fun has_control_rune :: "string \<Rightarrow> bool" where
  "has_control_rune [] = False"
| "has_control_rune (c # cs) =
     (byte c < 32 \<or> byte c = 127
      \<or> byte c = 194 \<and> (case cs of [] \<Rightarrow> False | d # _ \<Rightarrow> 128 \<le> byte d \<and> byte d < 160) \<or> has_control_rune cs)"

definition control_request_valid :: "operation_kind \<Rightarrow> control_request \<Rightarrow> bool" where
  "control_request_valid k r \<longleftrightarrow>
     \<not> ((creq_resolution r \<noteq> [] \<or> creq_resource r \<noteq> [])
        \<and> (k \<noteq> OperationReconcile \<or> creq_resolution r \<noteq> ''absent'' \<and> creq_resolution r \<noteq> ''present''
           \<or> \<not> ValidResourceName (creq_resource r)))
     \<and> \<not> (\<not> Supported k \<or> \<not> validOpaqueID (creq_attempt r) \<or> \<not> utf8_valid (creq_reason r) \<or> length (creq_reason r) > 512)
     \<and> \<not> has_control_rune (creq_reason r)
     \<and> \<not> (k \<noteq> OperationCleanup \<and> creq_discard r)
     \<and> \<not> (k = OperationRetryCompute \<and> trim_space (creq_reason r) = [])"

definition CanonicalJSON :: "operation_kind \<Rightarrow> control_request \<Rightarrow> json option" where
  "CanonicalJSON k r =
     (if \<not> control_request_valid k r then None
      else if k = OperationCleanup then
        Some (JObject ([(''attempt_id'', JString (creq_attempt r)), (''discard_uncollected'', JBool (creq_discard r))]
          @ omit_if (creq_reason r = []) ''reason'' (JString (creq_reason r))))
      else
        Some (JObject ([(''attempt_id'', JString (creq_attempt r))]
          @ omit_if (creq_reason r = []) ''reason'' (JString (creq_reason r))
          @ omit_if (\<not> creq_discard r) ''discard_uncollected'' (JBool (creq_discard r))
          @ omit_if (creq_resolution r = []) ''submission_resolution'' (JString (creq_resolution r))
          @ omit_if (creq_resource r = []) ''resource_name'' (JString (creq_resource r)))))"

definition control_request_digest :: "opaque_id \<Rightarrow> operation_kind \<Rightarrow> control_request \<Rightarrow> string option" where
  "control_request_digest job k r =
     (if \<not> validOpaqueID job then None
      else map_option (\<lambda>request. sha256_hex (json_marshal (JObject
        [(''version'', JString (CanonicalVersion k)), (''job_id'', JString job),
         (''kind'', JString (operation_kind_string k)), (''request'', request)]))) (CanonicalJSON k r))"


section \<open>Records\<close>

datatype effect =
    PendingEffect | RemoteDeleted | AlreadyAbsent | DispatchPrevented | CancellationRequestedEffect
  | CancellationConfirmedEffect | TooLate | ObservationRefreshed | SubmissionResolvedAbsent | CollectionRequested
  | ResultsAvailable | NewAttemptCreated | ManualRequired | FailedEffect | EffectOther string

primrec effect_string :: "effect \<Rightarrow> string" where
  "effect_string PendingEffect = ''pending''"
| "effect_string RemoteDeleted = ''remote_deleted''"
| "effect_string AlreadyAbsent = ''already_absent''"
| "effect_string DispatchPrevented = ''dispatch_prevented''"
| "effect_string CancellationRequestedEffect = ''cancellation_requested''"
| "effect_string CancellationConfirmedEffect = ''cancellation_confirmed''"
| "effect_string TooLate = ''too_late''"
| "effect_string ObservationRefreshed = ''observation_refreshed''"
| "effect_string SubmissionResolvedAbsent = ''submission_resolved_absent''"
| "effect_string CollectionRequested = ''collection_requested''"
| "effect_string ResultsAvailable = ''results_available''"
| "effect_string NewAttemptCreated = ''new_attempt_created''"
| "effect_string ManualRequired = ''manual_required''"
| "effect_string FailedEffect = ''failed''"
| "effect_string (EffectOther s) = s"

fun effect_valid :: "effect \<Rightarrow> bool" where
  "effect_valid (EffectOther s) = False"
| "effect_valid e = True"

text \<open>The resources of a cleanup are not part of the encoded record, so they are left out.\<close>

record control_record =
  cr_operation :: operation
  cr_effect :: effect
  cr_new_attempt :: opaque_id
  cr_termination :: bool
  cr_replay :: bool

definition status_effect_ok :: "control_record \<Rightarrow> bool" where
  "status_effect_ok r =
     (let k = operation_kind (cr_operation r); e = cr_effect r in
      case operation_status (cr_operation r) of
        OperationAccepted \<Rightarrow> e = PendingEffect \<or> k = OperationCollect \<and> e = CollectionRequested
      | OperationRunning \<Rightarrow>
          k = OperationCancel \<and> e = CancellationRequestedEffect \<or> k = OperationCleanup \<and> e = PendingEffect
      | OperationFailed \<Rightarrow> e = FailedEffect
      | OperationManualRequired \<Rightarrow> k \<noteq> OperationCleanup \<and> e = ManualRequired
      | OperationSucceeded \<Rightarrow>
          (case k of
             OperationCleanup \<Rightarrow> e = RemoteDeleted \<or> e = AlreadyAbsent
           | OperationCancel \<Rightarrow> e = DispatchPrevented \<or> e = CancellationConfirmedEffect \<or> e = TooLate
           | OperationRetryCompute \<Rightarrow> e = NewAttemptCreated \<and> cr_new_attempt r \<noteq> []
           | OperationReconcile \<Rightarrow> e = ObservationRefreshed \<or> e = SubmissionResolvedAbsent
           | OperationCollect \<Rightarrow> e = ResultsAvailable
           | _ \<Rightarrow> True)
      | _ \<Rightarrow> True)"

definition control_record_valid :: "control_record \<Rightarrow> bool" where
  "control_record_valid r \<longleftrightarrow>
     (let x = cr_operation r in
      \<not> (operation_validate x \<noteq> None \<or> \<not> Supported (operation_kind x) \<or> \<not> effect_valid (cr_effect r)
         \<or> \<not> validOpaqueID (operation_job x) \<or> \<not> validOpaqueID (operation_attempt x))
      \<and> \<not> (cr_new_attempt r \<noteq> []
            \<and> (\<not> validOpaqueID (cr_new_attempt r) \<or> operation_kind x \<noteq> OperationRetryCompute
               \<or> cr_new_attempt r = operation_attempt x \<or> cr_effect r \<noteq> NewAttemptCreated))
      \<and> cr_termination r = (cr_effect r = CancellationConfirmedEffect)
      \<and> status_effect_ok r)"

definition RetryAllowed :: "attempt_state \<Rightarrow> go_error option" where
  "RetryAllowed s =
     first_error
       [fail_if (validate_attempt_state s \<noteq> None) OperationsErrState,
        fail_if (remote_activity s \<noteq> RemoteActivityNotStarted \<and> remote_activity s \<noteq> RemoteActivityInactive)
          OperationsErrUnresolved,
        fail_if (execution s = ExecutionSucceeded) OperationsErrCollect,
        fail_if (\<not> orchestration_terminal (orchestration s)) OperationsErrUnresolved,
        fail_if (execution s \<noteq> ExecutionNotSubmitted \<and> \<not> execution_terminal (execution s)) OperationsErrUnresolved]"

end
