(* ===== verification/Store_Tables.thy ===== *)
theory Store_Tables
  imports Store_Base Control_Operations
begin

text \<open>
  The tables of the SQLite store that carry an attempt from its claim to its end, the readers of jobs, attempts and
  journals (\<open>jobs.go\<close>, \<open>dispatch.go\<close>), the scheduler's control row (\<open>scheduler_policy.go\<close>), events, the transitions of
  attempts (\<open>scheduler.go\<close>, \<open>operations_actions.go\<close>), idempotency receipts (\<open>receipts.go\<close>) and the records of
  operations (\<open>operations_records.go\<close>, \<open>operations_requests.go\<close>).

  The tables of hosts, images, storage and retention are the abstract rest of the database; what the modelled code
  asks of them is the record of a transaction's surroundings.  A constraint of the schema that is not written out can
  only abort the transaction, which its fate covers.
\<close>

section \<open>Rows\<close>

type_synonym attempt_ref = "opaque_id \<times> opaque_id \<times> opaque_id"

record queue_row =
  q_sequence :: int
  q_identity :: scheduler_identity
  q_barrier :: bool
  q_not_before :: int

text \<open>The request of a job is stored as text; \<open>jrow_request\<close> is what parsing that text gives.\<close>

record job_row =
  jrow_text :: string
  jrow_request :: "request option"
  jrow_hash :: string
  jrow_version :: string
  jrow_profile :: profile
  jrow_active :: opaque_id
  jrow_created :: gotime
  jrow_objects :: "frozen_object list"

record attempt_row =
  arow_attempt :: attempt
  arow_nonce :: string

record journal_row =
  jl_version :: int
  jl_phase :: string
  jl_journal :: journal

record resource_row =
  res_operation :: string
  res_purpose :: string
  res_id :: string
  res_workspace :: opaque_id
  res_job :: opaque_id
  res_attempt :: opaque_id
  res_instance :: opaque_id
  res_account :: string
  res_key :: string
  res_identity :: string
  res_plan :: sha256_digest
  res_ref :: string
  res_ready :: string

record intent_row =
  int_id :: opaque_id
  int_sequence :: int
  int_identity :: string
  int_prepared :: string
  int_status :: string
  int_remote :: string

datatype grant_kind = ExecutionGrant | PrepareGrant | StartGrant | SecretGrant

fun grant_kind_string :: "grant_kind \<Rightarrow> string" where
  "grant_kind_string ExecutionGrant = ''execution''"
| "grant_kind_string PrepareGrant = ''prepare''"
| "grant_kind_string StartGrant = ''start''"
| "grant_kind_string SecretGrant = ''secret''"

text \<open>One table holds the grants of every kind; a column that a kind does not use is left at its default.\<close>

record grant_row =
  g_kind :: grant_kind
  g_authorization :: opaque_id
  g_workspace :: opaque_id
  g_job :: opaque_id
  g_attempt :: opaque_id
  g_key :: string
  g_status :: auth_status
  g_consumed :: "gotime option"
  g_prepare :: "prepare_request option"
  g_start :: "start_request option"
  g_binding :: "profile option"
  g_account :: string
  g_inputs :: string
  g_nonce :: string
  g_wall :: int
  g_created :: gotime
  g_reserved :: int
  g_ready_until :: int
  g_ready_revision :: "sha256_digest option"
  g_ready_at :: "gotime option"
  g_released :: bool
  g_metadata :: "secret_metadata option"
  g_expires :: "int option"
  g_revoked :: "gotime option"
  g_revocation_key :: string

text \<open>
  A receipt holds the encoded text of its answer.  The model keeps the answer itself and takes its text, \<open>saved_text\<close>, where the
  code looks at it, for its length.  Reading a receipt back is then the identity, which it is for answers whose strings are
  valid UTF-8, as the identifiers, digests, enumerations and fixed messages in them are.
\<close>

datatype saved_value =
    SavedGate gate_receipt
  | SavedExecution auth_receipt
  | SavedSecret receipt
  | SavedControl control_record
  | SavedOther string

record receipt_id =
  rk_workspace :: opaque_id
  rk_namespace :: string
  rk_scope :: string
  rk_key :: string

record saved_receipt =
  sv_hash :: string
  sv_version :: string
  sv_subject :: string
  sv_job :: opaque_id
  sv_attempt :: opaque_id
  sv_value :: saved_value

record operation_row =
  orow_record :: control_record
  orow_started :: bool
  orow_request :: control_request
  orow_name_deletion :: bool
  orow_hash :: string
  orow_resource :: string

record 'r store =
  st_clock :: int
  st_settings :: scheduler_settings
  st_last :: opaque_id
  st_installation :: opaque_id
  st_leases :: lease_table
  st_queue :: "queue_row list"
  st_jobs :: "opaque_id \<times> opaque_id \<rightharpoonup> job_row"
  st_attempts :: "attempt_ref \<rightharpoonup> attempt_row"
  st_journals :: "int \<rightharpoonup> journal_row"
  st_resources :: "resource_row list"
  st_intents :: "intent_row list"
  st_grants :: "grant_row list"
  st_receipts :: "(receipt_id \<times> saved_receipt) list"
  st_operations :: "operation_row list"
  st_events :: "event list"
  st_progress :: "attempt_ref \<rightharpoonup> preparation_progress"
  st_quotas :: "string \<times> string \<rightharpoonup> quota_observation \<times> bool"
  st_reservations :: "int \<rightharpoonup> string \<times> string"
  st_rest :: 'r

text \<open>
  What surrounds a transaction: the wall clock, random values, its fate, and the code of the other tables.
  \<open>tx_release\<close> stands for the three consecutive releases of host cache pins, image pins and storage of an attempt
  that will never be prepared.
\<close>

record 'r tx_env =
  tx_wall :: gotime
  tx_fate :: fate
  tx_fence :: string
  tx_id :: string
  tx_nonce :: string
  tx_event :: "int \<Rightarrow> opaque_id"
  tx_recode :: "request \<Rightarrow> input_snapshot \<Rightarrow> go_error + string"
  tx_snapshot :: "'r store \<Rightarrow> scheduler_settings \<Rightarrow> gotime \<Rightarrow> go_error + candidate list"
  tx_host_enabled :: bool
  tx_host :: "admitted \<Rightarrow> gotime \<Rightarrow> 'r \<Rightarrow> go_error option"
  tx_remote :: "work \<Rightarrow> 'r \<Rightarrow> go_error option"
  tx_image :: "admitted \<Rightarrow> gotime \<Rightarrow> 'r \<Rightarrow> go_error option"
  tx_storage :: "admitted \<Rightarrow> gotime \<Rightarrow> 'r \<Rightarrow> go_error option"
  tx_release :: "attempt_ref \<Rightarrow> gotime \<Rightarrow> ('r, unit) tx"
  tx_reserve :: "work \<Rightarrow> journal \<Rightarrow> gotime \<Rightarrow> ('r, unit) tx"
  tx_retention :: "opaque_id \<Rightarrow> opaque_id \<Rightarrow> attempt \<Rightarrow> attempt \<Rightarrow> gotime \<Rightarrow> ('r, unit) tx"
  tx_retired :: "attempt_ref \<Rightarrow> 'r \<Rightarrow> bool"
  tx_actor :: "opaque_id \<Rightarrow> string \<Rightarrow> string \<Rightarrow> 'r \<Rightarrow> go_error option"
  tx_owned :: "opaque_id \<Rightarrow> profile \<Rightarrow> 'r \<Rightarrow> go_error option"
  tx_capacity :: "admitted \<Rightarrow> gotime \<Rightarrow> 'r store \<Rightarrow> go_error option"

type_synonym ('r, 'a) store_tx = "('r store, 'a) tx"

definition on_leases :: "(lease_table, 'a) tx \<Rightarrow> ('r, 'a) store_tx" where
  "on_leases m = (\<lambda>s. case m (st_leases s) of Inl e \<Rightarrow> Inl e | Inr (x, t) \<Rightarrow> Inr (x, s\<lparr>st_leases := t\<rparr>))"

definition on_rest :: "('r, 'a) tx \<Rightarrow> ('r, 'a) store_tx" where
  "on_rest m = (\<lambda>s. case m (st_rest s) of Inl e \<Rightarrow> Inl e | Inr (x, r) \<Rightarrow> Inr (x, s\<lparr>st_rest := r\<rparr>))"

text \<open>A transaction that writes samples the clock first; its floor is rolled back with it.\<close>

definition store_write :: "'r tx_env \<Rightarrow> (gotime \<Rightarrow> ('r, 'a) store_tx) \<Rightarrow> 'r store \<Rightarrow> (go_error + 'a) \<times> 'r store" where
  "store_write env fn = withTx (tx_fate env)
     (bindE (readE st_clock) (\<lambda>least.
      bindE (liftE (transaction_clock least (tx_wall env))) (\<lambda>(now, next_least).
      bindE (writeE (\<lambda>s. s\<lparr>st_clock := next_least\<rparr>)) (\<lambda>_. fn now))))"


section \<open>Jobs, attempts and journals\<close>

definition AdmissionErrNotFound :: go_error where "AdmissionErrNotFound = Sentinel ''admission.ErrNotFound''"
definition AdmissionErrExpired :: go_error where "AdmissionErrExpired = Sentinel ''admission.ErrExpired''"
definition AdmissionErrLimit :: go_error where "AdmissionErrLimit = Sentinel ''admission.ErrLimit''"
definition StoreErrSchema :: go_error where "StoreErrSchema = Sentinel ''sqlite.ErrSchema''"
definition domain_failure :: go_error where "domain_failure = Sentinel ''domain''"

definition loadAttempt :: "attempt_ref \<Rightarrow> ('r, attempt \<times> string) store_tx" where
  "loadAttempt ref =
     bindE (readE (\<lambda>s. st_attempts s ref)) (\<lambda>found.
     case found of
       None \<Rightarrow> failE AdmissionErrNotFound
     | Some row \<Rightarrow>
         let a = (arow_attempt row)\<lparr>attempt_id := snd (snd ref), attempt_job := fst (snd ref)\<rparr> in
         bindE (refuseE (\<not> digest_valid (arow_nonce row) \<or> attempt_validate a \<noteq> None) StoreCorrupt) (\<lambda>_.
         passE (a, arow_nonce row)))"

definition object_role_ok :: "spec \<Rightarrow> frozen_object \<Rightarrow> bool" where
  "object_role_ok s x =
     (let role = frozen_role x; m = frozen_metadata x in
      if role = ''bundle'' then object_id m = spec_bundle_object s
      else if role = ''application_image'' then
        (case spec_image s of
           None \<Rightarrow> False
         | Some img \<Rightarrow> object_id m = image_object img \<and> object_sha256 m = image_sha256 img \<and> object_bytes m = image_bytes img)
      else list_ex (\<lambda>i. role = input_role i \<and>
          (let source = in_source (spec_inputs s ! i) in
           \<not> (source_kind source = ''object'' \<and> source_object source \<noteq> object_id m
              \<or> source_kind source = ''https'' \<and> source_expected_sha256 source \<noteq> []
                \<and> source_expected_sha256 source \<noteq> object_sha256 m))) [0..<length (spec_inputs s)])"

definition frozen_objects_ok :: "spec \<Rightarrow> frozen_object list \<Rightarrow> bool" where
  "frozen_objects_ok s xs \<longleftrightarrow>
     list_all (\<lambda>x. object_valid (frozen_metadata x) \<and> object_role_ok s x) xs
     \<and> distinct (map frozen_role xs) \<and> length xs \<le> 258
     \<and> ''bundle'' \<in> set (map frozen_role xs)
     \<and> (''application_image'' \<in> set (map frozen_role xs)) = (spec_image s \<noteq> None)
     \<and> list_all (\<lambda>i. input_role i \<in> set (map frozen_role xs)
          \<or> source_kind (in_source (spec_inputs s ! i)) = ''https'') [0..<length (spec_inputs s)]"

definition readJobRecord :: "opaque_id \<Rightarrow> opaque_id \<Rightarrow> ('r, admitted) store_tx" where
  "readJobRecord w j =
     bindE (readE (\<lambda>s. st_jobs s (w, j))) (\<lambda>found.
     case found of
       None \<Rightarrow> failE AdmissionErrNotFound
     | Some row \<Rightarrow>
         bindE (refuseE (jrow_version row \<noteq> ''compute-relay/job-request/v1'') StoreErrSchema) (\<lambda>_.
         case jrow_request row of
           None \<Rightarrow> failE StoreCorrupt
         | Some req \<Rightarrow>
             bindE (refuseE (req_hash req \<noteq> jrow_hash row \<or> req_canonical req \<noteq> jrow_text row) StoreCorrupt) (\<lambda>_.
             let s = req_spec req; p = jrow_profile row in
             bindE (refuseE (\<not> profile_check p s) StoreCorrupt) (\<lambda>_.
             case NewJob \<lparr>job_id = j, job_workspace = w, job_name = spec_name s,
                 job_specification_version = spec_api_version s, job_specification_digest = req_hash req,
                 job_binding = prof_binding p, job_active_attempt = jrow_active row, job_created = jrow_created row\<rparr> of
               Inl _ \<Rightarrow> failE StoreCorrupt
             | Inr job \<Rightarrow>
                 bindE (loadAttempt (w, j, jrow_active row)) (\<lambda>(a, nonce).
                 let objects = map (\<lambda>x. x\<lparr>frozen_metadata := (frozen_metadata x)\<lparr>object_workspace := w\<rparr>\<rparr>) (jrow_objects row) in
                 bindE (refuseE (\<not> frozen_objects_ok s objects) StoreCorrupt) (\<lambda>_.
                 passE \<lparr>adm_job = job, adm_attempt = a, adm_nonce = nonce, adm_request = req, adm_profile = p,
                   adm_objects = objects\<rparr>))))))"

text \<open>
  A journal is stored as the text of its encoding, beside its version and phase; decoding that text gives the copy
  that \<open>Apply\<close> works on as well.
\<close>

definition loadJournal :: "int \<Rightarrow> ('r, journal) store_tx" where
  "loadJournal sequence =
     bindE (readE (\<lambda>s. st_journals s sequence)) (\<lambda>found.
     case found of
       None \<Rightarrow> passE empty_journal
     | Some row \<Rightarrow>
         let j = journal_copy (jl_journal row) in
         bindE (refuseE ((case journal_marshal (jl_journal row) of None \<Rightarrow> True | Some raw \<Rightarrow> length raw > MaxJournalBytes)
             \<or> j_version j \<noteq> jl_version row \<or> phase_string (j_phase j) \<noteq> jl_phase row \<or> \<not> journal_valid j) StoreCorrupt) (\<lambda>_.
         passE j))"

text \<open>Writing a journal: a new row, or the row of the version that was read.  The trigger of the table lets a version
  only grow by one.\<close>

definition put_journal :: "int \<Rightarrow> int \<Rightarrow> go_error \<Rightarrow> journal \<Rightarrow> ('r, unit) store_tx" where
  "put_journal sequence version changed next =
     bindE (readE (\<lambda>s. st_journals s sequence)) (\<lambda>found.
     let row = \<lparr>jl_version = j_version next, jl_phase = phase_string (j_phase next), jl_journal = next\<rparr> in
     bindE (if version = 0 then refuseE (found \<noteq> None \<or> j_version next < 0) StoreConflict
            else case found of
                None \<Rightarrow> failE changed
              | Some old \<Rightarrow>
                  bindE (refuseE (jl_version old \<noteq> version) changed) (\<lambda>_.
                  refuseE (j_version next \<noteq> jl_version old + 1) StoreConflict)) (\<lambda>_.
     writeE (\<lambda>s. s\<lparr>st_journals := (st_journals s)(sequence \<mapsto> row)\<rparr>)))"

definition schedulerControl :: "('r, scheduler_settings \<times> opaque_id) store_tx" where
  "schedulerControl =
     bindE (readE (\<lambda>s. (st_settings s, st_last s))) (\<lambda>(settings, last).
     bindE (refuseE (\<not> settings_valid settings \<or> last \<noteq> [] \<and> \<not> validOpaqueID last) StoreCorrupt) (\<lambda>_.
     passE (settings, last)))"

definition find_queue :: "(queue_row \<Rightarrow> bool) \<Rightarrow> ('r, queue_row option) store_tx" where
  "find_queue p = readE (\<lambda>s. find p (st_queue s))"

definition update_queue :: "int \<Rightarrow> (queue_row \<Rightarrow> queue_row) \<Rightarrow> ('r, unit) store_tx" where
  "update_queue sequence f =
     writeE (\<lambda>s. s\<lparr>st_queue := map (\<lambda>q. if q_sequence q = sequence then f q else q) (st_queue s)\<rparr>)"


section \<open>Events and transitions of attempts\<close>

definition last_event :: "opaque_id \<Rightarrow> opaque_id \<Rightarrow> 'r store \<Rightarrow> int" where
  "last_event w j s =
     foldr max (map (\<lambda>e. uint (event_sequence e)) (filter (\<lambda>e. event_workspace e = w \<and> event_job e = j) (st_events s))) 0"

definition append_event :: "'r tx_env \<Rightarrow> bool \<Rightarrow> attempt_ref \<Rightarrow> opaque_id \<Rightarrow> event_type \<Rightarrow> gotime \<Rightarrow> ('r, unit) store_tx" where
  "append_event env checked ref op_id kind now =
     (case ref of (w, j, a) \<Rightarrow>
      bindE (readE (last_event w j)) (\<lambda>sequence.
      bindE (refuseE (sequence = MaxInt64) StoreConflict) (\<lambda>_.
      let e = \<lparr>event_id = tx_event env (sequence + 1), event_sequence = word_of_int (sequence + 1), event_workspace = w,
               event_job = j, event_attempt = a, event_operation = op_id, event_type = kind, event_occurred = now\<rparr> in
      bindE (refuseE (checked \<and> event_validate e \<noteq> None) StoreInvalid) (\<lambda>_.
      writeE (\<lambda>s. s\<lparr>st_events := st_events s @ [e]\<rparr>)))))"

definition controlEvent :: "'r tx_env \<Rightarrow> attempt_ref \<Rightarrow> opaque_id \<Rightarrow> event_type \<Rightarrow> gotime \<Rightarrow> ('r, unit) store_tx" where
  "controlEvent env = append_event env True"

text \<open>
  An update of the row of an attempt, fenced by the revision that was read.  A trigger of the table raises the dispatch
  barrier of an attempt that leaves local preparation (\<open>migrations/0004_scheduler.sql\<close>); no statement lowers it.
\<close>

definition leaves_local :: "attempt_state \<Rightarrow> bool" where
  "leaves_local s \<longleftrightarrow>
     orchestration_string (orchestration s) \<notin> {''queued'', ''preparing'', ''blocked''}
     \<or> execution_string (execution s) \<noteq> ''not_submitted''
     \<or> remote_activity_string (remote_activity s) \<noteq> ''not_started''"

definition scheduler_barrier :: "attempt_ref \<Rightarrow> attempt_state \<Rightarrow> ('r, unit) store_tx" where
  "scheduler_barrier ref state =
     (if leaves_local state then
        writeE (\<lambda>s. s\<lparr>st_queue := map (\<lambda>q.
          if (sid_workspace (q_identity q), sid_job (q_identity q), sid_attempt (q_identity q)) = ref
          then q\<lparr>q_barrier := True\<rparr> else q) (st_queue s)\<rparr>)
      else passE ())"

definition update_attempt :: "attempt_ref \<Rightarrow> attempt \<Rightarrow> attempt \<Rightarrow> go_error \<Rightarrow> ('r, unit) store_tx" where
  "update_attempt ref a updated changed =
     bindE (readE (\<lambda>s. st_attempts s ref)) (\<lambda>found.
     case found of
       None \<Rightarrow> failE changed
     | Some row \<Rightarrow>
         bindE (refuseE (attempt_revision (arow_attempt row) \<noteq> attempt_revision a) changed) (\<lambda>_.
         bindE (writeE (\<lambda>s. s\<lparr>st_attempts := (st_attempts s)(ref \<mapsto> row\<lparr>arow_attempt := (arow_attempt row)
           \<lparr>attempt_state := attempt_state updated, attempt_revision := attempt_revision updated,
            attempt_updated := attempt_updated updated\<rparr>\<rparr>)\<rparr>)) (\<lambda>_.
         scheduler_barrier ref (attempt_state updated))))"

definition move_attempt ::
  "'r tx_env \<Rightarrow> attempt_ref \<Rightarrow> attempt \<Rightarrow> attempt \<Rightarrow> go_error \<Rightarrow> gotime \<Rightarrow> ('r, unit) store_tx" where
  "move_attempt env ref a updated changed now =
     (if updated = a then passE ()
      else bindE (update_attempt ref a updated changed) (\<lambda>_.
           on_rest (tx_retention env (fst ref) (fst (snd ref)) a updated now)))"

definition schedulerTransition ::
  "'r tx_env \<Rightarrow> scheduler_identity \<Rightarrow> attempt \<Rightarrow> attempt_state \<Rightarrow> event_type \<Rightarrow> gotime \<Rightarrow> ('r, attempt) store_tx" where
  "schedulerTransition env i a next kind now =
     bindE (refuseE (\<not> scheduler_identity_valid i \<or> attempt_id a \<noteq> sid_attempt i \<or> attempt_job a \<noteq> sid_job i
         \<or> \<not> event_type_valid kind \<or> before now (attempt_updated a)) SchedulerErrInvalid) (\<lambda>_.
     case attempt_transition next (utc now) a of
       Inl _ \<Rightarrow> failE SchedulerErrInvalid
     | Inr updated \<Rightarrow>
         let ref = (sid_workspace i, sid_job i, sid_attempt i) in
         bindE (refuseE (uint (attempt_revision updated) > MaxInt64) SchedulerErrInvalid) (\<lambda>_.
         bindE (move_attempt env ref a updated StoreConflict now) (\<lambda>_.
         bindE (append_event env False ref [] kind now) (\<lambda>_.
         passE updated))))"

definition controlState ::
  "'r tx_env \<Rightarrow> operation \<Rightarrow> attempt \<Rightarrow> attempt_state \<Rightarrow> event_type \<Rightarrow> gotime \<Rightarrow> ('r, attempt) store_tx" where
  "controlState env x a state kind now =
     (case attempt_transition state (utc now) a of
        Inl _ \<Rightarrow> failE OperationsErrState
      | Inr next \<Rightarrow>
          let ref = (operation_workspace x, attempt_job a, attempt_id a) in
          bindE (refuseE (uint (attempt_revision next) > MaxInt64) OperationsErrState) (\<lambda>_.
          bindE (move_attempt env ref a next OperationsErrChanged now) (\<lambda>_.
          bindE (controlEvent env ref (operation_id x) kind now) (\<lambda>_.
          passE next))))"

definition controlJournal :: "work \<Rightarrow> journal \<Rightarrow> ('r, unit) store_tx" where
  "controlJournal w next =
     bindE (refuseE (\<not> journal_valid next \<or> j_version next \<noteq> j_version (w_journal w) + 1) StoreInvalid) (\<lambda>_.
     bindE (refuseE (case journal_marshal next of None \<Rightarrow> True | Some raw \<Rightarrow> length raw > MaxJournalBytes) StoreInvalid) (\<lambda>_.
     put_journal (claim_sequence (h_claim (w_handle w))) (j_version (w_journal w)) OperationsErrChanged next))"


section \<open>Receipts\<close>

text \<open>The encodings of receipts, for the bound on their size.\<close>

definition optional_time :: "gotime option \<Rightarrow> json" where
  "optional_time t = (case t of None \<Rightarrow> JNull | Some x \<Rightarrow> time_json x)"

primrec auth_status_string :: "auth_status \<Rightarrow> string" where
  "auth_status_string Granted = ''granted''"
| "auth_status_string Consumed = ''consumed''"
| "auth_status_string Revoked = ''revoked''"
| "auth_status_string (AuthStatusOther s) = s"

definition gate_receipt_json :: "gate_receipt \<Rightarrow> json" where
  "gate_receipt_json r = JObject
     [(''authorization_id'', JString (gr_authorization r)), (''workspace_id'', JString (gr_workspace r)),
      (''job_id'', JString (gr_job r)), (''attempt_id'', JString (gr_attempt r)), (''kind'', JString (gr_kind r)),
      (''status'', JString (auth_status_string (gr_status r))), (''created_at'', time_json (gr_created r)),
      (''consumed_at'', optional_time (gr_consumed r)), (''replay'', JBool (gr_replay r))]"

definition auth_receipt_json :: "auth_receipt \<Rightarrow> json" where
  "auth_receipt_json r = JObject
     [(''authorization_id'', JString (ar_authorization r)), (''workspace_id'', JString (ar_workspace r)),
      (''job_id'', JString (ar_job r)), (''attempt_id'', JString (ar_attempt r)),
      (''status'', JString (auth_status_string (ar_status r))), (''max_remote_wall_seconds'', JInt (ar_wall_seconds r)),
      (''created_at'', time_json (ar_created r)), (''consumed_at'', optional_time (ar_consumed r)),
      (''replay'', JBool (ar_replay r))]"

definition secret_receipt_json :: "receipt \<Rightarrow> json" where
  "secret_receipt_json r = JObject
     [(''authorization_id'', JString (receipt_authorization r)), (''workspace_id'', JString (receipt_workspace r)),
      (''job_id'', JString (receipt_job r)), (''attempt_id'', JString (meta_attempt (receipt_metadata r))),
      (''readiness_revision'', JString (meta_readiness (receipt_metadata r))),
      (''expires_at'', JString (meta_expires (receipt_metadata r))),
      (''names'', JArray (map JString (meta_names (receipt_metadata r)))), (''status'', JString (receipt_status r)),
      (''created_at'', time_json (receipt_created r)), (''consumed_at'', optional_time (receipt_consumed r)),
      (''revoked_at'', optional_time (receipt_revoked r)), (''replay'', JBool (receipt_replay r))]"

definition operation_json :: "operation \<Rightarrow> json" where
  "operation_json x = JObject
     [(''ID'', JString (operation_id x)), (''WorkspaceID'', JString (operation_workspace x)),
      (''JobID'', JString (operation_job x)), (''AttemptID'', JString (operation_attempt x)),
      (''Kind'', JString (operation_kind_string (operation_kind x))),
      (''Status'', JString (operation_status_string (operation_status x))),
      (''Revision'', JInt (uint (operation_revision x))),
      (''Failure'', case operation_failure x of None \<Rightarrow> JNull | Some p \<Rightarrow> problem_json p),
      (''CreatedAt'', time_json (operation_created x)), (''UpdatedAt'', time_json (operation_updated x))]"

definition control_record_json :: "control_record \<Rightarrow> json" where
  "control_record_json r = JObject
     [(''Operation'', operation_json (cr_operation r)), (''Effect'', JString (effect_string (cr_effect r))),
      (''NewAttemptID'', JString (cr_new_attempt r)), (''TerminationConfirmed'', JBool (cr_termination r)),
      (''Replay'', JBool (cr_replay r))]"

primrec saved_text :: "saved_value \<Rightarrow> string" where
  "saved_text (SavedGate r) = json_marshal (gate_receipt_json r)"
| "saved_text (SavedExecution r) = json_marshal (auth_receipt_json r)"
| "saved_text (SavedSecret r) = json_marshal (secret_receipt_json r)"
| "saved_text (SavedControl r) = json_marshal (control_record_json r)"
| "saved_text (SavedOther s) = s"

text \<open>\<open>replayOrCreate\<close> is a lookup when there is nothing to create.\<close>

definition replayOrCreate ::
  "receipt_id \<Rightarrow> string \<Rightarrow> string \<Rightarrow> go_error \<Rightarrow> saved_receipt option \<Rightarrow> ('r, saved_receipt option) store_tx" where
  "replayOrCreate key hash version conflict creation =
     bindE (readE (\<lambda>s. map_of (st_receipts s) key)) (\<lambda>found.
     case found of
       Some saved \<Rightarrow>
         bindE (refuseE (sv_version saved \<noteq> version) StoreErrSchema) (\<lambda>_.
         bindE (refuseE (sv_hash saved \<noteq> hash) conflict) (\<lambda>_.
         passE (Some saved)))
     | None \<Rightarrow>
         (case creation of
            None \<Rightarrow> passE None
          | Some saved \<Rightarrow>
              bindE (refuseE (saved_text (sv_value saved) = [] \<or> length (saved_text (sv_value saved)) > 4096) StoreInvalid) (\<lambda>_.
              bindE (writeE (\<lambda>s. s\<lparr>st_receipts := (key, saved\<lparr>sv_hash := hash, sv_version := version\<rparr>) # st_receipts s\<rparr>)) (\<lambda>_.
              passE None))))"


section \<open>Operations\<close>

definition stored_request_digest :: "opaque_id \<Rightarrow> operation_kind \<Rightarrow> operation_row \<Rightarrow> string option" where
  "stored_request_digest job k row =
     (let r = orow_request row in
      if k \<noteq> OperationCleanup then control_request_digest job k r
      else if \<not> validOpaqueID job \<or> \<not> control_request_valid k r then None
      else Some (sha256_hex (json_marshal (JObject
        [(''version'', JString ''cleanup/v1''), (''job_id'', JString job), (''kind'', JString (operation_kind_string k)),
         (''request'', JObject ([(''attempt_id'', JString (creq_attempt r)), (''discard_uncollected'', JBool (creq_discard r))]
            @ omit_if (\<not> orow_name_deletion row) ''accept_name_based_delete'' (JBool True)
            @ omit_if (creq_reason r = []) ''reason'' (JString (creq_reason r))))]))))"

definition operation_row_ok :: "opaque_id \<Rightarrow> opaque_id \<Rightarrow> operation_row \<Rightarrow> bool" where
  "operation_row_ok w i row \<longleftrightarrow>
     (let r = orow_record row; x = cr_operation r; k = operation_kind x in
      length (json_marshal (control_record_json r)) \<le> 8192 \<and> control_record_valid r \<and> \<not> cr_replay r
      \<and> stored_request_digest (operation_job x) k row = Some (orow_hash row)
      \<and> creq_attempt (orow_request row) = operation_attempt x \<and> operation_id x = i \<and> operation_workspace x = w
      \<and> \<not> (orow_started row \<and> (k \<noteq> OperationCancel \<or> operation_status x = OperationAccepted))
      \<and> (k = OperationCleanup) = validOpaqueID (orow_resource row)
      \<and> \<not> (orow_resource row \<noteq> [] \<and> k \<noteq> OperationCleanup))"

abbreviation row_operation :: "operation_row \<Rightarrow> operation" where
  "row_operation row \<equiv> cr_operation (orow_record row)"

definition operation_named :: "opaque_id \<Rightarrow> opaque_id \<Rightarrow> operation_row \<Rightarrow> bool" where
  "operation_named w i row \<longleftrightarrow> operation_workspace (row_operation row) = w \<and> operation_id (row_operation row) = i"

definition loadOperation :: "opaque_id \<Rightarrow> opaque_id \<Rightarrow> ('r, operation_row) store_tx" where
  "loadOperation w i =
     bindE (readE (\<lambda>s. find (operation_named w i) (st_operations s))) (\<lambda>found.
     case found of
       None \<Rightarrow> failE OperationsErrNotFound
     | Some row \<Rightarrow> bindE (refuseE (\<not> operation_row_ok w i row) StoreCorrupt) (\<lambda>_. passE row))"

definition operation_ref :: "operation \<Rightarrow> attempt_ref" where
  "operation_ref x = (operation_workspace x, operation_job x, operation_attempt x)"

text \<open>A unique index admits one invoked cancellation per attempt, over all its operations (\<open>migrations/0037\<close>).\<close>

definition stop_invoked_elsewhere :: "operation \<Rightarrow> operation_row \<Rightarrow> bool" where
  "stop_invoked_elsewhere x row \<longleftrightarrow>
     operation_kind x = OperationCancel \<and> operation_kind (row_operation row) = OperationCancel \<and> orow_started row
     \<and> operation_ref (row_operation row) = operation_ref x \<and> operation_id (row_operation row) \<noteq> operation_id x"

text \<open>
  The triggers of the table: a terminal operation is not updated, and neither the identity of an operation nor the
  beginning of its cancellation changes.
\<close>

definition operation_immutable :: "operation_row \<Rightarrow> operation_row \<Rightarrow> bool" where
  "operation_immutable old new \<longleftrightarrow>
     operation_status_terminal (operation_status (row_operation old)) \<or> orow_started old \<and> \<not> orow_started new
     \<or> operation_ref (row_operation old) \<noteq> operation_ref (row_operation new)
     \<or> operation_kind (row_operation old) \<noteq> operation_kind (row_operation new)"

definition saveOperation :: "operation_row \<Rightarrow> operation_row \<Rightarrow> ('r, unit) store_tx" where
  "saveOperation old new =
     (let x = row_operation old; y = row_operation new in
      bindE (refuseE (\<not> control_record_valid (orow_record new) \<or> cr_replay (orow_record new)
          \<or> operation_revision y \<noteq> operation_revision x + 1 \<or> uint (operation_revision y) > MaxInt64
          \<or> operation_id y \<noteq> operation_id x \<or> operation_workspace y \<noteq> operation_workspace x
          \<or> operation_job y \<noteq> operation_job x \<or> operation_attempt y \<noteq> operation_attempt x
          \<or> operation_kind y \<noteq> operation_kind x \<or> unix_ns (operation_created y) \<noteq> unix_ns (operation_created x)
          \<or> orow_started old \<and> \<not> orow_started new) StoreInvalid) (\<lambda>_.
      bindE (refuseE (case operation_transition (operation_status y, operation_failure y) (operation_updated y) x of
          Inl _ \<Rightarrow> True | Inr want \<Rightarrow> operation_revision want \<noteq> operation_revision y) StoreInvalid) (\<lambda>_.
      bindE (refuseE (length (json_marshal (control_record_json (orow_record new))) > 8192) StoreInvalid) (\<lambda>_.
      bindE (readE (\<lambda>s. find (operation_named (operation_workspace y) (operation_id y)) (st_operations s))) (\<lambda>found.
      case found of
        None \<Rightarrow> failE OperationsErrChanged
      | Some row \<Rightarrow>
          bindE (refuseE (operation_revision (row_operation row) \<noteq> operation_revision x) OperationsErrChanged) (\<lambda>_.
          bindE (readE st_operations) (\<lambda>rows.
          bindE (refuseE (operation_immutable row new \<or> orow_started new \<and> list_ex (stop_invoked_elsewhere y) rows) StoreConflict) (\<lambda>_.
          writeE (\<lambda>s. s\<lparr>st_operations := map (\<lambda>r.
            if operation_named (operation_workspace y) (operation_id y) r
            then r\<lparr>orow_record := orow_record new, orow_started := orow_started new\<rparr> else r) (st_operations s)\<rparr>)))))))))"

definition finishControl ::
  "'r tx_env \<Rightarrow> operation_row \<Rightarrow> operation_status \<Rightarrow> effect \<Rightarrow> problem option \<Rightarrow> gotime \<Rightarrow> ('r, operation_row) store_tx" where
  "finishControl env old status effect problem now =
     bindE (refuseE (operation_status_terminal (operation_status (row_operation old))) OperationsErrChanged) (\<lambda>_.
     case operation_transition (status, problem) now (row_operation old) of
       Inl _ \<Rightarrow> failE domain_failure
     | Inr x \<Rightarrow>
         let new = old\<lparr>orow_record := (orow_record old)\<lparr>cr_operation := x, cr_effect := effect,
               cr_termination := (effect = CancellationConfirmedEffect)\<rparr>\<rparr> in
         bindE (saveOperation old new) (\<lambda>_.
         bindE (if operation_status_terminal status \<and> operation_kind x \<noteq> OperationCleanup
                then controlEvent env (operation_ref x) (operation_id x) EventOperationCompleted now
                else passE ()) (\<lambda>_.
         passE new)))"

end
