(* ===== verification/Store_Gate.thy ===== *)
theory Store_Gate
  imports Store_Tables
begin

text \<open>
  The durable authority of an attempt: grants with their receipts (\<open>execution_gate.go\<close>, \<open>authorization.go\<close>,
  \<open>receipts.go\<close>), the secrets of a start (\<open>workload_secrets.go\<close>), and what dispatch does with them
  (\<open>authorization_dispatch.go\<close>, \<open>execution_gate_dispatch.go\<close>).  Times in columns are in UTC.
\<close>

section \<open>Reading grants\<close>

definition AuthErrRequest :: go_error where "AuthErrRequest = Sentinel ''executionauth.ErrRequest''"
definition AuthErrNotFound :: go_error where "AuthErrNotFound = Sentinel ''executionauth.ErrNotFound''"
definition AuthErrConflict :: go_error where "AuthErrConflict = Sentinel ''executionauth.ErrConflict''"
definition AuthErrState :: go_error where "AuthErrState = Sentinel ''executionauth.ErrState''"
definition AuthErrInputs :: go_error where "AuthErrInputs = Sentinel ''executionauth.ErrInputs''"
definition SecretUnavailable :: go_error where "SecretUnavailable = Sentinel ''workloadsecret.ErrUnavailable''"
definition SecretNotFound :: go_error where "SecretNotFound = Sentinel ''workloadsecret.ErrNotFound''"
definition SecretRequest :: go_error where "SecretRequest = Sentinel ''workloadsecret.ErrRequest''"
definition SecretState :: go_error where "SecretState = Sentinel ''workloadsecret.ErrState''"
definition SecretConflict :: go_error where "SecretConflict = Sentinel ''workloadsecret.ErrConflict''"

definition grant_named :: "grant_kind \<Rightarrow> attempt_ref \<Rightarrow> grant_row \<Rightarrow> bool" where
  "grant_named k ref g \<longleftrightarrow> g_kind g = k \<and> (g_workspace g, g_job g, g_attempt g) = ref"

definition find_grant :: "grant_kind \<Rightarrow> attempt_ref \<Rightarrow> 'r store \<Rightarrow> grant_row option" where
  "find_grant k ref s = find (grant_named k ref) (st_grants s)"

definition update_grant :: "grant_kind \<Rightarrow> attempt_ref \<Rightarrow> (grant_row \<Rightarrow> grant_row) \<Rightarrow> ('r, unit) store_tx" where
  "update_grant k ref f =
     writeE (\<lambda>s. s\<lparr>st_grants := map (\<lambda>g. if grant_named k ref g then f g else g) (st_grants s)\<rparr>)"

text \<open>A grant is read with the receipt it was given; without that receipt there is no row.\<close>

definition grant_receipt :: "grant_row \<Rightarrow> 'r store \<Rightarrow> saved_receipt option" where
  "grant_receipt g s = map_of (st_receipts s)
     \<lparr>rk_workspace = g_workspace g, rk_namespace = ''grant'', rk_scope = grant_kind_string (g_kind g), rk_key = g_key g\<rparr>"

definition read_grant :: "grant_kind \<Rightarrow> attempt_ref \<Rightarrow> ('r, (grant_row \<times> saved_receipt) option) store_tx" where
  "read_grant k ref = readE (\<lambda>s. case find_grant k ref s of
     None \<Rightarrow> None
   | Some g \<Rightarrow> map_option (Pair g) (grant_receipt g s))"

definition gateReceipt :: "saved_receipt \<Rightarrow> string \<Rightarrow> gotime option \<Rightarrow> go_error + gate_receipt" where
  "gateReceipt saved kind consumed =
     (case sv_value saved of
        SavedGate r \<Rightarrow>
          if length (saved_text (SavedGate r)) > 4096 \<or> \<not> gate_receipt_valid r \<or> gr_kind r \<noteq> kind \<or> gr_status r \<noteq> Granted
              \<or> gr_replay r then Inl StoreCorrupt
          else
            let r = (case consumed of None \<Rightarrow> r | Some when \<Rightarrow> r\<lparr>gr_status := Consumed, gr_consumed := Some when\<rparr>)
            in if \<not> gate_receipt_valid r then Inl StoreCorrupt else Inr r
      | _ \<Rightarrow> Inl StoreCorrupt)"

definition authorizationInputs :: "admitted \<Rightarrow> go_error + string" where
  "authorizationInputs r =
     (let s = req_spec (adm_request r) in
      if length (adm_objects r) \<noteq> 1 + length (spec_inputs s) + (if spec_image s \<noteq> None then 1 else 0)
      then Inl AuthErrInputs
      else Inr (sha256_hex (json_marshal (JObject
        [(''Request'', JString (req_hash (adm_request r))),
         (''Objects'', JArray (map (\<lambda>x. JObject [(''role'', JString (frozen_role x)),
            (''object'', object_json (frozen_metadata x))]) (adm_objects r)))]))))"

definition admitted_ref :: "admitted \<Rightarrow> attempt_ref" where
  "admitted_ref r = (job_workspace (adm_job r), job_id (adm_job r), attempt_id (adm_attempt r))"


section \<open>Secrets\<close>

definition loadSecret :: "secret_key \<Rightarrow> gotime \<Rightarrow> ('r, receipt \<times> receipt) store_tx" where
  "loadSecret key now =
     bindE (read_grant SecretGrant (key_workspace key, key_job key, key_attempt key)) (\<lambda>found.
     case found of
       None \<Rightarrow> failE SecretNotFound
     | Some (g, saved) \<Rightarrow>
         bindE (readE (\<lambda>s. map_of (st_receipts s)
           \<lparr>rk_workspace = g_workspace g, rk_namespace = ''revoke'', rk_scope = g_authorization g, rk_key = g_revocation_key g\<rparr>))
           (\<lambda>revocation.
         case sv_value saved of
           SavedSecret r \<Rightarrow>
             (case CanonicalTime (meta_expires (receipt_metadata r)) of
                None \<Rightarrow> failE StoreCorrupt
              | Some until \<Rightarrow>
                  bindE (refuseE (receipt_validate r \<noteq> None \<or> receipt_key r \<noteq> key \<or> receipt_status r \<noteq> ''granted''
                      \<or> receipt_replay r \<or> g_expires g \<noteq> Some (unix_milli until) \<or> g_metadata g \<noteq> Some (receipt_metadata r)
                      \<or> \<not> after until (receipt_created r) \<or> after until (add_time (receipt_created r) MaxLifetime)
                      \<or> g_consumed g \<noteq> None \<and> g_revoked g \<noteq> None) StoreCorrupt) (\<lambda>_.
                  bindE (refuseE (before now (receipt_created r)) StoreCorrupt) (\<lambda>_.
                  bindE (case (g_consumed g, g_revoked g) of
                      (Some when, _) \<Rightarrow>
                        bindE (refuseE (before now when) StoreCorrupt) (\<lambda>_.
                        passE (r\<lparr>receipt_status := ''consumed'', receipt_consumed := Some when\<rparr>))
                    | (None, Some when) \<Rightarrow>
                        bindE (refuseE (before now when) StoreCorrupt) (\<lambda>_.
                        let r' = r\<lparr>receipt_status := ''revoked'', receipt_revoked := Some when\<rparr> in
                        bindE (refuseE (map_option sv_value revocation \<noteq> Some (SavedSecret r')) StoreCorrupt) (\<lambda>_.
                        passE r'))
                    | (None, None) \<Rightarrow>
                        passE (if \<not> before now until then r\<lparr>receipt_status := ''expired''\<rparr> else r)) (\<lambda>current.
                  bindE (refuseE (receipt_validate current \<noteq> None) StoreCorrupt) (\<lambda>_.
                  passE (r, current))))))
         | _ \<Rightarrow> failE StoreCorrupt))"

definition matchSecretSlots :: "slot list \<Rightarrow> secret_metadata \<Rightarrow> bool" where
  "matchSecretSlots slots m \<longleftrightarrow> slots \<noteq> [] \<and> ValidSlots slots \<and> sort (map slot_name slots) = meta_names m"

text \<open>Errors of a missing secret are told by their sentinel.\<close>

definition recoverE :: "string \<Rightarrow> go_error \<Rightarrow> ('s, 'a) tx \<Rightarrow> ('s, 'a) tx" where
  "recoverE sentinel e m = (\<lambda>s. case m s of Inl x \<Rightarrow> Inl (if errors_is sentinel (Some x) then e else x) | Inr y \<Rightarrow> Inr y)"

definition secretForStart :: "admitted \<Rightarrow> opaque_id \<Rightarrow> sha256_digest \<Rightarrow> gotime \<Rightarrow> ('r, receipt option) store_tx" where
  "secretForStart r i revision now =
     (let slots = spec_secrets (req_spec (adm_request r)) in
      if slots = [] then bindE (refuseE (i \<noteq> []) SecretRequest) (\<lambda>_. passE None)
      else
        bindE (refuseE (\<not> validOpaqueID i) SecretUnavailable) (\<lambda>_.
        bindE (recoverE ''workloadsecret.ErrNotFound'' SecretUnavailable
          (loadSecret \<lparr>key_workspace = job_workspace (adm_job r), key_job = job_id (adm_job r),
             key_attempt = attempt_id (adm_attempt r)\<rparr> now)) (\<lambda>(original, current).
        bindE (refuseE (receipt_authorization current \<noteq> i \<or> receipt_status current \<noteq> ''granted''
            \<or> meta_readiness (receipt_metadata current) \<noteq> revision
            \<or> (case CanonicalTime (meta_expires (receipt_metadata current)) of None \<Rightarrow> True | Some until \<Rightarrow> \<not> before now until)
            \<or> \<not> matchSecretSlots slots (receipt_metadata current)) SecretUnavailable) (\<lambda>_.
        passE (Some current)))))"


section \<open>The gate\<close>

definition MaxReadyHold :: int where "MaxReadyHold = hour_ns"

definition not_yet :: "gotime \<Rightarrow> gotime option \<Rightarrow> bool" where
  "not_yet now t = (case t of None \<Rightarrow> False | Some x \<Rightarrow> before now x)"

text \<open>The preparation part of the gate, from the grant to prepare.\<close>

definition prepared_gate :: "admitted \<Rightarrow> gotime \<Rightarrow> grant_row \<Rightarrow> saved_receipt \<Rightarrow> go_error + gate" where
  "prepared_gate r now g saved =
     (case g_prepare g of
        None \<Rightarrow> Inl StoreCorrupt
      | Some req \<Rightarrow>
          if \<not> prepare_request_valid req then Inl StoreCorrupt
          else case gateReceipt saved ''prepare'' (g_consumed g) of
            Inl _ \<Rightarrow> Inl StoreCorrupt
          | Inr rec \<Rightarrow>
              let deadline = parse_or_zero (preq_ready_until req);
                  expected = sum_list (map (\<lambda>x. object_bytes (frozen_metadata x)) (adm_objects r)) in
              if (gr_workspace rec, gr_job rec, gr_attempt rec) \<noteq> admitted_ref r \<or> preq_attempt req \<noteq> attempt_id (adm_attempt r)
              then Inl StoreCorrupt
              else if (case authorizationInputs r of Inl _ \<Rightarrow> True | Inr d \<Rightarrow> g_inputs g \<noteq> d) \<or> g_binding g \<noteq> Some (adm_profile r)
                  \<or> g_account g \<noteq> prof_account (adm_profile r) \<or> g_nonce g \<noteq> adm_nonce r \<or> g_reserved g \<noteq> expected
                  \<or> g_reserved g > preq_max_bytes req \<or> g_ready_until g \<noteq> unix_milli deadline
                  \<or> \<not> after deadline (gr_created rec) \<or> after deadline (add_time (gr_created rec) MaxReadyHold)
                  \<or> (g_ready_revision g \<noteq> None) \<noteq> (g_ready_at g \<noteq> None) then Inl StoreCorrupt
              else if before now (gr_created rec) \<or> not_yet now (gr_consumed rec) then Inl StoreCorrupt
              else case (g_ready_revision g, g_ready_at g) of
                (Some revision, Some when) \<Rightarrow>
                  (case gr_consumed rec of
                     None \<Rightarrow> Inl StoreCorrupt
                   | Some consumed \<Rightarrow>
                       if \<not> digest_valid revision \<or> before when consumed \<or> before now when then Inl StoreCorrupt
                       else Inr \<lparr>gate_preparation = rec, gate_request = req, gate_staged_bytes = g_reserved g,
                         gate_ready_revision = revision, gate_ready_at = Some when, gate_start = None,
                         gate_start_receipt = None\<rparr>)
              | _ \<Rightarrow> Inr \<lparr>gate_preparation = rec, gate_request = req, gate_staged_bytes = g_reserved g,
                     gate_ready_revision = [], gate_ready_at = None, gate_start = None, gate_start_receipt = None\<rparr>)"

text \<open>The start part, without its secrets: the receipt, the request and the time before which to start.\<close>

definition started_gate ::
  "admitted \<Rightarrow> gotime \<Rightarrow> gate \<Rightarrow> grant_row \<Rightarrow> saved_receipt \<Rightarrow> go_error + gate_receipt \<times> start_request \<times> gotime" where
  "started_gate r now g x saved =
     (case g_start x of
        None \<Rightarrow> Inl StoreCorrupt
      | Some req \<Rightarrow>
          if \<not> start_request_valid req then Inl StoreCorrupt
          else case gateReceipt saved ''start'' (g_consumed x) of
            Inl _ \<Rightarrow> Inl StoreCorrupt
          | Inr rec \<Rightarrow>
              let s = req_spec (adm_request r); stop = parse_or_zero (sreq_deadline req);
                  deadline = parse_or_zero (preq_ready_until (gate_request g)) in
              if (gr_workspace rec, gr_job rec, gr_attempt rec) \<noteq> admitted_ref r \<or> sreq_attempt req \<noteq> attempt_id (adm_attempt r)
                  \<or> sreq_readiness req \<noteq> gate_ready_revision g
                  \<or> (case gate_ready_at g of None \<Rightarrow> True | Some when \<Rightarrow> before (gr_created rec) when)
                  \<or> sreq_wall_seconds req > spec_wall_seconds s then Inl StoreCorrupt
              else if before now (gr_created rec) \<or> not_yet now (gr_consumed rec) then Inl StoreCorrupt
              else if \<not> after stop (gr_created rec) \<or> after stop (add_time (gr_created rec) (sreq_wall_seconds req * second_ns))
                  \<or> \<not> is_zero (Deadline s) \<and> after stop (Deadline s) \<or> \<not> before (gr_created rec) deadline then Inl StoreCorrupt
              else Inr (rec, req, if before stop deadline then stop else deadline))"

definition start_of :: "gate_receipt \<Rightarrow> start_request \<Rightarrow> gotime \<Rightarrow> start_authorization" where
  "start_of rec req deadline =
     \<lparr>start_secrets = None, start_authorization_id = gr_authorization rec, start_readiness = sreq_readiness req,
      start_wall_seconds = sreq_wall_seconds req, start_deadline = sreq_deadline req,
      start_before = format_rfc3339 (utc deadline)\<rparr>"

text \<open>The secrets of a start: the authorization they add to it, and how their expiry bounds it.\<close>

definition gate_secrets ::
  "admitted \<Rightarrow> gotime \<Rightarrow> gate \<Rightarrow> gate_receipt \<Rightarrow> start_request \<Rightarrow> gotime \<Rightarrow> ('r, start_authorization) store_tx" where
  "gate_secrets r now g rec req deadline =
     (let slots = spec_secrets (req_spec (adm_request r)); start = start_of rec req deadline in
      if slots = [] then bindE (refuseE (sreq_secret req \<noteq> []) StoreCorrupt) (\<lambda>_. passE start)
      else
        bindE (loadSecret \<lparr>key_workspace = job_workspace (adm_job r), key_job = job_id (adm_job r),
          key_attempt = attempt_id (adm_attempt r)\<rparr> now) (\<lambda>(original, current).
        let expires = (case CanonicalTime (meta_expires (receipt_metadata original)) of None \<Rightarrow> zero_time | Some t \<Rightarrow> t) in
        bindE (refuseE (sreq_secret req \<noteq> receipt_authorization original
            \<or> meta_readiness (receipt_metadata original) \<noteq> gate_ready_revision g
            \<or> \<not> matchSecretSlots slots (receipt_metadata original) \<or> \<not> before (gr_created rec) expires
            \<or> after (receipt_created original) (gr_created rec)) StoreCorrupt) (\<lambda>_.
        bindE (refuseE (if gr_status rec = Consumed
            then receipt_status current \<noteq> ''consumed''
              \<or> map_option unix_ns (receipt_consumed current) \<noteq> map_option unix_ns (gr_consumed rec)
            else receipt_status current = ''consumed'') StoreCorrupt) (\<lambda>_.
        passE (start\<lparr>start_before := (if before expires deadline then format_rfc3339 (utc expires) else start_before start),
          start_secrets := Some \<lparr>secret_authorization_id = receipt_authorization original,
            secret_expires = meta_expires (receipt_metadata original), secret_slots = slots\<rparr>\<rparr>)))))"

definition loadExecutionGate :: "admitted \<Rightarrow> gotime \<Rightarrow> ('r, gate option) store_tx" where
  "loadExecutionGate r now =
     (if \<not> SeparateStart (req_spec (adm_request r)) then passE None
      else
        bindE (read_grant PrepareGrant (admitted_ref r)) (\<lambda>found.
        case found of
          None \<Rightarrow> passE None
        | Some (p, saved) \<Rightarrow>
            bindE (liftE (prepared_gate r now p saved)) (\<lambda>g.
            bindE (read_grant StartGrant (admitted_ref r)) (\<lambda>found.
            case found of
              None \<Rightarrow> passE (Some g)
            | Some (x, saved) \<Rightarrow>
                bindE (liftE (started_gate r now g x saved)) (\<lambda>(rec, req, deadline).
                bindE (gate_secrets r now g rec req deadline) (\<lambda>start.
                passE (Some (g\<lparr>gate_start := Some start, gate_start_receipt := Some rec\<rparr>))))))))"


section \<open>Using grants\<close>

definition consumeGrant :: "attempt_ref \<Rightarrow> grant_kind \<Rightarrow> gotime \<Rightarrow> go_error \<Rightarrow> ('r, unit) store_tx" where
  "consumeGrant ref k now unavailable =
     bindE (readE (find_grant k ref)) (\<lambda>found.
     case found of
       None \<Rightarrow> failE unavailable
     | Some g \<Rightarrow>
         bindE (refuseE (g_status g \<noteq> Granted \<or> g_consumed g \<noteq> None \<or> g_revoked g \<noteq> None
             \<or> (case g_expires g of None \<Rightarrow> False | Some ms \<Rightarrow> ms \<le> unix_milli now)) unavailable) (\<lambda>_.
         update_grant k ref (\<lambda>g. g\<lparr>g_status := Consumed, g_consumed := Some (utc now)\<rparr>)))"

definition releaseGateStorage :: "attempt_ref \<Rightarrow> ('r, unit) store_tx" where
  "releaseGateStorage ref = update_grant PrepareGrant ref (\<lambda>g. g\<lparr>g_released := True\<rparr>)"

definition dispatchAuthorization :: "work \<Rightarrow> gotime \<Rightarrow> ('r, auth_status) store_tx" where
  "dispatchAuthorization w now =
     (let r = w_job w; s = req_spec (adm_request r) in
      if SeparateStart s then
        (case w_gate w of None \<Rightarrow> failE ErrPolicy | Some g \<Rightarrow> passE (gr_status (gate_preparation g)))
      else
        bindE (readE (find_grant ExecutionGrant (admitted_ref r))) (\<lambda>found.
        case found of
          None \<Rightarrow> failE ErrPolicy
        | Some g \<Rightarrow>
            bindE (refuseE ((case authorizationInputs r of Inl _ \<Rightarrow> True | Inr d \<Rightarrow> g_inputs g \<noteq> d)
                \<or> g_binding g \<noteq> Some (adm_profile r) \<or> g_account g \<noteq> prof_account (adm_profile r)
                \<or> g_nonce g \<noteq> adm_nonce r \<or> g_wall g \<noteq> spec_wall_seconds s) StoreCorrupt) (\<lambda>_.
            bindE (refuseE (g_status g \<noteq> Granted \<and> g_status g \<noteq> Consumed) ErrPolicy) (\<lambda>_.
            bindE (refuseE (\<not> ValidTime (g_created g) \<or> (g_status g = Consumed) \<noteq> (g_consumed g \<noteq> None)) StoreCorrupt) (\<lambda>_.
            bindE (refuseE (before now (g_created g)) StoreCorrupt) (\<lambda>_.
            bindE (refuseE (case g_consumed g of
                None \<Rightarrow> False | Some used \<Rightarrow> before used (g_created g) \<or> before now used) StoreCorrupt) (\<lambda>_.
            passE (g_status g))))))))"

definition consumed_receipt :: "gotime \<Rightarrow> gate_receipt \<Rightarrow> gate_receipt" where
  "consumed_receipt now r = r\<lparr>gr_status := Consumed, gr_consumed := Some now\<rparr>"

definition consumeGatePreparation :: "work \<Rightarrow> gotime \<Rightarrow> ('r, work) store_tx" where
  "consumeGatePreparation w now =
     bindE (consumeGrant (admitted_ref (w_job w)) PrepareGrant now ErrConflict) (\<lambda>_.
     passE (w\<lparr>w_gate := map_option (\<lambda>g. g\<lparr>gate_preparation := consumed_receipt now (gate_preparation g)\<rparr>) (w_gate w)\<rparr>))"

text \<open>The readiness of a preparation is recorded once.\<close>

definition record_readiness :: "work \<Rightarrow> gate \<Rightarrow> action \<Rightarrow> gotime \<Rightarrow> ('r, work) store_tx" where
  "record_readiness w g a now =
     (case act_prepared a of
        None \<Rightarrow> passE w
      | Some p \<Rightarrow>
          if \<not> prep_ready p \<or> \<not> prep_private p then passE w
          else
            let revision = ReadinessRevision p; ref = admitted_ref (w_job w) in
            bindE (refuseE (\<not> digest_valid revision) ErrInvalid) (\<lambda>_.
            if gate_ready_revision g \<noteq> [] then
              bindE (refuseE (gate_ready_revision g \<noteq> revision) ErrConflict) (\<lambda>_. passE w)
            else
              bindE (readE (find_grant PrepareGrant ref)) (\<lambda>found.
              bindE (refuseE (case found of None \<Rightarrow> True | Some x \<Rightarrow> g_ready_revision x \<noteq> None \<or> g_consumed x = None) ErrConflict) (\<lambda>_.
              bindE (update_grant PrepareGrant ref (\<lambda>x. x\<lparr>g_ready_revision := Some revision, g_ready_at := Some (utc now)\<rparr>)) (\<lambda>_.
              passE (w\<lparr>w_gate := Some (g\<lparr>gate_ready_revision := revision, gate_ready_at := Some now\<rparr>)\<rparr>))))))"

text \<open>The start is consumed with its secrets, in the transaction of the intent.\<close>

definition consume_start :: "work \<Rightarrow> gate \<Rightarrow> action \<Rightarrow> gotime \<Rightarrow> ('r, work \<times> action) store_tx" where
  "consume_start w g a now =
     (case (gate_start g, gate_start_receipt g, j_prepared (w_journal w)) of
        (Some start, Some rec, Some prep) \<Rightarrow>
          let ref = admitted_ref (w_job w) in
          bindE (refuseE (gr_status rec \<noteq> Granted \<or> start_authorization_validate prep start \<noteq> None) ErrPolicy) (\<lambda>_.
          bindE (secretForStart (w_job w) (case start_secrets start of None \<Rightarrow> [] | Some x \<Rightarrow> secret_authorization_id x)
            (gate_ready_revision g) now) (\<lambda>secret.
          bindE (if secret = None then passE ()
                 else bindE (refuseE (\<not> act_secrets_available a) SecretUnavailable) (\<lambda>_.
                      consumeGrant ref SecretGrant now SecretUnavailable)) (\<lambda>_.
          bindE (consumeGrant ref StartGrant now ErrConflict) (\<lambda>_.
          passE (w\<lparr>w_gate := Some (g\<lparr>gate_start_receipt := Some (consumed_receipt now rec)\<rparr>)\<rparr>, a\<lparr>act_start := Some start\<rparr>)))))
      | _ \<Rightarrow> failE ErrPolicy)"

definition commitGateStep :: "work \<Rightarrow> action \<Rightarrow> gotime \<Rightarrow> ('r, work \<times> action) store_tx" where
  "commitGateStep w a now =
     (if \<not> SeparateStart (req_spec (adm_request (w_job w))) then
        bindE (refuseE (act_start a \<noteq> None) ErrInvalid) (\<lambda>_. passE (w, a))
      else case w_gate w of
        None \<Rightarrow> failE ErrPolicy
      | Some g \<Rightarrow>
          (case act_kind a of
             PreparationSeen \<Rightarrow> bindE (record_readiness w g a now) (\<lambda>w. passE (w, a))
           | BeginSubmission \<Rightarrow> consume_start w g a now
           | ExpireDispatch \<Rightarrow>
               bindE (if j_plan (w_journal w) = None then releaseGateStorage (admitted_ref (w_job w)) else passE ()) (\<lambda>_.
               passE (w, a))
           | _ \<Rightarrow> passE (w, a)))"

end
