(* ===== verification/Store_Dispatch.thy ===== *)
theory Store_Dispatch
  imports Store_Gate
begin

text \<open>
  What the repository of the dispatch engine reads and writes: claimed work and the policy for new mutations
  (\<open>dispatch.go\<close>), the ledger of resources and intents (\<open>dispatch_ledger.go\<close>), and the operations that wait for
  evidence (\<open>operations_dispatch.go\<close>).
\<close>

section \<open>Claimed work\<close>

definition PhaseGate :: go_error where "PhaseGate = Sentinel ''scheduler.ErrPhaseGate''"

primrec dispatch_failure :: "dispatch_error \<Rightarrow> go_error" where
  "dispatch_failure DispatchInvalid = ErrInvalid"
| "dispatch_failure DispatchConflict = ErrConflict"
| "dispatch_failure DispatchStaleObservation = ErrStaleObservation"
| "dispatch_failure DispatchPanic = runtime_panic"

primrec scheduler_failure :: "scheduler_error \<Rightarrow> go_error" where
  "scheduler_failure SchedulerInvalid = SchedulerErrInvalid"
| "scheduler_failure SchedulerScanLimit = Sentinel ''scheduler.ErrScanLimit''"

definition fromE :: "('e \<Rightarrow> go_error) \<Rightarrow> 'e + 'a \<Rightarrow> ('s, 'a) tx" where
  "fromE f r = liftE (map_sum f id r)"

definition claim_ref :: "claim \<Rightarrow> attempt_ref" where
  "claim_ref c = (sid_workspace (claim_identity c), sid_job (claim_identity c), sid_attempt (claim_identity c))"

definition ownedDispatchClaim :: "claim \<Rightarrow> gotime \<Rightarrow> ('r, attempt \<times> bool) store_tx" where
  "ownedDispatchClaim c now =
     bindE (refuseE (\<not> claim_valid c) SchedulerErrInvalid) (\<lambda>_.
     bindE (on_leases (checkWorkLease (dispatchLease c) now)) (\<lambda>_.
     bindE (find_queue (\<lambda>q. q_sequence q = claim_sequence c \<and> q_identity q = claim_identity c)) (\<lambda>found.
     bindE (readE (\<lambda>s. st_jobs s (fst (claim_ref c), fst (snd (claim_ref c))))) (\<lambda>job.
     case (found, job) of
       (Some q, Some row) \<Rightarrow>
         let p = jrow_profile row in
         bindE (refuseE (jrow_active row \<noteq> snd (snd (claim_ref c))) ErrLeaseLost) (\<lambda>_.
         bindE (refuseE (binding_validate (prof_binding p) \<noteq> None) StoreCorrupt) (\<lambda>_.
         bindE (refuseE (prof_account p \<noteq> claim_account c \<or> binding_instance (prof_binding p) \<noteq> claim_instance c) ErrLeaseLost) (\<lambda>_.
         bindE (loadAttempt (claim_ref c)) (\<lambda>(a, nonce).
         bindE (refuseE (unat (attempt_revision a) \<noteq> claim_attempt_revision c) ErrLeaseLost) (\<lambda>_.
         bindE (refuseE (before now (attempt_updated a)) StoreCorrupt) (\<lambda>_.
         passE (a, q_barrier q)))))))
     | _ \<Rightarrow> failE ErrLeaseLost))))"

definition matchesFrozenPlan ::
  "(request \<Rightarrow> input_snapshot \<Rightarrow> go_error + string) \<Rightarrow> work \<Rightarrow> plan \<Rightarrow> opaque_id \<Rightarrow> go_error option" where
  "matchesFrozenPlan recode w p op_id =
     (case Snapshot (w_job w) (object_refs (adm_objects (w_job w))) of
        Inl e \<Rightarrow> Some e
      | Inr snap \<Rightarrow>
          (case ResolveJob recode (w_installation w) (w_job w) snap of
             Inl e \<Rightarrow> Some e
           | Inr (j, i) \<Rightarrow>
               if op_id \<noteq> i \<or> resolved_job_marshal j \<noteq> resolved_job_marshal (plan_job p) then Some ErrConflict
               else if length (elems (plan_verify_after_start p)) > 1 then Some ErrConflict
               else if list_ex (\<lambda>name. name \<noteq> CapabilityGPU \<or> spec_accelerator (req_spec (adm_request (w_job w))) \<noteq> ''gpu'')
                   (elems (plan_verify_after_start p)) then Some ErrConflict
               else None))"


section \<open>The ledger\<close>

definition identity_text :: "identity \<Rightarrow> string" where
  "identity_text i = json_marshal (identity_json i)"

definition prepared_text :: "prepared option \<Rightarrow> string" where
  "prepared_text p = json_marshal (case p of None \<Rightarrow> JNull | Some x \<Rightarrow> prepared_json x)"

definition executionRef :: "remote_reference \<Rightarrow> string" where
  "executionRef r = json_marshal (JObject [(''resource'', JString (remote_resource r)), (''version'', JString (remote_version r))])"

definition insertResource :: "work \<Rightarrow> plan \<Rightarrow> string \<Rightarrow> string \<Rightarrow> ('r, unit) store_tx" where
  "insertResource w p purpose op_id =
     (let i = rj_identity (plan_job p);
          row = \<lparr>res_operation = op_id, res_purpose = purpose, res_id = ''res_'' @ purpose @ ''_'' @ id_intent i,
            res_workspace = id_workspace i, res_job = id_job i, res_attempt = id_attempt i, res_instance = id_instance i,
            res_account = prof_account (adm_profile (w_job w)), res_key = id_resource_key i, res_identity = identity_text i,
            res_plan = plan_digest p, res_ref = [], res_ready = ''unknown''\<rparr> in
      bindE (readE st_resources) (\<lambda>rows.
      bindE (refuseE (list_ex (\<lambda>r. res_id r = res_id row \<or> res_operation r = op_id
          \<or> res_workspace r = res_workspace row \<and> res_job r = res_job row \<and> res_attempt r = res_attempt row
            \<and> res_purpose r = purpose) rows) StoreConflict) (\<lambda>_.
      writeE (\<lambda>s. s\<lparr>st_resources := st_resources s @ [row]\<rparr>))))"

text \<open>The reference of a discovered resource is written once, and readiness is not taken back.\<close>

definition update_resource :: "string \<Rightarrow> string \<Rightarrow> string \<Rightarrow> string \<Rightarrow> ('r, nat) store_tx" where
  "update_resource op_id purpose ref ready =
     bindE (readE st_resources) (\<lambda>rows.
     let hit = (\<lambda>r. res_operation r = op_id \<and> res_purpose r = purpose) in
     bindE (refuseE (list_ex (\<lambda>r. hit r \<and> (res_ref r \<noteq> [] \<and> ref \<noteq> res_ref r \<or> res_ready r = ''ready'' \<and> ready \<noteq> ''ready'')) rows)
       StoreConflict) (\<lambda>_.
     bindE (writeE (\<lambda>s. s\<lparr>st_resources := map (\<lambda>r. if hit r then r\<lparr>res_ref := ref, res_ready := ready\<rparr> else r) (st_resources s)\<rparr>)) (\<lambda>_.
     passE (length (filter hit rows)))))"

definition insert_intent :: "work \<Rightarrow> plan \<Rightarrow> prepared option \<Rightarrow> ('r, unit) store_tx" where
  "insert_intent w p prep =
     (let i = rj_identity (plan_job p);
          row = \<lparr>int_id = id_intent i, int_sequence = claim_sequence (h_claim (w_handle w)), int_identity = identity_text i,
            int_prepared = prepared_text prep, int_status = ''started'', int_remote = []\<rparr> in
      bindE (readE st_intents) (\<lambda>rows.
      bindE (refuseE (list_ex (\<lambda>r. int_id r = int_id row \<or> int_sequence r = int_sequence row) rows) StoreConflict) (\<lambda>_.
      writeE (\<lambda>s. s\<lparr>st_intents := st_intents s @ [row]\<rparr>))))"

definition update_intent :: "opaque_id \<Rightarrow> string \<Rightarrow> string \<Rightarrow> ('r, unit) store_tx" where
  "update_intent i status remote =
     bindE (readE st_intents) (\<lambda>rows.
     let hit = (\<lambda>r. int_id r = i \<and> (int_status r = ''started'' \<or> int_status r = ''unknown'')) in
     bindE (writeE (\<lambda>s. s\<lparr>st_intents := map (\<lambda>r. if hit r then r\<lparr>int_status := status, int_remote := remote\<rparr> else r) (st_intents s)\<rparr>)) (\<lambda>_.
     refuseE (length (filter hit rows) \<noteq> 1) ErrConflict))"

definition exhausted_quota :: "string \<Rightarrow> gotime \<Rightarrow> quota_observation" where
  "exhausted_quota resource now =
     \<lparr>quota_status = QuotaUnknown, quota_resource = resource, quota_unit = [], quota_limit = None, quota_used = None,
      quota_remaining = None, quota_reset = None, quota_at = now, quota_source = ''provider_rejection'',
      quota_precision = ''unknown''\<rparr>"

definition ledger_outcome :: "work \<Rightarrow> plan \<Rightarrow> journal \<Rightarrow> gotime \<Rightarrow> ('r, unit) store_tx" where
  "ledger_outcome w p j now =
     (let i = id_intent (rj_identity (plan_job p));
          status = (case j_remote j of Some _ \<Rightarrow> ''accepted'' | None \<Rightarrow> if j_phase j = Rejected then ''rejected'' else ''unknown'');
          remote = (case j_remote j of Some r \<Rightarrow> json_marshal (remote_json r) | None \<Rightarrow> []) in
      bindE (update_intent i status remote) (\<lambda>_.
      bindE (if j_phase j = Rejected \<and> (case j_problem j of Some q \<Rightarrow> code q = CodeQuotaExhausted | None \<Rightarrow> False) then
               let resource = spec_accelerator (req_spec (adm_request (w_job w))) in
               writeE (\<lambda>s. s\<lparr>st_quotas := (st_quotas s)((prof_account (adm_profile (w_job w)), resource)
                 \<mapsto> (exhausted_quota resource now, True))\<rparr>)
             else passE ()) (\<lambda>_.
      case j_remote j of
        None \<Rightarrow> passE ()
      | Some r \<Rightarrow> bindE (update_resource i ''execution'' (executionRef r) ''ready'') (\<lambda>_. passE ()))))"

definition writeDispatchLedger :: "'r tx_env \<Rightarrow> work \<Rightarrow> journal \<Rightarrow> kind \<Rightarrow> gotime \<Rightarrow> ('r, unit) store_tx" where
  "writeDispatchLedger env w j k now =
     (case j_plan j of
        None \<Rightarrow> if k = BeginPreparation then failE runtime_panic else passE ()
      | Some p \<Rightarrow>
          (case k of
             BeginPreparation \<Rightarrow>
               bindE (insertResource w p ''staging'' (j_preparation_id j)) (\<lambda>_. on_rest (tx_reserve env w j now))
           | PreparationSeen \<Rightarrow>
               (case j_prepared j of
                  None \<Rightarrow> failE runtime_panic
                | Some x \<Rightarrow>
                    bindE (update_resource (j_preparation_id j) ''staging'' (prep_resource x)
                      (if prep_ready x then ''ready'' else ''pending'')) (\<lambda>n. refuseE (n \<noteq> 1) StoreCorrupt))
           | BeginSubmission \<Rightarrow>
               bindE (insertResource w p ''execution'' (id_intent (rj_identity (plan_job p)))) (\<lambda>_.
               insert_intent w p (j_prepared j))
           | SubmissionSeen \<Rightarrow> ledger_outcome w p j now
           | SubmissionAbsenceSeen \<Rightarrow> ledger_outcome w p j now
           | OwnerSubmissionAbsent \<Rightarrow> ledger_outcome w p j now
           | _ \<Rightarrow> passE ()))"

definition check_resource :: "work \<Rightarrow> plan \<Rightarrow> string \<Rightarrow> string \<Rightarrow> string \<Rightarrow> string \<Rightarrow> ('r, unit) store_tx" where
  "check_resource w p purpose op_id ref ready =
     bindE (readE (\<lambda>s. find (\<lambda>r. res_operation r = op_id \<and> res_purpose r = purpose) (st_resources s))) (\<lambda>found.
     let i = rj_identity (plan_job p) in
     case found of
       None \<Rightarrow> failE StoreCorrupt
     | Some r \<Rightarrow> refuseE (res_workspace r \<noteq> id_workspace i \<or> res_job r \<noteq> id_job i \<or> res_attempt r \<noteq> id_attempt i
         \<or> res_instance r \<noteq> id_instance i \<or> res_account r \<noteq> prof_account (adm_profile (w_job w)) \<or> res_key r \<noteq> id_resource_key i
         \<or> res_identity r \<noteq> identity_text i \<or> res_plan r \<noteq> plan_digest p \<or> res_ref r \<noteq> ref \<or> res_ready r \<noteq> ready) StoreCorrupt)"

definition checkDispatchLedger :: "work \<Rightarrow> plan \<Rightarrow> ('r, unit) store_tx" where
  "checkDispatchLedger w p =
     (let j = w_journal w; i = rj_identity (plan_job p) in
      bindE (check_resource w p ''staging'' (j_preparation_id j)
        (case j_prepared j of None \<Rightarrow> [] | Some x \<Rightarrow> prep_resource x)
        (case j_prepared j of None \<Rightarrow> ''unknown'' | Some x \<Rightarrow> if prep_ready x then ''ready'' else ''pending'')) (\<lambda>_.
      if \<not> j_submit_started j then passE ()
      else
        bindE (readE (\<lambda>s. find (\<lambda>r. int_id r = id_intent i) (st_intents s))) (\<lambda>found.
        case found of
          None \<Rightarrow> failE StoreCorrupt
        | Some r \<Rightarrow>
            bindE (refuseE (int_sequence r \<noteq> claim_sequence (h_claim (w_handle w)) \<or> int_identity r \<noteq> identity_text i
                \<or> int_prepared r \<noteq> prepared_text (j_prepared j)) StoreCorrupt) (\<lambda>_.
            case j_remote j of
              Some x \<Rightarrow>
                bindE (refuseE (int_status r \<noteq> ''accepted'' \<or> int_remote r \<noteq> json_marshal (remote_json x)) StoreCorrupt) (\<lambda>_.
                check_resource w p ''execution'' (id_intent i) (executionRef x) ''ready'')
            | None \<Rightarrow>
                bindE (refuseE (if j_phase j = Rejected then int_status r \<noteq> ''rejected''
                    else int_status r \<noteq> ''started'' \<and> int_status r \<noteq> ''unknown'') StoreCorrupt) (\<lambda>_.
                bindE (refuseE (int_remote r \<noteq> []) StoreCorrupt) (\<lambda>_.
                check_resource w p ''execution'' (id_intent i) [] ''unknown''))))))"


section \<open>Loading\<close>

definition pending :: "operation \<Rightarrow> bool" where
  "pending x \<longleftrightarrow> operation_status x = OperationAccepted \<or> operation_status x = OperationRunning"

definition pendingCancellation :: "work \<Rightarrow> ('r, cancellation_control option) store_tx" where
  "pendingCancellation w =
     bindE (readE (\<lambda>s. find (\<lambda>row. operation_ref (row_operation row) = admitted_ref (w_job w)
         \<and> operation_kind (row_operation row) = OperationCancel \<and> pending (row_operation row)) (st_operations s))) (\<lambda>found.
     case found of
       None \<Rightarrow> passE None
     | Some row \<Rightarrow>
         bindE (loadOperation (job_workspace (adm_job (w_job w))) (operation_id (row_operation row))) (\<lambda>row.
         passE (Some \<lparr>cc_operation = row_operation row, cc_started = orow_started row\<rparr>)))"

text \<open>The evidence of the gate and of the ledger that a planned journal needs.\<close>

definition planned_ok :: "'r tx_env \<Rightarrow> work \<Rightarrow> plan \<Rightarrow> gotime \<Rightarrow> ('r, unit) store_tx" where
  "planned_ok env w p now =
     (let j = w_journal w in
      bindE (refuseE (SeparateStart (req_spec (adm_request (w_job w))) \<and>
          (case w_gate w of
             None \<Rightarrow> True
           | Some g \<Rightarrow>
               (case j_prepared j of None \<Rightarrow> False | Some x \<Rightarrow> prep_ready x \<and> ReadinessRevision x \<noteq> gate_ready_revision g)
               \<or> (if j_submit_started j then
                    (case (gate_start g, gate_start_receipt g, j_start j) of
                       (Some start, Some rec, Some auth) \<Rightarrow> gr_status rec \<noteq> Consumed \<or> \<not> start_authorization_equal auth start
                     | _ \<Rightarrow> True)
                  else (case gate_start_receipt g of None \<Rightarrow> False | Some rec \<Rightarrow> gr_status rec = Consumed)))) StoreCorrupt) (\<lambda>_.
      bindE (\<lambda>s. case dispatchAuthorization w now s of Inl _ \<Rightarrow> Inl StoreCorrupt | Inr x \<Rightarrow> Inr x) (\<lambda>status.
      bindE (refuseE (status \<noteq> Consumed) StoreCorrupt) (\<lambda>_.
      bindE (refuseE (matchesFrozenPlan (tx_recode env) w p (j_preparation_id j) \<noteq> None) StoreCorrupt) (\<lambda>_.
      checkDispatchLedger w p)))))"

definition loadDispatch :: "'r tx_env \<Rightarrow> claim \<Rightarrow> gotime \<Rightarrow> ('r, work) store_tx" where
  "loadDispatch env c now =
     bindE schedulerControl (\<lambda>_.
     bindE (ownedDispatchClaim c now) (\<lambda>(a, barrier).
     bindE (loadJournal (claim_sequence c)) (\<lambda>j.
     bindE (refuseE (j_plan j \<noteq> None \<and> \<not> barrier
         \<or> j_plan j = None \<and> barrier \<and> j_phase j \<noteq> Failed \<and> j_phase j \<noteq> Prevented) StoreCorrupt) (\<lambda>_.
     bindE (readJobRecord (fst (claim_ref c)) (fst (snd (claim_ref c)))) (\<lambda>r.
     bindE (refuseE (adm_attempt r \<noteq> a) ErrLeaseLost) (\<lambda>_.
     bindE (readE st_installation) (\<lambda>installation.
     bindE (loadExecutionGate r now) (\<lambda>g.
     bindE (refuseE (\<not> validOpaqueID installation) StoreCorrupt) (\<lambda>_.
     let w = \<lparr>w_installation = installation, w_handle = \<lparr>h_claim = c, h_version = j_version j\<rparr>, w_job = r,
           w_journal = j, w_cancellation = None, w_gate = g\<rparr> in
     bindE (case j_plan j of
         Some p \<Rightarrow> planned_ok env w p now
       | None \<Rightarrow> refuseE (j_phase j \<noteq> Failed \<and> j_phase j \<noteq> Prevented \<and> \<not> LocalOnly (attempt_state a)) PhaseGate) (\<lambda>_.
     bindE (pendingCancellation w) (\<lambda>cc.
     passE (w\<lparr>w_cancellation := cc\<rparr>))))))))))))"

definition LoadDispatch :: "'r tx_env \<Rightarrow> claim \<Rightarrow> 'r store \<Rightarrow> (go_error + work) \<times> 'r store" where
  "LoadDispatch env c = store_write env (\<lambda>now. loadDispatch env c now)"

definition checkHandle :: "work \<Rightarrow> handle \<Rightarrow> go_error option" where
  "checkHandle w h = fail_if (h_version h \<noteq> j_version (w_journal w)) ErrConflict"

text \<open>The work that a handle names, unless another step came first.\<close>

definition owned_work :: "'r tx_env \<Rightarrow> handle \<Rightarrow> gotime \<Rightarrow> ('r, work) store_tx" where
  "owned_work env h now =
     bindE (loadDispatch env (h_claim h) now) (\<lambda>w.
     bindE (checkE (checkHandle w h)) (\<lambda>_. passE w))"


section \<open>Policy for new mutations\<close>

definition row_policy :: "scheduler_settings \<Rightarrow> view \<Rightarrow> candidate \<Rightarrow> gotime \<Rightarrow> go_error option" where
  "row_policy settings v row now =
     first_error
       [fail_if (\<not> cand_active_attempt row \<or> \<not> cand_workspace_enabled row \<or> policy_disabled (cand_policy row)
          \<or> live_workers v > max_workers settings
          \<or> (case account_reservations v (cand_account row) of None \<Rightarrow> 0 | Some n \<Rightarrow> n)
              > min (max_active_per_account settings) (policy_max_active (cand_policy row))) ErrPolicy,
        fail_if (fst (Decide (cand_quota row) (cand_resource row) (cand_wall_seconds row)
            (policy_strict_quota (cand_policy row)) (quota_fresh_for settings) now) \<noteq> Eligible) ErrPolicy]"

definition newMutationPolicy :: "'r tx_env \<Rightarrow> work \<Rightarrow> gotime \<Rightarrow> ('r, unit) store_tx" where
  "newMutationPolicy env w now =
     bindE (readE st_rest) (\<lambda>rest.
     bindE (checkE (tx_host env (w_job w) now rest)) (\<lambda>_.
     bindE (if j_plan (w_journal w) = None then
              checkE (first_error [tx_remote env w rest, tx_image env (w_job w) now rest, tx_storage env (w_job w) now rest])
            else passE ()) (\<lambda>_.
     bindE (refuseE (spec_expired (req_spec (adm_request (w_job w))) now
         \<or> (case w_gate w of None \<Rightarrow> False | Some g \<Rightarrow> gate_expired g now)) AdmissionErrExpired) (\<lambda>_.
     bindE schedulerControl (\<lambda>(settings, last).
     bindE (refuseE (paused settings \<or> \<not> LocalOnly (attempt_state (adm_attempt (w_job w)))) ErrPolicy) (\<lambda>_.
     bindE (readE (\<lambda>s. tx_snapshot env s settings now)) (\<lambda>rows.
     bindE (liftE rows) (\<lambda>rows.
     bindE (fromE scheduler_failure (Select rows last settings now)) (\<lambda>(index, v).
     case find (\<lambda>row. cand_sequence row = claim_sequence (h_claim (w_handle w))) rows of
       Some row \<Rightarrow> checkE (row_policy settings v row now)
     | None \<Rightarrow> failE ErrConflict)))))))))"


section \<open>Operations that wait for evidence\<close>

definition controlProblem :: "error_code \<Rightarrow> bool \<Rightarrow> problem option" where
  "controlProblem c may =
     (case (if c = CodeRemoteCancelUnsupported then
              Some (''Remote cancellation is unsupported or unverified for this binding; manual intervention may be required.'',
                RecommendedActionInspectProvider)
            else if c = CodeArtifactCollectionFailed then
              Some (''Artifact verification did not complete; collect the same attempt without rerunning compute.'',
                RecommendedActionCollect)
            else if c = CodeRemoteExecutionUnresolved then
              Some (''Remote execution is unresolved; inspect or reconcile the recorded identity without resubmitting.'',
                RecommendedActionReconcile)
            else None) of
        None \<Rightarrow> None
      | Some (text, act) \<Rightarrow>
          (case NewProblem c text (if c = CodeArtifactCollectionFailed then FailureStageResults else FailureStageOperation) of
             Inl _ \<Rightarrow> None
           | Inr p \<Rightarrow> Some (WithRecommendedAction act (WithRetrySemantics False may p))))"

definition refresh_work :: "attempt \<Rightarrow> work \<Rightarrow> work" where
  "refresh_work a w = w\<lparr>w_job := (w_job w)\<lparr>adm_attempt := a\<rparr>,
     w_handle := (w_handle w)\<lparr>h_claim := (h_claim (w_handle w))\<lparr>claim_attempt_revision := unat (attempt_revision a)\<rparr>\<rparr>\<rparr>"

text \<open>A cancellation that an observation leaves running is given up after a bounded number of polls.\<close>

definition count_poll :: "'r tx_env \<Rightarrow> work \<Rightarrow> operation_row \<Rightarrow> kind option \<Rightarrow> gotime \<Rightarrow> ('r, work \<times> attempt_state) store_tx" where
  "count_poll env w row k now =
     (let state = attempt_state (adm_attempt (w_job w)); x = row_operation row in
      if k = Some ObservationSeen \<and> \<not> execution_terminal (execution state) \<and> cancellation state \<noteq> CancellationManual then
        bindE (controlEvent env (operation_ref x) (operation_id x) EventExecutionObserved now) (\<lambda>_.
        bindE (readE (\<lambda>s. length (filter (\<lambda>e. event_workspace e = operation_workspace x
            \<and> event_operation e = operation_id x \<and> event_type e = EventExecutionObserved) (st_events s)))) (\<lambda>polls.
        if int polls \<ge> MaxFailures then
          let state = state\<lparr>cancellation := CancellationManual, orchestration := OrchestrationNeedsAttention\<rparr> in
          bindE (controlState env x (adm_attempt (w_job w)) state EventCancellationObserved now) (\<lambda>updated.
          passE (refresh_work updated w, state))
        else passE (w, state)))
      else passE (w, state))"

definition cancel_verdict :: "attempt_state \<Rightarrow> (operation_status \<times> effect \<times> problem option) option" where
  "cancel_verdict state =
     (case cancellation state of
        CancellationConfirmed \<Rightarrow> Some (OperationSucceeded, CancellationConfirmedEffect, None)
      | CancellationPrevented \<Rightarrow> Some (OperationSucceeded, DispatchPrevented, None)
      | CancellationTooLate \<Rightarrow> Some (OperationSucceeded, TooLate, None)
      | CancellationManual \<Rightarrow> Some (OperationManualRequired, ManualRequired, controlProblem CodeRemoteExecutionUnresolved True)
      | _ \<Rightarrow> None)"

definition reconcile_verdict :: "journal \<Rightarrow> kind option \<Rightarrow> (operation_status \<times> effect \<times> problem option) option" where
  "reconcile_verdict j k =
     (if j_phase j = Attention then
        Some (OperationManualRequired, ManualRequired, controlProblem CodeRemoteExecutionUnresolved True)
      else if k = Some PreparationSeen \<and> \<not> j_submit_started j \<and> j_prepared j \<noteq> None
          \<or> k = Some SubmissionSeen \<and> j_remote j \<noteq> None
          \<or> k = Some SubmissionAbsenceSeen \<and> j_phase j = Rejected
          \<or> k = Some ObservationSeen \<and> (case j_observation j of None \<Rightarrow> False | Some ob \<Rightarrow> obs_execution ob \<noteq> ExecutionUnknown)
      then Some (OperationSucceeded, ObservationRefreshed, None)
      else None)"

fun finish_each :: "'r tx_env \<Rightarrow> kind option \<Rightarrow> gotime \<Rightarrow> opaque_id list \<Rightarrow> work \<Rightarrow> ('r, work) store_tx" where
  "finish_each env k now [] w = passE w"
| "finish_each env k now (i # ids) w =
     bindE (loadOperation (job_workspace (adm_job (w_job w))) i) (\<lambda>row.
     bindE (if operation_kind (row_operation row) = OperationCancel then
              bindE (count_poll env w row k now) (\<lambda>(w, state). passE (w, cancel_verdict state))
            else passE (w, reconcile_verdict (w_journal w) k)) (\<lambda>(w, verdict).
     case verdict of
       None \<Rightarrow> finish_each env k now ids w
     | Some (status, effect, problem) \<Rightarrow>
         bindE (finishControl env row status
           (if k = Some SubmissionAbsenceSeen \<and> j_phase (w_journal w) = Rejected then SubmissionResolvedAbsent else effect)
           problem now) (\<lambda>_. finish_each env k now ids w)))"

definition finishObservedOperations :: "'r tx_env \<Rightarrow> work \<Rightarrow> kind option \<Rightarrow> gotime \<Rightarrow> ('r, work) store_tx" where
  "finishObservedOperations env w k now =
     bindE (readE (\<lambda>s. map (\<lambda>row. operation_id (row_operation row)) (filter (\<lambda>row.
         operation_ref (row_operation row) = admitted_ref (w_job w)
         \<and> operation_kind (row_operation row) \<in> {OperationCancel, OperationReconcile} \<and> pending (row_operation row))
         (st_operations s)))) (\<lambda>ids.
     finish_each env k now ids w)"

end
