(* ===== verification/Store_Commit.thy ===== *)
theory Store_Commit
  imports Store_Dispatch
begin

text \<open>
  The transactions of the dispatch repository, \<open>dispatch.go\<close>, \<open>authorization_dispatch.go\<close>, \<open>dispatch_lease.go\<close>,
  \<open>scheduler.go\<close>, \<open>preparation_progress.go\<close> and \<open>operations_dispatch.go\<close>.
\<close>

section \<open>Committing a step\<close>

text \<open>A refusal of new work is recorded only when the store sees the same cause.\<close>

definition refusal_checks :: "'r tx_env \<Rightarrow> work \<Rightarrow> string \<Rightarrow> gotime \<Rightarrow> 'r \<Rightarrow> go_error + (go_error option \<times> string)" where
  "refusal_checks env w reason now rest =
     (if reason = [] \<or> reason = ''host_unhealthy'' then
        if \<not> tx_host_enabled env then Inl ErrInvalid
        else Inr (tx_host env (w_job w) now rest, ''admission.ErrHostUnhealthy'')
      else if reason \<in> {''remote_staging_dataset_limit'', ''remote_kernel_limit'', ''remote_attempt_container_limit'',
          ''remote_resource_scope_unknown'', ''remote_shared_dataset_limit''} then
        let refusal = tx_remote env w rest in
        if Reason refusal [] \<noteq> reason then Inl ErrPolicy else Inr (refusal, ''provider.ErrResourceCountLimit'')
      else if reason = ''host_image_count_limit'' then Inr (tx_image env (w_job w) now rest, ''hostimages.ErrCountLimit'')
      else if reason = ''host_storage_limit'' then Inr (tx_storage env (w_job w) now rest, ''hoststorage.ErrHardLimit'')
      else if reason = ''host_storage_unknown'' then Inr (tx_storage env (w_job w) now rest, ''hoststorage.ErrUnknown'')
      else Inl ErrInvalid)"

definition confirm_refusal :: "'r tx_env \<Rightarrow> work \<Rightarrow> action \<Rightarrow> gotime \<Rightarrow> ('r, unit) store_tx" where
  "confirm_refusal env w a now =
     (if act_kind a \<noteq> RefuseNewWork then passE ()
      else
        bindE (readE (\<lambda>s. refusal_checks env w (act_refusal_reason a) now (st_rest s))) (\<lambda>r.
        bindE (liftE r) (\<lambda>(refusal, expected).
        checkE (if errors_is expected refusal then None
          else case refusal of Some e \<Rightarrow> Some e | None \<Rightarrow> Some ErrPolicy))))"

definition confirm_expiry :: "work \<Rightarrow> action \<Rightarrow> gotime \<Rightarrow> ('r, action) store_tx" where
  "confirm_expiry w a now =
     (if act_kind a \<noteq> ExpireDispatch then passE a
      else
        let s = req_spec (adm_request (w_job w)) in
        bindE (refuseE (\<not> spec_expired s now \<and> (case w_gate w of None \<Rightarrow> True | Some g \<Rightarrow> \<not> gate_expired g now)) ErrInvalid) (\<lambda>_.
        passE (a\<lparr>act_preparation_expired :=
          (case w_gate w of
             None \<Rightarrow> False
           | Some g \<Rightarrow>
               if spec_expired s now then False
               else
                 let until = parse_or_zero (preq_ready_until (gate_request g)) in
                 \<not> before now until
                 \<and> (case gate_start g of
                      None \<Rightarrow> True | Some x \<Rightarrow> \<not> before (parse_or_zero (start_deadline x)) until))\<rparr>)))"

definition confirm_new_work :: "'r tx_env \<Rightarrow> work \<Rightarrow> action \<Rightarrow> gotime \<Rightarrow> ('r, unit) store_tx" where
  "confirm_new_work env w a now =
     bindE (if begins_work (act_kind a) then
              bindE (dispatchAuthorization w now) (\<lambda>status.
              bindE (refuseE (status \<noteq> Consumed) ErrPolicy) (\<lambda>_.
              newMutationPolicy env w now))
            else passE ()) (\<lambda>_.
     if act_kind a = BeginPreparation then
       (case act_plan a of
          None \<Rightarrow> failE ErrInvalid
        | Some p \<Rightarrow> checkE (matchesFrozenPlan (tx_recode env) w p (act_preparation_id a)))
     else passE ())"

text \<open>An attempt that ends without a plan gives back what it held.\<close>

definition release_unplanned :: "'r tx_env \<Rightarrow> attempt_ref \<Rightarrow> gotime \<Rightarrow> ('r, unit) store_tx" where
  "release_unplanned env ref now =
     bindE (releaseGateStorage ref) (\<lambda>_. on_rest (tx_release env ref now))"

definition cross_barrier :: "'r tx_env \<Rightarrow> handle \<Rightarrow> work \<Rightarrow> gotime \<Rightarrow> ('r, unit) store_tx" where
  "cross_barrier env h w now =
     bindE (schedulerTransition env (claim_identity (h_claim h)) (adm_attempt (w_job w))
       (attempt_state (adm_attempt (w_job w))) EventInputsReady now) (\<lambda>_.
     update_queue (claim_sequence (h_claim h)) (\<lambda>q. q\<lparr>q_barrier := True\<rparr>))"

definition commit_dispatch :: "'r tx_env \<Rightarrow> handle \<Rightarrow> action \<Rightarrow> gotime \<Rightarrow> ('r, work) store_tx" where
  "commit_dispatch env h a now =
     bindE (owned_work env h now) (\<lambda>w.
     bindE (confirm_refusal env w a now) (\<lambda>_.
     bindE (confirm_expiry w a now) (\<lambda>a.
     bindE (confirm_new_work env w a now) (\<lambda>_.
     bindE (commitGateStep w a now) (\<lambda>(w, a).
     bindE (fromE dispatch_failure (Apply (w_journal w) (attempt_state (adm_attempt (w_job w))) a now)) (\<lambda>(next, state, event).
     bindE (if orchestration_terminal (orchestration state) \<and> j_plan next = None
            then release_unplanned env (admitted_ref (w_job w)) now else passE ()) (\<lambda>_.
     bindE (refuseE (case journal_marshal next of None \<Rightarrow> True | Some raw \<Rightarrow> length raw > MaxJournalBytes) ErrInvalid) (\<lambda>_.
     bindE (writeDispatchLedger env w next (act_kind a) now) (\<lambda>_.
     bindE (if act_kind a = BeginPreparation then cross_barrier env h w now else passE ()) (\<lambda>_.
     bindE (schedulerTransition env (claim_identity (h_claim h)) (adm_attempt (w_job w)) state event now) (\<lambda>updated.
     bindE (put_journal (claim_sequence (h_claim h)) (h_version h) ErrConflict next) (\<lambda>_.
     let w = refresh_work updated (w\<lparr>w_journal := next, w_handle := (w_handle w)\<lparr>h_version := j_version next\<rparr>\<rparr>) in
     bindE (finishObservedOperations env w (Some (act_kind a)) now) (\<lambda>w.
     bindE (pendingCancellation w) (\<lambda>cc.
     passE (w\<lparr>w_cancellation := cc\<rparr>)))))))))))))))"

definition CommitDispatch :: "'r tx_env \<Rightarrow> handle \<Rightarrow> action \<Rightarrow> 'r store \<Rightarrow> (go_error + work) \<times> 'r store" where
  "CommitDispatch env h a s =
     (if act_kind a = PreventDispatch \<or> act_kind a = RequestReconciliation \<or> act_kind a = OwnerSubmissionAbsent
      then (Inl ErrInvalid, s)
      else store_write env (commit_dispatch env h a) s)"

definition consume_authorization :: "'r tx_env \<Rightarrow> handle \<Rightarrow> gotime \<Rightarrow> ('r, work) store_tx" where
  "consume_authorization env h now =
     bindE (owned_work env h now) (\<lambda>w.
     bindE (refuseE (j_phase (w_journal w) \<noteq> Local \<or> j_plan (w_journal w) \<noteq> None) ErrConflict) (\<lambda>_.
     bindE (newMutationPolicy env w now) (\<lambda>_.
     bindE (dispatchAuthorization w now) (\<lambda>status.
     if status = Granted \<and> w_gate w \<noteq> None then consumeGatePreparation w now
     else if status = Granted then
       bindE (consumeGrant (admitted_ref (w_job w)) ExecutionGrant now ErrConflict) (\<lambda>_. passE w)
     else passE w))))"

definition ConsumeAuthorization :: "'r tx_env \<Rightarrow> handle \<Rightarrow> 'r store \<Rightarrow> (go_error + work) \<times> 'r store" where
  "ConsumeAuthorization env h = store_write env (consume_authorization env h)"


section \<open>Claiming\<close>

definition scheduler_view ::
  "'r tx_env \<Rightarrow> gotime \<Rightarrow> ('r, scheduler_settings \<times> candidate list \<times> int \<times> view) store_tx" where
  "scheduler_view env now =
     bindE schedulerControl (\<lambda>(settings, last).
     bindE (readE (\<lambda>s. tx_snapshot env s settings now)) (\<lambda>rows.
     bindE (liftE rows) (\<lambda>rows.
     bindE (fromE scheduler_failure (Select rows last settings now)) (\<lambda>(index, v).
     passE (settings, rows, index, v)))))"

text \<open>
  The rows that recovery may take, by the time they are due and then by their sequence.  A row needs its journal, its
  barrier, a recoverable phase, an attempt that has not ended, no held lease, and either a reason to act on a ready
  preparation or another phase.
\<close>

definition recoverable_row :: "'r tx_env \<Rightarrow> gotime \<Rightarrow> 'r store \<Rightarrow> queue_row \<Rightarrow> bool" where
  "recoverable_row env now s q \<longleftrightarrow>
     (let i = q_identity q; ref = (sid_workspace i, sid_job i, sid_attempt i) in
      case (st_journals s (q_sequence q), st_jobs s (sid_workspace i, sid_job i), st_attempts s ref) of
        (Some d, Some job, Some a) \<Rightarrow>
          jrow_active job = sid_attempt i \<and> \<not> tx_retired env ref (st_rest s) \<and> q_barrier q
          \<and> jl_phase d \<in> {''staging'', ''ready'', ''submitting'', ''submitted''}
          \<and> \<not> orchestration_terminal (orchestration (attempt_state (arow_attempt a)))
          \<and> (jl_phase d \<noteq> ''ready''
             \<or> (case find_grant PrepareGrant ref s of None \<Rightarrow> True | Some g \<Rightarrow> g_ready_until g \<le> unix_milli now)
             \<or> find_grant StartGrant ref s \<noteq> None
             \<or> list_ex (\<lambda>row. operation_ref (row_operation row) = ref \<and> operation_kind (row_operation row) = OperationCancel
                 \<and> pending (row_operation row)) (st_operations s))
          \<and> q_not_before q \<le> unix_milli now
          \<and> (case st_leases s (DispatchWork, workKey [JInt (q_sequence q)]) of
               None \<Rightarrow> True | Some l \<Rightarrow> \<not> lr_held l \<or> lr_until l \<le> unix_milli now)
      | _ \<Rightarrow> False)"

definition due_before :: "queue_row \<Rightarrow> queue_row \<Rightarrow> bool" where
  "due_before p q \<longleftrightarrow> q_not_before p < q_not_before q \<or> q_not_before p = q_not_before q \<and> q_sequence p < q_sequence q"

definition first_due :: "queue_row list \<Rightarrow> queue_row option" where
  "first_due qs = foldr (\<lambda>q best. case best of None \<Rightarrow> Some q | Some b \<Rightarrow> if due_before b q then Some b else Some q) qs None"

definition claim_of :: "candidate \<Rightarrow> string \<Rightarrow> work_lease \<Rightarrow> attempt \<Rightarrow> sched_reason \<Rightarrow> claim" where
  "claim_of row owner lease a warning =
     \<lparr>claim_identity = cand_identity row, claim_sequence = cand_sequence row, claim_owner = owner,
      claim_generation = wl_generation lease, claim_fence = wl_fence lease, claim_expires_at = wl_until lease,
      claim_attempt_revision = unat (attempt_revision a), claim_account = cand_account row, claim_instance = cand_instance row,
      claim_quota_warning = warning\<rparr>"

definition wanted_lease :: "int \<Rightarrow> string \<Rightarrow> work_lease" where
  "wanted_lease sequence owner =
     \<lparr>wl_kind = DispatchWork, wl_key = workKey [JInt sequence], wl_owner = owner, wl_fence = [], wl_generation = 0,
      wl_until = zero_time, wl_operation = None, wl_revision = None\<rparr>"

text \<open>The attempt of a row and a lease on it.\<close>

definition lease_row_for ::
  "'r tx_env \<Rightarrow> candidate \<Rightarrow> string \<Rightarrow> scheduler_settings \<Rightarrow> gotime \<Rightarrow> ('r, attempt \<times> work_lease) store_tx" where
  "lease_row_for env row owner settings now =
     (let i = cand_identity row in
      bindE (loadAttempt (sid_workspace i, sid_job i, sid_attempt i)) (\<lambda>(a, nonce).
      bindE (refuseE (before now (attempt_updated a)) StoreCorrupt) (\<lambda>_.
      bindE (on_leases (claimWorkLease True (tx_fence env) (wanted_lease (cand_sequence row) owner) now (lease_duration settings))) (\<lambda>lease.
      passE (a, lease)))))"

definition claim_recovery :: "'r tx_env \<Rightarrow> string \<Rightarrow> gotime \<Rightarrow> ('r, claim option) store_tx" where
  "claim_recovery env owner now =
     bindE (scheduler_view env now) (\<lambda>(settings, rows, index, v).
     if live_workers v \<ge> max_workers settings then passE None
     else
       bindE (readE (\<lambda>s. first_due (filter (recoverable_row env now s) (st_queue s)))) (\<lambda>found.
       case found of
         None \<Rightarrow> passE None
       | Some q \<Rightarrow>
           (case find (\<lambda>row. cand_sequence row = q_sequence q) rows of
              None \<Rightarrow> failE StoreCorrupt
            | Some row \<Rightarrow>
                bindE (lease_row_for env row owner settings now) (\<lambda>(a, lease).
                let c = claim_of row owner lease a NoReason in
                bindE (loadDispatch env c now) (\<lambda>_.
                bindE (schedulerTransition env (cand_identity row) a (attempt_state a) EventSchedulerClaimed now) (\<lambda>_.
                passE (Some c)))))))"

definition ClaimRecovery :: "'r tx_env \<Rightarrow> string \<Rightarrow> 'r store \<Rightarrow> (go_error + claim option) \<times> 'r store" where
  "ClaimRecovery env owner s =
     (if \<not> validOpaqueID owner then (Inl SchedulerErrInvalid, s) else store_write env (claim_recovery env owner) s)"

text \<open>A scheduling resource is reserved once for a row, and a later claim of the row keeps the reservation.\<close>

definition reserve_resource :: "candidate \<Rightarrow> ('r, unit) store_tx" where
  "reserve_resource row =
     (if cand_resource_scope row = [] then passE ()
      else writeE (\<lambda>s. case st_reservations s (cand_sequence row) of
          Some _ \<Rightarrow> s
        | None \<Rightarrow> s\<lparr>st_reservations := (st_reservations s)
            (cand_sequence row \<mapsto> (cand_resource_kind row, cand_resource_scope row))\<rparr>))"

definition head_warning :: "view \<Rightarrow> candidate \<Rightarrow> sched_reason" where
  "head_warning v row =
     (case filter (\<lambda>h. queue_sequence h = cand_sequence row) (view_heads v) of
        [] \<Rightarrow> NoReason | hs \<Rightarrow> queue_warning (last hs))"

definition claim_next :: "'r tx_env \<Rightarrow> string \<Rightarrow> gotime \<Rightarrow> ('r, claim option \<times> view) store_tx" where
  "claim_next env owner now =
     bindE (scheduler_view env now) (\<lambda>(settings, rows, index, v).
     if index < 0 then passE (None, v)
     else
       let row = rows ! nat index in
       bindE (reserve_resource row) (\<lambda>_.
       bindE (lease_row_for env row owner settings now) (\<lambda>(a, lease).
       bindE (schedulerTransition env (cand_identity row) a
         ((attempt_state a)\<lparr>orchestration := OrchestrationPreparing\<rparr>) EventSchedulerClaimed now) (\<lambda>updated.
       bindE (writeE (\<lambda>s. s\<lparr>st_last := cand_workspace row\<rparr>)) (\<lambda>_.
       passE (Some (claim_of row owner lease updated (head_warning v row)), v))))))"

definition ClaimNext :: "'r tx_env \<Rightarrow> string \<Rightarrow> 'r store \<Rightarrow> (go_error + claim option \<times> view) \<times> 'r store" where
  "ClaimNext env owner s =
     (if \<not> validOpaqueID owner then (Inl SchedulerErrInvalid, s) else store_write env (claim_next env owner) s)"

definition renew_dispatch :: "'r tx_env \<Rightarrow> handle \<Rightarrow> gotime \<Rightarrow> ('r, handle) store_tx" where
  "renew_dispatch env h now =
     bindE (owned_work env h now) (\<lambda>_.
     bindE schedulerControl (\<lambda>(settings, last).
     bindE (on_leases (renewWorkLease True (dispatchLease (h_claim h)) now (lease_duration settings))) (\<lambda>until.
     passE (h\<lparr>h_claim := (h_claim h)\<lparr>claim_expires_at := until\<rparr>\<rparr>))))"

definition RenewDispatch :: "'r tx_env \<Rightarrow> handle \<Rightarrow> 'r store \<Rightarrow> (go_error + handle) \<times> 'r store" where
  "RenewDispatch env h = store_write env (renew_dispatch env h)"

definition yield_dispatch :: "'r tx_env \<Rightarrow> handle \<Rightarrow> int \<Rightarrow> gotime \<Rightarrow> ('r, unit) store_tx" where
  "yield_dispatch env h delay now =
     bindE (owned_work env h now) (\<lambda>w.
     let until = add_time now delay; a = adm_attempt (w_job w) in
     bindE (refuseE (\<not> ValidTime until) SchedulerErrInvalid) (\<lambda>_.
     bindE (schedulerTransition env (claim_identity (h_claim h)) a (attempt_state a) EventSchedulerReleased now) (\<lambda>_.
     bindE (on_leases (releaseWorkLease True (dispatchLease (h_claim h)) now)) (\<lambda>_.
     update_queue (claim_sequence (h_claim h)) (\<lambda>q. q\<lparr>q_not_before := unix_milli until\<rparr>)))))"

definition YieldDispatch :: "'r tx_env \<Rightarrow> handle \<Rightarrow> int \<Rightarrow> 'r store \<Rightarrow> (go_error + unit) \<times> 'r store" where
  "YieldDispatch env h delay s =
     (if delay < 0 \<or> delay > hour_ns then (Inl SchedulerErrInvalid, s) else store_write env (yield_dispatch env h delay) s)"

definition record_progress :: "'r tx_env \<Rightarrow> handle \<Rightarrow> preparation_progress \<Rightarrow> gotime \<Rightarrow> ('r, unit) store_tx" where
  "record_progress env h p now =
     bindE (refuseE (after (prep_observed p) now) ErrInvalid) (\<lambda>_.
     bindE (owned_work env h now) (\<lambda>w.
     bindE (refuseE (j_phase (w_journal w) \<noteq> Staging) ErrConflict) (\<lambda>_.
     bindE (readE (\<lambda>s. st_progress s (claim_ref (h_claim h)))) (\<lambda>found.
     bindE (case found of
         None \<Rightarrow> passE ()
       | Some old \<Rightarrow>
           if prep_generation old \<noteq> claim_generation (h_claim h) then passE ()
           else bindE (refuseE (\<not> preparation_progress_valid old) StoreCorrupt) (\<lambda>_.
                refuseE (prep_total p \<noteq> prep_total old \<or> prep_completed p < prep_completed old) ErrInvalid)) (\<lambda>_.
     writeE (\<lambda>s. s\<lparr>st_progress := (st_progress s)(claim_ref (h_claim h) \<mapsto> p)\<rparr>))))))"

definition RecordPreparationProgress ::
  "'r tx_env \<Rightarrow> handle \<Rightarrow> preparation_progress \<Rightarrow> 'r store \<Rightarrow> (go_error + unit) \<times> 'r store" where
  "RecordPreparationProgress env h p s =
     (if \<not> preparation_progress_valid p \<or> prep_generation p \<noteq> claim_generation (h_claim h) \<or> \<not> json_time_ok (prep_observed p)
      then (Inl ErrInvalid, s)
      else store_write env (record_progress env h p) s)"


section \<open>Cancelling\<close>

definition begin_cancellation :: "operation_row \<Rightarrow> attempt_state \<Rightarrow> gotime \<Rightarrow> ('r, operation_row) store_tx" where
  "begin_cancellation row state now =
     bindE (refuseE (orow_started row \<or> operation_status (row_operation row) \<noteq> OperationAccepted
         \<or> cancellation state \<noteq> CancellationRequested) ErrConflict) (\<lambda>_.
     case operation_transition (OperationRunning, None) now (row_operation row) of
       Inl _ \<Rightarrow> failE domain_failure
     | Inr x \<Rightarrow>
         let next = row\<lparr>orow_started := True, orow_record := (orow_record row)
               \<lparr>cr_operation := x, cr_effect := CancellationRequestedEffect\<rparr>\<rparr> in
         bindE (saveOperation row next) (\<lambda>_. passE next))"

definition confirmed_observation :: "remote_reference \<Rightarrow> gotime \<Rightarrow> observation" where
  "confirmed_observation remote now =
     \<lparr>obs_remote = remote, obs_execution = ExecutionCancelled, obs_raw_state = execution_string ExecutionCancelled,
      obs_activity = RemoteActivityInactive, obs_release = ReleaseEvidenceNotObservable, obs_at = now\<rparr>"

definition manual_state :: "attempt_state \<Rightarrow> attempt_state" where
  "manual_state s = s\<lparr>cancellation := CancellationManual, orchestration := OrchestrationNeedsAttention\<rparr>"

text \<open>A confirmed cancellation is an observation of the end of the execution.\<close>

definition confirm_cancellation ::
  "'r tx_env \<Rightarrow> work \<Rightarrow> operation_row \<Rightarrow> remote_reference \<Rightarrow> gotime \<Rightarrow> ('r, work \<times> attempt_state \<times> operation_row) store_tx" where
  "confirm_cancellation env w row remote now =
     bindE (fromE dispatch_failure (Apply (w_journal w) (attempt_state (adm_attempt (w_job w)))
       ((action_of ObservationSeen)\<lparr>act_observation := Some (confirmed_observation remote now)\<rparr>) now)) (\<lambda>(j, observed, _).
     bindE (controlJournal w j) (\<lambda>_.
     let w = w\<lparr>w_journal := j, w_handle := (w_handle w)\<lparr>h_version := j_version j\<rparr>\<rparr> in
     bindE (finishControl env row OperationSucceeded CancellationConfirmedEffect None now) (\<lambda>next.
     passE (w, observed, next))))"

definition cancellation_step ::
  "'r tx_env \<Rightarrow> work \<Rightarrow> operation_row \<Rightarrow> remote_reference \<Rightarrow> cancellation_action \<Rightarrow> gotime
     \<Rightarrow> ('r, work \<times> attempt_state \<times> operation_row \<times> event_type) store_tx" where
  "cancellation_step env w row remote a now =
     (let state = attempt_state (adm_attempt (w_job w)) in
      if ca_begin a then
        bindE (begin_cancellation row state now) (\<lambda>next.
        passE (w, state\<lparr>cancellation := CancellationRequesting\<rparr>, next, EventCancellationInvoked))
      else if ca_code a \<noteq> CodeOther [] then
        bindE (refuseE (ca_code a \<noteq> CodeRemoteCancelUnsupported \<and> ca_code a \<noteq> CodeRemoteExecutionUnresolved) ErrInvalid) (\<lambda>_.
        bindE (finishControl env row OperationManualRequired ManualRequired (controlProblem (ca_code a) True) now) (\<lambda>next.
        passE (w, manual_state state, next, EventCancellationObserved)))
      else case ca_outcome a of
        None \<Rightarrow> failE runtime_panic
      | Some x \<Rightarrow>
          bindE (refuseE (\<not> orow_started row \<or> cancellation_outcome_validate x \<noteq> None) ErrInvalid) (\<lambda>_.
          (case co_status x of
             CancellationConfirmed \<Rightarrow>
               bindE (confirm_cancellation env w row remote now) (\<lambda>(w, observed, next).
               passE (w, observed, next, EventCancellationObserved))
           | CancellationManual \<Rightarrow>
               bindE (finishControl env row OperationManualRequired ManualRequired
                 (controlProblem CodeRemoteCancelUnsupported True) now) (\<lambda>next.
               passE (w, manual_state state, next, EventCancellationObserved))
           | c \<Rightarrow>
               if c = CancellationAccepted \<or> c = CancellationTooLate then
                 bindE (refuseE (cancellation state \<noteq> CancellationRequesting) ErrConflict) (\<lambda>_.
                 passE (w, state\<lparr>cancellation := CancellationAccepted\<rparr>, row, EventCancellationObserved))
               else failE ErrInvalid)))"

definition commit_cancellation ::
  "'r tx_env \<Rightarrow> handle \<Rightarrow> opaque_id \<Rightarrow> cancellation_action \<Rightarrow> gotime \<Rightarrow> ('r, work) store_tx" where
  "commit_cancellation env h i a now =
     bindE (owned_work env h now) (\<lambda>w.
     case (w_cancellation w, j_remote (w_journal w)) of
       (Some cc, Some remote) \<Rightarrow>
         bindE (refuseE (operation_id (cc_operation cc) \<noteq> i \<or> j_phase (w_journal w) \<noteq> Submitted) ErrConflict) (\<lambda>_.
         bindE (loadOperation (job_workspace (adm_job (w_job w))) i) (\<lambda>row.
         bindE (cancellation_step env w row remote a now) (\<lambda>(w, state, next, event).
         bindE (controlState env (row_operation next) (adm_attempt (w_job w)) state event now) (\<lambda>updated.
         bindE (finishObservedOperations env (refresh_work updated w)
           (case ca_outcome a of Some x \<Rightarrow> if co_status x = CancellationConfirmed then Some ObservationSeen else None | None \<Rightarrow> None) now) (\<lambda>w.
         bindE (pendingCancellation w) (\<lambda>cc.
         passE (w\<lparr>w_cancellation := cc\<rparr>)))))))
     | _ \<Rightarrow> failE ErrConflict)"

definition CommitCancellation ::
  "'r tx_env \<Rightarrow> handle \<Rightarrow> opaque_id \<Rightarrow> cancellation_action \<Rightarrow> 'r store \<Rightarrow> (go_error + work) \<times> 'r store" where
  "CommitCancellation env h i a s =
     (if \<not> validOpaqueID i \<or> ca_begin a \<and> (ca_outcome a \<noteq> None \<or> ca_code a \<noteq> CodeOther [])
         \<or> \<not> ca_begin a \<and> (ca_outcome a = None) = (ca_code a = CodeOther [])
      then (Inl ErrInvalid, s)
      else store_write env (commit_cancellation env h i a) s)"

end
