(* ===== verification/Store_Control.thy ===== *)
theory Store_Control
  imports Store_Commit
begin

text \<open>
  The controls that applications request, \<open>operations_admission.go\<close>, \<open>operations_actions.go\<close>, \<open>operations_records.go\<close>
  and \<open>cleanup.go\<close>: a request is recorded as an operation with a receipt, once per key, and acts on the attempt, its
  journal and its queue row in the same transaction.
\<close>

section \<open>Commands and what surrounds them\<close>

definition StoreUnavailable :: go_error where "StoreUnavailable = Sentinel ''sqlite.ErrUnavailable''"
definition OperationsErrUncollected :: go_error where "OperationsErrUncollected = Sentinel ''operations.ErrUncollected''"

record admission_limits =
  max_outstanding_total :: int
  max_outstanding_workspace :: int

definition admission_limits_valid :: "admission_limits \<Rightarrow> bool" where
  "admission_limits_valid l \<longleftrightarrow> max_outstanding_total l > 0 \<and> max_outstanding_total l \<le> 100000
     \<and> max_outstanding_workspace l > 0 \<and> max_outstanding_workspace l \<le> max_outstanding_total l"

record retry_inputs =
  ri_attempt :: attempt
  ri_objects :: "frozen_object list"

record control_command =
  cmd_workspace :: opaque_id
  cmd_token :: string
  cmd_job :: opaque_id
  cmd_kind :: operation_kind
  cmd_request :: control_request
  cmd_key :: string
  cmd_hash :: string
  cmd_inputs :: "retry_inputs option"
  cmd_limits :: admission_limits

definition command_validate :: "control_command \<Rightarrow> go_error option" where
  "command_validate c =
     first_error
       [fail_if (control_request_digest (cmd_job c) (cmd_kind c) (cmd_request c) \<noteq> Some (cmd_hash c)
          \<or> \<not> validOpaqueID (cmd_workspace c) \<or> cmd_token c = [] \<or> \<not> digest_valid (cmd_key c)
          \<or> \<not> admission_limits_valid (cmd_limits c)) OperationsErrRequest,
        fail_if ((cmd_kind c = OperationRetryCompute) \<noteq> (cmd_inputs c \<noteq> None)) OperationsErrRequest]"

text \<open>
  The code of the other tables that controls use.  \<open>ce_pin_retry\<close> stands for the pins of the host cache and of the
  application image and the storage admission of a new attempt, \<open>ce_resources\<close> for the remote resources that cleaning an
  attempt would delete, with the reason against it, and \<open>ce_snapshot\<close> for recording them under an operation.
\<close>

record ('r, 'c) control_env =
  ce_attempt_id :: string
  ce_retained :: "opaque_id \<Rightarrow> opaque_id \<Rightarrow> 'r \<Rightarrow> object_metadata option"
  ce_pin_retry :: "admitted \<Rightarrow> opaque_id \<Rightarrow> gotime \<Rightarrow> ('r, unit) tx"
  ce_published :: "attempt_ref \<Rightarrow> 'r \<Rightarrow> bool"
  ce_cleaned :: "operation \<Rightarrow> 'r \<Rightarrow> string list"
  ce_resources :: "admitted \<Rightarrow> 'r store \<Rightarrow> go_error + (string \<times> 'c) list"
  ce_snapshot :: "operation \<Rightarrow> 'c list \<Rightarrow> operation_row list \<Rightarrow> ('r, unit) tx"

section \<open>Targets\<close>

definition controlTarget :: "attempt_ref \<Rightarrow> ('r, admitted) store_tx" where
  "controlTarget ref =
     (case ref of (w, job, attempt) \<Rightarrow>
      bindE (readJobRecord w job) (\<lambda>r.
      if attempt_id (adm_attempt r) \<noteq> attempt then
        bindE (loadAttempt ref) (\<lambda>(a, nonce). passE (r\<lparr>adm_attempt := a, adm_nonce := nonce\<rparr>))
      else passE r))"

text \<open>A handle that names a queue row and gives no authority over it.\<close>

definition queue_handle :: "int \<Rightarrow> int \<Rightarrow> handle" where
  "queue_handle sequence version =
     \<lparr>h_claim = \<lparr>claim_identity = \<lparr>sid_workspace = [], sid_job = [], sid_attempt = []\<rparr>, claim_sequence = sequence,
        claim_owner = [], claim_generation = 0, claim_fence = [], claim_expires_at = zero_time, claim_attempt_revision = 0,
        claim_account = [], claim_instance = [], claim_quota_warning = NoReason\<rparr>, h_version = version\<rparr>"

definition queue_ref :: "queue_row \<Rightarrow> attempt_ref" where
  "queue_ref q = (sid_workspace (q_identity q), sid_job (q_identity q), sid_attempt (q_identity q))"

definition controlWork :: "'r tx_env \<Rightarrow> admitted \<Rightarrow> ('r, work) store_tx" where
  "controlWork env r =
     bindE (find_queue (\<lambda>q. queue_ref q = admitted_ref r)) (\<lambda>found.
     case found of
       None \<Rightarrow> failE StoreUnavailable
     | Some q \<Rightarrow>
         bindE (loadJournal (q_sequence q)) (\<lambda>j.
         bindE (readE st_installation) (\<lambda>installation.
         bindE (refuseE (\<not> validOpaqueID installation) StoreCorrupt) (\<lambda>_.
         let w = \<lparr>w_installation = installation, w_handle = queue_handle (q_sequence q) (j_version j), w_job = r,
               w_journal = j, w_cancellation = None, w_gate = None\<rparr> in
         bindE (case j_plan j of
             Some p \<Rightarrow>
               bindE (refuseE (\<not> q_barrier q \<or> matchesFrozenPlan (tx_recode env) w p (j_preparation_id j) \<noteq> None) StoreCorrupt) (\<lambda>_.
               checkDispatchLedger w p)
           | None \<Rightarrow> refuseE (q_barrier q \<and> j_phase j \<noteq> Failed \<and> j_phase j \<noteq> Prevented) OperationsErrUnresolved) (\<lambda>_.
         passE w)))))"

definition actionableAttempt :: "'r tx_env \<Rightarrow> attempt_ref \<Rightarrow> ('r, unit) store_tx" where
  "actionableAttempt env ref =
     bindE (readE (\<lambda>s. tx_retired env ref (st_rest s))) (\<lambda>retired. refuseE retired OperationsErrState)"


section \<open>Records and receipts of operations\<close>

definition operation_receipt_id :: "opaque_id \<Rightarrow> operation_kind \<Rightarrow> string \<Rightarrow> receipt_id" where
  "operation_receipt_id w k key =
     \<lparr>rk_workspace = w, rk_namespace = ''operation'', rk_scope = operation_kind_string k, rk_key = key\<rparr>"

definition replayOperation :: "opaque_id \<Rightarrow> operation_kind \<Rightarrow> string \<Rightarrow> string \<Rightarrow> ('r, control_record option) store_tx" where
  "replayOperation w k key hash =
     bindE (replayOrCreate (operation_receipt_id w k key) hash (CanonicalVersion k) OperationsErrConflict None) (\<lambda>prior.
     case prior of
       None \<Rightarrow> passE None
     | Some saved \<Rightarrow>
         (case sv_value saved of
            SavedControl r \<Rightarrow>
              bindE (refuseE (length (saved_text (SavedControl r)) > 4096 \<or> \<not> control_record_valid r \<or> cr_replay r
                  \<or> operation_id (cr_operation r) \<noteq> sv_subject saved \<or> operation_workspace (cr_operation r) \<noteq> w
                  \<or> operation_kind (cr_operation r) \<noteq> k) StoreCorrupt) (\<lambda>_.
              bindE (\<lambda>s. case loadOperation w (operation_id (cr_operation r)) s of
                  Inl e \<Rightarrow> Inl (if e = OperationsErrNotFound then StoreCorrupt else e) | Inr x \<Rightarrow> Inr x) (\<lambda>current.
              bindE (refuseE (operation_job (row_operation current) \<noteq> operation_job (cr_operation r)
                  \<or> operation_attempt (row_operation current) \<noteq> operation_attempt (cr_operation r)) StoreCorrupt) (\<lambda>_.
              passE (Some (r\<lparr>cr_replay := True\<rparr>)))))
          | _ \<Rightarrow> failE StoreCorrupt))"

definition check_actor :: "'r tx_env \<Rightarrow> opaque_id \<Rightarrow> string \<Rightarrow> string \<Rightarrow> ('r, unit) store_tx" where
  "check_actor env w token permission =
     bindE (readE (\<lambda>s. tx_actor env w token permission (st_rest s))) checkE"

definition ReplayOperation ::
  "'r tx_env \<Rightarrow> opaque_id \<Rightarrow> string \<Rightarrow> operation_kind \<Rightarrow> string \<Rightarrow> string \<Rightarrow> 'r store
     \<Rightarrow> (go_error + control_record option) \<times> 'r store" where
  "ReplayOperation env w token k key hash s =
     (if \<not> Supported k \<or> \<not> digest_valid key \<or> \<not> digest_valid hash then (Inl OperationsErrRequest, s)
      else store_write env (\<lambda>now. bindE (check_actor env w token ''operate'') (\<lambda>_. replayOperation w k key hash)) s)"

definition insertOperation :: "control_command \<Rightarrow> operation_row \<Rightarrow> ('r, unit) store_tx" where
  "insertOperation c row =
     (let r = orow_record row; x = cr_operation r in
      bindE (refuseE (\<not> control_record_valid r \<or> cr_replay r \<or> operation_revision x \<noteq> 1
          \<or> operation_status x \<noteq> OperationAccepted) StoreInvalid) (\<lambda>_.
      bindE (refuseE (length (json_marshal (control_record_json r)) > 8192) StoreInvalid) (\<lambda>_.
      bindE (refuseE (CanonicalJSON (cmd_kind c) (cmd_request c) = None) StoreInvalid) (\<lambda>_.
      bindE (refuseE (if operation_kind x = OperationCleanup then \<not> validOpaqueID (orow_resource row) else orow_resource row \<noteq> [])
        StoreInvalid) (\<lambda>_.
      bindE (readE (\<lambda>s. list_ex (operation_named (operation_workspace x) (operation_id x)) (st_operations s))) (\<lambda>taken.
      bindE (refuseE taken StoreConflict) (\<lambda>_.
      writeE (\<lambda>s. s\<lparr>st_operations := st_operations s
        @ [row\<lparr>orow_request := cmd_request c, orow_hash := cmd_hash c\<rparr>]\<rparr>))))))))"

definition saveOperationReceipt :: "control_command \<Rightarrow> control_record \<Rightarrow> ('r, unit) store_tx" where
  "saveOperationReceipt c r =
     (let r = r\<lparr>cr_replay := False\<rparr>; x = cr_operation r in
      bindE (refuseE (length (saved_text (SavedControl r)) > 4096) StoreInvalid) (\<lambda>_.
      bindE (replayOrCreate (operation_receipt_id (cmd_workspace c) (cmd_kind c) (cmd_key c)) (cmd_hash c)
        (CanonicalVersion (cmd_kind c)) OperationsErrConflict
        (Some \<lparr>sv_hash = [], sv_version = [], sv_subject = operation_id x, sv_job = operation_job x,
           sv_attempt = operation_attempt x, sv_value = SavedControl r\<rparr>)) (\<lambda>_. passE ())))"

definition new_row :: "operation \<Rightarrow> effect \<Rightarrow> string \<Rightarrow> operation_row" where
  "new_row x effect resource =
     \<lparr>orow_record = \<lparr>cr_operation = x, cr_effect = effect, cr_new_attempt = [], cr_termination = False, cr_replay = False\<rparr>,
      orow_started = False,
      orow_request = \<lparr>creq_attempt = [], creq_reason = [], creq_discard = False, creq_resolution = [], creq_resource = []\<rparr>,
      orow_name_deletion = False, orow_hash = [], orow_resource = resource\<rparr>"


section \<open>Cancelling, reconciling and collecting\<close>

definition wake_queue :: "work \<Rightarrow> ('r, unit) store_tx" where
  "wake_queue w = update_queue (claim_sequence (h_claim (w_handle w))) (\<lambda>q. q\<lparr>q_not_before := 0\<rparr>)"

text \<open>A request that comes after the execution has ended.\<close>

definition cancel_ended :: "'r tx_env \<Rightarrow> admitted \<Rightarrow> operation_row \<Rightarrow> gotime \<Rightarrow> ('r, operation_row) store_tx" where
  "cancel_ended env target row now =
     (let state = attempt_state (adm_attempt target); x = row_operation row in
      bindE (if cancellation state = CancellationNotRequested
             then controlState env x (adm_attempt target) (state\<lparr>cancellation := CancellationRequested\<rparr>) EventCancellationRequested now
             else passE (adm_attempt target)) (\<lambda>a.
      let confirmed = (execution state = ExecutionCancelled) in
      bindE (controlState env x a
        (state\<lparr>cancellation := (if confirmed then CancellationConfirmed else CancellationTooLate)\<rparr>) EventCancellationObserved now) (\<lambda>_.
      finishControl env row OperationSucceeded (if confirmed then CancellationConfirmedEffect else TooLate) None now)))"

text \<open>A request that comes before the start intent prevents the dispatch.\<close>

definition cancel_prevent :: "'r tx_env \<Rightarrow> admitted \<Rightarrow> work \<Rightarrow> operation_row \<Rightarrow> gotime \<Rightarrow> ('r, operation_row) store_tx" where
  "cancel_prevent env target w row now =
     bindE (if j_plan (w_journal w) = None then release_unplanned env (admitted_ref target) now else passE ()) (\<lambda>_.
     bindE (fromE dispatch_failure (Apply (w_journal w) (attempt_state (adm_attempt target)) (action_of PreventDispatch) now))
       (\<lambda>(next, state, _).
     bindE (controlJournal w next) (\<lambda>_.
     bindE (controlState env (row_operation row) (adm_attempt target) state EventCancellationRequested now) (\<lambda>_.
     finishControl env row OperationSucceeded DispatchPrevented None now))))"

text \<open>Another request after a manual outcome needs an earlier one that ended without a stop, and none that did not.\<close>

definition recoverable_cancel :: "attempt_ref \<Rightarrow> opaque_id \<Rightarrow> operation_row list \<Rightarrow> bool" where
  "recoverable_cancel ref self rows =
     (let others = filter (\<lambda>r. operation_ref (row_operation r) = ref \<and> operation_kind (row_operation r) = OperationCancel
            \<and> operation_id (row_operation r) \<noteq> self) rows in
      list_ex (\<lambda>r. \<not> orow_started r
        \<and> operation_status (row_operation r) \<in> {OperationFailed, OperationManualRequired}) others
      \<and> \<not> list_ex (\<lambda>r. orow_started r
        \<or> operation_status (row_operation r) \<in> {OperationAccepted, OperationRunning, OperationSucceeded}) others)"

definition cancel_allowed :: "admitted \<Rightarrow> operation_row \<Rightarrow> ('r, unit) store_tx" where
  "cancel_allowed target row =
     (let c = cancellation (attempt_state (adm_attempt target)) in
      if c = CancellationManual then
        bindE (readE (\<lambda>s. recoverable_cancel (admitted_ref target) (operation_id (row_operation row)) (st_operations s))) (\<lambda>ok.
        refuseE (\<not> ok) OperationsErrState)
      else refuseE (c \<noteq> CancellationNotRequested) OperationsErrState)"

definition cancel_request :: "'r tx_env \<Rightarrow> admitted \<Rightarrow> work \<Rightarrow> operation_row \<Rightarrow> gotime \<Rightarrow> ('r, operation_row) store_tx" where
  "cancel_request env target w row now =
     (let x = row_operation row;
          state = (attempt_state (adm_attempt target))\<lparr>cancellation := CancellationRequested, orchestration := OrchestrationCancelling\<rparr> in
      bindE (cancel_allowed target row) (\<lambda>_.
      bindE (controlState env x (adm_attempt target) state EventCancellationRequested now) (\<lambda>_.
      if j_phase (w_journal w) = Attention then
        (case Apply (w_journal w) state (action_of RequestReconciliation) now of
           Inl _ \<Rightarrow>
             bindE (loadAttempt (operation_ref x)) (\<lambda>(a, nonce).
             bindE (controlState env x a (manual_state (attempt_state a)) EventCancellationObserved now) (\<lambda>_.
             finishControl env row OperationManualRequired ManualRequired (controlProblem CodeRemoteExecutionUnresolved True) now))
         | Inr (next, _, _) \<Rightarrow>
             bindE (controlJournal w next) (\<lambda>_. bindE (wake_queue w) (\<lambda>_. passE row)))
      else bindE (wake_queue w) (\<lambda>_. passE row))))"

definition admitCancellation :: "'r tx_env \<Rightarrow> admitted \<Rightarrow> operation_row \<Rightarrow> gotime \<Rightarrow> ('r, operation_row) store_tx" where
  "admitCancellation env target row now =
     (let state = attempt_state (adm_attempt target) in
      if orchestration_terminal (orchestration state) then finishControl env row OperationSucceeded TooLate None now
      else
        bindE (refuseE (job_active_attempt (adm_job target) \<noteq> attempt_id (adm_attempt target)) OperationsErrChanged) (\<lambda>_.
        bindE (controlWork env target) (\<lambda>w.
        if execution_terminal (execution state) then cancel_ended env target row now
        else if \<not> j_submit_started (w_journal w) then cancel_prevent env target w row now
        else cancel_request env target w row now)))"

definition reconcile_action :: "admitted \<Rightarrow> work \<Rightarrow> control_request \<Rightarrow> go_error + action" where
  "reconcile_action target w r =
     (let j = w_journal w in
      if creq_resolution r = [] then Inr (action_of RequestReconciliation)
      else if j_phase j \<noteq> Attention \<or> \<not> j_submit_started j \<or> j_remote j \<noteq> None
          \<or> execution (attempt_state (adm_attempt target)) \<noteq> ExecutionUnknown \<or> creq_resource r \<noteq> j_resource_name j
      then Inl OperationsErrState
      else Inr ((action_of (if creq_resolution r = ''absent'' then OwnerSubmissionAbsent else RequestReconciliation))
        \<lparr>act_resource_name := creq_resource r, act_owner_present := (creq_resolution r = ''present'')\<rparr>))"

definition admitReconciliation ::
  "'r tx_env \<Rightarrow> admitted \<Rightarrow> operation_row \<Rightarrow> control_request \<Rightarrow> gotime \<Rightarrow> ('r, operation_row) store_tx" where
  "admitReconciliation env target row r now =
     (let state = attempt_state (adm_attempt target) in
      if orchestration_terminal (orchestration state) \<or> execution_terminal (execution state)
      then finishControl env row OperationSucceeded ObservationRefreshed None now
      else
        bindE (refuseE (job_active_attempt (adm_job target) \<noteq> attempt_id (adm_attempt target)) OperationsErrChanged) (\<lambda>_.
        bindE (controlWork env target) (\<lambda>w.
        bindE (liftE (reconcile_action target w r)) (\<lambda>a.
        bindE (fromE (\<lambda>_. OperationsErrState) (Apply (w_journal w) state a now)) (\<lambda>(next, state, _).
        let absent = (act_kind a = OwnerSubmissionAbsent) in
        bindE (if absent then writeDispatchLedger env w next (act_kind a) now else passE ()) (\<lambda>_.
        bindE (controlJournal w next) (\<lambda>_.
        bindE (controlState env (row_operation row) (adm_attempt target) state EventReconciliationRequested now) (\<lambda>_.
        if absent then finishControl env row OperationSucceeded SubmissionResolvedAbsent None now
        else bindE (wake_queue w) (\<lambda>_. passE row)))))))))"

definition cleanup_pending :: "('r, 'c) control_env \<Rightarrow> attempt_ref \<Rightarrow> 'r store \<Rightarrow> bool" where
  "cleanup_pending ce ref s \<longleftrightarrow>
     list_ex (\<lambda>row. let x = row_operation row; states = ce_cleaned ce x (st_rest s) in
       operation_kind x = OperationCleanup \<and> operation_ref x = ref
       \<and> (operation_status x \<in> {OperationAccepted, OperationRunning, OperationSucceeded}
          \<or> list_ex (\<lambda>t. t \<in> {''running'', ''deleted'', ''absent'', ''unknown''}) states
          \<or> operation_status x = OperationFailed \<and> states = []
            \<and> (case operation_failure x of None \<Rightarrow> False | Some p \<Rightarrow> code p = CodeProviderStateUnknown)))
     (st_operations s)"

definition pendingCleanup :: "('r, 'c) control_env \<Rightarrow> attempt_ref \<Rightarrow> ('r, unit) store_tx" where
  "pendingCleanup ce ref = bindE (readE (cleanup_pending ce ref)) (\<lambda>exists. refuseE exists OperationsErrState)"

definition admitCollection ::
  "'r tx_env \<Rightarrow> ('r, 'c) control_env \<Rightarrow> admitted \<Rightarrow> operation_row \<Rightarrow> gotime \<Rightarrow> ('r, operation_row) store_tx" where
  "admitCollection env ce target row now =
     (let state = attempt_state (adm_attempt target); x = row_operation row in
      bindE (refuseE (\<not> execution_terminal (execution state)) OperationsErrUnresolved) (\<lambda>_.
      if result state = ResultAvailable then finishControl env row OperationSucceeded ResultsAvailable None now
      else
        bindE (refuseE (result state = ResultExpired) OperationsErrState) (\<lambda>_.
        bindE (pendingCleanup ce (admitted_ref target)) (\<lambda>_.
        bindE (controlWork env target) (\<lambda>w.
        bindE (refuseE (j_remote (w_journal w) = None \<or> (case j_observation (w_journal w) of
              None \<Rightarrow> True
            | Some ob \<Rightarrow> obs_execution ob \<noteq> execution state \<or> \<not> execution_terminal (obs_execution ob))) OperationsErrUnresolved) (\<lambda>_.
        bindE (controlEvent env (operation_ref x) (operation_id x) EventCollectionRequested now) (\<lambda>_.
        passE row)))))))"

end
