(* ===== verification/Store_Admit.thy ===== *)
theory Store_Admit
  imports Store_Control
begin

text \<open>
  Retries, cleanup and the admission of a control, \<open>operations_admission.go\<close>, \<open>cleanup.go\<close> and the journal note of
  \<open>collection.go\<close>.
\<close>

section \<open>Retrying\<close>

definition retry_settled :: "admitted \<Rightarrow> journal \<Rightarrow> bool" where
  "retry_settled r j =
     (let e = execution (attempt_state (adm_attempt r)) in
      if j_submit_started j then
        if e = ExecutionNotSubmitted then j_phase j = Rejected
        else j_remote j \<noteq> None \<and> (case j_observation j of
            None \<Rightarrow> False | Some ob \<Rightarrow> execution_terminal (obs_execution ob) \<and> obs_execution ob = e)
      else e = ExecutionNotSubmitted)"

definition retained_inputs :: "('r, 'c) control_env \<Rightarrow> opaque_id \<Rightarrow> frozen_object list \<Rightarrow> 'r \<Rightarrow> bool" where
  "retained_inputs ce w xs rest \<longleftrightarrow>
     list_all (\<lambda>x. ce_retained ce w (object_id (frozen_metadata x)) rest = Some (frozen_metadata x)) xs"

definition retryInputs :: "'r tx_env \<Rightarrow> ('r, 'c) control_env \<Rightarrow> attempt_ref \<Rightarrow> ('r, retry_inputs) store_tx" where
  "retryInputs env ce ref =
     bindE (controlTarget ref) (\<lambda>r.
     bindE (refuseE (job_active_attempt (adm_job r) \<noteq> snd (snd ref)) OperationsErrChanged) (\<lambda>_.
     bindE (readE st_rest) (\<lambda>rest.
     bindE (checkE (tx_owned env (fst ref) (adm_profile r) rest)) (\<lambda>_.
     bindE (checkE (RetryAllowed (attempt_state (adm_attempt r)))) (\<lambda>_.
     bindE (controlWork env r) (\<lambda>w.
     bindE (refuseE (\<not> retry_settled r (w_journal w)) OperationsErrUnresolved) (\<lambda>_.
     let s = req_spec (adm_request r) in
     bindE (refuseE (length (adm_objects r) \<noteq> 1 + length (spec_inputs s) + (if spec_image s = None then 0 else 1)
         \<or> \<not> retained_inputs ce (fst ref) (adm_objects r) rest) OperationsErrInputs) (\<lambda>_.
     passE \<lparr>ri_attempt = adm_attempt r, ri_objects = adm_objects r\<rparr>))))))))"

definition RetryInputs ::
  "'r tx_env \<Rightarrow> ('r, 'c) control_env \<Rightarrow> string \<Rightarrow> attempt_ref \<Rightarrow> 'r store \<Rightarrow> (go_error + retry_inputs) \<times> 'r store" where
  "RetryInputs env ce token ref s =
     (if \<not> validOpaqueID (fst ref) \<or> \<not> validOpaqueID (fst (snd ref)) \<or> \<not> validOpaqueID (snd (snd ref))
      then (Inl OperationsErrRequest, s)
      else store_write env (\<lambda>now. bindE (check_actor env (fst ref) token ''operate'') (\<lambda>_. retryInputs env ce ref)) s)"

text \<open>A new attempt comes with its queue row, by the trigger \<open>scheduler_enqueue\<close>.\<close>

definition next_sequence :: "queue_row list \<Rightarrow> int" where
  "next_sequence qs = foldr max (map q_sequence qs) 0 + 1"

definition insert_attempt :: "attempt_ref \<Rightarrow> attempt \<Rightarrow> string \<Rightarrow> ('r, unit) store_tx" where
  "insert_attempt ref a nonce =
     bindE (readE (\<lambda>s. st_attempts s ref)) (\<lambda>found.
     bindE (refuseE (found \<noteq> None) StoreConflict) (\<lambda>_.
     writeE (\<lambda>s. s\<lparr>st_attempts := (st_attempts s)(ref \<mapsto> \<lparr>arow_attempt = a, arow_nonce = nonce\<rparr>),
       st_queue := st_queue s @ [\<lparr>q_sequence = next_sequence (st_queue s),
         q_identity = \<lparr>sid_workspace = fst ref, sid_job = fst (snd ref), sid_attempt = snd (snd ref)\<rparr>,
         q_barrier = leaves_local (attempt_state a), q_not_before = 0\<rparr>]\<rparr>)))"

definition activate_attempt :: "attempt_ref \<Rightarrow> opaque_id \<Rightarrow> ('r, unit) store_tx" where
  "activate_attempt old i =
     bindE (readE (\<lambda>s. st_jobs s (fst old, fst (snd old)))) (\<lambda>found.
     case found of
       None \<Rightarrow> failE OperationsErrChanged
     | Some row \<Rightarrow>
         bindE (refuseE (jrow_active row \<noteq> snd (snd old)) OperationsErrChanged) (\<lambda>_.
         writeE (\<lambda>s. s\<lparr>st_jobs := (st_jobs s)((fst old, fst (snd old)) \<mapsto> row\<lparr>jrow_active := i\<rparr>)\<rparr>)))"

definition createRetry ::
  "'r tx_env \<Rightarrow> ('r, 'c) control_env \<Rightarrow> admitted \<Rightarrow> operation_row \<Rightarrow> gotime \<Rightarrow> ('r, operation_row) store_tx" where
  "createRetry env ce target row now =
     (let old = adm_attempt target; w = job_workspace (adm_job target); j = job_id (adm_job target); i = ce_attempt_id ce in
      bindE (refuseE (job_active_attempt (adm_job target) \<noteq> attempt_id old \<or> attempt_number old = - 1) OperationsErrChanged) (\<lambda>_.
      case NewAttempt i j (attempt_number old + 1) now of
        Inl _ \<Rightarrow> failE StoreInvalid
      | Inr a \<Rightarrow>
          bindE (insert_attempt (w, j, i) a (tx_nonce env)) (\<lambda>_.
          bindE (on_rest (ce_pin_retry ce target i now)) (\<lambda>_.
          bindE (activate_attempt (w, j, attempt_id old) i) (\<lambda>_.
          case operation_transition (OperationSucceeded, None) now (row_operation row) of
            Inl _ \<Rightarrow> failE domain_failure
          | Inr x \<Rightarrow>
              let new = row\<lparr>orow_record := (orow_record row)\<lparr>cr_operation := x, cr_new_attempt := i, cr_effect := NewAttemptCreated\<rparr>\<rparr> in
              bindE (saveOperation row new) (\<lambda>_.
              bindE (controlEvent env (w, j, i) (operation_id x) EventAttemptRetried now) (\<lambda>_.
              bindE (controlEvent env (w, j, attempt_id old) (operation_id x) EventOperationCompleted now) (\<lambda>_.
              passE new))))))))"


section \<open>Cleaning\<close>

definition attempt_busy :: "attempt_ref \<Rightarrow> bool \<Rightarrow> opaque_id \<Rightarrow> gotime \<Rightarrow> 'r store \<Rightarrow> bool" where
  "attempt_busy ref discard self now s \<longleftrightarrow>
     (let held = (\<lambda>k. case st_leases s k of None \<Rightarrow> False | Some l \<Rightarrow> lr_held l \<and> lr_until l > unix_milli now) in
      list_ex (\<lambda>q. queue_ref q = ref \<and> held (DispatchWork, workKey [JInt (q_sequence q)])) (st_queue s)
      \<or> held (CollectionWork, workKey [JString (fst ref), JString (fst (snd ref)), JString (snd (snd ref))])
      \<or> list_ex (\<lambda>row. let x = row_operation row in operation_ref x = ref \<and> pending x \<and> operation_id x \<noteq> self
           \<and> (operation_kind x \<noteq> OperationCollect \<or> \<not> discard)) (st_operations s))"

definition settled_for_cleanup :: "attempt_state \<Rightarrow> journal \<Rightarrow> go_error option" where
  "settled_for_cleanup s j =
     (let executed = (execution s \<noteq> ExecutionNotSubmitted) in
      first_error
        [fail_if (remote_activity s \<noteq> RemoteActivityNotStarted \<and> remote_activity s \<noteq> RemoteActivityInactive) OperationsErrUnresolved,
         fail_if (executed \<and> \<not> execution_terminal (execution s)) OperationsErrUnresolved,
         fail_if (if j_submit_started j then
             executed \<and> (j_remote j = None \<or> (case j_observation j of None \<Rightarrow> True | Some ob \<Rightarrow> obs_execution ob \<noteq> execution s))
             \<or> \<not> executed \<and> j_phase j \<noteq> Rejected
           else executed) OperationsErrUnresolved,
         fail_if (\<not> orchestration_terminal (orchestration s)
           \<and> \<not> (executed \<and> remote_activity s = RemoteActivityInactive
               \<and> (orchestration s = OrchestrationNeedsAttention \<or> orchestration s = OrchestrationCollecting))) OperationsErrState])"

definition cleanup_remote :: "journal \<Rightarrow> prepared \<Rightarrow> bool \<Rightarrow> remote_reference option" where
  "cleanup_remote j x executed =
     (if executed then j_remote j
      else Some \<lparr>remote_identity = prep_identity x, remote_resource = prep_resource x, remote_version = ''prepared''\<rparr>)"

text \<open>The resource that cleaning an attempt starts from, and whether its results were collected.\<close>

definition eligibleCleanupAttempt ::
  "'r tx_env \<Rightarrow> ('r, 'c) control_env \<Rightarrow> admitted \<Rightarrow> bool \<Rightarrow> gotime \<Rightarrow> opaque_id \<Rightarrow> ('r, string \<times> bool) store_tx" where
  "eligibleCleanupAttempt env ce target discard now self =
     (let ref = admitted_ref target; s = attempt_state (adm_attempt target); executed = (execution s \<noteq> ExecutionNotSubmitted) in
      bindE (readE (attempt_busy ref discard self now)) (\<lambda>busy.
      bindE (refuseE busy OperationsErrBusy) (\<lambda>_.
      bindE (controlWork env target) (\<lambda>w.
      let j = w_journal w in
      bindE (checkE (settled_for_cleanup s j)) (\<lambda>_.
      case (j_plan j, j_prepared j) of
        (Some p, Some x) \<Rightarrow>
          bindE (readE (\<lambda>st. find (\<lambda>r. (res_workspace r, res_job r, res_attempt r) = ref \<and> res_purpose r = ''staging''
              \<and> res_operation r = j_preparation_id j) (st_resources st))) (\<lambda>found.
          (case found of
             None \<Rightarrow> failE OperationsErrState
           | Some r \<Rightarrow>
               bindE (refuseE (res_ref r = []) OperationsErrState) (\<lambda>_.
               bindE (refuseE (res_ref r \<noteq> prep_resource x \<or> \<not> validOpaqueID (res_id r)) StoreCorrupt) (\<lambda>_.
               (case cleanup_remote j x executed of
                  None \<Rightarrow> failE runtime_panic
                | Some remote \<Rightarrow>
                    bindE (refuseE (remote_validate remote \<noteq> None \<or> remote_identity remote \<noteq> rj_identity (plan_job p)) StoreCorrupt) (\<lambda>_.
                    bindE (readE (\<lambda>st. executed \<and> ce_published ce ref (st_rest st)
                        \<and> (result s = ResultAvailable \<or> result s = ResultExpired))) (\<lambda>collected.
                    bindE (refuseE (executed \<and> \<not> collected \<and> \<not> discard) OperationsErrUncollected) (\<lambda>_.
                    bindE (refuseE (\<not> binding_snapshot_valid \<lparr>bs_binding = prof_binding (adm_profile target),
                        bs_account = prof_account (adm_profile target), bs_credential = prof_credential (adm_profile target)\<rparr>) StoreCorrupt) (\<lambda>_.
                    passE (res_id r, collected))))))))))
      | _ \<Rightarrow> failE OperationsErrState)))))"

definition eligibleCleanup ::
  "'r tx_env \<Rightarrow> ('r, 'c) control_env \<Rightarrow> admitted \<Rightarrow> bool \<Rightarrow> gotime \<Rightarrow> opaque_id \<Rightarrow> ('r, string \<times> bool \<times> 'c list) store_tx" where
  "eligibleCleanup env ce target discard now self =
     bindE (eligibleCleanupAttempt env ce target discard now self) (\<lambda>(resource, collected).
     bindE (readE (ce_resources ce target)) (\<lambda>found.
     bindE (liftE found) (\<lambda>resources.
     bindE (refuseE (resources = []) OperationsErrState) (\<lambda>_.
     bindE (refuseE (list_ex (\<lambda>(reason, _). reason \<noteq> []) resources) OperationsErrUnresolved) (\<lambda>_.
     passE (resource, collected, map snd resources))))))"

text \<open>The note that a collection leaves in the journal: its problem, under the next version.\<close>

definition collectionCondition :: "'r tx_env \<Rightarrow> attempt_ref \<Rightarrow> problem option \<Rightarrow> ('r, unit) store_tx" where
  "collectionCondition env ref problem =
     bindE (controlTarget ref) (\<lambda>target.
     bindE (controlWork env target) (\<lambda>w.
     bindE (refuseE (j_version (w_journal w) = MaxInt64) StoreConflict) (\<lambda>_.
     controlJournal w ((w_journal w)\<lparr>j_version := j_version (w_journal w) + 1, j_problem := problem\<rparr>))))"

definition discard_problem :: "domain_error + problem" where
  "discard_problem =
     map_sum id (\<lambda>p. WithRecommendedAction RecommendedActionRetryRead (WithRetrySemantics False False p))
       (NewProblem CodeArtifactCollectionFailed
         ''Collection stopped because discard of this attempt's uncollected remote data was authorized.'' FailureStageResults)"

definition discardPendingCollection :: "'r tx_env \<Rightarrow> admitted \<Rightarrow> gotime \<Rightarrow> ('r, unit) store_tx" where
  "discardPendingCollection env target now =
     (let ref = admitted_ref target; s = attempt_state (adm_attempt target) in
      bindE (readE (\<lambda>st. find (\<lambda>row. operation_ref (row_operation row) = ref
          \<and> operation_kind (row_operation row) = OperationCollect \<and> pending (row_operation row)) (st_operations st))) (\<lambda>found.
      case found of
        None \<Rightarrow> passE ()
      | Some row \<Rightarrow>
          bindE (loadOperation (fst ref) (operation_id (row_operation row))) (\<lambda>row.
          bindE (fromE (\<lambda>_. StoreInvalid) discard_problem) (\<lambda>p.
          bindE (controlState env (row_operation row) (adm_attempt target)
            (s\<lparr>orchestration := OrchestrationNeedsAttention,
               result := (if result s = ResultCollecting then ResultIncomplete else result s)\<rparr>) EventCollectionFailed now) (\<lambda>_.
          bindE (collectionCondition env ref (Some p)) (\<lambda>_.
          bindE (finishControl env row OperationFailed FailedEffect (Some p) now) (\<lambda>_. passE ())))))))"

definition admitCleanupOperation ::
  "'r tx_env \<Rightarrow> ('r, 'c) control_env \<Rightarrow> control_command \<Rightarrow> admitted \<Rightarrow> gotime \<Rightarrow> ('r, control_record) store_tx" where
  "admitCleanupOperation env ce c target now =
     (let ref = admitted_ref target in
      bindE (refuseE (cmd_kind c \<noteq> OperationCleanup \<or> command_validate c \<noteq> None
          \<or> (cmd_workspace c, cmd_job c, creq_attempt (cmd_request c)) \<noteq> ref) StoreInvalid) (\<lambda>_.
      bindE (eligibleCleanup env ce target (creq_discard (cmd_request c)) now []) (\<lambda>(resource, collected, resources).
      case NewOperation (tx_id env) (cmd_workspace c) (cmd_job c) (creq_attempt (cmd_request c)) (cmd_kind c) now of
        Inl _ \<Rightarrow> failE StoreInvalid
      | Inr x \<Rightarrow>
          let row = new_row x PendingEffect resource in
          bindE (insertOperation c row) (\<lambda>_.
          bindE (readE st_operations) (\<lambda>rows.
          bindE (on_rest (ce_snapshot ce x resources rows)) (\<lambda>_.
          bindE (if creq_discard (cmd_request c) \<and> \<not> collected then discardPendingCollection env target now else passE ()) (\<lambda>_.
          bindE (saveOperationReceipt c (orow_record row)) (\<lambda>_.
          passE (orow_record row)))))))))"


section \<open>Admission\<close>

text \<open>The active attempts that have not ended; every attempt has one queue row.\<close>

definition live_attempts :: "'r store \<Rightarrow> queue_row list" where
  "live_attempts s = filter (\<lambda>q.
     (case (st_jobs s (sid_workspace (q_identity q), sid_job (q_identity q)), st_attempts s (queue_ref q)) of
        (Some job, Some row) \<Rightarrow> jrow_active job = sid_attempt (q_identity q)
          \<and> \<not> orchestration_terminal (orchestration (attempt_state (arow_attempt row)))
      | _ \<Rightarrow> False)) (st_queue s)"

definition controlLimit :: "control_command \<Rightarrow> bool \<Rightarrow> 'r store \<Rightarrow> go_error option" where
  "controlLimit c retry s =
     (let owners = (if retry then map (\<lambda>q. sid_workspace (q_identity q)) (live_attempts s)
                    else map (\<lambda>row. operation_workspace (row_operation row))
                      (filter (\<lambda>row. operation_kind (row_operation row) \<noteq> OperationCleanup \<and> pending (row_operation row)) (st_operations s))) in
      fail_if (int (length owners) \<ge> max_outstanding_total (cmd_limits c)
        \<or> int (length (filter (\<lambda>w. w = cmd_workspace c) owners)) \<ge> max_outstanding_workspace (cmd_limits c)) AdmissionErrLimit)"

definition coalesces :: "control_command \<Rightarrow> operation_row \<Rightarrow> bool" where
  "coalesces c row \<longleftrightarrow>
     (let x = row_operation row in
      operation_ref x = (cmd_workspace c, cmd_job c, creq_attempt (cmd_request c)) \<and> operation_kind x = cmd_kind c
      \<and> (pending x
         \<or> cmd_kind c = OperationCancel \<and> (operation_status x = OperationSucceeded \<or> orow_started row)
         \<or> cmd_kind c = OperationCleanup \<and> operation_status x = OperationSucceeded))"

definition retry_proof :: "'r tx_env \<Rightarrow> ('r, 'c) control_env \<Rightarrow> control_command \<Rightarrow> admitted \<Rightarrow> gotime \<Rightarrow> ('r, unit) store_tx" where
  "retry_proof env ce c target now =
     bindE (refuseE (spec_expired (req_spec (adm_request target)) now) AdmissionErrExpired) (\<lambda>_.
     bindE (retryInputs env ce (cmd_workspace c, cmd_job c, creq_attempt (cmd_request c))) (\<lambda>proof.
     case cmd_inputs c of
       None \<Rightarrow> failE runtime_panic
     | Some given \<Rightarrow>
         bindE (refuseE (ri_attempt given \<noteq> ri_attempt proof \<or> length (ri_objects given) \<noteq> length (ri_objects proof)) OperationsErrChanged) (\<lambda>_.
         bindE (refuseE (ri_objects given \<noteq> ri_objects proof) OperationsErrInputs) (\<lambda>_.
         bindE (readE (controlLimit c True)) checkE))))"

definition act_on_target ::
  "'r tx_env \<Rightarrow> ('r, 'c) control_env \<Rightarrow> control_command \<Rightarrow> admitted \<Rightarrow> operation_row \<Rightarrow> gotime \<Rightarrow> ('r, operation_row) store_tx" where
  "act_on_target env ce c target row now =
     (case cmd_kind c of
        OperationCancel \<Rightarrow> admitCancellation env target row now
      | OperationRetryCompute \<Rightarrow> createRetry env ce target row now
      | OperationReconcile \<Rightarrow> admitReconciliation env target row (cmd_request c) now
      | OperationCollect \<Rightarrow> admitCollection env ce target row now
      | _ \<Rightarrow> passE row)"

definition new_control ::
  "'r tx_env \<Rightarrow> ('r, 'c) control_env \<Rightarrow> control_command \<Rightarrow> admitted \<Rightarrow> gotime \<Rightarrow> ('r, control_record) store_tx" where
  "new_control env ce c target now =
     (let ref = (cmd_workspace c, cmd_job c, creq_attempt (cmd_request c)) in
      case NewOperation (tx_id env) (cmd_workspace c) (cmd_job c) (creq_attempt (cmd_request c)) (cmd_kind c) now of
        Inl _ \<Rightarrow> failE StoreInvalid
      | Inr x \<Rightarrow>
          let row = (new_row x (if cmd_kind c = OperationCollect then CollectionRequested else PendingEffect) []) in
          bindE (insertOperation c row) (\<lambda>_.
          bindE (controlEvent env ref (operation_id x) EventOperationAccepted now) (\<lambda>_.
          bindE (act_on_target env ce c target row now) (\<lambda>row.
          bindE (saveOperationReceipt c (orow_record row)) (\<lambda>_.
          passE (orow_record row))))))"

definition fresh_control ::
  "'r tx_env \<Rightarrow> ('r, 'c) control_env \<Rightarrow> control_command \<Rightarrow> admitted \<Rightarrow> gotime \<Rightarrow> ('r, control_record) store_tx" where
  "fresh_control env ce c target now =
     (let ref = (cmd_workspace c, cmd_job c, creq_attempt (cmd_request c)) in
      bindE (readE (\<lambda>s. list_ex (\<lambda>row. operation_kind (row_operation row) = OperationCleanup
          \<and> operation_ref (row_operation row) = ref \<and> pending (row_operation row)) (st_operations s))) (\<lambda>cleaning.
      bindE (refuseE cleaning OperationsErrBusy) (\<lambda>_.
      bindE (if cmd_kind c = OperationRetryCompute then retry_proof env ce c target now
             else if cmd_kind c \<noteq> OperationCancel \<and> cmd_kind c \<noteq> OperationCleanup
             then bindE (readE (controlLimit c False)) checkE
             else passE ()) (\<lambda>_.
      if cmd_kind c = OperationCleanup then admitCleanupOperation env ce c target now
      else new_control env ce c target now))))"

definition admit_operation ::
  "'r tx_env \<Rightarrow> ('r, 'c) control_env \<Rightarrow> control_command \<Rightarrow> gotime \<Rightarrow> ('r, control_record) store_tx" where
  "admit_operation env ce c now =
     (let ref = (cmd_workspace c, cmd_job c, creq_attempt (cmd_request c)) in
      bindE (check_actor env (cmd_workspace c) (cmd_token c) ''operate'') (\<lambda>_.
      bindE (replayOperation (cmd_workspace c) (cmd_kind c) (cmd_key c) (cmd_hash c)) (\<lambda>prior.
      case prior of
        Some r \<Rightarrow> passE r
      | None \<Rightarrow>
          bindE schedulerControl (\<lambda>_.
          bindE (controlTarget ref) (\<lambda>target.
          bindE (actionableAttempt env ref) (\<lambda>_.
          bindE (refuseE (before now (attempt_updated (adm_attempt target))) StoreCorrupt) (\<lambda>_.
          bindE (readE (\<lambda>s. find (coalesces c) (rev (st_operations s)))) (\<lambda>existing.
          case existing of
            None \<Rightarrow> fresh_control env ce c target now
          | Some row \<Rightarrow>
              bindE (refuseE (creq_resolution (cmd_request c) \<noteq> []) OperationsErrBusy) (\<lambda>_.
              bindE (loadOperation (cmd_workspace c) (operation_id (row_operation row))) (\<lambda>row.
              bindE (saveOperationReceipt c (orow_record row)) (\<lambda>_.
              passE ((orow_record row)\<lparr>cr_replay := True\<rparr>))))))))))))"

definition AdmitOperation ::
  "'r tx_env \<Rightarrow> ('r, 'c) control_env \<Rightarrow> control_command \<Rightarrow> 'r store \<Rightarrow> (go_error + control_record) \<times> 'r store" where
  "AdmitOperation env ce c s =
     (if command_validate c \<noteq> None then (Inl OperationsErrRequest, s) else store_write env (admit_operation env ce c) s)"

end
