(* ===== verification/Store_Authorize.thy ===== *)
theory Store_Authorize
  imports Store_Control
begin

text \<open>
  Granting authority to an attempt, \<open>authorization.go\<close>, \<open>execution_gate.go\<close> and \<open>workload_secrets.go\<close>: each grant is
  given once per attempt with a receipt that replays, and is bound to what was admitted.
\<close>

section \<open>Commands\<close>

definition AdmissionErrRequirements :: go_error where "AdmissionErrRequirements = Sentinel ''admission.ErrRequirements''"

record gate_command =
  gc_secret_available :: bool
  gc_workspace :: opaque_id
  gc_token :: string
  gc_job :: opaque_id
  gc_key :: string

definition gate_command_valid :: "gate_command \<Rightarrow> bool" where
  "gate_command_valid c \<longleftrightarrow>
     validOpaqueID (gc_workspace c) \<and> validOpaqueID (gc_token c) \<and> validOpaqueID (gc_job c) \<and> digest_valid (gc_key c)"

definition prepare_request_json :: "prepare_request \<Rightarrow> json" where
  "prepare_request_json r = JObject
     [(''attempt_id'', JString (preq_attempt r)), (''max_preparation_seconds'', JInt (preq_max_seconds r)),
      (''ready_until'', JString (preq_ready_until r)), (''max_staged_bytes'', JInt (preq_max_bytes r)),
      (''authorize_private_staging'', JBool (preq_private r))]"

definition start_request_json :: "start_request \<Rightarrow> json" where
  "start_request_json r = JObject
     (omit_if (sreq_secret r = []) ''secret_authorization_id'' (JString (sreq_secret r))
      @ [(''attempt_id'', JString (sreq_attempt r)), (''readiness_revision'', JString (sreq_readiness r)),
         (''max_remote_wall_seconds'', JInt (sreq_wall_seconds r)), (''execution_deadline'', JString (sreq_deadline r)),
         (''authorize_compute'', JBool (sreq_compute r))])"

definition GateDigest :: "string \<Rightarrow> opaque_id \<Rightarrow> json \<Rightarrow> sha256_digest" where
  "GateDigest kind job request = Digest (json_marshal (JObject
     [(''Version'', JString ''execution-gate/v1''), (''Kind'', JString kind), (''Job'', JString job), (''Request'', request)]))"

definition grant_receipt_id :: "opaque_id \<Rightarrow> grant_kind \<Rightarrow> string \<Rightarrow> receipt_id" where
  "grant_receipt_id w k key =
     \<lparr>rk_workspace = w, rk_namespace = ''grant'', rk_scope = grant_kind_string k, rk_key = key\<rparr>"

definition saved_grant :: "opaque_id \<Rightarrow> attempt_ref \<Rightarrow> saved_value \<Rightarrow> saved_receipt" where
  "saved_grant i ref v =
     \<lparr>sv_hash = [], sv_version = [], sv_subject = i, sv_job = fst (snd ref), sv_attempt = snd (snd ref), sv_value = v\<rparr>"

definition new_grant :: "grant_kind \<Rightarrow> opaque_id \<Rightarrow> attempt_ref \<Rightarrow> string \<Rightarrow> grant_row" where
  "new_grant k i ref key =
     \<lparr>g_kind = k, g_authorization = i, g_workspace = fst ref, g_job = fst (snd ref), g_attempt = snd (snd ref), g_key = key,
      g_status = Granted, g_consumed = None, g_prepare = None, g_start = None, g_binding = None, g_account = [],
      g_inputs = [], g_nonce = [], g_wall = 0, g_created = zero_time, g_reserved = 0, g_ready_until = 0,
      g_ready_revision = None, g_ready_at = None, g_released = False, g_metadata = None, g_expires = None,
      g_revoked = None, g_revocation_key = []\<rparr>"

text \<open>The primary key of the table: one grant of a kind per attempt.\<close>

definition insert_grant :: "grant_row \<Rightarrow> ('r, unit) store_tx" where
  "insert_grant g =
     bindE (readE (find_grant (g_kind g) (g_workspace g, g_job g, g_attempt g))) (\<lambda>found.
     bindE (refuseE (found \<noteq> None) StoreConflict) (\<lambda>_.
     writeE (\<lambda>s. s\<lparr>st_grants := st_grants s @ [g]\<rparr>)))"

definition save_grant :: "grant_row \<Rightarrow> string \<Rightarrow> go_error \<Rightarrow> saved_value \<Rightarrow> ('r, unit) store_tx" where
  "save_grant g hash conflict v =
     bindE (insert_grant g) (\<lambda>_.
     bindE (replayOrCreate (grant_receipt_id (g_workspace g) (g_kind g) (g_key g)) hash [] conflict
       (Some (saved_grant (g_authorization g) (g_workspace g, g_job g, g_attempt g) v))) (\<lambda>_. passE ()))"


section \<open>Execution permits\<close>

record exec_command =
  xc_workspace :: opaque_id
  xc_token :: string
  xc_job :: opaque_id
  xc_key :: string
  xc_request :: exec_request

definition exec_command_valid :: "exec_command \<Rightarrow> bool" where
  "exec_command_valid c \<longleftrightarrow>
     validOpaqueID (xc_workspace c) \<and> validOpaqueID (xc_token c) \<and> validOpaqueID (xc_job c) \<and> digest_valid (xc_key c)
     \<and> exec_request_valid (xc_request c)"

definition undispatched :: "attempt_ref \<Rightarrow> ('r, unit) store_tx" where
  "undispatched ref =
     bindE (find_queue (\<lambda>q. queue_ref q = ref)) (\<lambda>found.
     case found of
       None \<Rightarrow> failE StoreUnavailable
     | Some q \<Rightarrow>
         bindE (readE (\<lambda>s. st_journals s (q_sequence q))) (\<lambda>row.
         refuseE (q_barrier q \<or> (case row of None \<Rightarrow> False | Some d \<Rightarrow> jl_phase d \<noteq> ''local'' \<or> jl_version d \<noteq> 0)) AuthErrState))"

definition replay_execution :: "exec_command \<Rightarrow> saved_receipt \<Rightarrow> go_error + auth_receipt" where
  "replay_execution c saved =
     (case sv_value saved of
        SavedExecution r \<Rightarrow>
          if \<not> auth_receipt_valid r \<or> ar_status r \<noteq> Granted \<or> ar_replay r \<or> ar_workspace r \<noteq> xc_workspace c
              \<or> ar_job r \<noteq> xc_job c \<or> ar_attempt r \<noteq> xreq_attempt (xc_request c) then Inl StoreCorrupt
          else Inr (r\<lparr>ar_replay := True\<rparr>)
      | _ \<Rightarrow> Inl StoreCorrupt)"

definition missing_job :: "('r, 'a) store_tx \<Rightarrow> ('r, 'a) store_tx" where
  "missing_job = recoverE ''admission.ErrNotFound'' AuthErrNotFound"

definition grant_execution :: "'r tx_env \<Rightarrow> exec_command \<Rightarrow> string \<Rightarrow> gotime \<Rightarrow> ('r, auth_receipt) store_tx" where
  "grant_execution env c hash now =
     (let q = xc_request c; ref = (xc_workspace c, xc_job c, xreq_attempt q) in
      bindE (missing_job (readJobRecord (xc_workspace c) (xc_job c))) (\<lambda>r.
      let s = req_spec (adm_request r); a = adm_attempt r in
      bindE (refuseE (attempt_id a \<noteq> xreq_attempt q) AuthErrConflict) (\<lambda>_.
      bindE (refuseE (spec_expired s now) AdmissionErrExpired) (\<lambda>_.
      bindE (refuseE (SeparateStart s \<or> \<not> LocalOnly (attempt_state a) \<or> before now (attempt_updated a)) AuthErrState) (\<lambda>_.
      bindE (readE (\<lambda>st. tx_owned env (xc_workspace c) (adm_profile r) (st_rest st))) (\<lambda>owned.
      bindE (checkE owned) (\<lambda>_.
      bindE (refuseE (spec_wall_seconds s \<noteq> xreq_wall_seconds q) AuthErrRequest) (\<lambda>_.
      bindE (readE (find_grant ExecutionGrant ref)) (\<lambda>found.
      bindE (refuseE (found \<noteq> None) AuthErrConflict) (\<lambda>_.
      bindE (undispatched ref) (\<lambda>_.
      bindE (liftE (authorizationInputs r)) (\<lambda>inputs.
      bindE (readE (tx_capacity env r now)) (\<lambda>capacity.
      bindE (checkE capacity) (\<lambda>_.
      let receipt = \<lparr>ar_authorization = tx_id env, ar_workspace = xc_workspace c, ar_job = xc_job c,
            ar_attempt = xreq_attempt q, ar_status = Granted, ar_wall_seconds = xreq_wall_seconds q,
            ar_created = utc now, ar_consumed = None, ar_replay = False\<rparr>;
          g = (new_grant ExecutionGrant (tx_id env) ref (xc_key c))\<lparr>g_binding := Some (adm_profile r),
            g_account := prof_account (adm_profile r), g_inputs := inputs, g_nonce := adm_nonce r,
            g_wall := xreq_wall_seconds q, g_created := utc now\<rparr> in
      bindE (save_grant g hash AuthErrConflict (SavedExecution receipt)) (\<lambda>_.
      passE receipt)))))))))))))))"

definition AuthorizeExecution :: "'r tx_env \<Rightarrow> exec_command \<Rightarrow> 'r store \<Rightarrow> (go_error + auth_receipt) \<times> 'r store" where
  "AuthorizeExecution env c st =
     (case exec_request_digest (xc_request c) (xc_job c) of
        Some hash \<Rightarrow>
          if \<not> exec_command_valid c then (Inl AuthErrRequest, st)
          else store_write env (\<lambda>now.
            bindE (check_actor env (xc_workspace c) (xc_token c) ''execute'') (\<lambda>_.
            bindE (replayOrCreate (grant_receipt_id (xc_workspace c) ExecutionGrant (xc_key c)) hash [] AuthErrConflict None) (\<lambda>prior.
            case prior of
              Some saved \<Rightarrow> liftE (replay_execution c saved)
            | None \<Rightarrow> grant_execution env c hash now))) st
      | None \<Rightarrow> (Inl AuthErrRequest, st))"

definition readAuthorization :: "opaque_id \<Rightarrow> opaque_id \<Rightarrow> opaque_id \<Rightarrow> ('r, auth_receipt) store_tx" where
  "readAuthorization w job i =
     bindE (readE (\<lambda>s. case find (\<lambda>g. g_kind g = ExecutionGrant \<and> g_workspace g = w \<and> g_job g = job \<and> g_authorization g = i) (st_grants s) of
         None \<Rightarrow> None | Some g \<Rightarrow> map_option (Pair g) (grant_receipt g s))) (\<lambda>found.
     case found of
       None \<Rightarrow> failE AuthErrNotFound
     | Some (g, saved) \<Rightarrow>
         (case sv_value saved of
            SavedExecution r \<Rightarrow>
              bindE (refuseE (length (saved_text (SavedExecution r)) > 4096 \<or> \<not> auth_receipt_valid r \<or> ar_status r \<noteq> Granted
                  \<or> ar_replay r \<or> ar_workspace r \<noteq> w \<or> ar_job r \<noteq> job \<or> ar_authorization r \<noteq> i) StoreCorrupt) (\<lambda>_.
              let r = r\<lparr>ar_status := g_status g, ar_consumed := (case g_consumed g of None \<Rightarrow> ar_consumed r | Some t \<Rightarrow> Some t)\<rparr> in
              bindE (refuseE (\<not> auth_receipt_valid r) StoreCorrupt) (\<lambda>_. passE r))
          | _ \<Rightarrow> failE StoreCorrupt))"

definition ReadExecutionAuthorization ::
  "'r tx_env \<Rightarrow> opaque_id \<Rightarrow> string \<Rightarrow> opaque_id \<Rightarrow> opaque_id \<Rightarrow> 'r store \<Rightarrow> (go_error + auth_receipt) \<times> 'r store" where
  "ReadExecutionAuthorization env w token job i s =
     (if \<not> validOpaqueID w \<or> \<not> validOpaqueID job \<or> \<not> validOpaqueID i then (Inl AuthErrNotFound, s)
      else store_write env (\<lambda>now. bindE (check_actor env w token ''execute'') (\<lambda>_. readAuthorization w job i)) s)"


section \<open>The two grants of a separate start\<close>

definition replayGate :: "gate_command \<Rightarrow> grant_kind \<Rightarrow> json \<Rightarrow> ('r, gate_receipt option) store_tx" where
  "replayGate c k request =
     bindE (replayOrCreate (grant_receipt_id (gc_workspace c) k (gc_key c))
       (GateDigest (grant_kind_string k) (gc_job c) request) [] AuthErrConflict None) (\<lambda>prior.
     case prior of
       None \<Rightarrow> passE None
     | Some saved \<Rightarrow>
         (case gateReceipt saved (grant_kind_string k) None of
            Inl _ \<Rightarrow> failE StoreCorrupt
          | Inr r \<Rightarrow>
              bindE (refuseE (gr_workspace r \<noteq> gc_workspace c \<or> gr_job r \<noteq> gc_job c) StoreCorrupt) (\<lambda>_.
              passE (Some (r\<lparr>gr_replay := True\<rparr>)))))"

definition newGateReceipt :: "'r tx_env \<Rightarrow> gotime \<Rightarrow> gate_command \<Rightarrow> opaque_id \<Rightarrow> grant_kind \<Rightarrow> gate_receipt" where
  "newGateReceipt env now c attempt k =
     \<lparr>gr_authorization = tx_id env, gr_workspace = gc_workspace c, gr_job = gc_job c, gr_attempt = attempt,
      gr_kind = grant_kind_string k, gr_status = Granted, gr_created = utc now, gr_consumed = None, gr_replay = False\<rparr>"

definition pending_cancel :: "attempt_ref \<Rightarrow> 'r store \<Rightarrow> bool" where
  "pending_cancel ref s \<longleftrightarrow> list_ex (\<lambda>row. operation_ref (row_operation row) = ref
     \<and> operation_kind (row_operation row) = OperationCancel \<and> pending (row_operation row)) (st_operations s)"

definition gateRecord :: "'r tx_env \<Rightarrow> gotime \<Rightarrow> gate_command \<Rightarrow> opaque_id \<Rightarrow> ('r, admitted) store_tx" where
  "gateRecord env now c attempt =
     bindE (missing_job (readJobRecord (gc_workspace c) (gc_job c))) (\<lambda>r.
     let s = req_spec (adm_request r); a = adm_attempt r in
     bindE (refuseE (attempt_id a \<noteq> attempt) AuthErrConflict) (\<lambda>_.
     bindE (refuseE (\<not> SeparateStart s \<or> \<not> LocalOnly (attempt_state a)) AuthErrState) (\<lambda>_.
     bindE (refuseE (before now (attempt_updated a)) StoreCorrupt) (\<lambda>_.
     bindE (refuseE (spec_expired s now) AdmissionErrExpired) (\<lambda>_.
     bindE (readE (\<lambda>st. tx_owned env (gc_workspace c) (adm_profile r) (st_rest st))) (\<lambda>owned.
     bindE (checkE owned) (\<lambda>_.
     bindE (refuseE (\<not> profile_check (adm_profile r) s) AdmissionErrRequirements) (\<lambda>_.
     bindE (readE (pending_cancel (gc_workspace c, gc_job c, attempt))) (\<lambda>cancelled.
     bindE (refuseE cancelled AuthErrState) (\<lambda>_.
     passE r))))))))))"

definition staged_total :: "admitted \<Rightarrow> int" where
  "staged_total r = sum_list (map (\<lambda>x. object_bytes (frozen_metadata x)) (adm_objects r))"

definition storage_full :: "scheduler_settings \<Rightarrow> int \<Rightarrow> 'r store \<Rightarrow> bool" where
  "storage_full settings staged s \<longleftrightarrow>
     (let held = filter (\<lambda>g. g_kind g = PrepareGrant \<and> \<not> g_released g) (st_grants s) in
      int (length held) \<ge> max_workers settings
      \<or> sum_list (map g_reserved held) > max_workers settings * MaxStagedBytes - staged)"

definition prepare_execution :: "'r tx_env \<Rightarrow> gate_command \<Rightarrow> prepare_request \<Rightarrow> gotime \<Rightarrow> ('r, gate_receipt) store_tx" where
  "prepare_execution env c q now =
     (let ref = (gc_workspace c, gc_job c, preq_attempt q); until = parse_or_zero (preq_ready_until q) in
      bindE (gateRecord env now c (preq_attempt q)) (\<lambda>r.
      let limit = Deadline (req_spec (adm_request r)); staged = staged_total r in
      bindE (refuseE (\<not> before now until) AdmissionErrExpired) (\<lambda>_.
      bindE (refuseE (after until (add_time now MaxReadyHold) \<or> \<not> is_zero limit \<and> after until limit) AuthErrRequest) (\<lambda>_.
      bindE (controlWork env r) (\<lambda>w.
      bindE (refuseE (j_phase (w_journal w) \<noteq> Local \<or> j_version (w_journal w) \<noteq> 0) AuthErrState) (\<lambda>_.
      bindE (readE (find_grant PrepareGrant ref)) (\<lambda>found.
      bindE (refuseE (found \<noteq> None) AuthErrConflict) (\<lambda>_.
      bindE (liftE (authorizationInputs r)) (\<lambda>inputs.
      bindE (refuseE (staged < 1 \<or> staged > preq_max_bytes q) AuthErrRequest) (\<lambda>_.
      bindE schedulerControl (\<lambda>(settings, last).
      bindE (readE (storage_full settings staged)) (\<lambda>full.
      bindE (refuseE full AdmissionErrLimit) (\<lambda>_.
      let receipt = newGateReceipt env now c (preq_attempt q) PrepareGrant;
          g = (new_grant PrepareGrant (tx_id env) ref (gc_key c))\<lparr>g_prepare := Some q, g_binding := Some (adm_profile r),
            g_account := prof_account (adm_profile r), g_inputs := inputs, g_nonce := adm_nonce r, g_reserved := staged,
            g_ready_until := unix_milli until\<rparr> in
      bindE (save_grant g (GateDigest ''prepare'' (gc_job c) (prepare_request_json q)) AuthErrConflict (SavedGate receipt)) (\<lambda>_.
      passE receipt))))))))))))))"

definition PrepareExecution ::
  "'r tx_env \<Rightarrow> gate_command \<Rightarrow> prepare_request \<Rightarrow> 'r store \<Rightarrow> (go_error + gate_receipt) \<times> 'r store" where
  "PrepareExecution env c q s =
     (if \<not> gate_command_valid c \<or> \<not> prepare_request_valid q then (Inl AuthErrRequest, s)
      else store_write env (\<lambda>now.
        bindE (check_actor env (gc_workspace c) (gc_token c) ''execute'') (\<lambda>_.
        bindE (replayGate c PrepareGrant (prepare_request_json q)) (\<lambda>prior.
        case prior of Some r \<Rightarrow> passE r | None \<Rightarrow> prepare_execution env c q now))) s)"

definition start_bounds :: "spec \<Rightarrow> start_request \<Rightarrow> gotime \<Rightarrow> bool" where
  "start_bounds s q now \<longleftrightarrow>
     (let stop = parse_or_zero (sreq_deadline q) in
      sreq_wall_seconds q > spec_setup_seconds s + spec_grace_seconds s \<and> sreq_wall_seconds q \<le> spec_wall_seconds s
      \<and> \<not> after stop (add_time now (sreq_wall_seconds q * second_ns)) \<and> (is_zero (Deadline s) \<or> \<not> after stop (Deadline s)))"

definition start_execution :: "'r tx_env \<Rightarrow> gate_command \<Rightarrow> start_request \<Rightarrow> gotime \<Rightarrow> ('r, gate_receipt) store_tx" where
  "start_execution env c q now =
     (let ref = (gc_workspace c, gc_job c, sreq_attempt q) in
      bindE (gateRecord env now c (sreq_attempt q)) (\<lambda>r.
      bindE (loadExecutionGate r now) (\<lambda>gate.
      case gate of
        None \<Rightarrow> failE AuthErrState
      | Some g \<Rightarrow>
          bindE (refuseE (gr_status (gate_preparation g) \<noteq> Consumed \<or> gate_ready_at g = None) AuthErrState) (\<lambda>_.
          bindE (refuseE (gate_start g \<noteq> None) AuthErrConflict) (\<lambda>_.
          bindE (refuseE (gate_expired g now) AdmissionErrExpired) (\<lambda>_.
          bindE (refuseE (gate_ready_revision g \<noteq> sreq_readiness q) AuthErrConflict) (\<lambda>_.
          bindE (controlWork env r) (\<lambda>w.
          bindE (refuseE (j_phase (w_journal w) \<noteq> Ready \<or> j_submit_started (w_journal w)
              \<or> (case j_prepared (w_journal w) of None \<Rightarrow> True | Some p \<Rightarrow> ReadinessRevision p \<noteq> gate_ready_revision g)) AuthErrState) (\<lambda>_.
          bindE (refuseE (\<not> before now (parse_or_zero (sreq_deadline q))) AdmissionErrExpired) (\<lambda>_.
          bindE (refuseE (\<not> start_bounds (req_spec (adm_request r)) q now) AuthErrRequest) (\<lambda>_.
          bindE (secretForStart r (sreq_secret q) (sreq_readiness q) now) (\<lambda>secret.
          bindE (refuseE (secret \<noteq> None \<and> \<not> gc_secret_available c) SecretUnavailable) (\<lambda>_.
          bindE (readE (tx_capacity env r now)) (\<lambda>capacity.
          bindE (checkE capacity) (\<lambda>_.
          let receipt = newGateReceipt env now c (sreq_attempt q) StartGrant;
              x = (new_grant StartGrant (tx_id env) ref (gc_key c))\<lparr>g_start := Some q\<rparr> in
          bindE (save_grant x (GateDigest ''start'' (gc_job c) (start_request_json q)) AuthErrConflict (SavedGate receipt)) (\<lambda>_.
          passE receipt))))))))))))))))"

definition StartExecution ::
  "'r tx_env \<Rightarrow> gate_command \<Rightarrow> start_request \<Rightarrow> 'r store \<Rightarrow> (go_error + gate_receipt) \<times> 'r store" where
  "StartExecution env c q s =
     (if \<not> gate_command_valid c \<or> \<not> start_request_valid q then (Inl AuthErrRequest, s)
      else store_write env (\<lambda>now.
        bindE (check_actor env (gc_workspace c) (gc_token c) ''execute'') (\<lambda>_.
        bindE (replayGate c StartGrant (start_request_json q)) (\<lambda>prior.
        case prior of Some r \<Rightarrow> passE r | None \<Rightarrow> start_execution env c q now))) s)"

end
