(* ===== verification/Store_Secrets.thy ===== *)
theory Store_Secrets
  imports Store_Authorize
begin

text \<open>
  Supplying and revoking the secrets of a start (\<open>workload_secrets.go\<close>), and what applications read of a gate
  (\<open>ReadGateAuthorization\<close> and \<open>ReadReadiness\<close> of \<open>execution_gate.go\<close>).
\<close>

section \<open>Secrets\<close>

definition command_key :: "gate_command \<Rightarrow> opaque_id \<Rightarrow> secret_key" where
  "command_key c attempt = \<lparr>key_workspace = gc_workspace c, key_job = gc_job c, key_attempt = attempt\<rparr>"

definition secret_ready :: "admitted \<Rightarrow> gate option \<Rightarrow> receipt \<Rightarrow> gotime \<Rightarrow> bool" where
  "secret_ready r gate current now \<longleftrightarrow>
     (case gate of
        None \<Rightarrow> False
      | Some g \<Rightarrow> \<not> gate_expired g now \<and> gate_ready_revision g = meta_readiness (receipt_metadata current)
          \<and> matchSecretSlots (spec_secrets (req_spec (adm_request r))) (receipt_metadata current))"

definition attempt_awaits_start :: "secret_key \<Rightarrow> admitted \<Rightarrow> gotime \<Rightarrow> bool" where
  "attempt_awaits_start key r now \<longleftrightarrow>
     (let s = req_spec (adm_request r); state = attempt_state (adm_attempt r) in
      attempt_id (adm_attempt r) = key_attempt key \<and> SeparateStart s \<and> \<not> spec_expired s now
      \<and> cancellation state = CancellationNotRequested \<and> LocalOnly state)"

definition start_blocked :: "attempt_ref \<Rightarrow> ('r, bool) store_tx" where
  "start_blocked ref =
     bindE (readE (\<lambda>s. (find_grant PrepareGrant ref s, pending_cancel ref s))) (\<lambda>(found, cancelled).
     case found of None \<Rightarrow> failE StoreUnavailable | Some g \<Rightarrow> passE (g_released g \<or> cancelled))"

text \<open>Whether the material of an authorization may still be delivered.\<close>

definition secret_deliverable :: "'r tx_env \<Rightarrow> secret_key \<Rightarrow> receipt \<Rightarrow> gotime \<Rightarrow> ('r, bool) store_tx" where
  "secret_deliverable env key current now =
     bindE (readJobRecord (key_workspace key) (key_job key)) (\<lambda>r.
     if \<not> attempt_awaits_start key r now then passE False
     else
       bindE (loadExecutionGate r now) (\<lambda>gate.
       if \<not> secret_ready r gate current now then passE False
       else
         bindE (controlWork env r) (\<lambda>w.
         if j_phase (w_journal w) \<noteq> Ready \<or> j_submit_started (w_journal w) then passE False
         else bindE (start_blocked (key_workspace key, key_job key, key_attempt key)) (\<lambda>blocked. passE (\<not> blocked)))))"

definition optionalE :: "string \<Rightarrow> ('s, 'a) tx \<Rightarrow> ('s, 'a option) tx" where
  "optionalE sentinel m = (\<lambda>s. case m s of
     Inl x \<Rightarrow> if errors_is sentinel (Some x) then Inr (None, s) else Inl x
   | Inr (y, s') \<Rightarrow> Inr (Some y, s'))"

definition secretUsable :: "'r tx_env \<Rightarrow> secret_key \<Rightarrow> opaque_id \<Rightarrow> gotime \<Rightarrow> ('r, bool) store_tx" where
  "secretUsable env key i now =
     bindE (optionalE ''workloadsecret.ErrNotFound'' (loadSecret key now)) (\<lambda>found.
     case found of
       None \<Rightarrow> passE False
     | Some (original, current) \<Rightarrow>
         if receipt_authorization current \<noteq> i \<or> receipt_status current \<noteq> ''granted'' then passE False
         else secret_deliverable env key current now)"

definition replay_supply ::
  "'r tx_env \<Rightarrow> gate_command \<Rightarrow> secret_metadata \<Rightarrow> saved_receipt \<Rightarrow> gotime \<Rightarrow> ('r, receipt \<times> bool) store_tx" where
  "replay_supply env c m prior now =
     (let key = command_key c (meta_attempt m) in
      bindE (refuseE (sv_job prior \<noteq> gc_job c \<or> sv_attempt prior \<noteq> meta_attempt m) SecretConflict) (\<lambda>_.
      bindE (loadSecret key now) (\<lambda>(original, current).
      bindE (secretUsable env key (receipt_authorization original) now) (\<lambda>usable.
      passE (original\<lparr>receipt_replay := True\<rparr>, usable)))))"

definition supply_fresh ::
  "'r tx_env \<Rightarrow> gate_command \<Rightarrow> secret_metadata \<Rightarrow> string \<Rightarrow> gotime \<Rightarrow> ('r, receipt \<times> bool) store_tx" where
  "supply_fresh env c m fingerprint now =
     (let ref = (gc_workspace c, gc_job c, meta_attempt m);
          until = (case CanonicalTime (meta_expires m) of None \<Rightarrow> zero_time | Some t \<Rightarrow> t) in
      bindE (gateRecord env now c (meta_attempt m)) (\<lambda>r.
      bindE (refuseE (\<not> matchSecretSlots (spec_secrets (req_spec (adm_request r))) m) SecretRequest) (\<lambda>_.
      bindE (loadExecutionGate r now) (\<lambda>gate.
      bindE (refuseE (case gate of None \<Rightarrow> True | Some g \<Rightarrow> gate_ready_at g = None
          \<or> gate_ready_revision g \<noteq> meta_readiness m \<or> gate_expired g now) SecretState) (\<lambda>_.
      bindE (controlWork env r) (\<lambda>w.
      bindE (refuseE (j_phase (w_journal w) \<noteq> Ready \<or> j_submit_started (w_journal w)) SecretState) (\<lambda>_.
      bindE (refuseE (\<not> before now until \<or> after until (add_time now MaxLifetime)) SecretRequest) (\<lambda>_.
      bindE (readE (find_grant SecretGrant ref)) (\<lambda>found.
      bindE (refuseE (found \<noteq> None) SecretConflict) (\<lambda>_.
      let receipt = \<lparr>receipt_authorization = tx_id env, receipt_workspace = gc_workspace c, receipt_job = gc_job c,
            receipt_metadata = m, receipt_status = ''granted'', receipt_created = utc now, receipt_consumed = None,
            receipt_revoked = None, receipt_replay = False\<rparr>;
          g = (new_grant SecretGrant (tx_id env) ref (gc_key c))\<lparr>g_metadata := Some m, g_expires := Some (unix_milli until)\<rparr> in
      bindE (save_grant g fingerprint SecretConflict (SavedSecret receipt)) (\<lambda>_.
      passE (receipt, True))))))))))))"

definition SupplyWorkloadSecrets ::
  "'r tx_env \<Rightarrow> gate_command \<Rightarrow> secret_metadata \<Rightarrow> string \<Rightarrow> 'r store \<Rightarrow> (go_error + receipt \<times> bool) \<times> 'r store" where
  "SupplyWorkloadSecrets env c m fingerprint s =
     (if \<not> gate_command_valid c \<or> metadata_validate m \<noteq> None \<or> \<not> digest_valid fingerprint then (Inl SecretRequest, s)
      else store_write env (\<lambda>now.
        bindE (check_actor env (gc_workspace c) (gc_token c) ''execute'') (\<lambda>_.
        bindE (replayOrCreate (grant_receipt_id (gc_workspace c) SecretGrant (gc_key c)) fingerprint [] SecretConflict None) (\<lambda>prior.
        case prior of
          Some saved \<Rightarrow> replay_supply env c m saved now
        | None \<Rightarrow> supply_fresh env c m fingerprint now))) s)"

definition revoke_receipt_id :: "gate_command \<Rightarrow> opaque_id \<Rightarrow> receipt_id" where
  "revoke_receipt_id c i = \<lparr>rk_workspace = gc_workspace c, rk_namespace = ''revoke'', rk_scope = i, rk_key = gc_key c\<rparr>"

definition secret_grant_of :: "opaque_id \<Rightarrow> opaque_id \<Rightarrow> grant_row \<Rightarrow> bool" where
  "secret_grant_of w i g \<longleftrightarrow> g_kind g = SecretGrant \<and> g_workspace g = w \<and> g_authorization g = i"

definition revoke_fresh ::
  "gate_command \<Rightarrow> opaque_id \<Rightarrow> opaque_id \<Rightarrow> receipt \<Rightarrow> string \<Rightarrow> gotime \<Rightarrow> ('r, receipt) store_tx" where
  "revoke_fresh c attempt i current supply_hash now =
     (let r = current\<lparr>receipt_status := ''revoked'', receipt_revoked := Some now\<rparr>;
          hit = (\<lambda>g. secret_grant_of (gc_workspace c) i g \<and> g_consumed g = None \<and> g_revoked g = None) in
      bindE (refuseE (receipt_status current = ''revoked'') SecretConflict) (\<lambda>_.
      bindE (refuseE (receipt_status current = ''consumed'') SecretState) (\<lambda>_.
      bindE (readE (\<lambda>s. length (filter hit (st_grants s)))) (\<lambda>n.
      bindE (refuseE (n \<noteq> 1) SecretState) (\<lambda>_.
      bindE (writeE (\<lambda>s. s\<lparr>st_grants := map (\<lambda>g. if hit g then g\<lparr>g_status := Revoked, g_revoked := Some (utc now),
          g_revocation_key := gc_key c\<rparr> else g) (st_grants s)\<rparr>)) (\<lambda>_.
      bindE (replayOrCreate (revoke_receipt_id c i) supply_hash [] SecretConflict
        (Some (saved_grant i (gc_workspace c, gc_job c, attempt) (SavedSecret r)))) (\<lambda>_.
      passE r)))))))"

definition RevokeWorkloadSecrets ::
  "'r tx_env \<Rightarrow> gate_command \<Rightarrow> opaque_id \<Rightarrow> opaque_id \<Rightarrow> 'r store \<Rightarrow> (go_error + receipt) \<times> 'r store" where
  "RevokeWorkloadSecrets env c attempt i s =
     (if \<not> gate_command_valid c \<or> \<not> validOpaqueID attempt \<or> \<not> validOpaqueID i then (Inl SecretRequest, s)
      else store_write env (\<lambda>now.
        bindE (check_actor env (gc_workspace c) (gc_token c) ''execute'') (\<lambda>_.
        bindE (loadSecret (command_key c attempt) now) (\<lambda>(original, current).
        bindE (refuseE (receipt_authorization current \<noteq> i) SecretNotFound) (\<lambda>_.
        bindE (readE (\<lambda>s. find (secret_grant_of (gc_workspace c) i) (st_grants s))) (\<lambda>found.
        case found of
          None \<Rightarrow> failE StoreUnavailable
        | Some g \<Rightarrow>
            bindE (replayOrCreate (revoke_receipt_id c i) (g_key g) [] SecretConflict None) (\<lambda>prior.
            case prior of
              None \<Rightarrow> revoke_fresh c attempt i current (g_key g) now
            | Some saved \<Rightarrow>
                (case sv_value saved of
                   SavedSecret r \<Rightarrow>
                     bindE (refuseE (receipt_status current \<noteq> ''revoked'' \<or> receipt_validate r \<noteq> None) StoreCorrupt) (\<lambda>_.
                     passE (r\<lparr>receipt_replay := True\<rparr>))
                 | _ \<Rightarrow> failE StoreCorrupt))))))) s)"

definition ReadWorkloadSecrets ::
  "'r tx_env \<Rightarrow> opaque_id \<Rightarrow> string \<Rightarrow> opaque_id \<Rightarrow> opaque_id \<Rightarrow> 'r store \<Rightarrow> (go_error + receipt) \<times> 'r store" where
  "ReadWorkloadSecrets env w token job i s =
     (if \<not> validOpaqueID w \<or> \<not> validOpaqueID job \<or> \<not> validOpaqueID i then (Inl SecretNotFound, s)
      else store_write env (\<lambda>now.
        bindE (check_actor env w token ''execute'') (\<lambda>_.
        bindE (readE (\<lambda>s. find (\<lambda>g. secret_grant_of w i g \<and> g_job g = job) (st_grants s))) (\<lambda>found.
        case found of
          None \<Rightarrow> failE SecretNotFound
        | Some g \<Rightarrow>
            bindE (loadSecret \<lparr>key_workspace = w, key_job = job, key_attempt = g_attempt g\<rparr> now) (\<lambda>(original, current).
            passE current)))) s)"

definition WorkloadSecretsUsable :: "'r tx_env \<Rightarrow> secret_key \<Rightarrow> opaque_id \<Rightarrow> 'r store \<Rightarrow> (go_error + bool) \<times> 'r store" where
  "WorkloadSecretsUsable env key i s =
     (if \<not> secret_key_valid key \<or> \<not> validOpaqueID i then (Inl SecretRequest, s)
      else store_write env (secretUsable env key i) s)"


section \<open>Reading the gate\<close>

definition ReadGateAuthorization ::
  "'r tx_env \<Rightarrow> opaque_id \<Rightarrow> string \<Rightarrow> opaque_id \<Rightarrow> opaque_id \<Rightarrow> 'r store \<Rightarrow> (go_error + gate_receipt) \<times> 'r store" where
  "ReadGateAuthorization env w token job i s =
     (if \<not> validOpaqueID w \<or> \<not> validOpaqueID job \<or> \<not> validOpaqueID i then (Inl AuthErrNotFound, s)
      else store_write env (\<lambda>now.
        bindE (check_actor env w token ''execute'') (\<lambda>_.
        bindE (readE (\<lambda>s. List.map_filter (\<lambda>k.
            case find (\<lambda>g. g_kind g = k \<and> g_workspace g = w \<and> g_job g = job \<and> g_authorization g = i) (st_grants s) of
              None \<Rightarrow> None | Some g \<Rightarrow> map_option (Pair g) (grant_receipt g s)) [PrepareGrant, StartGrant])) (\<lambda>rows.
        case rows of
          [] \<Rightarrow> failE AuthErrNotFound
        | (g, saved) # _ \<Rightarrow>
            (case gateReceipt saved (grant_kind_string (g_kind g)) (g_consumed g) of
               Inl _ \<Rightarrow> failE StoreCorrupt
             | Inr r \<Rightarrow> bindE (refuseE (gr_workspace r \<noteq> w \<or> gr_job r \<noteq> job \<or> gr_authorization r \<noteq> i) StoreCorrupt) (\<lambda>_. passE r))))) s)"

record secret_readiness =
  sr_slots :: "slot list"
  sr_authorization :: opaque_id
  sr_status :: string
  sr_expires :: string

record readiness =
  rd_secrets :: "secret_readiness option"
  rd_attempt :: opaque_id
  rd_state :: string
  rd_revision :: sha256_digest
  rd_observed :: "gotime option"
  rd_ready_until :: string
  rd_staged_bytes :: int
  rd_actions :: "string list"

definition gate_readiness :: "opaque_id \<Rightarrow> gate option \<Rightarrow> journal \<Rightarrow> readiness" where
  "gate_readiness attempt gate j =
     (case gate of
        None \<Rightarrow> \<lparr>rd_secrets = None, rd_attempt = attempt, rd_state = ''preparation_required'', rd_revision = [],
          rd_observed = None, rd_ready_until = [], rd_staged_bytes = 0, rd_actions = [''prepare'']\<rparr>
      | Some g \<Rightarrow>
          let (state, actions) =
            (if j_phase j = Staging then (''preparing'', [])
             else if j_phase j = Ready then
               if gate_start g \<noteq> None then (''start_authorized'', []) else (''ready'', [''start''])
             else if j_phase j = Attention \<or> j_phase j = Failed then
               if (case j_problem j of Some p \<Rightarrow> code p = CodeRemoteIdentityMismatch | None \<Rightarrow> False)
               then (''invalidated'', [''cancel'', ''cleanup'']) else (''uncertain'', [''reconcile''])
             else (''queued'', []))
          in \<lparr>rd_secrets = None, rd_attempt = attempt, rd_state = state, rd_revision = gate_ready_revision g,
               rd_observed = gate_ready_at g, rd_ready_until = preq_ready_until (gate_request g),
               rd_staged_bytes = (if gate_ready_at g \<noteq> None then gate_staged_bytes g else 0), rd_actions = actions\<rparr>)"

definition settle_readiness :: "admitted \<Rightarrow> gate option \<Rightarrow> journal \<Rightarrow> gotime \<Rightarrow> readiness \<Rightarrow> readiness" where
  "settle_readiness r gate j now d =
     (if j_submit_started j then
        if j_phase j = Attention then d\<lparr>rd_state := ''uncertain'', rd_actions := [''reconcile'']\<rparr>
        else if j_phase j = Rejected then d\<lparr>rd_state := ''prevented'', rd_actions := []\<rparr>
        else d\<lparr>rd_state := (if j_remote j \<noteq> None then ''started'' else ''starting''), rd_actions := []\<rparr>
      else if cancellation (attempt_state (adm_attempt r)) \<noteq> CancellationNotRequested
      then d\<lparr>rd_state := ''prevented'', rd_actions := [''cleanup'']\<rparr>
      else if spec_expired (req_spec (adm_request r)) now \<or> (case gate of None \<Rightarrow> False | Some g \<Rightarrow> gate_expired g now)
      then d\<lparr>rd_state := ''expired'', rd_actions := [''cleanup'']\<rparr>
      else d)"

definition add_secrets :: "slot list \<Rightarrow> receipt option \<Rightarrow> readiness \<Rightarrow> readiness" where
  "add_secrets slots current d =
     (let x = (case current of
            None \<Rightarrow> \<lparr>sr_slots = slots, sr_authorization = [], sr_status = ''missing'', sr_expires = []\<rparr>
          | Some r \<Rightarrow> \<lparr>sr_slots = slots, sr_authorization = receipt_authorization r, sr_status = receipt_status r,
              sr_expires = meta_expires (receipt_metadata r)\<rparr>);
          d = d\<lparr>rd_secrets := Some x\<rparr> in
      if rd_state d \<noteq> ''ready'' \<and> rd_state d \<noteq> ''start_authorized'' then d
      else if sr_status x = ''missing'' then d\<lparr>rd_actions := rd_actions d @ [''supply_secrets'']\<rparr>
      else if sr_status x = ''expired'' \<or> sr_status x = ''revoked'' then d\<lparr>rd_actions := [''cancel'', ''cleanup'']\<rparr>
      else d)"

definition read_readiness :: "'r tx_env \<Rightarrow> opaque_id \<Rightarrow> opaque_id \<Rightarrow> gotime \<Rightarrow> ('r, readiness) store_tx" where
  "read_readiness env w job now =
     bindE (missing_job (readJobRecord w job)) (\<lambda>r.
     let slots = spec_secrets (req_spec (adm_request r)); attempt = attempt_id (adm_attempt r) in
     bindE (refuseE (\<not> SeparateStart (req_spec (adm_request r))) AuthErrState) (\<lambda>_.
     bindE (controlWork env r) (\<lambda>x.
     bindE (loadExecutionGate r now) (\<lambda>gate.
     let d = settle_readiness r gate (w_journal x) now (gate_readiness attempt gate (w_journal x)) in
     if slots = [] then passE d
     else
       bindE (optionalE ''workloadsecret.ErrNotFound'' (loadSecret \<lparr>key_workspace = w, key_job = job, key_attempt = attempt\<rparr> now)) (\<lambda>found.
       passE (add_secrets slots (map_option snd found) d))))))"

definition ReadReadiness ::
  "'r tx_env \<Rightarrow> opaque_id \<Rightarrow> string \<Rightarrow> opaque_id \<Rightarrow> 'r store \<Rightarrow> (go_error + readiness) \<times> 'r store" where
  "ReadReadiness env w token job s =
     (if \<not> validOpaqueID w \<or> \<not> validOpaqueID job then (Inl AuthErrNotFound, s)
      else store_write env (\<lambda>now. bindE (check_actor env w token ''read'') (\<lambda>_. read_readiness env w job now)) s)"

end
