(* ===== verification/Store_Frame.thy ===== *)
theory Store_Frame
  imports Store_Admit Store_Secrets
begin

text \<open>
  What the transactions of the store leave alone.  A calm step writes no journal and no receipt, and leases,
  operations, events and queue rows only grow and the clock does not go back; every transaction is calm but for the journal and the receipt it writes.
\<close>

section \<open>Operations that grow\<close>

definition operation_name :: "operation_row \<Rightarrow> opaque_id \<times> opaque_id" where
  "operation_name r = (operation_workspace (row_operation r), operation_id (row_operation r))"

definition row_kept :: "operation_row \<Rightarrow> operation_row \<Rightarrow> bool" where
  "row_kept r r' \<longleftrightarrow> operation_id (row_operation r') = operation_id (row_operation r)
     \<and> operation_ref (row_operation r') = operation_ref (row_operation r)
     \<and> operation_kind (row_operation r') = operation_kind (row_operation r) \<and> (orow_started r \<longrightarrow> orow_started r')"

definition stopped :: "attempt_ref \<Rightarrow> operation_row list \<Rightarrow> bool" where
  "stopped ref rows \<longleftrightarrow> list_ex (\<lambda>r. operation_kind (row_operation r) = OperationCancel \<and> orow_started r
     \<and> operation_ref (row_operation r) = ref) rows"

text \<open>The name of an operation is the primary key of its row, and only rows with distinct names are looked at.\<close>

definition operations_grow :: "operation_row list \<Rightarrow> operation_row list \<Rightarrow> bool" where
  "operations_grow xs ys \<longleftrightarrow> (distinct (map operation_name xs) \<longrightarrow>
     distinct (map operation_name ys) \<and> length xs \<le> length ys \<and> (\<forall>i < length xs. row_kept (xs ! i) (ys ! i)))"

lemma row_kept_refl: "row_kept r r"
  by (simp add: row_kept_def)

lemma row_kept_trans: "row_kept r s \<Longrightarrow> row_kept s t \<Longrightarrow> row_kept r t"
  by (auto simp: row_kept_def)

lemma row_kept_name: "row_kept r s \<Longrightarrow> operation_name s = operation_name r"
  by (simp add: row_kept_def operation_name_def operation_ref_def)

lemma operations_grow_refl: "operations_grow xs xs"
  by (simp add: operations_grow_def row_kept_refl)

lemma operations_grow_trans:
  assumes "operations_grow xs ys" "operations_grow ys zs"
  shows "operations_grow xs zs"
  unfolding operations_grow_def
proof (intro impI conjI allI)
  assume "distinct (map operation_name xs)"
  then have 1: "distinct (map operation_name ys)" "length xs \<le> length ys" "\<And>i. i < length xs \<Longrightarrow> row_kept (xs ! i) (ys ! i)"
    using assms(1) by (simp_all add: operations_grow_def)
  then have 2: "distinct (map operation_name zs)" "length ys \<le> length zs" "\<And>i. i < length ys \<Longrightarrow> row_kept (ys ! i) (zs ! i)"
    using assms(2) by (simp_all add: operations_grow_def)
  show "distinct (map operation_name zs)" by fact
  show "length xs \<le> length zs" using 1 2 by simp
  show "row_kept (xs ! i) (zs ! i)" if "i < length xs" for i
    by (rule row_kept_trans [OF 1(3) [OF that] 2(3)]) (use 1(2) that in simp)
qed

lemma operations_grow_map:
  assumes "distinct (map operation_name xs) \<Longrightarrow> \<forall>r \<in> set xs. row_kept r (f r)"
  shows "operations_grow xs (map f xs)"
  unfolding operations_grow_def
proof (intro impI conjI allI)
  assume d: "distinct (map operation_name xs)"
  then have kept: "\<forall>r \<in> set xs. row_kept r (f r)" by (rule assms)
  then have "map operation_name (map f xs) = map operation_name xs"
    by (auto simp: row_kept_name)
  then show "distinct (map operation_name (map f xs))" using d by (simp only:)
  show "row_kept (xs ! i) (map f xs ! i)" if "i < length xs" for i using kept that by simp
qed simp

lemma operations_grow_snoc:
  "\<not> list_ex (operation_named w i) xs \<Longrightarrow> operation_name r = (w, i) \<Longrightarrow> operations_grow xs (xs @ [r])"
  by (auto simp: operations_grow_def row_kept_refl nth_append list_ex_iff operation_named_def operation_name_def)

lemma stopped_grows:
  assumes "operations_grow xs ys" "distinct (map operation_name xs)" "stopped ref xs"
  shows "stopped ref ys"
proof -
  have g: "length xs \<le> length ys" "\<And>i. i < length xs \<Longrightarrow> row_kept (xs ! i) (ys ! i)"
    using assms(1,2) by (simp_all add: operations_grow_def)
  obtain i where i: "i < length xs" "operation_kind (row_operation (xs ! i)) = OperationCancel" "orow_started (xs ! i)"
      "operation_ref (row_operation (xs ! i)) = ref"
    using assms(3) by (auto simp: stopped_def list_ex_iff in_set_conv_nth)
  then have "ys ! i \<in> set ys" "operation_kind (row_operation (ys ! i)) = OperationCancel" "orow_started (ys ! i)"
      "operation_ref (row_operation (ys ! i)) = ref"
    using g(1) g(2) [OF i(1)] by (simp_all add: row_kept_def)
  then show ?thesis by (auto simp: stopped_def list_ex_iff)
qed


section \<open>Receipts, events and queue rows that grow\<close>

text \<open>A receipt is written once and never changed.\<close>

definition receipts_kept :: "(receipt_id \<times> saved_receipt) list \<Rightarrow> (receipt_id \<times> saved_receipt) list \<Rightarrow> bool" where
  "receipts_kept xs ys \<longleftrightarrow> (\<forall>k v. map_of xs k = Some v \<longrightarrow> map_of ys k = Some v)"

text \<open>Events are only appended, and those of a job are numbered from one without a gap.\<close>

definition job_events :: "opaque_id \<Rightarrow> opaque_id \<Rightarrow> event list \<Rightarrow> event list" where
  "job_events w j es = filter (\<lambda>e. event_workspace e = w \<and> event_job e = j) es"

definition numbered :: "event list \<Rightarrow> bool" where
  "numbered es \<longleftrightarrow> (\<forall>w j. int (length (job_events w j es)) \<le> MaxInt64
     \<and> map (\<lambda>e. uint (event_sequence e)) (job_events w j es) = [1..int (length (job_events w j es))])"

definition events_kept :: "event list \<Rightarrow> event list \<Rightarrow> bool" where
  "events_kept xs ys \<longleftrightarrow> (\<exists>new. ys = xs @ new) \<and> (numbered xs \<longrightarrow> numbered ys)"

text \<open>A queue row keeps its number and its attempt, and its barrier is never lowered.\<close>

definition queue_row_kept :: "queue_row \<Rightarrow> queue_row \<Rightarrow> bool" where
  "queue_row_kept q q' \<longleftrightarrow> q_sequence q' = q_sequence q \<and> q_identity q' = q_identity q \<and> (q_barrier q \<longrightarrow> q_barrier q')"

definition queue_kept :: "queue_row list \<Rightarrow> queue_row list \<Rightarrow> bool" where
  "queue_kept xs ys \<longleftrightarrow> length xs \<le> length ys \<and> (\<forall>i < length xs. queue_row_kept (xs ! i) (ys ! i))
     \<and> (distinct (map q_sequence xs) \<longrightarrow> distinct (map q_sequence ys))"

lemma receipts_kept_refl: "receipts_kept xs xs" by (simp add: receipts_kept_def)
lemma receipts_kept_trans: "receipts_kept xs ys \<Longrightarrow> receipts_kept ys zs \<Longrightarrow> receipts_kept xs zs" by (simp add: receipts_kept_def)
lemma events_kept_refl: "events_kept xs xs" by (simp add: events_kept_def)
lemma events_kept_trans: "events_kept xs ys \<Longrightarrow> events_kept ys zs \<Longrightarrow> events_kept xs zs" by (auto simp: events_kept_def)
lemma queue_kept_refl: "queue_kept xs xs" by (simp add: queue_kept_def queue_row_kept_def)

lemma queue_kept_trans: "queue_kept xs ys \<Longrightarrow> queue_kept ys zs \<Longrightarrow> queue_kept xs zs"
  by (auto simp: queue_kept_def queue_row_kept_def)

lemma queue_kept_map:
  assumes "\<And>q. queue_row_kept q (f q)"
  shows "queue_kept xs (map f xs)"
proof -
  have "map q_sequence (map f xs) = map q_sequence xs" using assms by (auto simp: queue_row_kept_def)
  then show ?thesis using assms by (simp add: queue_kept_def del: map_map)
qed

lemma max_bound: "x \<in> set xs \<Longrightarrow> x \<le> foldr max xs (0 :: int)"
  by (induction xs) auto

lemma queue_kept_snoc: "q_sequence q = next_sequence xs \<Longrightarrow> queue_kept xs (xs @ [q])"
  using max_bound [of _ "map q_sequence xs"]
  by (fastforce simp: queue_kept_def queue_row_kept_def nth_append next_sequence_def)

lemma foldr_max_upto: "0 \<le> n \<Longrightarrow> foldr max [1..n] 0 = (n :: int)"
proof -
  assume "0 \<le> n"
  have "foldr max [m..n] 0 = max 0 (if m \<le> n then n else 0)" for m :: int
    by (induction "nat (n + 1 - m)" arbitrary: m) (auto simp: upto.simps)
  then show ?thesis using \<open>0 \<le> n\<close> by (auto simp: max_def)
qed

lemma numbered_last: "numbered (st_events s) \<Longrightarrow> last_event w j s = int (length (job_events w j (st_events s)))"
  by (simp add: numbered_def last_event_def job_events_def [symmetric] foldr_max_upto)

lemma upto_snoc: "0 \<le> n \<Longrightarrow> [1..n + 1] = [1..n] @ [n + 1 :: int]"
  by (simp add: upto_rec2)

lemma events_kept_snoc:
  assumes "n = last_event w j s" "n \<noteq> MaxInt64" "event_sequence e = word_of_int (n + 1)" "event_workspace e = w" "event_job e = j"
  shows "events_kept (st_events s) (st_events s @ [e])"
  unfolding events_kept_def
proof (intro conjI impI)
  assume num: "numbered (st_events s)"
  have n: "n = int (length (job_events w j (st_events s)))" using numbered_last [OF num] assms(1) by simp
  then have bound: "0 \<le> n" "n < MaxInt64" using num assms(2) by (auto simp: numbered_def order_less_le)
  then have e: "uint (event_sequence e) = n + 1"
    unfolding assms(3) by (subst uint_word_of_int_eq) (simp add: take_bit_eq_mod MaxInt64_def)
  show "numbered (st_events s @ [e])"
    unfolding numbered_def
  proof (intro allI)
    fix w' j'
    show "int (length (job_events w' j' (st_events s @ [e]))) \<le> MaxInt64
        \<and> map (\<lambda>e. uint (event_sequence e)) (job_events w' j' (st_events s @ [e]))
          = [1..int (length (job_events w' j' (st_events s @ [e])))]"
    proof (cases "w' = w \<and> j' = j")
      case True
      then have "job_events w' j' (st_events s @ [e]) = job_events w j (st_events s) @ [e]"
        using assms(4,5) by (simp add: job_events_def)
      then show ?thesis using num bound n e upto_snoc [of n] by (simp add: numbered_def add.commute)
    next
      case False
      then have "job_events w' j' (st_events s @ [e]) = job_events w' j' (st_events s)"
        using assms(4,5) by (auto simp: job_events_def)
      then show ?thesis using num by (simp add: numbered_def)
    qed
  qed
qed simp


section \<open>Calm transactions\<close>

definition lasting :: "'r store \<Rightarrow> 'r store \<Rightarrow> bool" where
  "lasting s s' \<longleftrightarrow> lease_grows (st_leases s) (st_leases s') \<and> operations_grow (st_operations s) (st_operations s')
     \<and> receipts_kept (st_receipts s) (st_receipts s') \<and> events_kept (st_events s) (st_events s')
     \<and> queue_kept (st_queue s) (st_queue s') \<and> st_clock s \<le> st_clock s'"

lemmas kept_refl = lease_grows_refl operations_grow_refl receipts_kept_refl events_kept_refl queue_kept_refl

lemma lasting_refl: "lasting s s"
  by (simp add: lasting_def kept_refl)

lemma lasting_trans: "lasting s t \<Longrightarrow> lasting t u \<Longrightarrow> lasting s u"
  unfolding lasting_def
  by (blast intro: lease_grows_trans operations_grow_trans receipts_kept_trans events_kept_trans queue_kept_trans order_trans)

definition calm :: "'r store \<Rightarrow> 'r store \<Rightarrow> bool" where
  "calm s s' \<longleftrightarrow> st_journals s' = st_journals s \<and> st_receipts s' = st_receipts s \<and> lasting s s'"

interpretation calm: tx_frame calm
  by unfold_locales (auto simp: calm_def intro: lasting_refl lasting_trans)

named_theorems calm_rules \<open>steps of a transaction that are calm\<close>

declare calm.moves_rules [calm_rules]

lemma calm_write [calm_rules]:
  "(\<And>s. st_journals (f s) = st_journals s) \<Longrightarrow> (\<And>s. st_leases (f s) = st_leases s)
     \<Longrightarrow> (\<And>s. st_operations (f s) = st_operations s) \<Longrightarrow> (\<And>s. st_receipts (f s) = st_receipts s)
     \<Longrightarrow> (\<And>s. st_events (f s) = st_events s) \<Longrightarrow> (\<And>s. queue_kept (st_queue s) (st_queue (f s)))
     \<Longrightarrow> (\<And>s. st_clock s \<le> st_clock (f s)) \<Longrightarrow> moves calm (writeE f)"
  by (simp add: moves_def calm_def lasting_def kept_refl)

lemma calm_leases [calm_rules]: "moves lease_grows m \<Longrightarrow> moves calm (on_leases m)"
  by (auto simp: moves_def calm_def lasting_def on_leases_def kept_refl split: sum.splits)

lemma calm_rest [calm_rules]: "moves calm (on_rest m)"
  by (auto simp: moves_def calm_def lasting_def on_rest_def kept_refl split: sum.splits)

lemma calm_recover [calm_rules]: "moves calm m \<Longrightarrow> moves calm (recoverE x e m)"
  by (auto simp: moves_def recoverE_def split: sum.splits)

lemma calm_optional [calm_rules]: "moves calm m \<Longrightarrow> moves calm (optionalE x m)"
  by (auto simp: moves_def optionalE_def calm.R_refl split: sum.splits if_splits)

lemma calm_refail [calm_rules]:
  "moves calm m \<Longrightarrow> moves calm (\<lambda>s. case m s of Inl e \<Rightarrow> Inl (g e) | Inr x \<Rightarrow> Inr x)"
  by (auto simp: moves_def split: sum.splits)

lemma calm_saved_value [calm_rules]:
  "(\<And>x. moves calm (a x)) \<Longrightarrow> (\<And>x. moves calm (b x)) \<Longrightarrow> (\<And>x. moves calm (c x)) \<Longrightarrow> (\<And>x. moves calm (d x))
     \<Longrightarrow> (\<And>x. moves calm (e x))
     \<Longrightarrow> moves calm (case v of SavedGate x \<Rightarrow> a x | SavedExecution x \<Rightarrow> b x | SavedSecret x \<Rightarrow> c x | SavedControl x \<Rightarrow> d x | SavedOther x \<Rightarrow> e x)"
  by (cases v) auto

lemma calm_list [calm_rules]:
  "moves calm m \<Longrightarrow> (\<And>x xs. moves calm (f x xs)) \<Longrightarrow> moves calm (case v of [] \<Rightarrow> m | x # xs \<Rightarrow> f x xs)"
  by (cases v) auto

lemma calm_from [calm_rules]: "moves calm (fromE f r)"
  unfolding fromE_def by (intro calm_rules)

declare moves_leases [calm_rules] moves_check_lease [calm_rules]

lemma calm_records [calm_rules]:
  "moves calm schedulerControl" "moves calm (find_queue p)" "moves calm (loadAttempt ref)" "moves calm (loadJournal q)"
  "moves calm (loadOperation w i)" "moves calm (read_grant k ref)"
  unfolding schedulerControl_def find_queue_def loadAttempt_def loadJournal_def loadOperation_def read_grant_def
  by (intro calm_rules)+

lemma calm_job [calm_rules]: "moves calm (readJobRecord w j)"
  unfolding readJobRecord_def by (intro calm_rules)

declare queue_kept_refl [simp]

lemma calm_update_queue [calm_rules]: "(\<And>q. queue_row_kept q (f q)) \<Longrightarrow> moves calm (update_queue q f)"
  unfolding update_queue_def by (intro calm_rules) (auto intro!: queue_kept_map simp: queue_row_kept_def)

lemma queue_row_steps [calm_rules]:
  "queue_row_kept q (q\<lparr>q_barrier := True\<rparr>)" "queue_row_kept q (q\<lparr>q_not_before := n\<rparr>)"
  by (simp_all add: queue_row_kept_def)

lemma calm_barrier [calm_rules]: "moves calm (scheduler_barrier ref st)"
  unfolding scheduler_barrier_def by (intro calm_rules) (auto intro!: queue_kept_map simp: queue_row_kept_def)

lemma calm_event [calm_rules]: "moves calm (append_event env b ref i k now)"
  by (auto simp: moves_def append_event_def calm_def lasting_def kept_refl Let_def split: prod.splits intro!: events_kept_snoc)

lemma calm_control_event [calm_rules]: "moves calm (controlEvent env ref i k now)"
  unfolding controlEvent_def by (intro calm_rules)

lemma calm_update_attempt [calm_rules]: "moves calm (update_attempt ref a b e)"
  unfolding update_attempt_def by (intro calm_rules; simp)

lemma calm_move_attempt [calm_rules]: "moves calm (move_attempt env ref a b e now)"
  unfolding move_attempt_def by (intro calm_rules)

lemma calm_transitions [calm_rules]:
  "moves calm (schedulerTransition env i a st k now)" "moves calm (controlState env x a st k now)"
  unfolding schedulerTransition_def controlState_def by (intro calm_rules)+

lemma calm_receipt [calm_rules]: "moves calm (replayOrCreate key hash v e None)"
  by (auto simp: moves_def replayOrCreate_def calm_def lasting_refl split: option.splits)

text \<open>An operation is saved over the row it was read from, and a cancellation that began stays begun.\<close>

lemma named_unique:
  assumes "distinct (map operation_name xs)" "find (operation_named w i) xs = Some row" "r \<in> set xs" "operation_named w i r"
  shows "r = row"
proof -
  have "row \<in> set xs" "operation_named w i row"
    using assms(2) by (auto simp: find_Some_iff)
  then show ?thesis
    using assms(1,3,4) by (auto simp: distinct_map operation_named_def operation_name_def inj_on_def)
qed

lemma calm_save [calm_rules]: "moves calm (saveOperation old new)"
  unfolding moves_def
proof (intro allI impI)
  fix s u s' assume run: "saveOperation old new s = Inr (u, s')"
  let ?y = "row_operation new"
  let ?f = "\<lambda>r. if operation_named (operation_workspace ?y) (operation_id ?y) r
    then r\<lparr>orow_record := orow_record new, orow_started := orow_started new\<rparr> else r"
  from run obtain row where found: "find (operation_named (operation_workspace ?y) (operation_id ?y)) (st_operations s) = Some row"
    and kept: "\<not> operation_immutable row new" and s': "s' = s\<lparr>st_operations := map ?f (st_operations s)\<rparr>"
    by (auto simp: saveOperation_def Let_def split: option.splits)
  have "row_kept r (?f r)" if "distinct (map operation_name (st_operations s))" "r \<in> set (st_operations s)" for r
  proof (cases "operation_named (operation_workspace ?y) (operation_id ?y) r")
    case True
    then have "r = row" using named_unique [OF that(1) found that(2)] by simp
    then show ?thesis using True kept by (auto simp: row_kept_def operation_immutable_def operation_named_def)
  qed (simp add: row_kept_refl)
  then have "operations_grow (st_operations s) (map ?f (st_operations s))"
    by (intro operations_grow_map) blast
  then show "calm s s'" by (simp add: s' calm_def lasting_def kept_refl)
qed

lemma calm_finish [calm_rules]: "moves calm (finishControl env old st e p now)"
  unfolding finishControl_def by (intro calm_rules)


section \<open>The gate and the ledger are calm\<close>

lemma calm_grants [calm_rules]:
  "moves calm (update_grant k ref f)" "moves calm (releaseGateStorage ref)" "moves calm (consumeGrant ref k now e)"
  unfolding releaseGateStorage_def consumeGrant_def update_grant_def by (intro calm_rules; simp)+

lemma calm_secret [calm_rules]:
  "moves calm (loadSecret key now)" "moves calm (secretForStart r i revision now)"
  unfolding secretForStart_def loadSecret_def by (intro calm_rules)+

lemma calm_gate [calm_rules]: "moves calm (gate_secrets r now g rec req d)" "moves calm (loadExecutionGate r now)"
  unfolding loadExecutionGate_def gate_secrets_def by (intro calm_rules)+

lemma calm_authority [calm_rules]:
  "moves calm (dispatchAuthorization w now)" "moves calm (consumeGatePreparation w now)"
  unfolding dispatchAuthorization_def consumeGatePreparation_def by (intro calm_rules)+

lemma calm_gate_steps [calm_rules]:
  "moves calm (record_readiness w g a now)" "moves calm (consume_start w g a now)"
  unfolding record_readiness_def consume_start_def by (intro calm_rules)+

lemma calm_commit_gate [calm_rules]: "moves calm (commitGateStep w a now)"
  unfolding commitGateStep_def by (cases "act_kind a"; simp only: kind.case; intro calm_rules)

lemma calm_owned [calm_rules]: "moves calm (ownedDispatchClaim c now)"
  unfolding ownedDispatchClaim_def by (intro calm_rules)

lemma calm_ledger [calm_rules]:
  "moves calm (insertResource w p purpose i)" "moves calm (update_resource i purpose ref ready)"
  "moves calm (insert_intent w p prep)" "moves calm (update_intent i st remote)"
  unfolding insertResource_def update_resource_def insert_intent_def update_intent_def by (intro calm_rules; simp)+

lemma calm_outcome [calm_rules]: "moves calm (ledger_outcome w p j now)"
  unfolding ledger_outcome_def by (intro calm_rules; simp)

lemma calm_write_ledger [calm_rules]: "moves calm (writeDispatchLedger env w j k now)"
  unfolding writeDispatchLedger_def by (cases k; simp only: kind.case; intro calm_rules)

lemma calm_check_ledger [calm_rules]: "moves calm (check_resource w p a b c d)" "moves calm (checkDispatchLedger w p)"
  unfolding checkDispatchLedger_def check_resource_def by (intro calm_rules)+

lemma calm_loading [calm_rules]:
  "moves calm (pendingCancellation w)" "moves calm (planned_ok env w p now)" "moves calm (newMutationPolicy env w now)"
  unfolding pendingCancellation_def planned_ok_def newMutationPolicy_def by (intro calm_rules)+

lemma calm_load [calm_rules]: "moves calm (loadDispatch env c now)" "moves calm (owned_work env h now)"
  unfolding owned_work_def loadDispatch_def by (intro calm_rules)+

lemma calm_count_poll [calm_rules]: "moves calm (count_poll env w row k now)"
  unfolding count_poll_def by (intro calm_rules)

lemma calm_finish_each [calm_rules]: "moves calm (finish_each env k now ids w)"
  by (induction ids arbitrary: w) (simp_all only: finish_each.simps, (intro calm_rules; assumption?)+)

lemma calm_observed [calm_rules]: "moves calm (finishObservedOperations env w k now)"
  unfolding finishObservedOperations_def by (intro calm_rules)


section \<open>Claims, leases and grants are calm\<close>

lemma calm_confirm [calm_rules]:
  "moves calm (confirm_refusal env w a now)" "moves calm (confirm_expiry w a now)" "moves calm (confirm_new_work env w a now)"
  unfolding confirm_refusal_def confirm_expiry_def confirm_new_work_def by (intro calm_rules)+

lemma calm_commit_parts [calm_rules]:
  "moves calm (release_unplanned env ref now)" "moves calm (cross_barrier env h w now)"
  "moves calm (consume_authorization env h now)"
  unfolding release_unplanned_def cross_barrier_def consume_authorization_def by (intro calm_rules)+

lemma calm_view [calm_rules]: "moves calm (scheduler_view env now)" "moves calm (lease_row_for env row owner settings now)"
  unfolding scheduler_view_def lease_row_for_def by (intro calm_rules)+

lemma calm_reserve [calm_rules]: "moves calm (reserve_resource row)"
  unfolding reserve_resource_def by (intro calm_rules; simp split: option.split)

lemma calm_claims [calm_rules]:
  "moves calm (claim_recovery env owner now)" "moves calm (claim_next env owner now)"
  unfolding claim_recovery_def claim_next_def by (intro calm_rules; simp)+

lemma calm_lease_steps [calm_rules]:
  "moves calm (renew_dispatch env h now)" "moves calm (yield_dispatch env h delay now)" "moves calm (record_progress env h p now)"
  unfolding renew_dispatch_def yield_dispatch_def record_progress_def by (intro calm_rules; simp)+

lemma calm_begin [calm_rules]: "moves calm (begin_cancellation row st now)"
  unfolding begin_cancellation_def by (intro calm_rules)

lemma calm_targets [calm_rules]:
  "moves calm (controlTarget ref)" "moves calm (controlWork env r)" "moves calm (actionableAttempt env ref)"
  unfolding controlTarget_def controlWork_def actionableAttempt_def by (intro calm_rules)+

lemma calm_receipts [calm_rules]:
  "moves calm (check_actor env w token perm)" "moves calm (replayOperation w k key hash)"
  unfolding check_actor_def replayOperation_def by (intro calm_rules)+

lemma calm_insert [calm_rules]: "moves calm (insertOperation c row)"
  by (auto simp: moves_def calm_def lasting_def insertOperation_def Let_def kept_refl operation_name_def
    intro!: operations_grow_snoc split: if_splits)

lemma calm_controls [calm_rules]:
  "moves calm (wake_queue w)" "moves calm (cancel_ended env target row now)" "moves calm (cancel_allowed target row)"
  "moves calm (pendingCleanup ce ref)" "moves calm (admitCollection env ce target row now)"
  unfolding wake_queue_def cancel_ended_def cancel_allowed_def pendingCleanup_def admitCollection_def by (intro calm_rules)+

lemma calm_retry [calm_rules]:
  "moves calm (retryInputs env ce ref)" "moves calm (insert_attempt ref a nonce)" "moves calm (activate_attempt ref i)"
  unfolding retryInputs_def insert_attempt_def activate_attempt_def by (intro calm_rules; simp add: queue_kept_snoc)+

lemma calm_create_retry [calm_rules]: "moves calm (createRetry env ce target row now)"
  unfolding createRetry_def by (intro calm_rules)

lemma calm_eligible [calm_rules]:
  "moves calm (eligibleCleanupAttempt env ce target b now self)" "moves calm (eligibleCleanup env ce target b now self)"
  unfolding eligibleCleanup_def eligibleCleanupAttempt_def by (intro calm_rules)+

lemma calm_retry_proof [calm_rules]: "moves calm (retry_proof env ce c target now)"
  unfolding retry_proof_def by (intro calm_rules)

lemma calm_missing [calm_rules]: "moves calm m \<Longrightarrow> moves calm (missing_job m)"
  unfolding missing_job_def by (rule calm_recover)

lemma calm_insert_grant [calm_rules]: "moves calm (insert_grant g)"
  unfolding insert_grant_def by (intro calm_rules; simp)

lemma calm_permits [calm_rules]:
  "moves calm (undispatched ref)" "moves calm (readAuthorization w job i)" "moves calm (replayGate c k q)"
  "moves calm (gateRecord env now c attempt)"
  unfolding undispatched_def readAuthorization_def replayGate_def gateRecord_def by (intro calm_rules)+

lemma calm_secret_steps [calm_rules]:
  "moves calm (start_blocked ref)" "moves calm (secret_deliverable env key current now)"
  unfolding start_blocked_def secret_deliverable_def by (intro calm_rules)+

lemma calm_usable [calm_rules]: "moves calm (secretUsable env key i now)"
  unfolding secretUsable_def by (intro calm_rules)

lemma calm_supply [calm_rules]:
  "moves calm (replay_supply env c m prior now)" "moves calm (read_readiness env w job now)"
  unfolding replay_supply_def read_readiness_def by (intro calm_rules)+

end
