(* ===== verification/Store_Facts.thy ===== *)
theory Store_Facts
  imports Store_Frame Dispatch_Facts
begin

text \<open>
  What every transaction of the store keeps, and what an acknowledged commit proves.  The journals of the store only
  gain intents, leases and operations only grow, and a committed intent is the first of its kind for its queue row.
\<close>

section \<open>Intents in the store\<close>

definition journal_at :: "'r store \<Rightarrow> int \<Rightarrow> journal" where
  "journal_at s q = (case st_journals s q of None \<Rightarrow> empty_journal | Some row \<Rightarrow> journal_copy (jl_journal row))"

definition planned :: "'r store \<Rightarrow> int \<Rightarrow> bool" where
  "planned s q \<longleftrightarrow> j_plan (journal_at s q) \<noteq> None"

definition started :: "'r store \<Rightarrow> int \<Rightarrow> bool" where
  "started s q \<longleftrightarrow> j_submit_started (journal_at s q)"

definition intents_kept :: "'r store \<Rightarrow> 'r store \<Rightarrow> bool" where
  "intents_kept s s' \<longleftrightarrow> (\<forall>q. (planned s q \<longrightarrow> planned s' q) \<and> (started s q \<longrightarrow> started s' q))"

definition grows :: "'r store \<Rightarrow> 'r store \<Rightarrow> bool" where
  "grows s s' \<longleftrightarrow> intents_kept s s' \<and> lasting s s'"

text \<open>Growth that writes no receipt.\<close>

definition steady :: "'r store \<Rightarrow> 'r store \<Rightarrow> bool" where
  "steady s s' \<longleftrightarrow> st_receipts s' = st_receipts s \<and> grows s s'"

lemma grows_refl: "grows s s"
  by (simp add: grows_def intents_kept_def lasting_refl)

lemma grows_trans: "grows s t \<Longrightarrow> grows t u \<Longrightarrow> grows s u"
  by (auto simp: grows_def intents_kept_def intro: lasting_trans)

interpretation grows: tx_frame grows
  by unfold_locales (rule grows_refl, rule grows_trans)

lemma steady_refl: "steady s s"
  by (simp add: steady_def grows_refl)

lemma steady_trans: "steady s t \<Longrightarrow> steady t u \<Longrightarrow> steady s u"
  by (auto simp: steady_def intro: grows_trans)

interpretation steady: tx_frame steady
  by unfold_locales (rule steady_refl, rule steady_trans)

lemma journal_at_calm: "calm s s' \<Longrightarrow> journal_at s' = journal_at s"
  by (simp add: calm_def journal_at_def fun_eq_iff)

lemma calm_steady: "calm s s' \<Longrightarrow> steady s s'"
  by (simp add: steady_def grows_def intents_kept_def planned_def started_def journal_at_calm) (simp add: calm_def)

lemma moves_calm_steady: "moves calm m \<Longrightarrow> moves steady m"
  by (auto simp: moves_def intro: calm_steady)


section \<open>Triples of transactions\<close>

definition tx_ensures :: "('s \<Rightarrow> bool) \<Rightarrow> ('s, 'a) tx \<Rightarrow> ('a \<Rightarrow> 's \<Rightarrow> bool) \<Rightarrow> bool" where
  "tx_ensures P m Q \<longleftrightarrow> (\<forall>s x s'. P s \<longrightarrow> m s = Inr (x, s') \<longrightarrow> Q x s')"

lemma tx_bind: "tx_ensures P m R \<Longrightarrow> (\<And>x. tx_ensures (R x) (f x) Q) \<Longrightarrow> tx_ensures P (bindE m f) Q"
  unfolding tx_ensures_def by simp blast

lemma tx_post: "tx_ensures P m R \<Longrightarrow> (\<And>x s. R x s \<Longrightarrow> Q x s) \<Longrightarrow> tx_ensures P m Q"
  unfolding tx_ensures_def by blast

lemma tx_pre: "tx_ensures R m Q \<Longrightarrow> (\<And>s. P s \<Longrightarrow> R s) \<Longrightarrow> tx_ensures P m Q"
  unfolding tx_ensures_def by blast

lemma tx_if: "(b \<Longrightarrow> tx_ensures P m Q) \<Longrightarrow> (\<not> b \<Longrightarrow> tx_ensures P n Q) \<Longrightarrow> tx_ensures P (if b then m else n) Q"
  by simp

lemma tx_prod: "(\<And>x y. v = (x, y) \<Longrightarrow> tx_ensures P (f x y) Q) \<Longrightarrow> tx_ensures P (case v of (x, y) \<Rightarrow> f x y) Q"
  by (cases v) auto

lemma tx_Let: "tx_ensures P (f v) Q \<Longrightarrow> tx_ensures P (Let v f) Q"
  by (simp add: Let_def)

lemma tx_option:
  "(v = None \<Longrightarrow> tx_ensures P m Q) \<Longrightarrow> (\<And>x. v = Some x \<Longrightarrow> tx_ensures P (f x) Q)
     \<Longrightarrow> tx_ensures P (case v of None \<Rightarrow> m | Some x \<Rightarrow> f x) Q"
  by (cases v) auto

lemma tx_sum:
  "(\<And>x. v = Inl x \<Longrightarrow> tx_ensures P (f x) Q) \<Longrightarrow> (\<And>y. v = Inr y \<Longrightarrow> tx_ensures P (g y) Q)
     \<Longrightarrow> tx_ensures P (case v of Inl x \<Rightarrow> f x | Inr y \<Rightarrow> g y) Q"
  by (cases v) auto

lemma tx_fail: "tx_ensures P (failE e) Q"
  by (simp add: tx_ensures_def)

text \<open>What a step that only computes yields is known to what follows.\<close>

lemma tx_from: "(\<And>x. r = Inr x \<Longrightarrow> tx_ensures P (f x) Q) \<Longrightarrow> tx_ensures P (bindE (fromE g r) f) Q"
  by (cases r) (auto simp: tx_ensures_def fromE_def)

lemma tx_lift: "(\<And>x. r = Inr x \<Longrightarrow> tx_ensures P (f x) Q) \<Longrightarrow> tx_ensures P (bindE (liftE r) f) Q"
  by (auto simp: tx_ensures_def)

text \<open>Growth from a state on is what a transaction keeps that steady.\<close>

lemma moves_steady_from: "moves steady m \<longleftrightarrow> (\<forall>s0. tx_ensures (steady s0) m (\<lambda>_. steady s0))"
  unfolding moves_def tx_ensures_def by (metis steady_refl steady_trans)

text \<open>The journal of a work is the one of its queue row.\<close>

definition reads :: "work \<Rightarrow> 'r store \<Rightarrow> bool" where
  "reads w s \<longleftrightarrow> w_journal w = journal_at s (claim_sequence (h_claim (w_handle w)))"

definition at_work :: "'r store \<Rightarrow> work \<Rightarrow> 'r store \<Rightarrow> bool" where
  "at_work s0 w s \<longleftrightarrow> steady s0 s \<and> reads w s"

lemma calm_at_work: "calm s s' \<Longrightarrow> at_work s0 w s \<Longrightarrow> at_work s0 w s'"
  by (auto simp: at_work_def reads_def journal_at_calm intro: steady_trans calm_steady)

lemma at_work_step:
  "moves calm m \<Longrightarrow> (\<And>x. tx_ensures (at_work s0 w) (f x) Q) \<Longrightarrow> tx_ensures (at_work s0 w) (bindE m f) Q"
  unfolding tx_ensures_def moves_def by simp (blast intro: calm_at_work)

lemma at_work_end: "moves calm m \<Longrightarrow> tx_ensures (at_work s0 w) m (\<lambda>_. steady s0)"
  unfolding tx_ensures_def moves_def at_work_def by (blast intro: steady_trans calm_steady)

lemma steady_end: "moves calm m \<Longrightarrow> tx_ensures (steady s0) m (\<lambda>_. steady s0)"
  unfolding tx_ensures_def moves_def by (blast intro: steady_trans calm_steady)

lemma steady_step:
  "moves calm m \<Longrightarrow> (\<And>x. tx_ensures (steady s0) (f x) Q) \<Longrightarrow> tx_ensures (steady s0) (bindE m f) Q"
  by (rule tx_bind [OF steady_end])

lemma load_journal: "loadJournal q s = Inr (j, s') \<longleftrightarrow>
    j = journal_at s q \<and> s' = s \<and> (case st_journals s q of None \<Rightarrow> True | Some row \<Rightarrow>
      \<not> ((case journal_marshal (jl_journal row) of None \<Rightarrow> True | Some raw \<Rightarrow> length raw > MaxJournalBytes)
         \<or> j_version j \<noteq> jl_version row \<or> phase_string (j_phase j) \<noteq> jl_phase row \<or> \<not> journal_valid j))"
  by (auto simp: loadJournal_def journal_at_def Let_def split: option.splits)

lemma control_work: "tx_ensures (steady s0) (controlWork env r) (\<lambda>w. at_work s0 w)"
  unfolding tx_ensures_def
proof (intro allI impI)
  fix s w s' assume steady: "steady s0 s" and run: "controlWork env r s = Inr (w, s')"
  have calm: "calm s s'" using run calm_targets(2) [of env r] by (auto simp: moves_def)
  have "reads w s"
    using run by (auto simp: controlWork_def find_queue_def reads_def queue_handle_def load_journal Let_def split: option.splits)
  then show "at_work s0 w s'" using steady calm_at_work [OF calm] by (simp add: at_work_def)
qed

lemma put_journal_Inr:
  "put_journal q v e next s = Inr (u, s') \<Longrightarrow>
     s' = s\<lparr>st_journals := (st_journals s)(q \<mapsto> \<lparr>jl_version = j_version next, jl_phase = phase_string (j_phase next), jl_journal = next\<rparr>)\<rparr>"
  by (auto simp: put_journal_def Let_def split: if_splits option.splits)

definition carried :: "journal \<Rightarrow> journal \<Rightarrow> bool" where
  "carried j next \<longleftrightarrow> (j_plan j \<noteq> None \<longrightarrow> j_plan next \<noteq> None) \<and> (j_submit_started j \<longrightarrow> j_submit_started next)"

lemma put_journal_steady:
  assumes "put_journal q v e next s = Inr (u, s')" "carried (journal_at s q) next"
  shows "steady s s'"
  using assms(2) by (auto simp: put_journal_Inr [OF assms(1)] steady_def grows_def intents_kept_def planned_def started_def journal_at_def carried_def
    lasting_def kept_refl)

lemma Apply_carried: "Apply old state a now = Inr (j', x) \<Longrightarrow> carried old j'"
  using Apply_plan_intent [of old state a now j'] Apply_start_intent [of old state a now j']
  by (cases x) (auto simp: carried_def of_bool_def split: if_splits)

lemma control_journal:
  assumes "carried (w_journal w) next"
  shows "tx_ensures (at_work s0 w) (controlJournal w next) (\<lambda>_. steady s0)"
  unfolding tx_ensures_def
proof (intro allI impI)
  fix s u s' assume at: "at_work s0 w s" and run: "controlJournal w next s = Inr (u, s')"
  then have "steady s s'"
    using assms by (auto simp: controlJournal_def at_work_def reads_def elim: put_journal_steady)
  then show "steady s0 s'" using at steady_trans by (auto simp: at_work_def)
qed

lemma control_journal_step:
  "carried (w_journal w) next \<Longrightarrow> (\<And>x. tx_ensures (steady s0) (f x) Q) \<Longrightarrow>
     tx_ensures (at_work s0 w) (bindE (controlJournal w next) f) Q"
  by (rule tx_bind [OF control_journal])


section \<open>Controls only add intents\<close>

lemma steady_calm_bind: "moves calm m \<Longrightarrow> (\<And>x. moves steady (f x)) \<Longrightarrow> moves steady (bindE m f)"
  by (rule steady.moves_bind [OF moves_calm_steady])

lemma moves_steadyI: "(\<And>s0. tx_ensures (steady s0) m (\<lambda>_. steady s0)) \<Longrightarrow> moves steady m"
  by (simp add: moves_steady_from)

lemma cancel_prevent_steady: "tx_ensures (at_work s0 w) (cancel_prevent env target w row now) (\<lambda>_. steady s0)"
  unfolding cancel_prevent_def
  by (rule at_work_step, intro calm_rules, rule tx_from, rule tx_prod, rule tx_prod, rule control_journal_step)
     (auto intro: Apply_carried intro!: steady_step steady_end calm_rules)

lemma cancel_request_steady: "tx_ensures (at_work s0 w) (cancel_request env target w row now) (\<lambda>_. steady s0)"
  unfolding cancel_request_def Let_def
  by (rule at_work_step, intro calm_rules, rule at_work_step, intro calm_rules, rule tx_if, rule tx_sum, rule at_work_end,
      intro calm_rules, rule tx_prod, rule tx_prod, rule control_journal_step)
     (auto intro: Apply_carried intro!: steady_end at_work_end calm_rules)

lemma admit_cancellation_steady: "moves steady (admitCancellation env target row now)"
proof (rule moves_steadyI)
  fix s0
  show "tx_ensures (steady s0) (admitCancellation env target row now) (\<lambda>_. steady s0)"
    unfolding admitCancellation_def Let_def
    by (rule tx_if, rule steady_end, intro calm_rules, rule steady_step, intro calm_rules, rule tx_bind [OF control_work],
        intro tx_if cancel_prevent_steady cancel_request_steady at_work_end calm_rules)
qed

lemma admit_reconciliation_steady: "moves steady (admitReconciliation env target row r now)"
proof (rule moves_steadyI)
  fix s0
  show "tx_ensures (steady s0) (admitReconciliation env target row r now) (\<lambda>_. steady s0)"
    unfolding admitReconciliation_def Let_def
    by (rule tx_if, rule steady_end, intro calm_rules, rule steady_step, intro calm_rules, rule tx_bind [OF control_work],
        rule tx_lift, rule tx_from, rule tx_prod, rule tx_prod, rule at_work_step, intro calm_rules, rule control_journal_step)
       (auto intro: Apply_carried intro!: steady_step steady_end calm_rules)
qed

lemma collection_condition_steady: "moves steady (collectionCondition env ref p)"
proof (rule moves_steadyI)
  fix s0
  show "tx_ensures (steady s0) (collectionCondition env ref p) (\<lambda>_. steady s0)"
    unfolding collectionCondition_def
    by (rule steady_step, intro calm_rules, rule tx_bind [OF control_work], rule at_work_step, intro calm_rules,
        rule control_journal) (simp add: carried_def)
qed

lemma discard_steady: "moves steady (discardPendingCollection env target now)"
  unfolding discardPendingCollection_def Let_def
  by (intro steady.moves_rules collection_condition_steady; rule moves_calm_steady; intro calm_rules)

lemma act_on_target_steady: "moves steady (act_on_target env ce c target row now)"
  unfolding act_on_target_def
  by (cases "cmd_kind c"; simp only: operation_kind.case)
     (auto intro: admit_cancellation_steady admit_reconciliation_steady moves_calm_steady calm_rules)


section \<open>Requests that write a receipt\<close>

lemma moves_steady_grows: "moves steady m \<Longrightarrow> moves grows m"
  by (auto simp: moves_def steady_def)

lemma moves_calm_grows: "moves calm m \<Longrightarrow> moves grows m"
  by (rule moves_steady_grows [OF moves_calm_steady])

lemma receipt_grows: "moves grows (replayOrCreate key hash v e c)"
  by (auto simp: moves_def replayOrCreate_def grows_def intents_kept_def planned_def started_def journal_at_def lasting_def
    kept_refl receipts_kept_def split: option.splits)

lemma receipts_grow: "moves grows (saveOperationReceipt c r)" "moves grows (save_grant g hash e v)"
  unfolding saveOperationReceipt_def save_grant_def Let_def
  by (intro grows.moves_rules receipt_grows; rule moves_calm_grows; intro calm_rules)+

lemma admit_cleanup_grows: "moves grows (admitCleanupOperation env ce c target now)"
  unfolding admitCleanupOperation_def Let_def
  by (intro grows.moves_rules receipts_grow moves_steady_grows [OF discard_steady]; rule moves_calm_grows; intro calm_rules)

lemma new_control_grows: "moves grows (new_control env ce c target now)"
  unfolding new_control_def Let_def
  by (intro grows.moves_rules receipts_grow moves_steady_grows [OF act_on_target_steady]; rule moves_calm_grows; intro calm_rules)

lemma fresh_control_grows: "moves grows (fresh_control env ce c target now)"
  unfolding fresh_control_def Let_def
  by (intro grows.moves_rules new_control_grows admit_cleanup_grows; rule moves_calm_grows; intro calm_rules)

lemma admit_operation_grows: "moves grows (admit_operation env ce c now)"
  unfolding admit_operation_def Let_def
  by (intro grows.moves_rules receipts_grow fresh_control_grows; rule moves_calm_grows; intro calm_rules)

lemma grant_grows:
  "moves grows (grant_execution env x hash now)" "moves grows (prepare_execution env c pq now)"
  "moves grows (start_execution env c sq now)" "moves grows (supply_fresh env c m f now)"
  unfolding grant_execution_def prepare_execution_def start_execution_def supply_fresh_def Let_def
  by (intro grows.moves_rules receipts_grow; rule moves_calm_grows; intro calm_rules)+

lemma revoke_grows: "moves grows (revoke_fresh c attempt i current h now)"
  unfolding revoke_fresh_def Let_def
  by (intro grows.moves_rules receipt_grows; rule moves_calm_grows; intro calm_rules; simp)


section \<open>Loading changes nothing\<close>

interpretation same: tx_frame "(=)"
  by unfold_locales simp_all

named_theorems same_rules \<open>steps of a transaction that only read\<close>

declare same.moves_rules [same_rules]

lemma same_parts [same_rules]:
  "moves (=) m \<Longrightarrow> moves (=) (on_leases m)" "moves (=) n \<Longrightarrow> moves (=) (recoverE x e n)"
  "moves (=) n \<Longrightarrow> moves (=) (\<lambda>s. case n s of Inl e \<Rightarrow> Inl (g e) | Inr x \<Rightarrow> Inr x)"
  by (auto simp: moves_def on_leases_def recoverE_def split: sum.splits)

lemma same_saved_value [same_rules]:
  "(\<And>x. moves (=) (a x)) \<Longrightarrow> (\<And>x. moves (=) (b x)) \<Longrightarrow> (\<And>x. moves (=) (c x)) \<Longrightarrow> (\<And>x. moves (=) (d x))
     \<Longrightarrow> (\<And>x. moves (=) (e x))
     \<Longrightarrow> moves (=) (case v of SavedGate x \<Rightarrow> a x | SavedExecution x \<Rightarrow> b x | SavedSecret x \<Rightarrow> c x | SavedControl x \<Rightarrow> d x | SavedOther x \<Rightarrow> e x)"
  by (cases v) auto

lemma same_records [same_rules]:
  "moves (=) (checkWorkLease want now)" "moves (=) schedulerControl" "moves (=) (find_queue p)" "moves (=) (loadAttempt ref)"
  "moves (=) (loadJournal q)" "moves (=) (loadOperation w i)" "moves (=) (read_grant k ref)"
  unfolding checkWorkLease_def schedulerControl_def find_queue_def loadAttempt_def loadJournal_def loadOperation_def read_grant_def
  by (intro same_rules)+

lemma same_job [same_rules]: "moves (=) (readJobRecord w j)" "moves (=) (loadSecret key now)"
  unfolding readJobRecord_def loadSecret_def by (intro same_rules)+

lemma same_gate [same_rules]:
  "moves (=) (gate_secrets r now g rec req d)" "moves (=) (loadExecutionGate r now)" "moves (=) (dispatchAuthorization w now)"
  unfolding loadExecutionGate_def gate_secrets_def dispatchAuthorization_def by (intro same_rules)+

lemma same_owned [same_rules]: "moves (=) (ownedDispatchClaim c now)"
  unfolding ownedDispatchClaim_def by (intro same_rules)

lemma same_ledger [same_rules]: "moves (=) (check_resource w p a b c d)" "moves (=) (checkDispatchLedger w p)"
  unfolding checkDispatchLedger_def check_resource_def by (intro same_rules)+

lemma same_loading [same_rules]: "moves (=) (pendingCancellation w)" "moves (=) (planned_ok env w p now)"
  unfolding pendingCancellation_def planned_ok_def by (intro same_rules)+

lemma same_load [same_rules]: "moves (=) (loadDispatch env c now)" "moves (=) (owned_work env h now)"
  unfolding owned_work_def loadDispatch_def by (intro same_rules)+

lemma sameD: "moves (=) m \<Longrightarrow> m s = Inr (x, s') \<Longrightarrow> s' = s"
  by (auto simp: moves_def)

text \<open>The work that a claim loads: the journal of its queue row and the attempt it names.\<close>

lemma read_job_identity:
  "readJobRecord w j s = Inr (r, s') \<Longrightarrow> job_workspace (adm_job r) = w \<and> job_id (adm_job r) = j"
  by (auto simp: readJobRecord_def NewJob_def Let_def split: option.splits sum.splits if_splits)

lemma owned_claim_attempt:
  "ownedDispatchClaim c now s = Inr ((a, barrier), s') \<Longrightarrow> attempt_id a = snd (snd (claim_ref c))"
  by (auto simp: ownedDispatchClaim_def loadAttempt_def Let_def split: option.splits)

lemma load_dispatch:
  assumes "loadDispatch env c now s = Inr (w, s')"
  shows "s' = s" "w_journal w = journal_at s (claim_sequence c)" "h_claim (w_handle w) = c" "admitted_ref (w_job w) = claim_ref c"
    "pendingCancellation (w\<lparr>w_cancellation := None\<rparr>) s = Inr (w_cancellation w, s)"
proof -
  show same: "s' = s" by (rule sameD [OF same_load(1) assms])
  obtain t1 a b t2 t3 r g t4 t5 t6 cc where
      1: "ownedDispatchClaim c now t1 = Inr ((a, b), t2)" and j: "loadJournal (claim_sequence c) t2 = Inr (w_journal w, t3)"
      and r: "readJobRecord (fst (claim_ref c)) (fst (snd (claim_ref c))) t3 = Inr (r, t4)" and a: "adm_attempt r = a"
      and w: "w_job w = r" "h_claim (w_handle w) = c"
      and cc: "pendingCancellation (w\<lparr>w_cancellation := None\<rparr>) t5 = Inr (w_cancellation w, s')"
      and t: "schedulerControl s = Inr (t6, t1)"
    using assms unfolding loadDispatch_def Let_def
    by (auto split: prod.splits)
  have eq: "t1 = s" "t2 = t1" "t3 = t2" "t5 = s'"
    using sameD [OF same_records(2) t] sameD [OF same_owned 1] sameD [OF same_records(5) j] sameD [OF same_loading(1) cc] by simp_all
  show "w_journal w = journal_at s (claim_sequence c)" using j eq by (simp add: load_journal)
  show "h_claim (w_handle w) = c" by fact
  show "admitted_ref (w_job w) = claim_ref c"
    using read_job_identity [OF r] owned_claim_attempt [OF 1] a w by (auto simp: admitted_ref_def prod_eq_iff)
  show "pendingCancellation (w\<lparr>w_cancellation := None\<rparr>) s = Inr (w_cancellation w, s)" using cc eq same by simp
qed

lemma owned_work:
  assumes "owned_work env h now s = Inr (w, s')"
  shows "s' = s" "w_journal w = journal_at s (claim_sequence (h_claim h))" "h_claim (w_handle w) = h_claim h"
    "admitted_ref (w_job w) = claim_ref (h_claim h)"
    "pendingCancellation (w\<lparr>w_cancellation := None\<rparr>) s = Inr (w_cancellation w, s)"
  using assms load_dispatch [of env "h_claim h" now s w] by (auto simp: owned_work_def sameD [OF same_load(1)])


section \<open>What a commit proves\<close>

text \<open>A property that calm steps keep holds after any number of them.\<close>

lemma calm_keep:
  "(\<And>s s'. calm s s' \<Longrightarrow> P s \<Longrightarrow> P s') \<Longrightarrow> moves calm m \<Longrightarrow> tx_ensures P m (\<lambda>_. P)"
  unfolding tx_ensures_def moves_def by blast

lemma calm_step: "moves calm m \<Longrightarrow> (\<And>x. tx_ensures (calm s0) (f x) Q) \<Longrightarrow> tx_ensures (calm s0) (bindE m f) Q"
  by (rule tx_bind [OF calm_keep]) (rule calm.R_trans)

lemma tx_known:
  "moves calm m \<Longrightarrow> (\<And>s x s'. m s = Inr (x, s') \<Longrightarrow> F x) \<Longrightarrow> (\<And>x. F x \<Longrightarrow> tx_ensures (calm s0) (f x) Q)
     \<Longrightarrow> tx_ensures (calm s0) (bindE m f) Q"
  unfolding tx_ensures_def moves_def by simp (metis calm.R_trans)

lemma tx_fact: "(F \<Longrightarrow> tx_ensures P m Q) \<Longrightarrow> tx_ensures (\<lambda>s. P s \<and> F) m Q"
  by (auto simp: tx_ensures_def)

lemma confirm_expiry_kind: "confirm_expiry w a now s = Inr (a', s') \<Longrightarrow> act_kind a' = act_kind a"
  by (auto simp: confirm_expiry_def Let_def split: if_splits)

lemma record_readiness_work: "record_readiness w g a now s = Inr (w', s') \<Longrightarrow> w_journal w' = w_journal w"
  by (auto simp: record_readiness_def Let_def split: if_splits option.splits)

lemma gate_step_keeps:
  "commitGateStep w a now s = Inr ((w', a'), s') \<Longrightarrow> w_journal w' = w_journal w \<and> act_kind a' = act_kind a"
  by (cases "act_kind a")
     (auto simp: commitGateStep_def consume_start_def Let_def split: if_splits option.splits dest: record_readiness_work)

text \<open>The journal a committed action leaves at its queue row.\<close>

definition recorded :: "'r store \<Rightarrow> handle \<Rightarrow> action \<Rightarrow> gotime \<Rightarrow> 'r store \<Rightarrow> bool" where
  "recorded s0 h a now s \<longleftrightarrow> steady s0 s
     \<and> (\<exists>state a' next rest. act_kind a' = act_kind a
          \<and> Apply (journal_at s0 (claim_sequence (h_claim h))) state a' now = Inr (next, rest)
          \<and> journal_at s (claim_sequence (h_claim h)) = journal_copy next)"

lemma recorded_calm: "calm s s' \<Longrightarrow> recorded s0 h a now s \<Longrightarrow> recorded s0 h a now s'"
  by (auto simp: recorded_def journal_at_calm intro: steady_trans calm_steady)

lemma recorded_step:
  "moves calm m \<Longrightarrow> (\<And>x. tx_ensures (recorded s0 h a now) (f x) (\<lambda>_. recorded s0 h a now))
     \<Longrightarrow> tx_ensures (recorded s0 h a now) (bindE m f) (\<lambda>_. recorded s0 h a now)"
  by (rule tx_bind [OF calm_keep]) (rule recorded_calm)

lemma put_recorded:
  assumes "Apply (journal_at s0 (claim_sequence (h_claim h))) state a' now = Inr (next, rest)" "act_kind a' = act_kind a"
  shows "tx_ensures (calm s0) (put_journal (claim_sequence (h_claim h)) v e next) (\<lambda>_. recorded s0 h a now)"
  unfolding tx_ensures_def
proof (intro allI impI)
  fix s u s' assume calm: "calm s0 s" and run: "put_journal (claim_sequence (h_claim h)) v e next s = Inr (u, s')"
  have "steady s s'"
    by (rule put_journal_steady [OF run]) (use Apply_carried [OF assms(1)] in \<open>simp add: journal_at_calm [OF calm]\<close>)
  then have "steady s0 s'" using calm by (blast intro: steady_trans calm_steady)
  moreover have "journal_at s' (claim_sequence (h_claim h)) = journal_copy next"
    by (simp add: put_journal_Inr [OF run] journal_at_def)
  ultimately show "recorded s0 h a now s'" unfolding recorded_def using assms by blast
qed

lemma commit_dispatch_recorded:
  assumes "commit_dispatch env h a now s = Inr (w', s')"
  shows "recorded s h a now s'"
proof -
  let ?q = "claim_sequence (h_claim h)"
  have "tx_ensures (\<lambda>t. t = s) (commit_dispatch env h a now) (\<lambda>_. recorded s h a now)"
    unfolding commit_dispatch_def
  proof (rule tx_bind [where R = "\<lambda>w t. calm s t \<and> w_journal w = journal_at s ?q"], goal_cases)
    case 1
    show ?case using owned_work(1,2) by (fastforce simp: tx_ensures_def calm.R_refl)
  next
    case (2 w)
    show ?case
      apply (rule tx_fact, rule calm_step, intro calm_rules)
      apply (rule tx_known [where F = "\<lambda>a'. act_kind a' = act_kind a"], intro calm_rules, erule confirm_expiry_kind)
      apply (rule calm_step, intro calm_rules)
      apply (rule tx_known [where F = "\<lambda>x. w_journal (fst x) = w_journal w \<and> act_kind (snd x) = act_kind a"], intro calm_rules)
      apply (metis gate_step_keeps prod.collapse)
      apply (rule tx_prod, rule tx_from, rule tx_prod, rule tx_prod)
      apply ((rule calm_step, intro calm_rules)+)
      apply (rule tx_bind [OF put_recorded], simp, simp)
      apply (rule tx_Let, (rule recorded_step, intro calm_rules)+, rule calm_keep [OF recorded_calm], assumption+, intro calm_rules)
      done
  qed
  then show ?thesis using assms by (auto simp: tx_ensures_def)
qed


text \<open>A committed intent is the first of its kind for its queue row.\<close>

lemma recorded_intents:
  assumes "recorded s h a now s'"
  shows "act_kind a = BeginPreparation \<Longrightarrow> \<not> planned s (claim_sequence (h_claim h)) \<and> planned s' (claim_sequence (h_claim h))"
    "act_kind a = BeginSubmission \<Longrightarrow> \<not> started s (claim_sequence (h_claim h)) \<and> started s' (claim_sequence (h_claim h))"
proof -
  obtain state a' j x y where a': "act_kind a' = act_kind a"
      "Apply (journal_at s (claim_sequence (h_claim h))) state a' now = Inr (j, x, y)"
      "journal_at s' (claim_sequence (h_claim h)) = journal_copy j"
    using assms by (auto simp: recorded_def)
  show "act_kind a = BeginPreparation \<Longrightarrow> \<not> planned s (claim_sequence (h_claim h)) \<and> planned s' (claim_sequence (h_claim h))"
    using Apply_plan_intent [OF a'(2)] a'(1,3) by (auto simp: planned_def of_bool_def split: if_splits)
  show "act_kind a = BeginSubmission \<Longrightarrow> \<not> started s (claim_sequence (h_claim h)) \<and> started s' (claim_sequence (h_claim h))"
    using Apply_start_intent [OF a'(2)] a'(1,3) by (auto simp: started_def of_bool_def split: if_splits)
qed


section \<open>Cancellations begin once\<close>

lemma confirm_cancellation_steady: "tx_ensures (at_work s0 w) (confirm_cancellation env w row remote now) (\<lambda>_. steady s0)"
  unfolding confirm_cancellation_def Let_def
  by (rule tx_from, rule tx_prod, rule tx_prod, rule control_journal_step)
     (auto intro: Apply_carried intro!: steady_step steady_end calm_rules)

lemma cancellation_step_steady: "tx_ensures (at_work s0 w) (cancellation_step env w row remote a now) (\<lambda>_. steady s0)"
  unfolding cancellation_step_def Let_def
  apply (intro tx_if)
    apply (rule at_work_end, intro calm_rules)
   apply (rule at_work_end, intro calm_rules)
  apply (rule tx_option, rule tx_fail, rule at_work_step, intro calm_rules)
  subgoal for x
    by (cases "co_status x"; simp only: cancellation_state.case)
       (auto intro!: tx_if tx_fail at_work_end calm_rules tx_bind [OF confirm_cancellation_steady] steady_end)
  done

lemma commit_cancellation_steady: "moves steady (commit_cancellation env h i a now)"
proof (rule moves_steadyI)
  fix s0
  have loaded: "tx_ensures (steady s0) (owned_work env h now) (\<lambda>w. at_work s0 w)"
    using owned_work(1-3) by (fastforce simp: tx_ensures_def at_work_def reads_def)
  show "tx_ensures (steady s0) (commit_cancellation env h i a now) (\<lambda>_. steady s0)"
    unfolding commit_cancellation_def
    by (rule tx_bind [OF loaded], intro tx_prod tx_option tx_fail at_work_step tx_bind [OF cancellation_step_steady];
        (intro steady_end calm_rules)?)
qed

text \<open>The cancellation that a work carries is the row its own operation names, for the attempt of the work.\<close>

lemma calmD: "m s = Inr (x, s') \<Longrightarrow> moves calm m \<Longrightarrow> calm s s'"
  by (auto simp: moves_def)

lemma find_SomeD: "find P xs = Some x \<Longrightarrow> x \<in> set xs \<and> P x"
  by (auto simp: find_Some_iff)

lemma pending_cancellation_row:
  assumes "pendingCancellation w s = Inr (Some cc, s')" "distinct (map operation_name (st_operations s))"
    and "find (operation_named (job_workspace (adm_job (w_job w))) (operation_id (cc_operation cc))) (st_operations s) = Some row"
  shows "operation_kind (row_operation row) = OperationCancel" "operation_ref (row_operation row) = admitted_ref (w_job w)"
proof -
  let ?ws = "job_workspace (adm_job (w_job w))"
  obtain r0 r1 where first: "find (\<lambda>row. operation_ref (row_operation row) = admitted_ref (w_job w)
        \<and> operation_kind (row_operation row) = OperationCancel \<and> pending (row_operation row)) (st_operations s) = Some r0"
    and r1: "find (operation_named ?ws (operation_id (row_operation r0))) (st_operations s) = Some r1" "cc_operation cc = row_operation r1"
    using assms(1) by (auto simp: pendingCancellation_def loadOperation_def split: option.splits)
  have r0: "r0 \<in> set (st_operations s)" "operation_ref (row_operation r0) = admitted_ref (w_job w)"
      "operation_kind (row_operation r0) = OperationCancel"
    using find_SomeD [OF first] by simp_all
  have "operation_named ?ws (operation_id (row_operation r0)) r0"
    using r0(2) by (simp add: operation_named_def operation_ref_def admitted_ref_def)
  then have "r0 = r1" by (rule named_unique [OF assms(2) r1(1) r0(1)])
  moreover have "row = r1" using assms(3) r1 \<open>r0 = r1\<close> by simp
  ultimately show "operation_kind (row_operation row) = OperationCancel" "operation_ref (row_operation row) = admitted_ref (w_job w)"
    using r0 by simp_all
qed

lemma begin_cancellation_stops:
  assumes run: "begin_cancellation row state now s = Inr (new, s')" and d: "distinct (map operation_name (st_operations s))"
    and found: "find (operation_named (operation_workspace (row_operation row)) (operation_id (row_operation row))) (st_operations s) = Some row"
    and kind: "operation_kind (row_operation row) = OperationCancel"
  shows "\<not> stopped (operation_ref (row_operation row)) (st_operations s)" "stopped (operation_ref (row_operation row)) (st_operations s')"
proof -
  let ?x = "row_operation row" and ?y = "row_operation new"
  from run have fresh: "\<not> orow_started row" and begun: "orow_started new" and save: "saveOperation row new s = Inr ((), s')"
    by (auto simp: begin_cancellation_def Let_def split: sum.splits)
  from save have y: "operation_id ?y = operation_id ?x" "operation_ref ?y = operation_ref ?x" "operation_kind ?y = OperationCancel"
      "operation_workspace ?y = operation_workspace ?x"
    using kind by (auto simp: saveOperation_def Let_def operation_ref_def)
  from save begun have alone: "\<not> list_ex (stop_invoked_elsewhere ?y) (st_operations s)"
    and s': "st_operations s' = map (\<lambda>r. if operation_named (operation_workspace ?y) (operation_id ?y) r
      then r\<lparr>orow_record := orow_record new, orow_started := True\<rparr> else r) (st_operations s)"
    by (auto simp: saveOperation_def Let_def split: option.splits)
  show "\<not> stopped (operation_ref ?x) (st_operations s)"
  proof
    assume "stopped (operation_ref ?x) (st_operations s)"
    then obtain r where r: "r \<in> set (st_operations s)" "operation_kind (row_operation r) = OperationCancel" "orow_started r"
        "operation_ref (row_operation r) = operation_ref ?x"
      by (auto simp: stopped_def list_ex_iff)
    then have "operation_id (row_operation r) = operation_id ?x"
      using alone y by (auto simp: list_ex_iff stop_invoked_elsewhere_def)
    then have "r = row"
      using r by (intro named_unique [OF d found r(1)]) (simp add: operation_named_def operation_ref_def)
    then show False using r(3) fresh by simp
  qed
  have "row \<in> set (st_operations s)" "operation_named (operation_workspace ?y) (operation_id ?y) row"
    using find_SomeD [OF found] y by simp_all
  then have changed: "row\<lparr>orow_record := orow_record new, orow_started := True\<rparr> \<in> set (st_operations s')"
    unfolding s' set_map by (intro image_eqI [where x = row]) simp_all
  show "stopped (operation_ref ?x) (st_operations s')"
    unfolding stopped_def list_ex_iff by (rule bexI [OF _ changed]) (simp add: y)
qed

text \<open>A property of the operations that growth keeps.\<close>

definition stopped_now :: "attempt_ref \<Rightarrow> 'r store \<Rightarrow> bool" where
  "stopped_now ref s \<longleftrightarrow> distinct (map operation_name (st_operations s)) \<and> stopped ref (st_operations s)"

lemma stopped_now_calm: "calm s s' \<Longrightarrow> stopped_now ref s \<Longrightarrow> stopped_now ref s'"
  unfolding stopped_now_def calm_def lasting_def by (metis operations_grow_def stopped_grows)

lemma same_step:
  "moves (=) m \<Longrightarrow> (\<And>x. m s = Inr (x, s) \<Longrightarrow> tx_ensures (\<lambda>t. t = s) (f x) Q) \<Longrightarrow> tx_ensures (\<lambda>t. t = s) (bindE m f) Q"
  unfolding tx_ensures_def moves_def by simp metis

lemma cancellation_begins:
  assumes a: "ca_begin a" and d: "distinct (map operation_name (st_operations s))"
    and w: "owned_work env h now s = Inr (w, s)" and cc: "w_cancellation w = Some cc" "operation_id (cc_operation cc) = i"
    and row: "loadOperation (job_workspace (adm_job (w_job w))) i s = Inr (row, s)"
  shows "tx_ensures (\<lambda>t. t = s) (cancellation_step env w row remote a now)
    (\<lambda>_ t. \<not> stopped (claim_ref (h_claim h)) (st_operations s) \<and> stopped_now (claim_ref (h_claim h)) t)"
proof -
  have found: "find (operation_named (operation_workspace (row_operation row)) (operation_id (row_operation row))) (st_operations s) = Some row"
    "find (operation_named (job_workspace (adm_job (w_job w))) (operation_id (cc_operation cc))) (st_operations s) = Some row"
    using row cc(2) by (auto simp: loadOperation_def split: option.splits) (metis find_SomeD operation_named_def)
  have "pendingCancellation (w\<lparr>w_cancellation := None\<rparr>) s = Inr (Some cc, s)" using owned_work(5) [OF w] cc by simp
  from pending_cancellation_row [OF this d] found(2) owned_work(4) [OF w]
  have row': "operation_kind (row_operation row) = OperationCancel" "operation_ref (row_operation row) = claim_ref (h_claim h)"
    by simp_all
  have "\<not> stopped (claim_ref (h_claim h)) (st_operations s) \<and> stopped_now (claim_ref (h_claim h)) s1"
    if began: "begin_cancellation row state now s = Inr (new, s1)" for state new s1
  proof -
    have "calm s s1" using began calm_begin by (rule calmD)
    then have "distinct (map operation_name (st_operations s1))" using d by (simp add: calm_def lasting_def operations_grow_def)
    then show ?thesis using begin_cancellation_stops [OF began d found(1) row'(1)] row'(2) by (simp add: stopped_now_def)
  qed
  then show ?thesis using a by (auto simp: tx_ensures_def cancellation_step_def Let_def)
qed

lemma commit_cancellation_stops:
  assumes "commit_cancellation env h i a now s = Inr (w', s')" "ca_begin a" "distinct (map operation_name (st_operations s))"
  shows "\<not> stopped (claim_ref (h_claim h)) (st_operations s)" "stopped_now (claim_ref (h_claim h)) s'"
proof -
  let ?r = "claim_ref (h_claim h)"
  have "tx_ensures (\<lambda>t. t = s) (commit_cancellation env h i a now)
      (\<lambda>_ t. \<not> stopped ?r (st_operations s) \<and> stopped_now ?r t)"
    unfolding commit_cancellation_def
    by (rule same_step, intro same_rules, rule tx_prod, rule tx_option, rule tx_fail, rule tx_option, rule tx_fail,
        rule same_step, intro same_rules, rule same_step, intro same_rules, rule tx_bind, rule cancellation_begins,
        use assms(2,3) in \<open>auto intro!: calm_keep calm_rules intro: stopped_now_calm\<close>)
  then show "\<not> stopped ?r (st_operations s)" "stopped_now ?r s'" using assms(1) by (auto simp: tx_ensures_def)
qed

end
