(* ===== verification/Store_History.thy ===== *)
theory Store_History
  imports Store_Facts
begin

text \<open>
  Histories of the store: the transactions of all workers and applications, one after the other, each with its own
  surroundings and fate.  Whatever their order, an intent is acknowledged at most once.
\<close>

section \<open>Requests\<close>

text \<open>
  The requests that the histories are made of: the transactions of the dispatch engine, of the control operations, of the
  authorization gates and of the workload secrets.  Not among them, and so not covered by what is shown of histories, are the
  transactions of the store that the development does not model: the admission of a job (\<open>admission.go\<close>, which writes the first
  event of a new job), the collection of results (\<open>collection.go\<close>), cleanup (\<open>cleanup_work.go\<close>), retention (\<open>retention.go\<close>) and
  the stop for the health of the host (\<open>host_health_stop.go\<close>), which append their events through the same \<open>controlEvent\<close>.
\<close>

datatype ('r, 'c) store_request =
    LoadWork claim
  | ConsumeGrants handle
  | CommitStep handle action
  | CommitCancel handle opaque_id cancellation_action
  | TakeRecovery string
  | TakeNext string
  | RenewWork handle
  | YieldWork handle int
  | ReportProgress handle preparation_progress
  | AdmitControl "('r, 'c) control_env" control_command
  | ReplayControl opaque_id string operation_kind string string
  | ReadRetryInputs "('r, 'c) control_env" string attempt_ref
  | GrantExecution exec_command
  | ReadExecution opaque_id string opaque_id opaque_id
  | GrantPrepare gate_command prepare_request
  | GrantStart gate_command start_request
  | ReadGate opaque_id string opaque_id opaque_id
  | SupplySecrets gate_command secret_metadata string
  | RevokeSecrets gate_command opaque_id opaque_id
  | ReadSecrets opaque_id string opaque_id opaque_id
  | SecretsUsable secret_key opaque_id
  | ReadReady opaque_id string opaque_id

primrec perform :: "'r tx_env \<Rightarrow> ('r, 'c) store_request \<Rightarrow> 'r store \<Rightarrow> 'r store" where
  "perform env (LoadWork c) s = snd (LoadDispatch env c s)"
| "perform env (ConsumeGrants h) s = snd (ConsumeAuthorization env h s)"
| "perform env (CommitStep h a) s = snd (CommitDispatch env h a s)"
| "perform env (CommitCancel h i a) s = snd (CommitCancellation env h i a s)"
| "perform env (TakeRecovery owner) s = snd (ClaimRecovery env owner s)"
| "perform env (TakeNext owner) s = snd (ClaimNext env owner s)"
| "perform env (RenewWork h) s = snd (RenewDispatch env h s)"
| "perform env (YieldWork h d) s = snd (YieldDispatch env h d s)"
| "perform env (ReportProgress h p) s = snd (RecordPreparationProgress env h p s)"
| "perform env (AdmitControl ce c) s = snd (AdmitOperation env ce c s)"
| "perform env (ReplayControl w token k key hash) s = snd (ReplayOperation env w token k key hash s)"
| "perform env (ReadRetryInputs ce token ref) s = snd (RetryInputs env ce token ref s)"
| "perform env (GrantExecution c) s = snd (AuthorizeExecution env c s)"
| "perform env (ReadExecution w token j i) s = snd (ReadExecutionAuthorization env w token j i s)"
| "perform env (GrantPrepare c q) s = snd (PrepareExecution env c q s)"
| "perform env (GrantStart c q) s = snd (StartExecution env c q s)"
| "perform env (ReadGate w token j i) s = snd (ReadGateAuthorization env w token j i s)"
| "perform env (SupplySecrets c m f) s = snd (SupplyWorkloadSecrets env c m f s)"
| "perform env (RevokeSecrets c a i) s = snd (RevokeWorkloadSecrets env c a i s)"
| "perform env (ReadSecrets w token j i) s = snd (ReadWorkloadSecrets env w token j i s)"
| "perform env (SecretsUsable k i) s = snd (WorkloadSecretsUsable env k i s)"
| "perform env (ReadReady w token j) s = snd (ReadReadiness env w token j s)"

section \<open>Every request lets the store grow\<close>

definition at_time :: "int \<Rightarrow> 'r store \<Rightarrow> 'r store" where
  "at_time n s = s\<lparr>st_clock := n\<rparr>"

lemma calm_at_time: "st_clock s \<le> n \<Longrightarrow> calm s (at_time n s)"
  by (simp add: at_time_def calm_def lasting_def kept_refl)

lemma at_time_fields [simp]: "journal_at (at_time n s) = journal_at s" "st_leases (at_time n s) = st_leases s"
  "st_clock (at_time n s) = n"
  by (simp_all add: at_time_def journal_at_def fun_eq_iff)

text \<open>A transaction runs at the time of its clock, on the store with the new floor.\<close>

lemma clocked_body:
  "bindE (readE st_clock) (\<lambda>least. bindE (liftE (transaction_clock least (tx_wall env))) (\<lambda>(now, next_least).
     bindE (writeE (\<lambda>s. s\<lparr>st_clock := next_least\<rparr>)) (\<lambda>_. fn now))) s
   = (case transaction_clock (st_clock s) (tx_wall env) of Inl e \<Rightarrow> Inl e | Inr (now, n) \<Rightarrow> fn now (at_time n s))"
  by (simp add: at_time_def bindE_def readE_def writeE_def liftE_def failE_def passE_def split: sum.split prod.split)

lemma store_write_grows:
  assumes "\<And>now. moves grows (fn now)"
  shows "grows s (snd (store_write env fn s))"
  unfolding store_write_def
proof (rule grows.withTx_moves, unfold moves_def clocked_body, intro allI impI)
  fix s x s'
  assume "(case transaction_clock (st_clock s) (tx_wall env) of Inl e \<Rightarrow> Inl e | Inr (now, n) \<Rightarrow> fn now (at_time n s)) = Inr (x, s')"
  then obtain now n where clock: "transaction_clock (st_clock s) (tx_wall env) = Inr (now, n)"
    and run: "fn now (at_time n s) = Inr (x, s')" by (auto split: sum.splits)
  have "grows s (at_time n s)"
    using steady_def calm_steady [OF calm_at_time [OF transaction_clock_floor [OF clock]]] by blast
  moreover have "grows (at_time n s) s'" using assms run by (auto simp: moves_def)
  ultimately show "grows s s'" by (rule grows_trans)
qed

lemma store_write_calm: "(\<And>now. moves calm (fn now)) \<Longrightarrow> grows s (snd (store_write env fn s))"
  by (rule store_write_grows) (rule moves_calm_grows)

lemma store_write_clocked:
  "store_write env fn s = (Inr x, s') \<Longrightarrow>
     \<exists>now n. transaction_clock (st_clock s) (tx_wall env) = Inr (now, n) \<and> fn now (at_time n s) = Inr (x, s')"
  unfolding store_write_def withTx_def clocked_body by (auto split: fate.splits sum.splits prod.splits)

lemma store_write_Inr:
  "store_write env fn s = (Inr x, s') \<Longrightarrow> \<exists>now n. fn now (at_time n s) = Inr (x, s')"
  by (auto simp: store_write_def withTx_def at_time_def bindE_def writeE_def split: fate.splits sum.splits prod.splits)

lemma commit_dispatch_grows: "moves grows (commit_dispatch env h a now)"
  using commit_dispatch_recorded by (fastforce simp: moves_def recorded_def steady_def)

lemma answer_grows:
  "grows s (snd (x, s))" "grows s (snd p) \<Longrightarrow> grows s (snd q) \<Longrightarrow> grows s (snd (if b then p else q))"
  "grows s (snd p) \<Longrightarrow> (\<And>x. grows s (snd (f x))) \<Longrightarrow> grows s (snd (case v of None \<Rightarrow> p | Some x \<Rightarrow> f x))"
  by (auto simp: grows_refl split: option.split)

lemma grants_grow:
  "grows s (snd (AuthorizeExecution env x s))" "grows s (snd (PrepareExecution env c pq s))"
  "grows s (snd (StartExecution env c sq s))" "grows s (snd (SupplyWorkloadSecrets env c m f s))"
  "grows s (snd (RevokeWorkloadSecrets env c attempt i s))"
  unfolding AuthorizeExecution_def PrepareExecution_def StartExecution_def SupplyWorkloadSecrets_def RevokeWorkloadSecrets_def
  by (intro answer_grows store_write_grows grows.moves_rules grant_grows revoke_grows; rule moves_calm_grows; intro calm_rules)+

lemma perform_grows: "grows s (perform env r s)"
proof (cases r)
  case (CommitStep h a)
  then show ?thesis by (simp add: CommitDispatch_def grows_refl store_write_grows commit_dispatch_grows)
next
  case (CommitCancel h i a)
  then show ?thesis
    by (simp add: CommitCancellation_def grows_refl store_write_grows moves_steady_grows [OF commit_cancellation_steady])
next
  case (AdmitControl ce c)
  then show ?thesis by (simp add: AdmitOperation_def grows_refl store_write_grows admit_operation_grows)
qed (auto simp: grants_grow LoadDispatch_def ConsumeAuthorization_def ClaimRecovery_def ClaimNext_def RenewDispatch_def
  YieldDispatch_def RecordPreparationProgress_def ReplayOperation_def RetryInputs_def ReadExecutionAuthorization_def
  ReadGateAuthorization_def ReadWorkloadSecrets_def WorkloadSecretsUsable_def ReadReadiness_def grows_refl
  split: option.split intro!: store_write_calm calm_rules)


section \<open>Intents\<close>

text \<open>What a commit lets a worker do at the provider: prepare or start the attempt of a queue row, or stop an attempt.\<close>

datatype intent = PrepareIntent int | StartIntent int | StopIntent attempt_ref

definition step_intents :: "handle \<Rightarrow> action \<Rightarrow> intent list" where
  "step_intents h a =
     (let q = claim_sequence (h_claim h) in
      if act_kind a = BeginPreparation then [PrepareIntent q]
      else if act_kind a = BeginSubmission then [StartIntent q] else [])"

definition stop_intents :: "handle \<Rightarrow> cancellation_action \<Rightarrow> intent list" where
  "stop_intents h a = (if ca_begin a then [StopIntent (claim_ref (h_claim h))] else [])"

text \<open>The intents that a request acknowledges to the worker that made it.\<close>

definition acknowledged :: "'r tx_env \<Rightarrow> ('r, 'c) store_request \<Rightarrow> 'r store \<Rightarrow> intent list" where
  "acknowledged env r s =
     (case r of
        CommitStep h a \<Rightarrow> if isl (fst (CommitDispatch env h a s)) then [] else step_intents h a
      | CommitCancel h i a \<Rightarrow> if isl (fst (CommitCancellation env h i a s)) then [] else stop_intents h a
      | _ \<Rightarrow> [])"

fun history :: "('r tx_env \<times> ('r, 'c) store_request) list \<Rightarrow> 'r store \<Rightarrow> intent list" where
  "history [] s = []"
| "history ((env, r) # rs) s = acknowledged env r s @ history rs (perform env r s)"

definition perform_all :: "('r tx_env \<times> ('r, 'c) store_request) list \<Rightarrow> 'r store \<Rightarrow> 'r store" where
  "perform_all rs s = fold (\<lambda>(env, r). perform env r) rs s"

lemma perform_all_grows: "grows s (perform_all rs s)"
proof (induction rs arbitrary: s)
  case (Cons x rs)
  then show ?case by (cases x) (auto simp: perform_all_def intro: grows_trans perform_grows)
qed (simp add: perform_all_def grows_refl)

text \<open>An intent that the store holds is never acknowledged again.\<close>

definition names_ok :: "'r store \<Rightarrow> bool" where
  "names_ok s \<longleftrightarrow> distinct (map operation_name (st_operations s))"

fun holds :: "'r store \<Rightarrow> intent \<Rightarrow> bool" where
  "holds s (PrepareIntent q) \<longleftrightarrow> planned s q"
| "holds s (StartIntent q) \<longleftrightarrow> started s q"
| "holds s (StopIntent ref) \<longleftrightarrow> stopped ref (st_operations s)"

lemma names_grow: "grows s s' \<Longrightarrow> names_ok s \<Longrightarrow> names_ok s'"
  by (simp add: grows_def lasting_def names_ok_def operations_grow_def)

lemma holds_grows: "grows s s' \<Longrightarrow> names_ok s \<Longrightarrow> holds s i \<Longrightarrow> holds s' i"
  by (cases i) (auto simp: grows_def intents_kept_def lasting_def names_ok_def intro: stopped_grows)

lemma commit_acknowledged:
  assumes "CommitDispatch env h a s = (Inr w, s')" "i \<in> set (step_intents h a)"
  shows "\<not> holds s i" "holds s' i"
proof -
  obtain now n where run: "commit_dispatch env h a now (at_time n s) = Inr (w, s')"
    using assms(1) by (auto simp: CommitDispatch_def split: if_splits dest: store_write_Inr)
  have same: "journal_at (at_time n s) = journal_at s" by simp
  show "\<not> holds s i" "holds s' i"
    using assms(2) recorded_intents [OF commit_dispatch_recorded [OF run]]
    by (auto simp: step_intents_def Let_def planned_def started_def same split: if_splits)
qed

lemma cancel_acknowledged:
  assumes "CommitCancellation env h j a s = (Inr w, s')" "i \<in> set (stop_intents h a)" "names_ok s"
  shows "\<not> holds s i" "holds s' i"
proof -
  obtain now n where run: "commit_cancellation env h j a now (at_time n s) = Inr (w, s')"
    using store_write_Inr [of env "commit_cancellation env h j a" s w s'] assms(1)
    by (auto simp: CommitCancellation_def split: if_splits)
  have "ca_begin a" "i = StopIntent (claim_ref (h_claim h))" using assms(2) by (auto simp: stop_intents_def split: if_splits)
  then show "\<not> holds s i" "holds s' i"
    using commit_cancellation_stops [OF run] assms(3) by (simp_all add: at_time_def names_ok_def stopped_now_def)
qed

lemma acknowledged_new:
  assumes "i \<in> set (acknowledged env r s)" "names_ok s"
  shows "\<not> holds s i \<and> holds (perform env r s) i"
proof (cases r)
  case (CommitStep h a)
  obtain x s' where x: "CommitDispatch env h a s = (x, s')" by fastforce
  then show ?thesis
    using assms(1) CommitStep commit_acknowledged [of env h a s] by (cases x) (auto simp: acknowledged_def)
next
  case (CommitCancel h j a)
  obtain x s' where x: "CommitCancellation env h j a s = (x, s')" by fastforce
  then show ?thesis
    using assms CommitCancel cancel_acknowledged [of env h j a s] by (cases x) (auto simp: acknowledged_def)
qed (use assms(1) in \<open>simp_all add: acknowledged_def\<close>)

lemma acknowledged_single: "distinct (acknowledged env r s)"
  by (simp add: acknowledged_def step_intents_def stop_intents_def Let_def split: store_request.split)


lemma history_new:
  "names_ok s \<Longrightarrow> i \<in> set (history rs s) \<Longrightarrow> \<not> holds s i"
proof (induction rs s rule: history.induct)
  case (2 env r rs s)
  have grows: "grows s (perform env r s)" by (rule perform_grows)
  then show ?case using 2 acknowledged_new [of i env r s] holds_grows [OF grows] names_grow [OF grows] by auto
qed simp

lemma history_distinct: "names_ok s \<Longrightarrow> distinct (history rs s)"
proof (induction rs s rule: history.induct)
  case (2 env r rs s)
  have names: "names_ok (perform env r s)" by (rule names_grow [OF perform_grows 2(2)])
  have "i \<notin> set (history rs (perform env r s))" if "i \<in> set (acknowledged env r s)" for i
    using acknowledged_new [OF that 2(2)] history_new [OF names] by blast
  then show ?case using 2(1) [OF names] acknowledged_single by auto
qed simp

end
