(* ===== verification/Dispatch_Engine_Facts.thy ===== *)
theory Dispatch_Engine_Facts
  imports Dispatch_Engine
begin

text \<open>
  What a pass of the engine may do to the outside world, whatever the environment answers.  Passes are judged
  with triples over the session; the collection \<open>pass_rules\<close> takes a pass apart along the monad.
\<close>

section \<open>Triples\<close>

named_theorems pass_rules \<open>rules that take a pass apart\<close>

definition ensures :: "('w session \<Rightarrow> bool) \<Rightarrow> ('w, 'a) pass \<Rightarrow> ('a \<Rightarrow> 'w session \<Rightarrow> bool) \<Rightarrow> bool" where
  "ensures P m Q \<longleftrightarrow> (\<forall>s. P s \<longrightarrow> (case run_state m s of (r, s') \<Rightarrow> Q r s'))"

lemma ensures_return: "(\<And>s. P s \<Longrightarrow> Q r s) \<Longrightarrow> ensures P (State_Monad.return r) Q"
  by (simp add: ensures_def State_Monad.return_def)

lemma ensures_bind: "ensures P m R \<Longrightarrow> (\<And>r. ensures (R r) (f r) Q) \<Longrightarrow> ensures P (State_Monad.bind m f) Q"
  by (force simp: ensures_def State_Monad.bind_def split: prod.splits)

lemma ensures_get: "ensures P State_Monad.get (\<lambda>r s. r = s \<and> P s)"
  by (simp add: ensures_def State_Monad.get_def)

lemma ensures_pre: "ensures P' m Q \<Longrightarrow> (\<And>s. P s \<Longrightarrow> P' s) \<Longrightarrow> ensures P m Q"
  by (auto simp: ensures_def)

lemma ensures_post: "ensures P m Q' \<Longrightarrow> (\<And>r s. Q' r s \<Longrightarrow> Q r s) \<Longrightarrow> ensures P m Q"
  by (fastforce simp: ensures_def split: prod.splits)

lemma ensures_cases: "(\<And>c. ensures (\<lambda>s. P s \<and> g s = c) m Q) \<Longrightarrow> ensures P m Q"
  by (auto simp: ensures_def)

lemma ensures_modify: "(\<And>s. P s \<Longrightarrow> Q () (f s)) \<Longrightarrow> ensures P (session_modify f) Q"
  by (simp add: ensures_def session_modify_def)

lemma ensures_if: "(b \<Longrightarrow> ensures P m Q) \<Longrightarrow> (\<not> b \<Longrightarrow> ensures P n Q) \<Longrightarrow> ensures P (if b then m else n) Q"
  by simp

text \<open>A pass keeps a property of the session.\<close>

definition keeps :: "('w session \<Rightarrow> bool) \<Rightarrow> ('w, 'a) pass \<Rightarrow> bool" where
  "keeps P m \<longleftrightarrow> ensures P m (\<lambda>_. P)"

lemma keepsI: "ensures P m (\<lambda>_. P) \<Longrightarrow> keeps P m" by (simp add: keeps_def)
lemma keepsD: "keeps P m \<Longrightarrow> ensures P m (\<lambda>_. P)" by (simp add: keeps_def)

lemma keeps_then: "keeps P m \<Longrightarrow> (\<And>r. ensures P (f r) Q) \<Longrightarrow> ensures P (State_Monad.bind m f) Q"
  unfolding keeps_def by (rule ensures_bind)

lemma keeps_return [pass_rules]: "keeps P (State_Monad.return r)"
  by (simp add: keeps_def ensures_return)

lemma keeps_get [pass_rules]: "keeps P State_Monad.get"
  by (simp add: keeps_def ensures_def State_Monad.get_def)

lemma keeps_bind [pass_rules]: "keeps P m \<Longrightarrow> (\<And>r. keeps P (f r)) \<Longrightarrow> keeps P (State_Monad.bind m f)"
  unfolding keeps_def by (rule ensures_bind)

lemma keeps_if [pass_rules]: "keeps P m \<Longrightarrow> keeps P n \<Longrightarrow> keeps P (if b then m else n)"
  by simp

lemma keeps_option [pass_rules]:
  "keeps P m \<Longrightarrow> (\<And>x. v = Some x \<Longrightarrow> keeps P (f x)) \<Longrightarrow> keeps P (case v of None \<Rightarrow> m | Some x \<Rightarrow> f x)"
  by (cases v) auto

lemma keeps_sum [pass_rules]:
  "(\<And>x. keeps P (f x)) \<Longrightarrow> (\<And>y. keeps P (g y)) \<Longrightarrow> keeps P (case v of Inl x \<Rightarrow> f x | Inr y \<Rightarrow> g y)"
  by (cases v) auto

lemma keeps_prod [pass_rules]: "(\<And>x y. keeps P (f x y)) \<Longrightarrow> keeps P (case v of (x, y) \<Rightarrow> f x y)"
  by (cases v) auto

lemma keeps_Let [pass_rules]: "(\<And>x. keeps P (f x)) \<Longrightarrow> keeps P (Let v f)"
  by (simp add: Let_def)


section \<open>Licensed traces\<close>

text \<open>
  A call that changes something at the provider directly follows the acknowledged commit of its own intent:
  a preparation that of the same plan, a start that of the journal it starts from, a cancellation that of its own
  operation.
\<close>

fun licenses :: "mutation option \<Rightarrow> mutation \<Rightarrow> bool" where
  "licenses prev (PrepareCalled pl prep) \<longleftrightarrow>
     (\<exists>h a j. prev = Some (Committed h a j) \<and> act_kind a = BeginPreparation \<and> act_plan a = Some pl
        \<and> act_preparation_id a = prep)"
| "licenses prev (StartCalled prep auth m) \<longleftrightarrow>
     (\<exists>h a j. prev = Some (Committed h a j) \<and> act_kind a = BeginSubmission \<and> j_prepared j = Some prep \<and> j_start j = auth)"
| "licenses prev (CancelCalled remote op) \<longleftrightarrow> (\<exists>h. prev = Some (CancellationBegun h op))"
| "licenses prev m \<longleftrightarrow> True"

definition last_of :: "'a list \<Rightarrow> 'a option" where
  "last_of xs = (if xs = [] then None else Some (last xs))"

fun licensed_from :: "mutation option \<Rightarrow> mutation list \<Rightarrow> bool" where
  "licensed_from prev [] \<longleftrightarrow> True"
| "licensed_from prev (m # ms) \<longleftrightarrow> licenses prev m \<and> licensed_from (Some m) ms"

definition licensed :: "mutation list \<Rightarrow> bool" where
  "licensed tr \<longleftrightarrow> licensed_from None tr"

lemma licensed_from_snoc:
  "licensed_from prev (tr @ [m]) \<longleftrightarrow> licensed_from prev tr \<and> licenses (if tr = [] then prev else Some (last tr)) m"
  by (induction tr arbitrary: prev) auto

lemma licensed_snoc: "licensed (tr @ [m]) \<longleftrightarrow> licensed tr \<and> licenses (last_of tr) m"
  by (auto simp: licensed_def licensed_from_snoc last_of_def)

lemma control_keeps [pass_rules]:
  "keeps P (session_context env) \<Longrightarrow> keeps P fn \<Longrightarrow> keeps P (control env limit step fn)"
  unfolding control_def by (intro pass_rules)

section \<open>Stable operations\<close>

text \<open>
  A property of the trace and the world that an operation of the environment keeps, and an environment whose
  operations other than commits keep it.
\<close>

definition stable :: "(mutation list \<Rightarrow> 'w \<Rightarrow> bool) \<Rightarrow> ('w, 'a) oper \<Rightarrow> bool" where
  "stable J f \<longleftrightarrow> (\<forall>tr w. J tr w \<longrightarrow> J tr (snd (f w)))"

definition repository_stable :: "(mutation list \<Rightarrow> 'w \<Rightarrow> bool) \<Rightarrow> ('w, 'p) engine_env \<Rightarrow> bool" where
  "repository_stable J env \<longleftrightarrow>
     (\<forall>x. stable J (env_claim_recovery env x)) \<and> (\<forall>x. stable J (env_claim_next env x))
     \<and> (\<forall>x. stable J (env_load env x)) \<and> (\<forall>x. stable J (env_consume env x)) \<and> (\<forall>x. stable J (env_renew env x))
     \<and> (\<forall>x y. stable J (env_yield env x y)) \<and> (\<forall>x y. stable J (env_progress env x y))"

definition provider_stable :: "(mutation list \<Rightarrow> 'w \<Rightarrow> bool) \<Rightarrow> ('w, 'p) engine_env \<Rightarrow> bool" where
  "provider_stable J env \<longleftrightarrow>
     (\<forall>x. stable J (env_resolve env x)) \<and> (\<forall>p. stable J (env_describe env p)) \<and> (\<forall>p x. stable J (env_verify env p x))
     \<and> (\<forall>p x. stable J (env_validate env p x)) 
     \<and> (\<forall>p x y. list_all (stable J) (fst (env_prepare env p x y)) \<and> stable J (snd (env_prepare env p x y)))
     \<and> (\<forall>p x y. stable J (env_reconcile_prepare env p x y)) \<and> (\<forall>p x y z. stable J (env_start env p x y z))
     \<and> (\<forall>p x. stable J (env_reconcile env p x)) \<and> (\<forall>p x. stable J (env_observe env p x))
     \<and> (\<forall>p x y. stable J (env_cancel env p x y))"

definition runtime_stable :: "(mutation list \<Rightarrow> 'w \<Rightarrow> bool) \<Rightarrow> ('w, 'p) engine_env \<Rightarrow> bool" where
  "runtime_stable J env \<longleftrightarrow>
     stable J (env_clock env) \<and> stable J (env_background env) \<and> stable J (env_context env) \<and> stable J (env_parent env)
     \<and> stable J (env_slot env) \<and> stable J (env_blobs env) \<and> stable J (env_secrets env)
     \<and> (\<forall>p. stable J (\<lambda>w. ((), env_set_secrets env p w)))
     \<and> (\<forall>g x. env_guard env = Some g \<longrightarrow> stable J (g x))"

fun provider_call :: "mutation \<Rightarrow> bool" where
  "provider_call (PrepareCalled pl prep) \<longleftrightarrow> True"
| "provider_call (StartCalled prep auth m) \<longleftrightarrow> True"
| "provider_call (CancelCalled remote op) \<longleftrightarrow> True"
| "provider_call m \<longleftrightarrow> False"

text \<open>
  What an invariant of the trace and the world has to satisfy for every step of a pass to keep it: the
  operations keep it, an acknowledged commit may be recorded, and so may a call that is licensed.
\<close>

locale traced =
  fixes env :: "('w, 'p) engine_env" and J :: "mutation list \<Rightarrow> 'w \<Rightarrow> bool"
  assumes repository: "repository_stable J env" and provider: "provider_stable J env" and runtime: "runtime_stable J env"
    and J_commit: "J tr w \<Longrightarrow> env_commit env h a w = (r, w') \<Longrightarrow>
      (case r of Inl e \<Rightarrow> J tr w' | Inr x \<Rightarrow> J (tr @ [Committed h a (w_journal x)]) w')"
    and J_cancellation: "J tr w \<Longrightarrow> env_cancellation env = Some f \<Longrightarrow> f h op c w = (r', w') \<Longrightarrow>
      J (if ca_begin c \<and> \<not> isl r' then tr @ [CancellationBegun h op] else tr) w'"
    and J_call: "J tr w \<Longrightarrow> licenses (last_of tr) m \<Longrightarrow> provider_call m \<Longrightarrow> J (tr @ [m]) w"
begin


subsection \<open>Quiet steps\<close>

text \<open>Steps that record no mutation, change neither the journal nor the cancellation at hand, and keep the
  invariant.\<close>

definition quiet :: "('w, 'a) pass \<Rightarrow> bool" where
  "quiet m \<longleftrightarrow> (\<forall>s. case run_state m s of
     (r, s') \<Rightarrow> s_trace s' = s_trace s \<and> w_journal (s_work s') = w_journal (s_work s)
       \<and> w_cancellation (s_work s') = w_cancellation (s_work s) \<and> (\<forall>tr. J tr (s_world s) \<longrightarrow> J tr (s_world s')))"

lemma quiet_return: "quiet (State_Monad.return r)"
  by (simp add: quiet_def State_Monad.return_def)

lemma quiet_get: "quiet State_Monad.get"
  by (simp add: quiet_def State_Monad.get_def)

lemma quiet_bind:
  assumes "quiet m" "\<And>r. quiet (f r)"
  shows "quiet (State_Monad.bind m f)"
  unfolding quiet_def
proof
  fix s
  obtain r t where t: "run_state m s = (r, t)" by fastforce
  obtain q u where u: "run_state (f r) t = (q, u)" by fastforce
  have "run_state (State_Monad.bind m f) s = (q, u)" by (simp add: State_Monad.bind_def t u)
  then show "case run_state (State_Monad.bind m f) s of (r, s') \<Rightarrow> s_trace s' = s_trace s
      \<and> w_journal (s_work s') = w_journal (s_work s) \<and> w_cancellation (s_work s') = w_cancellation (s_work s)
      \<and> (\<forall>tr. J tr (s_world s) \<longrightarrow> J tr (s_world s'))"
    using assms(1) [unfolded quiet_def, rule_format, of s] assms(2) [of r, unfolded quiet_def, rule_format, of t]
    by (simp add: t u)
qed

lemma quiet_if: "quiet m \<Longrightarrow> quiet n \<Longrightarrow> quiet (if b then m else n)"
  by simp

lemma quiet_option: "quiet m \<Longrightarrow> (\<And>x. v = Some x \<Longrightarrow> quiet (f x)) \<Longrightarrow> quiet (case v of None \<Rightarrow> m | Some x \<Rightarrow> f x)"
  by (cases v) auto

lemma quiet_sum:
  "(\<And>x. quiet (f x)) \<Longrightarrow> (\<And>y. quiet (g y)) \<Longrightarrow> quiet (case v of Inl x \<Rightarrow> f x | Inr y \<Rightarrow> g y)"
  by (cases v) auto

lemma quiet_prod: "(\<And>x y. quiet (f x y)) \<Longrightarrow> quiet (case v of (x, y) \<Rightarrow> f x y)"
  by (cases v) auto

lemma quiet_background_case: "quiet m \<Longrightarrow> quiet n \<Longrightarrow> quiet (case b of RenewLease \<Rightarrow> m | ShutDown \<Rightarrow> n)"
  by (cases b) auto

lemma quiet_call: "stable J f \<Longrightarrow> quiet (call f)"
  by (auto simp: quiet_def call_def stable_def split: prod.splits) (metis snd_conv)

lemma quiet_modify:
  "(\<And>s. s_trace (f s) = s_trace s) \<Longrightarrow> (\<And>s. w_journal (s_work (f s)) = w_journal (s_work s))
     \<Longrightarrow> (\<And>s. w_cancellation (s_work (f s)) = w_cancellation (s_work s)) \<Longrightarrow> (\<And>s. s_world (f s) = s_world s)
     \<Longrightarrow> quiet (session_modify f)"
  by (simp add: quiet_def session_modify_def)

lemmas quiet_rules = quiet_return quiet_get quiet_bind quiet_if quiet_option quiet_sum quiet_prod
  quiet_background_case quiet_call quiet_modify

lemma stable_steps:
  "stable J (env_clock env)" "stable J (env_background env)" "stable J (env_context env)" "stable J (env_parent env)"
  "stable J (env_slot env)" "stable J (env_blobs env)" "stable J (env_secrets env)"
  "stable J (\<lambda>w. ((), env_set_secrets env q w))"
  "stable J (env_claim_recovery env o1)" "stable J (env_claim_next env o2)" "stable J (env_load env c)"
  "stable J (env_consume env h)" "stable J (env_renew env h)" "stable J (env_yield env h d)" "stable J (env_progress env h pp)"
  "stable J (env_resolve env b)" "stable J (env_describe env p)" "stable J (env_verify env p b)"
  "stable J (env_validate env p rj)" "stable J (snd (env_prepare env p pl i))" "stable J (env_reconcile_prepare env p pl i)"
  "stable J (env_start env p pr au ma)" "stable J (env_reconcile env p idn)" "stable J (env_observe env p re)"
  "stable J (env_cancel env p re i)"
  using repository provider runtime by (auto simp: repository_stable_def provider_stable_def runtime_stable_def)

lemma quiet_context: "quiet (session_context env)"
  unfolding session_context_def by (intro quiet_rules stable_steps)

lemma quiet_background: "quiet (background_step env b)"
  unfolding background_step_def by (intro quiet_rules stable_steps quiet_context) simp_all

lemma quiet_backgrounds: "quiet (background_steps env bs)"
  by (induction bs) (auto intro: quiet_rules quiet_background)

lemma quiet_lock: "quiet (lock env)"
  unfolding lock_def by (intro quiet_rules stable_steps quiet_backgrounds)

lemma quiet_current_work: "quiet (current_work env)"
  unfolding current_work_def by (intro quiet_rules quiet_lock)

lemma quiet_journal_problem: "quiet (journal_problem env)"
  unfolding journal_problem_def by (intro quiet_rules quiet_current_work)

lemma quiet_progress: "quiet (progress env x)"
  unfolding progress_def Let_def by (intro quiet_rules stable_steps quiet_lock) simp_all

lemma quiet_run_segments: "list_all (stable J) fs \<Longrightarrow> quiet (run_segments env fs)"
  by (induction fs) (auto intro!: quiet_rules quiet_progress)

lemma quiet_segments: "quiet (run_segments env (fst (env_prepare env p pl i)))"
  using provider by (intro quiet_run_segments) (simp add: provider_stable_def)

lemma quiet_material_of: "quiet (material_of env x)"
  unfolding material_of_def by (intro quiet_rules stable_steps)

lemma quiet_clear_material: "quiet (clear_material env x)"
  unfolding clear_material_def by (intro quiet_rules stable_steps)

lemma quiet_reconcile_prepare: "quiet (reconcile_prepare_call env p j)"
  unfolding reconcile_prepare_call_def by (intro quiet_rules stable_steps)

lemma quiet_secrets_available: "quiet (secrets_available env key auth)"
  unfolding secrets_available_def by (intro quiet_rules stable_steps)

lemma quiet_work_expired: "quiet (work_expired env w)"
  unfolding work_expired_def by (intro quiet_rules stable_steps)

lemmas quiet_steps = stable_steps [THEN quiet_call] quiet_context quiet_lock quiet_current_work quiet_journal_problem
  quiet_segments quiet_material_of quiet_clear_material quiet_reconcile_prepare quiet_secrets_available
  quiet_work_expired

lemma quiet_keeps:
  assumes "quiet m" "\<And>s s'. s_trace s' = s_trace s \<Longrightarrow> w_journal (s_work s') = w_journal (s_work s)
    \<Longrightarrow> w_cancellation (s_work s') = w_cancellation (s_work s) \<Longrightarrow> (\<And>tr. J tr (s_world s) \<Longrightarrow> J tr (s_world s'))
    \<Longrightarrow> P s \<Longrightarrow> P s'"
  shows "keeps P m"
  using assms by (fastforce simp: keeps_def ensures_def quiet_def split: prod.splits)

abbreviation trace_ok :: "'w session \<Rightarrow> bool" where
  "trace_ok s \<equiv> J (s_trace s) (s_world s)"

text \<open>The last mutation of the trace, while the journal at hand is the acknowledged one.\<close>

definition just_after :: "mutation \<Rightarrow> journal \<Rightarrow> 'w session \<Rightarrow> bool" where
  "just_after m j s \<longleftrightarrow> trace_ok s \<and> last_of (s_trace s) = Some m \<and> w_journal (s_work s) = j"

lemma quiet_trace_ok: "quiet m \<Longrightarrow> keeps trace_ok m"
  by (rule quiet_keeps) simp_all

lemma quiet_just_after: "quiet m \<Longrightarrow> keeps (just_after x j) m"
  by (rule quiet_keeps) (simp_all add: just_after_def)

lemmas steps_trace_ok [pass_rules] = quiet_steps [THEN quiet_trace_ok]
lemmas steps_just_after [pass_rules] = quiet_steps [THEN quiet_just_after]


subsection \<open>Steps that commit\<close>

text \<open>An acknowledged commit is the last mutation of the trace, and its journal the one at hand.\<close>

lemma commit_ensures:
  "ensures trace_ok (commit env a)
     (\<lambda>err s. trace_ok s \<and> (err = None \<longrightarrow> (\<exists>h j. just_after (Committed h a j) j s)))"
proof -
  have commits: "ensures trace_ok (do { s \<leftarrow> State_Monad.get;
      r \<leftarrow> call (env_commit env (w_handle (s_work s)) a);
      accept_work (\<lambda>w. do { record_mutation (Committed (w_handle (s_work s)) a (w_journal w));
         if act_kind a = BeginPreparation then session_modify (\<lambda>s. s\<lparr>s_draining := True\<rparr>)
         else State_Monad.return () }) r })
      (\<lambda>err s. trace_ok s \<and> (err = None \<longrightarrow> (\<exists>h j. just_after (Committed h a j) j s)))"
    by (auto simp: accept_work_def ensures_def call_def session_modify_def record_mutation_def State_Monad.bind_def
      State_Monad.get_def State_Monad.return_def just_after_def last_of_def split: sum.splits prod.splits
      dest!: J_commit)
  show ?thesis
    unfolding commit_def by (intro keeps_then ensures_if ensures_return commits pass_rules) auto
qed

lemma commit_trace_ok [pass_rules]: "keeps trace_ok (commit env a)"
  by (rule keepsI, rule ensures_post [OF commit_ensures]) simp

lemma commit_problem_trace_ok [pass_rules]: "keeps trace_ok (commit_problem env a)"
  unfolding commit_problem_def by (intro pass_rules)

lemma accept_work_keeps:
  "(\<And>w s. P s \<Longrightarrow> P (s\<lparr>s_work := w\<rparr>)) \<Longrightarrow> (\<And>w. keeps P (f w)) \<Longrightarrow> keeps P (accept_work f r)"
  unfolding accept_work_def
  by (intro pass_rules) (simp_all add: keeps_def ensures_modify)

lemma consume_trace_ok [pass_rules]: "keeps trace_ok (consumeAuthorization env)"
  unfolding consumeAuthorization_def by (intro pass_rules accept_work_keeps) simp

text \<open>An acknowledged beginning of a cancellation is the last mutation of the trace.\<close>

definition cancel_begun :: "opaque_id \<Rightarrow> 'w session \<Rightarrow> bool" where
  "cancel_begun op s \<longleftrightarrow> trace_ok s \<and> (\<exists>h. last_of (s_trace s) = Some (CancellationBegun h op))"

lemma cancellation_commits:
  "ensures (\<lambda>s. trace_ok s \<and> w_cancellation (s_work s) = c) (do { s \<leftarrow> State_Monad.get;
      case (env_cancellation env, w_cancellation (s_work s)) of
        (Some f, Some cc) \<Rightarrow> do {
          r \<leftarrow> call (f (w_handle (s_work s)) (operation_id (cc_operation cc)) a);
          accept_work (\<lambda>_. if ca_begin a then record_mutation (CancellationBegun (w_handle (s_work s)) (operation_id (cc_operation cc)))
            else State_Monad.return ()) r }
      | _ \<Rightarrow> State_Monad.return (Some ErrConflict) })
    (\<lambda>err s. trace_ok s
       \<and> (ca_begin a \<and> err = None \<longrightarrow> (\<exists>cc. c = Some cc \<and> cancel_begun (operation_id (cc_operation cc)) s)))"
  (is "ensures _ ?m ?Q")
  unfolding ensures_def
proof (intro allI impI)
  fix s assume s: "trace_ok s \<and> w_cancellation (s_work s) = c"
  note run = accept_work_def call_def session_modify_def record_mutation_def State_Monad.bind_def
    State_Monad.get_def State_Monad.return_def
  show "case run_state ?m s of (r, s') \<Rightarrow> ?Q r s'"
  proof (cases "env_cancellation env = None \<or> c = None")
    case True
    then show ?thesis using s by (auto simp: run split: option.splits)
  next
    case False
    then obtain f cc where f: "env_cancellation env = Some f" and c: "c = Some cc" by auto
    obtain r w' where r: "f (w_handle (s_work s)) (operation_id (cc_operation cc)) a (s_world s) = (r, w')" by fastforce
    show ?thesis
      using J_cancellation [OF conjunct1 [OF s] f r] s f c r by (cases r) (auto simp: run cancel_begun_def last_of_def)
  qed
qed

lemma commit_cancellation_trace_ok [pass_rules]: "keeps trace_ok (commitCancellation env a)"
  unfolding commitCancellation_def
  by (rule keepsI, rule keeps_then, intro pass_rules,
      rule ensures_cases [where g = "\<lambda>s. w_cancellation (s_work s)"], rule ensures_post [OF cancellation_commits]) simp

lemma failWith_trace_ok [pass_rules]: "keeps trace_ok (failWith env c reason)"
  unfolding failWith_def by (intro pass_rules)

lemma providerFailure_trace_ok [pass_rules]: "keeps trace_ok (providerFailure env err c)"
  unfolding providerFailure_def by (intro pass_rules)

lemma prepared_seen_trace_ok [pass_rules]: "keeps trace_ok (prepared_seen env x)"
  unfolding prepared_seen_def by (intro pass_rules)

lemma endUnconfirmed_trace_ok [pass_rules]: "keeps trace_ok (endUnconfirmedPreparation env err b c)"
  unfolding endUnconfirmedPreparation_def by (intro pass_rules)

lemma refuseNewWork_trace_ok [pass_rules]: "keeps trace_ok (refuseNewWork env err)"
  unfolding refuseNewWork_def by (intro pass_rules)

lemma guardNewWork_trace_ok [pass_rules]: "keeps trace_ok (guardNewWork env)"
proof (cases "env_guard env")
  case None
  then show ?thesis by (simp add: guardNewWork_def keeps_return)
next
  case (Some g)
  then have "keeps trace_ok (call (g x))" for x
    using runtime by (auto simp: runtime_stable_def intro!: quiet_trace_ok quiet_call)
  then show ?thesis unfolding guardNewWork_def Some option.case by (intro pass_rules)
qed

lemma expire_trace_ok [pass_rules]: "keeps trace_ok (expire_dispatch env)"
  unfolding expire_dispatch_def by (intro pass_rules)

lemma intent_refused_trace_ok [pass_rules]: "keeps trace_ok (intent_refused env err)"
  unfolding intent_refused_def by (intro pass_rules)


subsection \<open>Steps that call\<close>

text \<open>A call that is made right after its intent keeps the trace licensed, and so does one that is not made.\<close>

lemma control_licensed:
  assumes "keeps P (session_context env)" "\<And>s. P s \<Longrightarrow> trace_ok s" "ensures P fn (\<lambda>_. trace_ok)"
  shows "ensures P (control env limit step fn) (\<lambda>_. trace_ok)"
  unfolding control_def
proof (rule keeps_then [OF assms(1)])
  fix ctx
  have run: "ensures P (do { r \<leftarrow> fn; State_Monad.return (g r) }) (\<lambda>_. trace_ok)" for g :: "_ \<Rightarrow> 'd"
    by (rule ensures_bind [OF assms(3)]) (rule ensures_return)
  show "ensures P
      (case if ctx = None \<and> limit \<le> 0 then Some DeadlineExceeded else ctx of
         None \<Rightarrow> do { r \<leftarrow> fn; State_Monad.return (case r of
             ReplyPanic \<Rightarrow> Inl (control_error (Sentinel ''provider call failed without a usable result'') (step @ ''_panic''))
           | Replied v None \<Rightarrow> Inr v
           | Replied v (Some e) \<Rightarrow> Inl (control_error e (step @ ''_failed''))) }
       | Some e \<Rightarrow> State_Monad.return (Inl (control_error e (step @ ''_interrupted''))))
      (\<lambda>_. trace_ok)"
    by (auto split: option.splits intro!: run ensures_return simp: assms(2))
qed

lemma control_after:
  "ensures (just_after m j) fn (\<lambda>_. trace_ok) \<Longrightarrow> ensures (just_after m j) (control env limit step fn) (\<lambda>_. trace_ok)"
  by (rule control_licensed [OF quiet_just_after [OF quiet_context]]) (simp_all add: just_after_def)

lemma prepare_call_licensed:
  assumes "act_kind a = BeginPreparation" "act_plan a = Some pl" "act_preparation_id a = prep"
  shows "ensures (just_after (Committed h a j) j') (prepare_call env p pl prep) (\<lambda>_. trace_ok)"
proof -
  have "ensures (just_after (Committed h a j) j') (record_mutation (PrepareCalled pl prep)) (\<lambda>_. trace_ok)"
    using assms by (simp add: ensures_def record_mutation_def just_after_def J_call)
  then show ?thesis
    unfolding prepare_call_def by (rule ensures_bind) (rule keepsD, intro pass_rules)
qed

lemma current_work_holds: "ensures (just_after m j) (current_work env) (\<lambda>w s. just_after m j s \<and> w_journal w = j)"
proof -
  have "ensures (just_after m j) (do { s \<leftarrow> State_Monad.get; State_Monad.return (s_work s) })
      (\<lambda>w s. just_after m j s \<and> w_journal w = j)"
    by (auto simp: ensures_def just_after_def State_Monad.bind_def State_Monad.get_def State_Monad.return_def)
  then show ?thesis unfolding current_work_def by (rule keeps_then [OF quiet_just_after [OF quiet_lock]])
qed

lemma start_call_licensed:
  assumes "act_kind a = BeginSubmission" "j_prepared j = Some prep"
  shows "ensures (just_after (Committed h a j) j) (start_call env p prep material) (\<lambda>_. trace_ok)"
  unfolding start_call_def Let_def
proof (rule ensures_bind [OF current_work_holds])
  fix w :: work
  let ?start = "j_start (w_journal w)"
  have recorded: "ensures (\<lambda>s. just_after (Committed h a j) j s \<and> w_journal w = j)
      (record_mutation (StartCalled prep ?start m)) (\<lambda>_. trace_ok)" for m
    using assms by (simp add: ensures_def record_mutation_def just_after_def J_call)
  have quiet: "keeps (\<lambda>s. just_after (Committed h a j) j s \<and> w_journal w = j) m" if "quiet m" for m :: "('w, material option) pass"
    using that by (rule quiet_keeps) (simp add: just_after_def)
  show "ensures (\<lambda>s. just_after (Committed h a j) j s \<and> w_journal w = j)
      (do { m \<leftarrow> (if ?start = None \<or> map_option start_secrets ?start = Some None then State_Monad.return None
                 else do { m \<leftarrow> material_of env material; State_Monad.return (Some m) });
            record_mutation (StartCalled prep ?start m);
            r \<leftarrow> call (env_start env p prep ?start m);
            State_Monad.return (case r of None \<Rightarrow> ReplyPanic | Some x \<Rightarrow> Replied x None) })
      (\<lambda>_. trace_ok)"
    by (rule keeps_then [OF quiet], intro quiet_rules quiet_material_of, rule ensures_bind [OF recorded], rule keepsD, intro pass_rules)
qed

lemma commit_then:
  assumes "\<And>h j. ensures (just_after (Committed h a j) j) n (\<lambda>_. trace_ok)" "\<And>err. keeps trace_ok (g err)"
  shows "keeps trace_ok (do { err \<leftarrow> commit env a; if err \<noteq> None then g err else n })"
proof (rule keepsI, rule ensures_bind [OF commit_ensures])
  fix err
  show "ensures (\<lambda>s. trace_ok s \<and> (err = None \<longrightarrow> (\<exists>h j. just_after (Committed h a j) j s)))
      (if err \<noteq> None then g err else n) (\<lambda>_. trace_ok)"
    using assms(1) keepsD [OF assms(2), of err] by (cases err) (fastforce simp: ensures_def)+
qed

lemma process_preparing_licensed:
  assumes "act_kind a = BeginPreparation" "act_plan a = Some pl" "act_preparation_id a = prep"
  shows "ensures (just_after (Committed h a j) j) (process_preparing env p g limit pl prep) (\<lambda>_. trace_ok)"
  unfolding process_preparing_def
  by (rule keeps_then, intro pass_rules, rule ensures_bind [OF control_after [OF prepare_call_licensed [OF assms]]],
      rule keepsD, intro pass_rules)

lemma commit_and_prepare_trace_ok [pass_rules]: "keeps trace_ok (commit_and_prepare env p g limit pl prep)"
  unfolding commit_and_prepare_def
  by (rule commit_then, rule process_preparing_licensed) (simp_all add: action_of_def intent_refused_trace_ok)

lemma process_local_trace_ok [pass_rules]: "keeps trace_ok (process_local env p limit)"
  unfolding process_local_def by (intro pass_rules)

lemma process_staging_trace_ok [pass_rules]: "keeps trace_ok (process_staging env p w b limit)"
  unfolding process_staging_def by (intro pass_rules)

text \<open>A start that was committed, with or without material.\<close>

definition start_committed :: "'w session \<Rightarrow> bool" where
  "start_committed s \<longleftrightarrow> (\<exists>h a j. act_kind a = BeginSubmission \<and> just_after (Committed h a j) j s)"

lemma commit_start:
  assumes "act_kind a = BeginSubmission"
  shows "ensures trace_ok (commit env a) (\<lambda>err s. trace_ok s \<and> (err = None \<longrightarrow> start_committed s))"
  by (rule ensures_post [OF commit_ensures]) (use assms in \<open>auto simp: start_committed_def\<close>)

lemma claim_and_commit_start:
  "ensures trace_ok (claim_and_commit env key auth) (\<lambda>r s. trace_ok s \<and> ((\<exists>h. r = Inr h) \<longrightarrow> start_committed s))"
proof -
  let ?a = "(action_of BeginSubmission)\<lparr>act_secrets_available := True\<rparr>"
  let ?Q = "\<lambda>r s. trace_ok s \<and> ((\<exists>h. fst r = Inr h) \<longrightarrow> start_committed s)"
  have claim: "ensures trace_ok (State (\<lambda>s. case Claim q key auth now (run_state (commit env ?a)) s of
      (r, q, s') \<Rightarrow> ((r, q), s'))) ?Q" for q now
    using commit_start [of ?a]
    by (auto simp: ensures_def Claim_def action_of_def Let_def split: option.splits prod.splits if_splits)
  have set: "ensures (?Q r) (call (\<lambda>w. ((), env_set_secrets env q w))) (\<lambda>_. ?Q r)" for q and r :: "(go_error + held) \<times> pool option"
    by (rule keepsD, rule quiet_keeps [OF quiet_call [OF stable_steps(8)]]) (auto simp: start_committed_def just_after_def)
  show ?thesis
    unfolding claim_and_commit_def
    by (rule keeps_then, intro pass_rules, rule keeps_then, intro pass_rules, rule ensures_bind [OF claim],
        rule ensures_bind [OF set], rule ensures_return) simp
qed

lemma begin_submission_start:
  "ensures trace_ok (begin_submission env w) (\<lambda>r s. trace_ok s \<and> ((\<exists>m. r = Inr m) \<longrightarrow> start_committed s))"
proof -
  have plain: "ensures trace_ok (do { err \<leftarrow> commit env (action_of BeginSubmission);
      State_Monad.return (case err of Some e \<Rightarrow> Inl e | None \<Rightarrow> Inr None) })
      (\<lambda>r s. trace_ok s \<and> ((\<exists>m. r = Inr m) \<longrightarrow> start_committed s))"
    by (rule ensures_bind [OF commit_start], simp add: action_of_def, rule ensures_return) (auto split: option.splits)
  have claimed: "ensures trace_ok (do { r \<leftarrow> claim_and_commit env key auth; State_Monad.return (map_sum id Some r) })
      (\<lambda>r s. trace_ok s \<and> ((\<exists>m. r = Inr m) \<longrightarrow> start_committed s))" for key auth
    by (rule ensures_bind [OF claim_and_commit_start], rule ensures_return) (auto split: sum.splits simp: map_sum_def)
  show ?thesis unfolding begin_submission_def by (auto split: option.splits intro: plain claimed)
qed

lemma process_starting_licensed: "ensures start_committed (process_starting env p limit material) (\<lambda>_. trace_ok)"
proof -
  have *: "ensures (just_after (Committed h a j) j) (process_starting env p limit material) (\<lambda>_. trace_ok)"
    if a: "act_kind a = BeginSubmission" for h a j
    unfolding process_starting_def Let_def
  proof (rule ensures_bind [OF current_work_holds])
    fix w :: work
    show "ensures (\<lambda>s. just_after (Committed h a j) j s \<and> w_journal w = j)
        (case j_prepared (w_journal w) of
           None \<Rightarrow> State_Monad.return (Some runtime_panic)
         | Some prep \<Rightarrow> do {
             r \<leftarrow> control env limit ''submit'' (start_call env p prep material);
             commit env ((action_of SubmissionSeen)\<lparr>act_submission := Some (case r of
                 Inl _ \<Rightarrow> unknown_outcome
               | Inr x \<Rightarrow> if submission_outcome_validate (prep_identity prep) x \<noteq> None then unknown_outcome else x)\<rparr>) })
        (\<lambda>_. trace_ok)"
    proof (cases "j_prepared j")
      case None
      then show ?thesis by (auto simp: ensures_def State_Monad.return_def just_after_def)
    next
      case (Some prep)
      have "ensures (just_after (Committed h a j) j)
          (do { r \<leftarrow> control env limit ''submit'' (start_call env p prep material);
                commit env (f r) }) (\<lambda>_. trace_ok)" for f
        by (rule ensures_bind [OF control_after [OF start_call_licensed [OF a Some]]], rule keepsD, intro pass_rules)
      then show ?thesis using Some by (auto simp: ensures_def)
    qed
  qed
  then show ?thesis by (fastforce simp: ensures_def start_committed_def)
qed

lemma revalidate_trace_ok [pass_rules]: "keeps trace_ok (revalidate env p w g limit)"
  unfolding revalidate_def by (intro pass_rules)

lemma process_ready_trace_ok [pass_rules]: "keeps trace_ok (process_ready env p w limit)"
proof -
  have started: "ensures (\<lambda>s. trace_ok s \<and> ((\<exists>m. r = Inr m) \<longrightarrow> start_committed s))
      (case r of
         Inl e \<Rightarrow>
           if newWorkRefusalReason (Some e) \<noteq> [] then refuseNewWork env (Some e)
           else if errors_is ''workloadsecret.ErrUnavailable'' (Some e) then State_Monad.return None
           else if errors_is ''admission.ErrExpired'' (Some e) then expire_dispatch env
           else State_Monad.return (Some e)
       | Inr material \<Rightarrow> do {
           err \<leftarrow> process_starting env p limit material;
           clear_material env material;
           State_Monad.return err }) (\<lambda>_. trace_ok)" for r
  proof (cases r)
    case (Inl e)
    have "keeps trace_ok (if newWorkRefusalReason (Some e) \<noteq> [] then refuseNewWork env (Some e)
           else if errors_is ''workloadsecret.ErrUnavailable'' (Some e) then State_Monad.return None
           else if errors_is ''admission.ErrExpired'' (Some e) then expire_dispatch env
           else State_Monad.return (Some e))"
      by (intro pass_rules)
    then show ?thesis unfolding Inl sum.case by (rule ensures_pre [OF keepsD]) simp
  next
    case (Inr material)
    have "ensures start_committed (do { err \<leftarrow> process_starting env p limit material;
           clear_material env material; State_Monad.return err }) (\<lambda>_. trace_ok)"
      by (rule ensures_bind [OF process_starting_licensed], rule keepsD, intro pass_rules)
    then show ?thesis unfolding Inr sum.case by (rule ensures_pre) simp
  qed
  show ?thesis
    unfolding process_ready_def
    by (rule keepsI, intro keeps_then pass_rules)
      (auto split: option.splits intro!: keeps_then pass_rules ensures_return ensures_bind [OF begin_submission_start] started)
qed

lemma process_submitting_trace_ok [pass_rules]: "keeps trace_ok (process_submitting env p w)"
  unfolding process_submitting_def by (intro pass_rules)

lemma process_submitted_trace_ok [pass_rules]: "keeps trace_ok (process_submitted env p w)"
  unfolding process_submitted_def by (intro pass_rules)

lemma process_phase_trace_ok [pass_rules]: "keeps trace_ok (process_phase env p w b limit)"
  unfolding process_phase_def by (cases "j_phase (w_journal w)"; simp only: phase.case) (intro pass_rules)+

text \<open>A cancellation is requested by the pass that began it, for the operation at hand.\<close>

definition cancelling :: "cancellation_control \<Rightarrow> 'w session \<Rightarrow> bool" where
  "cancelling cc s \<longleftrightarrow> trace_ok s \<and> w_cancellation (s_work s) = Some cc"

lemma quiet_cancelling: "quiet m \<Longrightarrow> keeps (cancelling cc) m"
  by (rule quiet_keeps) (simp_all add: cancelling_def)

lemma quiet_cancel_begun: "quiet m \<Longrightarrow> keeps (cancel_begun op) m"
  by (rule quiet_keeps) (simp_all add: cancel_begun_def)

lemma commitCancellation_begins:
  assumes "ca_begin a"
  shows "ensures (cancelling cc) (commitCancellation env a)
    (\<lambda>err s. trace_ok s \<and> (err = None \<longrightarrow> cancel_begun (operation_id (cc_operation cc)) s))"
  unfolding commitCancellation_def
  by (rule keeps_then [OF quiet_cancelling [OF quiet_lock]])
    (use assms cancellation_commits [of "Some cc" a] in \<open>simp add: ensures_def cancelling_def\<close>)

lemma cancel_call_licensed: "ensures (cancel_begun op) (cancel_call env p remote op) (\<lambda>_. trace_ok)"
proof -
  have "ensures (cancel_begun op) (record_mutation (CancelCalled remote op)) (\<lambda>_. trace_ok)"
    by (simp add: ensures_def record_mutation_def cancel_begun_def J_call)
  then show ?thesis unfolding cancel_call_def by (rule ensures_bind) (rule keepsD, intro pass_rules)
qed

lemma control_cancel:
  "ensures (cancel_begun op) (control env limit step (cancel_call env p remote op)) (\<lambda>_. trace_ok)"
  by (rule control_licensed [OF quiet_cancel_begun [OF quiet_context] _ cancel_call_licensed]) (simp add: cancel_begun_def)

lemma cancel_outcome_trace_ok [pass_rules]: "keeps trace_ok (cancel_outcome env r)"
  unfolding cancel_outcome_def by (intro pass_rules)

lemma request_cancellation_licensed:
  "ensures (cancelling cc) (request_cancellation env p cc remote) (\<lambda>_. trace_ok)"
  unfolding request_cancellation_def
proof (rule ensures_bind [OF commitCancellation_begins])
  fix err
  let ?op = "operation_id (cc_operation cc)"
  let ?r = "control env (cfg_control_timeout (env_config env)) ''cancel'' (cancel_call env p remote ?op)"
  have "ensures (cancel_begun ?op) (do { r \<leftarrow> ?r; cancel_outcome env r }) (\<lambda>_. trace_ok)"
    by (rule ensures_bind [OF control_cancel]) (rule keepsD, intro pass_rules)
  then show "ensures (\<lambda>s. trace_ok s \<and> (err = None \<longrightarrow> cancel_begun ?op s))
      (if err \<noteq> None then State_Monad.return err else do { r \<leftarrow> ?r; cancel_outcome env r }) (\<lambda>_. trace_ok)"
    by (cases err) (auto intro: ensures_return elim: ensures_pre)
qed simp

lemma current_work_cancelling:
  "ensures trace_ok (current_work env) (\<lambda>w s. trace_ok s \<and> (\<forall>cc. w_cancellation w = Some cc \<longrightarrow> cancelling cc s))"
proof -
  have "ensures trace_ok (do { s \<leftarrow> State_Monad.get; State_Monad.return (s_work s) })
      (\<lambda>w s. trace_ok s \<and> (\<forall>cc. w_cancellation w = Some cc \<longrightarrow> cancelling cc s))"
    by (auto simp: ensures_def cancelling_def State_Monad.bind_def State_Monad.get_def State_Monad.return_def)
  then show ?thesis unfolding current_work_def by (rule keeps_then [OF quiet_trace_ok [OF quiet_lock]])
qed

lemma cancelOnce_trace_ok [pass_rules]: "keeps trace_ok (cancelOnce env p)"
  unfolding cancelOnce_def
proof (rule keepsI, rule ensures_bind [OF current_work_cancelling])
  fix w :: work
  let ?P = "\<lambda>s. trace_ok s \<and> (\<forall>cc. w_cancellation w = Some cc \<longrightarrow> cancelling cc s)"
  have cancels: "ensures (cancelling cc) (do {
      d \<leftarrow> call (env_describe env p);
      err \<leftarrow> (if \<not> cap_remote_cancellation (desc_capabilities d)
             then commitCancellation env (cancellation_failed CodeRemoteCancelUnsupported)
             else request_cancellation env p cc remote);
      State_Monad.return (Some err) }) (\<lambda>_. trace_ok)" for cc remote
    by (rule keeps_then [OF quiet_cancelling [OF quiet_call [OF stable_steps(17)]]], rule ensures_bind, rule ensures_if,
        rule ensures_pre [OF keepsD [OF commit_cancellation_trace_ok]], simp add: cancelling_def,
        rule request_cancellation_licensed, rule ensures_return)
  show "ensures ?P (case (w_cancellation w, j_remote (w_journal w)) of
      (Some cc, Some remote) \<Rightarrow>
        if cc_started cc \<or> j_phase (w_journal w) \<noteq> Submitted then State_Monad.return None
        else do {
          d \<leftarrow> call (env_describe env p);
          err \<leftarrow> (if \<not> cap_remote_cancellation (desc_capabilities d)
                 then commitCancellation env (cancellation_failed CodeRemoteCancelUnsupported)
                 else request_cancellation env p cc remote);
          State_Monad.return (Some err) }
    | _ \<Rightarrow> State_Monad.return None) (\<lambda>_. trace_ok)"
    by (auto split: option.splits intro!: ensures_return ensures_if ensures_pre [OF cancels])
qed

lemma process_verified_trace_ok [pass_rules]: "keeps trace_ok (process_verified env p binding w b limit)"
  unfolding process_verified_def by (intro pass_rules)

lemma process_body_trace_ok [pass_rules]: "keeps trace_ok (process_body env w)"
  unfolding process_body_def by (intro pass_rules quiet_trace_ok quiet_modify) simp_all

end

text \<open>An invariant that also outlives the end of a pass holds through any number of passes.\<close>

locale traced_pass = traced +
  assumes J_yield: "J tr w \<Longrightarrow> J (tr @ [Yielded d]) w"
begin

lemma finish_pass_trace_ok: "keeps trace_ok (finish_pass env err)"
proof -
  have yields: "keeps trace_ok (record_mutation (Yielded d))" for d
    by (simp add: keeps_def ensures_def record_mutation_def J_yield)
  show ?thesis unfolding finish_pass_def by (intro pass_rules yields)
qed

lemma process_trace_ok: "keeps trace_ok (process env c)"
  unfolding process_def by (intro pass_rules finish_pass_trace_ok) (simp add: keeps_def ensures_modify open_session_def)

lemma RunOnce_trace_ok: "keeps trace_ok (RunOnce env owner)"
  unfolding RunOnce_def by (intro pass_rules process_trace_ok)

end

lemma run_passes_keeps:
  "(\<And>env owner. (env, owner) \<in> set ps \<Longrightarrow> traced_pass env J) \<Longrightarrow> keeps (\<lambda>s. J (s_trace s) (s_world s)) (run_passes ps)"
  by (induction ps rule: run_passes.induct) (auto intro!: pass_rules traced_pass.RunOnce_trace_ok)

lemma stable_trace:
  "repository_stable (\<lambda>tr w. P tr) env" "provider_stable (\<lambda>tr w. P tr) env" "runtime_stable (\<lambda>tr w. P tr) env"
  by (simp_all add: repository_stable_def provider_stable_def runtime_stable_def stable_def list_all_iff)

interpretation licence: traced_pass env "\<lambda>tr w. licensed tr" for env :: "('w, 'p) engine_env"
  by unfold_locales (auto simp: stable_trace licensed_snoc split: sum.splits)

text \<open>The mutations of a pass before its end: none of them ends a pass.\<close>

definition unfinished :: "mutation list \<Rightarrow> mutation list \<Rightarrow> bool" where
  "unfinished tr0 tr \<longleftrightarrow> (\<exists>ms. tr = tr0 @ ms \<and> (\<forall>d. Yielded d \<notin> set ms))"

lemma unfinished_snoc: "unfinished tr0 tr \<Longrightarrow> \<forall>d. m \<noteq> Yielded d \<Longrightarrow> unfinished tr0 (tr @ [m])"
  by (auto simp: unfinished_def)

interpretation running: traced env "\<lambda>tr w. unfinished tr0 tr" for env :: "('w, 'p) engine_env" and tr0
proof unfold_locales
  show "provider_call m \<Longrightarrow> unfinished tr0 tr \<Longrightarrow> unfinished tr0 (tr @ [m])" for tr m
    by (rule unfinished_snoc) auto
qed (auto simp: stable_trace unfinished_snoc split: sum.splits)

end
