(* ===== verification/Store_Engine.thy ===== *)
theory Store_Engine
  imports Store_History Dispatch_Engine_Facts "HOL-Library.Sublist"
begin

text \<open>
  The dispatch engine on the store.  Its repository is the SQLite store; between any two calls of a pass, other workers
  and applications may run any transactions, and any transaction may fail or lose its acknowledgement.  Passes of one or
  more engines follow each other, a crash being an environment that fails from some point on.
\<close>

section \<open>The store as the engine's repository\<close>

text \<open>What others do before a transaction of the engine, and what surrounds that transaction.\<close>

record ('r, 'c, 'x) surroundings =
  sur_others :: "'x \<Rightarrow> ('r tx_env \<times> ('r, 'c) store_request) list \<times> 'x"
  sur_tx :: "'x \<Rightarrow> 'r tx_env \<times> 'x"

definition repository ::
  "('r, 'c, 'x) surroundings \<Rightarrow> ('r tx_env \<Rightarrow> 'r store \<Rightarrow> 'a \<times> 'r store) \<Rightarrow> ('r store \<times> 'x, 'a) oper" where
  "repository sur f = (\<lambda>(s, x).
     case sur_others sur x of (rs, x) \<Rightarrow>
     case sur_tx sur x of (env, x) \<Rightarrow>
     case f env (perform_all rs s) of (r, s) \<Rightarrow> (r, s, x))"

definition elsewhere :: "('x, 'a) oper \<Rightarrow> ('r store \<times> 'x, 'a) oper" where
  "elsewhere f = (\<lambda>(s, x). case f x of (r, x) \<Rightarrow> (r, s, x))"

definition error_of :: "go_error + 'a \<Rightarrow> go_error option" where
  "error_of r = (case r of Inl e \<Rightarrow> Some e | Inr _ \<Rightarrow> None)"

definition store_engine ::
  "('r, 'c, 'x) surroundings \<Rightarrow> ('x, 'p) engine_env \<Rightarrow> ('r store \<times> 'x, 'p) engine_env" where
  "store_engine sur env =
     \<lparr>env_config = env_config env, env_clock = elsewhere (env_clock env), env_background = elsewhere (env_background env),
      env_context = elsewhere (env_context env), env_parent = elsewhere (env_parent env), env_slot = elsewhere (env_slot env),
      env_claim_recovery = (\<lambda>owner. repository sur (\<lambda>tx. ClaimRecovery tx owner)),
      env_claim_next = (\<lambda>owner. repository sur (\<lambda>tx s. apfst (map_sum id fst) (ClaimNext tx owner s))),
      env_load = (\<lambda>c. repository sur (\<lambda>tx. LoadDispatch tx c)),
      env_consume = (\<lambda>h. repository sur (\<lambda>tx. ConsumeAuthorization tx h)),
      env_commit = (\<lambda>h a. repository sur (\<lambda>tx. CommitDispatch tx h a)),
      env_renew = (\<lambda>h. repository sur (\<lambda>tx. RenewDispatch tx h)),
      env_yield = (\<lambda>h d. repository sur (\<lambda>tx s. apfst error_of (YieldDispatch tx h d s))),
      env_progress = (\<lambda>h p. repository sur (\<lambda>tx s. apfst error_of (RecordPreparationProgress tx h p s))),
      env_cancellation = Some (\<lambda>h i a. repository sur (\<lambda>tx. CommitCancellation tx h i a)),
      env_guard = map_option (\<lambda>g a. elsewhere (g a)) (env_guard env),
      env_blobs = elsewhere (env_blobs env), env_recode = env_recode env,
      env_secrets = elsewhere (env_secrets env), env_set_secrets = (\<lambda>p (s, x). (s, env_set_secrets env p x)),
      env_resolve = (\<lambda>b. elsewhere (env_resolve env b)), env_describe = (\<lambda>p. elsewhere (env_describe env p)),
      env_verify = (\<lambda>p b. elsewhere (env_verify env p b)), env_validate = (\<lambda>p j. elsewhere (env_validate env p j)),
      env_prepare = (\<lambda>p pl i. map_prod (map elsewhere) elsewhere (env_prepare env p pl i)),
      env_reconcile_prepare = (\<lambda>p pl i. elsewhere (env_reconcile_prepare env p pl i)),
      env_start = (\<lambda>p pr au m. elsewhere (env_start env p pr au m)),
      env_reconcile = (\<lambda>p i. elsewhere (env_reconcile env p i)),
      env_observe = (\<lambda>p r. elsewhere (env_observe env p r)),
      env_cancel = (\<lambda>p r i. elsewhere (env_cancel env p r i))\<rparr>"


section \<open>Intents of a trace\<close>

fun mutation_intents :: "mutation \<Rightarrow> intent list" where
  "mutation_intents (Committed h a j) = step_intents h a"
| "mutation_intents (CancellationBegun h i) = [StopIntent (claim_ref (h_claim h))]"
| "mutation_intents m = []"

definition trace_intents :: "mutation list \<Rightarrow> intent list" where
  "trace_intents tr = concat (map mutation_intents tr)"

lemma trace_intents_snoc [simp]: "trace_intents (tr @ [m]) = trace_intents tr @ mutation_intents m"
  by (simp add: trace_intents_def)

text \<open>The acknowledged intents are distinct and the store holds them.\<close>

definition once :: "mutation list \<Rightarrow> 'r store \<times> 'x \<Rightarrow> bool" where
  "once tr w \<longleftrightarrow> names_ok (fst w) \<and> distinct (trace_intents tr) \<and> (\<forall>i \<in> set (trace_intents tr). holds (fst w) i)"

lemma once_grows: "once tr (s, x) \<Longrightarrow> grows s s' \<Longrightarrow> once tr (s', x')"
  by (auto simp: once_def intro: names_grow holds_grows)

lemma once_snoc:
  assumes "once tr (s, x)" "grows s t" "grows t s'" "\<And>i. i \<in> set (mutation_intents m) \<Longrightarrow> \<not> holds t i \<and> holds s' i"
    "distinct (mutation_intents m)"
  shows "once (tr @ [m]) (s', x')"
proof -
  have "\<forall>i \<in> set (trace_intents tr). holds t i" using once_grows [OF assms(1,2)] by (auto simp: once_def)
  then have "set (trace_intents tr) \<inter> set (mutation_intents m) = {}" using assms(4) by blast
  then show ?thesis
    using once_grows [OF once_grows [OF assms(1,2)] assms(3)] assms(4,5) by (auto simp: once_def)
qed

lemma repository_once:
  fixes sur :: "('r, 'c, 'x) surroundings"
  assumes "\<And>tx s. grows s (snd (f tx s))"
  shows "stable once (repository sur f)"
  unfolding stable_def
proof (intro allI impI)
  fix tr and w :: "'r store \<times> 'x" assume "once tr w"
  obtain s x where w: "w = (s, x)" by (cases w)
  obtain rs x1 where rs: "sur_others sur x = (rs, x1)" by fastforce
  obtain env x2 where env: "sur_tx sur x1 = (env, x2)" by fastforce
  have "grows s (snd (f env (perform_all rs s)))"
    by (rule grows_trans [OF perform_all_grows assms])
  then show "once tr (snd (repository sur f w))"
    using \<open>once tr w\<close> once_grows [of tr s x] by (auto simp: repository_def w rs env split: prod.splits)
qed

lemma elsewhere_once: "stable once (elsewhere f)"
  by (auto simp: stable_def elsewhere_def once_def split: prod.splits)

lemma request_grows:
  "grows s (snd (ClaimRecovery tx owner s))" "grows s (snd (ClaimNext tx owner s))" "grows s (snd (LoadDispatch tx c s))"
  "grows s (snd (ConsumeAuthorization tx h s))" "grows s (snd (CommitDispatch tx h a s))" "grows s (snd (RenewDispatch tx h s))"
  "grows s (snd (YieldDispatch tx h d s))" "grows s (snd (RecordPreparationProgress tx h p s))"
  "grows s (snd (CommitCancellation tx h i ca s))"
  using perform_grows [of s tx "TakeRecovery owner"] perform_grows [of s tx "TakeNext owner"] perform_grows [of s tx "LoadWork c"]
    perform_grows [of s tx "ConsumeGrants h"] perform_grows [of s tx "CommitStep h a"] perform_grows [of s tx "RenewWork h"]
    perform_grows [of s tx "YieldWork h d"] perform_grows [of s tx "ReportProgress h p"] perform_grows [of s tx "CommitCancel h i ca"]
  by simp_all


lemma backed_repository: "repository_stable once (store_engine sur env)"
  unfolding repository_stable_def store_engine_def
  by (simp, intro conjI allI repository_once) (simp_all add: request_grows)

lemma backed_provider: "provider_stable once (store_engine sur env)"
  by (simp add: provider_stable_def store_engine_def elsewhere_once list_all_iff)

lemma backed_runtime: "runtime_stable once (store_engine sur env)"
proof -
  have "stable once (\<lambda>w. ((), case w of (s, x) \<Rightarrow> (s, env_set_secrets env p x)))" for p
    by (auto simp: stable_def once_def)
  then show ?thesis by (auto simp: runtime_stable_def store_engine_def elsewhere_once)
qed

lemma backed_commit:
  fixes sur :: "('r, 'c, 'x) surroundings"
  assumes "once tr w" "env_commit (store_engine sur env) h a w = (r, w')"
  shows "case r of Inl e \<Rightarrow> once tr w' | Inr x \<Rightarrow> once (tr @ [Committed h a (w_journal x)]) w'"
proof -
  obtain s x where w: "w = (s, x)" by (cases w)
  obtain rs x1 where rs: "sur_others sur x = (rs, x1)" by fastforce
  obtain tx x2 where tx: "sur_tx sur x1 = (tx, x2)" by fastforce
  let ?t = "perform_all rs s"
  obtain s' where c: "CommitDispatch tx h a ?t = (r, s')" and w': "w' = (s', x2)"
    using assms(2) by (auto simp: store_engine_def repository_def w rs tx split: prod.splits)
  have t: "grows s ?t" by (rule perform_all_grows)
  have s': "grows ?t s'" using request_grows(5) [of ?t tx h a] by (simp add: c)
  show ?thesis
  proof (cases r)
    case (Inl e)
    then show ?thesis using once_grows [OF assms(1) [unfolded w] grows_trans [OF t s']] by (simp add: w')
  next
    case (Inr y)
    have "once (tr @ [Committed h a (w_journal y)]) (s', x2)"
      using commit_acknowledged [OF c [unfolded Inr]]
      by (intro once_snoc [OF assms(1) [unfolded w] t s']) (auto simp: step_intents_def Let_def)
    then show ?thesis by (simp add: Inr w')
  qed
qed

lemma backed_cancellation:
  fixes sur :: "('r, 'c, 'x) surroundings"
  assumes "once tr w" "env_cancellation (store_engine sur env) = Some f" "f h i c w = (r, w')"
  shows "once (if ca_begin c \<and> \<not> isl r then tr @ [CancellationBegun h i] else tr) w'"
proof -
  obtain s x where w: "w = (s, x)" by (cases w)
  obtain rs x1 where rs: "sur_others sur x = (rs, x1)" by fastforce
  obtain tx x2 where tx: "sur_tx sur x1 = (tx, x2)" by fastforce
  let ?t = "perform_all rs s"
  obtain s' where c: "CommitCancellation tx h i c ?t = (r, s')" and w': "w' = (s', x2)"
    using assms(2,3) by (auto simp: store_engine_def repository_def w rs tx split: prod.splits)
  have t: "grows s ?t" by (rule perform_all_grows)
  have s': "grows ?t s'" using request_grows(9) [of ?t tx h i c] by (simp add: c)
  show ?thesis
  proof (cases "ca_begin c \<and> \<not> isl r")
    case False
    then show ?thesis using once_grows [OF assms(1) [unfolded w] grows_trans [OF t s']] by (auto simp: w')
  next
    case True
    then obtain y where y: "r = Inr y" by (cases r) auto
    have "names_ok ?t" using names_grow [OF t] assms(1) by (simp add: once_def w)
    then have "once (tr @ [CancellationBegun h i]) (s', x2)"
      using cancel_acknowledged [OF c [unfolded y]] True
      by (intro once_snoc [OF assms(1) [unfolded w] t s']) (auto simp: stop_intents_def)
    then show ?thesis using True by (simp add: w')
  qed
qed

lemma once_other: "once tr w \<Longrightarrow> mutation_intents m = [] \<Longrightarrow> once (tr @ [m]) w"
  by (simp add: once_def)

lemma call_without_intent: "provider_call m \<Longrightarrow> mutation_intents m = []"
  by (cases m) simp_all

interpretation backed: traced_pass "store_engine sur env" once for sur env
proof unfold_locales
  show "repository_stable once (store_engine sur env)" "provider_stable once (store_engine sur env)"
    "runtime_stable once (store_engine sur env)"
    by (fact backed_repository backed_provider backed_runtime)+
qed (simp_all add: backed_commit backed_cancellation once_other call_without_intent)


section \<open>Calls and their intents\<close>

text \<open>The intent that a call answers: the one its predecessor in the trace recorded, when it is of the call's kind.\<close>

fun answers :: "mutation \<Rightarrow> intent \<Rightarrow> bool" where
  "answers (PrepareCalled pl i) (PrepareIntent q) \<longleftrightarrow> True"
| "answers (StartCalled p a m) (StartIntent q) \<longleftrightarrow> True"
| "answers (CancelCalled r i) (StopIntent ref) \<longleftrightarrow> True"
| "answers m i \<longleftrightarrow> False"

definition recorded_intents_of :: "mutation option \<Rightarrow> intent list" where
  "recorded_intents_of prev = (case prev of None \<Rightarrow> [] | Some m \<Rightarrow> mutation_intents m)"

fun call_intents :: "mutation option \<Rightarrow> mutation list \<Rightarrow> intent list" where
  "call_intents prev [] = []"
| "call_intents prev (m # ms) = filter (answers m) (recorded_intents_of prev) @ call_intents (Some m) ms"

lemma licensed_answers:
  "licenses prev m \<Longrightarrow> length (filter (answers m) (recorded_intents_of prev)) = (if provider_call m then 1 else 0)"
  by (cases m) (auto simp: recorded_intents_of_def step_intents_def Let_def)

lemma licensed_calls: "licensed_from prev tr \<Longrightarrow> length (call_intents prev tr) = length (filter provider_call tr)"
  by (induction tr arbitrary: prev) (auto simp: licensed_answers)

lemma call_intents_recorded: "subseq (call_intents prev tr) (recorded_intents_of prev @ trace_intents tr)"
proof (induction tr arbitrary: prev)
  case (Cons m tr)
  have "subseq (call_intents (Some m) tr) (trace_intents (m # tr))"
    using Cons [of "Some m"] by (simp add: trace_intents_def recorded_intents_of_def)
  then show ?case by (simp add: list_emb_append_mono subseq_filter_left)
qed simp

lemma subseq_distinct_left: "subseq xs ys \<Longrightarrow> distinct ys \<Longrightarrow> distinct xs"
  by (induction rule: list_emb.induct) (auto dest: list_emb_set)

lemma keeps_run: "keeps P m \<Longrightarrow> P s \<Longrightarrow> P (snd (run_state m s))"
  by (auto simp: keeps_def ensures_def split_def)

definition run_trace :: "(('w, 'p) engine_env \<times> string) list \<Rightarrow> 'w session \<Rightarrow> mutation list" where
  "run_trace ps s = s_trace (snd (run_state (run_passes ps) s))"

lemma run_trace_once:
  assumes "names_ok (fst (s_world s))" "s_trace s = []"
  shows "distinct (trace_intents (run_trace (map (\<lambda>(sur, env, owner). (store_engine sur env, owner)) ps) s))"
proof -
  let ?ps = "map (\<lambda>(sur, env, owner). (store_engine sur env, owner)) ps"
  have "keeps (\<lambda>s. once (s_trace s) (s_world s)) (run_passes ?ps)"
    by (rule run_passes_keeps) (auto intro: backed.traced_pass_axioms)
  moreover have "once (s_trace s) (s_world s)" using assms by (simp add: once_def trace_intents_def)
  ultimately have "once (run_trace ?ps s) (s_world (snd (run_state (run_passes ?ps) s)))"
    unfolding run_trace_def by (rule keeps_run)
  then show ?thesis by (simp add: once_def)
qed

lemma run_trace_licensed: "s_trace s = [] \<Longrightarrow> licensed (run_trace ps s)"
proof -
  assume empty: "s_trace s = []"
  have "keeps (\<lambda>s. licensed (s_trace s)) (run_passes ps)"
    by (rule run_passes_keeps) (rule licence.traced_pass_axioms)
  then show ?thesis unfolding run_trace_def by (rule keeps_run) (simp add: empty licensed_def)
qed

end
