(* ===== verification/Store_Answers.thy ===== *)
theory Store_Answers
  imports Store_Engine
begin

text \<open>
  What the store answers to those who come late: a worker whose lease was taken over is refused by every operation on its
  claim, and a control request that was answered is answered again with what was recorded.
\<close>

section \<open>Superseded workers\<close>

abbreviation lease_key :: "int \<Rightarrow> work_kind \<times> string" where
  "lease_key q \<equiv> (DispatchWork, workKey [JInt q])"

definition lease_since :: "int \<Rightarrow> int \<Rightarrow> 'r store \<Rightarrow> bool" where
  "lease_since q g s \<longleftrightarrow> (\<exists>r. st_leases s (lease_key q) = Some r \<and> g \<le> lr_generation r)"

lemma lease_since_lasting: "lasting s s' \<Longrightarrow> lease_since q g s \<Longrightarrow> lease_since q g s'"
  by (fastforce simp: lasting_def lease_grows_def lease_since_def)

lemma lease_since_calm: "calm s s' \<Longrightarrow> lease_since q g s \<Longrightarrow> lease_since q g s'"
  by (auto simp: calm_def intro: lease_since_lasting)

text \<open>A lease of an older generation does not pass the check, so nothing is loaded for its claim.\<close>

lemma superseded_load:
  assumes "lease_since (claim_sequence c) g s" "claim_generation c < g"
  shows "loadDispatch env c now s \<noteq> Inr x"
proof
  assume "loadDispatch env c now s = Inr x"
  then obtain t1 u t2 y where 1: "schedulerControl s = Inr (u, t1)" and 2: "ownedDispatchClaim c now t1 = Inr (y, t2)"
    by (auto simp: loadDispatch_def)
  have "t1 = s" by (rule sameD [OF same_records(2) 1])
  with 2 obtain v t3 where "on_leases (checkWorkLease (dispatchLease c) now) s = Inr (v, t3)"
    by (auto simp: ownedDispatchClaim_def)
  then show False
    using assms by (auto simp: on_leases_def checkWorkLease_def loadWorkLease_def dispatchLease_def lease_since_def
      split: sum.splits option.splits)
qed

lemma superseded_owned:
  "lease_since (claim_sequence (h_claim h)) g s \<Longrightarrow> claim_generation (h_claim h) < g \<Longrightarrow> owned_work env h now s \<noteq> Inr x"
  using superseded_load by (cases x) (fastforce simp: owned_work_def)

lemma store_write_fails:
  "(\<And>now n x. fn now (at_time n s) \<noteq> Inr x) \<Longrightarrow> \<exists>e. store_write env fn s = (Inl e, s)"
  by (auto simp: store_write_def withTx_def at_time_def bindE_def readE_def writeE_def liftE_def failE_def passE_def
    split: fate.splits sum.splits prod.splits)

lemma bindE_fails: "(\<And>x. m s \<noteq> Inr x) \<Longrightarrow> bindE m f s \<noteq> Inr y"
  by (auto simp del: split_paired_All)

lemma refuse_then: "(\<And>x. f () s \<noteq> Inr x) \<Longrightarrow> bindE (refuseE b e) f s \<noteq> Inr y"
  by simp

text \<open>A claim leaves its generation in the table of leases.\<close>

lemma tx_any: "(\<And>x. tx_ensures (\<lambda>_. True) (f x) Q) \<Longrightarrow> tx_ensures (\<lambda>_. True) (bindE m f) Q"
  by (rule tx_bind [where R = "\<lambda>_ _. True"]) (simp_all add: tx_ensures_def)

definition taken :: "claim \<Rightarrow> 'r store \<Rightarrow> bool" where
  "taken c s \<longleftrightarrow> lease_since (claim_sequence c) (claim_generation c) s"

lemma on_leases_Inr: "on_leases m s = Inr (x, s') \<longleftrightarrow> (\<exists>t. m (st_leases s) = Inr (x, t) \<and> s' = s\<lparr>st_leases := t\<rparr>)"
  by (auto simp: on_leases_def split: sum.splits)

lemma claimed_since:
  "on_leases (claimWorkLease b fence (wanted_lease q owner) now ttl) s = Inr (l, s') \<Longrightarrow> lease_since q (wl_generation l) s'"
  using claim_row(1,3,4) [of b fence "wanted_lease q owner" now ttl "st_leases s" l]
  by (auto simp: on_leases_Inr lease_since_def wanted_lease_def)

lemma lease_row_taken:
  "tx_ensures (\<lambda>_. True) (lease_row_for env row owner settings now)
     (\<lambda>(a, lease). lease_since (cand_sequence row) (wl_generation lease))"
  unfolding tx_ensures_def lease_row_for_def Let_def
  by (auto dest: claimed_since)

lemma lease_since_step:
  "moves calm m \<Longrightarrow> (\<And>x. tx_ensures (lease_since q g) (f x) Q) \<Longrightarrow> tx_ensures (lease_since q g) (bindE m f) Q"
  by (rule tx_bind [OF calm_keep]) (rule lease_since_calm)

lemma claim_next_taken:
  "tx_ensures (\<lambda>_. True) (claim_next env owner now) (\<lambda>x s. \<forall>c. fst x = Some c \<longrightarrow> taken c s)"
  unfolding claim_next_def Let_def
  by (rule tx_any, intro tx_prod tx_if, simp add: tx_ensures_def, rule tx_any, rule tx_bind [OF lease_row_taken],
      clarsimp split: prod.splits, intro lease_since_step calm_rules; (simp add: tx_ensures_def taken_def claim_of_def)?)

lemma claim_recovery_taken:
  "tx_ensures (\<lambda>_. True) (claim_recovery env owner now) (\<lambda>x s. \<forall>c. x = Some c \<longrightarrow> taken c s)"
  unfolding claim_recovery_def Let_def
  by (rule tx_any, intro tx_prod tx_if, simp add: tx_ensures_def, rule tx_any, rule tx_option, simp add: tx_ensures_def,
      rule tx_option, rule tx_fail, rule tx_bind [OF lease_row_taken],
      clarsimp split: prod.splits, intro lease_since_step calm_rules; (simp add: tx_ensures_def taken_def claim_of_def)?)

text \<open>A worker takes a claim from the queue or from the rows that need recovery.\<close>

definition takes :: "'r tx_env \<Rightarrow> string \<Rightarrow> 'r store \<Rightarrow> claim \<Rightarrow> bool" where
  "takes env owner s c \<longleftrightarrow>
     (case fst (ClaimNext env owner s) of Inr (Some x, v) \<Rightarrow> x = c | _ \<Rightarrow> False)
     \<or> fst (ClaimRecovery env owner s) = Inr (Some c)"

definition after_taking :: "'r tx_env \<Rightarrow> string \<Rightarrow> 'r store \<Rightarrow> claim \<Rightarrow> 'r store" where
  "after_taking env owner s c =
     (if fst (ClaimRecovery env owner s) = Inr (Some c) then snd (ClaimRecovery env owner s) else snd (ClaimNext env owner s))"

lemma taken_after: "takes env owner s c \<Longrightarrow> taken c (after_taking env owner s c)"
proof (cases "fst (ClaimRecovery env owner s) = Inr (Some c)")
  case True
  then obtain s' where run: "ClaimRecovery env owner s = (Inr (Some c), s')" by (cases "ClaimRecovery env owner s") auto
  then obtain now n where "claim_recovery env owner now (at_time n s) = Inr (Some c, s')"
    using store_write_Inr [of env "claim_recovery env owner" s] by (auto simp: ClaimRecovery_def split: if_splits)
  then show ?thesis
    using claim_recovery_taken [of env owner now] run True by (auto simp: tx_ensures_def after_taking_def)
next
  case False
  assume "takes env owner s c"
  then obtain v s' where run: "ClaimNext env owner s = (Inr (Some c, v), s')"
    using False by (cases "ClaimNext env owner s") (auto simp: takes_def split: sum.splits option.splits)
  then obtain now n where "claim_next env owner now (at_time n s) = Inr ((Some c, v), s')"
    using store_write_Inr [of env "claim_next env owner" s] by (auto simp: ClaimNext_def split: if_splits)
  then show ?thesis
    using claim_next_taken [of env owner now] run False by (fastforce simp: tx_ensures_def after_taking_def)
qed

lemma answer_refused: "\<exists>e. p = (Inl e, s) \<Longrightarrow> \<exists>e. (if b then (Inl e', s) else p) = (Inl e, s)"
  by simp

lemma locked_out:
  fixes s :: "'r store"
  assumes "lease_since (claim_sequence (h_claim h)) g s" "claim_generation (h_claim h) < g"
  shows "\<exists>e. CommitDispatch tx h a s = (Inl e, s)" "\<exists>e. CommitCancellation tx h i ca s = (Inl e, s)"
    "\<exists>e. ConsumeAuthorization tx h s = (Inl e, s)" "\<exists>e. RenewDispatch tx h s = (Inl e, s)"
    "\<exists>e. YieldDispatch tx h d s = (Inl e, s)" "\<exists>e. RecordPreparationProgress tx h p s = (Inl e, s)"
    "\<exists>e. LoadDispatch tx (h_claim h) s = (Inl e, s)"
proof -
  have since: "lease_since (claim_sequence (h_claim h)) g (at_time n s)" for n
    using assms(1) by (simp add: lease_since_def)
  note none = superseded_owned [OF since assms(2)] superseded_load [OF since assms(2)]
  have first: "bindE (owned_work tx h now) f (at_time n s) \<noteq> Inr x" for now n x and f :: "work \<Rightarrow> ('r, 'b) store_tx"
    by (rule bindE_fails) (rule none(1))
  have progress: "record_progress tx h p now (at_time n s) \<noteq> Inr x" for now n x
    unfolding record_progress_def by (rule refuse_then, rule first)
  show "\<exists>e. CommitDispatch tx h a s = (Inl e, s)"
    unfolding CommitDispatch_def commit_dispatch_def by (rule answer_refused, rule store_write_fails, rule first)
  show "\<exists>e. CommitCancellation tx h i ca s = (Inl e, s)"
    unfolding CommitCancellation_def commit_cancellation_def by (rule answer_refused, rule store_write_fails, rule first)
  show "\<exists>e. ConsumeAuthorization tx h s = (Inl e, s)"
    unfolding ConsumeAuthorization_def consume_authorization_def by (rule store_write_fails, rule first)
  show "\<exists>e. RenewDispatch tx h s = (Inl e, s)"
    unfolding RenewDispatch_def renew_dispatch_def by (rule store_write_fails, rule first)
  show "\<exists>e. YieldDispatch tx h d s = (Inl e, s)"
    unfolding YieldDispatch_def yield_dispatch_def by (rule answer_refused, rule store_write_fails, rule first)
  show "\<exists>e. RecordPreparationProgress tx h p s = (Inl e, s)"
    unfolding RecordPreparationProgress_def by (rule answer_refused, rule store_write_fails, rule progress)
  show "\<exists>e. LoadDispatch tx (h_claim h) s = (Inl e, s)"
    unfolding LoadDispatch_def by (rule store_write_fails, rule none(2))
qed


section \<open>Controls are idempotent\<close>

abbreviation command_receipt :: "control_command \<Rightarrow> receipt_id" where
  "command_receipt c \<equiv> operation_receipt_id (cmd_workspace c) (cmd_kind c) (cmd_key c)"

definition unsaved :: "control_command \<Rightarrow> 'r store \<Rightarrow> bool" where
  "unsaved c s \<longleftrightarrow> map_of (st_receipts s) (command_receipt c) = None"

definition answered :: "control_command \<Rightarrow> control_record \<Rightarrow> 'r store \<Rightarrow> bool" where
  "answered c r s \<longleftrightarrow> (\<exists>saved. map_of (st_receipts s) (command_receipt c) = Some saved \<and> sv_hash saved = cmd_hash c
     \<and> sv_version saved = CanonicalVersion (cmd_kind c) \<and> sv_value saved = SavedControl (r\<lparr>cr_replay := False\<rparr>))"

lemma answered_grows: "grows s s' \<Longrightarrow> answered c r s \<Longrightarrow> answered c r s'"
  by (auto simp: grows_def lasting_def receipts_kept_def answered_def)

lemma unsaved_step:
  "moves steady m \<Longrightarrow> (\<And>x. tx_ensures (unsaved c) (f x) Q) \<Longrightarrow> tx_ensures (unsaved c) (bindE m f) Q"
  by (rule tx_bind [where R = "\<lambda>_. unsaved c"]) (auto simp: tx_ensures_def moves_def steady_def unsaved_def)

lemmas unsaved_calm = unsaved_step [OF moves_calm_steady]

lemma save_answers_replayed:
  "tx_ensures (unsaved c) (bindE (saveOperationReceipt c r) (\<lambda>_. passE (r\<lparr>cr_replay := b\<rparr>))) (\<lambda>x. answered c x)"
  by (auto simp: tx_ensures_def unsaved_def answered_def saveOperationReceipt_def replayOrCreate_def Let_def)

lemma save_answers_fresh: "tx_ensures (unsaved c) (bindE (saveOperationReceipt c r) (\<lambda>_. passE r)) (\<lambda>x. answered c x)"
  by (auto simp: tx_ensures_def unsaved_def answered_def saveOperationReceipt_def replayOrCreate_def Let_def)

lemma new_control_answers: "tx_ensures (unsaved c) (new_control env ce c target now) (\<lambda>r. answered c r)"
  unfolding new_control_def Let_def
  by (rule tx_sum, rule tx_fail, rule unsaved_calm, intro calm_rules, rule unsaved_calm, intro calm_rules,
      rule unsaved_step [OF act_on_target_steady], rule save_answers_fresh)

lemma cleanup_answers: "tx_ensures (unsaved c) (admitCleanupOperation env ce c target now) (\<lambda>r. answered c r)"
proof -
  have discard: "moves steady (if b then discardPendingCollection env target now else passE ())" for b
    by (simp add: discard_steady steady.moves_pass)
  show ?thesis
    unfolding admitCleanupOperation_def Let_def
    by (rule unsaved_calm, intro calm_rules, rule unsaved_calm, intro calm_rules, intro tx_prod, rule tx_sum, rule tx_fail,
        rule unsaved_calm, intro calm_rules, rule unsaved_calm, intro calm_rules, rule unsaved_calm, intro calm_rules,
        rule unsaved_step [OF discard], rule save_answers_fresh)
qed

lemma fresh_control_answers: "tx_ensures (unsaved c) (fresh_control env ce c target now) (\<lambda>r. answered c r)"
  unfolding fresh_control_def Let_def
  by (rule unsaved_calm, intro calm_rules, rule unsaved_calm, intro calm_rules, rule unsaved_calm, intro calm_rules,
      intro tx_if cleanup_answers new_control_answers)

text \<open>Looking a receipt up: it is absent, or it is the answer that was given, and nothing changes.\<close>

lemma replay_none: "replayOperation w k key hash s = Inr (None, s') \<Longrightarrow> map_of (st_receipts s) (operation_receipt_id w k key) = None \<and> s' = s"
  by (auto simp: replayOperation_def replayOrCreate_def split: option.splits saved_value.splits)

lemma replay_some:
  assumes "replayOperation w k key hash s = Inr (Some r, s')"
  shows "\<exists>saved. map_of (st_receipts s) (operation_receipt_id w k key) = Some saved \<and> sv_hash saved = hash
    \<and> sv_version saved = CanonicalVersion k \<and> sv_value saved = SavedControl (r\<lparr>cr_replay := False\<rparr>) \<and> cr_replay r"
  using assms by (auto simp: replayOperation_def replayOrCreate_def split: option.splits saved_value.splits)

lemma same_replay [same_rules]:
  "moves (=) (replayOrCreate key hash v e None)" "moves (=) (check_actor env w token perm)"
  unfolding replayOrCreate_def check_actor_def option.case by (intro same_rules)+

lemma same_replay_operation [same_rules]: "moves (=) (replayOperation w k key hash)"
  unfolding replayOperation_def by (intro same_rules)

lemma admit_answers:
  assumes "admit_operation env ce c now s = Inr (r, s')"
  shows "answered c r s'"
proof -
  have "tx_ensures (\<lambda>t. t = s) (admit_operation env ce c now) (\<lambda>r. answered c r)"
    unfolding admit_operation_def Let_def
  proof (rule same_step, intro same_rules, rule same_step, intro same_rules, rule tx_option, goal_cases)
    case (1 u prior)
    have "replayOperation (cmd_workspace c) (cmd_kind c) (cmd_key c) (cmd_hash c) s = Inr (None, s)" using 1 by simp
    then have new: "unsaved c s" by (simp add: unsaved_def replay_none)
    show ?case
      by (rule tx_pre [where R = "unsaved c"], (rule unsaved_calm, intro calm_rules)+, rule tx_option, rule fresh_control_answers,
          (rule unsaved_calm, intro calm_rules)+, rule save_answers_replayed) (simp add: new)
  next
    case (2 u prior r)
    have "replayOperation (cmd_workspace c) (cmd_kind c) (cmd_key c) (cmd_hash c) s = Inr (Some r, s)" using 2 by simp
    from replay_some [OF this] show ?case by (auto simp: tx_ensures_def answered_def)
  qed
  then show ?thesis using assms by (auto simp: tx_ensures_def)
qed

lemma record_replayed: "x\<lparr>cr_replay := False\<rparr> = r\<lparr>cr_replay := False\<rparr> \<Longrightarrow> cr_replay x \<Longrightarrow> x = r\<lparr>cr_replay := True\<rparr>"
  by (cases x, cases r) simp

lemma answered_repeats:
  assumes "answered c r s" "command_receipt c' = command_receipt c" "admit_operation env ce c' now s = Inr (r', s')"
  shows "cmd_hash c' = cmd_hash c \<and> r' = r\<lparr>cr_replay := True\<rparr> \<and> s' = s"
proof -
  obtain saved where saved: "map_of (st_receipts s) (command_receipt c') = Some saved" "sv_hash saved = cmd_hash c"
      "sv_value saved = SavedControl (r\<lparr>cr_replay := False\<rparr>)"
    using assms(1,2) by (auto simp: answered_def)
  have keys: "cmd_workspace c' = cmd_workspace c \<and> cmd_key c' = cmd_key c"
    using assms(2) by (simp add: operation_receipt_id_def)
  have "tx_ensures (\<lambda>t. t = s) (admit_operation env ce c' now)
      (\<lambda>x t. cmd_hash c' = cmd_hash c \<and> x = r\<lparr>cr_replay := True\<rparr> \<and> t = s)"
    unfolding admit_operation_def Let_def
  proof (rule same_step, intro same_rules, rule same_step, intro same_rules, rule tx_option, goal_cases)
    case (1 u prior)
    have "replayOperation (cmd_workspace c') (cmd_kind c') (cmd_key c') (cmd_hash c') s = Inr (None, s)" using 1 by simp
    from replay_none [OF this] saved(1) show ?case by simp
  next
    case (2 u prior x)
    have "replayOperation (cmd_workspace c') (cmd_kind c') (cmd_key c') (cmd_hash c') s = Inr (Some x, s)" using 2 by simp
    from replay_some [OF this] saved
    have "cmd_hash c' = cmd_hash c" "x\<lparr>cr_replay := False\<rparr> = r\<lparr>cr_replay := False\<rparr>" "cr_replay x" by auto
    then show ?case by (simp add: tx_ensures_def record_replayed)
  qed
  then show ?thesis using assms(3) by (auto simp: tx_ensures_def)
qed

end
