(* ===== verification/Engine_Properties.thy ===== *)
theory Engine_Properties
  imports Dispatch_Engine_Facts
begin

text \<open>
  How a pass of the dispatch engine ends: the delay it yields with, that it yields once and last, and a sample engine.
\<close>

section \<open>The delay of a pass\<close>

lemma double_delay_le: "0 \<le> delay \<Longrightarrow> delay \<le> double_delay failures n delay"
proof (induction failures n delay rule: double_delay.induct)
  case (1 failures n delay)
  then show ?case by (subst double_delay.simps) auto
qed

lemma nextPassDelay_bounds:
  assumes "0 < poll" shows "0 < nextPassDelay poll j \<and> nextPassDelay poll j \<le> 120 * second_ns"
proof -
  define d where "d = (let delay = poll;
      delay = (if j_plan j = None \<and> j_failures j > 0 then max delay (15 * second_ns) else delay);
      delay = (if j_remote j \<noteq> None then max delay submittedPollFloor else delay)
    in if j_submit_started j \<and> j_failures j > 0 then max delay submittedRetryFloor else delay)"
  have "0 < d" using assms by (simp add: d_def Let_def less_max_iff_disj)
  moreover have "nextPassDelay poll j = min (double_delay (j_failures j) 0 d) (120 * second_ns)"
    by (simp only: nextPassDelay_def d_def Let_def)
  ultimately show ?thesis using double_delay_le [of d "j_failures j" 0] by simp
qed

lemma jitter_bounds:
  assumes "0 < d" "d \<le> 300 * second_ns"
  shows "0 < d + int (n mod 4) * d div 10 \<and> d + int (n mod 4) * d div 10 \<le> 390 * second_ns"
proof -
  have n: "0 \<le> int (n mod 4)" "int (n mod 4) \<le> 3" by auto
  then have "int (n mod 4) * d \<le> 3 * d" "0 \<le> int (n mod 4) * d" using assms(1) by (auto intro: mult_right_mono)
  then have "0 \<le> int (n mod 4) * d div 10" "int (n mod 4) * d div 10 \<le> 3 * d div 10" by (auto intro: zdiv_mono1)
  moreover have "3 * d div 10 \<le> 90 * second_ns" using assms(2) by simp
  ultimately show ?thesis using assms by linarith
qed

lemma pass_delay_bounds:
  assumes "0 < poll" shows "0 < pass_delay poll err w now \<and> pass_delay poll err w now \<le> 390 * second_ns"
proof -
  define d where "d = (let delay = nextPassDelay poll (w_journal w);
      delay = (if errors_is ''dispatch.ErrPolicy'' err then 5 * minute_ns else delay)
    in if newWorkRefusalReason err \<noteq> [] then 30 * second_ns else delay)"
  define d' where "d' = (case claim_fence (h_claim (w_handle w)) of [] \<Rightarrow> d | c # _ \<Rightarrow> d + int (byte c mod 4) * d div 10)"
  have "0 < d \<and> d \<le> 300 * second_ns"
    using nextPassDelay_bounds [OF assms, of "w_journal w"] by (auto simp: d_def Let_def)
  then have d': "0 < d' \<and> d' \<le> 390 * second_ns"
    using jitter_bounds by (auto simp: d'_def split: list.split)
  have "pass_delay poll err w now =
      (if observation_bounded (w_journal w) then
         let until = sub_time (add_time (the (j_preparation_started (w_journal w))) PreparationObservationGrace) now
         in if until > 0 then min d' until else d'
       else d')"
    by (simp only: pass_delay_def d_def d'_def Let_def)
  then show ?thesis using d' by (auto simp: Let_def)
qed


section \<open>The end of a pass\<close>

text \<open>The mutations of a pass that has ended: the last one hands the claim back, and no other does.\<close>

definition ended :: "mutation list \<Rightarrow> mutation list \<Rightarrow> int \<Rightarrow> bool" where
  "ended tr0 tr d \<longleftrightarrow> (\<exists>ms. tr = tr0 @ ms @ [Yielded d] \<and> (\<forall>d'. Yielded d' \<notin> set ms) \<and> 0 < d \<and> d \<le> 390 * second_ns)"

lemma unfinished_ends: "unfinished tr0 tr \<Longrightarrow> 0 < d \<Longrightarrow> d \<le> 390 * second_ns \<Longrightarrow> ended tr0 (tr @ [Yielded d]) d"
  by (auto simp: unfinished_def ended_def)

text \<open>The last call of such a pass: the yield of the handle in hand, whose error the pass reports with its own.\<close>

definition handed_back :: "('w, 'p) engine_env \<Rightarrow> mutation list \<Rightarrow> go_error option \<Rightarrow> 'w session \<Rightarrow> bool" where
  "handed_back env tr0 err s \<longleftrightarrow>
     (\<exists>ms d v y e. s_trace s = tr0 @ ms @ [Yielded d] \<and> (\<forall>d'. Yielded d' \<notin> set ms)
       \<and> 0 < d \<and> d \<le> 390 * second_ns
       \<and> env_yield env (w_handle (s_work s)) d v = (y, s_world s) \<and> err = errors_join [e, y])"

lemma handed_backI:
  "ended tr0 (s_trace s) d \<Longrightarrow> env_yield env (w_handle (s_work s)) d v = (y, s_world s) \<Longrightarrow>
     handed_back env tr0 (errors_join [e, y]) s"
  unfolding ended_def handed_back_def by blast

lemma call_keeps_trace: "ensures (\<lambda>s. P (s_trace s) (s_work s)) (call f) (\<lambda>_ s. P (s_trace s) (s_work s))"
  by (simp add: ensures_def call_def split: prod.splits)

lemma finish_pass_ends:
  assumes "0 < cfg_poll_delay (env_config env)"
  shows "ensures (\<lambda>s. unfinished tr0 (s_trace s)) (finish_pass env err) (handed_back env tr0)"
proof -
  let ?at = "\<lambda>x s. unfinished tr0 (s_trace s) \<and> s_work s = s_work x"
  let ?d = "\<lambda>e x now. pass_delay (cfg_poll_delay (env_config env)) e (s_work x) now"
  have lock: "ensures (\<lambda>s. unfinished tr0 (s_trace s)) (lock env) (\<lambda>_ s. unfinished tr0 (s_trace s))"
    using running.quiet_trace_ok [OF running.quiet_lock] by (rule keepsD)
  have get: "ensures (\<lambda>s. unfinished tr0 (s_trace s)) State_Monad.get ?at"
    by (simp add: ensures_def State_Monad.get_def)
  have clock: "ensures (?at x) (if b then call (env_clock env) else State_Monad.return zero_time) (\<lambda>_. ?at x)" for b x
    by (rule ensures_if, rule call_keeps_trace [of "\<lambda>tr w. unfinished tr0 tr \<and> w = s_work x"], rule ensures_return)
  have yields: "ensures (?at x) (record_mutation (Yielded (?d e x now)))
      (\<lambda>_ s. ended tr0 (s_trace s) (?d e x now) \<and> s_work s = s_work x)" for e x now
    using pass_delay_bounds [OF assms] by (auto simp: ensures_def record_mutation_def intro: unfinished_ends)
  have last: "ensures (\<lambda>s. ended tr0 (s_trace s) d \<and> s_work s = s_work x)
      (call (env_yield env (w_handle (s_work x)) d) \<bind> (\<lambda>y. State_Monad.return (errors_join [e, y])))
      (handed_back env tr0)" for d x e
    by (auto simp: ensures_def call_def State_Monad.bind_def State_Monad.return_def split: prod.splits
        intro!: handed_backI)
  show ?thesis
    unfolding finish_pass_def Let_def
    by (rule ensures_bind [OF lock], rule ensures_bind [OF get], rule ensures_bind [OF clock], rule ensures_bind [OF yields],
        rule last)
qed

lemma run_call: "run_state (call f) s = (case f (s_world s) of (x, w) \<Rightarrow> (x, s\<lparr>s_world := w\<rparr>))"
  by (simp add: call_def)

lemma process_ends:
  assumes "0 < cfg_poll_delay (env_config env)" "run_state (process env c) s = (err, s')"
  shows "(\<exists>e w. env_load env c (s_world s) = (Inl e, w) \<and> err = Some e \<and> s' = s\<lparr>s_world := w\<rparr>)
    \<or> (\<exists>wk w. env_load env c (s_world s) = (Inr wk, w)) \<and> handed_back env (s_trace s) err s'"
proof (cases "env_load env c (s_world s)")
  case (Pair r w)
  show ?thesis
  proof (cases r)
    case (Inl e)
    then show ?thesis using Pair assms(2) by (simp add: process_def State_Monad.bind_def run_call State_Monad.return_def)
  next
    case (Inr wk)
    let ?tr = "s_trace s"
    have body: "ensures (\<lambda>s. unfinished ?tr (s_trace s)) (process_body env wk) (\<lambda>_ s. unfinished ?tr (s_trace s))"
      using running.process_body_trace_ok by (rule keepsD)
    have pass: "ensures (\<lambda>s. unfinished ?tr (s_trace s)) (process_body env wk \<bind> finish_pass env) (handed_back env ?tr)"
      by (rule ensures_bind [OF body], rule finish_pass_ends [OF assms(1)])
    have "unfinished ?tr (s_trace (open_session wk (s\<lparr>s_world := w\<rparr>)))"
      by (simp add: unfinished_def open_session_def)
    moreover have "run_state (process_body env wk \<bind> finish_pass env) (open_session wk (s\<lparr>s_world := w\<rparr>)) = (err, s')"
      using Pair Inr assms(2) by (simp add: process_def State_Monad.bind_def run_call session_modify_def)
    ultimately have "handed_back env ?tr err s'"
      using pass by (auto simp: ensures_def split: prod.splits)
    then show ?thesis using Pair Inr by simp
  qed
qed

text \<open>The claim of a pass and the world it was made in.\<close>

definition claimed :: "('w, 'p) engine_env \<Rightarrow> string \<Rightarrow> claim \<Rightarrow> 'w \<Rightarrow> bool" where
  "claimed env owner c w \<longleftrightarrow>
     (\<exists>v. env_claim_recovery env owner v = (Inr (Some c), w) \<or> env_claim_next env owner v = (Inr (Some c), w))"

lemma RunOnce_cases:
  assumes "run_state (RunOnce env owner) s = ((worked, err), s')"
  shows "\<not> worked \<and> (\<exists>w. s' = s\<lparr>s_world := w\<rparr>) \<and> (err = None \<longrightarrow> (\<exists>v. env_claim_next env owner v = (Inr None, s_world s')))
    \<or> worked \<and> (\<exists>c w. claimed env owner c w \<and> run_state (process env c) (s\<lparr>s_world := w\<rparr>) = (err, s'))"
proof (cases "env_slot env (s_world s)")
  case (Pair slot w0)
  show ?thesis
  proof (cases "slot = None \<and> fst (env_claim_recovery env owner w0) = Inr None")
    case True
    then show ?thesis
      using assms Pair
      by (auto simp: RunOnce_def State_Monad.bind_def run_call State_Monad.return_def claimed_def
          split: prod.splits sum.splits option.splits)
  next
    case False
    then show ?thesis
      using assms Pair
      by (auto simp: RunOnce_def State_Monad.bind_def run_call State_Monad.return_def claimed_def
          split: prod.splits sum.splits option.splits if_splits)
  qed
qed

text \<open>An engine that claims an attempt and whose other calls are refused; an adapter is its description.\<close>

definition refused_engine :: "(unit, descriptor) engine_env" where
  "refused_engine =
     \<lparr>env_config = DefaultConfig, env_clock = Pair zero_time, env_background = Pair [], env_context = Pair None,
      env_parent = Pair None, env_slot = Pair None,
      env_claim_recovery = (\<lambda>owner. Pair (Inr (Some
        \<lparr>claim_identity = \<lparr>sid_workspace = ''wa'', sid_job = ''job'', sid_attempt = ''att''\<rparr>, claim_sequence = 1,
         claim_owner = owner, claim_generation = 1, claim_fence = [], claim_expires_at = zero_time, claim_attempt_revision = 1,
         claim_account = ''acct'', claim_instance = ''inst'', claim_quota_warning = NoReason\<rparr>))),
      env_claim_next = (\<lambda>_. Pair (Inr None)), env_load = (\<lambda>_. Pair (Inl Canceled)),
      env_consume = (\<lambda>_. Pair (Inl Canceled)), env_commit = (\<lambda>_ _. Pair (Inl Canceled)),
      env_renew = (\<lambda>_. Pair (Inl Canceled)), env_yield = (\<lambda>_ _. Pair None), env_progress = (\<lambda>_ _. Pair None),
      env_cancellation = None, env_guard = None,
      env_blobs = Pair \<lparr>open_blob = (\<lambda>_ _. None), inspect_bundle = (\<lambda>_ _. None)\<rparr>,
      env_recode = (\<lambda>_ _. Inl Canceled), env_secrets = Pair None, env_set_secrets = (\<lambda>_ w. w),
      env_resolve = (\<lambda>_. Pair (Inl Canceled)), env_describe = Pair, env_verify = (\<lambda>_ _. Pair ReplyPanic),
      env_validate = (\<lambda>_ _. Pair ReplyPanic), env_prepare = (\<lambda>_ _ _. ([], Pair ReplyPanic)),
      env_reconcile_prepare = (\<lambda>_ _ _. Pair ReplyPanic), env_start = (\<lambda>_ _ _ _. Pair None),
      env_reconcile = (\<lambda>_ _. Pair ReplyPanic), env_observe = (\<lambda>_ _. Pair ReplyPanic),
      env_cancel = (\<lambda>_ _ _. Pair ReplyPanic)\<rparr>"

text \<open>C9. How every pass of the engine ends, with a valid configuration.  It makes no mutation when it found nothing to do,
  and then it only made calls that the world may have answered: either waiting or claiming failed with the error it returns,
  or no claim was to be had.  A pass that has claimed an attempt but cannot load it returns the error of the load and makes no
  mutation either; it does not yield, so the claim runs out by its lease.  Any other pass yields exactly once, as its last
  mutation and its last call, with the handle in hand and a positive delay of at most six and a half minutes, whatever the
  number of failures, the fence of the claim and the error of the pass, and reports the error of the yield with its own.\<close>

theorem pass_ends_with_one_yield:
  assumes "config_valid (env_config env)" "run_state (RunOnce env owner) s = ((worked, err), s')"
  shows "\<not> worked \<and> (\<exists>w. s' = s\<lparr>s_world := w\<rparr>) \<and> (err = None \<longrightarrow> (\<exists>v. env_claim_next env owner v = (Inr None, s_world s')))
    \<or> worked \<and> (\<exists>c w. claimed env owner c w
        \<and> ((\<exists>e w'. env_load env c w = (Inl e, w') \<and> err = Some e \<and> s' = s\<lparr>s_world := w'\<rparr>)
          \<or> (\<exists>wk w'. env_load env c w = (Inr wk, w'))
            \<and> (\<exists>ms d v y e. s_trace s' = s_trace s @ ms @ [Yielded d] \<and> (\<forall>d'. Yielded d' \<notin> set ms)
                \<and> 0 < d \<and> d \<le> 390 * second_ns
                \<and> env_yield env (w_handle (s_work s')) d v = (y, s_world s') \<and> err = errors_join [e, y])))"
proof -
  have poll: "0 < cfg_poll_delay (env_config env)" using assms(1) by (simp add: config_valid_def)
  have loaded: "(\<exists>e w'. env_load env c w = (Inl e, w') \<and> err = Some e \<and> s' = s\<lparr>s_world := w'\<rparr>)
      \<or> (\<exists>wk w'. env_load env c w = (Inr wk, w')) \<and> handed_back env (s_trace s) err s'"
    if "run_state (process env c) (s\<lparr>s_world := w\<rparr>) = (err, s')" for c w
    using process_ends [OF poll that] by simp
  from RunOnce_cases [OF assms(2)] show ?thesis
  proof
    assume "worked \<and> (\<exists>c w. claimed env owner c w \<and> run_state (process env c) (s\<lparr>s_world := w\<rparr>) = (err, s'))"
    then obtain c w where c: "worked" "claimed env owner c w" "run_state (process env c) (s\<lparr>s_world := w\<rparr>) = (err, s')" by blast
    show ?thesis
      by (rule disjI2, rule conjI, rule c(1), rule exI, rule exI, rule conjI, rule c(2),
          rule loaded [OF c(3), unfolded handed_back_def])
  qed (rule disjI1)
qed

text \<open>The engine of the sample with its work loaded.\<close>

definition loaded_engine :: "work \<Rightarrow> (unit, descriptor) engine_env" where
  "loaded_engine w = refused_engine\<lparr>env_load := (\<lambda>_. Pair (Inr w))\<rparr>"

lemma loaded_engine_calls:
  "config_valid (env_config (loaded_engine w))" "env_slot (loaded_engine w) u = (None, u)"
  "\<exists>c. env_claim_recovery (loaded_engine w) owner u = (Inr (Some c), u)" "env_load (loaded_engine w) c u = (Inr w, u)"
  by (simp_all add: loaded_engine_def refused_engine_def config_valid_def DefaultConfig_def)

theorem pass_ends_with_one_yield_witness:
  "\<forall>w owner s. \<exists>err s' ms d. run_state (RunOnce (loaded_engine w) owner) s = ((True, err), s')
     \<and> s_trace s' = s_trace s @ ms @ [Yielded d] \<and> (\<forall>d'. Yielded d' \<notin> set ms) \<and> 0 < d \<and> d \<le> 390 * second_ns"
proof (intro allI)
  fix w owner and s :: "unit session"
  obtain c where "env_claim_recovery (loaded_engine w) owner (s_world s) = (Inr (Some c), s_world s)"
    using loaded_engine_calls(3) by blast
  then obtain err s' where run: "run_state (RunOnce (loaded_engine w) owner) s = ((True, err), s')"
    by (cases "run_state (process (loaded_engine w) c) (s\<lparr>s_world := ()\<rparr>)")
      (simp add: RunOnce_def State_Monad.bind_def run_call State_Monad.return_def loaded_engine_calls(2))
  show "\<exists>err s' ms d. run_state (RunOnce (loaded_engine w) owner) s = ((True, err), s')
     \<and> s_trace s' = s_trace s @ ms @ [Yielded d] \<and> (\<forall>d'. Yielded d' \<notin> set ms) \<and> 0 < d \<and> d \<le> 390 * second_ns"
    using pass_ends_with_one_yield [OF loaded_engine_calls(1) run] run by (auto simp: loaded_engine_calls(4))
qed

end
