(* ===== verification/Store_Properties.thy ===== *)
theory Store_Properties
  imports Store_Answers Engine_Properties
begin

text \<open>
  The properties of the store and of the engine on it, with the concrete stores and environments at which their
  hypotheses are checked.
\<close>

section \<open>Samples\<close>

text \<open>An environment in which every transaction is applied and every other table lets the work pass.\<close>

definition sample_tx :: "unit tx_env" where
  "sample_tx = \<lparr>tx_wall = sample_now, tx_fate = Applied, tx_fence = replicate 64 CHR ''a'', tx_id = ''id_1'', tx_nonce = [],
     tx_event = (\<lambda>_. ''evt_1''), tx_recode = (\<lambda>_ _. Inl StoreInvalid), tx_snapshot = (\<lambda>_ _ _. Inr sample_rows),
     tx_host_enabled = False, tx_host = (\<lambda>_ _ _. None), tx_remote = (\<lambda>_ _. None), tx_image = (\<lambda>_ _ _. None),
     tx_storage = (\<lambda>_ _ _. None), tx_release = (\<lambda>_ _. passE ()), tx_reserve = (\<lambda>_ _ _. passE ()),
     tx_retention = (\<lambda>_ _ _ _ _. passE ()), tx_retired = (\<lambda>_ _. False), tx_actor = (\<lambda>_ _ _ _. None),
     tx_owned = (\<lambda>_ _ _. None), tx_capacity = (\<lambda>_ _ _. None)\<rparr>"

definition empty_store :: "unit store" where
  "empty_store = \<lparr>st_clock = 0, st_settings = DefaultSettings, st_last = [], st_installation = ''inst'', st_leases = (\<lambda>_. None),
     st_queue = [], st_jobs = (\<lambda>_. None), st_attempts = (\<lambda>_. None), st_journals = (\<lambda>_. None), st_resources = [],
     st_intents = [], st_grants = [], st_receipts = [], st_operations = [], st_events = [], st_progress = (\<lambda>_. None),
     st_quotas = (\<lambda>_. None), st_reservations = (\<lambda>_. None), st_rest = ()\<rparr>"

text \<open>A store with one attempt in the queue, whose lease of the first generation has run out.\<close>

definition waiting_attempt :: attempt where
  "waiting_attempt = sample_attempt\<lparr>attempt_id := ''att'', attempt_job := ''job''\<rparr>"

definition first_lease :: lease_row where
  "first_lease = \<lparr>lr_generation = 1, lr_owner = ''worker_1'', lr_fence = replicate 64 CHR ''b'', lr_until = 5, lr_held = True,
     lr_operation = None, lr_revision = None\<rparr>"

definition waiting_store :: "unit store" where
  "waiting_store = empty_store\<lparr>
     st_queue := [\<lparr>q_sequence = 7, q_identity = \<lparr>sid_workspace = ''wa'', sid_job = ''job'', sid_attempt = ''att''\<rparr>,
       q_barrier = False, q_not_before = 0\<rparr>],
     st_attempts := (\<lambda>_. None)((''wa'', ''job'', ''att'') \<mapsto>
       \<lparr>arow_attempt = waiting_attempt, arow_nonce = replicate 64 CHR ''0''\<rparr>),
     st_leases := (\<lambda>_. None)(lease_key 7 \<mapsto> first_lease)\<rparr>"

definition preparing_attempt :: attempt where
  "preparing_attempt = waiting_attempt\<lparr>attempt_state := InitialAttemptState\<lparr>orchestration := OrchestrationPreparing\<rparr>,
     attempt_revision := 2, attempt_updated := sample_now\<rparr>"

lemma sample_tx_clock:
  "transaction_clock 0 sample_now = Inr (sample_now, 1700000000000)"
  "transaction_clock 1700000000000 sample_now = Inr (sample_now, 1700000000000)"
  by code_simp+

lemma store_write_applied:
  assumes "tx_fate env = Applied" "transaction_clock (st_clock s) (tx_wall env) = Inr (now, n)" "fn now (at_time n s) = Inr (x, s')"
  shows "store_write env fn s = (Inr x, s')"
  using assms by (simp add: store_write_def withTx_def at_time_def bindE_def readE_def writeE_def liftE_def passE_def)

lemma waiting_attempt_facts:
  "attempt_validate waiting_attempt = None" "digest_valid (replicate 64 CHR ''0'')" "\<not> before sample_now (attempt_updated waiting_attempt)"
  by code_simp+

lemma waiting_attempt_moves:
  "attempt_transition (InitialAttemptState\<lparr>orchestration := OrchestrationPreparing\<rparr>) (utc sample_now) waiting_attempt
     = Inr preparing_attempt"
  by code_simp

lemma sample_until:
  "ValidTime (from_milli (unix_milli (add_time sample_now (30 * second_ns))))"
  "after (from_milli (unix_milli (add_time sample_now (30 * second_ns)))) sample_now"
  by code_simp+

lemma sample_names:
  "scheduler_identity_valid \<lparr>sid_workspace = ''wa'', sid_job = ''job'', sid_attempt = ''att''\<rparr>" "validOpaqueID ''worker_2''"
  "event_type_valid EventSchedulerClaimed"
  by code_simp+


lemma waiting_view: "\<exists>v. scheduler_view sample_tx sample_now (at_time n waiting_store) 
    = Inr ((DefaultSettings, sample_rows, 0, v), at_time n waiting_store)"
proof -
  obtain v where "Select sample_rows [] DefaultSettings sample_now = Inr (0, v)" using sample_select [of "[]"] by auto
  moreover have "settings_valid DefaultSettings" by code_simp
  ultimately show ?thesis
    by (simp add: scheduler_view_def fromE_def schedulerControl_def sample_tx_def waiting_store_def empty_store_def at_time_def)
qed

definition second_lease :: lease_row where
  "second_lease = \<lparr>lr_generation = 2, lr_owner = ''worker_2'', lr_fence = replicate 64 CHR ''a'',
     lr_until = unix_milli (from_milli (unix_milli (add_time sample_now (30 * second_ns)))), lr_held = True,
     lr_operation = None, lr_revision = None\<rparr>"

lemma lease_facts:
  "\<not> after (from_milli 5) sample_now" "\<not> unix_milli (from_milli 5) > unix_milli sample_now"
  "lease_row_ok DispatchWork second_lease" "lease_update_ok first_lease second_lease" "lease_duration DefaultSettings = 30 * second_ns"
  by code_simp+


lemma second_lease_claimed:
  "\<exists>l. claimWorkLease True (replicate 64 CHR ''a'') (wanted_lease 7 ''worker_2'') sample_now (30 * second_ns)
      ((\<lambda>_. None)(lease_key 7 \<mapsto> first_lease))
    = Inr (l, (\<lambda>_. None)(lease_key 7 \<mapsto> second_lease)) \<and> wl_generation l = 2"
  using lease_facts(1,2) lease_facts(3,4) [unfolded second_lease_def] sample_until
  by (simp add: claimWorkLease_def wanted_lease_def loadWorkLease_def held_lease_def put_lease_def first_lease_def
      MaxInt64_def second_lease_def Let_def)


definition leased_store :: "unit store" where
  "leased_store = (at_time 1700000000000 waiting_store)\<lparr>st_leases := (\<lambda>_. None)(lease_key 7 \<mapsto> second_lease)\<rparr>"

lemma waiting_lease:
  "\<exists>l. lease_row_for sample_tx (sample_candidate ''wa'' 7) ''worker_2'' DefaultSettings sample_now (at_time 1700000000000 waiting_store)
     = Inr ((waiting_attempt, l), leased_store) \<and> wl_generation l = 2"
proof -
  let ?s = "at_time 1700000000000 waiting_store"
  have s: "st_leases waiting_store = (\<lambda>_. None)(lease_key 7 \<mapsto> first_lease)" "tx_fence sample_tx = replicate 64 CHR ''a''"
    by (simp_all add: waiting_store_def at_time_def sample_tx_def)
  have row: "cand_identity (sample_candidate ''wa'' 7) = \<lparr>sid_workspace = ''wa'', sid_job = ''job'', sid_attempt = ''att''\<rparr>"
      "cand_sequence (sample_candidate ''wa'' 7) = 7"
    by (simp_all add: sample_candidate_def)
  have "loadAttempt (''wa'', ''job'', ''att'') ?s = Inr ((waiting_attempt, replicate 64 CHR ''0''), ?s)"
    using waiting_attempt_facts(1,2) by (simp add: loadAttempt_def waiting_store_def at_time_def Let_def waiting_attempt_def)
  moreover obtain l where "claimWorkLease True (replicate 64 CHR ''a'') (wanted_lease 7 ''worker_2'') sample_now (30 * second_ns)
      ((\<lambda>_. None)(lease_key 7 \<mapsto> first_lease)) = Inr (l, (\<lambda>_. None)(lease_key 7 \<mapsto> second_lease))" "wl_generation l = 2"
    using second_lease_claimed by blast
  ultimately show ?thesis
    using waiting_attempt_facts(3)
    by (simp add: lease_row_for_def row Let_def on_leases_def lease_facts(5) s leased_store_def)
qed

lemma leased_transition:
  "\<exists>s'. schedulerTransition sample_tx \<lparr>sid_workspace = ''wa'', sid_job = ''job'', sid_attempt = ''att''\<rparr> waiting_attempt
     (InitialAttemptState\<lparr>orchestration := OrchestrationPreparing\<rparr>) EventSchedulerClaimed sample_now leased_store = Inr (preparing_attempt, s')"
proof -
  have a: "attempt_id waiting_attempt = ''att''" "attempt_job waiting_attempt = ''job''" "attempt_revision preparing_attempt = 2"
      "attempt_revision waiting_attempt = 1"
    by (simp_all add: waiting_attempt_def preparing_attempt_def sample_attempt_def)
  then have "preparing_attempt \<noteq> waiting_attempt" by fastforce
  then show ?thesis
    using sample_names(1,3) waiting_attempt_facts(3) waiting_attempt_moves
    by (simp add: schedulerTransition_def a Let_def MaxInt64_def move_attempt_def update_attempt_def scheduler_barrier_def
      append_event_def leased_store_def waiting_store_def at_time_def empty_store_def last_event_def on_rest_def sample_tx_def passE_def)
qed


lemma waiting_claimed:
  "\<exists>c. takes sample_tx ''worker_2'' waiting_store c \<and> claim_sequence c = 7 \<and> claim_generation c = 2"
proof -
  let ?s = "at_time 1700000000000 waiting_store"
  obtain v where v: "scheduler_view sample_tx sample_now ?s = Inr ((DefaultSettings, sample_rows, 0, v), ?s)"
    using waiting_view by blast
  obtain l where l: "lease_row_for sample_tx (sample_candidate ''wa'' 7) ''worker_2'' DefaultSettings sample_now ?s
      = Inr ((waiting_attempt, l), leased_store)" "wl_generation l = 2"
    using waiting_lease by blast
  obtain s' where s': "schedulerTransition sample_tx \<lparr>sid_workspace = ''wa'', sid_job = ''job'', sid_attempt = ''att''\<rparr> waiting_attempt
      (InitialAttemptState\<lparr>orchestration := OrchestrationPreparing\<rparr>) EventSchedulerClaimed sample_now leased_store = Inr (preparing_attempt, s')"
    using leased_transition by blast
  have row: "sample_rows ! 0 = sample_candidate ''wa'' 7" "cand_resource_scope (sample_candidate ''wa'' 7) = []"
      "cand_identity (sample_candidate ''wa'' 7) = \<lparr>sid_workspace = ''wa'', sid_job = ''job'', sid_attempt = ''att''\<rparr>"
      "cand_sequence (sample_candidate ''wa'' 7) = 7" "attempt_state waiting_attempt = InitialAttemptState"
    by (simp_all add: sample_rows_def sample_candidate_def waiting_attempt_def sample_attempt_def)
  have "\<exists>c t. claim_next sample_tx ''worker_2'' sample_now ?s = Inr ((Some c, v), t) \<and> claim_sequence c = 7 \<and> claim_generation c = 2"
    using l s' by (simp add: claim_next_def v Let_def reserve_resource_def row claim_of_def)
  then obtain c t where c: "claim_next sample_tx ''worker_2'' sample_now ?s = Inr ((Some c, v), t)" "claim_sequence c = 7" "claim_generation c = 2"
    by blast
  have "store_write sample_tx (claim_next sample_tx ''worker_2'') waiting_store = (Inr (Some c, v), t)"
    by (rule store_write_applied [where fn = "claim_next sample_tx ''worker_2''", OF _ _ c(1)])
      (simp_all add: sample_tx_def waiting_store_def empty_store_def sample_tx_clock)
  then have "ClaimNext sample_tx ''worker_2'' waiting_store = (Inr (Some c, v), t)"
    using sample_names(2) by (simp add: ClaimNext_def)
  then show ?thesis using c by (auto simp: takes_def)
qed


text \<open>A store that has answered a control request.\<close>

definition sample_control :: control_request where
  "sample_control = \<lparr>creq_attempt = ''att'', creq_reason = [], creq_discard = False, creq_resolution = [], creq_resource = []\<rparr>"

definition sample_command :: control_command where
  "sample_command =
     \<lparr>cmd_workspace = ''wa'', cmd_token = ''t'', cmd_job = ''job'', cmd_kind = OperationCancel, cmd_request = sample_control,
      cmd_key = replicate 64 CHR ''0'', cmd_hash = the (control_request_digest ''job'' OperationCancel sample_control),
      cmd_inputs = None, cmd_limits = \<lparr>max_outstanding_total = 10, max_outstanding_workspace = 5\<rparr>\<rparr>"

definition sample_record :: control_record where
  "sample_record =
     \<lparr>cr_operation = \<lparr>operation_id = ''op_1'', operation_workspace = ''wa'', operation_job = ''job'', operation_attempt = ''att'',
        operation_kind = OperationCancel, operation_status = OperationAccepted, operation_revision = 1,
        operation_failure = None, operation_created = sample_time 5, operation_updated = sample_time 5\<rparr>,
      cr_effect = PendingEffect, cr_new_attempt = [], cr_termination = False, cr_replay = False\<rparr>"

definition sample_row :: operation_row where
  "sample_row = \<lparr>orow_record = sample_record, orow_started = False, orow_request = sample_control, orow_name_deletion = False,
     orow_hash = cmd_hash sample_command, orow_resource = []\<rparr>"

definition answered_store :: "unit store" where
  "answered_store = empty_store\<lparr>st_operations := [sample_row],
     st_receipts := [(command_receipt sample_command, \<lparr>sv_hash = cmd_hash sample_command, sv_version = CanonicalVersion OperationCancel,
       sv_subject = ''op_1'', sv_job = ''job'', sv_attempt = ''att'', sv_value = SavedControl sample_record\<rparr>)]\<rparr>"

text \<open>The length of a rendered record, from above.\<close>

fun json_bound :: "bool \<Rightarrow> json \<Rightarrow> nat" where
  "json_bound html JNull = 4"
| "json_bound html (JBool b) = 5"
| "json_bound html (JInt n) = length (format_int n)"
| "json_bound html (JString s) = 6 * length s + 2"
| "json_bound html (JRaw s) = length (json_compact html Outside s)"
| "json_bound html (JArray vs) = 2 + sum_list (map (\<lambda>v. json_bound html v + 1) vs)"
| "json_bound html (JObject fs) = 2 + sum_list (map (\<lambda>(k, v). 6 * length k + 4 + json_bound html v) fs)"

lemma unicode_escape_length: "length (unicode_escape n) = 6"
  by (simp add: unicode_escape_def hex_encode_def)

lemma json_escape_length: "length (json_escape_byte html c) \<le> 6"
  by (simp add: json_escape_byte_def unicode_escape_length)

lemma rune_text_length:
  "n \<noteq> 0 \<Longrightarrow> length r \<le> n \<Longrightarrow> length (if r = x then unicode_escape a else if r = y then unicode_escape b else r) \<le> 6 * n"
  by (simp add: unicode_escape_length)

lemma rune_fits: "utf8_rune_len s \<le> length s"
  by (cases s rule: utf8_rune_len.cases) (simp_all split: list.split)

lemma json_chars_length: "length (json_chars html s) \<le> 6 * length s"
proof (induction html s rule: json_chars.induct)
  case (2 html c cs)
  show ?case
  proof (cases "byte c < 128")
    case True
    then show ?thesis using 2(1) json_escape_length [of html c] by simp
  next
    case False
    define n where "n = utf8_rune_len (c # cs)"
    have bound: "length (drop (n - 1) cs) + n \<le> length (c # cs)" if "n \<noteq> 0"
      using that rune_fits [of "c # cs"] by (simp add: n_def)
    have later: "length (json_chars html (drop (n - 1) cs)) \<le> 6 * length (drop (n - 1) cs)" if "n \<noteq> 0"
      using 2(3) [OF False n_def refl that] .
    have zero: "length (json_chars html cs) \<le> 6 * length cs" if "n = 0" using 2(2) [OF False n_def refl that] .
    have r: "length (take n (c # cs)) \<le> n" by simp
    have head: "length (if take n (c # cs) = line_separator then unicode_escape 8232
        else if take n (c # cs) = paragraph_separator then unicode_escape 8233 else take n (c # cs)) \<le> 6 * n" if "n \<noteq> 0"
      by (rule rune_text_length [OF that r])
    have eq: "json_chars html (c # cs) = (if n = 0 then unicode_escape 65533 @ json_chars html cs
        else (if take n (c # cs) = line_separator then unicode_escape 8232
        else if take n (c # cs) = paragraph_separator then unicode_escape 8233 else take n (c # cs)) @ json_chars html (drop (n - 1) cs))"
      using False by (simp only: json_chars.simps if_False Let_def n_def)
    show ?thesis
    proof (cases "n = 0")
      case True
      then show ?thesis using zero by (simp add: eq unicode_escape_length del: json_chars.simps)
    next
      case False
      then show ?thesis using later [OF False] head [OF False] bound [OF False] 
        unfolding eq if_not_P [OF False] length_append by linarith
    qed
  qed
qed simp

lemma join_with_length: "length (join_with '','' xs) \<le> sum_list (map (\<lambda>x. length x + 1) xs)"
  by (induction xs rule: induct_list012) auto

lemma json_render_length: "length (json_render html j) \<le> json_bound html j"
proof (induction html j rule: json_render.induct)
  case (6 html vs)
  have "sum_list (map (\<lambda>v. length (json_render html v) + 1) vs) \<le> sum_list (map (\<lambda>v. json_bound html v + 1) vs)"
    by (rule sum_list_mono) (simp add: 6)
  then show ?case using join_with_length [of "map (json_render html) vs"] by (simp add: o_def)
next
  case (7 html fs)
  have "sum_list (map (\<lambda>(k, v). length (json_quote html k @ '':'' @ json_render html v) + 1) fs)
      \<le> sum_list (map (\<lambda>(k, v). 6 * length k + 4 + json_bound html v) fs)"
  proof (rule sum_list_mono)
    fix x assume x: "x \<in> set fs"
    obtain k v where kv: "x = (k, v)" by (cases x)
    have "length (json_render html v) \<le> json_bound html v" using 7 [OF x kv [symmetric]] .
    then show "(case x of (k, v) \<Rightarrow> length (json_quote html k @ '':'' @ json_render html v) + 1)
        \<le> (case x of (k, v) \<Rightarrow> 6 * length k + 4 + json_bound html v)"
      using json_chars_length [of html k] by (simp add: kv json_quote_def)
  qed
  then show ?case
    using join_with_length [of "map (\<lambda>(k, v). json_quote html k @ '':'' @ json_render html v) fs"]
    by (simp add: o_def split_def)
qed (simp_all add: json_quote_def json_chars_length)

lemma sample_control_facts:
  "control_request_valid OperationCancel sample_control" "control_record_valid sample_record"
  "validOpaqueID ''job''" "validOpaqueID ''wa''" "json_bound True (control_record_json sample_record) \<le> 4096"
  "\<not> validOpaqueID []"
  by code_simp+

lemma sample_text: "length (json_marshal (control_record_json sample_record)) \<le> 4096"
  using json_render_length sample_control_facts(5) by (rule order_trans)

lemma sample_digest: "control_request_digest ''job'' OperationCancel sample_control = Some (cmd_hash sample_command)"
  using sample_control_facts(1,3) by (simp add: sample_command_def control_request_digest_def CanonicalJSON_def)

lemma sample_record_fields:
  "operation_id (cr_operation sample_record) = ''op_1''" "operation_workspace (cr_operation sample_record) = ''wa''"
  "operation_job (cr_operation sample_record) = ''job''" "operation_attempt (cr_operation sample_record) = ''att''"
  "operation_kind (cr_operation sample_record) = OperationCancel" "operation_status (cr_operation sample_record) = OperationAccepted"
  "\<not> cr_replay sample_record"
  by (simp_all add: sample_record_def)

lemma sample_row_loaded: "loadOperation ''wa'' ''op_1'' (at_time n answered_store) = Inr (sample_row, at_time n answered_store)"
proof -
  have "operation_row_ok ''wa'' ''op_1'' sample_row"
    using sample_text sample_control_facts(2,6) sample_digest
    by (simp add: operation_row_ok_def sample_row_def sample_record_fields stored_request_digest_def sample_control_def Let_def)
  then show ?thesis
    by (simp add: loadOperation_def answered_store_def at_time_def operation_named_def sample_row_def sample_record_fields)
qed

lemma sample_replayed:
  "replayOperation ''wa'' OperationCancel (cmd_key sample_command) (cmd_hash sample_command) (at_time n answered_store)
     = Inr (Some (sample_record\<lparr>cr_replay := True\<rparr>), at_time n answered_store)"
proof -
  have keys: "cmd_workspace sample_command = ''wa''" "cmd_kind sample_command = OperationCancel" by (simp_all add: sample_command_def)
  have "replayOrCreate (operation_receipt_id ''wa'' OperationCancel (cmd_key sample_command)) (cmd_hash sample_command)
      (CanonicalVersion OperationCancel) OperationsErrConflict None (at_time n answered_store)
    = Inr (Some \<lparr>sv_hash = cmd_hash sample_command, sv_version = CanonicalVersion OperationCancel,
       sv_subject = ''op_1'', sv_job = ''job'', sv_attempt = ''att'', sv_value = SavedControl sample_record\<rparr>, at_time n answered_store)"
    by (simp add: replayOrCreate_def answered_store_def at_time_def keys)
  then show ?thesis
    using sample_text sample_control_facts(2)
    by (simp add: replayOperation_def sample_record_fields sample_row_loaded sample_row_def)
qed

lemma sample_command_answered:
  assumes "transaction_clock m sample_now = Inr (sample_now, n)"
  shows "AdmitOperation sample_tx ce sample_command (at_time m answered_store)
    = (Inr (sample_record\<lparr>cr_replay := True\<rparr>), at_time n answered_store)"
proof -
  have fields: "cmd_workspace sample_command = ''wa''" "cmd_kind sample_command = OperationCancel" "cmd_job sample_command = ''job''"
      "cmd_request sample_command = sample_control" "cmd_token sample_command = ''t''" "cmd_inputs sample_command = None"
      "admission_limits_valid (cmd_limits sample_command)" "cmd_key sample_command = replicate 64 CHR ''0''"
    by (simp_all add: sample_command_def admission_limits_valid_def)
  have twice: "at_time n (at_time m answered_store) = at_time n answered_store" by (simp add: at_time_def)
  have actor: "tx_actor sample_tx = (\<lambda>_ _ _ _. None)" by (simp add: sample_tx_def)
  have valid: "command_validate sample_command = None"
    using sample_digest sample_control_facts(4) waiting_attempt_facts(2) by (simp add: command_validate_def fields)
  have "admit_operation sample_tx ce sample_command sample_now (at_time n (at_time m answered_store))
      = Inr (sample_record\<lparr>cr_replay := True\<rparr>, at_time n answered_store)"
    using sample_replayed [of n] by (simp add: admit_operation_def fields check_actor_def actor Let_def twice)
  then have "store_write sample_tx (admit_operation sample_tx ce sample_command) (at_time m answered_store)
      = (Inr (sample_record\<lparr>cr_replay := True\<rparr>), at_time n answered_store)"
    by (rule store_write_applied [where fn = "admit_operation sample_tx ce sample_command", rotated 2])
      (simp_all add: sample_tx_def assms at_time_def)
  then show ?thesis by (simp add: AdmitOperation_def valid)
qed


section \<open>Properties\<close>

lemma perform_all_lasting: "lasting s (perform_all requests s)"
  using perform_all_grows [of s requests] by (simp add: grows_def)

text \<open>C1. No provider call is ever repeated, across engines, passes, crashes and restarts.  Take any number of passes of any
  engines on one store, with anything that other workers and applications do in between, with transactions that fail or lose
  their acknowledgement, and with adapters, clocks and heartbeats that do anything.  Every call that prepares, starts or cancels
  remote work follows at once the acknowledged transaction that recorded its intent; each call answers exactly one intent, and
  no two calls answer the same one: at most one preparation and one start per queue entry and one cancellation per attempt
  are ever asked of a provider.\<close>

theorem provider_calls_once:
  assumes "names_ok (fst (s_world s))" "s_trace s = []"
  shows "let tr = run_trace (map (\<lambda>(sur, env, owner). (store_engine sur env, owner)) passes) s
    in licensed tr \<and> length (call_intents None tr) = length (filter provider_call tr) \<and> distinct (call_intents None tr)"
proof -
  let ?tr = "run_trace (map (\<lambda>(sur, env, owner). (store_engine sur env, owner)) passes) s"
  have licensed: "licensed ?tr" by (rule run_trace_licensed [OF assms(2)])
  moreover have "length (call_intents None ?tr) = length (filter provider_call ?tr)"
    using licensed licensed_calls by (simp add: licensed_def)
  moreover have "distinct (call_intents None ?tr)"
    using call_intents_recorded [of None ?tr] run_trace_once [OF assms, of passes]
    by (auto simp: recorded_intents_of_def intro: subseq_distinct_left)
  ultimately show ?thesis by (simp add: Let_def)
qed

definition quiet_surroundings :: "(unit, unit, unit) surroundings" where
  "quiet_surroundings = \<lparr>sur_others = (\<lambda>x. ([], x)), sur_tx = (\<lambda>x. (sample_tx, x))\<rparr>"

definition first_session :: "work \<Rightarrow> (unit store \<times> unit) session" where
  "first_session w = \<lparr>s_world = (waiting_store, ()), s_trace = [], s_work = w, s_sampled = zero_time, s_progress_error = None,
     s_draining = False, s_observation_limit = 0, s_cancelled = False, s_beating = False, s_lost = None\<rparr>"

theorem provider_calls_once_witness:
  "names_ok waiting_store \<and> (\<forall>w.
    let tr = run_trace (map (\<lambda>(sur, env, owner). (store_engine sur env, owner))
      [(quiet_surroundings, refused_engine, ''worker_1''), (quiet_surroundings, refused_engine, ''worker_2'')]) (first_session w)
    in licensed tr \<and> length (call_intents None tr) = length (filter provider_call tr) \<and> distinct (call_intents None tr))"
proof -
  have names: "names_ok waiting_store" by (simp add: names_ok_def waiting_store_def empty_store_def)
  then have "names_ok (fst (s_world (first_session w)))" "s_trace (first_session w) = []" for w
    by (simp_all add: first_session_def)
  with names show ?thesis by (intro conjI allI provider_calls_once)
qed

text \<open>C7. The store acknowledges each intent once: whatever sequence of requests is made of it, by whomever, each with its own
  clock, identifiers and fate, no two transactions are acknowledged for the preparation of one queue entry, for the start of one,
  or for the cancellation of one attempt.\<close>

theorem store_intents_once:
  assumes "names_ok s" shows "distinct (history requests s)"
  using assms by (rule history_distinct)

theorem store_intents_once_witness:
  "names_ok answered_store \<and> (\<forall>requests :: (unit tx_env \<times> (unit, unit) store_request) list. distinct (history requests answered_store))"
proof -
  have "names_ok answered_store" by (simp add: names_ok_def answered_store_def)
  then show ?thesis by (blast intro: store_intents_once)
qed

text \<open>C3. A worker that lost its lease is shut out for good.  Once another worker has taken the queue entry, by recovery or from
  the queue, and whatever the store does afterwards, every operation that presents the older claim (committing a step or a
  cancellation, consuming an authorization, renewing, yielding, reporting progress, loading) is an error that changes nothing.\<close>

theorem superseded_worker_locked_out:
  assumes "takes env owner s c" "claim_sequence (h_claim h) = claim_sequence c" "claim_generation (h_claim h) < claim_generation c"
  shows "let t = perform_all requests (after_taking env owner s c) in
    (\<exists>e. CommitDispatch tx h a t = (Inl e, t)) \<and> (\<exists>e. CommitCancellation tx h i ca t = (Inl e, t))
    \<and> (\<exists>e. ConsumeAuthorization tx h t = (Inl e, t)) \<and> (\<exists>e. RenewDispatch tx h t = (Inl e, t))
    \<and> (\<exists>e. YieldDispatch tx h d t = (Inl e, t)) \<and> (\<exists>e. RecordPreparationProgress tx h p t = (Inl e, t))
    \<and> (\<exists>e. LoadDispatch tx (h_claim h) t = (Inl e, t))"
proof -
  have "lease_since (claim_sequence c) (claim_generation c) (after_taking env owner s c)"
    using taken_after [OF assms(1)] by (simp add: taken_def)
  moreover have "lasting (after_taking env owner s c) (perform_all requests (after_taking env owner s c))"
    by (rule perform_all_lasting)
  ultimately have since: "lease_since (claim_sequence (h_claim h)) (claim_generation c) (perform_all requests (after_taking env owner s c))"
    using assms(2) by (simp add: lease_since_lasting)
  show ?thesis unfolding Let_def by (intro conjI locked_out [OF since assms(3)])
qed

definition first_handle :: handle where
  "first_handle =
     \<lparr>h_claim = \<lparr>claim_identity = \<lparr>sid_workspace = ''wa'', sid_job = ''job'', sid_attempt = ''att''\<rparr>, claim_sequence = 7,
        claim_owner = ''worker_1'', claim_generation = 1, claim_fence = replicate 64 CHR ''b'', claim_expires_at = zero_time,
        claim_attempt_revision = 1, claim_account = ''acct'', claim_instance = ''inst'', claim_quota_warning = NoReason\<rparr>,
      h_version = 1\<rparr>"

theorem superseded_worker_locked_out_witness:
  "\<exists>c. takes sample_tx ''worker_2'' waiting_store c
    \<and> (\<forall>a. \<exists>e. CommitDispatch sample_tx first_handle a (after_taking sample_tx ''worker_2'' waiting_store c)
        = (Inl e, after_taking sample_tx ''worker_2'' waiting_store c))"
proof -
  obtain c where c: "takes sample_tx ''worker_2'' waiting_store c" "claim_sequence c = 7" "claim_generation c = 2"
    using waiting_claimed by blast
  have h: "claim_sequence (h_claim first_handle) = claim_sequence c" "claim_generation (h_claim first_handle) < claim_generation c"
    by (simp_all add: first_handle_def c)
  have none: "perform_all ([] :: (unit tx_env \<times> (unit, unit) store_request) list) s = s" for s by (simp add: perform_all_def)
  note out = superseded_worker_locked_out [OF c(1) h, where requests = "[] :: (unit tx_env \<times> (unit, unit) store_request) list",
    unfolded none Let_def, THEN conjunct1]
  show ?thesis by (rule exI, rule conjI, rule c(1), rule allI, rule out)
qed

text \<open>C8. Controls are idempotent: after a control request has been answered, a request with the same idempotency key, whenever
  it comes and whatever the store has done in between, is accepted only if its content is the same, it is answered with the
  record of the first answer, marked as a replay, and it changes nothing but the time of the last transaction.\<close>

theorem control_requests_idempotent:
  assumes "AdmitOperation env ce c s = (Inr r, s1)"
    "cmd_workspace c' = cmd_workspace c" "cmd_kind c' = cmd_kind c" "cmd_key c' = cmd_key c"
    "AdmitOperation env' ce' c' (perform_all requests s1) = (Inr r', t)"
  shows "cmd_hash c' = cmd_hash c \<and> r' = r\<lparr>cr_replay := True\<rparr> \<and> (\<exists>n. t = (perform_all requests s1)\<lparr>st_clock := n\<rparr>)"
proof -
  have "store_write env (admit_operation env ce c) s = (Inr r, s1)" using assms(1) by (simp add: AdmitOperation_def split: if_splits)
  from store_write_Inr [OF this] obtain now n where "admit_operation env ce c now (at_time n s) = Inr (r, s1)" by blast
  then have "answered c r s1" by (rule admit_answers)
  then have later: "answered c r (perform_all requests s1)" using perform_all_grows by (rule answered_grows [rotated])
  have "store_write env' (admit_operation env' ce' c') (perform_all requests s1) = (Inr r', t)"
    using assms(5) by (simp add: AdmitOperation_def split: if_splits)
  from store_write_Inr [OF this]
  obtain now' n' where again: "admit_operation env' ce' c' now' (at_time n' (perform_all requests s1)) = Inr (r', t)" by blast
  have "answered c r (at_time n' (perform_all requests s1))" using later by (simp add: answered_def at_time_def)
  from answered_repeats [OF this _ again] show ?thesis by (auto simp: assms(2-4) at_time_def)
qed

theorem control_requests_idempotent_witness:
  "\<forall>ce :: (unit, unit) control_env. \<exists>s1 t.
    AdmitOperation sample_tx ce sample_command answered_store = (Inr (sample_record\<lparr>cr_replay := True\<rparr>), s1)
    \<and> AdmitOperation sample_tx ce sample_command s1 = (Inr (sample_record\<lparr>cr_replay := True\<rparr>), t) \<and> (\<exists>n. t = s1\<lparr>st_clock := n\<rparr>)"
proof
  fix ce :: "(unit, unit) control_env"
  have "at_time 0 answered_store = answered_store" by (simp add: at_time_def answered_store_def empty_store_def)
  then have 1: "AdmitOperation sample_tx ce sample_command answered_store
      = (Inr (sample_record\<lparr>cr_replay := True\<rparr>), at_time 1700000000000 answered_store)"
    using sample_command_answered [OF sample_tx_clock(1), of ce] by simp
  have none: "perform_all ([] :: (unit tx_env \<times> (unit, unit) store_request) list) s = s" for s by (simp add: perform_all_def)
  have 2: "AdmitOperation sample_tx ce sample_command (at_time 1700000000000 answered_store)
      = (Inr (sample_record\<lparr>cr_replay := True\<rparr>), at_time 1700000000000 answered_store)"
    by (rule sample_command_answered [OF sample_tx_clock(2)])
  have 3: "\<exists>n. at_time 1700000000000 answered_store = (at_time 1700000000000 answered_store)\<lparr>st_clock := n\<rparr>"
    using control_requests_idempotent [where requests = "[] :: (unit tx_env \<times> (unit, unit) store_request) list",
      unfolded none, OF 1 refl refl refl 2] by (elim conjE)
  show "\<exists>s1 t. AdmitOperation sample_tx ce sample_command answered_store = (Inr (sample_record\<lparr>cr_replay := True\<rparr>), s1)
    \<and> AdmitOperation sample_tx ce sample_command s1 = (Inr (sample_record\<lparr>cr_replay := True\<rparr>), t) \<and> (\<exists>n. t = s1\<lparr>st_clock := n\<rparr>)"
    by (rule exI, rule exI, rule conjI, rule 1, rule conjI, rule 2, rule 3)
qed

text \<open>C15. The event log of a job is an append-only, gapless sequence under the requests of dispatch, control operations, gates
  and secrets: whichever of them are made of the store, the events that are there stay as they are, new ones only follow, and the events of every job keep the numbers one, two, three and so on,
  none beyond the largest signed integer.\<close>

theorem events_append_only_and_numbered:
  assumes "numbered (st_events s)"
  shows "\<exists>new. st_events (perform_all requests s) = st_events s @ new \<and> numbered (st_events s @ new)"
proof -
  have "lasting s (perform_all requests s)" by (rule perform_all_lasting)
  then show ?thesis using assms by (auto simp: lasting_def events_kept_def)
qed

theorem events_append_only_and_numbered_witness:
  "numbered (st_events waiting_store) \<and> (\<forall>requests :: (unit tx_env \<times> (unit, unit) store_request) list.
     \<exists>new. st_events (perform_all requests waiting_store) = st_events waiting_store @ new \<and> numbered (st_events waiting_store @ new))"
proof -
  have "numbered (st_events waiting_store)" by (simp add: waiting_store_def empty_store_def numbered_def job_events_def MaxInt64_def)
  then show ?thesis by (intro conjI allI events_append_only_and_numbered)
qed

text \<open>C16. Time does not go back in the store: take two acknowledged transactions, one after the other, with any requests of any
  workers in between, some applied, some rolled back, some applied without acknowledgement.  Whatever the wall clock reads
  before each of them, forwards or backwards, the second works at a time that is not before that of the first.  The bodies are
  arbitrary, the first one among those that keep what the store keeps, as the bodies of all requests do; each transaction
  returns the time it works at.\<close>

theorem transaction_times_ordered:
  fixes requests :: "('r tx_env \<times> ('r, 'c) store_request) list"
  assumes "store_write env (\<lambda>now. bindE (fn now) (\<lambda>_. passE now)) s = (Inr t1, s1)" "\<And>now. moves lasting (fn now)"
    and "store_write env' (\<lambda>now. bindE (fn' now) (\<lambda>_. passE now)) (perform_all requests s1) = (Inr t2, s2)"
  shows "unix_ns t1 \<le> unix_ns t2"
proof -
  obtain n where 1: "transaction_clock (st_clock s) (tx_wall env) = Inr (t1, n)" "\<exists>x. fn t1 (at_time n s) = Inr (x, s1)"
    using store_write_clocked [OF assms(1)] by auto
  obtain m where 2: "transaction_clock (st_clock (perform_all requests s1)) (tx_wall env') = Inr (t2, m)"
    using store_write_clocked [OF assms(3)] by auto
  have "n \<le> st_clock s1" using 1(2) assms(2) by (fastforce simp: moves_def lasting_def)
  also have "st_clock s1 \<le> st_clock (perform_all requests s1)"
    using perform_all_lasting [of s1 requests] by (simp add: lasting_def)
  finally show ?thesis
    using transaction_clock_bounds(2) [OF 1(1)] transaction_clock_bounds(1) [OF 2] by linarith
qed

text \<open>The wall clock is set back by an hour between two transactions; the second works at the time of the first.\<close>

definition late_tx :: "unit tx_env" where
  "late_tx = sample_tx\<lparr>tx_wall := add_time sample_now (- 3600 * second_ns)\<rparr>"

lemma late_tx_clock:
  "transaction_clock 1700000000000 (add_time sample_now (- 3600000000000)) = Inr (sample_now, 1700000000000)"
  by code_simp

theorem transaction_times_ordered_witness:
  "unix_ns (tx_wall late_tx) < unix_ns (tx_wall sample_tx)
   \<and> (\<exists>t1 s1 t2 s2. store_write sample_tx (\<lambda>now. bindE (passE ()) (\<lambda>_. passE now)) empty_store = (Inr t1, s1)
        \<and> store_write late_tx (\<lambda>now. bindE (passE ()) (\<lambda>_. passE now))
            (perform_all ([] :: (unit tx_env \<times> (unit, unit) store_request) list) s1) = (Inr t2, s2)
        \<and> unix_ns t1 \<le> unix_ns t2)"
proof -
  let ?body = "\<lambda>now. bindE (passE ()) (\<lambda>_. passE now) :: (unit, gotime) store_tx"
  let ?s1 = "at_time 1700000000000 empty_store"
  have 1: "store_write sample_tx ?body empty_store = (Inr sample_now, ?s1)"
    by (rule store_write_applied [where n = 1700000000000])
      (simp_all add: sample_tx_def empty_store_def sample_tx_clock passE_def bindE_def)
  have 2: "store_write late_tx ?body (perform_all ([] :: (unit tx_env \<times> (unit, unit) store_request) list) ?s1)
      = (Inr sample_now, ?s1)"
    by (rule store_write_applied [where n = 1700000000000])
      (simp_all add: late_tx_def sample_tx_def perform_all_def late_tx_clock passE_def bindE_def at_time_def)
  have "moves lasting (passE () :: (unit, unit) store_tx)" by (simp add: moves_def passE_def lasting_refl)
  note ordered = transaction_times_ordered [OF 1 this 2]
  have "unix_ns (tx_wall late_tx) < unix_ns (tx_wall sample_tx)"
    by (simp add: late_tx_def sample_tx_def add_time_def)
  then show ?thesis using 1 2 ordered by blast
qed

end
