(* ===== verification/Spec2Isabelle.thy ===== *)
theory Spec2Isabelle
  imports Worker Store_Properties Store_Secrets
begin

text \<open>
  A verification library for compute-relay, a local runtime that submits compute jobs to remote
  providers and follows them without ever starting the same work twice.  It lives beside the Go
  sources under \<open>src/internal\<close>; names of definitions follow the source where Isabelle allows it.

  \<^bold>\<open>The program.\<close>  A job is admitted locally and gets an attempt.  The scheduler picks attempts in turn, the
  dispatch engine prepares and starts them at a provider through a durable journal, and observes them until
  results can be collected; an SQLite store holds the journal, the leases of the workers, the authorizations, the
  operations that a user asked for and the event log.  All facts about an attempt are a state of six dimensions
  whose transitions the domain package checks; all failures are structured problems with a closed public projection.

  \<^bold>\<open>Language.\<close>  \<open>Go_Prelude\<close> holds the checks-in-order style of the code (\<open>first_error\<close>, \<open>fail_if\<close>), byte strings
  and the parts of \<open>strings\<close> and \<open>strconv\<close> in use; \<open>Go_Time\<close> instants, the civil calendar and RFC 3339;
  \<open>Go_Json\<close> the encoder of \<open>encoding/json\<close>, UTF-8 coercion and the validity scanner; \<open>Go_Float\<close> float64
  values; \<open>Sha256\<close> the hash itself.  Strings are byte lists, a Go enumeration is a datatype whose last
  constructor carries any other string, a map with string keys is an association list sorted by key, a slice or
  pointer that may be nil is an option, and a panic is a value of the error type.

  \<^bold>\<open>Domain\<close> (\<open>internal/domain\<close>).  \<open>Domain_Base\<close>: identifiers, digests, capabilities.  \<open>Domain_States\<close>: the six state
  graphs, the validator of a state and of a transition; the locales \<open>transition_graph\<close> and \<open>monotone_graph\<close>
  give finality and monotonicity once and are interpreted on every graph.  \<open>Domain_Errors\<close>: codes, problems and
  their public details.  \<open>Domain_Entities\<close>: jobs, attempts, operations and events; the locale
  \<open>versioned_entity\<close> gives the facts on revisions for attempts and operations.

  \<^bold>\<open>Providers\<close> (\<open>internal/provider\<close>, \<open>internal/workloadsecret\<close>).  \<open>Workload_Secret\<close>: slots, supplies, receipts and
  material.  \<open>Secret_Pool\<close>: the pool of secret material with an explicit memory, so that wiping and aliasing are
  visible; material is handed out once.  \<open>Provider_Contract\<close> and \<open>Provider_Facts\<close>: the values an adapter exchanges
  with the engine, their checks and digests, input snapshots and start authorizations.  \<open>Provider_Services\<close>:
  capabilities, frozen registries (the locale \<open>frozen_registry\<close>, interpreted on both of them), quota and
  cancellation values, error chains with their closed reasons, verified transfers, read budgets and shared inputs.

  \<^bold>\<open>Inputs\<close> (\<open>internal/safefs\<close>, \<open>internal/packaging\<close>, \<open>internal/admission\<close>, \<open>internal/executionauth\<close>).  \<open>Bundle_Paths\<close>:
  portable path names, path sets that fit in one tree and ignore rules, each against an independent
  characterisation.  \<open>Admission\<close>: specifications, profiles, requests, permits, gates and their receipts.
  \<open>Dispatch_Inputs\<close>: freezing the inputs of a job and checking the plan that an adapter returns.

  \<^bold>\<open>Scheduling\<close> (\<open>internal/scheduler\<close>).  \<open>Scheduler\<close>: settings, policies, quota decisions and \<open>Select\<close>;
  \<open>Scheduler_Facts\<close>: the selection refines an abstract choice of the oldest attempt of the workspace next in
  turn, keeps every limit, and serves every eligible workspace; strict quota admits exactly on a guarantee.

  \<^bold>\<open>Dispatch\<close> (\<open>internal/dispatch\<close>).  \<open>Dispatch_Journal\<close>: the durable journal, its validity and its JSON copy.
  \<open>Dispatch_Apply\<close>: \<open>Apply\<close>, one definition per action.  \<open>Dispatch_Facts\<close>: every action obeys the phase graph and
  keeps what was recorded; \<open>dispatch_run\<close> and \<open>dispatch_history\<close> are the runs of an attempt with restarts and outside
  changes in between, the second with the accepted actions and their times.  \<open>Dispatch_Samples\<close>: a complete run of
  a sample attempt.  \<open>Dispatch_Properties\<close>: intents recorded once, evidence frozen, the start gate, what may end a
  started attempt, observations and failure budgets.

  \<^bold>\<open>The engine\<close> (\<open>internal/dispatch/engine.go\<close>, \<open>cancellation.go\<close>).  \<open>Dispatch_Engine\<close>: a pass of the engine in the state
  monad, against an environment of the repository, the adapter, the clock and the secrets (\<open>engine_env\<close>), each an
  operation on an arbitrary world.  What other goroutines do, renewals of the lease and the shutdown, happens at
  the points where the code takes its lock; the progress callback of a preparation runs between the segments of the
  adapter's call.  A ghost trace records commits, provider calls and yields.  \<open>Dispatch_Engine_Facts\<close>: the
  locales \<open>traced\<close> and \<open>traced_pass\<close> carry an invariant of trace and world through every step of a pass once; their
  interpretations show that every provider call directly follows the commit that licenses it, that nothing yields
  before the end, and, on the store, that no intent is acknowledged twice.  \<open>Engine_Properties\<close>: how a pass ends.

  \<^bold>\<open>Control operations\<close> (\<open>internal/operations\<close>).  \<open>Control_Operations\<close>: requests, digests, effects, records, commands.

  \<^bold>\<open>The store\<close> (\<open>internal/store/sqlite\<close>).  Tables are fields of the record \<open>store\<close>; a transaction is a function that
  fails or returns a value and the new store, and \<open>withTx\<close> gives it a fate: applied, rolled back, or applied with the
  acknowledgement lost.  What the transactions read of tables that are not modelled is a parameter (\<open>tx_env\<close>).
  \<open>Store_Base\<close>: transactions, the clock floor and the leases.  \<open>Store_Tables\<close>: the tables, loading, events, receipts and
  operations.  \<open>Store_Gate\<close>, \<open>Store_Dispatch\<close>, \<open>Store_Commit\<close>: the repository of the engine.  \<open>Store_Control\<close>,
  \<open>Store_Admit\<close>: the control operations.  \<open>Store_Authorize\<close>, \<open>Store_Secrets\<close>: permits, gates and secrets.
  \<open>Store_Frame\<close>: what every transaction leaves alone, by the locale \<open>tx_frame\<close>.  \<open>Store_Facts\<close>: what a commit proves.
  \<open>Store_History\<close>: sequences of the 22 requests \<open>store_request\<close> with any fates; they are the requests of dispatch,
  control operations, gates and secrets, and what is shown of histories is shown of these.  \<open>Store_Engine\<close>: the engine
  on the store.  \<open>Store_Answers\<close>: superseded workers and repeated control requests.  \<open>Store_Properties\<close>: the properties.

  \<^bold>\<open>Workers\<close> (\<open>internal/worker\<close>).  \<open>Worker\<close>: classification of errors, heartbeats and pauses between passes.

  \<^bold>\<open>Bounds.\<close>  Nothing runs on fuel: recursions are structural or have a termination proof.  Integers are unbounded
  where the code's guards keep them in range; revisions and event numbers are 64-bit words.

  \<^bold>\<open>Not modelled.\<close>  Of the store: opening and migrating the file, the admission of jobs, the snapshot of candidates,
  the workers of collection, cleanup and retention, managed connections, and the tables of hosts, images and caches.
  The HTTP interface, the adapters for concrete providers, file systems and process management are calls into the
  operating system or a remote service.  Decoding of untrusted JSON is modelled only as far as the journal's own copy
  needs it; a column that holds an encoded value is modelled by that value.  Goroutines and timers appear as
  sequences of passes and background steps.
\<close>

end
